(* ===== verification/Prelude.thy ===== *)
theory Prelude
  imports Main "HOL-Library.Char_ord" "HOL-Library.List_Lexorder"
begin

text \<open>
  What every other theory of the development shares: Go's 64-bit signed arithmetic and its
  truncating division, the database tables of the agent and of the server as lists of rows
  under a primary key, and the lemma collections.

  A table is the list of its rows. A statement of the source is one operation on that list:
  \<open>SELECT ... WHERE key=?\<close> is \<open>tbl_find\<close>, \<open>INSERT OR IGNORE\<close> is \<open>tbl_insert_ignore\<close>,
  \<open>INSERT ... ON CONFLICT(key) DO UPDATE\<close> is \<open>tbl_upsert\<close> with the \<open>SET\<close> clause as its merge
  function, and \<open>DELETE ... WHERE\<close> is \<open>tbl_delete\<close>.
\<close>

named_theorems wrap_simps \<open>arithmetic on wrapped integers\<close>
named_theorems table_simps \<open>laws of the table operations\<close>

section \<open>64-bit integers\<close>

definition wrap64 :: "int \<Rightarrow> int" where
  "wrap64 x = (x + 2 ^ 63) mod 2 ^ 64 - 2 ^ 63"

definition in64 :: "int \<Rightarrow> bool" where
  "in64 x \<longleftrightarrow> - (2 ^ 63) \<le> x \<and> x < 2 ^ 63"

lemma wrap64_id [wrap_simps]: "in64 x \<Longrightarrow> wrap64 x = x"
  by (simp add: wrap64_def in64_def)

lemma wrap64_in64 [wrap_simps, simp]: "in64 (wrap64 x)"
proof -
  have "0 \<le> (x + 2 ^ 63) mod 2 ^ 64" and "(x + 2 ^ 63) mod 2 ^ 64 < 2 ^ 64"
    by (rule pos_mod_sign pos_mod_bound, simp)+
  then show ?thesis
    unfolding wrap64_def in64_def by simp
qed

lemma wrap64_idem [simp]: "wrap64 (wrap64 x) = wrap64 x"
  by (rule wrap64_id) simp

text \<open>Go's \<open>/\<close> and \<open>%\<close> truncate towards zero; they agree with \<open>div\<close> and \<open>mod\<close> where the
  dividend is not negative.\<close>

definition go_div :: "int \<Rightarrow> int \<Rightarrow> int" where
  "go_div a b = sgn a * sgn b * (\<bar>a\<bar> div \<bar>b\<bar>)"

definition go_mod :: "int \<Rightarrow> int \<Rightarrow> int" where
  "go_mod a b = a - b * go_div a b"

lemma go_div_nonneg [simp]: "0 \<le> a \<Longrightarrow> 0 < b \<Longrightarrow> go_div a b = a div b"
  by (cases "a = 0") (simp_all add: go_div_def)

lemma go_mod_nonneg [simp]: "0 \<le> a \<Longrightarrow> 0 < b \<Longrightarrow> go_mod a b = a mod b"
  by (simp add: go_mod_def minus_mult_div_eq_mod)

lemma go_div_mod: "go_div a b * b + go_mod a b = a"
  by (simp add: go_mod_def)

lemma go_mod_zero_dvd: "0 < b \<Longrightarrow> go_mod a b = 0 \<Longrightarrow> go_div a b * b = a"
  using go_div_mod [of a b] by simp

section \<open>Tables\<close>

definition tbl_find :: "('r \<Rightarrow> 'k) \<Rightarrow> 'k \<Rightarrow> 'r list \<Rightarrow> 'r option" where
  "tbl_find key k t = find (\<lambda>r. key r = k) t"

definition tbl_has :: "('r \<Rightarrow> 'k) \<Rightarrow> 'k \<Rightarrow> 'r list \<Rightarrow> bool" where
  "tbl_has key k t = list_ex (\<lambda>r. key r = k) t"

definition tbl_insert_ignore :: "('r \<Rightarrow> 'k) \<Rightarrow> 'r \<Rightarrow> 'r list \<Rightarrow> 'r list" where
  "tbl_insert_ignore key r t = (if tbl_has key (key r) t then t else t @ [r])"

definition tbl_upsert :: "('r \<Rightarrow> 'k) \<Rightarrow> ('r \<Rightarrow> 'r \<Rightarrow> 'r) \<Rightarrow> 'r \<Rightarrow> 'r list \<Rightarrow> 'r list" where
  "tbl_upsert key merge r t =
     (if tbl_has key (key r) t
      then map (\<lambda>x. if key x = key r then merge x r else x) t
      else t @ [r])"

definition tbl_delete :: "('r \<Rightarrow> bool) \<Rightarrow> 'r list \<Rightarrow> 'r list" where
  "tbl_delete p t = filter (\<lambda>r. \<not> p r) t"

definition tbl_update :: "('r \<Rightarrow> bool) \<Rightarrow> ('r \<Rightarrow> 'r) \<Rightarrow> 'r list \<Rightarrow> 'r list" where
  "tbl_update p f t = map (\<lambda>r. if p r then f r else r) t"

definition tbl_keyed :: "('r \<Rightarrow> 'k) \<Rightarrow> 'r list \<Rightarrow> bool" where
  "tbl_keyed key t = distinct (map key t)"

lemma tbl_has_iff [table_simps]: "tbl_has key k t \<longleftrightarrow> k \<in> key ` set t"
  by (auto simp: tbl_has_def list_ex_iff)

lemma tbl_find_None: "tbl_find key k t = None \<longleftrightarrow> k \<notin> key ` set t"
  by (auto simp: tbl_find_def find_None_iff)

lemma tbl_has_find: "tbl_has key k t \<longleftrightarrow> tbl_find key k t \<noteq> None"
  by (auto simp: tbl_has_iff tbl_find_None)

lemma tbl_find_SomeD: "tbl_find key k t = Some r \<Longrightarrow> r \<in> set t \<and> key r = k"
  by (auto simp: tbl_find_def find_Some_iff in_set_conv_nth)

lemma tbl_find_Nil [simp]: "tbl_find key k [] = None"
  by (simp add: tbl_find_def)

lemma tbl_find_Cons [simp]:
  "tbl_find key k (r # t) = (if key r = k then Some r else tbl_find key k t)"
  by (simp add: tbl_find_def)

lemma tbl_find_append [table_simps]:
  "tbl_find key k (t @ u) = (case tbl_find key k t of None \<Rightarrow> tbl_find key k u | Some r \<Rightarrow> Some r)"
  by (induction t) (auto simp: tbl_find_def)

lemma tbl_find_keyed: "tbl_keyed key t \<Longrightarrow> r \<in> set t \<Longrightarrow> tbl_find key (key r) t = Some r"
  by (induction t) (auto simp: tbl_keyed_def)

lemma tbl_keyed_Nil [simp]: "tbl_keyed key []"
  by (simp add: tbl_keyed_def)

lemma tbl_keyed_insert_ignore [simp]:
  "tbl_keyed key t \<Longrightarrow> tbl_keyed key (tbl_insert_ignore key r t)"
  by (auto simp: tbl_keyed_def tbl_insert_ignore_def tbl_has_iff)

lemma tbl_keyed_delete [simp]: "tbl_keyed key t \<Longrightarrow> tbl_keyed key (tbl_delete p t)"
  by (induction t) (auto simp: tbl_keyed_def tbl_delete_def)

lemma tbl_keyed_update:
  assumes "\<And>r. key (f r) = key r" and "tbl_keyed key t"
  shows "tbl_keyed key (tbl_update p f t)"
proof -
  have "map key (tbl_update p f t) = map key t"
    using assms(1) by (simp add: tbl_update_def)
  then show ?thesis using assms(2) by (simp add: tbl_keyed_def)
qed

lemma tbl_find_insert_ignore [table_simps]:
  "tbl_find key k (tbl_insert_ignore key r t) =
     (if tbl_has key (key r) t then tbl_find key k t
      else if key r = k then Some r else tbl_find key k t)"
  by (auto simp: tbl_insert_ignore_def tbl_find_append tbl_has_find split: option.splits)

lemma tbl_find_delete_key [table_simps]:
  "tbl_find key k (tbl_delete (\<lambda>r. key r = j) t) = (if k = j then None else tbl_find key k t)"
  by (induction t) (auto simp: tbl_delete_def tbl_find_def)

lemma set_tbl_delete [table_simps]: "set (tbl_delete p t) = {r \<in> set t. \<not> p r}"
  by (auto simp: tbl_delete_def)

lemma set_tbl_insert_ignore [table_simps]:
  "set (tbl_insert_ignore key r t) = (if tbl_has key (key r) t then set t else insert r (set t))"
  by (simp add: tbl_insert_ignore_def)

lemma set_tbl_upsertD:
  "x \<in> set (tbl_upsert key merge r t) \<Longrightarrow> x = r \<or> x \<in> set t \<or> (\<exists>y\<in>set t. x = merge y r)"
  by (auto simp: tbl_upsert_def split: if_splits)

lemma set_tbl_updateD: "x \<in> set (tbl_update p f t) \<Longrightarrow> x \<in> set t \<or> (\<exists>y\<in>set t. x = f y)"
  by (auto simp: tbl_update_def)

text \<open>
  The contract of \<open>INSERT ... ON CONFLICT DO UPDATE\<close>: the merge keeps the key. It is the
  interface between a table and the operations that write it by upsert; the agent's daily
  usage, its singleton rows and the server's tables interpret it.
\<close>

locale keyed_table =
  fixes key :: "'r \<Rightarrow> 'k" and merge :: "'r \<Rightarrow> 'r \<Rightarrow> 'r"
  assumes key_merge: "key x = key r \<Longrightarrow> key (merge x r) = key r"
begin

lemma map_key_upsert:
  "map key (tbl_upsert key merge r t) =
     (if tbl_has key (key r) t then map key t else map key t @ [key r])"
  by (auto simp: tbl_upsert_def key_merge)

lemma keyed_upsert: "tbl_keyed key t \<Longrightarrow> tbl_keyed key (tbl_upsert key merge r t)"
  by (auto simp: tbl_keyed_def map_key_upsert tbl_has_iff)

lemma find_upsert_other:
  "k \<noteq> key r \<Longrightarrow> tbl_find key k (tbl_upsert key merge r t) = tbl_find key k t"
proof -
  assume k: "k \<noteq> key r"
  have "tbl_find key k (map (\<lambda>x. if key x = key r then merge x r else x) t) = tbl_find key k t"
    using k key_merge by (induction t) auto
  with k show ?thesis
    by (auto simp: tbl_upsert_def tbl_find_append split: option.splits)
qed

lemma find_upsert_same:
  "tbl_find key (key r) (tbl_upsert key merge r t) =
     Some (case tbl_find key (key r) t of None \<Rightarrow> r | Some x \<Rightarrow> merge x r)"
proof (cases "tbl_find key (key r) t")
  case None
  then have "\<not> tbl_has key (key r) t"
    by (simp add: tbl_has_find)
  with None show ?thesis
    by (simp add: tbl_upsert_def tbl_find_append)
next
  case (Some x)
  then have "tbl_has key (key r) t"
    by (simp add: tbl_has_find)
  moreover from Some
  have "tbl_find key (key r) (map (\<lambda>x. if key x = key r then merge x r else x) t) = Some (merge x r)"
    using key_merge by (induction t) (auto split: if_splits)
  ultimately show ?thesis using Some by (simp add: tbl_upsert_def)
qed

end

section \<open>Lists\<close>

lemma sum_list_filter_update:
  "sum_list (map f (filter p (xs @ [x]))) = sum_list (map f (filter p xs)) + (if p x then f x else (0::int))"
  by simp

lemma filter_mem_iff: "(\<exists>x\<in>set (filter p xs). q x) \<longleftrightarrow> (\<exists>x\<in>set xs. p x \<and> q x)"
  by auto

end
