(* ===== verification/GoTime.thy ===== *)
theory GoTime
  imports Prelude "HOL-Library.Product_Lexorder"
begin

text \<open>
  What the program uses of Go's package \<open>time\<close>. An instant (\<open>time.Time\<close>) is the number of
  nanoseconds since the Unix epoch, a \<open>time.Duration\<close> a number of nanoseconds; \<open>IsZero\<close>,
  \<open>Before\<close>, \<open>After\<close>, \<open>Add\<close> and \<open>Sub\<close> are comparisons and arithmetic on them (\<open>Sub\<close>
  saturates). A location is two functions: the local wall-clock reading of an instant, and
  \<open>time.Date\<close>, which turns a wall-clock reading into an instant; both are parameters, since
  the time-zone database is not code of the repository. The civil calendar (the proleptic
  Gregorian one) is computed, so the layouts \<open>2006-01-02\<close> and \<open>RFC3339Nano\<close> are executable.
\<close>

section \<open>Instants and durations\<close>

type_synonym time = int
type_synonym duration = int

definition second :: duration where "second = 1000000000"
definition minute :: duration where "minute = 60 * second"
definition hour :: duration where "hour = 60 * minute"
definition day :: duration where "day = 24 * hour"

lemmas duration_defs = second_def minute_def hour_def day_def

lemma second_pos [simp]: "0 < second" by (simp add: duration_defs)
lemma day_pos [simp]: "0 < day" by (simp add: duration_defs)
lemma day_nonneg [simp]: "0 \<le> day" by (simp add: duration_defs)
lemma day_neq_0 [simp]: "day \<noteq> 0" by (simp add: duration_defs)

lemma div_day_le: "w div day * day \<le> w"
  using pos_mod_sign [OF day_pos, of w] div_mult_mod_eq [of w day] by linarith

lemma less_div_day: "w < w div day * day + day"
  using pos_mod_bound [OF day_pos, of w] div_mult_mod_eq [of w day] by linarith

definition zero_time :: time where "zero_time = - (62135596800 * second)"

definition is_zero :: "time \<Rightarrow> bool" where "is_zero t \<longleftrightarrow> t = zero_time"

text \<open>\<open>Sub\<close> saturates at the bounds of a 64-bit duration.\<close>

definition time_sub :: "time \<Rightarrow> time \<Rightarrow> duration" where
  "time_sub t u = max (- (2 ^ 63)) (min (2 ^ 63 - 1) (t - u))"

lemma time_sub_id: "in64 (t - u) \<Longrightarrow> time_sub t u = t - u"
  by (simp add: time_sub_def in64_def)

lemma time_sub_nonneg: "u \<le> t \<Longrightarrow> 0 \<le> time_sub t u"
  by (simp add: time_sub_def)

lemma time_sub_le: "u \<le> t \<Longrightarrow> time_sub t u \<le> t - u"
  by (simp add: time_sub_def)

text \<open>\<open>time.Duration(n) * time.Second\<close>, a 64-bit product.\<close>

definition seconds_duration :: "int \<Rightarrow> duration" where
  "seconds_duration n = wrap64 (n * second)"

lemma seconds_duration_id:
  "0 \<le> n \<Longrightarrow> n < 2 ^ 33 \<Longrightarrow> seconds_duration n = n * second"
  unfolding seconds_duration_def
  by (rule wrap64_id) (simp add: in64_def second_def)

section \<open>Days of the week\<close>

datatype weekday = Sunday | Monday | Tuesday | Wednesday | Thursday | Friday | Saturday

definition weekdays :: "weekday list" where
  "weekdays = [Sunday, Monday, Tuesday, Wednesday, Thursday, Friday, Saturday]"

fun weekday_index :: "weekday \<Rightarrow> int" where
  "weekday_index Sunday = 0"
| "weekday_index Monday = 1"
| "weekday_index Tuesday = 2"
| "weekday_index Wednesday = 3"
| "weekday_index Thursday = 4"
| "weekday_index Friday = 5"
| "weekday_index Saturday = 6"

definition weekday_at :: "int \<Rightarrow> weekday" where
  "weekday_at i =
     (if i = 0 then Sunday else if i = 1 then Monday else if i = 2 then Tuesday
      else if i = 3 then Wednesday else if i = 4 then Thursday
      else if i = 5 then Friday else Saturday)"

lemma weekday_at_index [simp]: "weekday_at (weekday_index d) = d"
  by (cases d) (simp_all add: weekday_at_def)

lemma weekday_index_range: "0 \<le> weekday_index d \<and> weekday_index d < 7"
  by (cases d) simp_all

lemma weekday_index_inj [simp]: "weekday_index d = weekday_index e \<longleftrightarrow> d = e"
  by (metis weekday_at_index)

lemma set_weekdays [simp]: "set weekdays = UNIV"
proof -
  have "d \<in> set weekdays" for d
    by (cases d) (simp_all add: weekdays_def)
  then show ?thesis by blast
qed

lemma distinct_weekdays [simp]: "distinct weekdays"
  by (simp add: weekdays_def)

instantiation weekday :: enum
begin

definition enum_weekday :: "weekday list" where
  "enum_weekday = weekdays"

definition enum_all_weekday :: "(weekday \<Rightarrow> bool) \<Rightarrow> bool" where
  "enum_all_weekday p \<longleftrightarrow> list_all p weekdays"

definition enum_ex_weekday :: "(weekday \<Rightarrow> bool) \<Rightarrow> bool" where
  "enum_ex_weekday p \<longleftrightarrow> list_ex p weekdays"

instance
  by standard
    (simp_all add: enum_weekday_def enum_all_weekday_def enum_ex_weekday_def
      list_all_iff list_ex_iff)

end

instantiation weekday :: linorder
begin

definition less_eq_weekday :: "weekday \<Rightarrow> weekday \<Rightarrow> bool" where
  "less_eq_weekday d e \<longleftrightarrow> weekday_index d \<le> weekday_index e"

definition less_weekday :: "weekday \<Rightarrow> weekday \<Rightarrow> bool" where
  "less_weekday d e \<longleftrightarrow> weekday_index d < weekday_index e"

instance
  by standard (auto simp: less_eq_weekday_def less_weekday_def)

end

text \<open>Day 0 is 1970-01-01, a Thursday.\<close>

definition weekday_of_day :: "int \<Rightarrow> weekday" where
  "weekday_of_day n = weekday_at ((n + 4) mod 7)"

lemma weekday_index_at: "0 \<le> i \<Longrightarrow> i < 7 \<Longrightarrow> weekday_index (weekday_at i) = i"
  by (auto simp: weekday_at_def)

lemma weekday_index_of_day [simp]: "weekday_index (weekday_of_day n) = (n + 4) mod 7"
  unfolding weekday_of_day_def by (rule weekday_index_at) simp_all

lemma weekday_of_day_eq_iff: "weekday_of_day n = weekday_of_day m \<longleftrightarrow> (n + 4) mod 7 = (m + 4) mod 7"
  by (metis weekday_index_inj weekday_index_of_day)

lemma weekday_of_day_periodic [simp]: "weekday_of_day (n + 7) = weekday_of_day n"
  unfolding weekday_of_day_eq_iff by presburger

text \<open>Some day within any seven in a row falls on a given weekday.\<close>

lemma weekday_within_week: "\<exists>k. 0 \<le> k \<and> k < 7 \<and> weekday_of_day (n + k) = d"
proof -
  have shift: "(n + (i - (n + 4)) mod 7 + 4) mod 7 = i" if "0 \<le> i" "i < 7" for i :: int
  proof -
    have "(n + 4 + (i - (n + 4)) mod 7) mod 7 = i mod 7"
      by (simp only: mod_add_right_eq add_diff_cancel_left' add_diff_eq)
    with that show ?thesis by (simp add: algebra_simps)
  qed
  define k where "k = (weekday_index d - (n + 4)) mod 7"
  have "weekday_index (weekday_of_day (n + k)) = weekday_index d"
    unfolding k_def weekday_index_of_day using weekday_index_range [of d] shift by blast
  then have "weekday_of_day (n + k) = d" by (simp only: weekday_index_inj)
  moreover have "0 \<le> k" and "k < 7" by (simp_all add: k_def)
  ultimately show ?thesis by blast
qed

section \<open>Locations\<close>

record location =
  wall_of :: "time \<Rightarrow> int"
  date_of :: "int \<Rightarrow> time"

definition fixed_zone :: "int \<Rightarrow> location" where
  "fixed_zone off = \<lparr>wall_of = (\<lambda>t. t + off), date_of = (\<lambda>w. w - off)\<rparr>"

definition local_day :: "location \<Rightarrow> time \<Rightarrow> int" where
  "local_day loc t = wall_of loc t div day"

definition time_of_day :: "location \<Rightarrow> time \<Rightarrow> duration" where
  "time_of_day loc t = wall_of loc t mod day"

definition weekday_of :: "location \<Rightarrow> time \<Rightarrow> weekday" where
  "weekday_of loc t = weekday_of_day (local_day loc t)"

text \<open>\<open>AddDate(0, 0, k)\<close>: the same wall-clock reading, \<open>k\<close> calendar days later.\<close>

definition add_days :: "location \<Rightarrow> time \<Rightarrow> int \<Rightarrow> time" where
  "add_days loc t k = date_of loc (wall_of loc t + k * day)"

text \<open>\<open>time.Date(t.Year(), t.Month(), t.Day(), 0, 0, 0, 0, t.Location())\<close>.\<close>

definition midnight_of :: "location \<Rightarrow> time \<Rightarrow> time" where
  "midnight_of loc t = date_of loc (local_day loc t * day)"

text \<open>
  The contract of a location whose wall clock is never set forward or back: every reading is
  the reading of one instant, and later instants read later. Fixed offsets satisfy it; a zone
  with daylight saving does so between two of its transitions only.
\<close>

locale civil_zone =
  fixes loc :: location
  assumes wall_date: "wall_of loc (date_of loc w) = w"
    and wall_less: "wall_of loc t < wall_of loc u \<longleftrightarrow> t < u"
begin

lemma wall_le: "wall_of loc t \<le> wall_of loc u \<longleftrightarrow> t \<le> u"
  using wall_less [of u t] by linarith

lemma wall_eq: "wall_of loc t = wall_of loc u \<longleftrightarrow> t = u"
  using wall_less [of u t] wall_less [of t u] by linarith

lemma date_le: "date_of loc w \<le> t \<longleftrightarrow> w \<le> wall_of loc t"
  using wall_le [of "date_of loc w" t] by (simp add: wall_date)

lemma less_date: "t < date_of loc w \<longleftrightarrow> wall_of loc t < w"
  using wall_less [of t "date_of loc w"] by (simp add: wall_date)

lemma date_wall: "date_of loc (wall_of loc t) = t"
  using wall_eq wall_date by blast

lemma local_day_add_days: "local_day loc (add_days loc t k) = local_day loc t + k"
  by (simp add: local_day_def add_days_def wall_date)

lemma midnight_le: "midnight_of loc t \<le> t"
  by (simp add: midnight_of_def date_le local_day_def div_day_le)

lemma local_day_mono: "t \<le> u \<Longrightarrow> local_day loc t \<le> local_day loc u"
  by (simp add: local_day_def wall_le zdiv_mono1)

end

interpretation fixed: civil_zone "fixed_zone off" for off
  by unfold_locales (simp_all add: fixed_zone_def)

end
