(* ===== verification/PolicySpec.thy ===== *)
theory PolicySpec
  imports Policy
begin

text \<open>
  What a routine means, independently of how the engine tests it: on each selected weekday it
  occurs once, as an interval of the wall clock counted from day 0, its end exclusive. The
  engine's test is membership in an occurrence, its next start the least start after now, and
  the block it predicts the first instant at which an evaluation blocks.
\<close>

section \<open>Occurrences\<close>

definition occ_begin :: "Routine \<Rightarrow> int \<Rightarrow> int" where
  "occ_begin r n = (if r_Start r = r_End r then n * day else n * day + r_Start r)"

definition occ_end :: "Routine \<Rightarrow> int \<Rightarrow> int" where
  "occ_end r n =
     (if r_Start r = r_End r then (n + 1) * day
      else if r_Start r < r_End r then n * day + r_End r
      else (n + 1) * day + r_End r)"

definition occurs :: "Routine \<Rightarrow> int \<Rightarrow> bool" where
  "occurs r n \<longleftrightarrow> r_Days r (weekday_of_day n)"

definition covers :: "Routine \<Rightarrow> int \<Rightarrow> bool" where
  "covers r w \<longleftrightarrow> (\<exists>n. occurs r n \<and> occ_begin r n \<le> w \<and> w < occ_end r n)"

definition wf_routine :: "Routine \<Rightarrow> bool" where
  "wf_routine r \<longleftrightarrow> 0 \<le> r_Start r \<and> r_Start r < day \<and> 0 \<le> r_End r \<and> r_End r < day"

lemma validate_wf: "validate i = None \<Longrightarrow> r \<in> set (in_Routines i) \<Longrightarrow> wf_routine r"
  by (simp add: validate_None wf_routine_def)

lemma occ_begin_less_end: "wf_routine r \<Longrightarrow> occ_begin r n < occ_end r n"
  by (auto simp: wf_routine_def occ_begin_def occ_end_def duration_defs)

text \<open>Only the occurrences of the current day and of the day before can cover a reading.\<close>

lemma covers_two_days:
  assumes "wf_routine r"
  shows "covers r w \<longleftrightarrow>
    (\<exists>n\<in>{w div day - 1, w div day}. occurs r n \<and> occ_begin r n \<le> w \<and> w < occ_end r n)"
proof -
  have "n = w div day - 1 \<or> n = w div day" if "occ_begin r n \<le> w" "w < occ_end r n" for n
    using that assms div_day_le [of w] less_div_day [of w]
    by (auto simp: wf_routine_def occ_begin_def occ_end_def duration_defs split: if_splits)
  then show ?thesis by (auto simp: covers_def)
qed

section \<open>The least candidate of a scan\<close>

definition keep_least :: "time \<Rightarrow> time \<Rightarrow> time" where
  "keep_least c next = (if is_zero next \<or> c < next then c else next)"

lemma fold_keep_least:
  assumes "\<forall>c\<in>set cs. zero_time < c" and "is_zero b \<or> zero_time < b"
  shows "is_zero b \<and> cs = [] \<and> fold keep_least cs b = b
    \<or> fold keep_least cs b \<in> set cs \<union> {b} - {zero_time}
      \<and> (\<forall>c\<in>set cs. fold keep_least cs b \<le> c) \<and> (is_zero b \<or> fold keep_least cs b \<le> b)"
  using assms
proof (induction cs arbitrary: b)
  case Nil
  then show ?case by (auto simp: is_zero_def)
next
  case (Cons c cs)
  have "zero_time < keep_least c b"
    using Cons.prems by (auto simp: keep_least_def is_zero_def)
  with Cons.prems Cons.IH [of "keep_least c b"] show ?case
    by (auto simp: keep_least_def is_zero_def split: if_splits)
qed

definition candidates :: "location \<Rightarrow> time \<Rightarrow> Routine list \<Rightarrow> time \<Rightarrow> time list" where
  "candidates loc now rs d =
     filter (\<lambda>c. now < c)
       (map (\<lambda>r. atLocalTime loc d (r_Start r)) (filter (\<lambda>r. r_Days r (weekday_of loc d)) rs))"

lemma fold_consider_start:
  "fold (consider_start loc now d) rs b = fold keep_least (candidates loc now rs d) b"
  by (induction rs arbitrary: b) (auto simp: candidates_def consider_start_def keep_least_def Let_def)

lemma fold_days:
  "fold (\<lambda>offset. fold (consider_start loc now (add_days loc now offset)) rs) os b =
     fold keep_least (concat (map (\<lambda>offset. candidates loc now rs (add_days loc now offset)) os)) b"
  by (induction os arbitrary: b) (simp_all add: fold_consider_start)

section \<open>The engine on a wall clock that is never set\<close>

context civil_zone
begin

definition starts :: "Routine list \<Rightarrow> time set" where
  "starts rs = {date_of loc (n * day + r_Start r) | r n. r \<in> set rs \<and> occurs r n}"

lemma in_force_covers:
  assumes "wf_routine r"
  shows "routine_in_force loc now r \<longleftrightarrow> covers r (wall_of loc now)"
proof -
  let ?w = "wall_of loc now" let ?n = "wall_of loc now div day"
  have "?n * day \<le> ?w" "?w < ?n * day + day" by (rule div_day_le less_div_day)+
  then show ?thesis
    using assms unfolding covers_two_days [OF assms] routine_in_force_def Let_def
    by (auto simp: atLocalTime_eq date_le less_date not_less weekday_of_def local_day_add_days
        local_day_def [of loc now] occurs_def occ_begin_def occ_end_def wf_routine_def
        duration_defs)
qed

lemma activeRoutine_covers:
  "\<forall>r\<in>set rs. wf_routine r \<Longrightarrow>
     activeRoutine loc now rs = find (\<lambda>r. covers r (wall_of loc now)) rs"
  by (simp add: activeRoutine_find in_force_covers cong: find_cong)

lemma candidates_offset:
  "set (candidates loc now rs (add_days loc now k)) =
     {s. now < s \<and> (\<exists>r\<in>set rs. occurs r (local_day loc now + k)
        \<and> s = date_of loc ((local_day loc now + k) * day + r_Start r))}"
  by (auto simp: candidates_def atLocalTime_eq weekday_of_def local_day_add_days occurs_def)

lemma start_day:
  assumes "wf_routine r" and "now < date_of loc (n * day + r_Start r)"
  shows "local_day loc now \<le> n"
  using assms div_day_le [of "wall_of loc now"]
  by (auto simp: less_date local_day_def wf_routine_def duration_defs)

lemma start_after:
  assumes "wf_routine r" and "local_day loc now < n"
  shows "now < date_of loc (n * day + r_Start r)"
  using assms less_div_day [of "wall_of loc now"]
  by (auto simp: less_date local_day_def wf_routine_def duration_defs)

lemma date_mono: "w \<le> v \<Longrightarrow> date_of loc w \<le> date_of loc v"
  by (simp add: date_le wall_date)

text \<open>Every start after now has a start within the eight scanned days that is no later.\<close>

lemma scanned_start:
  assumes "wf_routine r" "occurs r n" "now < date_of loc (n * day + r_Start r)"
  shows "\<exists>k\<in>{0..7}. occurs r (local_day loc now + k)
    \<and> now < date_of loc ((local_day loc now + k) * day + r_Start r)
    \<and> date_of loc ((local_day loc now + k) * day + r_Start r) \<le> date_of loc (n * day + r_Start r)"
proof (cases "n \<le> local_day loc now + 7")
  case True
  have "local_day loc now \<le> n" by (rule start_day [OF assms(1,3)])
  with True assms show ?thesis
    by (intro bexI [of _ "n - local_day loc now"]) auto
next
  case False
  obtain j where j: "0 \<le> j" "j < 7"
      "weekday_of_day (local_day loc now + 1 + j) = weekday_of_day n"
    using weekday_within_week by blast
  have "occurs r (local_day loc now + (1 + j))"
    using assms(2) j(3) by (simp add: occurs_def add.assoc)
  moreover have "now < date_of loc ((local_day loc now + (1 + j)) * day + r_Start r)"
    using j by (intro start_after assms) simp
  moreover have "(local_day loc now + (1 + j)) * day \<le> n * day"
    using False j by (intro mult_right_mono) simp_all
  ultimately show ?thesis
    using j by (intro bexI [of _ "1 + j"]) (auto intro: date_mono)
qed

text \<open>The scan returns the least start after now, and finds one whenever some routine has a
  selected day.\<close>

lemma nextRoutineStart_spec:
  assumes wf: "\<forall>r\<in>set rs. wf_routine r" and now: "zero_time \<le> now"
    and next_eq: "nextRoutineStart loc now rs = (t, has)"
  shows "has \<longleftrightarrow> (\<exists>r\<in>set rs. \<exists>d. r_Days r d)"
    and "has \<Longrightarrow> t \<in> starts rs \<and> now < t \<and> (\<forall>s\<in>starts rs. now < s \<longrightarrow> t \<le> s)"
proof -
  define cs where "cs = concat (map (\<lambda>k. candidates loc now rs (add_days loc now k)) [0, 1, 2, 3, 4, 5, 6, 7])"
  have cs: "set cs = (\<Union>k\<in>{0..7}. set (candidates loc now rs (add_days loc now k)))"
  proof -
    have "{0..7} = set [0, 1, 2, 3, 4, 5, 6, 7::int]" by auto
    then show ?thesis by (simp add: cs_def Un_assoc)
  qed
  have t: "t = fold keep_least cs zero_time" and has: "has \<longleftrightarrow> \<not> is_zero t"
    using next_eq by (auto simp only: nextRoutineStart_def fold_days Let_def cs_def prod.inject)
  have later: "\<forall>c\<in>set cs. now < c" by (auto simp: cs candidates_offset)
  then have "\<forall>c\<in>set cs. zero_time < c" using now by auto
  from fold_keep_least [OF this, of zero_time]
  have least: "cs = [] \<and> is_zero t \<or> t \<in> set cs \<and> \<not> is_zero t \<and> (\<forall>c\<in>set cs. t \<le> c)"
    by (auto simp: t is_zero_def)
  have sub: "set cs \<subseteq> starts rs" by (fastforce simp: cs candidates_offset starts_def)
  have dom: "\<exists>c\<in>set cs. c \<le> s" if "s \<in> starts rs" "now < s" for s
  proof -
    from that obtain r n where r: "r \<in> set rs" "occurs r n" "s = date_of loc (n * day + r_Start r)"
      by (auto simp: starts_def)
    with that wf scanned_start [of r n now] show ?thesis
      by (fastforce simp: cs candidates_offset)
  qed
  show "has \<Longrightarrow> t \<in> starts rs \<and> now < t \<and> (\<forall>s\<in>starts rs. now < s \<longrightarrow> t \<le> s)"
    using least has later sub dom by fastforce
  show "has \<longleftrightarrow> (\<exists>r\<in>set rs. \<exists>d. r_Days r d)"
  proof
    assume has
    with has least sub have "t \<in> starts rs" by auto
    then show "\<exists>r\<in>set rs. \<exists>d. r_Days r d" by (auto simp: starts_def occurs_def)
  next
    assume "\<exists>r\<in>set rs. \<exists>d. r_Days r d"
    then obtain r d where r: "r \<in> set rs" "r_Days r d" by blast
    obtain k where k: "0 \<le> k" "weekday_of_day (local_day loc now + 1 + k) = d"
      using weekday_within_week by blast
    then have "date_of loc ((local_day loc now + 1 + k) * day + r_Start r) \<in> starts rs"
      using r by (auto simp: starts_def occurs_def)
    moreover have "now < date_of loc ((local_day loc now + 1 + k) * day + r_Start r)"
      using wf r k by (intro start_after) auto
    ultimately have "cs \<noteq> []" using dom by fastforce
    with least has show has by auto
  qed
qed

text \<open>On the day of an evaluation at which no routine is in force, none comes into force before
  the next start. A full day belongs to one local day, whatever its equal times are.\<close>

lemma occurrence_started_before:
  assumes "wf_routine r" "occ_begin r n \<noteq> n * day + r_Start r"
    and "occ_begin r n \<le> wall_of loc t" "wall_of loc t < occ_end r n"
    and "local_day loc t = local_day loc now"
  shows "occ_begin r n \<le> wall_of loc now"
proof -
  have "occ_begin r n = n * day" "occ_end r n = n * day + day"
    using assms(2) by (auto simp: occ_begin_def occ_end_def algebra_simps split: if_splits)
  with assms(3,4) have "local_day loc t = n"
    using int_div_pos_eq [of "wall_of loc t" day n "wall_of loc t - n * day"]
    by (simp add: local_day_def algebra_simps)
  with assms(5) have "n = wall_of loc now div day" by (simp add: local_day_def)
  then have "n * day \<le> wall_of loc now"
    using div_day_le [of "wall_of loc now"] by simp
  with \<open>occ_begin r n = n * day\<close> show ?thesis by simp
qed

lemma no_routine_before_next_start:
  assumes wf: "\<forall>r\<in>set rs. wf_routine r" and zero: "zero_time \<le> now"
    and clear: "activeRoutine loc now rs = None"
    and next_eq: "nextRoutineStart loc now rs = (s, has)"
    and t: "now \<le> t" "has \<Longrightarrow> t < s"
    and same: "local_day loc t = local_day loc now"
  shows "activeRoutine loc t rs = None"
  unfolding activeRoutine_None
proof (intro ballI notI)
  fix r assume r: "r \<in> set rs" and "routine_in_force loc t r"
  then obtain n where n: "occurs r n" "occ_begin r n \<le> wall_of loc t" "wall_of loc t < occ_end r n"
    using wf by (auto simp: in_force_covers covers_def)
  show False
  proof (cases "occ_begin r n \<le> wall_of loc now")
    case True
    with n t(1) have "covers r (wall_of loc now)"
      unfolding covers_def by (metis wall_le order_le_less_trans)
    with r wf clear show False by (auto simp: activeRoutine_None in_force_covers)
  next
    case False
    have b: "occ_begin r n = n * day + r_Start r"
      using occurrence_started_before [OF _ _ n(2,3) same] wf r False by blast
    have "now < date_of loc (n * day + r_Start r)" using False by (simp add: less_date b)
    moreover have "date_of loc (n * day + r_Start r) \<in> starts rs"
      using r n(1) by (auto simp: starts_def)
    moreover have has using nextRoutineStart_spec(1) [OF wf zero next_eq] r n(1)
      by (auto simp: occurs_def)
    ultimately have "s \<le> date_of loc (n * day + r_Start r)" and "t < s"
      using nextRoutineStart_spec(2) [OF wf zero next_eq] t(2) by auto
    with n(2) show False by (simp add: b date_le less_date)
      (meson date_le order.trans not_le)
  qed
qed

lemma start_covered:
  assumes "wf_routine r" "occurs r n"
  shows "covers r (n * day + r_Start r)"
  unfolding covers_def using assms
  by (intro exI [of _ n]) (auto simp: occ_begin_def occ_end_def wf_routine_def algebra_simps)

lemma routine_at_next_start:
  assumes wf: "\<forall>r\<in>set rs. wf_routine r" and zero: "zero_time \<le> now"
    and next_eq: "nextRoutineStart loc now rs = (s, True)"
  shows "activeRoutine loc s rs \<noteq> None"
proof -
  from nextRoutineStart_spec(2) [OF wf zero next_eq] obtain r n
    where r: "r \<in> set rs" "occurs r n" "s = date_of loc (n * day + r_Start r)"
    by (auto simp: starts_def)
  with wf have "covers r (wall_of loc s)" by (simp add: wall_date start_covered)
  with r wf show ?thesis by (auto simp: activeRoutine_None in_force_covers)
qed

end

end
