(* ===== verification/PolicyProps.thy ===== *)
theory PolicyProps
  imports PolicySpec
begin

text \<open>
  The properties of the policy engine, stated for zones with a fixed offset. The quantities
  of an input are 64-bit numbers; \<open>amounts_fit\<close> says that the allowance of the day fits too,
  which the limits of the server (24 hours of quota and of each bonus) keep far from binding.
\<close>

definition amounts_fit :: "location \<Rightarrow> Input \<Rightarrow> bool" where
  "amounts_fit loc i \<longleftrightarrow>
     in64 (in_Quota i (weekday_of loc (in_Now i)) + in_Bonus i) \<and> in64 (in_Consumed i)"

lemma remaining_of_eq:
  assumes "validate i = None" and "amounts_fit loc i"
  shows "remaining_of loc i =
    max 0 (in_Quota i (weekday_of loc (in_Now i)) + in_Bonus i - in_Consumed i)"
proof -
  have "in64 (in_Quota i (weekday_of loc (in_Now i)) + in_Bonus i - in_Consumed i)"
  proof -
    have "0 \<le> in_Quota i (weekday_of loc (in_Now i))" "0 \<le> in_Bonus i" "0 \<le> in_Consumed i"
      using assms(1) by (auto simp: validate_None)
    with assms(2) show ?thesis unfolding amounts_fit_def in64_def by linarith
  qed
  then show ?thesis
    using assms(2) by (simp add: remaining_of_def amounts_fit_def wrap_simps)
qed

text \<open>C1: A valid snapshot allows the session exactly when monitoring is paused, or there is no
  manual block, no routine occurs at the wall-clock reading of now (its occurrences being
  intervals of the wall clock, those crossing midnight and full days included), and today's
  quota plus bonus exceeds what was consumed.\<close>

theorem evaluate_allows_iff:
  assumes "validate i = None" and "amounts_fit (fixed_zone off) i"
  shows "\<exists>d. Evaluate (fixed_zone off) i = Inr d \<and>
    (d_Allowed d \<longleftrightarrow> in_Monitoring i = MonitoringPaused \<or>
       \<not> in_ManualBlock i \<and> (\<forall>r\<in>set (in_Routines i). \<not> covers r (in_Now i + off)) \<and>
       in_Consumed i < in_Quota i (weekday_of_day ((in_Now i + off) div day)) + in_Bonus i)"
proof -
  obtain d where d: "Evaluate (fixed_zone off) i = Inr d"
    using Evaluate_total [OF assms(1)] by blast
  have wall: "wall_of (fixed_zone off) (in_Now i) = in_Now i + off"
    by (simp add: fixed_zone_def)
  have "activeRoutine (fixed_zone off) (in_Now i) (in_Routines i) = None
      \<longleftrightarrow> (\<forall>r\<in>set (in_Routines i). \<not> covers r (in_Now i + off))"
    using validate_wf [OF assms(1)] by (auto simp: activeRoutine_None fixed.in_force_covers wall)
  with Evaluate_Inr(3) [OF d] remaining_of_eq [OF assms] show ?thesis
    by (intro exI [of _ d]) (auto simp: d weekday_of_def local_day_def wall max_def)
qed

text \<open>C2: When usage counts, the predicted next block is exact: with the session in use from now
  on, every evaluation on the same local day before the predicted instant still allows and
  counts, and the evaluation at that instant blocks, for the predicted reason. This holds for
  every valid set of routines, full days entered with any equal times included.\<close>

theorem next_block_is_exact:
  assumes ev: "Evaluate (fixed_zone off) i = Inr d" and count: "d_ShouldCount d"
    and fit: "amounts_fit (fixed_zone off) i" and zero: "zero_time < in_Now i"
    and t: "in_Now i \<le> t" "t \<le> d_NextBlockAt d"
    and same: "local_day (fixed_zone off) t = local_day (fixed_zone off) (in_Now i)"
  shows "\<exists>e. Evaluate (fixed_zone off)
      (i\<lparr>in_Now := t, in_Consumed := in_Consumed i + (t - in_Now i)\<rparr>) = Inr e
    \<and> (if t < d_NextBlockAt d then d_Reason e = ReasonAllowed \<and> d_ShouldCount e
       else \<not> d_Allowed e \<and> d_Reason e = d_NextBlockReason d)"
proof -
  let ?z = "fixed_zone off"
  let ?i = "i\<lparr>in_Now := t, in_Consumed := in_Consumed i + (t - in_Now i)\<rparr>"
  obtain s has where nxt: "nextRoutineStart ?z (in_Now i) (in_Routines i) = (s, has)" by fastforce
  note valid = Evaluate_Inr(1) [OF ev]
  note at = Evaluate_next_block [OF ev count nxt]
  have wf: "\<forall>r\<in>set (in_Routines i). wf_routine r" using validate_wf [OF valid] by blast
  have clear: "activeRoutine ?z (in_Now i) (in_Routines i) = None"
    and mode: "in_Monitoring i \<noteq> MonitoringPaused" "\<not> in_ManualBlock i"
    and pos: "remaining_of ?z i \<noteq> 0"
    using Evaluate_Inr(5) [OF ev] count by auto
  have rem: "remaining_of ?z i =
      in_Quota i (weekday_of ?z (in_Now i)) + in_Bonus i - in_Consumed i" (is "_ = ?r")
    using pos remaining_of_eq [OF valid fit] by linarith
  have day: "weekday_of ?z t = weekday_of ?z (in_Now i)" using same by (simp add: weekday_of_def)
  have le: "t - in_Now i \<le> ?r" using t(2) at(1) rem by (auto split: if_splits)
  have valid': "validate ?i = None" using valid zero t(1) by (auto simp: validate_None is_zero_def)
  have "in_Consumed i + (t - in_Now i) \<le> in_Quota i (weekday_of ?z (in_Now i)) + in_Bonus i"
    using le by simp
  then have fit': "amounts_fit ?z ?i"
    using fit t(1) day by (auto simp: amounts_fit_def in64_def)
  have rem': "remaining_of ?z ?i = max 0 (?r - (t - in_Now i))"
    using remaining_of_eq [OF valid' fit'] day by (simp add: algebra_simps)
  have has_s: "has \<Longrightarrow> d_NextBlockAt d \<le> s" using at by (auto split: if_splits)
  obtain e where e: "Evaluate ?z ?i = Inr e" using Evaluate_total [OF valid'] by blast
  show ?thesis
  proof (cases "t < d_NextBlockAt d")
    case True
    have "activeRoutine ?z t (in_Routines i) = None"
      using zero has_s True
      by (intro fixed.no_routine_before_next_start [OF wf _ clear nxt t(1) _ same]) auto
    moreover have "t - in_Now i < ?r" using True at(1) rem by (auto split: if_splits)
    ultimately have "d_ShouldCount e" using Evaluate_Inr(5) [OF e] mode rem' by auto
    with Evaluate_Inr(4) [OF e] True e show ?thesis by auto
  next
    case False
    with t(2) have teq: "t = d_NextBlockAt d" by simp
    show ?thesis
    proof (cases "has \<and> s \<le> in_Now i + remaining_of ?z i")
      case True
      then have "activeRoutine ?z t (in_Routines i) \<noteq> None"
        using zero nxt at(1) teq by (intro fixed.routine_at_next_start [OF wf, of "in_Now i"]) auto
      with True e mode at(2) teq show ?thesis
        by (auto simp: Evaluate_def valid' zero_decision_def Let_def split: option.splits)
    next
      case False
      then have "in_Now i + ?r = t" using at(1) teq rem by auto
      then have "remaining_of ?z ?i = 0" by (simp add: rem')
      moreover have "activeRoutine ?z t (in_Routines i) = None"
      proof (rule fixed.no_routine_before_next_start [OF wf _ clear nxt t(1) _ same])
        show "zero_time \<le> in_Now i" using zero by simp
        show "t < s" if has using that False at(1) teq by auto
      qed
      ultimately show ?thesis
        using e mode at(2) teq False valid'
        by (auto simp: Evaluate_def zero_decision_def Let_def remaining_of_def max_def
            split: option.splits if_splits)
    qed
  qed
qed

text \<open>The scan over the next seven days finds a start exactly when some routine has a selected
  day, and it is the earliest start later than now among all starts of all routines, on any
  day.\<close>

theorem next_routine_start_is_least:
  assumes "\<forall>r\<in>set rs. wf_routine r" and "zero_time \<le> now"
    and "nextRoutineStart (fixed_zone off) now rs = (t, has)"
  shows "(has \<longleftrightarrow> (\<exists>r\<in>set rs. \<exists>d. r_Days r d)) \<and>
    (has \<longrightarrow> t \<in> fixed.starts off rs \<and> now < t \<and> (\<forall>s\<in>fixed.starts off rs. now < s \<longrightarrow> t \<le> s))"
  using fixed.nextRoutineStart_spec [OF assms] by blast

section \<open>Concrete inputs\<close>

text \<open>A Sunday (1970-01-04) at 23:00 UTC, a day's quota of 24 hours, and one routine on Mondays.\<close>

definition sunday_input :: "duration \<Rightarrow> duration \<Rightarrow> Input" where
  "sunday_input s e = \<lparr>in_Now = 3 * day + 23 * hour, in_Monitoring = MonitoringActive,
     in_ManualBlock = False, in_Quota = (\<lambda>_. 24 * hour), in_Consumed = 23 * hour + 30 * minute,
     in_Bonus = 0,
     in_Routines = [\<lparr>r_Name = ''Descanso'', r_Days = (\<lambda>d. d = Monday), r_Start = s, r_End = e\<rparr>]\<rparr>"

lemma sunday_input_valid: "validate (sunday_input (22 * hour) (7 * hour)) = None"
  by code_simp

lemma sunday_input_fits: "amounts_fit (fixed_zone 0) (sunday_input (22 * hour) (7 * hour))"
  by code_simp

theorem evaluate_allows_iff_witness:
  "\<exists>d. Evaluate (fixed_zone 0) (sunday_input (22 * hour) (7 * hour)) = Inr d"
  using evaluate_allows_iff [OF sunday_input_valid sunday_input_fits] by blast

theorem next_block_is_exact_witness:
  "\<exists>e. Evaluate (fixed_zone 0)
      (sunday_input (22 * hour) (7 * hour)\<lparr>in_Now := 3 * day + 23 * hour + 30 * minute,
         in_Consumed := 24 * hour\<rparr>) = Inr e \<and> \<not> d_Allowed e \<and> d_Reason e = ReasonQuota"
proof -
  let ?i = "sunday_input (22 * hour) (7 * hour)"
  let ?d = "zero_decision\<lparr>d_Remaining := 30 * minute, d_Allowed := True, d_Reason := ReasonAllowed,
      d_ShouldCount := True, d_NextBlockAt := 3 * day + 23 * hour + 30 * minute,
      d_NextBlockReason := ReasonQuota\<rparr>"
  have ev: "Evaluate (fixed_zone 0) ?i = Inr ?d" by code_simp
  have "zero_time < in_Now ?i" "in_Now ?i \<le> 3 * day + 23 * hour + 30 * minute"
    and "local_day (fixed_zone 0) (3 * day + 23 * hour + 30 * minute) =
      local_day (fixed_zone 0) (in_Now ?i)"
    by code_simp+
  from next_block_is_exact [OF ev _ sunday_input_fits this(1,2) _ this(3)]
  show ?thesis by (simp add: sunday_input_def duration_defs zero_decision_def)
qed

theorem next_routine_start_is_least_witness:
  "3 * day + 23 * hour < 4 * day + 22 * hour \<and>
     4 * day + 22 * hour \<in> fixed.starts 0 (in_Routines (sunday_input (22 * hour) (7 * hour)))"
proof -
  let ?rs = "in_Routines (sunday_input (22 * hour) (7 * hour))"
  have "\<forall>r\<in>set ?rs. wf_routine r" "zero_time \<le> 3 * day + 23 * hour"
    and "nextRoutineStart (fixed_zone 0) (3 * day + 23 * hour) ?rs = (4 * day + 22 * hour, True)"
    by code_simp+
  from next_routine_start_is_least [OF this] show ?thesis by blast
qed

text \<open>A prediction that reaches into a later day is a different matter: it can be late. For a
  full-day routine entered as 10:00 to 10:00 on Mondays, an evaluation on Sunday evening
  predicts the block for Monday at 10:00, while every evaluation on Monday already blocks
  from 00:00 on (here one at 00:10).\<close>

theorem full_day_routine_predicted_late:
  "let i = (sunday_input (10 * hour) (10 * hour))\<lparr>in_Consumed := 0\<rparr>;
       t = 4 * day + 10 * minute
   in \<exists>d e. Evaluate (fixed_zone 0) i = Inr d \<and> d_ShouldCount d
     \<and> d_NextBlockAt d = 4 * day + 10 * hour \<and> d_NextBlockReason d = ReasonRoutine
     \<and> t < d_NextBlockAt d
     \<and> Evaluate (fixed_zone 0) (i\<lparr>in_Now := t\<rparr>) = Inr e
     \<and> \<not> d_Allowed e \<and> d_Reason e = ReasonRoutine"
proof -
  let ?i = "(sunday_input (10 * hour) (10 * hour))\<lparr>in_Consumed := 0\<rparr>"
  have "Evaluate (fixed_zone 0) ?i = Inr (zero_decision\<lparr>d_Remaining := 24 * hour, d_Allowed := True,
      d_Reason := ReasonAllowed, d_ShouldCount := True, d_NextBlockAt := 4 * day + 10 * hour,
      d_NextBlockReason := ReasonRoutine\<rparr>)"
    and "Evaluate (fixed_zone 0) (?i\<lparr>in_Now := 4 * day + 10 * minute\<rparr>) =
      Inr (zero_decision\<lparr>d_Remaining := 24 * hour, d_Reason := ReasonRoutine,
        d_ActiveRoutine := ''Descanso''\<rparr>)"
    by code_simp+
  then show ?thesis by (simp add: Let_def zero_decision_def duration_defs)
qed

end
