(* ===== verification/Alert.thy ===== *)
theory Alert
  imports Policy "HOL-Library.Multiset"
begin

text \<open>
  The alerts before a block, from \<open>agent/alert/alert.go\<close>: the planned thresholds of a decision
  and the tracker that emits each of them once per authorization period. Go's map of emitted
  kinds is an option, \<open>None\<close> being the nil map, which panics when it is written.
\<close>

section \<open>Data\<close>

datatype AlertKind = AlertPrimary | AlertFiveMinute | AlertOneMinute

definition minimumRearm :: duration where "minimumRearm = 30 * second"

record Alert =
  al_At :: time
  al_Kind :: AlertKind
  al_Reason :: Reason
  al_Title :: string
  al_Body :: string

record Cycle =
  cy_PolicyRevision :: int
  cy_SessionID :: string
  cy_LocalDate :: string

record Tracker =
  tr_initialized :: bool
  tr_active :: bool
  tr_cycle :: Cycle
  tr_reason :: Reason
  tr_previousCycle :: time
  tr_previousBlockAt :: time
  tr_emitted :: "(AlertKind \<Rightarrow> bool) option"

definition zero_tracker :: Tracker where
  "zero_tracker = \<lparr>tr_initialized = False, tr_active = False,
     tr_cycle = \<lparr>cy_PolicyRevision = 0, cy_SessionID = [], cy_LocalDate = []\<rparr>,
     tr_reason = ReasonNone, tr_previousCycle = zero_time, tr_previousBlockAt = zero_time,
     tr_emitted = None\<rparr>"

datatype AlertError = NegativeWarning | InvalidCycleTimes | NilMapWrite

section \<open>Texts\<close>

function decimal_digits :: "nat \<Rightarrow> string" where
  "decimal_digits n =
     (if n < 10 then [char_of (48 + n)] else decimal_digits (n div 10) @ [char_of (48 + n mod 10)])"
  by pat_completeness auto
termination by (relation "measure id") auto

declare decimal_digits.simps [simp del]

definition itoa :: "int \<Rightarrow> string" where
  "itoa i = (if i < 0 then ''-'' @ decimal_digits (nat (- i)) else decimal_digits (nat i))"

definition remainingTimeText :: "int \<Rightarrow> string" where
  "remainingTimeText minutes = (if minutes = 1 then ''1 minuto'' else itoa minutes @ '' minutos'')"

text \<open>The accented letters are their two bytes in UTF-8.\<close>

definition titleForReason :: "Reason \<Rightarrow> int \<Rightarrow> string" where
  "titleForReason reason remainingMinutes =
     (let remainingText = remainingTimeText remainingMinutes
      in case reason of
           ReasonRoutine \<Rightarrow> ''Rotina programada em '' @ remainingText
         | ReasonQuota \<Rightarrow> ''O tempo de hoje termina em '' @ remainingText
         | ReasonManualBlock \<Rightarrow> ''Bloqueio solicitado pelo respons'' @ [CHR 0xC3, CHR 0xA1] @ ''vel''
         | _ \<Rightarrow> ''Bloqueio programado em '' @ remainingText)"

definition bodyForReason :: "Reason \<Rightarrow> int \<Rightarrow> string" where
  "bodyForReason reason remainingMinutes =
     (let remainingText = remainingTimeText remainingMinutes
      in case reason of
           ReasonRoutine \<Rightarrow>
             ''Uma rotina programada come'' @ [CHR 0xC3, CHR 0xA7] @ ''ar'' @ [CHR 0xC3, CHR 0xA1]
             @ '' em '' @ remainingText @ ''. O computador ser'' @ [CHR 0xC3, CHR 0xA1] @ '' bloqueado.''
         | ReasonQuota \<Rightarrow>
             ''O tempo dispon'' @ [CHR 0xC3, CHR 0xAD] @ ''vel de hoje terminar'' @ [CHR 0xC3, CHR 0xA1]
             @ '' em '' @ remainingText @ ''. O computador ser'' @ [CHR 0xC3, CHR 0xA1] @ '' bloqueado.''
         | ReasonManualBlock \<Rightarrow>
             ''O respons'' @ [CHR 0xC3, CHR 0xA1] @ ''vel solicitou o bloqueio deste computador.''
         | _ \<Rightarrow> ''Este computador ser'' @ [CHR 0xC3, CHR 0xA1] @ '' bloqueado em '' @ remainingText @ ''.'')"

section \<open>Operations\<close>

text \<open>The map from alert times to kinds: a later threshold at the same instant replaces the
  earlier one.\<close>

definition addThreshold :: "Decision \<Rightarrow> time \<Rightarrow> AlertKind \<Rightarrow> (time \<times> AlertKind) list
    \<Rightarrow> (time \<times> AlertKind) list" where
  "addThreshold d alertTime alertKind m =
     (if alertTime < d_NextBlockAt d
      then (alertTime, alertKind) # filter (\<lambda>(t, k). t \<noteq> alertTime) m else m)"

definition thresholds :: "Decision \<Rightarrow> int \<Rightarrow> (time \<times> AlertKind) list" where
  "thresholds d warningMinutes =
     addThreshold d (d_NextBlockAt d - minute) AlertOneMinute
       (addThreshold d (d_NextBlockAt d - 5 * minute) AlertFiveMinute
         (addThreshold d (d_NextBlockAt d + wrap64 (- warningMinutes * minute)) AlertPrimary []))"

definition alert_at :: "Decision \<Rightarrow> time \<times> AlertKind \<Rightarrow> Alert" where
  "alert_at d tk =
     (let remainingMinutes = go_div (time_sub (d_NextBlockAt d) (fst tk)) minute
      in \<lparr>al_At = fst tk, al_Kind = snd tk, al_Reason = d_NextBlockReason d,
          al_Title = titleForReason (d_NextBlockReason d) remainingMinutes,
          al_Body = bodyForReason (d_NextBlockReason d) remainingMinutes\<rparr>)"

definition plannedAlerts :: "Decision \<Rightarrow> int \<Rightarrow> Alert list" where
  "plannedAlerts d warningMinutes =
     (if is_zero (d_NextBlockAt d) \<or> \<not> d_Allowed d then []
      else map (alert_at d) (sort_key fst (thresholds d warningMinutes)))"

definition observe :: "Tracker \<Rightarrow> Decision \<Rightarrow> Cycle \<Rightarrow> time \<Rightarrow> Tracker" where
  "observe tr d c now =
     tr\<lparr>tr_active := d_Allowed d \<and> \<not> is_zero (d_NextBlockAt d), tr_cycle := c,
        tr_reason := d_NextBlockReason d, tr_previousCycle := now,
        tr_previousBlockAt := d_NextBlockAt d,
        tr_emitted := (case tr_emitted tr of None \<Rightarrow> Some (\<lambda>_. False) | Some m \<Rightarrow> Some m)\<rparr>"

definition new_cycle :: "Tracker \<Rightarrow> Decision \<Rightarrow> Cycle \<Rightarrow> bool" where
  "new_cycle tr d c \<longleftrightarrow>
     \<not> tr_active tr \<or> tr_cycle tr \<noteq> c \<or> tr_reason tr \<noteq> d_NextBlockReason d
     \<or> (\<not> is_zero (tr_previousBlockAt tr)
        \<and> minimumRearm \<le> time_sub (d_NextBlockAt d) (tr_previousBlockAt tr))"

fun emit_crossed :: "bool \<Rightarrow> time \<Rightarrow> time \<Rightarrow> Alert list \<Rightarrow> (AlertKind \<Rightarrow> bool) option
    \<Rightarrow> Alert option \<Rightarrow> AlertError + ((AlertKind \<Rightarrow> bool) option \<times> Alert option)" where
  "emit_crossed deliver previous now [] emitted mostUrgent = Inr (emitted, mostUrgent)"
| "emit_crossed deliver previous now (a # as) emitted mostUrgent =
     (let crossed = previous < al_At a \<and> \<not> now < al_At a;
          seen = (case emitted of None \<Rightarrow> False | Some m \<Rightarrow> m (al_Kind a))
      in if crossed \<and> \<not> seen
         then (case emitted of
                 None \<Rightarrow> Inl NilMapWrite
               | Some m \<Rightarrow> emit_crossed deliver previous now as (Some (m(al_Kind a := True)))
                   (if deliver then Some a else mostUrgent))
         else emit_crossed deliver previous now as emitted mostUrgent)"

definition Due :: "Tracker \<Rightarrow> Decision \<Rightarrow> int \<Rightarrow> Cycle \<Rightarrow> time \<Rightarrow> bool
    \<Rightarrow> (AlertError + Alert list) \<times> Tracker" where
  "Due tr d warningMinutes c now deliver =
     (if warningMinutes < 0 then (Inl NegativeWarning, tr)
      else if is_zero now \<or> (tr_initialized tr \<and> now < tr_previousCycle tr)
      then (Inl InvalidCycleTimes, tr)
      else if \<not> tr_initialized tr
      then (Inr [], observe (tr\<lparr>tr_initialized := True\<rparr>) d c now)
      else if \<not> (d_Allowed d \<and> \<not> is_zero (d_NextBlockAt d))
      then (Inr [], tr\<lparr>tr_active := False, tr_previousCycle := now, tr_previousBlockAt := zero_time\<rparr>)
      else if new_cycle tr d c
      then (Inr [], observe (tr\<lparr>tr_emitted := Some (\<lambda>_. False)\<rparr>) d c now)
      else case emit_crossed deliver (tr_previousCycle tr) now (plannedAlerts d warningMinutes)
                  (tr_emitted tr) None of
             Inl e \<Rightarrow> (Inl e, tr)
           | Inr (emitted, mostUrgent) \<Rightarrow>
               (Inr (case mostUrgent of None \<Rightarrow> [] | Some a \<Rightarrow> [a]),
                observe (tr\<lparr>tr_emitted := emitted\<rparr>) d c now))"

section \<open>The planned thresholds\<close>

lemma plannedAlerts_before_block:
  "a \<in> set (plannedAlerts d w) \<Longrightarrow> al_At a < d_NextBlockAt d"
  by (auto simp: plannedAlerts_def thresholds_def addThreshold_def alert_at_def Let_def
      split: if_splits)

lemma al_At_alert_at [simp]: "al_At (alert_at d x) = fst x"
  by (simp add: alert_at_def Let_def)

lemma plannedAlerts_times: "map al_At (plannedAlerts d w) =
    (if is_zero (d_NextBlockAt d) \<or> \<not> d_Allowed d then [] else sort (map fst (thresholds d w)))"
proof -
  have "al_At \<circ> alert_at d = fst"
    by (simp add: fun_eq_iff)
  moreover have "map fst (sort_key fst xs) = sort (map fst xs)" for xs :: "(time \<times> AlertKind) list"
    by (rule properties_for_sort [symmetric]) (simp_all add: sorted_sort_key)
  ultimately show ?thesis by (simp add: plannedAlerts_def)
qed

lemma plannedAlerts_sorted: "sorted_wrt (<) (map al_At (plannedAlerts d w))"
proof -
  have "distinct (map fst (thresholds d w))"
    by (auto simp: thresholds_def addThreshold_def)
  then show ?thesis
    unfolding plannedAlerts_times by (auto simp: strict_sorted_iff)
qed

section \<open>The tracker\<close>

text \<open>The nil map is never written: it is set before the first threshold can be crossed.\<close>

definition tracker_ok :: "Tracker \<Rightarrow> bool" where
  "tracker_ok tr \<longleftrightarrow> (tr_initialized tr \<longrightarrow> tr_emitted tr \<noteq> None)"

lemma tracker_ok_zero: "tracker_ok zero_tracker"
  by (simp add: tracker_ok_def zero_tracker_def)

lemma emit_crossed_Some:
  "\<exists>m' u. emit_crossed deliver p now as (Some m) mu = Inr (Some m', u)"
  by (induction as arbitrary: m mu) (auto simp: Let_def)

text \<open>The observations that scan the thresholds, and all the others.\<close>

definition scans :: "Tracker \<Rightarrow> Decision \<Rightarrow> int \<Rightarrow> Cycle \<Rightarrow> time \<Rightarrow> bool" where
  "scans tr d w c now \<longleftrightarrow> 0 \<le> w \<and> \<not> is_zero now \<and> tr_initialized tr \<and> tr_previousCycle tr \<le> now
     \<and> d_Allowed d \<and> \<not> is_zero (d_NextBlockAt d) \<and> \<not> new_cycle tr d c"

definition delivered :: "AlertError + Alert list \<Rightarrow> Alert list" where
  "delivered r = (case r of Inl _ \<Rightarrow> [] | Inr as \<Rightarrow> as)"

definition was_emitted :: "Tracker \<Rightarrow> AlertKind \<Rightarrow> bool" where
  "was_emitted tr k = (case tr_emitted tr of None \<Rightarrow> False | Some m \<Rightarrow> m k)"

definition emitted_kinds :: "Tracker \<Rightarrow> AlertKind set" where
  "emitted_kinds tr = (case tr_emitted tr of None \<Rightarrow> {} | Some m \<Rightarrow> {k. m k})"

lemma Due_scan:
  assumes "tracker_ok tr" and "scans tr d w c now" and "Due tr d w c now deliver = (r, tr')"
  obtains m m' u where "tr_emitted tr = Some m"
    and "emit_crossed deliver (tr_previousCycle tr) now (plannedAlerts d w) (Some m) None
      = Inr (Some m', u)"
    and "r = Inr (case u of None \<Rightarrow> [] | Some a \<Rightarrow> [a])"
    and "tr' = observe (tr\<lparr>tr_emitted := Some m'\<rparr>) d c now"
proof -
  obtain m where m: "tr_emitted tr = Some m"
    using assms(1,2) by (auto simp: tracker_ok_def scans_def)
  obtain m' u where em: "emit_crossed deliver (tr_previousCycle tr) now (plannedAlerts d w)
      (Some m) None = Inr (Some m', u)" using emit_crossed_Some by blast
  have "Due tr d w c now deliver =
      (Inr (case u of None \<Rightarrow> [] | Some a \<Rightarrow> [a]), observe (tr\<lparr>tr_emitted := Some m'\<rparr>) d c now)"
    using assms(2) by (simp add: Due_def scans_def m em)
  with assms(3) have "r = Inr (case u of None \<Rightarrow> [] | Some a \<Rightarrow> [a])"
    and "tr' = observe (tr\<lparr>tr_emitted := Some m'\<rparr>) d c now" by simp_all
  with m em show ?thesis by (rule that)
qed

lemma Due_quiet:
  assumes "\<not> scans tr d w c now" and "Due tr d w c now deliver = (r, tr')"
  shows "delivered r = []" and "r \<noteq> Inl NilMapWrite" and "tracker_ok tr \<Longrightarrow> tracker_ok tr'"
    and "tr_initialized tr \<Longrightarrow> \<not> new_cycle tr d c \<Longrightarrow> emitted_kinds tr \<subseteq> emitted_kinds tr'"
proof -
  have "delivered r = [] \<and> r \<noteq> Inl NilMapWrite \<and> (tracker_ok tr \<longrightarrow> tracker_ok tr')
      \<and> (tr_initialized tr \<longrightarrow> \<not> new_cycle tr d c \<longrightarrow> emitted_kinds tr \<subseteq> emitted_kinds tr')"
    using assms
    by (auto simp: Due_def scans_def delivered_def tracker_ok_def observe_def emitted_kinds_def
        split: if_splits option.splits)
  then show "delivered r = []" and "r \<noteq> Inl NilMapWrite" and "tracker_ok tr \<Longrightarrow> tracker_ok tr'"
    and "tr_initialized tr \<Longrightarrow> \<not> new_cycle tr d c \<Longrightarrow> emitted_kinds tr \<subseteq> emitted_kinds tr'"
    by blast+
qed

lemma Due_ok:
  assumes "tracker_ok tr" and "Due tr d w c now deliver = (r, tr')"
  shows "tracker_ok tr'" and "r \<noteq> Inl NilMapWrite"
proof -
  have "tracker_ok tr' \<and> r \<noteq> Inl NilMapWrite"
  proof (cases "scans tr d w c now")
    case True
    show ?thesis
      by (rule Due_scan [OF assms(1) True assms(2)]) (simp add: tracker_ok_def observe_def)
  next
    case False
    from Due_quiet [OF False assms(2)] assms(1) show ?thesis by blast
  qed
  then show "tracker_ok tr'" and "r \<noteq> Inl NilMapWrite" by blast+
qed

text \<open>What one scan of the thresholds does: it marks exactly those it crossed, and what it
  returns is the last of the newly crossed ones when alerts are delivered.\<close>

definition crossed_in :: "time \<Rightarrow> time \<Rightarrow> Alert \<Rightarrow> bool" where
  "crossed_in p now a \<longleftrightarrow> p < al_At a \<and> al_At a \<le> now"

lemma emit_crossed_marks:
  "emit_crossed deliver p now as (Some m) mu = Inr (Some m', u) \<Longrightarrow>
     m' k \<longleftrightarrow> m k \<or> (\<exists>a\<in>set as. crossed_in p now a \<and> al_Kind a = k)"
proof (induction as arbitrary: m mu)
  case (Cons a as)
  let ?fresh = "crossed_in p now a \<and> \<not> m (al_Kind a)"
  have "emit_crossed deliver p now as (Some (if ?fresh then m(al_Kind a := True) else m))
      (if ?fresh \<and> deliver then Some a else mu) = Inr (Some m', u)"
    using Cons.prems by (auto simp: Let_def crossed_in_def not_less split: if_splits)
  from Cons.IH [OF this] show ?case by (auto simp: fun_upd_def split: if_splits)
qed simp

lemma emit_crossed_result:
  "emit_crossed deliver p now as (Some m) mu = Inr (Some m', u) \<Longrightarrow>
     u = mu \<or> (\<exists>a\<in>set as. u = Some a \<and> deliver \<and> crossed_in p now a \<and> \<not> m (al_Kind a))"
proof (induction as arbitrary: m mu)
  case (Cons a as)
  let ?fresh = "crossed_in p now a \<and> \<not> m (al_Kind a)"
  have "emit_crossed deliver p now as (Some (if ?fresh then m(al_Kind a := True) else m))
      (if ?fresh \<and> deliver then Some a else mu) = Inr (Some m', u)"
    using Cons.prems by (auto simp: Let_def crossed_in_def not_less split: if_splits)
  from Cons.IH [OF this] show ?case by (auto split: if_splits)
qed simp

text \<open>One observation delivers at most one alert, and only of a kind not emitted before, which
  it records; unless it opens a new period it keeps what was emitted.\<close>

lemma Due_delivers:
  assumes "tracker_ok tr" and "Due tr d w c now deliver = (r, tr')" and "delivered r \<noteq> []"
  obtains a where "delivered r = [a]" and "a \<in> set (plannedAlerts d w)" and "deliver"
    and "scans tr d w c now" and "crossed_in (tr_previousCycle tr) now a"
    and "al_Kind a \<notin> emitted_kinds tr" and "al_Kind a \<in> emitted_kinds tr'"
proof -
  have sc: "scans tr d w c now" using Due_quiet(1) [OF _ assms(2)] assms(3) by blast
  obtain m m' u where m: "tr_emitted tr = Some m"
    and em: "emit_crossed deliver (tr_previousCycle tr) now (plannedAlerts d w) (Some m) None
      = Inr (Some m', u)"
    and r: "r = Inr (case u of None \<Rightarrow> [] | Some a \<Rightarrow> [a])"
    and tr': "tr' = observe (tr\<lparr>tr_emitted := Some m'\<rparr>) d c now"
    by (rule Due_scan [OF assms(1) sc assms(2)])
  obtain a where u: "u = Some a"
    using r assms(3) by (cases u) (simp_all add: delivered_def)
  with emit_crossed_result [OF em] have a: "a \<in> set (plannedAlerts d w)" "deliver"
      "crossed_in (tr_previousCycle tr) now a" "\<not> m (al_Kind a)" by auto
  then have "m' (al_Kind a)" using emit_crossed_marks [OF em] by blast
  with that [of a] a sc show ?thesis
    by (simp add: r u delivered_def tr' m emitted_kinds_def observe_def)
qed

lemma Due_keeps_emitted:
  assumes "tracker_ok tr" and "Due tr d w c now deliver = (r, tr')"
    and "tr_initialized tr" and "\<not> new_cycle tr d c"
  shows "emitted_kinds tr \<subseteq> emitted_kinds tr'"
proof (cases "scans tr d w c now")
  case True
  obtain m m' u where "tr_emitted tr = Some m"
    and em: "emit_crossed deliver (tr_previousCycle tr) now (plannedAlerts d w) (Some m) None
      = Inr (Some m', u)"
    and "r = Inr (case u of None \<Rightarrow> [] | Some a \<Rightarrow> [a])"
    and "tr' = observe (tr\<lparr>tr_emitted := Some m'\<rparr>) d c now"
    by (rule Due_scan [OF assms(1) True assms(2)])
  with emit_crossed_marks [OF em] show ?thesis by (auto simp: emitted_kinds_def observe_def)
next
  case False
  from Due_quiet(4) [OF False assms(2)] assms(3,4) show ?thesis by blast
qed

end
