(* ===== verification/AlertProps.thy ===== *)
theory AlertProps
  imports Alert
begin

text \<open>
  The properties of the alert tracker over runs of observations: once per period, the most
  urgent threshold only, and no write to the nil map.
\<close>

section \<open>Runs\<close>

type_synonym observation = "Decision \<times> int \<times> Cycle \<times> time \<times> bool"

text \<open>The tracker after a run and the alerts it returned, oldest first.\<close>

fun run_due :: "Tracker \<Rightarrow> observation list \<Rightarrow> Alert list \<times> Tracker" where
  "run_due tr [] = ([], tr)"
| "run_due tr ((d, w, c, now, deliver) # os) =
     (let (r, tr1) = Due tr d w c now deliver; (as, tr2) = run_due tr1 os
      in (delivered r @ as, tr2))"

text \<open>No observation of the run opens a new authorization period.\<close>

fun same_period :: "Tracker \<Rightarrow> observation list \<Rightarrow> bool" where
  "same_period tr [] = True"
| "same_period tr ((d, w, c, now, deliver) # os) \<longleftrightarrow>
     \<not> new_cycle tr d c \<and> same_period (snd (Due tr d w c now deliver)) os"

lemma run_due_ok: "tracker_ok tr \<Longrightarrow> tracker_ok (snd (run_due tr os))"
proof (induction tr os rule: run_due.induct)
  case (2 tr d w c now deliver os)
  obtain r tr1 where due: "Due tr d w c now deliver = (r, tr1)" by fastforce
  with 2 Due_ok [OF \<open>tracker_ok tr\<close> due] show ?case by (simp add: split_beta)
qed simp

lemma Due_initialized:
  "Due tr d w c now deliver = (r, tr') \<Longrightarrow> tr_initialized tr \<Longrightarrow> tr_initialized tr'"
  by (auto simp: Due_def observe_def split: if_splits sum.splits)

lemma run_due_kinds:
  "tracker_ok tr \<Longrightarrow> tr_initialized tr \<Longrightarrow> same_period tr os \<Longrightarrow>
     distinct (map al_Kind (fst (run_due tr os)))
     \<and> al_Kind ` set (fst (run_due tr os)) \<inter> emitted_kinds tr = {}"
proof (induction tr os rule: run_due.induct)
  case (2 tr d w c now deliver os)
  obtain r tr1 where due: "Due tr d w c now deliver = (r, tr1)" by fastforce
  let ?rest = "fst (run_due tr1 os)"
  have nc: "\<not> new_cycle tr d c" and sp: "same_period tr1 os"
    using "2.prems"(3) due by simp_all
  have IH: "distinct (map al_Kind ?rest)" "al_Kind ` set ?rest \<inter> emitted_kinds tr1 = {}"
    using "2.IH" [OF due [symmetric] refl] Due_ok(1) [OF "2.prems"(1) due]
      Due_initialized [OF due "2.prems"(2)] sp by simp_all
  have keep: "emitted_kinds tr \<subseteq> emitted_kinds tr1"
    by (rule Due_keeps_emitted [OF "2.prems"(1) due "2.prems"(2) nc])
  have run: "fst (run_due tr ((d, w, c, now, deliver) # os)) = delivered r @ ?rest"
    by (simp add: due split_beta)
  show ?case
  proof (cases "delivered r = []")
    case True
    with IH keep show ?thesis unfolding run by auto
  next
    case False
    then obtain a where "delivered r = [a]" "al_Kind a \<notin> emitted_kinds tr"
        "al_Kind a \<in> emitted_kinds tr1"
      by (rule Due_delivers [OF "2.prems"(1) due])
    with IH keep show ?thesis unfolding run by auto
  qed
qed simp

section \<open>The most urgent threshold\<close>

definition fresh_alerts :: "Tracker \<Rightarrow> Decision \<Rightarrow> int \<Rightarrow> time \<Rightarrow> Alert list" where
  "fresh_alerts tr d w now = filter (\<lambda>a. crossed_in (tr_previousCycle tr) now a
     \<and> \<not> was_emitted tr (al_Kind a)) (plannedAlerts d w)"

lemma al_Kind_alert_at [simp]: "al_Kind (alert_at d x) = snd x"
  by (simp add: alert_at_def Let_def)

lemma plannedAlerts_kinds: "distinct (map al_Kind (plannedAlerts d w))"
proof -
  have dist: "distinct (map snd (sort_key fst xs)) \<longleftrightarrow> distinct (map snd xs)"
    for xs :: "(time \<times> AlertKind) list"
  proof -
    have "mset (map snd (sort_key fst xs)) = mset (map snd xs)" by simp
    then show ?thesis by (rule mset_eq_imp_distinct_iff)
  qed
  have comp: "al_Kind \<circ> alert_at d = snd" by (simp add: fun_eq_iff)
  have "distinct (map snd (thresholds d w))"
    by (auto simp: thresholds_def addThreshold_def)
  then show ?thesis by (simp add: plannedAlerts_def comp dist)
qed

lemma emit_crossed_last:
  "distinct (map al_Kind as) \<Longrightarrow>
   (let fresh = filter (\<lambda>a. crossed_in p now a \<and> \<not> m (al_Kind a)) as
    in \<exists>m'. emit_crossed True p now as (Some m) mu =
         Inr (Some m', if fresh = [] then mu else Some (last fresh)))"
proof (induction as arbitrary: m mu)
  case (Cons a as)
  have upd: "filter (\<lambda>b. crossed_in p now b \<and> \<not> (m(al_Kind a := True)) (al_Kind b)) as
      = filter (\<lambda>b. crossed_in p now b \<and> \<not> m (al_Kind b)) as"
    using Cons.prems by (intro filter_cong) (auto intro: rev_image_eqI)
  show ?case
  proof (cases "crossed_in p now a \<and> \<not> m (al_Kind a)")
    case True
    with Cons.IH [of "m(al_Kind a := True)" "Some a"] Cons.prems show ?thesis
      unfolding Let_def upd by (auto simp: crossed_in_def not_less Let_def)
  next
    case False
    with Cons.IH [of m mu] Cons.prems show ?thesis
      by (auto simp: crossed_in_def not_less Let_def)
  qed
qed simp

lemma emit_crossed_silent:
  "\<exists>m'. emit_crossed False p now as (Some m) None = Inr (Some m', None)"
proof -
  obtain m' u where e: "emit_crossed False p now as (Some m) None = Inr (Some m', u)"
    using emit_crossed_Some by blast
  with emit_crossed_result [OF e] show ?thesis by auto
qed

section \<open>Properties\<close>

lemma alerts_once_per_period_facts:
  assumes "tr = snd (run_due zero_tracker before)" and "tr_initialized tr"
    and "same_period tr os"
  shows "distinct (map al_Kind (fst (run_due tr os)))"
    and "al_Kind ` set (fst (run_due tr os)) \<inter> emitted_kinds tr = {}"
    and "length (fst (run_due tr os)) \<le> 3"
    and "fst (Due (snd (run_due tr os)) d w c now deliver) \<noteq> Inl NilMapWrite"
proof -
  have ok: "tracker_ok tr" using assms(1) run_due_ok [OF tracker_ok_zero] by simp
  note kinds = run_due_kinds [OF ok assms(2,3)]
  then show d: "distinct (map al_Kind (fst (run_due tr os)))"
    and "al_Kind ` set (fst (run_due tr os)) \<inter> emitted_kinds tr = {}" by simp_all
  have "set (map al_Kind (fst (run_due tr os))) \<subseteq> {AlertPrimary, AlertFiveMinute, AlertOneMinute}"
    using AlertKind.exhaust by blast
  then have "card (set (map al_Kind (fst (run_due tr os)))) \<le> 3"
    by (rule order_trans [OF card_mono, rotated]) simp_all
  with distinct_card [OF d] show "length (fst (run_due tr os)) \<le> 3" by simp
  show "fst (Due (snd (run_due tr os)) d w c now deliver) \<noteq> Inl NilMapWrite"
    using Due_ok(2) [OF run_due_ok [OF ok] surjective_pairing] by simp
qed

text \<open>C26: each threshold is announced at most once per authorization period. Along any run of
  observations of the alert tracker that opens no new period (same policy revision, session,
  date and reason, block not postponed by 30 seconds or more), the kinds of the alerts returned
  are pairwise different and none of them had been emitted before, so a period has at most three
  alerts; the tracker is one a run from the zero value reaches, and it never writes the nil map.\<close>

theorem alerts_once_per_period:
  assumes "tr = snd (run_due zero_tracker before)" and "tr_initialized tr"
    and "same_period tr os"
  shows "distinct (map al_Kind (fst (run_due tr os)))
    \<and> al_Kind ` set (fst (run_due tr os)) \<inter> emitted_kinds tr = {}
    \<and> length (fst (run_due tr os)) \<le> 3
    \<and> fst (Due (snd (run_due tr os)) d w c now deliver) \<noteq> Inl NilMapWrite"
  using alerts_once_per_period_facts [OF assms] by blast

definition sample_block :: Decision where
  "sample_block = zero_decision\<lparr>d_Allowed := True, d_NextBlockAt := 3600 * second,
     d_NextBlockReason := ReasonQuota\<rparr>"

definition sample_cycle :: Cycle where
  "sample_cycle = \<lparr>cy_PolicyRevision = 3, cy_SessionID = ''2'', cy_LocalDate = ''2026-07-20''\<rparr>"

definition watch :: "int \<Rightarrow> observation" where
  "watch sec = (sample_block, 10, sample_cycle, sec * second, True)"

text \<open>A block after an hour with ten minutes of warning: two observations open the period, and
  the next ones announce ten, five and one minute once each, in spite of the repeats.\<close>

lemma alerts_once_per_period_witness:
  "map al_Kind (fst (run_due (snd (run_due zero_tracker [watch 0, watch 10]))
     [watch 3000, watch 3010, watch 3300, watch 3301, watch 3540, watch 3590])) =
     [AlertPrimary, AlertFiveMinute, AlertOneMinute]
   \<and> length (fst (run_due (snd (run_due zero_tracker [watch 0, watch 10]))
     [watch 3000, watch 3010, watch 3300, watch 3301, watch 3540, watch 3590])) \<le> 3"
proof (rule conjI)
  show "length (fst (run_due (snd (run_due zero_tracker [watch 0, watch 10]))
     [watch 3000, watch 3010, watch 3300, watch 3301, watch 3540, watch 3590])) \<le> 3"
    by (rule conjunct1 [OF conjunct2 [OF conjunct2 [OF alerts_once_per_period [OF refl]]]]) code_simp+
qed code_simp

lemma due_returns_most_urgent_facts:
  assumes "tr = snd (run_due zero_tracker before)" and "scans tr d w c now"
  shows "fst (Due tr d w c now deliver) =
      Inr (let fresh = fresh_alerts tr d w now
           in if deliver \<and> fresh \<noteq> [] then [last fresh] else [])"
    and "emitted_kinds (snd (Due tr d w c now deliver)) = emitted_kinds tr \<union>
      al_Kind ` {a \<in> set (plannedAlerts d w). crossed_in (tr_previousCycle tr) now a}"
proof -
  have ok: "tracker_ok tr" using assms(1) run_due_ok [OF tracker_ok_zero] by simp
  obtain r tr' where due: "Due tr d w c now deliver = (r, tr')" by fastforce
  obtain m m' u where m: "tr_emitted tr = Some m"
    and em: "emit_crossed deliver (tr_previousCycle tr) now (plannedAlerts d w) (Some m) None
      = Inr (Some m', u)"
    and r: "r = Inr (case u of None \<Rightarrow> [] | Some a \<Rightarrow> [a])"
    and tr': "tr' = observe (tr\<lparr>tr_emitted := Some m'\<rparr>) d c now"
    by (rule Due_scan [OF ok assms(2) due])
  have "u = (let fresh = fresh_alerts tr d w now
      in if deliver \<and> fresh \<noteq> [] then Some (last fresh) else None)"
    using em emit_crossed_last [OF plannedAlerts_kinds, of "tr_previousCycle tr" now m d w None]
      emit_crossed_silent [of "tr_previousCycle tr" now "plannedAlerts d w" m]
    by (cases deliver) (auto simp: fresh_alerts_def m was_emitted_def Let_def)
  then show "fst (Due tr d w c now deliver) =
      Inr (let fresh = fresh_alerts tr d w now
           in if deliver \<and> fresh \<noteq> [] then [last fresh] else [])"
    by (simp add: due r Let_def)
  show "emitted_kinds (snd (Due tr d w c now deliver)) = emitted_kinds tr \<union>
      al_Kind ` {a \<in> set (plannedAlerts d w). crossed_in (tr_previousCycle tr) now a}"
    using emit_crossed_marks [OF em] by (auto simp: due tr' m emitted_kinds_def observe_def)
qed

text \<open>What one observation returns. Within a period, with a block ahead, the observation
  returns exactly the last of the thresholds crossed since the previous observation that were
  not emitted yet (nothing when there is none or when the desktop is locked), and from then on
  every threshold crossed counts as emitted, so a locked desktop never accumulates alerts.\<close>

theorem due_returns_most_urgent:
  assumes "tr = snd (run_due zero_tracker before)" and "scans tr d w c now"
  shows "fst (Due tr d w c now deliver) =
      Inr (let fresh = fresh_alerts tr d w now
           in if deliver \<and> fresh \<noteq> [] then [last fresh] else [])
    \<and> emitted_kinds (snd (Due tr d w c now deliver)) = emitted_kinds tr \<union>
      al_Kind ` {a \<in> set (plannedAlerts d w). crossed_in (tr_previousCycle tr) now a}"
  using due_returns_most_urgent_facts [OF assms] by blast

text \<open>After a suspension that crossed the ten and the five minute thresholds only the second
  one is announced.\<close>

lemma due_returns_most_urgent_witness:
  "map al_Kind (fresh_alerts (snd (run_due zero_tracker [watch 0, watch 10])) sample_block 10
     (3301 * second)) = [AlertPrimary, AlertFiveMinute]
   \<and> fst (Due (snd (run_due zero_tracker [watch 0, watch 10])) sample_block 10 sample_cycle
       (3301 * second) True) =
     Inr [last (fresh_alerts (snd (run_due zero_tracker [watch 0, watch 10])) sample_block 10
       (3301 * second))]"
proof (rule conjI)
  have sc: "scans (snd (run_due zero_tracker [watch 0, watch 10])) sample_block 10 sample_cycle
      (3301 * second)" by code_simp
  show k: "map al_Kind (fresh_alerts (snd (run_due zero_tracker [watch 0, watch 10]))
      sample_block 10 (3301 * second)) = [AlertPrimary, AlertFiveMinute]" by code_simp
  then have "fresh_alerts (snd (run_due zero_tracker [watch 0, watch 10])) sample_block 10
      (3301 * second) \<noteq> []" by auto
  with conjunct1 [OF due_returns_most_urgent [OF refl sc, of True]]
  show "fst (Due (snd (run_due zero_tracker [watch 0, watch 10])) sample_block 10 sample_cycle
       (3301 * second) True) =
     Inr [last (fresh_alerts (snd (run_due zero_tracker [watch 0, watch 10])) sample_block 10
       (3301 * second))]"
    by (simp add: Let_def)
qed

end
