(* ===== verification/Calendar.thy ===== *)
theory Calendar
  imports GoTime
begin

text \<open>
  The proleptic Gregorian calendar and the two layouts the program formats and parses:
  local dates (\<open>2006-01-02\<close>), which are keys of the usage and bonus tables, and the stored
  timestamps (\<open>RFC3339Nano\<close> in UTC), which SQL compares as text. Day numbers count from
  1970-01-01. Years outside 0 to 9999 print with four digits here and are not parsed.
\<close>

section \<open>Day numbers and civil dates\<close>

definition leap_year :: "int \<Rightarrow> bool" where
  "leap_year y \<longleftrightarrow> y mod 4 = 0 \<and> (y mod 100 \<noteq> 0 \<or> y mod 400 = 0)"

definition year_length :: "int \<Rightarrow> int" where
  "year_length y = (if leap_year y then 366 else 365)"

definition days_before_year :: "int \<Rightarrow> int" where
  "days_before_year y = (let p = y - 1 in 365 * p + p div 4 - p div 100 + p div 400)"

text \<open>The year and the day within it, from the days since 0001-01-01, by cutting off cycles
  of 400, 100 and 4 years and single years.\<close>

definition year_and_yday :: "int \<Rightarrow> int \<times> int" where
  "year_and_yday d =
     (let n400 = d div 146097; d1 = d mod 146097;
          c = d1 div 36524; n100 = c - c div 4; d2 = d1 - 36524 * n100;
          n4 = d2 div 1461; d3 = d2 - 1461 * n4;
          e = d3 div 365; n1 = e - e div 4; d4 = d3 - 365 * n1
      in (400 * n400 + 100 * n100 + 4 * n4 + n1 + 1, d4))"

definition month_lengths :: "int \<Rightarrow> int list" where
  "month_lengths y = [31, if leap_year y then 29 else 28, 31, 30, 31, 30, 31, 31, 30, 31, 30, 31]"

fun month_and_day :: "int list \<Rightarrow> int \<Rightarrow> int \<times> int" where
  "month_and_day [] k = (1, k + 1)"
| "month_and_day (l # ls) k =
     (if k < l then (1, k + 1) else (case month_and_day ls (k - l) of (m, d) \<Rightarrow> (m + 1, d)))"

definition epoch_days :: int where "epoch_days = 719162"

definition civil_of_day :: "int \<Rightarrow> int \<times> int \<times> int" where
  "civil_of_day n = (case year_and_yday (n + epoch_days) of
     (y, k) \<Rightarrow> (case month_and_day (month_lengths y) k of (m, d) \<Rightarrow> (y, m, d)))"

definition day_of_civil :: "int \<Rightarrow> int \<Rightarrow> int \<Rightarrow> int" where
  "day_of_civil y m d =
     days_before_year y + sum_list (take (nat (m - 1)) (month_lengths y)) + (d - 1) - epoch_days"

lemma cycle_split:
  fixes a b c e :: int
  assumes "0 \<le> b" "b \<le> 3" "0 \<le> c" "c \<le> 24" "0 \<le> e" "e \<le> 3"
  shows "days_before_year (400 * a + 100 * b + 4 * c + e + 1) =
      146097 * a + 36524 * b + 1461 * c + 365 * e"
    and "leap_year (400 * a + 100 * b + 4 * c + e + 1) \<longleftrightarrow> e = 3 \<and> (c \<noteq> 24 \<or> b = 3)"
proof -
  have q4: "(400 * a + 100 * b + 4 * c + e) div 4 = 100 * a + 25 * b + c"
    and q100: "(400 * a + 100 * b + 4 * c + e) div 100 = 4 * a + b"
    and q400: "(400 * a + 100 * b + 4 * c + e) div 400 = a"
    using assms by (simp_all add: int_div_pos_eq)
  show "days_before_year (400 * a + 100 * b + 4 * c + e + 1) =
      146097 * a + 36524 * b + 1461 * c + 365 * e"
    by (simp add: days_before_year_def q4 q100 q400)
  have m4: "(400 * a + 100 * b + 4 * c + e + 1) mod 4 = 0 \<longleftrightarrow> e = 3"
  proof -
    have "(400 * a + 100 * b + 4 * c + e + 1) mod 4 = (e + 1) mod 4"
      using mod_mult_self1 [of "e + 1" "100 * a + 25 * b + c" 4] by (simp add: algebra_simps)
    moreover have "(e + 1) mod 4 = (if e = 3 then 0 else e + 1)"
      using assms by auto
    ultimately show ?thesis using assms by auto
  qed
  have m100: "(400 * a + 100 * b + 4 * c + e + 1) mod 100 = 0 \<longleftrightarrow> 4 * c + e = 99"
  proof -
    have "(400 * a + 100 * b + 4 * c + e + 1) mod 100 = (4 * c + e + 1) mod 100"
      using mod_mult_self1 [of "4 * c + e + 1" "4 * a + b" 100] by (simp add: algebra_simps)
    moreover have "(4 * c + e + 1) mod 100 = (if 4 * c + e = 99 then 0 else 4 * c + e + 1)"
      using assms by auto
    ultimately show ?thesis using assms by auto
  qed
  have m400: "(400 * a + 100 * b + 4 * c + e + 1) mod 400 = 0 \<longleftrightarrow> 100 * b + 4 * c + e = 399"
  proof -
    have "(400 * a + 100 * b + 4 * c + e + 1) mod 400 = (100 * b + 4 * c + e + 1) mod 400"
      using mod_mult_self1 [of "100 * b + 4 * c + e + 1" a 400] by (simp add: algebra_simps)
    moreover have "(100 * b + 4 * c + e + 1) mod 400
        = (if 100 * b + 4 * c + e = 399 then 0 else 100 * b + 4 * c + e + 1)"
      using assms by auto
    ultimately show ?thesis using assms by auto
  qed
  show "leap_year (400 * a + 100 * b + 4 * c + e + 1) \<longleftrightarrow> e = 3 \<and> (c \<noteq> 24 \<or> b = 3)"
    unfolding leap_year_def m4 m100 m400 using assms by auto
qed

lemma year_and_yday_correct:
  assumes "year_and_yday d = (y, k)"
  shows "days_before_year y + k = d" and "0 \<le> k" and "k < year_length y"
proof -
  define a where "a = d div 146097"
  define d1 where "d1 = d mod 146097"
  define b where "b = d1 div 36524 - d1 div 36524 div 4"
  define d2 where "d2 = d1 - 36524 * b"
  define c where "c = d2 div 1461"
  define d3 where "d3 = d2 - 1461 * c"
  define e where "e = d3 div 365 - d3 div 365 div 4"
  have y: "y = 400 * a + 100 * b + 4 * c + e + 1" and k: "k = d3 - 365 * e"
  proof -
    have "year_and_yday d = (400 * a + 100 * b + 4 * c + e + 1, d3 - 365 * e)"
      by (simp only: year_and_yday_def Let_def a_def d1_def b_def d2_def c_def d3_def e_def)
    with assms show "y = 400 * a + 100 * b + 4 * c + e + 1" "k = d3 - 365 * e" by (simp_all only: prod.inject)
  qed
  have d: "d = 146097 * a + d1" by (simp add: a_def d1_def)
  have d1: "0 \<le> d1" "d1 \<le> 146096" by (simp_all add: d1_def)
  have b: "0 \<le> b" "b \<le> 3" "0 \<le> d2" "d2 \<le> 36524" "b < 3 \<longrightarrow> d2 < 36524"
  proof -
    define q where "q = d1 div 36524"
    have q: "36524 * q \<le> d1" "d1 < 36524 * q + 36524" "0 \<le> q" "q \<le> 4"
      using d1 by (auto simp: q_def)
    have "q div 4 = (if q = 4 then 1 else 0)" using q by auto
    then have "b = (if q = 4 then 3 else q)" by (simp add: b_def q_def)
    with q d1 show "0 \<le> b" "b \<le> 3" "0 \<le> d2" "d2 \<le> 36524" "b < 3 \<longrightarrow> d2 < 36524"
      by (auto simp: d2_def split: if_splits)
  qed
  have c: "0 \<le> c" "c \<le> 24" "0 \<le> d3" "d3 \<le> 1460" "c = 24 \<and> b < 3 \<longrightarrow> d3 < 1460"
  proof -
    have q: "1461 * c \<le> d2" "d2 < 1461 * c + 1461" "0 \<le> c"
      using b(3) by (auto simp: c_def)
    with b show "0 \<le> c" "c \<le> 24" "0 \<le> d3" "d3 \<le> 1460" "c = 24 \<and> b < 3 \<longrightarrow> d3 < 1460"
      by (auto simp: d3_def)
  qed
  have e: "0 \<le> e" "e \<le> 3" "0 \<le> k" "k \<le> 365" "e < 3 \<longrightarrow> k < 365" "d3 < 1460 \<longrightarrow> k < 365"
  proof -
    define q where "q = d3 div 365"
    have q: "365 * q \<le> d3" "d3 < 365 * q + 365" "0 \<le> q" "q \<le> 4"
      using c(3,4) by (auto simp: q_def)
    have "q div 4 = (if q = 4 then 1 else 0)" using q by auto
    then have "e = (if q = 4 then 3 else q)" by (simp add: e_def q_def)
    with q c(3,4) show "0 \<le> e" "e \<le> 3" "0 \<le> k" "k \<le> 365" "e < 3 \<longrightarrow> k < 365" "d3 < 1460 \<longrightarrow> k < 365"
      by (auto simp: k split: if_splits)
  qed
  note split = cycle_split [OF b(1,2) c(1,2) e(1,2), of a]
  show "days_before_year y + k = d"
    unfolding y split(1) k d d3_def d2_def by simp
  show "0 \<le> k" by (rule e)
  show "k < year_length y"
    unfolding year_length_def y split(2) using e b c by auto
qed

lemma sum_month_lengths: "sum_list (month_lengths y) = year_length y"
  by (simp add: month_lengths_def year_length_def)

lemma month_and_day_correct:
  assumes "month_and_day ls k = (m, d)" and "0 \<le> k" and "k < sum_list ls" and "\<forall>l\<in>set ls. 0 < l"
  shows "1 \<le> m \<and> m \<le> int (length ls) \<and> 1 \<le> d \<and> d \<le> ls ! nat (m - 1) \<and>
    sum_list (take (nat (m - 1)) ls) + (d - 1) = k"
  using assms
proof (induction ls arbitrary: k m d)
  case Nil
  then show ?case by simp
next
  case (Cons l ls)
  show ?case
  proof (cases "k < l")
    case True
    with Cons.prems show ?thesis by auto
  next
    case False
    obtain m' d' where md: "month_and_day ls (k - l) = (m', d')" by fastforce
    with False Cons.prems have eq: "m = m' + 1" "d = d'" by auto
    from False Cons.prems have "0 \<le> k - l" "k - l < sum_list ls" "\<forall>l\<in>set ls. 0 < l" by auto
    from Cons.IH [OF md this]
    have IH: "1 \<le> m'" "m' \<le> int (length ls)" "1 \<le> d'" "d' \<le> ls ! nat (m' - 1)"
        "sum_list (take (nat (m' - 1)) ls) + (d' - 1) = k - l" by auto
    then have "nat m' = Suc (nat (m' - 1))" by linarith
    with IH show ?thesis by (simp add: eq)
  qed
qed

theorem day_of_civil_of_day:
  assumes "civil_of_day n = (y, m, d)"
  shows "day_of_civil y m d = n" and "1 \<le> m" and "m \<le> 12" and "1 \<le> d"
    and "d \<le> month_lengths y ! nat (m - 1)"
proof -
  obtain k where yk: "year_and_yday (n + epoch_days) = (y, k)"
    and md: "month_and_day (month_lengths y) k = (m, d)"
    using assms by (auto simp: civil_of_day_def split: prod.splits)
  note yk' = year_and_yday_correct [OF yk]
  have len: "length (month_lengths y) = 12" and pos: "\<forall>l\<in>set (month_lengths y). 0 < l"
    by (simp_all add: month_lengths_def)
  have "k < sum_list (month_lengths y)" using yk'(3) by (simp add: sum_month_lengths)
  from month_and_day_correct [OF md yk'(2) this pos] len yk'(1)
  show "day_of_civil y m d = n" and "1 \<le> m" and "m \<le> 12" and "1 \<le> d"
    and "d \<le> month_lengths y ! nat (m - 1)"
    by (simp_all add: day_of_civil_def)
qed

section \<open>Decimal digits\<close>

definition digit :: "int \<Rightarrow> char" where
  "digit k = char_of (nat (48 + k mod 10))"

definition is_digit :: "char \<Rightarrow> bool" where
  "is_digit c \<longleftrightarrow> (48::nat) \<le> of_char c \<and> of_char c \<le> (57::nat)"

definition digit_value :: "char \<Rightarrow> int" where
  "digit_value c = int (of_char c) - 48"

lemma of_char_digit: "(of_char (digit k) :: nat) = nat (48 + k mod 10)"
proof -
  have "nat (48 + k mod 10) < 256"
    using pos_mod_bound [of 10 k] by linarith
  then show ?thesis by (simp add: digit_def)
qed

lemma digit_value_digit [simp]: "digit_value (digit k) = k mod 10"
  by (simp add: digit_value_def of_char_digit)

lemma is_digit_digit [simp]: "is_digit (digit k)"
proof -
  have "0 \<le> k mod 10" "k mod 10 < 10" by simp_all
  then show ?thesis
    unfolding is_digit_def of_char_digit by linarith
qed

definition digits2 :: "int \<Rightarrow> string" where
  "digits2 n = [digit (n div 10), digit n]"

definition digits4 :: "int \<Rightarrow> string" where
  "digits4 n = [digit (n div 1000), digit (n div 100), digit (n div 10), digit n]"

lemma two_digits: "0 \<le> n \<Longrightarrow> n < 100 \<Longrightarrow> n div 10 mod 10 * 10 + n mod 10 = (n::int)"
proof -
  assume "0 \<le> n" "n < 100"
  then have "n div 10 mod 10 = n div 10" by (intro mod_pos_pos_trivial) auto
  then show ?thesis by simp
qed

lemma four_digits:
  fixes n :: int
  assumes "0 \<le> n" "n < 10000"
  shows "n div 1000 mod 10 * 1000 + n div 100 mod 10 * 100 + n div 10 mod 10 * 10 + n mod 10 = n"
proof -
  have "n div 1000 mod 10 = n div 1000" using assms by auto
  moreover have "n div 1000 = n div 100 div 10" "n div 100 = n div 10 div 10"
    by (simp_all add: zdiv_zmult2_eq [symmetric])
  moreover have "x div 10 * 10 + x mod 10 = x" for x :: int by simp
  ultimately show ?thesis
    by (smt (verit, ccfv_threshold))
qed

section \<open>Local dates\<close>

definition format_date :: "int \<Rightarrow> string" where
  "format_date n = (case civil_of_day n of (y, m, d) \<Rightarrow>
     digits4 y @ [CHR ''-''] @ digits2 m @ [CHR ''-''] @ digits2 d)"

fun parse_date :: "string \<Rightarrow> int option" where
  "parse_date [a, b, c, d, s, e, f, u, g, h] =
     (if list_all is_digit [a, b, c, d, e, f, g, h] \<and> s = CHR ''-'' \<and> u = CHR ''-''
      then (let y = digit_value a * 1000 + digit_value b * 100 + digit_value c * 10 + digit_value d;
                m = digit_value e * 10 + digit_value f;
                k = digit_value g * 10 + digit_value h
            in if 1 \<le> m \<and> m \<le> 12 \<and> 1 \<le> k \<and> k \<le> month_lengths y ! nat (m - 1)
               then Some (day_of_civil y m k) else None)
      else None)"
| "parse_date _ = None"

definition printable_day :: "int \<Rightarrow> bool" where
  "printable_day n \<longleftrightarrow> 0 \<le> fst (civil_of_day n) \<and> fst (civil_of_day n) < 10000"

lemma parse_format_date: "printable_day n \<Longrightarrow> parse_date (format_date n) = Some n"
proof -
  assume p: "printable_day n"
  obtain y m d where c: "civil_of_day n = (y, m, d)" by (metis prod_cases3)
  note civil = day_of_civil_of_day [OF c]
  have "\<forall>l\<in>set (month_lengths y). l \<le> 31" and "length (month_lengths y) = 12"
    by (simp_all add: month_lengths_def)
  moreover have "nat (m - 1) < 12" using civil(2,3) by linarith
  ultimately have "month_lengths y ! nat (m - 1) \<le> 31"
    by (metis nth_mem)
  then have d: "0 \<le> d" "d < 100" using civil(4,5) by simp_all
  have m: "0 \<le> m" "m < 100" using civil(2,3) by simp_all
  have y: "0 \<le> y" "y < 10000" using p c by (simp_all add: printable_day_def)
  have fmt: "format_date n = [digit (y div 1000), digit (y div 100), digit (y div 10), digit y,
      CHR ''-'', digit (m div 10), digit m, CHR ''-'', digit (d div 10), digit d]"
    by (simp add: format_date_def c digits4_def digits2_def)
  show ?thesis
    unfolding fmt parse_date.simps digit_value_digit four_digits [OF y] two_digits [OF m]
      two_digits [OF d] Let_def
    using civil by simp
qed

definition weekday_of_date :: "string \<Rightarrow> weekday option" where
  "weekday_of_date s = map_option weekday_of_day (parse_date s)"

text \<open>\<open>now.Format("2006-01-02")\<close> in the location of \<open>now\<close>.\<close>

definition local_date :: "location \<Rightarrow> time \<Rightarrow> string" where
  "local_date loc t = format_date (local_day loc t)"

section \<open>Stored timestamps\<close>

text \<open>The fraction of a second without its trailing zeros, as \<open>RFC3339Nano\<close> prints it.\<close>

definition fraction_digits :: "int \<Rightarrow> string" where
  "fraction_digits ns = map (\<lambda>i. digit (ns div 10 ^ (8 - i))) [0..<9]"

definition fraction_text :: "int \<Rightarrow> string" where
  "fraction_text ns =
     (let f = rev (dropWhile (\<lambda>c. c = CHR ''0'') (rev (fraction_digits ns)))
      in if f = [] then [] else CHR ''.'' # f)"

definition format_time :: "time \<Rightarrow> string" where
  "format_time t =
     (let s = t div second
      in format_date (t div day) @ ''T'' @ digits2 (s div 3600 mod 24) @ '':''
         @ digits2 (s div 60 mod 60) @ '':'' @ digits2 (s mod 60)
         @ fraction_text (t mod second) @ ''Z'')"

end
