(* ===== verification/AgentPolicyStore.thy ===== *)
theory AgentPolicyStore
  imports Calendar Policy "HOL-Library.Multiset"
begin

text \<open>
  The agent's durable state (\<open>agent/storage/store.go\<close> and its migrations) and the policy part
  of it (\<open>agent/storage/policy.go\<close>). A table is the list of its rows, a table restricted to one
  row by \<open>CHECK (singleton_id = 1)\<close> an option. A timestamp column holds \<open>formatTime\<close> of an
  instant; it is kept as the instant, and read through \<open>format_time\<close> where SQLite orders by it.
  Every operation takes \<open>io\<close>, whether the database engine serves its statements: when it does
  not, the transaction rolls back and the operation returns \<open>DbFailure\<close>.
\<close>

section \<open>Data\<close>

record StoredRoutine =
  sr_ID :: string
  sr_Name :: string
  sr_Days :: "weekday \<Rightarrow> bool"
  sr_Start :: duration
  sr_End :: duration
  sr_Enabled :: bool

record PolicySnapshot =
  ps_Revision :: int
  ps_MonitoringPaused :: bool
  ps_ManualBlock :: bool
  ps_WarningMinutes :: int
  ps_LocalPasswordVerifier :: string
  ps_WeeklyQuota :: "weekday \<Rightarrow> duration"
  ps_Routines :: "StoredRoutine list"
  ps_UpdatedAt :: time

record DailyUsage =
  du_LocalDate :: string
  du_SecondsUsed :: int
  du_CheckpointAt :: time

record Bonus =
  bo_UUID :: string
  bo_LocalDate :: string
  bo_Seconds :: int
  bo_Origin :: string
  bo_CreatedAt :: time

record PendingEvent =
  pe_UUID :: string
  pe_Kind :: string
  pe_PayloadJSON :: string
  pe_CreatedAt :: time
  pe_RetryCount :: int

record ConfirmedSessionState =
  cs_Revision :: int
  cs_SessionID :: string
  cs_LocalDate :: string
  cs_RemainingSeconds :: int
  cs_UsageSeconds :: int
  cs_ConfirmedAt :: time

record PendingControlEffect =
  ce_CommandID :: string
  ce_Revision :: int
  ce_Kind :: string
  ce_ReceivedAt :: time

text \<open>The rows of \<open>policy_state\<close>, \<open>routine\<close> and \<open>applied_command\<close>.\<close>

record PolicyRow =
  pr_revision :: int
  pr_monitoring_paused :: int
  pr_manual_block :: int
  pr_warning_minutes :: int
  pr_local_password_verifier :: string
  pr_updated_at :: time

record RoutineRow =
  rr_id :: string
  rr_name :: string
  rr_start_second :: int
  rr_end_second :: int
  rr_enabled :: int

record AppliedRow =
  ap_id :: string
  ap_applied_at :: time

record Database =
  policy_state :: "PolicyRow option"
  weekly_quota :: "(weekday \<times> int) list"
  routine :: "RoutineRow list"
  routine_day :: "(string \<times> weekday) list"
  daily_usage :: "DailyUsage list"
  bonus :: "Bonus list"
  pending_event :: "PendingEvent list"
  applied_command :: "AppliedRow list"
  confirmed_session_state :: "ConfirmedSessionState option"
  enrollment :: "(string \<times> string) option"
  pending_control_effect :: "PendingControlEffect option"

definition empty_database :: Database where
  "empty_database = \<lparr>policy_state = None, weekly_quota = [], routine = [], routine_day = [],
     daily_usage = [], bonus = [], pending_event = [], applied_command = [],
     confirmed_session_state = None, enrollment = None, pending_control_effect = None\<rparr>"

text \<open>\<open>hasCachedPolicy\<close> and \<open>hasConfirmedState\<close> are the constructors of the options.\<close>

record Store =
  st_db :: Database
  st_cachedPolicy :: "PolicySnapshot option"
  st_confirmed :: "ConfirmedSessionState option"

datatype StoreError =
    DbFailure
  | ErrNoPolicy
  | ErrStalePolicy int int
  | NegativeRevision | NegativeWarningMinutes | UpdatedTimeNotSet | InvalidQuota weekday
  | RoutineUnnamed | DuplicateRoutine string | RoutineTimes string
  | QuotaCount nat | UnknownRoutineDay string
  | InvalidLocalDate string | InvalidUsage | InvalidBonus | InvalidEvent | UUIDMismatch
  | InvalidLimit | EmptyUUID | DuplicateEvent string | RetryCountMismatch nat nat
  | InvalidConfirmedState | InvalidControlEffect | InvalidCommand
  | InvalidElapsed | InvalidCheckpointInterval | TimeNotSet | InvalidMinimumUsage
  | InvalidEnrollment

definition boolInt :: "bool \<Rightarrow> int" where
  "boolInt value = (if value then 1 else 0)"

section \<open>Validation\<close>

fun validate_stored_routines :: "string set \<Rightarrow> StoredRoutine list \<Rightarrow> StoreError option" where
  "validate_stored_routines ids [] = None"
| "validate_stored_routines ids (r # rs) =
     (if sr_ID r = [] \<or> sr_Name r = [] then Some RoutineUnnamed
      else if sr_ID r \<in> ids then Some (DuplicateRoutine (sr_ID r))
      else if sr_Start r < 0 \<or> 24 * hour \<le> sr_Start r \<or> go_mod (sr_Start r) second \<noteq> 0
           \<or> sr_End r < 0 \<or> 24 * hour \<le> sr_End r \<or> go_mod (sr_End r) second \<noteq> 0
      then Some (RoutineTimes (sr_ID r))
      else validate_stored_routines (insert (sr_ID r) ids) rs)"

definition validatePolicy :: "PolicySnapshot \<Rightarrow> StoreError option" where
  "validatePolicy p =
     (if ps_Revision p < 0 then Some NegativeRevision
      else if ps_WarningMinutes p < 0 then Some NegativeWarningMinutes
      else if is_zero (ps_UpdatedAt p) then Some UpdatedTimeNotSet
      else case find (\<lambda>d. ps_WeeklyQuota p d < 0 \<or> go_mod (ps_WeeklyQuota p d) second \<noteq> 0) weekdays of
          Some d \<Rightarrow> Some (InvalidQuota d)
        | None \<Rightarrow> validate_stored_routines {} (ps_Routines p))"

section \<open>Loading\<close>

fun load_days :: "(string \<times> weekday) list \<Rightarrow> StoredRoutine list
    \<Rightarrow> StoreError + StoredRoutine list" where
  "load_days [] rs = Inr rs"
| "load_days ((rid, d) # ds) rs =
     (if tbl_has sr_ID rid rs
      then load_days ds (tbl_update (\<lambda>r. sr_ID r = rid)
             (\<lambda>r. r\<lparr>sr_Days := (sr_Days r)(d := True)\<rparr>) rs)
      else Inl (UnknownRoutineDay rid))"

definition load_routine :: "RoutineRow \<Rightarrow> StoredRoutine" where
  "load_routine row = \<lparr>sr_ID = rr_id row, sr_Name = rr_name row, sr_Days = (\<lambda>_. False),
     sr_Start = seconds_duration (rr_start_second row),
     sr_End = seconds_duration (rr_end_second row), sr_Enabled = rr_enabled row \<noteq> 0\<rparr>"

definition load_quota :: "(weekday \<times> int) list \<Rightarrow> weekday \<Rightarrow> duration" where
  "load_quota rows = fold (\<lambda>(d, seconds) q. q(d := seconds_duration seconds)) rows (\<lambda>_. 0)"

definition loadPolicyFromDatabase :: "Database \<Rightarrow> StoreError + PolicySnapshot" where
  "loadPolicyFromDatabase db =
     (case policy_state db of
        None \<Rightarrow> Inl ErrNoPolicy
      | Some row \<Rightarrow>
          (let quotaRows = sort_key fst (weekly_quota db)
           in if length quotaRows \<noteq> 7 then Inl (QuotaCount (length quotaRows))
              else case load_days (sort (routine_day db))
                          (map load_routine (sort_key rr_id (routine db))) of
                     Inl e \<Rightarrow> Inl e
                   | Inr routines \<Rightarrow>
                       Inr \<lparr>ps_Revision = pr_revision row,
                         ps_MonitoringPaused = pr_monitoring_paused row \<noteq> 0,
                         ps_ManualBlock = pr_manual_block row \<noteq> 0,
                         ps_WarningMinutes = pr_warning_minutes row,
                         ps_LocalPasswordVerifier = pr_local_password_verifier row,
                         ps_WeeklyQuota = load_quota quotaRows, ps_Routines = routines,
                         ps_UpdatedAt = pr_updated_at row\<rparr>))"

definition LoadPolicy :: "bool \<Rightarrow> Store \<Rightarrow> StoreError + PolicySnapshot" where
  "LoadPolicy io s = (if io then loadPolicyFromDatabase (st_db s) else Inl DbFailure)"

definition CurrentPolicy :: "Store \<Rightarrow> StoreError + PolicySnapshot" where
  "CurrentPolicy s = (case st_cachedPolicy s of None \<Rightarrow> Inl ErrNoPolicy | Some p \<Rightarrow> Inr p)"

definition refreshPolicyCache :: "bool \<Rightarrow> Store \<Rightarrow> (StoreError + unit) \<times> Store" where
  "refreshPolicyCache io s =
     (case LoadPolicy io s of
        Inr p \<Rightarrow> (Inr (), s\<lparr>st_cachedPolicy := Some p\<rparr>)
      | Inl e \<Rightarrow> if e = ErrNoPolicy then (Inr (), s\<lparr>st_cachedPolicy := None\<rparr>) else (Inl e, s))"

section \<open>Replacing\<close>

definition quota_rows :: "(weekday \<Rightarrow> duration) \<Rightarrow> (weekday \<times> int) list" where
  "quota_rows q = map (\<lambda>d. (d, go_div (q d) second)) weekdays"

definition routine_row :: "StoredRoutine \<Rightarrow> RoutineRow" where
  "routine_row r = \<lparr>rr_id = sr_ID r, rr_name = sr_Name r,
     rr_start_second = go_div (sr_Start r) second, rr_end_second = go_div (sr_End r) second,
     rr_enabled = boolInt (sr_Enabled r)\<rparr>"

definition day_rows :: "StoredRoutine \<Rightarrow> (string \<times> weekday) list" where
  "day_rows r = map (Pair (sr_ID r)) (filter (sr_Days r) weekdays)"

definition policy_row :: "PolicySnapshot \<Rightarrow> PolicyRow" where
  "policy_row p = \<lparr>pr_revision = ps_Revision p,
     pr_monitoring_paused = boolInt (ps_MonitoringPaused p),
     pr_manual_block = boolInt (ps_ManualBlock p), pr_warning_minutes = ps_WarningMinutes p,
     pr_local_password_verifier = ps_LocalPasswordVerifier p, pr_updated_at = ps_UpdatedAt p\<rparr>"

definition write_policy :: "PolicySnapshot \<Rightarrow> StoredRoutine list \<Rightarrow> Database \<Rightarrow> Database" where
  "write_policy p routines db = db\<lparr>policy_state := Some (policy_row p),
     weekly_quota := quota_rows (ps_WeeklyQuota p), routine := map routine_row routines,
     routine_day := concat (map day_rows routines)\<rparr>"

definition policyRevision :: "Database \<Rightarrow> int \<times> bool" where
  "policyRevision db = (case policy_state db of None \<Rightarrow> (0, False) | Some row \<Rightarrow> (pr_revision row, True))"

definition ReplacePolicy :: "bool \<Rightarrow> PolicySnapshot \<Rightarrow> Store \<Rightarrow> (StoreError + unit) \<times> Store" where
  "ReplacePolicy io p s =
     (case validatePolicy p of
        Some e \<Rightarrow> (Inl e, s)
      | None \<Rightarrow>
          if \<not> io then (Inl DbFailure, s)
          else (let routines = sort_key sr_ID (ps_Routines p);
                    (currentRevision, exists) = policyRevision (st_db s)
                in if exists \<and> ps_Revision p < currentRevision
                   then (Inl (ErrStalePolicy (ps_Revision p) currentRevision), s)
                   else if exists \<and> ps_Revision p = currentRevision then (Inr (), s)
                   else (Inr (), s\<lparr>st_db := write_policy p routines (st_db s),
                                    st_cachedPolicy := Some (p\<lparr>ps_Routines := routines\<rparr>)\<rparr>)))"

section \<open>What validation guarantees\<close>

definition whole_seconds :: "duration \<Rightarrow> bool" where
  "whole_seconds q \<longleftrightarrow> 0 \<le> q \<and> q mod second = 0"

lemma whole_seconds_roundtrip:
  "whole_seconds q \<Longrightarrow> in64 q \<Longrightarrow> seconds_duration (go_div q second) = q"
  unfolding seconds_duration_def whole_seconds_def
  by (simp add: wrap_simps) (metis add.right_neutral div_mult_mod_eq wrap64_id)

definition stored_routine_ok :: "StoredRoutine \<Rightarrow> bool" where
  "stored_routine_ok r \<longleftrightarrow> sr_ID r \<noteq> [] \<and> sr_Name r \<noteq> []
     \<and> whole_seconds (sr_Start r) \<and> sr_Start r < day \<and> whole_seconds (sr_End r) \<and> sr_End r < day"

lemma validate_stored_routines_None:
  "validate_stored_routines ids rs = None \<longleftrightarrow>
     (\<forall>r\<in>set rs. stored_routine_ok r) \<and> distinct (map sr_ID rs) \<and> sr_ID ` set rs \<inter> ids = {}"
proof (induction rs arbitrary: ids)
  case (Cons r rs)
  have "stored_routine_ok r \<longleftrightarrow> \<not> (sr_ID r = [] \<or> sr_Name r = []) \<and>
      \<not> (sr_Start r < 0 \<or> 24 * hour \<le> sr_Start r \<or> go_mod (sr_Start r) second \<noteq> 0
         \<or> sr_End r < 0 \<or> 24 * hour \<le> sr_End r \<or> go_mod (sr_End r) second \<noteq> 0)"
    by (auto simp: stored_routine_ok_def whole_seconds_def day_def)
  with Cons.IH [of "insert (sr_ID r) ids"] show ?case by auto
qed simp

lemma validatePolicy_None:
  "validatePolicy p = None \<longleftrightarrow>
     0 \<le> ps_Revision p \<and> 0 \<le> ps_WarningMinutes p \<and> \<not> is_zero (ps_UpdatedAt p)
     \<and> (\<forall>d. whole_seconds (ps_WeeklyQuota p d))
     \<and> (\<forall>r\<in>set (ps_Routines p). stored_routine_ok r) \<and> distinct (map sr_ID (ps_Routines p))"
proof -
  have "find (\<lambda>d. ps_WeeklyQuota p d < 0 \<or> go_mod (ps_WeeklyQuota p d) second \<noteq> 0) weekdays = None
      \<longleftrightarrow> (\<forall>d. whole_seconds (ps_WeeklyQuota p d))"
    unfolding find_None_iff set_weekdays whole_seconds_def
    by (metis UNIV_I go_mod_nonneg not_le second_pos)
  then show ?thesis
    by (auto simp: validatePolicy_def validate_stored_routines_None split: option.splits)
qed

section \<open>Reading back what was written\<close>

text \<open>Loading the day rows sets exactly the days of the rows, in whatever order they come.\<close>

lemma load_days_set:
  "fst ` set ds \<subseteq> sr_ID ` set rs \<Longrightarrow>
     load_days ds rs = Inr (map (\<lambda>r. r\<lparr>sr_Days := \<lambda>d. sr_Days r d \<or> (sr_ID r, d) \<in> set ds\<rparr>) rs)"
proof (induction ds arbitrary: rs)
  case Nil
  show ?case by (simp add: map_idI)
next
  case (Cons x ds)
  obtain rid d where x: "x = (rid, d)" by (cases x)
  let ?rs = "tbl_update (\<lambda>r. sr_ID r = rid) (\<lambda>r. r\<lparr>sr_Days := (sr_Days r)(d := True)\<rparr>) rs"
  have "map sr_ID ?rs = map sr_ID rs"
    by (simp add: tbl_update_def)
  then have ids: "sr_ID ` set ?rs = sr_ID ` set rs"
    by (metis set_map)
  have "load_days (x # ds) rs = load_days ds ?rs"
    using Cons.prems by (auto simp: x tbl_has_iff)
  also have "\<dots> = Inr (map (\<lambda>r. r\<lparr>sr_Days := \<lambda>d. sr_Days r d \<or> (sr_ID r, d) \<in> set ds\<rparr>) ?rs)"
    using Cons.prems by (intro Cons.IH) (auto simp: ids)
  also have "\<dots> = Inr (map (\<lambda>r. r\<lparr>sr_Days := \<lambda>d. sr_Days r d \<or> (sr_ID r, d) \<in> set (x # ds)\<rparr>) rs)"
    by (auto simp: tbl_update_def x fun_eq_iff)
  finally show ?case .
qed

definition blank_days :: "StoredRoutine \<Rightarrow> StoredRoutine" where
  "blank_days r = r\<lparr>sr_Days := \<lambda>_. False\<rparr>"

lemma load_routine_row:
  "stored_routine_ok r \<Longrightarrow> load_routine (routine_row r) = blank_days r"
proof -
  assume ok: "stored_routine_ok r"
  have "in64 (sr_Start r)" "in64 (sr_End r)"
    using ok by (auto simp: stored_routine_ok_def whole_seconds_def in64_def duration_defs)
  with ok show ?thesis
    by (simp add: load_routine_def routine_row_def blank_days_def boolInt_def stored_routine_ok_def
        whole_seconds_roundtrip)
qed

lemma routines_roundtrip:
  assumes ok: "\<forall>r\<in>set rs. stored_routine_ok r" and sorted: "sorted (map sr_ID rs)"
    and dist: "distinct (map sr_ID rs)"
  shows "load_days (sort (concat (map day_rows rs)))
      (map load_routine (sort_key rr_id (map routine_row rs))) = Inr rs"
proof -
  have "rr_id \<circ> routine_row = sr_ID" by (simp add: fun_eq_iff routine_row_def)
  then have "sort_key rr_id (map routine_row rs) = map routine_row rs"
    using sorted by (intro sort_key_id_if_sorted) simp
  then have load: "map load_routine (sort_key rr_id (map routine_row rs)) = map blank_days rs"
    using ok by (simp add: load_routine_row)
  define D where "D = sort (concat (map day_rows rs))"
  have mem: "(sr_ID r, d) \<in> set D \<longleftrightarrow> sr_Days r d" if "r \<in> set rs" for r d
  proof -
    have "r' = r" if "r' \<in> set rs" "sr_ID r' = sr_ID r" for r'
      using dist that \<open>r \<in> set rs\<close> by (simp add: distinct_map inj_on_def)
    moreover have "(sr_ID r, d) \<in> set D \<longleftrightarrow> (\<exists>r'\<in>set rs. sr_ID r' = sr_ID r \<and> sr_Days r' d)"
      by (simp add: D_def day_rows_def image_iff) (metis (full_types))
    ultimately show ?thesis using that by blast
  qed
  have "fst ` set D \<subseteq> sr_ID ` set (map blank_days rs)"
    by (auto simp: D_def day_rows_def image_image blank_days_def)
  then have "load_days D (map blank_days rs) = Inr (map (\<lambda>r.
      r\<lparr>sr_Days := \<lambda>d. sr_Days r d \<or> (sr_ID r, d) \<in> set D\<rparr>) (map blank_days rs))"
    by (rule load_days_set)
  also have "\<dots> = Inr rs"
  proof -
    have "((\<lambda>r. r\<lparr>sr_Days := \<lambda>d. sr_Days r d \<or> (sr_ID r, d) \<in> set D\<rparr>) \<circ> blank_days) r = r"
      if "r \<in> set rs" for r
      using mem [OF that] by (cases r) (simp add: blank_days_def)
    then show ?thesis unfolding map_map sum.inject by (intro map_idI)
  qed
  finally show ?thesis by (simp only: load D_def)
qed

lemma quota_roundtrip:
  assumes "\<forall>d. whole_seconds (q d)" and "\<forall>d. in64 (q d)"
  shows "sort_key fst (quota_rows q) = quota_rows q" and "load_quota (quota_rows q) = q"
proof -
  show "sort_key fst (quota_rows q) = quota_rows q"
    by (rule sort_key_id_if_sorted) (simp add: quota_rows_def comp_def, code_simp)
  have "load_quota (quota_rows q) d = seconds_duration (go_div (q d) second)" for d
    by (cases d) (simp_all add: load_quota_def quota_rows_def weekdays_def)
  with assms show "load_quota (quota_rows q) = q"
    by (simp add: fun_eq_iff whole_seconds_roundtrip)
qed

text \<open>Go's \<open>time.Duration\<close> is a 64-bit integer.\<close>

definition quotas_in64 :: "PolicySnapshot \<Rightarrow> bool" where
  "quotas_in64 p \<longleftrightarrow> (\<forall>d. in64 (ps_WeeklyQuota p d))"

lemma load_write_policy:
  assumes "validatePolicy p = None" and "quotas_in64 p"
  shows "loadPolicyFromDatabase (write_policy p (sort_key sr_ID (ps_Routines p)) db) =
    Inr (p\<lparr>ps_Routines := sort_key sr_ID (ps_Routines p)\<rparr>)"
proof -
  let ?rs = "sort_key sr_ID (ps_Routines p)"
  have v: "\<forall>d. whole_seconds (ps_WeeklyQuota p d)" "\<forall>r\<in>set ?rs. stored_routine_ok r"
      "distinct (map sr_ID (ps_Routines p))"
    using assms(1) by (simp_all add: validatePolicy_None)
  have "mset (map sr_ID ?rs) = mset (map sr_ID (ps_Routines p))" by simp
  from mset_eq_imp_distinct_iff [OF this] v(3) have "distinct (map sr_ID ?rs)" by simp
  note rs = routines_roundtrip [OF v(2) sorted_sort_key this]
  note q = quota_roundtrip [OF v(1) assms(2) [unfolded quotas_in64_def]]
  have "length (quota_rows (ps_WeeklyQuota p)) = 7"
    by (simp add: quota_rows_def weekdays_def)
  then show ?thesis
    by (simp add: loadPolicyFromDatabase_def write_policy_def Let_def q rs policy_row_def
        boolInt_def)
qed

section \<open>Coherence of the cache\<close>

definition cache_coherent :: "Store \<Rightarrow> bool" where
  "cache_coherent s \<longleftrightarrow>
     (case loadPolicyFromDatabase (st_db s) of
        Inl e \<Rightarrow> e = ErrNoPolicy \<and> st_cachedPolicy s = None
      | Inr p \<Rightarrow> st_cachedPolicy s = Some p)"

lemma cache_coherent_refresh:
  "cache_coherent s \<Longrightarrow> refreshPolicyCache True s = (Inr (), s)"
  by (auto simp: cache_coherent_def refreshPolicyCache_def LoadPolicy_def split: sum.splits)

lemma ReplacePolicy_cases:
  obtains (error) e where "ReplacePolicy io p s = (Inl e, s)"
  | (same) "ReplacePolicy io p s = (Inr (), s)" "policyRevision (st_db s) = (ps_Revision p, True)"
      "validatePolicy p = None"
  | (replaced) "ReplacePolicy io p s = (Inr (), s\<lparr>
      st_db := write_policy p (sort_key sr_ID (ps_Routines p)) (st_db s),
      st_cachedPolicy := Some (p\<lparr>ps_Routines := sort_key sr_ID (ps_Routines p)\<rparr>)\<rparr>)"
      "validatePolicy p = None"
      "snd (policyRevision (st_db s)) \<Longrightarrow> fst (policyRevision (st_db s)) < ps_Revision p"
proof -
  consider e where "validatePolicy p = Some e" | "validatePolicy p = None" "\<not> io"
    | "validatePolicy p = None" "io" by (cases "validatePolicy p") auto
  then show ?thesis
  proof cases
    case 3
    obtain r ex where r: "policyRevision (st_db s) = (r, ex)" by fastforce
    consider "ex" "ps_Revision p < r" | "ex" "ps_Revision p = r" | "ex \<longrightarrow> r < ps_Revision p"
      by fastforce
    then show ?thesis
      by cases (rule error same replaced, auto simp: ReplacePolicy_def 3 r Let_def)+
  qed (rule error, simp add: ReplacePolicy_def)+
qed

lemma cache_coherent_replace:
  assumes "cache_coherent s" and "quotas_in64 p"
  shows "cache_coherent (snd (ReplacePolicy io p s))"
proof (cases rule: ReplacePolicy_cases [of io p s])
  case replaced
  then show ?thesis
    by (simp add: cache_coherent_def load_write_policy assms(2))
qed (simp_all add: assms(1))

end
