(* ===== verification/AgentStateStore.thy ===== *)
theory AgentStateStore
  imports AgentPolicyStore
begin

text \<open>
  The rest of the agent's durable state: usage checkpoints, bonuses and the event queue
  (\<open>agent/storage/state.go\<close>), the balance confirmed by the server (\<open>session_state.go\<close>), applied
  commands and remote bonuses (\<open>sync.go\<close>), control effects (\<open>control_effect.go\<close>), the enrollment
  binding (\<open>enrollment.go\<close>) and opening a database (\<open>store.go\<close>). Sums of seconds in the database
  are unbounded here, except that SQLite's \<open>SUM\<close> fails when it leaves 64 bits.
\<close>

section \<open>Validation\<close>

definition validateLocalDate :: "string \<Rightarrow> StoreError option" where
  "validateLocalDate localDate =
     (case parse_date localDate of
        None \<Rightarrow> Some (InvalidLocalDate localDate)
      | Some n \<Rightarrow> if format_date n \<noteq> localDate then Some (InvalidLocalDate localDate) else None)"

definition validateBonus :: "Bonus \<Rightarrow> StoreError option" where
  "validateBonus b =
     (if bo_UUID b = [] \<or> bo_Seconds b \<le> 0 \<or> bo_Origin b = [] \<or> is_zero (bo_CreatedAt b)
      then Some InvalidBonus else validateLocalDate (bo_LocalDate b))"

definition validateEvent :: "PendingEvent \<Rightarrow> StoreError option" where
  "validateEvent e =
     (if pe_UUID e = [] \<or> pe_Kind e = [] \<or> pe_PayloadJSON e = [] \<or> is_zero (pe_CreatedAt e)
         \<or> pe_RetryCount e < 0
      then Some InvalidEvent else None)"

definition validateConfirmedSessionState :: "ConfirmedSessionState \<Rightarrow> StoreError option" where
  "validateConfirmedSessionState c =
     (if cs_Revision c < 0 \<or> cs_SessionID c = [] \<or> 128 < length (cs_SessionID c)
         \<or> cs_RemainingSeconds c < 0 \<or> cs_UsageSeconds c < 0 \<or> is_zero (cs_ConfirmedAt c)
      then Some InvalidConfirmedState else validateLocalDate (cs_LocalDate c))"

section \<open>Daily usage\<close>

text \<open>The \<open>SET\<close> clause of the upsert, shared by checkpoints and confirmed states.\<close>

definition usage_merge :: "DailyUsage \<Rightarrow> DailyUsage \<Rightarrow> DailyUsage" where
  "usage_merge old excluded =
     old\<lparr>du_SecondsUsed := max (du_SecondsUsed old) (du_SecondsUsed excluded),
         du_CheckpointAt := (if du_SecondsUsed old \<le> du_SecondsUsed excluded
                             then du_CheckpointAt excluded else du_CheckpointAt old)\<rparr>"

interpretation usage_table: keyed_table du_LocalDate usage_merge
  by unfold_locales (simp add: usage_merge_def)

definition upsert_usage :: "DailyUsage \<Rightarrow> Database \<Rightarrow> Database" where
  "upsert_usage u db = db\<lparr>daily_usage := tbl_upsert du_LocalDate usage_merge u (daily_usage db)\<rparr>"

definition CheckpointUsage :: "bool \<Rightarrow> DailyUsage \<Rightarrow> Store \<Rightarrow> (StoreError + unit) \<times> Store" where
  "CheckpointUsage io usage s =
     (case validateLocalDate (du_LocalDate usage) of
        Some e \<Rightarrow> (Inl e, s)
      | None \<Rightarrow>
          if du_SecondsUsed usage < 0 \<or> is_zero (du_CheckpointAt usage) then (Inl InvalidUsage, s)
          else if \<not> io then (Inl DbFailure, s)
          else (Inr (), s\<lparr>st_db := upsert_usage usage (st_db s)\<rparr>))"

definition LoadDailyUsage :: "bool \<Rightarrow> string \<Rightarrow> Store \<Rightarrow> StoreError + DailyUsage" where
  "LoadDailyUsage io localDate s =
     (case validateLocalDate localDate of
        Some e \<Rightarrow> Inl e
      | None \<Rightarrow>
          if \<not> io then Inl DbFailure
          else (case tbl_find du_LocalDate localDate (daily_usage (st_db s)) of
                  None \<Rightarrow> Inr \<lparr>du_LocalDate = localDate, du_SecondsUsed = 0, du_CheckpointAt = zero_time\<rparr>
                | Some u \<Rightarrow> Inr u))"

section \<open>The confirmed balance\<close>

definition refreshConfirmedSessionState :: "bool \<Rightarrow> Store \<Rightarrow> (StoreError + unit) \<times> Store" where
  "refreshConfirmedSessionState io s =
     (if \<not> io then (Inl DbFailure, s)
      else case confirmed_session_state (st_db s) of
             None \<Rightarrow> (Inr (), s\<lparr>st_confirmed := None\<rparr>)
           | Some c \<Rightarrow>
               (case validateConfirmedSessionState c of
                  Some e \<Rightarrow> (Inl e, s)
                | None \<Rightarrow> (Inr (), s\<lparr>st_confirmed := Some c\<rparr>)))"

definition CurrentConfirmedSessionState :: "Store \<Rightarrow> ConfirmedSessionState option" where
  "CurrentConfirmedSessionState s = st_confirmed s"

text \<open>The local bonuses of the date whose upload event is still pending.\<close>

definition pending_local_bonus :: "string \<Rightarrow> Database \<Rightarrow> int" where
  "pending_local_bonus localDate db =
     sum_list (map bo_Seconds (filter (\<lambda>b. bo_LocalDate b = localDate \<and> bo_Origin b = ''local''
       \<and> tbl_has pe_UUID (bo_UUID b) (pending_event db)) (bonus db)))"

definition SaveConfirmedSessionState ::
    "bool \<Rightarrow> ConfirmedSessionState \<Rightarrow> Store \<Rightarrow> (StoreError + unit) \<times> Store" where
  "SaveConfirmedSessionState io state s =
     (case validateConfirmedSessionState state of
        Some e \<Rightarrow> (Inl e, s)
      | None \<Rightarrow>
          if \<not> io \<or> \<not> in64 (pending_local_bonus (cs_LocalDate state) (st_db s)) then (Inl DbFailure, s)
          else (let state' = state\<lparr>cs_RemainingSeconds := wrap64 (cs_RemainingSeconds state
                               + pending_local_bonus (cs_LocalDate state) (st_db s))\<rparr>;
                    db1 = upsert_usage \<lparr>du_LocalDate = cs_LocalDate state,
                            du_SecondsUsed = cs_UsageSeconds state,
                            du_CheckpointAt = cs_ConfirmedAt state\<rparr> (st_db s)
                in if cs_RemainingSeconds state' < 0 then (Inl DbFailure, s) \<comment> \<open>CHECK constraint\<close>
                   else (Inr (), s\<lparr>st_db := db1\<lparr>confirmed_session_state := Some state'\<rparr>,
                                   st_confirmed := Some state'\<rparr>)))"

section \<open>Bonuses and events\<close>

definition add_to_confirmed :: "Bonus \<Rightarrow> ConfirmedSessionState option \<Rightarrow> ConfirmedSessionState option" where
  "add_to_confirmed b c = map_option (\<lambda>c. if cs_LocalDate c = bo_LocalDate b
     then c\<lparr>cs_RemainingSeconds := cs_RemainingSeconds c + bo_Seconds b\<rparr> else c) c"

definition insert_bonus_event :: "Bonus \<Rightarrow> PendingEvent \<Rightarrow> Database \<Rightarrow> Database" where
  "insert_bonus_event b e db =
     (let bonusInserted = \<not> tbl_has bo_UUID (bo_UUID b) (bonus db);
          db1 = db\<lparr>bonus := tbl_insert_ignore bo_UUID b (bonus db),
                   pending_event := tbl_insert_ignore pe_UUID e (pending_event db)\<rparr>
      in if bonusInserted
         then db1\<lparr>confirmed_session_state := add_to_confirmed b (confirmed_session_state db1)\<rparr>
         else db1)"

text \<open>\<open>refresh\<close>: whether the read after the commit is served.\<close>

definition AddBonusWithEvent ::
    "bool \<Rightarrow> bool \<Rightarrow> Bonus \<Rightarrow> PendingEvent \<Rightarrow> Store \<Rightarrow> (StoreError + unit) \<times> Store" where
  "AddBonusWithEvent io refresh b e s =
     (case validateBonus b of
        Some err \<Rightarrow> (Inl err, s)
      | None \<Rightarrow>
          (case validateEvent e of
             Some err \<Rightarrow> (Inl err, s)
           | None \<Rightarrow>
               if bo_UUID b \<noteq> pe_UUID e then (Inl UUIDMismatch, s)
               else if \<not> io then (Inl DbFailure, s)
               else refreshConfirmedSessionState refresh
                      (s\<lparr>st_db := insert_bonus_event b e (st_db s)\<rparr>)))"

definition bonus_total :: "string \<Rightarrow> Database \<Rightarrow> int" where
  "bonus_total localDate db =
     sum_list (map bo_Seconds (filter (\<lambda>b. bo_LocalDate b = localDate) (bonus db)))"

definition TotalBonusSeconds :: "bool \<Rightarrow> string \<Rightarrow> Store \<Rightarrow> StoreError + int" where
  "TotalBonusSeconds io localDate s =
     (case validateLocalDate localDate of
        Some e \<Rightarrow> Inl e
      | None \<Rightarrow>
          if \<not> io \<or> \<not> in64 (bonus_total localDate (st_db s)) then Inl DbFailure
          else Inr (bonus_total localDate (st_db s)))"

definition PendingEvents :: "bool \<Rightarrow> int \<Rightarrow> Store \<Rightarrow> StoreError + PendingEvent list" where
  "PendingEvents io limit s =
     (if limit \<le> 0 then Inl InvalidLimit
      else if \<not> io then Inl DbFailure
      else Inr (take (nat limit)
             (sort_key (\<lambda>e. (format_time (pe_CreatedAt e), pe_UUID e)) (pending_event (st_db s)))))"

definition AcknowledgeEvent :: "bool \<Rightarrow> string \<Rightarrow> Store \<Rightarrow> (StoreError + unit) \<times> Store" where
  "AcknowledgeEvent io uuid s =
     (if uuid = [] then (Inl EmptyUUID, s)
      else if \<not> io then (Inl DbFailure, s)
      else (Inr (), s\<lparr>st_db := (st_db s)\<lparr>pending_event :=
              tbl_delete (\<lambda>e. pe_UUID e = uuid) (pending_event (st_db s))\<rparr>\<rparr>))"

fun check_uuids :: "string set \<Rightarrow> string list \<Rightarrow> StoreError option" where
  "check_uuids seen [] = None"
| "check_uuids seen (u # us) =
     (if u = [] then Some EmptyUUID
      else if u \<in> seen then Some (DuplicateEvent u)
      else check_uuids (insert u seen) us)"

text \<open>The update is one statement without a transaction: it stays even when the count of
  changed rows is reported as an error.\<close>

definition IncrementEventRetries :: "bool \<Rightarrow> string list \<Rightarrow> Store \<Rightarrow> (StoreError + unit) \<times> Store" where
  "IncrementEventRetries io uuids s =
     (if uuids = [] then (Inr (), s)
      else case check_uuids {} uuids of
             Some e \<Rightarrow> (Inl e, s)
           | None \<Rightarrow>
               if \<not> io then (Inl DbFailure, s)
               else (let hit = (\<lambda>e. pe_UUID e \<in> set uuids);
                         changed = length (filter hit (pending_event (st_db s)));
                         s' = s\<lparr>st_db := (st_db s)\<lparr>pending_event :=
                           tbl_update hit (\<lambda>e. e\<lparr>pe_RetryCount := pe_RetryCount e + 1\<rparr>)
                             (pending_event (st_db s))\<rparr>\<rparr>
                     in if changed \<noteq> length uuids
                        then (Inl (RetryCountMismatch changed (length uuids)), s') else (Inr (), s')))"

section \<open>Applied commands and remote bonuses\<close>

definition AppliedCommandIDs :: "bool \<Rightarrow> int \<Rightarrow> Store \<Rightarrow> StoreError + string list" where
  "AppliedCommandIDs io limit s =
     (if limit \<le> 0 then Inl InvalidLimit
      else if \<not> io then Inl DbFailure
      else Inr (map ap_id (take (nat limit)
             (rev (sort_key (\<lambda>a. format_time (ap_applied_at a))
               (rev (sort_key ap_id (applied_command (st_db s)))))))))"

definition record_applied :: "string \<Rightarrow> time \<Rightarrow> Database \<Rightarrow> Database" where
  "record_applied commandID now db = db\<lparr>applied_command :=
     tbl_insert_ignore ap_id \<lparr>ap_id = commandID, ap_applied_at = now\<rparr> (applied_command db)\<rparr>"

definition RecordCommandApplied ::
    "bool \<Rightarrow> string \<Rightarrow> time \<Rightarrow> Store \<Rightarrow> (StoreError + unit) \<times> Store" where
  "RecordCommandApplied io commandID now s =
     (if commandID = [] \<or> is_zero now then (Inl InvalidCommand, s)
      else if \<not> io then (Inl DbFailure, s)
      else (Inr (), s\<lparr>st_db := record_applied commandID now (st_db s)\<rparr>))"

definition ApplyRemoteBonus ::
    "bool \<Rightarrow> string \<Rightarrow> Bonus \<Rightarrow> time \<Rightarrow> Store \<Rightarrow> (StoreError + unit) \<times> Store" where
  "ApplyRemoteBonus io commandID b now s =
     (if commandID = [] \<or> is_zero now then (Inl InvalidCommand, s)
      else case validateBonus b of
             Some e \<Rightarrow> (Inl e, s)
           | None \<Rightarrow>
               if \<not> io then (Inl DbFailure, s)
               else (let changed = \<not> tbl_has ap_id commandID (applied_command (st_db s));
                         db1 = record_applied commandID now (st_db s)
                     in (Inr (), s\<lparr>st_db := (if changed
                           then db1\<lparr>bonus := tbl_insert_ignore bo_UUID b (bonus db1)\<rparr> else db1)\<rparr>)))"

section \<open>Control effects\<close>

definition validControlKind :: "string \<Rightarrow> bool" where
  "validControlKind kind \<longleftrightarrow>
     kind \<in> {''pause_monitoring'', ''resume_monitoring'', ''block_now'', ''clear_manual_block''}"

definition StageControlEffect ::
    "bool \<Rightarrow> string \<Rightarrow> int \<Rightarrow> string \<Rightarrow> time \<Rightarrow> Store \<Rightarrow> (StoreError + unit) \<times> Store" where
  "StageControlEffect io commandID revision kind now s =
     (if commandID = [] \<or> revision \<le> 0 \<or> \<not> validControlKind kind \<or> is_zero now
      then (Inl InvalidControlEffect, s)
      else if \<not> io then (Inl DbFailure, s)
      else (Inr (), s\<lparr>st_db := (st_db s)\<lparr>pending_control_effect := Some \<lparr>ce_CommandID = commandID,
              ce_Revision = revision, ce_Kind = kind, ce_ReceivedAt = now\<rparr>\<rparr>\<rparr>))"

definition LoadPendingControlEffect :: "bool \<Rightarrow> Store \<Rightarrow> StoreError + PendingControlEffect option" where
  "LoadPendingControlEffect io s =
     (if \<not> io then Inl DbFailure else Inr (pending_control_effect (st_db s)))"

definition CompleteControlEffect ::
    "bool \<Rightarrow> string \<Rightarrow> time \<Rightarrow> Store \<Rightarrow> (StoreError + unit) \<times> Store" where
  "CompleteControlEffect io commandID now s =
     (if commandID = [] \<or> is_zero now then (Inl InvalidCommand, s)
      else if \<not> io then (Inl DbFailure, s)
      else case pending_control_effect (st_db s) of
             None \<Rightarrow> (Inr (), s)
           | Some effect \<Rightarrow>
               if ce_CommandID effect \<noteq> commandID then (Inr (), s)
               else (Inr (), s\<lparr>st_db := record_applied commandID now
                       ((st_db s)\<lparr>pending_control_effect := None\<rparr>)\<rparr>))"

definition ForgetAppliedCommandIDs ::
    "bool \<Rightarrow> string list \<Rightarrow> Store \<Rightarrow> (StoreError + unit) \<times> Store" where
  "ForgetAppliedCommandIDs io commandIDs s =
     (if commandIDs = [] then (Inr (), s)
      else if \<not> io then (Inl DbFailure, s)
      else if [] \<in> set commandIDs then (Inl InvalidCommand, s)
      else (Inr (), s\<lparr>st_db := (st_db s)\<lparr>applied_command :=
              fold (\<lambda>commandID. tbl_delete (\<lambda>a. ap_id a = commandID)) commandIDs
                (applied_command (st_db s))\<rparr>\<rparr>))"

section \<open>Enrollment\<close>

definition clear_enrollment_state :: "Database \<Rightarrow> Database" where
  "clear_enrollment_state db = db\<lparr>routine_day := [], routine := [], weekly_quota := [],
     policy_state := None, confirmed_session_state := None, pending_control_effect := None,
     applied_command := [], pending_event := [], bonus := [], daily_usage := []\<rparr>"

definition enrollment_reset :: "string \<Rightarrow> string \<Rightarrow> bool \<Rightarrow> Database \<Rightarrow> bool" where
  "enrollment_reset serverURL deviceID trustUnboundState db =
     (case enrollment db of
        None \<Rightarrow> \<not> trustUnboundState
      | Some (storedServerURL, storedDeviceID) \<Rightarrow>
          storedServerURL \<noteq> serverURL \<or> storedDeviceID \<noteq> deviceID)"

definition BindEnrollment ::
    "bool \<Rightarrow> string \<Rightarrow> string \<Rightarrow> bool \<Rightarrow> Store \<Rightarrow> (StoreError + bool) \<times> Store" where
  "BindEnrollment io serverURL deviceID trustUnboundState s =
     (if serverURL = [] \<or> deviceID = [] then (Inl InvalidEnrollment, s)
      else if \<not> io then (Inl DbFailure, s)
      else (let reset = enrollment_reset serverURL deviceID trustUnboundState (st_db s);
                db1 = (if reset then clear_enrollment_state (st_db s) else st_db s);
                s1 = s\<lparr>st_db := db1\<lparr>enrollment := Some (serverURL, deviceID)\<rparr>\<rparr>
            in (Inr reset, if reset then s1\<lparr>st_cachedPolicy := None, st_confirmed := None\<rparr> else s1)))"

section \<open>Opening\<close>

text \<open>\<open>Open\<close> on a migrated database: both caches are read from it.\<close>

definition OpenStore :: "bool \<Rightarrow> Database \<Rightarrow> StoreError + Store" where
  "OpenStore io db =
     (let s0 = \<lparr>st_db = db, st_cachedPolicy = None, st_confirmed = None\<rparr>
      in case refreshPolicyCache io s0 of
           (Inl e, _) \<Rightarrow> Inl e
         | (Inr _, s1) \<Rightarrow>
             (case refreshConfirmedSessionState io s1 of
                (Inl e, _) \<Rightarrow> Inl e
              | (Inr _, s2) \<Rightarrow> Inr s2))"

end
