(* ===== verification/UsageCounter.thy ===== *)
theory UsageCounter
  imports AgentStateStore
begin

text \<open>
  The usage counter of one day (\<open>UsageTracker\<close> in \<open>agent/storage/state.go\<close>) and the contract of
  the durable counter it writes: a write never lowers the value of its date and leaves the
  other dates alone. The locale \<open>usage_store\<close> states that contract; \<open>CheckpointUsage\<close> provides
  it. Counters are 64-bit.
\<close>

section \<open>The durable counter\<close>

locale usage_store =
  fixes load :: "string \<Rightarrow> 's \<Rightarrow> int" and save :: "string \<Rightarrow> int \<Rightarrow> time \<Rightarrow> 's \<Rightarrow> 's"
  assumes load_save: "load date (save date n t s) = max (load date s) n"
    and load_save_other: "other \<noteq> date \<Longrightarrow> load other (save date n t s) = load other s"
    and load_nonneg: "0 \<le> load date s"
begin

lemma load_save_any:
  "load date (save d n t s) = (if d = date then max (load date s) n else load date s)"
  by (simp add: load_save load_save_other)

lemma save_mono: "load date s \<le> load date (save d n t s)"
  by (simp add: load_save_any)

text \<open>Whatever the order of the writes, the largest of a date is what is read back.\<close>

lemma load_after_saves:
  "load date (fold (\<lambda>(d, n, t). save d n t) ws s) =
     Max (insert (load date s) {n. \<exists>t. (date, n, t) \<in> set ws})"
proof (induction ws arbitrary: s)
  case (Cons w ws)
  obtain d n t where w: "w = (d, n, t)" by (cases w)
  let ?S = "{n. \<exists>t. (date, n, t) \<in> set ws}"
  have "?S = (\<lambda>(d, n, t). n) ` {w \<in> set ws. fst w = date}"
    by (force simp: image_iff)
  then have fin: "finite ?S" by simp
  have eq: "{m. \<exists>u. (date, m, u) \<in> set (w # ws)} = (if d = date then insert n ?S else ?S)"
    by (auto simp: w)
  have split: "Max (insert (max a n) ?S) = Max (insert a (insert n ?S))" for a
    using fin by (cases "?S = {}") (simp_all add: max.assoc)
  have "load date (fold (\<lambda>(d, n, t). save d n t) (w # ws) s) =
      Max (insert (load date (save d n t s)) ?S)"
    using Cons.IH [of "save d n t s"] by (simp add: w)
  also have "\<dots> = Max (insert (load date s) {m. \<exists>u. (date, m, u) \<in> set (w # ws)})"
    unfolding eq load_save_any using split by (cases "d = date") simp_all
  finally show ?case .
qed simp

end

definition durable_seconds :: "string \<Rightarrow> Database \<Rightarrow> int" where
  "durable_seconds localDate db =
     (case tbl_find du_LocalDate localDate (daily_usage db) of
        None \<Rightarrow> 0 | Some u \<Rightarrow> max 0 (du_SecondsUsed u))"

text \<open>What a checkpoint that passes validation writes.\<close>

definition save_usage :: "string \<Rightarrow> int \<Rightarrow> time \<Rightarrow> Database \<Rightarrow> Database" where
  "save_usage localDate n t =
     upsert_usage \<lparr>du_LocalDate = localDate, du_SecondsUsed = n, du_CheckpointAt = t\<rparr>"

interpretation durable: usage_store durable_seconds save_usage
proof
  fix date other :: string and n :: int and t :: time and db :: Database
  let ?u = "\<lparr>du_LocalDate = date, du_SecondsUsed = n, du_CheckpointAt = t\<rparr>"
  have "tbl_find du_LocalDate date (tbl_upsert du_LocalDate usage_merge ?u (daily_usage db)) =
      Some (case tbl_find du_LocalDate date (daily_usage db) of None \<Rightarrow> ?u | Some x \<Rightarrow> usage_merge x ?u)"
    using usage_table.find_upsert_same [of ?u "daily_usage db"] by simp
  then show "durable_seconds date (save_usage date n t db) = max (durable_seconds date db) n"
    by (simp add: durable_seconds_def save_usage_def upsert_usage_def usage_merge_def max.assoc
        split: option.split)
  show "other \<noteq> date \<Longrightarrow> durable_seconds other (save_usage date n t db) = durable_seconds other db"
    by (simp add: durable_seconds_def save_usage_def upsert_usage_def usage_table.find_upsert_other)
  show "0 \<le> durable_seconds date db"
    by (simp add: durable_seconds_def split: option.splits)
qed

section \<open>The counter\<close>

record UsageTracker =
  ut_localDate :: string
  ut_seconds :: int
  ut_uncheckpointed :: duration
  ut_checkpointEvery :: duration

definition NewUsageTracker ::
    "bool \<Rightarrow> Store \<Rightarrow> string \<Rightarrow> duration \<Rightarrow> StoreError + UsageTracker" where
  "NewUsageTracker io s localDate checkpointEvery =
     (if checkpointEvery \<le> 0 then Inl InvalidCheckpointInterval
      else case LoadDailyUsage io localDate s of
             Inl e \<Rightarrow> Inl e
           | Inr usage \<Rightarrow> Inr \<lparr>ut_localDate = localDate, ut_seconds = du_SecondsUsed usage,
               ut_uncheckpointed = 0, ut_checkpointEvery = checkpointEvery\<rparr>)"

definition checkpoint_tracker ::
    "bool \<Rightarrow> time \<Rightarrow> UsageTracker \<times> Store \<Rightarrow> (StoreError + unit) \<times> UsageTracker \<times> Store" where
  "checkpoint_tracker io now ts =
     (case CheckpointUsage io \<lparr>du_LocalDate = ut_localDate (fst ts),
             du_SecondsUsed = ut_seconds (fst ts), du_CheckpointAt = now\<rparr> (snd ts) of
        (Inl e, s') \<Rightarrow> (Inl e, fst ts, s')
      | (Inr _, s') \<Rightarrow> (Inr (), (fst ts)\<lparr>ut_uncheckpointed := 0\<rparr>, s'))"

definition tracker_Add ::
    "bool \<Rightarrow> duration \<Rightarrow> time \<Rightarrow> UsageTracker \<times> Store \<Rightarrow> (StoreError + unit) \<times> UsageTracker \<times> Store" where
  "tracker_Add io elapsed now ts =
     (if elapsed < 0 \<or> go_mod elapsed second \<noteq> 0 \<or> is_zero now then (Inl InvalidElapsed, ts)
      else (let t = (fst ts)\<lparr>ut_seconds := wrap64 (ut_seconds (fst ts) + go_div elapsed second),
                             ut_uncheckpointed := wrap64 (ut_uncheckpointed (fst ts) + elapsed)\<rparr>
            in if ut_uncheckpointed t < ut_checkpointEvery t then (Inr (), t, snd ts)
               else checkpoint_tracker io now (t, snd ts)))"

definition tracker_Flush ::
    "bool \<Rightarrow> time \<Rightarrow> UsageTracker \<times> Store \<Rightarrow> (StoreError + unit) \<times> UsageTracker \<times> Store" where
  "tracker_Flush io now ts =
     (if is_zero now then (Inl TimeNotSet, ts) else checkpoint_tracker io now ts)"

definition tracker_EnsureAtLeast ::
    "bool \<Rightarrow> int \<Rightarrow> time \<Rightarrow> UsageTracker \<times> Store \<Rightarrow> (StoreError + unit) \<times> UsageTracker \<times> Store" where
  "tracker_EnsureAtLeast io seconds now ts =
     (if seconds < 0 \<or> is_zero now then (Inl InvalidMinimumUsage, ts)
      else if seconds \<le> ut_seconds (fst ts) then (Inr (), ts)
      else (let t = (fst ts)\<lparr>ut_seconds := seconds, ut_uncheckpointed := 0\<rparr>;
                (r, s') = CheckpointUsage io \<lparr>du_LocalDate = ut_localDate t,
                   du_SecondsUsed = seconds, du_CheckpointAt = now\<rparr> (snd ts)
            in (r, t, s')))"

section \<open>Runs of the counter\<close>

datatype tracker_op =
    DoAdd bool duration time
  | DoFlush bool time
  | DoEnsure bool int time
  | Elsewhere DailyUsage \<comment> \<open>another writer of the table\<close>

definition tracker_step :: "tracker_op \<Rightarrow> UsageTracker \<times> Store \<Rightarrow> UsageTracker \<times> Store" where
  "tracker_step cmd ts =
     (case cmd of
        DoAdd io elapsed now \<Rightarrow> snd (tracker_Add io elapsed now ts)
      | DoFlush io now \<Rightarrow> snd (tracker_Flush io now ts)
      | DoEnsure io n now \<Rightarrow> snd (tracker_EnsureAtLeast io n now ts)
      | Elsewhere u \<Rightarrow> (fst ts, (snd ts)\<lparr>st_db := upsert_usage u (st_db (snd ts))\<rparr>))"

definition run_tracker :: "tracker_op list \<Rightarrow> UsageTracker \<times> Store \<Rightarrow> UsageTracker \<times> Store" where
  "run_tracker = fold tracker_step"

definition durable_of :: "UsageTracker \<times> Store \<Rightarrow> int" where
  "durable_of ts = durable_seconds (ut_localDate (fst ts)) (st_db (snd ts))"

text \<open>No 64-bit counter overflows on the way.\<close>

definition step_fits :: "tracker_op \<Rightarrow> UsageTracker \<Rightarrow> bool" where
  "step_fits cmd t \<longleftrightarrow>
     (case cmd of
        DoAdd _ elapsed _ \<Rightarrow> in64 (ut_seconds t + elapsed div second)
          \<and> in64 (ut_uncheckpointed t + elapsed)
      | _ \<Rightarrow> True)"

fun run_fits :: "tracker_op list \<Rightarrow> UsageTracker \<times> Store \<Rightarrow> bool" where
  "run_fits [] ts = True"
| "run_fits (cmd # cmds) ts \<longleftrightarrow> step_fits cmd (fst ts) \<and> run_fits cmds (tracker_step cmd ts)"

text \<open>The one call whose failure the counter forgets.\<close>

definition ensure_served :: "tracker_op \<Rightarrow> bool" where
  "ensure_served cmd \<longleftrightarrow> (case cmd of DoEnsure io _ _ \<Rightarrow> io | _ \<Rightarrow> True)"

definition all_served :: "tracker_op \<Rightarrow> bool" where
  "all_served cmd \<longleftrightarrow> (case cmd of DoAdd io _ _ \<Rightarrow> io | DoFlush io _ \<Rightarrow> io | DoEnsure io _ _ \<Rightarrow> io
     | Elsewhere _ \<Rightarrow> True)"

definition counter_ok :: "UsageTracker \<times> Store \<Rightarrow> bool" where
  "counter_ok ts \<longleftrightarrow> validateLocalDate (ut_localDate (fst ts)) = None \<and> 0 \<le> ut_seconds (fst ts)
     \<and> 0 \<le> ut_uncheckpointed (fst ts) \<and> 0 < ut_checkpointEvery (fst ts)"

text \<open>The use that a crash would lose.\<close>

definition gap :: "UsageTracker \<times> Store \<Rightarrow> duration" where
  "gap ts = (ut_seconds (fst ts) - durable_of ts) * second"

text \<open>What is not durable yet is accounted in \<open>uncheckpointed\<close>.\<close>

definition tracker_inv :: "UsageTracker \<times> Store \<Rightarrow> bool" where
  "tracker_inv ts \<longleftrightarrow> counter_ok ts \<and> gap ts \<le> ut_uncheckpointed (fst ts)"

lemma upsert_as_save:
  "upsert_usage u = save_usage (du_LocalDate u) (du_SecondsUsed u) (du_CheckpointAt u)"
  by (cases u) (simp add: save_usage_def)

lemma CheckpointUsage_valid:
  "validateLocalDate date = None \<Longrightarrow> 0 \<le> n \<Longrightarrow> \<not> is_zero now \<Longrightarrow>
   CheckpointUsage io \<lparr>du_LocalDate = date, du_SecondsUsed = n, du_CheckpointAt = now\<rparr> s =
     (if io then (Inr (), s\<lparr>st_db := save_usage date n now (st_db s)\<rparr>) else (Inl DbFailure, s))"
  by (simp add: CheckpointUsage_def save_usage_def)

lemma checkpoint_tracker_ok:
  assumes "counter_ok ts" and "\<not> is_zero now"
  shows "checkpoint_tracker io now ts =
    (if io then (Inr (), (fst ts)\<lparr>ut_uncheckpointed := 0\<rparr>, (snd ts)\<lparr>st_db :=
        save_usage (ut_localDate (fst ts)) (ut_seconds (fst ts)) now (st_db (snd ts))\<rparr>)
     else (Inl DbFailure, ts))"
  using assms by (simp add: checkpoint_tracker_def counter_ok_def CheckpointUsage_valid)

lemma saved_gap [simp]: "(n - max d n) * second \<le> 0"
  by (simp add: mult_nonpos_nonneg order_less_imp_le)

text \<open>A checkpoint that is served leaves no gap; one that is not changes nothing.\<close>

lemma checkpoint_served:
  assumes "counter_ok ts" and "\<not> is_zero now" and "checkpoint_tracker True now ts = (r, ts')"
  shows "counter_ok ts'" and "gap ts' \<le> 0" and "ut_uncheckpointed (fst ts') = 0"
    and "ut_checkpointEvery (fst ts') = ut_checkpointEvery (fst ts)"
  using assms(1,3) unfolding checkpoint_tracker_ok [OF assms(1,2)]
  by (auto simp: counter_ok_def gap_def durable_of_def durable.load_save)

definition added :: "duration \<Rightarrow> UsageTracker \<Rightarrow> UsageTracker" where
  "added elapsed t = t\<lparr>ut_seconds := ut_seconds t + elapsed div second,
     ut_uncheckpointed := ut_uncheckpointed t + elapsed\<rparr>"

definition add_rejected :: "duration \<Rightarrow> time \<Rightarrow> bool" where
  "add_rejected elapsed now \<longleftrightarrow> elapsed < 0 \<or> go_mod elapsed second \<noteq> 0 \<or> is_zero now"

text \<open>An addition that neither overflows nor is rejected.\<close>

lemma tracker_Add_fits:
  assumes "step_fits (DoAdd io elapsed now) (fst ts)" and "\<not> add_rejected elapsed now"
  shows "tracker_Add io elapsed now ts =
      (if ut_uncheckpointed (fst ts) + elapsed < ut_checkpointEvery (fst ts)
       then (Inr (), added elapsed (fst ts), snd ts)
       else checkpoint_tracker io now (added elapsed (fst ts), snd ts))"
    and "counter_ok ts \<Longrightarrow> counter_ok (added elapsed (fst ts), snd ts)"
    and "gap (added elapsed (fst ts), snd ts) = gap ts + elapsed"
proof -
  have el: "0 \<le> elapsed" "elapsed div second * second = elapsed"
    using assms(2) go_mod_zero_dvd [OF second_pos, of elapsed] by (auto simp: add_rejected_def)
  show "tracker_Add io elapsed now ts =
      (if ut_uncheckpointed (fst ts) + elapsed < ut_checkpointEvery (fst ts)
       then (Inr (), added elapsed (fst ts), snd ts)
       else checkpoint_tracker io now (added elapsed (fst ts), snd ts))"
    using assms el by (simp add: tracker_Add_def step_fits_def added_def add_rejected_def Let_def wrap_simps)
  show "counter_ok ts \<Longrightarrow> counter_ok (added elapsed (fst ts), snd ts)"
    using el(1) by (simp add: counter_ok_def added_def pos_imp_zdiv_nonneg_iff)
  have "(ut_seconds (fst ts) + elapsed div second - d) * second
      = (ut_seconds (fst ts) - d) * second + elapsed" for d
    using el(2) by (simp add: algebra_simps)
  then show "gap (added elapsed (fst ts), snd ts) = gap ts + elapsed"
    by (simp add: gap_def durable_of_def added_def)
qed

lemma tracker_Add_rejects:
  "add_rejected elapsed now \<Longrightarrow> tracker_Add io elapsed now ts = (Inl InvalidElapsed, ts)"
  by (simp add: tracker_Add_def add_rejected_def)

text \<open>A correction: ignored, or the counter takes the larger value and forgets what was waiting,
  whether or not the write is served.\<close>

definition ensure_ignored :: "int \<Rightarrow> time \<Rightarrow> UsageTracker \<Rightarrow> bool" where
  "ensure_ignored n now t \<longleftrightarrow> n < 0 \<or> is_zero now \<or> n \<le> ut_seconds t"

lemma ensure_ignored_same: "ensure_ignored n now (fst ts) \<Longrightarrow> tracker_step (DoEnsure io n now) ts = ts"
  by (auto simp: tracker_step_def tracker_EnsureAtLeast_def ensure_ignored_def)

lemma ensure_takes:
  assumes "counter_ok ts" and "\<not> ensure_ignored n now (fst ts)"
    and "tracker_step (DoEnsure io n now) ts = ts'"
  shows "counter_ok ts'" and "gap ts' \<le> (if io then 0 else gap ts + (n - ut_seconds (fst ts)) * second)"
    and "ut_uncheckpointed (fst ts') = 0" and "ut_checkpointEvery (fst ts') = ut_checkpointEvery (fst ts)"
proof -
  have "0 \<le> n" "\<not> is_zero now" "\<not> n \<le> ut_seconds (fst ts)" "validateLocalDate (ut_localDate (fst ts)) = None"
    using assms(1,2) by (simp_all add: ensure_ignored_def counter_ok_def)
  then have "ts' = ((fst ts)\<lparr>ut_seconds := n, ut_uncheckpointed := 0\<rparr>,
      if io then (snd ts)\<lparr>st_db := save_usage (ut_localDate (fst ts)) n now (st_db (snd ts))\<rparr> else snd ts)"
    using assms(3) by (auto simp: tracker_step_def tracker_EnsureAtLeast_def Let_def CheckpointUsage_valid)
  with \<open>0 \<le> n\<close> assms(1) show "counter_ok ts'" "gap ts' \<le> (if io then 0 else gap ts + (n - ut_seconds (fst ts)) * second)"
    "ut_uncheckpointed (fst ts') = 0" "ut_checkpointEvery (fst ts') = ut_checkpointEvery (fst ts)"
    by (simp_all add: counter_ok_def gap_def durable_of_def durable.load_save algebra_simps)
qed

lemma elsewhere_gap:
  assumes "tracker_step (Elsewhere u) ts = ts'"
  shows "counter_ok ts' \<longleftrightarrow> counter_ok ts" and "gap ts' \<le> gap ts" and "fst ts' = fst ts"
proof -
  show "fst ts' = fst ts" using assms by (auto simp: tracker_step_def)
  then show "counter_ok ts' \<longleftrightarrow> counter_ok ts" by (simp add: counter_ok_def)
  have "durable_of ts \<le> durable_of ts'"
    using assms by (auto simp: tracker_step_def durable_of_def upsert_as_save durable.save_mono)
  with \<open>fst ts' = fst ts\<close> show "gap ts' \<le> gap ts"
    by (simp add: gap_def mult_right_mono)
qed

lemma tracker_inv_step:
  assumes inv: "tracker_inv ts" and fits: "step_fits cmd (fst ts)" and ens: "ensure_served cmd"
  shows "tracker_inv (tracker_step cmd ts)"
proof -
  have ok: "counter_ok ts" and le: "gap ts \<le> ut_uncheckpointed (fst ts)"
    using inv by (simp_all add: tracker_inv_def)
  have saved: "tracker_inv (snd (checkpoint_tracker io now x))"
    if "tracker_inv x" "\<not> is_zero now" for io now x
  proof (cases io)
    case True
    obtain r x' where x': "checkpoint_tracker True now x = (r, x')"
      by (cases "checkpoint_tracker True now x")
    from that have "counter_ok x" by (simp add: tracker_inv_def)
    from checkpoint_served [OF this that(2) x'] True x' show ?thesis by (simp add: tracker_inv_def)
  qed (use that in \<open>simp add: tracker_inv_def checkpoint_tracker_ok\<close>)
  show ?thesis
  proof (cases cmd)
    case (DoAdd io elapsed now)
    show ?thesis
    proof (cases "add_rejected elapsed now")
      case False
      note add = tracker_Add_fits [OF fits [unfolded DoAdd] False]
      from add(2) [OF ok] add(3) le have "tracker_inv (added elapsed (fst ts), snd ts)"
        by (simp add: tracker_inv_def added_def)
      moreover have "\<not> is_zero now" using False by (simp add: add_rejected_def)
      ultimately show ?thesis using saved by (simp add: DoAdd tracker_step_def add(1))
    qed (use inv in \<open>simp add: DoAdd tracker_step_def tracker_Add_rejects\<close>)
  next
    case (DoFlush io now)
    then show ?thesis using inv saved by (simp add: tracker_step_def tracker_Flush_def)
  next
    case (DoEnsure io n now)
    with ens have "io" by (simp add: ensure_served_def)
    with ensure_takes [OF ok, of n now io, OF _ refl] ensure_ignored_same [of n now ts io] inv show ?thesis
      by (cases "ensure_ignored n now (fst ts)") (simp_all add: DoEnsure tracker_inv_def)
  next
    case (Elsewhere u)
    from elsewhere_gap [OF refl, of u ts] ok le show ?thesis by (simp add: Elsewhere tracker_inv_def)
  qed
qed

lemma tracker_inv_run:
  "tracker_inv ts \<Longrightarrow> run_fits cmds ts \<Longrightarrow> \<forall>c\<in>set cmds. ensure_served c \<Longrightarrow>
     tracker_inv (run_tracker cmds ts)"
  by (induction cmds arbitrary: ts) (simp_all add: run_tracker_def tracker_inv_step)

section \<open>What failures add to the loss\<close>

text \<open>The time that writes which were not served have left out since the last write that was: what an
  addition added when its checkpoint failed; and for a correction whose write failed, what it
  raised the counter by and what was waiting, which it forgets.\<close>

definition failed_after :: "tracker_op \<Rightarrow> UsageTracker \<Rightarrow> duration \<Rightarrow> duration" where
  "failed_after cmd t f =
     (case cmd of
        DoAdd io elapsed now \<Rightarrow>
          if add_rejected elapsed now \<or> ut_uncheckpointed t + elapsed < ut_checkpointEvery t then f
          else if io then 0 else f + elapsed
      | DoFlush io now \<Rightarrow> if is_zero now \<or> \<not> io then f else 0
      | DoEnsure io n now \<Rightarrow>
          if ensure_ignored n now t then f
          else if io then 0 else f + (n - ut_seconds t) * second + ut_uncheckpointed t
      | Elsewhere _ \<Rightarrow> f)"

fun failed_time :: "tracker_op list \<Rightarrow> UsageTracker \<times> Store \<Rightarrow> duration \<Rightarrow> duration" where
  "failed_time [] ts f = f"
| "failed_time (cmd # cmds) ts f = failed_time cmds (tracker_step cmd ts) (failed_after cmd (fst ts) f)"

lemma failed_time_served: "list_all all_served cmds \<Longrightarrow> failed_time cmds ts 0 = 0"
proof (induction cmds arbitrary: ts)
  case (Cons c cmds)
  then have "failed_after c (fst ts) 0 = 0" by (cases c) (simp_all add: failed_after_def all_served_def)
  with Cons show ?case by simp
qed simp

text \<open>Part of the failed time is still waiting, the other part is forgotten.\<close>

definition loss_inv :: "duration \<Rightarrow> UsageTracker \<times> Store \<Rightarrow> bool" where
  "loss_inv f ts \<longleftrightarrow> counter_ok ts \<and> (\<exists>waiting forgotten. f = waiting + forgotten \<and> 0 \<le> waiting \<and> 0 \<le> forgotten
     \<and> gap ts \<le> ut_uncheckpointed (fst ts) + forgotten
     \<and> ut_uncheckpointed (fst ts) < ut_checkpointEvery (fst ts) + waiting)"

lemma loss_invI:
  "counter_ok ts \<Longrightarrow> 0 \<le> a \<Longrightarrow> 0 \<le> b \<Longrightarrow> gap ts \<le> ut_uncheckpointed (fst ts) + b \<Longrightarrow>
     ut_uncheckpointed (fst ts) < ut_checkpointEvery (fst ts) + a \<Longrightarrow> f = a + b \<Longrightarrow> loss_inv f ts"
  unfolding loss_inv_def by blast

lemma loss_inv_served:
  assumes "counter_ok ts" and "\<not> is_zero now"
  shows "loss_inv 0 (snd (checkpoint_tracker True now ts))"
proof -
  obtain r ts' where ts': "checkpoint_tracker True now ts = (r, ts')"
    by (cases "checkpoint_tracker True now ts")
  note c = checkpoint_served [OF assms ts']
  from c(1) have "0 < ut_checkpointEvery (fst ts')" by (simp add: counter_ok_def)
  with c show ?thesis unfolding ts' by (intro loss_invI [of _ 0 0]) simp_all
qed

lemma loss_step:
  assumes inv: "loss_inv f ts" and fits: "step_fits cmd (fst ts)"
  shows "loss_inv (failed_after cmd (fst ts) f) (tracker_step cmd ts)"
proof -
  obtain a b where ab: "f = a + b" "0 \<le> a" "0 \<le> b" "gap ts \<le> ut_uncheckpointed (fst ts) + b"
    "ut_uncheckpointed (fst ts) < ut_checkpointEvery (fst ts) + a" and ok: "counter_ok ts"
    using inv by (auto simp: loss_inv_def)
  show ?thesis
  proof (cases cmd)
    case (DoAdd io elapsed now)
    show ?thesis
    proof (cases "add_rejected elapsed now")
      case False
      then have el: "0 \<le> elapsed" "\<not> is_zero now" by (simp_all add: add_rejected_def)
      note add = tracker_Add_fits [OF fits [unfolded DoAdd] False]
      note ok' = add(2) [OF ok]
      let ?x = "(added elapsed (fst ts), snd ts)"
      have "loss_inv f ?x" if "ut_uncheckpointed (fst ts) + elapsed < ut_checkpointEvery (fst ts)"
        using ok' ab that add(3) by (intro loss_invI [of _ a b]) (simp_all add: added_def)
      moreover have "loss_inv (f + elapsed) ?x"
        using ok' ab el add(3) by (intro loss_invI [of _ "a + elapsed" b]) (simp_all add: added_def)
      moreover have "loss_inv 0 (snd (checkpoint_tracker True now ?x))"
        by (rule loss_inv_served [OF ok' el(2)])
      moreover have "snd (checkpoint_tracker False now ?x) = ?x"
        by (simp add: checkpoint_tracker_ok [OF ok' el(2)])
      moreover have "tracker_step cmd ts =
          (if ut_uncheckpointed (fst ts) + elapsed < ut_checkpointEvery (fst ts) then ?x
           else snd (checkpoint_tracker io now ?x))" by (simp add: DoAdd tracker_step_def add(1))
      ultimately show ?thesis using False by (cases io) (simp_all add: DoAdd failed_after_def)
    qed (use inv in \<open>simp add: DoAdd tracker_step_def tracker_Add_rejects failed_after_def\<close>)
  next
    case (DoFlush io now)
    then show ?thesis
      using inv loss_inv_served [OF ok, of now] checkpoint_tracker_ok [OF ok, of now False]
      by (cases io) (simp_all add: tracker_step_def tracker_Flush_def failed_after_def)
  next
    case (DoEnsure io n now)
    show ?thesis
    proof (cases "ensure_ignored n now (fst ts)")
      case True
      with inv show ?thesis by (simp add: DoEnsure ensure_ignored_same failed_after_def)
    next
      case False
      note e = ensure_takes [OF ok False refl, of io]
      have every: "0 < ut_checkpointEvery (fst ts)" and u: "0 \<le> ut_uncheckpointed (fst ts)"
        using ok by (simp_all add: counter_ok_def)
      have up: "0 \<le> (n - ut_seconds (fst ts)) * second"
        using False less_imp_le [OF second_pos]
        by (intro mult_nonneg_nonneg) (simp_all add: ensure_ignored_def)
      show ?thesis
      proof (cases io)
        case True
        with e every have "loss_inv 0 (tracker_step cmd ts)"
          by (intro loss_invI [of _ 0 0]) (simp_all add: DoEnsure)
        with True False show ?thesis by (simp add: DoEnsure failed_after_def)
      next
        case f: False
        with e every ab up u have "loss_inv (f + (n - ut_seconds (fst ts)) * second + ut_uncheckpointed (fst ts))
            (tracker_step cmd ts)"
          by (intro loss_invI [of _ a "b + (n - ut_seconds (fst ts)) * second + ut_uncheckpointed (fst ts)"])
            (simp_all add: DoEnsure)
        with f False show ?thesis by (simp add: DoEnsure failed_after_def)
      qed
    qed
  next
    case (Elsewhere u)
    from elsewhere_gap [OF refl, of u ts] ok ab have "loss_inv f (tracker_step cmd ts)"
      by (intro loss_invI [of _ a b]) (simp_all add: Elsewhere)
    then show ?thesis by (simp add: Elsewhere failed_after_def)
  qed
qed

lemma loss_run: "loss_inv f ts \<Longrightarrow> run_fits cmds ts \<Longrightarrow> loss_inv (failed_time cmds ts f) (run_tracker cmds ts)"
  by (induction cmds arbitrary: f ts) (simp_all add: run_tracker_def loss_step)

lemma loss_inv_gap: "loss_inv f ts \<Longrightarrow> gap ts < ut_checkpointEvery (fst ts) + f"
  by (auto simp: loss_inv_def)

end
