(* ===== verification/AgentStoreRuns.thy ===== *)
theory AgentStoreRuns
  imports UsageCounter
begin

text \<open>
  Runs of the agent's store: every operation that changes it, with restarts, as one step
  function; the constraints its schema declares and the coherence of its two caches as
  invariants of all runs.
\<close>

section \<open>Steps\<close>

datatype store_op =
    OpReplacePolicy bool PolicySnapshot
  | OpCheckpointUsage bool DailyUsage
  | OpSaveConfirmed bool ConfirmedSessionState
  | OpAddBonusWithEvent bool bool Bonus PendingEvent
  | OpAcknowledgeEvent bool string
  | OpIncrementRetries bool "string list"
  | OpRecordApplied bool string time
  | OpApplyRemoteBonus bool string Bonus time
  | OpStageControl bool string int string time
  | OpCompleteControl bool string time
  | OpForgetApplied bool "string list"
  | OpBindEnrollment bool string string bool
  | OpRestart bool

fun store_step :: "store_op \<Rightarrow> Store \<Rightarrow> Store" where
  "store_step (OpReplacePolicy io p) s = snd (ReplacePolicy io p s)"
| "store_step (OpCheckpointUsage io u) s = snd (CheckpointUsage io u s)"
| "store_step (OpSaveConfirmed io c) s = snd (SaveConfirmedSessionState io c s)"
| "store_step (OpAddBonusWithEvent io refresh b e) s = snd (AddBonusWithEvent io refresh b e s)"
| "store_step (OpAcknowledgeEvent io u) s = snd (AcknowledgeEvent io u s)"
| "store_step (OpIncrementRetries io us) s = snd (IncrementEventRetries io us s)"
| "store_step (OpRecordApplied io c now) s = snd (RecordCommandApplied io c now s)"
| "store_step (OpApplyRemoteBonus io c b now) s = snd (ApplyRemoteBonus io c b now s)"
| "store_step (OpStageControl io c r k now) s = snd (StageControlEffect io c r k now s)"
| "store_step (OpCompleteControl io c now) s = snd (CompleteControlEffect io c now s)"
| "store_step (OpForgetApplied io cs) s = snd (ForgetAppliedCommandIDs io cs s)"
| "store_step (OpBindEnrollment io u d trust) s = snd (BindEnrollment io u d trust s)"
| "store_step (OpRestart io) s = (case OpenStore io (st_db s) of Inl _ \<Rightarrow> s | Inr s' \<Rightarrow> s')"

definition run_store :: "store_op list \<Rightarrow> Store \<Rightarrow> Store" where
  "run_store = fold store_step"

definition empty_store :: Store where
  "empty_store = \<lparr>st_db = empty_database, st_cachedPolicy = None, st_confirmed = None\<rparr>"

lemma run_store_simps [simp]:
  "run_store [] s = s" "run_store (c # cs) s = run_store cs (store_step c s)"
  by (simp_all add: run_store_def)

text \<open>Policies carry 64-bit durations.\<close>

fun op_typed :: "store_op \<Rightarrow> bool" where
  "op_typed (OpReplacePolicy io p) = quotas_in64 p"
| "op_typed _ = True"

text \<open>The reading after the commit of a local bonus is served.\<close>

fun op_refreshed :: "store_op \<Rightarrow> bool" where
  "op_refreshed (OpAddBonusWithEvent io refresh b e) = refresh"
| "op_refreshed _ = True"

section \<open>The constraints of the schema\<close>

definition policy_tables_ok :: "Database \<Rightarrow> bool" where
  "policy_tables_ok db \<longleftrightarrow>
     (\<forall>row. policy_state db = Some row \<longrightarrow> 0 \<le> pr_revision row \<and> 0 \<le> pr_warning_minutes row)
     \<and> tbl_keyed fst (weekly_quota db) \<and> (\<forall>(d, n)\<in>set (weekly_quota db). 0 \<le> n)
     \<and> tbl_keyed rr_id (routine db)
     \<and> (\<forall>r\<in>set (routine db). 0 \<le> rr_start_second r \<and> rr_start_second r \<le> 86399
          \<and> 0 \<le> rr_end_second r \<and> rr_end_second r \<le> 86399)
     \<and> distinct (routine_day db) \<and> fst ` set (routine_day db) \<subseteq> rr_id ` set (routine db)"

definition state_tables_ok :: "Database \<Rightarrow> bool" where
  "state_tables_ok db \<longleftrightarrow>
     tbl_keyed du_LocalDate (daily_usage db) \<and> (\<forall>u\<in>set (daily_usage db). 0 \<le> du_SecondsUsed u)
     \<and> tbl_keyed bo_UUID (bonus db) \<and> (\<forall>b\<in>set (bonus db). 0 < bo_Seconds b)
     \<and> tbl_keyed pe_UUID (pending_event db) \<and> (\<forall>e\<in>set (pending_event db). 0 \<le> pe_RetryCount e)
     \<and> tbl_keyed ap_id (applied_command db)
     \<and> (\<forall>c. confirmed_session_state db = Some c \<longrightarrow> validateConfirmedSessionState c = None)
     \<and> (\<forall>c. pending_control_effect db = Some c \<longrightarrow> 0 < ce_Revision c \<and> validControlKind (ce_Kind c))"

text \<open>The operations that leave the policy tables alone, and what they may do to the rest.\<close>

definition same_policy_tables :: "Database \<Rightarrow> Database \<Rightarrow> bool" where
  "same_policy_tables db db' \<longleftrightarrow> policy_state db' = policy_state db
     \<and> weekly_quota db' = weekly_quota db \<and> routine db' = routine db \<and> routine_day db' = routine_day db"

lemma same_policy_tables_refl [simp]: "same_policy_tables db db"
  by (simp add: same_policy_tables_def)

lemma same_policy_tables_ok: "same_policy_tables db db' \<Longrightarrow> policy_tables_ok db' = policy_tables_ok db"
  by (simp add: same_policy_tables_def policy_tables_ok_def)

lemma same_policy_tables_load:
  "same_policy_tables db db' \<Longrightarrow> loadPolicyFromDatabase db' = loadPolicyFromDatabase db"
  by (simp only: same_policy_tables_def loadPolicyFromDatabase_def)

lemmas state_op_defs =
  CheckpointUsage_def SaveConfirmedSessionState_def AddBonusWithEvent_def AcknowledgeEvent_def
  IncrementEventRetries_def RecordCommandApplied_def ApplyRemoteBonus_def StageControlEffect_def
  CompleteControlEffect_def ForgetAppliedCommandIDs_def refreshConfirmedSessionState_def

fun policy_op :: "store_op \<Rightarrow> bool" where
  "policy_op (OpReplacePolicy io p) = True"
| "policy_op (OpBindEnrollment io u d t) = True"
| "policy_op (OpRestart io) = True"
| "policy_op _ = False"

lemma state_op_policy:
  "\<not> policy_op c \<Longrightarrow> same_policy_tables (st_db s) (st_db (store_step c s))
     \<and> st_cachedPolicy (store_step c s) = st_cachedPolicy s"
  by (cases c) (auto simp: state_op_defs same_policy_tables_def upsert_usage_def record_applied_def
      insert_bonus_event_def Let_def split: option.split)

lemma OpenStore_Inr:
  "OpenStore io db = Inr s \<Longrightarrow> st_db s = db \<and> cache_coherent s
     \<and> st_confirmed s = confirmed_session_state db"
  by (auto simp: OpenStore_def refreshPolicyCache_def LoadPolicy_def cache_coherent_def
      refreshConfirmedSessionState_def Let_def split: if_splits option.splits sum.splits)

lemma BindEnrollment_cases:
  obtains (error) e where "BindEnrollment io u d trust s = (Inl e, s)"
  | (keep) "BindEnrollment io u d trust s =
      (Inr False, s\<lparr>st_db := (st_db s)\<lparr>enrollment := Some (u, d)\<rparr>\<rparr>)"
      "\<not> enrollment_reset u d trust (st_db s)"
  | (reset) "BindEnrollment io u d trust s =
      (Inr True, \<lparr>st_db = empty_database\<lparr>enrollment := Some (u, d)\<rparr>,
        st_cachedPolicy = None, st_confirmed = None\<rparr>)"
      "enrollment_reset u d trust (st_db s)"
proof -
  have clear: "clear_enrollment_state db\<lparr>enrollment := x\<rparr> = empty_database\<lparr>enrollment := x\<rparr>" for db x
    by (simp add: clear_enrollment_state_def empty_database_def)
  consider "u = [] \<or> d = []" | "\<not> (u = [] \<or> d = [])" "\<not> io"
    | "\<not> (u = [] \<or> d = [])" "io" "enrollment_reset u d trust (st_db s)"
    | "\<not> (u = [] \<or> d = [])" "io" "\<not> enrollment_reset u d trust (st_db s)" by blast
  then show ?thesis
  proof cases
    case 3
    then show ?thesis by (intro reset) (simp_all add: BindEnrollment_def Let_def clear)
  next
    case 4
    then show ?thesis by (intro keep) (simp_all add: BindEnrollment_def Let_def)
  qed (rule error, simp add: BindEnrollment_def)+
qed

section \<open>Every operation keeps the constraints\<close>

lemma day_rows_mem: "(i, d) \<in> set (day_rows r) \<longleftrightarrow> i = sr_ID r \<and> sr_Days r d"
  by (auto simp: day_rows_def)

lemma distinct_day_rows:
  "distinct (map sr_ID rs) \<Longrightarrow> distinct (concat (map day_rows rs))"
proof (induction rs)
  case (Cons r rs)
  have "distinct (day_rows r)"
    by (simp add: day_rows_def distinct_map inj_on_def)
  moreover have "set (day_rows r) \<inter> set (concat (map day_rows rs)) = {}"
    using Cons.prems by (force simp: day_rows_mem)
  ultimately show ?case using Cons by simp
qed simp

lemma write_policy_ok:
  assumes "validatePolicy p = None"
  shows "policy_tables_ok (write_policy p (sort_key sr_ID (ps_Routines p)) db)"
proof -
  let ?rs = "sort_key sr_ID (ps_Routines p)"
  have v: "0 \<le> ps_Revision p" "0 \<le> ps_WarningMinutes p" "\<forall>d. whole_seconds (ps_WeeklyQuota p d)"
      "\<forall>r\<in>set (ps_Routines p). stored_routine_ok r" "distinct (map sr_ID (ps_Routines p))"
    using assms by (simp_all add: validatePolicy_None)
  have "mset (map sr_ID ?rs) = mset (map sr_ID (ps_Routines p))" by simp
  from mset_eq_imp_distinct_iff [OF this] v(5) have dist: "distinct (map sr_ID ?rs)" by simp
  have ids: "rr_id \<circ> routine_row = sr_ID" by (simp add: fun_eq_iff routine_row_def)
  have sec: "0 \<le> q div second \<and> q div second \<le> 86399" if "whole_seconds q" "q < day" for q
    using that zdiv_mono1 [of q "day - 1" second]
    by (simp add: whole_seconds_def duration_defs pos_imp_zdiv_nonneg_iff)
  have quota: "0 \<le> go_div (ps_WeeklyQuota p d) second" for d
    using v(3) by (simp add: whole_seconds_def pos_imp_zdiv_nonneg_iff)
  have times: "\<forall>r\<in>set ?rs. 0 \<le> rr_start_second (routine_row r) \<and> rr_start_second (routine_row r) \<le> 86399
      \<and> 0 \<le> rr_end_second (routine_row r) \<and> rr_end_second (routine_row r) \<le> 86399"
    using v(4) sec by (simp add: stored_routine_ok_def routine_row_def whole_seconds_def)
  have "fst ` set (concat (map day_rows ?rs)) \<subseteq> sr_ID ` set ?rs"
    by (auto simp: day_rows_mem)
  also have "\<dots> = rr_id ` set (map routine_row ?rs)"
    by (metis ids map_map set_map)
  finally have refs: "fst ` set (concat (map day_rows ?rs)) \<subseteq> rr_id ` set (map routine_row ?rs)" .
  have quotas: "tbl_keyed fst (quota_rows (ps_WeeklyQuota p))"
      "\<forall>(d, n)\<in>set (quota_rows (ps_WeeklyQuota p)). 0 \<le> n"
    using quota by (auto simp: quota_rows_def tbl_keyed_def comp_def)
  have keyed: "tbl_keyed rr_id (map routine_row ?rs)"
    using dist by (simp add: tbl_keyed_def ids)
  have state: "\<forall>row. Some (policy_row p) = Some row \<longrightarrow> 0 \<le> pr_revision row \<and> 0 \<le> pr_warning_minutes row"
    using v(1,2) by (simp add: policy_row_def)
  note facts = state quotas keyed times distinct_day_rows [OF dist] refs
  show ?thesis
    unfolding policy_tables_ok_def write_policy_def
    by (intro conjI; use facts in simp)
qed

lemma policy_tables_ok_empty [simp]: "policy_tables_ok (empty_database\<lparr>enrollment := x\<rparr>)"
  "state_tables_ok (empty_database\<lparr>enrollment := x\<rparr>)"
  by (simp_all add: policy_tables_ok_def state_tables_ok_def empty_database_def)

lemma state_tables_ok_only:
  "daily_usage db' = daily_usage db \<Longrightarrow> bonus db' = bonus db \<Longrightarrow> pending_event db' = pending_event db \<Longrightarrow>
   applied_command db' = applied_command db \<Longrightarrow>
   confirmed_session_state db' = confirmed_session_state db \<Longrightarrow>
   pending_control_effect db' = pending_control_effect db \<Longrightarrow>
   state_tables_ok db' = state_tables_ok db"
  by (simp add: state_tables_ok_def)

lemma upsert_usage_ok:
  "state_tables_ok db \<Longrightarrow> 0 \<le> du_SecondsUsed u \<Longrightarrow> state_tables_ok (upsert_usage u db)"
  by (auto simp: state_tables_ok_def upsert_usage_def usage_table.keyed_upsert usage_merge_def
      dest!: set_tbl_upsertD)

lemma record_applied_ok: "state_tables_ok db \<Longrightarrow> state_tables_ok (record_applied c now db)"
  by (simp add: state_tables_ok_def record_applied_def)

lemma confirmed_valid_add:
  "validateConfirmedSessionState c = None \<Longrightarrow> 0 < bo_Seconds b \<Longrightarrow>
   add_to_confirmed b (Some c) = Some c' \<Longrightarrow> validateConfirmedSessionState c' = None"
  by (auto simp: validateConfirmedSessionState_def add_to_confirmed_def split: if_splits)

lemma validateBonus_None: "validateBonus b = None \<Longrightarrow> 0 < bo_Seconds b \<and> bo_UUID b \<noteq> []"
  by (auto simp: validateBonus_def split: if_splits)

lemma validateEvent_None: "validateEvent e = None \<Longrightarrow> 0 \<le> pe_RetryCount e"
  by (auto simp: validateEvent_def split: if_splits)

lemma insert_bonus_event_ok:
  assumes "state_tables_ok db" and "validateBonus b = None" and "validateEvent e = None"
  shows "state_tables_ok (insert_bonus_event b e db)"
proof -
  have "validateConfirmedSessionState c' = None"
    if "add_to_confirmed b (confirmed_session_state db) = Some c'" for c'
  proof -
    obtain c where c: "confirmed_session_state db = Some c"
      using \<open>add_to_confirmed b (confirmed_session_state db) = Some c'\<close>
      by (auto simp: add_to_confirmed_def)
    with assms(1) have "validateConfirmedSessionState c = None" by (simp add: state_tables_ok_def)
    with that c validateBonus_None [OF assms(2)] show ?thesis
      by (auto intro: confirmed_valid_add)
  qed
  with assms(1) validateBonus_None [OF assms(2)] validateEvent_None [OF assms(3)] show ?thesis
    by (auto simp: state_tables_ok_def insert_bonus_event_def Let_def set_tbl_insert_ignore)
qed

lemma keyed_fold_delete:
  "tbl_keyed key t \<Longrightarrow> tbl_keyed key (fold (\<lambda>c. tbl_delete (\<lambda>a. key a = c)) cs t)"
  by (induction cs arbitrary: t) simp_all

lemma retries_ok:
  assumes "state_tables_ok db"
  shows "state_tables_ok (db\<lparr>pending_event :=
    tbl_update hit (\<lambda>e. e\<lparr>pe_RetryCount := pe_RetryCount e + 1\<rparr>) (pending_event db)\<rparr>)"
proof -
  let ?t = "tbl_update hit (\<lambda>e. e\<lparr>pe_RetryCount := pe_RetryCount e + 1\<rparr>) (pending_event db)"
  have "tbl_keyed pe_UUID ?t"
    using assms by (intro tbl_keyed_update) (simp_all add: state_tables_ok_def)
  moreover have "\<forall>e\<in>set ?t. 0 \<le> pe_RetryCount e"
    using assms by (auto simp: tbl_update_def state_tables_ok_def)
  ultimately show ?thesis
    using assms by (simp add: state_tables_ok_def)
qed

lemma state_step_ok:
  assumes "state_tables_ok (st_db s)"
  shows "state_tables_ok (st_db (store_step c s))"
proof (cases c)
  case (OpReplacePolicy io p)
  show ?thesis
    by (cases rule: ReplacePolicy_cases [of io p s])
      (use assms in \<open>simp_all add: OpReplacePolicy write_policy_def state_tables_ok_def\<close>)
next
  case (OpCheckpointUsage io u)
  with assms show ?thesis
    by (auto simp: CheckpointUsage_def upsert_usage_ok split: option.split)
next
  case (OpSaveConfirmed io cc)
  show ?thesis
  proof (cases "validateConfirmedSessionState cc")
    case None
    then have "0 \<le> cs_UsageSeconds cc"
      by (simp add: validateConfirmedSessionState_def split: if_splits)
    then have "state_tables_ok (upsert_usage \<lparr>du_LocalDate = cs_LocalDate cc,
        du_SecondsUsed = cs_UsageSeconds cc, du_CheckpointAt = cs_ConfirmedAt cc\<rparr> (st_db s))"
      by (simp add: upsert_usage_ok assms)
    with assms None show ?thesis
      by (auto simp: OpSaveConfirmed SaveConfirmedSessionState_def Let_def state_tables_ok_def
          validateConfirmedSessionState_def split: if_splits)
  qed (simp add: OpSaveConfirmed SaveConfirmedSessionState_def assms)
next
  case (OpAddBonusWithEvent io refresh b e)
  with assms show ?thesis
    by (auto simp: AddBonusWithEvent_def refreshConfirmedSessionState_def insert_bonus_event_ok
        split: option.split)
next
  case (OpAcknowledgeEvent io u)
  with assms show ?thesis
    by (auto simp: AcknowledgeEvent_def state_tables_ok_def set_tbl_delete)
next
  case (OpIncrementRetries io us)
  with assms show ?thesis
    by (simp add: IncrementEventRetries_def Let_def retries_ok split: option.split)
next
  case (OpRecordApplied io i now)
  with assms show ?thesis by (simp add: RecordCommandApplied_def record_applied_ok)
next
  case (OpApplyRemoteBonus io i b now)
  have "state_tables_ok (db\<lparr>bonus := tbl_insert_ignore bo_UUID b (bonus db)\<rparr>)"
    if "state_tables_ok db" "validateBonus b = None" for db
    using that validateBonus_None [of b] by (auto simp: state_tables_ok_def set_tbl_insert_ignore)
  with OpApplyRemoteBonus assms show ?thesis
    by (simp add: ApplyRemoteBonus_def record_applied_ok Let_def split: option.split)
next
  case (OpStageControl io i r k now)
  with assms show ?thesis by (auto simp: StageControlEffect_def state_tables_ok_def)
next
  case (OpCompleteControl io i now)
  have "state_tables_ok ((st_db s)\<lparr>pending_control_effect := None\<rparr>)"
    using assms by (simp add: state_tables_ok_def)
  with OpCompleteControl assms show ?thesis
    by (simp add: CompleteControlEffect_def record_applied_ok split: option.split)
next
  case (OpForgetApplied io cs)
  with assms show ?thesis
    by (simp add: ForgetAppliedCommandIDs_def state_tables_ok_def keyed_fold_delete)
next
  case (OpBindEnrollment io u d trust)
  show ?thesis
  proof (cases rule: BindEnrollment_cases [of io u d trust s])
    case keep
    with assms show ?thesis by (simp add: OpBindEnrollment state_tables_ok_def)
  qed (use assms in \<open>simp_all add: OpBindEnrollment\<close>)
next
  case (OpRestart io)
  with assms show ?thesis by (auto split: sum.split dest: OpenStore_Inr)
qed

section \<open>Coherence of the caches\<close>

lemma cache_coherent_same:
  "same_policy_tables (st_db s) (st_db s') \<Longrightarrow> st_cachedPolicy s' = st_cachedPolicy s \<Longrightarrow>
     cache_coherent s' = cache_coherent s"
  by (simp add: cache_coherent_def same_policy_tables_load cong: sum.case_cong)

lemma policy_step_ok:
  assumes "policy_tables_ok (st_db s)" and "cache_coherent s" and "op_typed c"
  shows "policy_tables_ok (st_db (store_step c s)) \<and> cache_coherent (store_step c s)"
proof (cases "policy_op c")
  case False
  from state_op_policy [OF this, of s] assms show ?thesis
    using cache_coherent_same same_policy_tables_ok by blast
next
  case True
  then consider io p where "c = OpReplacePolicy io p" | io u d t where "c = OpBindEnrollment io u d t"
    | io where "c = OpRestart io" by (cases c) simp_all
  then show ?thesis
  proof cases
    case (1 io p)
    show ?thesis
      by (cases rule: ReplacePolicy_cases [of io p s])
        (use assms 1 in \<open>simp_all add: write_policy_ok cache_coherent_def load_write_policy\<close>)
  next
    case (2 io u d t)
    show ?thesis
    proof (cases rule: BindEnrollment_cases [of io u d t s])
      case keep
      have "same_policy_tables (st_db s) (st_db (store_step c s))"
        by (simp add: 2 keep same_policy_tables_def)
      moreover have "st_cachedPolicy (store_step c s) = st_cachedPolicy s" by (simp add: 2 keep)
      ultimately show ?thesis
        using assms cache_coherent_same same_policy_tables_ok by blast
    next
      case reset
      then show ?thesis
        by (simp add: 2 cache_coherent_def loadPolicyFromDatabase_def empty_database_def
            policy_tables_ok_def)
    qed (use assms in \<open>simp_all add: 2\<close>)
  next
    case (3 io)
    with assms show ?thesis by (auto split: sum.split dest: OpenStore_Inr)
  qed
qed

definition confirmed_coherent :: "Store \<Rightarrow> bool" where
  "confirmed_coherent s \<longleftrightarrow> st_confirmed s = confirmed_session_state (st_db s)"

lemma refresh_coherent:
  "state_tables_ok (st_db s) \<Longrightarrow> confirmed_coherent (snd (refreshConfirmedSessionState True s))"
  by (auto simp: refreshConfirmedSessionState_def confirmed_coherent_def state_tables_ok_def
      split: option.split)

lemma confirmed_step:
  assumes "confirmed_coherent s" and "state_tables_ok (st_db s)" and "op_refreshed c"
  shows "confirmed_coherent (store_step c s)"
proof (cases c)
  case (OpAddBonusWithEvent io refresh b e)
  with assms refresh_coherent [of "s\<lparr>st_db := insert_bonus_event b e (st_db s)\<rparr>"] show ?thesis
    by (auto simp: AddBonusWithEvent_def insert_bonus_event_ok split: option.split)
next
  case (OpReplacePolicy io p)
  show ?thesis
    by (cases rule: ReplacePolicy_cases [of io p s])
      (use assms in \<open>simp_all add: OpReplacePolicy confirmed_coherent_def write_policy_def\<close>)
next
  case (OpBindEnrollment io u d trust)
  show ?thesis
    by (cases rule: BindEnrollment_cases [of io u d trust s])
      (use assms in \<open>simp_all add: OpBindEnrollment confirmed_coherent_def empty_database_def\<close>)
next
  case (OpRestart io)
  with assms show ?thesis
    by (auto simp: confirmed_coherent_def split: sum.split dest: OpenStore_Inr)
qed (use assms in \<open>auto simp: state_op_defs confirmed_coherent_def upsert_usage_def record_applied_def
       Let_def split: option.split\<close>)

section \<open>All runs\<close>

definition store_inv :: "Store \<Rightarrow> bool" where
  "store_inv s \<longleftrightarrow> policy_tables_ok (st_db s) \<and> state_tables_ok (st_db s) \<and> cache_coherent s"

lemma store_inv_empty: "store_inv empty_store" "confirmed_coherent empty_store"
  by (simp_all add: store_inv_def empty_store_def confirmed_coherent_def cache_coherent_def
      loadPolicyFromDatabase_def empty_database_def policy_tables_ok_def state_tables_ok_def)

lemma store_inv_run:
  "store_inv s \<Longrightarrow> list_all op_typed cs \<Longrightarrow> store_inv (run_store cs s)"
  by (induction cs arbitrary: s) (simp_all add: store_inv_def policy_step_ok state_step_ok)

lemma confirmed_run:
  "store_inv s \<Longrightarrow> confirmed_coherent s \<Longrightarrow> list_all op_typed cs \<Longrightarrow> list_all op_refreshed cs \<Longrightarrow>
     confirmed_coherent (run_store cs s)"
proof (induction cs arbitrary: s)
  case (Cons c cs)
  have "store_inv (store_step c s)"
    using store_inv_run [of s "[c]"] Cons.prems by simp
  with Cons show ?case by (simp add: confirmed_step store_inv_def)
qed simp

text \<open>Opening the database again reads both caches from the tables; the policy cache is the one
  there was, and so is the balance when it agreed with its table.\<close>

lemma reopen_tables:
  assumes "store_inv s"
  shows "OpenStore True (st_db s) = Inr (s\<lparr>st_confirmed := confirmed_session_state (st_db s)\<rparr>)"
proof -
  have "refreshPolicyCache True \<lparr>st_db = st_db s, st_cachedPolicy = None, st_confirmed = None\<rparr>
      = (Inr (), \<lparr>st_db = st_db s, st_cachedPolicy = st_cachedPolicy s, st_confirmed = None\<rparr>)"
    using assms by (auto simp: store_inv_def cache_coherent_def refreshPolicyCache_def
        LoadPolicy_def split: sum.splits)
  with assms show ?thesis
    by (auto simp: OpenStore_def refreshConfirmedSessionState_def store_inv_def
        state_tables_ok_def split: option.split)
qed

lemma reopen_same: "store_inv s \<Longrightarrow> confirmed_coherent s \<Longrightarrow> OpenStore True (st_db s) = Inr s"
  using reopen_tables [of s] by (cases s) (simp add: confirmed_coherent_def)

section \<open>What never goes back\<close>

text \<open>The runs in which the enrollment is not replaced by another one.\<close>

fun no_reset :: "store_op list \<Rightarrow> Store \<Rightarrow> bool" where
  "no_reset [] s = True"
| "no_reset (c # cs) s \<longleftrightarrow>
     (case c of OpBindEnrollment io u d trust \<Rightarrow> fst (BindEnrollment io u d trust s) \<noteq> Inr True
        | _ \<Rightarrow> True) \<and> no_reset cs (store_step c s)"

definition stored_revision :: "Store \<Rightarrow> int" where
  "stored_revision s = (if snd (policyRevision (st_db s)) then fst (policyRevision (st_db s)) else - 1)"

lemma stored_revision_same:
  "same_policy_tables (st_db s) (st_db s') \<Longrightarrow> stored_revision s' = stored_revision s"
  by (simp add: stored_revision_def policyRevision_def same_policy_tables_def)

lemma revision_step:
  assumes "no_reset [c] s"
  shows "stored_revision s \<le> stored_revision (store_step c s)"
proof (cases "policy_op c")
  case False
  from stored_revision_same [OF conjunct1 [OF state_op_policy [OF this, of s]]] show ?thesis by simp
next
  case True
  then consider io p where "c = OpReplacePolicy io p" | io u d t where "c = OpBindEnrollment io u d t"
    | io where "c = OpRestart io" by (cases c) simp_all
  then show ?thesis
  proof cases
    case (1 io p)
    show ?thesis
    proof (cases rule: ReplacePolicy_cases [of io p s])
      case replaced
      from replaced(2) have "0 \<le> ps_Revision p" by (simp add: validatePolicy_None)
      with replaced show ?thesis
        by (auto simp: 1 stored_revision_def policyRevision_def write_policy_def policy_row_def
            split: option.splits)
    qed (simp_all add: 1)
  next
    case (2 io u d t)
    show ?thesis
      by (cases rule: BindEnrollment_cases [of io u d t s])
        (use assms in \<open>simp_all add: 2 stored_revision_def policyRevision_def\<close>)
  next
    case (3 io)
    then show ?thesis
      by (auto simp: stored_revision_def split: sum.split dest: OpenStore_Inr)
  qed
qed

lemma revision_run: "no_reset cs s \<Longrightarrow> stored_revision s \<le> stored_revision (run_store cs s)"
proof (induction cs arbitrary: s)
  case (Cons c cs)
  then have "stored_revision s \<le> stored_revision (store_step c s)"
    using revision_step [of c s] by simp
  also have "\<dots> \<le> stored_revision (run_store cs (store_step c s))"
    using Cons by simp
  finally show ?case by simp
qed simp

lemma durable_step:
  assumes "no_reset [c] s"
  shows "durable_seconds date (st_db s) \<le> durable_seconds date (st_db (store_step c s))"
proof (cases c)
  case (OpCheckpointUsage io u)
  then show ?thesis
    by (auto simp: CheckpointUsage_def upsert_as_save durable.save_mono split: option.split)
next
  case (OpSaveConfirmed io cc)
  have "durable_seconds date (db\<lparr>confirmed_session_state := x\<rparr>) = durable_seconds date db" for db x
    by (simp add: durable_seconds_def)
  with OpSaveConfirmed show ?thesis
    by (auto simp: SaveConfirmedSessionState_def Let_def upsert_as_save durable.save_mono
        split: option.split)
next
  case (OpReplacePolicy io p)
  show ?thesis
    by (cases rule: ReplacePolicy_cases [of io p s])
      (simp_all add: OpReplacePolicy durable_seconds_def write_policy_def)
next
  case (OpBindEnrollment io u d trust)
  show ?thesis
    by (cases rule: BindEnrollment_cases [of io u d trust s])
      (use assms in \<open>simp_all add: OpBindEnrollment durable_seconds_def\<close>)
next
  case (OpRestart io)
  then show ?thesis by (auto split: sum.split dest: OpenStore_Inr)
qed (auto simp: state_op_defs durable_seconds_def record_applied_def insert_bonus_event_def Let_def
       split: option.split)

lemma durable_run:
  "no_reset cs s \<Longrightarrow> durable_seconds date (st_db s) \<le> durable_seconds date (st_db (run_store cs s))"
proof (induction cs arbitrary: s)
  case (Cons c cs)
  then have "durable_seconds date (st_db s) \<le> durable_seconds date (st_db (store_step c s))"
    using durable_step [of c s] by simp
  also have "\<dots> \<le> durable_seconds date (st_db (run_store cs (store_step c s)))"
    using Cons by simp
  finally show ?case by simp
qed simp

end
