(* ===== verification/AgentStoreProps.thy ===== *)
theory AgentStoreProps
  imports AgentStoreRuns
begin

text \<open>
  The properties of the agent's store: what survives a restart, what never goes back, the
  exactly-once effect of bonuses and commands, the balance under messages in flight, the
  separation of enrollments and the loss bound of the usage counter.
\<close>

section \<open>Samples for the witnesses\<close>

definition sample_now :: time where "sample_now = 1784560000 * second"

definition sample_routine :: StoredRoutine where
  "sample_routine = \<lparr>sr_ID = ''r1'', sr_Name = ''dormir'', sr_Days = (\<lambda>d. d = Monday \<or> d = Friday),
     sr_Start = 22 * hour, sr_End = 6 * hour, sr_Enabled = True\<rparr>"

definition sample_policy :: "int \<Rightarrow> PolicySnapshot" where
  "sample_policy n = \<lparr>ps_Revision = n, ps_MonitoringPaused = False, ps_ManualBlock = False,
     ps_WarningMinutes = 10, ps_LocalPasswordVerifier = [], ps_WeeklyQuota = (\<lambda>_. 2 * hour),
     ps_Routines = [sample_routine\<lparr>sr_ID := ''r2''\<rparr>, sample_routine], ps_UpdatedAt = sample_now\<rparr>"

definition sample_bonus :: "string \<Rightarrow> string \<Rightarrow> Bonus" where
  "sample_bonus uuid origin = \<lparr>bo_UUID = uuid, bo_LocalDate = ''2026-07-20'', bo_Seconds = 900,
     bo_Origin = origin, bo_CreatedAt = sample_now\<rparr>"

definition sample_event :: "string \<Rightarrow> PendingEvent" where
  "sample_event uuid = \<lparr>pe_UUID = uuid, pe_Kind = ''bonus'', pe_PayloadJSON = ''{}'',
     pe_CreatedAt = sample_now, pe_RetryCount = 0\<rparr>"

definition sample_confirmed :: ConfirmedSessionState where
  "sample_confirmed = \<lparr>cs_Revision = 3, cs_SessionID = ''2'', cs_LocalDate = ''2026-07-20'',
     cs_RemainingSeconds = 1800, cs_UsageSeconds = 600, cs_ConfirmedAt = sample_now\<rparr>"

definition sample_run :: "store_op list" where
  "sample_run = [OpReplacePolicy True (sample_policy 3),
     OpSaveConfirmed True sample_confirmed,
     OpAddBonusWithEvent True True (sample_bonus ''b1'' ''local'') (sample_event ''b1''),
     OpApplyRemoteBonus True ''c1'' (sample_bonus ''b2'' ''remote'') sample_now,
     OpStageControl True ''c2'' 4 ''block_now'' sample_now, OpRestart True]"

section \<open>Restarts\<close>

lemma agent_store_survives_restart_facts:
  assumes "list_all op_typed cs"
  defines "s \<equiv> run_store cs empty_store"
  shows "policy_tables_ok (st_db s)" and "state_tables_ok (st_db s)" and "CurrentPolicy s = LoadPolicy True s"
    and "OpenStore True (st_db s) = Inr (s\<lparr>st_confirmed := confirmed_session_state (st_db s)\<rparr>)"
    and "list_all op_refreshed cs \<Longrightarrow> CurrentConfirmedSessionState s = confirmed_session_state (st_db s)"
    and "list_all op_refreshed cs \<Longrightarrow> OpenStore True (st_db s) = Inr s"
proof -
  have inv: "store_inv s"
    unfolding s_def by (rule store_inv_run [OF store_inv_empty(1) assms(1)])
  then show "policy_tables_ok (st_db s)" and "state_tables_ok (st_db s)" by (simp_all add: store_inv_def)
  show "CurrentPolicy s = LoadPolicy True s"
    using inv by (auto simp: store_inv_def cache_coherent_def CurrentPolicy_def LoadPolicy_def
        split: sum.splits)
  show "OpenStore True (st_db s) = Inr (s\<lparr>st_confirmed := confirmed_session_state (st_db s)\<rparr>)"
    by (rule reopen_tables [OF inv])
  have "confirmed_coherent s" if "list_all op_refreshed cs"
    unfolding s_def by (rule confirmed_run [OF store_inv_empty assms(1) that])
  with reopen_same [OF inv]
  show "list_all op_refreshed cs \<Longrightarrow> CurrentConfirmedSessionState s = confirmed_session_state (st_db s)"
    and "list_all op_refreshed cs \<Longrightarrow> OpenStore True (st_db s) = Inr s"
    by (simp_all add: confirmed_coherent_def CurrentConfirmedSessionState_def)
qed

text \<open>C21: Whatever sequence of operations the agent's store goes through from an empty database,
  with any of them failing, its tables satisfy the constraints the schema declares and the policy
  served from memory is the one in the database. Opening the database again always succeeds and
  gives the same tables and the same cached policy, and the confirmed balance as the table has
  it. The balance served from memory is that one too, unless the reading after the commit of a
  local bonus failed on the way: the bonus is durable then, while memory has the older balance.\<close>

theorem agent_store_survives_restart:
  assumes "list_all op_typed cs" and "run_store cs empty_store = s"
  shows "policy_tables_ok (st_db s) \<and> state_tables_ok (st_db s) \<and> CurrentPolicy s = LoadPolicy True s
    \<and> OpenStore True (st_db s) = Inr (s\<lparr>st_confirmed := confirmed_session_state (st_db s)\<rparr>)
    \<and> (list_all op_refreshed cs \<longrightarrow> CurrentConfirmedSessionState s = confirmed_session_state (st_db s)
         \<and> OpenStore True (st_db s) = Inr s)"
  using agent_store_survives_restart_facts [OF assms(1)] unfolding assms(2) by blast

lemma agent_store_survives_restart_witness:
  "bonus_total ''2026-07-20'' (st_db (run_store sample_run empty_store)) = 1800
   \<and> OpenStore True (st_db (run_store sample_run empty_store)) = Inr (run_store sample_run empty_store)"
proof (rule conjI)
  have typed: "list_all op_typed sample_run" "list_all op_refreshed sample_run"
    by (simp_all add: sample_run_def quotas_in64_def sample_policy_def in64_def duration_defs)
  show "OpenStore True (st_db (run_store sample_run empty_store)) = Inr (run_store sample_run empty_store)"
    using agent_store_survives_restart [OF typed(1) refl] typed(2) by blast
qed code_simp

section \<open>Replacing the policy\<close>

lemma replace_policy_outcome_facts:
  assumes "validatePolicy p = None" and "quotas_in64 p"
    and "policyRevision (st_db s) = (current, exists)"
  shows "exists \<and> ps_Revision p < current \<Longrightarrow>
      ReplacePolicy True p s = (Inl (ErrStalePolicy (ps_Revision p) current), s)"
    and "exists \<and> ps_Revision p = current \<Longrightarrow> ReplacePolicy True p s = (Inr (), s)"
    and "exists \<longrightarrow> current < ps_Revision p \<Longrightarrow>
      fst (ReplacePolicy True p s) = Inr ()
      \<and> LoadPolicy True (snd (ReplacePolicy True p s)) =
          Inr (p\<lparr>ps_Routines := sort_key sr_ID (ps_Routines p)\<rparr>)
      \<and> CurrentPolicy (snd (ReplacePolicy True p s)) =
          Inr (p\<lparr>ps_Routines := sort_key sr_ID (ps_Routines p)\<rparr>)
      \<and> (\<exists>st q r dd. st_db (snd (ReplacePolicy True p s)) = (st_db s)\<lparr>policy_state := st,
           weekly_quota := q, routine := r, routine_day := dd\<rparr>)"
proof -
  show "ReplacePolicy True p s = (Inl (ErrStalePolicy (ps_Revision p) current), s)"
    if "exists \<and> ps_Revision p < current"
    using that assms by (simp add: ReplacePolicy_def Let_def)
  show "ReplacePolicy True p s = (Inr (), s)" if "exists \<and> ps_Revision p = current"
    using that assms by (simp add: ReplacePolicy_def Let_def)
  let ?rs = "sort_key sr_ID (ps_Routines p)"
  let ?s = "s\<lparr>st_db := write_policy p ?rs (st_db s), st_cachedPolicy := Some (p\<lparr>ps_Routines := ?rs\<rparr>)\<rparr>"
  assume newer: "exists \<longrightarrow> current < ps_Revision p"
  have "ReplacePolicy True p s = (Inr (), ?s)"
    using newer assms by (auto simp: ReplacePolicy_def Let_def)
  then show "fst (ReplacePolicy True p s) = Inr ()
      \<and> LoadPolicy True (snd (ReplacePolicy True p s)) = Inr (p\<lparr>ps_Routines := ?rs\<rparr>)
      \<and> CurrentPolicy (snd (ReplacePolicy True p s)) = Inr (p\<lparr>ps_Routines := ?rs\<rparr>)
      \<and> (\<exists>st q r dd. st_db (snd (ReplacePolicy True p s)) = (st_db s)\<lparr>policy_state := st,
           weekly_quota := q, routine := r, routine_day := dd\<rparr>)"
    by (auto simp: LoadPolicy_def CurrentPolicy_def load_write_policy assms(1,2)) 
      (auto simp: write_policy_def)
qed

text \<open>C22: Replacing the policy. A valid snapshot of an older revision is rejected and one of the
  current revision ignored, both without any change; a newer one (or the first) is what both
  the database and the cache return afterwards, field by field with the routines in the order
  of their ids, and usage, bonuses, events, commands, balance, control effect and enrollment
  are the same as before.\<close>

theorem replace_policy_outcome:
  assumes "validatePolicy p = None" and "quotas_in64 p"
    and "policyRevision (st_db s) = (current, exists)"
  shows "(exists \<and> ps_Revision p < current \<longrightarrow>
      ReplacePolicy True p s = (Inl (ErrStalePolicy (ps_Revision p) current), s))
    \<and> (exists \<and> ps_Revision p = current \<longrightarrow> ReplacePolicy True p s = (Inr (), s))
    \<and> ((exists \<longrightarrow> current < ps_Revision p) \<longrightarrow>
      fst (ReplacePolicy True p s) = Inr ()
      \<and> LoadPolicy True (snd (ReplacePolicy True p s)) =
          Inr (p\<lparr>ps_Routines := sort_key sr_ID (ps_Routines p)\<rparr>)
      \<and> CurrentPolicy (snd (ReplacePolicy True p s)) =
          Inr (p\<lparr>ps_Routines := sort_key sr_ID (ps_Routines p)\<rparr>)
      \<and> (\<exists>st q r dd. st_db (snd (ReplacePolicy True p s)) = (st_db s)\<lparr>policy_state := st,
           weekly_quota := q, routine := r, routine_day := dd\<rparr>))"
  using replace_policy_outcome_facts [OF assms] by blast

lemma replace_policy_outcome_witness:
  "map sr_ID (ps_Routines (sample_policy 3)) = [''r2'', ''r1'']
   \<and> LoadPolicy True (snd (ReplacePolicy True (sample_policy 3) empty_store)) =
     Inr ((sample_policy 3)\<lparr>ps_Routines := sort_key sr_ID (ps_Routines (sample_policy 3))\<rparr>)"
proof (rule conjI)
  have v: "validatePolicy (sample_policy 3) = None" by code_simp
  have t: "quotas_in64 (sample_policy 3)"
    by (simp add: quotas_in64_def sample_policy_def in64_def duration_defs)
  have r: "policyRevision (st_db empty_store) = (0, False)" by code_simp
  show "LoadPolicy True (snd (ReplacePolicy True (sample_policy 3) empty_store)) =
     Inr ((sample_policy 3)\<lparr>ps_Routines := sort_key sr_ID (ps_Routines (sample_policy 3))\<rparr>)"
    using replace_policy_outcome [OF v t r] by blast
qed (simp add: sample_policy_def sample_routine_def)

section \<open>What never goes back\<close>

lemma revision_and_usage_never_decrease_facts:
  assumes "no_reset cs s"
  shows "stored_revision s \<le> stored_revision (run_store cs s)"
    and "durable_seconds date (st_db s) \<le> durable_seconds date (st_db (run_store cs s))"
  by (rule revision_run [OF assms], rule durable_run [OF assms])

text \<open>In every run of the store that does not replace the enrollment, with any operations
  failing and restarts anywhere, the stored policy revision never decreases and the durable
  usage of no date decreases, so neither an old message nor an old checkpoint returns time.\<close>

theorem revision_and_usage_never_decrease:
  assumes "no_reset cs s"
  shows "stored_revision s \<le> stored_revision (run_store cs s)
    \<and> durable_seconds date (st_db s) \<le> durable_seconds date (st_db (run_store cs s))"
  using revision_and_usage_never_decrease_facts [OF assms] by blast

lemma revision_and_usage_never_decrease_witness:
  "no_reset (sample_run @ [OpReplacePolicy True (sample_policy 2)]) empty_store
   \<and> stored_revision (run_store (sample_run @ [OpReplacePolicy True (sample_policy 2)]) empty_store) = 3
   \<and> durable_seconds ''2026-07-20'' (st_db empty_store) \<le> durable_seconds ''2026-07-20''
      (st_db (run_store (sample_run @ [OpReplacePolicy True (sample_policy 2)]) empty_store))"
proof (intro conjI)
  show n: "no_reset (sample_run @ [OpReplacePolicy True (sample_policy 2)]) empty_store" by code_simp
  show "durable_seconds ''2026-07-20'' (st_db empty_store) \<le> durable_seconds ''2026-07-20''
      (st_db (run_store (sample_run @ [OpReplacePolicy True (sample_policy 2)]) empty_store))"
    by (rule conjunct2 [OF revision_and_usage_never_decrease [OF n]])
qed code_simp

text \<open>Checkpoints in any order. After a sequence of valid checkpoints that the database
  serves, the durable usage of a date is the maximum of what it was and of the values
  checkpointed for that date; the order in which they arrive does not matter.\<close>

theorem checkpoints_keep_the_maximum:
  assumes "\<forall>(d, n, t)\<in>set ws. validateLocalDate d = None \<and> 0 \<le> n \<and> \<not> is_zero t"
  shows "durable_seconds date (st_db (run_store (map (\<lambda>(d, n, t). OpCheckpointUsage True
      \<lparr>du_LocalDate = d, du_SecondsUsed = n, du_CheckpointAt = t\<rparr>) ws) s)) =
    Max (insert (durable_seconds date (st_db s)) {n. \<exists>t. (date, n, t) \<in> set ws})"
proof -
  have "st_db (run_store (map (\<lambda>(d, n, t). OpCheckpointUsage True
      \<lparr>du_LocalDate = d, du_SecondsUsed = n, du_CheckpointAt = t\<rparr>) ws) s) =
      fold (\<lambda>(d, n, t). save_usage d n t) ws (st_db s)"
    using assms by (induction ws arbitrary: s) (auto simp: CheckpointUsage_valid)
  then show ?thesis by (simp add: durable.load_after_saves)
qed

lemma checkpoints_keep_the_maximum_witness:
  "durable_seconds ''2026-07-20'' (st_db (run_store (map (\<lambda>(d, n, t). OpCheckpointUsage True
      \<lparr>du_LocalDate = d, du_SecondsUsed = n, du_CheckpointAt = t\<rparr>)
      [(''2026-07-20'', 120, sample_now), (''2026-07-19'', 500, sample_now), (''2026-07-20'', 60, sample_now)])
      empty_store)) = 120"
proof -
  have v: "\<forall>(d, n, t)\<in>set [(''2026-07-20'', 120::int, sample_now), (''2026-07-19'', 500, sample_now),
      (''2026-07-20'', 60, sample_now)]. validateLocalDate d = None \<and> 0 \<le> n \<and> \<not> is_zero t"
    by code_simp
  have z: "durable_seconds ''2026-07-20'' (st_db empty_store) = 0" by code_simp
  have "{n. \<exists>t. (''2026-07-20'', n, t) \<in> set [(''2026-07-20'', 120::int, sample_now),
      (''2026-07-19'', 500, sample_now), (''2026-07-20'', 60, sample_now)]} = {60, 120}"
    by auto
  then show ?thesis unfolding checkpoints_keep_the_maximum [OF v] z by simp
qed

section \<open>Exactly once\<close>

lemma sum_list_insert_ignore:
  "\<not> tbl_has key (key r) t \<Longrightarrow>
     sum_list (map f (filter p (tbl_insert_ignore key r t))) =
     sum_list (map f (filter p t)) + (if p r then f r else (0::int))"
  by (simp add: tbl_insert_ignore_def)

lemma tbl_insert_ignore_again:
  "tbl_has key (key r) t \<Longrightarrow> tbl_insert_ignore key r t = t"
  by (simp add: tbl_insert_ignore_def)

lemma local_bonus_exactly_once_facts:
  assumes "validateBonus b = None" and "validateEvent e = None" and "bo_UUID b = pe_UUID e"
    and "store_inv s"
  shows "\<not> tbl_has bo_UUID (bo_UUID b) (bonus (st_db s)) \<Longrightarrow>
      fst (AddBonusWithEvent True True b e s) = Inr ()
      \<and> bonus_total date (st_db (snd (AddBonusWithEvent True True b e s))) =
          bonus_total date (st_db s) + (if date = bo_LocalDate b then bo_Seconds b else 0)
      \<and> tbl_has pe_UUID (pe_UUID e) (pending_event (st_db (snd (AddBonusWithEvent True True b e s))))
      \<and> st_confirmed (snd (AddBonusWithEvent True True b e s)) =
          add_to_confirmed b (confirmed_session_state (st_db s))"
    and "tbl_has bo_UUID (bo_UUID b) (bonus (st_db s)) \<Longrightarrow>
      bonus (st_db (snd (AddBonusWithEvent io refresh b e s))) = bonus (st_db s)
      \<and> confirmed_session_state (st_db (snd (AddBonusWithEvent io refresh b e s))) =
          confirmed_session_state (st_db s)"
proof -
  let ?db = "insert_bonus_event b e (st_db s)"
  assume new: "\<not> tbl_has bo_UUID (bo_UUID b) (bonus (st_db s))"
  have "state_tables_ok ?db"
    using assms by (simp add: store_inv_def insert_bonus_event_ok)
  then have "refreshConfirmedSessionState True (s\<lparr>st_db := ?db\<rparr>) =
      (Inr (), s\<lparr>st_db := ?db, st_confirmed := confirmed_session_state ?db\<rparr>)"
    by (auto simp: refreshConfirmedSessionState_def state_tables_ok_def split: option.split)
  then have "AddBonusWithEvent True True b e s =
      (Inr (), s\<lparr>st_db := ?db, st_confirmed := confirmed_session_state ?db\<rparr>)"
    using assms by (simp add: AddBonusWithEvent_def)
  moreover have "tbl_has pe_UUID (pe_UUID e) (tbl_insert_ignore pe_UUID e t)" for t
    by (auto simp: tbl_has_iff set_tbl_insert_ignore)
  ultimately show "fst (AddBonusWithEvent True True b e s) = Inr ()
      \<and> bonus_total date (st_db (snd (AddBonusWithEvent True True b e s))) =
          bonus_total date (st_db s) + (if date = bo_LocalDate b then bo_Seconds b else 0)
      \<and> tbl_has pe_UUID (pe_UUID e) (pending_event (st_db (snd (AddBonusWithEvent True True b e s))))
      \<and> st_confirmed (snd (AddBonusWithEvent True True b e s)) =
          add_to_confirmed b (confirmed_session_state (st_db s))"
    using new by (simp add: insert_bonus_event_def Let_def bonus_total_def sum_list_insert_ignore)
next
  assume old: "tbl_has bo_UUID (bo_UUID b) (bonus (st_db s))"
  then show "bonus (st_db (snd (AddBonusWithEvent io refresh b e s))) = bonus (st_db s)
      \<and> confirmed_session_state (st_db (snd (AddBonusWithEvent io refresh b e s))) =
          confirmed_session_state (st_db s)"
    using assms by (auto simp: AddBonusWithEvent_def insert_bonus_event_def Let_def
        tbl_insert_ignore_again refreshConfirmedSessionState_def split: option.split)
qed

text \<open>A local bonus counts exactly once. The first served call with a new UUID raises the
  bonus total of its date by its seconds, queues its event and raises the confirmed balance of
  that date by the same seconds; a later call with the same UUID changes neither the bonuses
  nor the confirmed balance.\<close>

theorem local_bonus_exactly_once:
  assumes "validateBonus b = None" and "validateEvent e = None" and "bo_UUID b = pe_UUID e"
    and "store_inv s"
  shows "if tbl_has bo_UUID (bo_UUID b) (bonus (st_db s))
    then bonus (st_db (snd (AddBonusWithEvent io refresh b e s))) = bonus (st_db s)
      \<and> confirmed_session_state (st_db (snd (AddBonusWithEvent io refresh b e s))) =
          confirmed_session_state (st_db s)
    else fst (AddBonusWithEvent True True b e s) = Inr ()
      \<and> bonus_total date (st_db (snd (AddBonusWithEvent True True b e s))) =
          bonus_total date (st_db s) + (if date = bo_LocalDate b then bo_Seconds b else 0)
      \<and> tbl_has pe_UUID (pe_UUID e) (pending_event (st_db (snd (AddBonusWithEvent True True b e s))))
      \<and> st_confirmed (snd (AddBonusWithEvent True True b e s)) =
          add_to_confirmed b (confirmed_session_state (st_db s))"
  using local_bonus_exactly_once_facts [OF assms] by presburger

lemma local_bonus_exactly_once_witness:
  "bonus_total ''2026-07-20'' (st_db (snd (AddBonusWithEvent True True
     (sample_bonus ''b1'' ''local'') (sample_event ''b1'') empty_store))) = 900"
proof -
  have v: "validateBonus (sample_bonus ''b1'' ''local'') = None" "validateEvent (sample_event ''b1'') = None"
    and u: "bo_UUID (sample_bonus ''b1'' ''local'') = pe_UUID (sample_event ''b1'')"
    and n: "\<not> tbl_has bo_UUID (bo_UUID (sample_bonus ''b1'' ''local'')) (bonus (st_db empty_store))"
    by code_simp+
  have "bonus_total ''2026-07-20'' (st_db empty_store) = 0"
      "''2026-07-20'' = bo_LocalDate (sample_bonus ''b1'' ''local'')"
      "bo_Seconds (sample_bonus ''b1'' ''local'') = 900"
    by code_simp+
  with local_bonus_exactly_once [OF v u store_inv_empty(1), of True True "''2026-07-20''"] n
  show ?thesis by simp
qed

text \<open>The runs that neither forget a command's id nor replace the enrollment.\<close>

fun keeps_command :: "string \<Rightarrow> store_op list \<Rightarrow> bool" where
  "keeps_command i [] = True"
| "keeps_command i (c # cs) \<longleftrightarrow>
     (case c of OpForgetApplied io is \<Rightarrow> i \<notin> set is | _ \<Rightarrow> True) \<and> keeps_command i cs"

lemma fold_delete_keeps:
  "i \<notin> set is \<Longrightarrow> tbl_has ap_id i t \<Longrightarrow>
     tbl_has ap_id i (fold (\<lambda>c. tbl_delete (\<lambda>a. ap_id a = c)) is t)"
proof (induction "is" arbitrary: t)
  case (Cons j "is")
  then have "tbl_has ap_id i (tbl_delete (\<lambda>a. ap_id a = j) t)"
    by (auto simp: tbl_has_iff set_tbl_delete)
  with Cons show ?case by simp
qed simp

lemma record_applied_keeps:
  "tbl_has ap_id i (applied_command db) \<Longrightarrow> tbl_has ap_id i (applied_command (record_applied c now db))"
  by (auto simp: record_applied_def tbl_has_iff set_tbl_insert_ignore)

lemma applied_step:
  assumes "no_reset [c] s" and "keeps_command i [c]" and "tbl_has ap_id i (applied_command (st_db s))"
  shows "tbl_has ap_id i (applied_command (st_db (store_step c s)))"
proof (cases c)
  case (OpReplacePolicy io p)
  show ?thesis
    by (cases rule: ReplacePolicy_cases [of io p s])
      (use assms in \<open>simp_all add: OpReplacePolicy write_policy_def\<close>)
next
  case (OpBindEnrollment io u d trust)
  show ?thesis
    by (cases rule: BindEnrollment_cases [of io u d trust s])
      (use assms in \<open>simp_all add: OpBindEnrollment\<close>)
next
  case (OpRestart io)
  with assms show ?thesis by (auto split: sum.split dest: OpenStore_Inr)
next
  case (OpForgetApplied io cs)
  with assms show ?thesis by (auto simp: ForgetAppliedCommandIDs_def fold_delete_keeps)
next
  case (OpRecordApplied io j now)
  with assms show ?thesis by (simp add: RecordCommandApplied_def record_applied_keeps)
next
  case (OpApplyRemoteBonus io j b now)
  with assms show ?thesis
    by (auto simp: ApplyRemoteBonus_def record_applied_keeps Let_def split: option.split)
next
  case (OpCompleteControl io j now)
  with assms record_applied_keeps [of i "(st_db s)\<lparr>pending_control_effect := None\<rparr>"] show ?thesis
    by (auto simp: CompleteControlEffect_def split: option.split)
qed (use assms in \<open>auto simp: state_op_defs upsert_usage_def insert_bonus_event_def Let_def
       split: option.split\<close>)

lemma applied_run:
  "no_reset cs s \<Longrightarrow> keeps_command i cs \<Longrightarrow> tbl_has ap_id i (applied_command (st_db s)) \<Longrightarrow>
     tbl_has ap_id i (applied_command (st_db (run_store cs s)))"
proof (induction cs arbitrary: s)
  case (Cons c cs)
  then have "tbl_has ap_id i (applied_command (st_db (store_step c s)))"
    by (intro applied_step) simp_all
  with Cons show ?case by simp
qed simp

lemma remote_bonus_exactly_once_facts:
  assumes "validateBonus b = None" and "i \<noteq> []" and "\<not> is_zero now"
    and "\<not> tbl_has ap_id i (applied_command (st_db s))"
    and "\<not> tbl_has bo_UUID (bo_UUID b) (bonus (st_db s))"
    and "first = snd (ApplyRemoteBonus True i b now s)"
  shows "bonus_total date (st_db first) =
      bonus_total date (st_db s) + (if date = bo_LocalDate b then bo_Seconds b else 0)"
    and "no_reset cs first \<Longrightarrow> keeps_command i cs \<Longrightarrow>
      snd (ApplyRemoteBonus io i b' now' (run_store cs first)) = run_store cs first"
proof -
  have first: "first = s\<lparr>st_db := (record_applied i now (st_db s))\<lparr>bonus :=
      tbl_insert_ignore bo_UUID b (bonus (st_db s))\<rparr>\<rparr>"
    using assms by (simp add: ApplyRemoteBonus_def record_applied_def)
  show "bonus_total date (st_db first) =
      bonus_total date (st_db s) + (if date = bo_LocalDate b then bo_Seconds b else 0)"
    using assms(5) by (simp add: first bonus_total_def sum_list_insert_ignore)
  have "tbl_has ap_id i (applied_command (st_db first))"
    by (auto simp: first record_applied_def tbl_has_iff set_tbl_insert_ignore)
  moreover assume "no_reset cs first" "keeps_command i cs"
  ultimately have "tbl_has ap_id i (applied_command (st_db (run_store cs first)))"
    by (simp add: applied_run)
  then show "snd (ApplyRemoteBonus io i b' now' (run_store cs first)) = run_store cs first"
    by (auto simp: ApplyRemoteBonus_def Let_def record_applied_def tbl_insert_ignore_again
        split: option.split)
qed

text \<open>C24: A remote bonus counts exactly once, however often the server delivers its command. The
  first delivery of a new command with a new UUID raises the total of its date by its seconds;
  after any further operations and restarts that neither forget the command nor replace the
  enrollment, another delivery of it, with any bonus and at any time, changes nothing.\<close>

theorem remote_bonus_exactly_once:
  assumes "validateBonus b = None" and "i \<noteq> []" and "\<not> is_zero now"
    and "\<not> tbl_has ap_id i (applied_command (st_db s))"
    and "\<not> tbl_has bo_UUID (bo_UUID b) (bonus (st_db s))"
    and "first = snd (ApplyRemoteBonus True i b now s)"
  shows "bonus_total date (st_db first) =
      bonus_total date (st_db s) + (if date = bo_LocalDate b then bo_Seconds b else 0)
    \<and> (no_reset cs first \<and> keeps_command i cs \<longrightarrow>
      snd (ApplyRemoteBonus io i b' now' (run_store cs first)) = run_store cs first)"
  using remote_bonus_exactly_once_facts [OF assms] by blast

lemma remote_bonus_exactly_once_witness:
  "snd (ApplyRemoteBonus True ''c1'' (sample_bonus ''b9'' ''remote'') sample_now
      (run_store [OpRestart True] (snd (ApplyRemoteBonus True ''c1'' (sample_bonus ''b2'' ''remote'')
        sample_now empty_store)))) =
    run_store [OpRestart True] (snd (ApplyRemoteBonus True ''c1'' (sample_bonus ''b2'' ''remote'')
        sample_now empty_store))"
proof -
  have h: "validateBonus (sample_bonus ''b2'' ''remote'') = None" "''c1'' \<noteq> []" "\<not> is_zero sample_now"
      "\<not> tbl_has ap_id ''c1'' (applied_command (st_db empty_store))"
      "\<not> tbl_has bo_UUID (bo_UUID (sample_bonus ''b2'' ''remote'')) (bonus (st_db empty_store))"
    by (code_simp, simp, code_simp, code_simp, code_simp)
  show ?thesis
    by (rule mp [OF conjunct2 [OF remote_bonus_exactly_once [OF h refl]]]) simp
qed

section \<open>Control commands\<close>

text \<open>The messages without an effect to observe, which record their command at once.\<close>

fun records :: "string \<Rightarrow> store_op \<Rightarrow> bool" where
  "records i (OpRecordApplied io j now) \<longleftrightarrow> j = i"
| "records i (OpApplyRemoteBonus io j b now) \<longleftrightarrow> j = i"
| "records i _ = False"

definition completes :: "string \<Rightarrow> store_op \<Rightarrow> Store \<Rightarrow> bool" where
  "completes i c s \<longleftrightarrow> (\<exists>io now. c = OpCompleteControl io i now)
     \<and> (\<exists>eff. pending_control_effect (st_db s) = Some eff \<and> ce_CommandID eff = i)"

lemma fold_delete_subset:
  "tbl_has ap_id i (fold (\<lambda>c. tbl_delete (\<lambda>a. ap_id a = c)) is t) \<Longrightarrow> tbl_has ap_id i t"
proof (induction "is" arbitrary: t)
  case (Cons j "is")
  then have "tbl_has ap_id i (tbl_delete (\<lambda>a. ap_id a = j) t)" by simp
  then show ?case by (auto simp: tbl_has_iff set_tbl_delete)
qed simp

lemma record_applied_new:
  "tbl_has ap_id i (applied_command (record_applied j now db)) \<Longrightarrow>
     j = i \<or> tbl_has ap_id i (applied_command db)"
  by (auto simp: record_applied_def tbl_has_iff set_tbl_insert_ignore split: if_splits)

lemma applied_new:
  assumes "tbl_has ap_id i (applied_command (st_db (store_step c s)))"
    and "\<not> tbl_has ap_id i (applied_command (st_db s))" and "\<not> records i c"
  shows "completes i c s"
proof (cases c)
  case (OpReplacePolicy io p)
  show ?thesis
    by (cases rule: ReplacePolicy_cases [of io p s])
      (use assms in \<open>simp_all add: OpReplacePolicy write_policy_def\<close>)
next
  case (OpBindEnrollment io u d trust)
  show ?thesis
    by (cases rule: BindEnrollment_cases [of io u d trust s])
      (use assms in \<open>simp_all add: OpBindEnrollment empty_database_def tbl_has_iff\<close>)
next
  case (OpRestart io)
  with assms show ?thesis by (auto split: sum.splits dest: OpenStore_Inr)
next
  case (OpForgetApplied io cs)
  with assms show ?thesis
    by (auto simp: ForgetAppliedCommandIDs_def dest: fold_delete_subset split: if_splits)
next
  case (OpRecordApplied io j now)
  with assms show ?thesis
    by (auto simp: RecordCommandApplied_def dest: record_applied_new split: if_splits)
next
  case (OpApplyRemoteBonus io j b now)
  with assms show ?thesis
    by (auto simp: ApplyRemoteBonus_def Let_def dest: record_applied_new
        split: if_splits option.splits)
next
  case (OpCompleteControl io j now)
  with assms show ?thesis
    by (auto simp: CompleteControlEffect_def completes_def dest!: record_applied_new
        split: if_splits option.splits)
qed (use assms in \<open>auto simp: state_op_defs upsert_usage_def insert_bonus_event_def Let_def
       split: if_splits option.splits\<close>)

text \<open>C27: A control command is acknowledged only when its effect was completed. If a command's id
  is not among the applied ones and is not recorded as applied by a message that has no effect
  to observe, then it is among them after a run only if the run contains a completion of this
  id while exactly this command was the one staged; a command superseded by a later one is
  never acknowledged.\<close>

theorem control_acknowledged_only_when_completed:
  assumes "\<not> tbl_has ap_id i (applied_command (st_db s))" and "list_all (\<lambda>c. \<not> records i c) cs"
    and "tbl_has ap_id i (applied_command (st_db (run_store cs s)))"
  shows "\<exists>pre c post. cs = pre @ c # post \<and> completes i c (run_store pre s)"
  using assms
proof (induction cs arbitrary: s)
  case (Cons c cs)
  show ?case
  proof (cases "tbl_has ap_id i (applied_command (st_db (store_step c s)))")
    case True
    then have "completes i c s" using applied_new [OF True] Cons.prems by simp
    then show ?thesis by (intro exI [of _ "[]"]) simp
  next
    case False
    then obtain pre c' post where "cs = pre @ c' # post"
        "completes i c' (run_store pre (store_step c s))"
      using Cons.IH [of "store_step c s"] Cons.prems by auto
    then show ?thesis by (intro exI [of _ "c # pre"]) simp
  qed
qed simp

text \<open>Staged, completed and so acknowledged.\<close>

lemma control_acknowledged_only_when_completed_witness:
  "\<exists>pre c post. [OpStageControl True ''c2'' 4 ''block_now'' sample_now,
      OpCompleteControl True ''c2'' sample_now] = pre @ c # post
    \<and> completes ''c2'' c (run_store pre empty_store)"
proof (rule control_acknowledged_only_when_completed)
  show "tbl_has ap_id ''c2'' (applied_command (st_db (run_store
      [OpStageControl True ''c2'' 4 ''block_now'' sample_now, OpCompleteControl True ''c2'' sample_now]
      empty_store)))" by code_simp
  show "\<not> tbl_has ap_id ''c2'' (applied_command (st_db empty_store))" by code_simp
qed simp

section \<open>Balances in flight\<close>

lemma wrap_add: "in64 (x + y) \<Longrightarrow> wrap64 (x + y) = x + y"
  by (rule wrap64_id)

text \<open>The sums stay within 64 bits.\<close>

definition balance_fits :: "Bonus \<Rightarrow> ConfirmedSessionState \<Rightarrow> Database \<Rightarrow> bool" where
  "balance_fits b c db \<longleftrightarrow>
     in64 (cs_RemainingSeconds c + pending_local_bonus (cs_LocalDate c) db + bo_Seconds b)"

lemma pending_local_bonus_nonneg:
  "state_tables_ok db \<Longrightarrow> 0 \<le> pending_local_bonus date db"
  unfolding pending_local_bonus_def
  by (rule sum_list_nonneg) (auto simp: state_tables_ok_def less_imp_le)

lemma SaveConfirmed_served:
  assumes "validateConfirmedSessionState c = None"
    and "0 \<le> pending_local_bonus (cs_LocalDate c) (st_db s)"
    and "in64 (cs_RemainingSeconds c + pending_local_bonus (cs_LocalDate c) (st_db s))"
  shows "st_confirmed (snd (SaveConfirmedSessionState True c s)) = Some (c\<lparr>cs_RemainingSeconds :=
      cs_RemainingSeconds c + pending_local_bonus (cs_LocalDate c) (st_db s)\<rparr>)"
    and "st_db (snd (SaveConfirmedSessionState True c s)) = (upsert_usage \<lparr>du_LocalDate = cs_LocalDate c,
        du_SecondsUsed = cs_UsageSeconds c, du_CheckpointAt = cs_ConfirmedAt c\<rparr> (st_db s))
      \<lparr>confirmed_session_state := Some (c\<lparr>cs_RemainingSeconds :=
      cs_RemainingSeconds c + pending_local_bonus (cs_LocalDate c) (st_db s)\<rparr>)\<rparr>"
proof -
  have "0 \<le> cs_RemainingSeconds c"
    using assms(1) by (simp add: validateConfirmedSessionState_def split: if_splits)
  moreover from this assms(2,3) have "in64 (pending_local_bonus (cs_LocalDate c) (st_db s))"
    by (simp add: in64_def)
  ultimately have "SaveConfirmedSessionState True c s = (Inr (), s\<lparr>st_db := (upsert_usage
      \<lparr>du_LocalDate = cs_LocalDate c, du_SecondsUsed = cs_UsageSeconds c,
        du_CheckpointAt = cs_ConfirmedAt c\<rparr> (st_db s))\<lparr>confirmed_session_state := Some (c\<lparr>cs_RemainingSeconds :=
      cs_RemainingSeconds c + pending_local_bonus (cs_LocalDate c) (st_db s)\<rparr>)\<rparr>,
      st_confirmed := Some (c\<lparr>cs_RemainingSeconds :=
      cs_RemainingSeconds c + pending_local_bonus (cs_LocalDate c) (st_db s)\<rparr>)\<rparr>)"
    using assms by (simp add: SaveConfirmedSessionState_def Let_def wrap_simps)
  then show "st_confirmed (snd (SaveConfirmedSessionState True c s)) = Some (c\<lparr>cs_RemainingSeconds :=
      cs_RemainingSeconds c + pending_local_bonus (cs_LocalDate c) (st_db s)\<rparr>)"
    and "st_db (snd (SaveConfirmedSessionState True c s)) = (upsert_usage \<lparr>du_LocalDate = cs_LocalDate c,
        du_SecondsUsed = cs_UsageSeconds c, du_CheckpointAt = cs_ConfirmedAt c\<rparr> (st_db s))
      \<lparr>confirmed_session_state := Some (c\<lparr>cs_RemainingSeconds :=
      cs_RemainingSeconds c + pending_local_bonus (cs_LocalDate c) (st_db s)\<rparr>)\<rparr>"
    by simp_all
qed

text \<open>A local bonus whose UUID is new to both tables adds its seconds to the pending sum.\<close>

lemma pending_local_bonus_insert:
  assumes "\<not> tbl_has bo_UUID (bo_UUID b) (bonus db)" and "bo_UUID b = pe_UUID e"
    and "bo_Origin b = ''local''"
  shows "pending_local_bonus date (insert_bonus_event b e db) =
    pending_local_bonus date db + (if bo_LocalDate b = date then bo_Seconds b else 0)"
proof -
  let ?ev = "pending_event (insert_bonus_event b e db)"
  have ev: "tbl_has pe_UUID u ?ev \<longleftrightarrow> u = bo_UUID b \<or> tbl_has pe_UUID u (pending_event db)" for u
    using assms(2) by (auto simp: insert_bonus_event_def Let_def tbl_has_iff set_tbl_insert_ignore)
  have bo: "bonus (insert_bonus_event b e db) = bonus db @ [b]"
    using assms(1) by (simp add: insert_bonus_event_def Let_def tbl_insert_ignore_def)
  have other: "bo_UUID x \<noteq> bo_UUID b" if "x \<in> set (bonus db)" for x
    using that assms(1) unfolding tbl_has_iff by (metis image_eqI)
  have "filter (\<lambda>x. bo_LocalDate x = date \<and> bo_Origin x = ''local'' \<and> tbl_has pe_UUID (bo_UUID x) ?ev) (bonus db)
      = filter (\<lambda>x. bo_LocalDate x = date \<and> bo_Origin x = ''local''
          \<and> tbl_has pe_UUID (bo_UUID x) (pending_event db)) (bonus db)"
    by (intro filter_cong) (auto simp: ev dest: other)
  moreover have "tbl_has pe_UUID (bo_UUID b) ?ev" by (simp add: ev)
  ultimately show ?thesis
    using assms(3) by (simp add: pending_local_bonus_def bo)
qed

lemma inflight_bonus_commutes_facts:
  assumes "store_inv s" and "validateBonus b = None" and "validateEvent e = None"
    and "bo_UUID b = pe_UUID e" and "bo_Origin b = ''local''"
    and "\<not> tbl_has bo_UUID (bo_UUID b) (bonus (st_db s))"
    and "validateConfirmedSessionState c = None" and "bo_LocalDate b = cs_LocalDate c"
    and "balance_fits b c (st_db s)"
  shows "st_confirmed (snd (SaveConfirmedSessionState True c (snd (AddBonusWithEvent True True b e s)))) =
      Some (c\<lparr>cs_RemainingSeconds := cs_RemainingSeconds c
        + pending_local_bonus (cs_LocalDate c) (st_db s) + bo_Seconds b\<rparr>)"
    and "st_confirmed (snd (AddBonusWithEvent True True b e (snd (SaveConfirmedSessionState True c s)))) =
      Some (c\<lparr>cs_RemainingSeconds := cs_RemainingSeconds c
        + pending_local_bonus (cs_LocalDate c) (st_db s) + bo_Seconds b\<rparr>)"
proof -
  have pos: "0 < bo_Seconds b" using validateBonus_None [OF assms(2)] by simp
  have st: "state_tables_ok (st_db s)" using assms(1) by (simp add: store_inv_def)
  have p0: "0 \<le> pending_local_bonus (cs_LocalDate c) (st_db s)"
    by (rule pending_local_bonus_nonneg [OF st])
  have rem: "0 \<le> cs_RemainingSeconds c"
    using assms(7) by (simp add: validateConfirmedSessionState_def split: if_splits)
  let ?s1 = "snd (AddBonusWithEvent True True b e s)"
  have db1: "st_db ?s1 = insert_bonus_event b e (st_db s)"
    using assms by (auto simp: AddBonusWithEvent_def refreshConfirmedSessionState_def split: option.split)
  have p1: "pending_local_bonus (cs_LocalDate c) (st_db ?s1) =
      pending_local_bonus (cs_LocalDate c) (st_db s) + bo_Seconds b"
    using assms by (simp add: db1 pending_local_bonus_insert)
  show "st_confirmed (snd (SaveConfirmedSessionState True c ?s1)) =
      Some (c\<lparr>cs_RemainingSeconds := cs_RemainingSeconds c
        + pending_local_bonus (cs_LocalDate c) (st_db s) + bo_Seconds b\<rparr>)"
    using assms(9) p0 pos
    by (subst SaveConfirmed_served(1) [OF assms(7)]) (simp_all add: p1 balance_fits_def add.assoc)
  let ?s2 = "snd (SaveConfirmedSessionState True c s)"
  have fits: "in64 (cs_RemainingSeconds c + pending_local_bonus (cs_LocalDate c) (st_db s))"
    using assms(9) p0 pos rem by (simp add: balance_fits_def in64_def)
  note saved = SaveConfirmed_served [OF assms(7) p0 fits]
  have inv2: "state_tables_ok (st_db ?s2)" "cache_coherent ?s2" "policy_tables_ok (st_db ?s2)"
    using store_inv_run [OF assms(1), of "[OpSaveConfirmed True c]"] by (simp_all add: store_inv_def)
  then have "store_inv ?s2" by (simp add: store_inv_def)
  moreover have "\<not> tbl_has bo_UUID (bo_UUID b) (bonus (st_db ?s2))"
    using assms(6) by (simp add: saved(2) upsert_usage_def)
  ultimately have "st_confirmed (snd (AddBonusWithEvent True True b e ?s2)) =
      add_to_confirmed b (confirmed_session_state (st_db ?s2))"
    using local_bonus_exactly_once_facts(1) [OF assms(2,3,4)] by blast
  then show "st_confirmed (snd (AddBonusWithEvent True True b e ?s2)) =
      Some (c\<lparr>cs_RemainingSeconds := cs_RemainingSeconds c
        + pending_local_bonus (cs_LocalDate c) (st_db s) + bo_Seconds b\<rparr>)"
    using assms(8) by (simp add: saved(2) add_to_confirmed_def)
qed

text \<open>C23: A bonus granted locally while a heartbeat is in flight is not lost. When the response
  confirms a balance for the date of a local bonus, the confirmed balance afterwards is the
  same whether the bonus was granted before or after the response was saved: the confirmed
  remaining time plus every local bonus of the date still to be uploaded, this one included.\<close>

theorem inflight_bonus_commutes:
  assumes "store_inv s" and "validateBonus b = None" and "validateEvent e = None"
    and "bo_UUID b = pe_UUID e" and "bo_Origin b = ''local''"
    and "\<not> tbl_has bo_UUID (bo_UUID b) (bonus (st_db s))"
    and "validateConfirmedSessionState c = None" and "bo_LocalDate b = cs_LocalDate c"
    and "balance_fits b c (st_db s)"
  shows "st_confirmed (snd (SaveConfirmedSessionState True c (snd (AddBonusWithEvent True True b e s)))) =
      Some (c\<lparr>cs_RemainingSeconds := cs_RemainingSeconds c
        + pending_local_bonus (cs_LocalDate c) (st_db s) + bo_Seconds b\<rparr>)
    \<and> st_confirmed (snd (AddBonusWithEvent True True b e (snd (SaveConfirmedSessionState True c s)))) =
      Some (c\<lparr>cs_RemainingSeconds := cs_RemainingSeconds c
        + pending_local_bonus (cs_LocalDate c) (st_db s) + bo_Seconds b\<rparr>)"
  using inflight_bonus_commutes_facts [OF assms] by blast

text \<open>Half an hour confirmed, a quarter granted in flight: 45 minutes either way.\<close>

lemma inflight_bonus_commutes_witness:
  "map_option cs_RemainingSeconds (st_confirmed (snd (SaveConfirmedSessionState True sample_confirmed
     (snd (AddBonusWithEvent True True (sample_bonus ''b1'' ''local'') (sample_event ''b1'') empty_store)))))
   = Some 2700"
proof -
  have h: "validateBonus (sample_bonus ''b1'' ''local'') = None" "validateEvent (sample_event ''b1'') = None"
      "bo_UUID (sample_bonus ''b1'' ''local'') = pe_UUID (sample_event ''b1'')"
      "bo_Origin (sample_bonus ''b1'' ''local'') = ''local''"
      "\<not> tbl_has bo_UUID (bo_UUID (sample_bonus ''b1'' ''local'')) (bonus (st_db empty_store))"
      "validateConfirmedSessionState sample_confirmed = None"
      "bo_LocalDate (sample_bonus ''b1'' ''local'') = cs_LocalDate sample_confirmed"
      "balance_fits (sample_bonus ''b1'' ''local'') sample_confirmed (st_db empty_store)"
    by code_simp+
  have v: "cs_RemainingSeconds sample_confirmed = 1800" "bo_Seconds (sample_bonus ''b1'' ''local'') = 900"
      "pending_local_bonus (cs_LocalDate sample_confirmed) (st_db empty_store) = 0"
    by code_simp+
  show ?thesis
    by (subst conjunct1 [OF inflight_bonus_commutes [OF store_inv_empty(1) h]]) (simp add: v)
qed

section \<open>Enrollments\<close>

lemma enrollment_isolated_facts:
  assumes "u \<noteq> []" and "d \<noteq> []"
  shows "enrollment (st_db s) = Some (u', d') \<Longrightarrow> (u', d') \<noteq> (u, d) \<Longrightarrow>
      BindEnrollment True u d trust s = (Inr True, \<lparr>st_db = empty_database\<lparr>enrollment := Some (u, d)\<rparr>,
        st_cachedPolicy = None, st_confirmed = None\<rparr>)"
    and "enrollment (st_db s) = None \<Longrightarrow>
      BindEnrollment True u d False s = (Inr True, \<lparr>st_db = empty_database\<lparr>enrollment := Some (u, d)\<rparr>,
        st_cachedPolicy = None, st_confirmed = None\<rparr>)"
    and "enrollment (st_db s) = Some (u, d) \<Longrightarrow> BindEnrollment True u d trust s = (Inr False, s)"
proof -
  have clear: "clear_enrollment_state db\<lparr>enrollment := x\<rparr> = empty_database\<lparr>enrollment := x\<rparr>" for db x
    by (simp add: clear_enrollment_state_def empty_database_def)
  show "BindEnrollment True u d trust s = (Inr True, \<lparr>st_db = empty_database\<lparr>enrollment := Some (u, d)\<rparr>,
        st_cachedPolicy = None, st_confirmed = None\<rparr>)"
    if "enrollment (st_db s) = Some (u', d')" "(u', d') \<noteq> (u, d)"
    using that assms by (auto simp: BindEnrollment_def enrollment_reset_def Let_def clear)
  show "BindEnrollment True u d False s = (Inr True, \<lparr>st_db = empty_database\<lparr>enrollment := Some (u, d)\<rparr>,
        st_cachedPolicy = None, st_confirmed = None\<rparr>)" if "enrollment (st_db s) = None"
    using that assms by (simp add: BindEnrollment_def enrollment_reset_def Let_def clear)
  show "BindEnrollment True u d trust s = (Inr False, s)" if "enrollment (st_db s) = Some (u, d)"
  proof -
    have "(st_db s)\<lparr>enrollment := Some (u, d)\<rparr> = st_db s"
      using that by (metis Database.surjective Database.update_convs(10))
    with that assms show ?thesis by (simp add: BindEnrollment_def enrollment_reset_def Let_def)
  qed
qed

text \<open>Enrollments do not mix. Binding the agent to a server and device other than the bound
  ones, or to the first ones when unbound state is not trusted, leaves a store whose database
  holds nothing but the new binding and whose caches are empty; binding it again to the same
  ones changes nothing at all.\<close>

theorem enrollment_isolated:
  assumes "u \<noteq> []" and "d \<noteq> []"
  shows "(case enrollment (st_db s) of
      None \<Rightarrow> BindEnrollment True u d False s = (Inr True, \<lparr>st_db = empty_database\<lparr>enrollment := Some (u, d)\<rparr>,
        st_cachedPolicy = None, st_confirmed = None\<rparr>)
    | Some stored \<Rightarrow> if stored \<noteq> (u, d)
        then BindEnrollment True u d trust s = (Inr True, \<lparr>st_db = empty_database\<lparr>enrollment := Some (u, d)\<rparr>,
          st_cachedPolicy = None, st_confirmed = None\<rparr>)
        else BindEnrollment True u d trust s = (Inr False, s))"
  using enrollment_isolated_facts [OF assms] by (cases "enrollment (st_db s)") (simp, cases "the (enrollment (st_db s))", simp)

lemma enrollment_isolated_witness:
  "bonus (st_db (run_store (OpBindEnrollment True ''https://a'' ''d1'' True # sample_run) empty_store)) \<noteq> []
   \<and> BindEnrollment True ''https://a'' ''d2'' True
      (run_store (OpBindEnrollment True ''https://a'' ''d1'' True # sample_run) empty_store) =
     (Inr True, \<lparr>st_db = empty_database\<lparr>enrollment := Some (''https://a'', ''d2'')\<rparr>,
        st_cachedPolicy = None, st_confirmed = None\<rparr>)"
proof (rule conjI)
  have e: "enrollment (st_db (run_store (OpBindEnrollment True ''https://a'' ''d1'' True # sample_run)
      empty_store)) = Some (''https://a'', ''d1'')" by code_simp
  show "BindEnrollment True ''https://a'' ''d2'' True
      (run_store (OpBindEnrollment True ''https://a'' ''d1'' True # sample_run) empty_store) =
     (Inr True, \<lparr>st_db = empty_database\<lparr>enrollment := Some (''https://a'', ''d2'')\<rparr>,
        st_cachedPolicy = None, st_confirmed = None\<rparr>)"
    using enrollment_isolated [of "''https://a''" "''d2''" "run_store (OpBindEnrollment True ''https://a'' ''d1'' True # sample_run)
      empty_store" True] by (simp only: e option.case) simp
qed code_simp

section \<open>Crash loss\<close>

lemma run_tracker_keeps:
  "ut_localDate (fst (run_tracker cmds ts)) = ut_localDate (fst ts)
   \<and> ut_checkpointEvery (fst (run_tracker cmds ts)) = ut_checkpointEvery (fst ts)"
proof (induction cmds arbitrary: ts)
  case (Cons c cmds)
  have "ut_localDate (fst (tracker_step c ts)) = ut_localDate (fst ts)
      \<and> ut_checkpointEvery (fst (tracker_step c ts)) = ut_checkpointEvery (fst ts)"
    by (cases c) (auto simp: tracker_step_def tracker_Add_def tracker_Flush_def
        tracker_EnsureAtLeast_def checkpoint_tracker_def Let_def split: prod.splits sum.splits)
  with Cons.IH [of "tracker_step c ts"] show ?case by (simp add: run_tracker_def)
qed (simp add: run_tracker_def)

lemma NewUsageTracker_loads:
  assumes "state_tables_ok (st_db s)"
  shows "NewUsageTracker True s date every = Inr t \<longleftrightarrow>
    0 < every \<and> validateLocalDate date = None
    \<and> t = \<lparr>ut_localDate = date, ut_seconds = durable_seconds date (st_db s), ut_uncheckpointed = 0,
        ut_checkpointEvery = every\<rparr>"
proof -
  have "du_SecondsUsed u = max 0 (du_SecondsUsed u)"
    if "tbl_find du_LocalDate date (daily_usage (st_db s)) = Some u" for u
    using tbl_find_SomeD [OF that] assms by (auto simp: state_tables_ok_def)
  then show ?thesis
    by (auto simp: NewUsageTracker_def LoadDailyUsage_def durable_seconds_def split: option.splits)
qed

text \<open>The writes of the counter are checkpoints, so the tables keep their constraints.\<close>

lemma state_ok_checkpoint:
  "state_tables_ok (st_db s) \<Longrightarrow> CheckpointUsage io u s = (r, s') \<Longrightarrow> state_tables_ok (st_db s')"
  using state_step_ok [of s "OpCheckpointUsage io u"] by simp

lemma state_ok_tracker_step:
  assumes "state_tables_ok (st_db (snd ts))"
    and "case c of Elsewhere u \<Rightarrow> 0 \<le> du_SecondsUsed u | _ \<Rightarrow> True"
  shows "state_tables_ok (st_db (snd (tracker_step c ts)))"
proof -
  have cp: "state_tables_ok (st_db (snd (snd (checkpoint_tracker io now (t, snd ts)))))" for io now t
    using state_ok_checkpoint [OF assms(1)]
    by (auto simp: checkpoint_tracker_def split: prod.splits sum.splits)
  show ?thesis
  proof (cases c)
    case (DoAdd io el now)
    with assms(1) cp show ?thesis by (simp add: tracker_step_def tracker_Add_def Let_def)
  next
    case (DoFlush io now)
    with assms(1) cp [of io now "fst ts"] show ?thesis by (simp add: tracker_step_def tracker_Flush_def)
  next
    case (DoEnsure io n now)
    with assms(1) state_ok_checkpoint [OF assms(1)] show ?thesis
      by (auto simp: tracker_step_def tracker_EnsureAtLeast_def Let_def split: prod.splits)
  next
    case (Elsewhere u)
    with assms show ?thesis by (simp add: tracker_step_def upsert_usage_ok)
  qed
qed

definition writes_nonneg :: "tracker_op \<Rightarrow> bool" where
  "writes_nonneg c \<longleftrightarrow> (case c of Elsewhere u \<Rightarrow> 0 \<le> du_SecondsUsed u | _ \<Rightarrow> True)"

lemma state_ok_run_tracker:
  "state_tables_ok (st_db (snd ts)) \<Longrightarrow> list_all writes_nonneg cmds \<Longrightarrow>
     state_tables_ok (st_db (snd (run_tracker cmds ts)))"
  by (induction cmds arbitrary: ts) (simp_all add: run_tracker_def writes_nonneg_def state_ok_tracker_step)

lemma crash_loss_bounded_facts:
  assumes "NewUsageTracker True s date every = Inr t" and "state_tables_ok (st_db s)"
    and "run_fits cmds (t, s)" and "list_all writes_nonneg cmds"
    and "run_tracker cmds (t, s) = (t', s')"
  shows "\<exists>r. NewUsageTracker True s' date every = Inr r
      \<and> (ut_seconds t' - ut_seconds r) * second < every + failed_time cmds (t, s) 0
      \<and> (list_all ensure_served cmds \<longrightarrow> (ut_seconds t' - ut_seconds r) * second \<le> ut_uncheckpointed t')"
proof -
  have t: "0 < every" "validateLocalDate date = None"
      "t = \<lparr>ut_localDate = date, ut_seconds = durable_seconds date (st_db s), ut_uncheckpointed = 0,
        ut_checkpointEvery = every\<rparr>"
    using assms(1) by (simp_all add: NewUsageTracker_loads [OF assms(2)])
  have t': "ut_localDate t' = date" "ut_checkpointEvery t' = every"
    using run_tracker_keeps [of cmds "(t, s)", unfolded assms(5)] by (simp_all add: t(3))
  have ok: "counter_ok (t, s)" and gap: "gap (t, s) = 0"
    by (simp_all add: counter_ok_def gap_def t durable_of_def durable.load_nonneg)
  have "loss_inv 0 (t, s)"
    using ok gap t(1) by (intro loss_invI [of _ 0 0]) (simp_all add: t(3))
  from loss_inv_gap [OF loss_run [OF this assms(3)]]
  have loss: "gap (t', s') < every + failed_time cmds (t, s) 0" by (simp add: assms(5) t')
  have "tracker_inv (t, s)" using ok gap by (simp add: tracker_inv_def t(3))
  from tracker_inv_run [OF this assms(3)]
  have waiting: "list_all ensure_served cmds \<Longrightarrow> gap (t', s') \<le> ut_uncheckpointed t'"
    by (simp add: list_all_iff assms(5) tracker_inv_def)
  have "state_tables_ok (st_db s')"
    using state_ok_run_tracker [of "(t, s)" cmds] assms(2,4,5) by simp
  then show ?thesis
    using t(1,2) loss waiting by (simp add: NewUsageTracker_loads gap_def durable_of_def t'(1))
qed

text \<open>C25: What a crash costs. From a counter created for a valid date, through any additions,
  flushes, corrections and writes of others, each of the counter's own writes served by the
  database or failing: the counter can always be created again, and it is behind the one in
  memory by less than the checkpoint interval plus the time that failed writes left out since
  the last one that was served - what an addition added when its checkpoint failed, and, for a
  correction whose write failed, what it raised the counter by and what was waiting then. When
  every write is served, that is less than the interval; while no correction fails, it never
  exceeds what is marked as not checkpointed. No 64-bit counter overflows on the way, and the
  others write no negative use.\<close>

theorem crash_loss_bounded:
  assumes "NewUsageTracker True s date every = Inr t" and "state_tables_ok (st_db s)"
    and "run_fits cmds (t, s)" and "list_all writes_nonneg cmds"
    and "run_tracker cmds (t, s) = (t', s')"
  shows "\<exists>r. NewUsageTracker True s' date every = Inr r
    \<and> (ut_seconds t' - ut_seconds r) * second < every + failed_time cmds (t, s) 0
    \<and> (list_all all_served cmds \<longrightarrow> (ut_seconds t' - ut_seconds r) * second < every)
    \<and> (list_all ensure_served cmds \<longrightarrow> (ut_seconds t' - ut_seconds r) * second \<le> ut_uncheckpointed t')"
proof -
  obtain r where r: "NewUsageTracker True s' date every = Inr r"
    "(ut_seconds t' - ut_seconds r) * second < every + failed_time cmds (t, s) 0"
    "list_all ensure_served cmds \<longrightarrow> (ut_seconds t' - ut_seconds r) * second \<le> ut_uncheckpointed t'"
    using crash_loss_bounded_facts [OF assms] by blast
  with failed_time_served [of cmds "(t, s)"] show ?thesis by auto
qed

definition sample_tracker :: UsageTracker where
  "sample_tracker = \<lparr>ut_localDate = ''2026-07-20'', ut_seconds = 0, ut_uncheckpointed = 0,
     ut_checkpointEvery = 10 * second\<rparr>"

text \<open>Seventeen seconds of use, ten of them checkpointed.\<close>

lemma crash_loss_bounded_witness:
  "let (t', s') = run_tracker [DoAdd True (10 * second) sample_now, DoAdd True (7 * second) sample_now]
      (sample_tracker, empty_store)
   in ut_seconds t' = 17 \<and> (\<exists>r. NewUsageTracker True s' ''2026-07-20'' (10 * second) = Inr r
      \<and> (ut_seconds t' - ut_seconds r) * second < 10 * second)"
proof -
  let ?cmds = "[DoAdd True (10 * second) sample_now, DoAdd True (7 * second) sample_now]"
  obtain t' s' where r: "run_tracker ?cmds (sample_tracker, empty_store) = (t', s')" by fastforce
  have ok: "state_tables_ok (st_db empty_store)"
    using store_inv_empty(1) by (simp add: store_inv_def)
  have h: "NewUsageTracker True empty_store ''2026-07-20'' (10 * second) = Inr sample_tracker"
      "run_fits ?cmds (sample_tracker, empty_store)"
      "list_all writes_nonneg ?cmds" "list_all all_served ?cmds"
    by code_simp+
  have "ut_seconds (fst (run_tracker ?cmds (sample_tracker, empty_store))) = 17" by code_simp
  with crash_loss_bounded [OF h(1) ok h(2,3) r] h(4) show ?thesis by (auto simp: r)
qed

text \<open>A failed correction that raised the counter by 600 seconds with 7 waiting counts for 607.\<close>

lemma failed_time_sample:
  "failed_time [DoAdd True (7 * second) sample_now, DoEnsure False 607 sample_now, DoAdd True (9 * second) sample_now]
     (sample_tracker, empty_store) 0 = 607 * second"
  by code_simp

text \<open>A correction whose checkpoint fails is forgotten. The counter takes the server's larger
  value and marks nothing as pending before the write; when the write fails, repeating the
  correction returns success without writing, later use below the interval is not written
  either, and a crash then loses far more than the interval.\<close>

theorem failed_correction_is_forgotten:
  "let (r1, ts1) = tracker_EnsureAtLeast False 600 sample_now (sample_tracker, empty_store);
       (r2, ts2) = tracker_EnsureAtLeast True 600 sample_now ts1;
       (r3, ts3) = tracker_Add True (9 * second) sample_now ts2
   in r1 = Inl DbFailure \<and> r2 = Inr () \<and> r3 = Inr ()
     \<and> ut_seconds (fst ts3) = 609
     \<and> durable_seconds ''2026-07-20'' (st_db (snd ts3)) = 0
     \<and> ut_checkpointEvery (fst ts3) = 10 * second"
  by code_simp

section \<open>The order of the event queue\<close>

lemma sample_texts:
  "format_time sample_now = ''2026-07-20T15:06:40Z''"
  "format_time (sample_now + 500000000) = ''2026-07-20T15:06:40.5Z''"
  by code_simp+

text \<open>The event queue is not always in creation order. The queue is ordered by the text of the
  creation time, in which a whole second sorts after its own fractions: of two events of the
  same second, the one created half a second later is sent first.\<close>

theorem events_of_a_second_misordered:
  "map_sum id (map pe_UUID) (PendingEvents True 10 (empty_store\<lparr>st_db := empty_database\<lparr>pending_event :=
     [sample_event ''first'', (sample_event ''second'')\<lparr>pe_CreatedAt := sample_now + 500000000\<rparr>]\<rparr>\<rparr>)) =
   Inr [''second'', ''first'']"
  by (simp add: PendingEvents_def sample_event_def sample_texts less_char_def)

end
