(* ===== verification/Effects.thy ===== *)
theory Effects
  imports Prelude
begin

text \<open>
  Stateful code that may return an error: an action maps the state to an error or a result and
  the state it leaves, so that what was changed before an error stays changed, as in the
  source. \<open>valid P m Q E\<close> is the triple for such an action, with a postcondition for each way out.
\<close>

type_synonym ('w, 'e, 'a) act = "'w \<Rightarrow> ('e + 'a) \<times> 'w"

definition ret :: "'a \<Rightarrow> ('w, 'e, 'a) act" where
  "ret a = (\<lambda>w. (Inr a, w))"

definition throw :: "'e \<Rightarrow> ('w, 'e, 'a) act" where
  "throw e = (\<lambda>w. (Inl e, w))"

definition andThen :: "('w, 'e, 'a) act \<Rightarrow> ('a \<Rightarrow> ('w, 'e, 'b) act) \<Rightarrow> ('w, 'e, 'b) act" where
  "andThen m f = (\<lambda>w. case m w of (Inl e, w') \<Rightarrow> (Inl e, w') | (Inr a, w') \<Rightarrow> f a w')"

definition modify :: "('w \<Rightarrow> 'w) \<Rightarrow> ('w, 'e, unit) act" where
  "modify f = (\<lambda>w. (Inr (), f w))"

definition reads :: "('w \<Rightarrow> 'a) \<Rightarrow> ('w, 'e, 'a) act" where
  "reads g = (\<lambda>w. (Inr (g w), w))"

definition get_state :: "('w, 'e, 'w) act" where
  "get_state = (\<lambda>w. (Inr w, w))"

definition fails_if :: "bool \<Rightarrow> 'e \<Rightarrow> ('w, 'e, unit) act" where
  "fails_if c e = (if c then throw e else ret ())"

definition returned :: "'e + 'a \<Rightarrow> ('w, 'e, 'a) act" where
  "returned r = (\<lambda>w. (r, w))"

definition wrap_error :: "('e \<Rightarrow> 'f) \<Rightarrow> 'e + 'a \<Rightarrow> 'f + 'a" where
  "wrap_error f r = (case r of Inl e \<Rightarrow> Inl (f e) | Inr a \<Rightarrow> Inr a)"

definition valid :: "('w \<Rightarrow> bool) \<Rightarrow> ('w, 'e, 'a) act \<Rightarrow> ('a \<Rightarrow> 'w \<Rightarrow> bool) \<Rightarrow> ('e \<Rightarrow> 'w \<Rightarrow> bool) \<Rightarrow> bool" where
  "valid P m Q E \<longleftrightarrow> (\<forall>w. P w \<longrightarrow> (case m w of (Inl e, w') \<Rightarrow> E e w' | (Inr a, w') \<Rightarrow> Q a w'))"

named_theorems run_simps \<open>running the elementary actions\<close>

lemma run_ret [run_simps]: "ret a w = (Inr a, w)"
  by (simp add: ret_def)

lemma run_throw [run_simps]: "throw e w = (Inl e, w)"
  by (simp add: throw_def)

lemma run_modify [run_simps]: "modify f w = (Inr (), f w)"
  by (simp add: modify_def)

lemma run_reads [run_simps]: "reads g w = (Inr (g w), w)"
  by (simp add: reads_def)

lemma run_get_state [run_simps]: "get_state w = (Inr w, w)"
  by (simp add: get_state_def)

lemma run_returned [run_simps]: "returned r w = (r, w)"
  by (simp add: returned_def)

lemma run_fails_if [run_simps]: "fails_if c e w = (if c then (Inl e, w) else (Inr (), w))"
  by (simp add: fails_if_def ret_def throw_def)

lemma andThen_Inr: "m w = (Inr a, w') \<Longrightarrow> andThen m f w = f a w'"
  by (simp add: andThen_def)

lemma andThen_Inl: "m w = (Inl e, w') \<Longrightarrow> andThen m f w = (Inl e, w')"
  by (simp add: andThen_def)

lemma andThen_get_state [run_simps]: "andThen get_state f w = f w w"
  by (simp add: andThen_def get_state_def)

lemma andThen_reads [run_simps]: "andThen (reads g) f w = f (g w) w"
  by (simp add: andThen_def reads_def)

lemma andThen_modify [run_simps]: "andThen (modify g) f w = f () (g w)"
  by (simp add: andThen_def modify_def)

lemma andThen_ret [run_simps]: "andThen (ret a) f w = f a w"
  by (simp add: andThen_def ret_def)

text \<open>The two ways an action followed by another can come to a result.\<close>

lemma andThen_cases:
  assumes "andThen m f w = (r, w')"
  obtains (failed) e where "m w = (Inl e, w')" and "r = Inl e"
  | (went_on) a w1 where "m w = (Inr a, w1)" and "f a w1 = (r, w')"
  using assms unfolding andThen_def by (auto split: prod.splits sum.splits)

lemma andThen_InrE:
  assumes "andThen m f w = (Inr b, w')"
  obtains a w1 where "m w = (Inr a, w1)" and "f a w1 = (Inr b, w')"
  using assms by (rule andThen_cases) simp_all

lemma wrap_error_Inr [simp]: "wrap_error f r = Inr a \<longleftrightarrow> r = Inr a"
  by (simp add: wrap_error_def split: sum.splits)

lemma validI: "(\<And>w r w'. P w \<Longrightarrow> m w = (r, w') \<Longrightarrow> case r of Inl e \<Rightarrow> E e w' | Inr a \<Rightarrow> Q a w')
    \<Longrightarrow> valid P m Q E"
  unfolding valid_def by (fastforce split: prod.splits sum.splits)

lemma validD: "valid P m Q E \<Longrightarrow> P w \<Longrightarrow> m w = (r, w') \<Longrightarrow>
    (case r of Inl e \<Rightarrow> E e w' | Inr a \<Rightarrow> Q a w')"
  unfolding valid_def by (fastforce split: prod.splits sum.splits)

lemma valid_andThen:
  assumes "valid P m R E" and "\<And>a. valid (R a) (f a) Q E"
  shows "valid P (andThen m f) Q E"
proof (rule validI)
  fix w r w' assume P: "P w" and run: "andThen m f w = (r, w')"
  from run show "case r of Inl e \<Rightarrow> E e w' | Inr a \<Rightarrow> Q a w'"
  proof (cases rule: andThen_cases)
    case (failed e)
    with validD [OF assms(1) P failed(1)] show ?thesis by simp
  next
    case (went_on a w1)
    with validD [OF assms(1) P went_on(1)] have "R a w1" by simp
    from validD [OF assms(2) this went_on(2)] show ?thesis .
  qed
qed

lemma valid_weaken:
  "valid P m Q E \<Longrightarrow> (\<And>w. P' w \<Longrightarrow> P w) \<Longrightarrow> (\<And>a w. Q a w \<Longrightarrow> Q' a w) \<Longrightarrow>
     (\<And>e w. E e w \<Longrightarrow> E' e w) \<Longrightarrow> valid P' m Q' E'"
  unfolding valid_def by (fastforce split: prod.splits sum.splits)

section \<open>What an action leaves alone\<close>

text \<open>\<open>keeps f m\<close>: whatever way \<open>m\<close> ends, it does not change what \<open>f\<close> sees of the state.\<close>

definition keeps :: "('w \<Rightarrow> 'x) \<Rightarrow> ('w, 'e, 'a) act \<Rightarrow> bool" where
  "keeps f m \<longleftrightarrow> (\<forall>w. f (snd (m w)) = f w)"

named_theorems keeps_intros \<open>actions that keep an observation\<close>

lemma keepsD: "keeps f m \<Longrightarrow> m w = (r, w') \<Longrightarrow> f w' = f w"
  unfolding keeps_def by (metis snd_conv)

lemma keepsI: "(\<And>w r w'. m w = (r, w') \<Longrightarrow> f w' = f w) \<Longrightarrow> keeps f m"
  unfolding keeps_def by (metis prod.collapse)

lemma keeps_elementary [keeps_intros]:
  "keeps f (ret a)" "keeps f (throw e)" "keeps f (reads g)" "keeps f (returned r)"
  "keeps f get_state"
  "keeps f (fails_if c e)"
  by (simp_all add: keeps_def run_simps)

lemma keeps_modify: "(\<And>w. f (g w) = f w) \<Longrightarrow> keeps f (modify g)"
  by (simp add: keeps_def run_simps)

lemma keeps_andThen [keeps_intros]:
  "keeps f m \<Longrightarrow> (\<And>a. keeps f (k a)) \<Longrightarrow> keeps f (andThen m k)"
proof (rule keepsI)
  fix w r w' assume m: "keeps f m" and k: "\<And>a. keeps f (k a)" and run: "andThen m k w = (r, w')"
  from run show "f w' = f w"
    by (cases rule: andThen_cases) (simp_all add: keepsD [OF m] keepsD [OF k])
qed

lemma keeps_if [keeps_intros]:
  "(c \<Longrightarrow> keeps f m) \<Longrightarrow> (\<not> c \<Longrightarrow> keeps f k) \<Longrightarrow> keeps f (if c then m else k)"
  by simp

lemma keeps_Let [keeps_intros]: "(\<And>x. keeps f (k x)) \<Longrightarrow> keeps f (let x = v in k x)"
  by (simp add: Let_def)

lemma keeps_option [keeps_intros]:
  "keeps f m \<Longrightarrow> (\<And>x. keeps f (k x)) \<Longrightarrow> keeps f (case v of None \<Rightarrow> m | Some x \<Rightarrow> k x)"
  by (simp split: option.split)

lemma keeps_prod [keeps_intros]: "(\<And>x y. keeps f (k x y)) \<Longrightarrow> keeps f (case v of (x, y) \<Rightarrow> k x y)"
  by (simp split: prod.split)

end
