(* ===== verification/Session.thy ===== *)
theory Session
  imports Effects "HOL-Library.Sublist"
begin

text \<open>
  Graphical sessions as logind reports them (\<open>agent/session/session.go\<close>, \<open>loginctl.go\<close>): the
  session record, what counts as a local graphical session, and the parsing of \<open>loginctl\<close>'s
  output. Running \<open>loginctl\<close> is a parameter: the text of \<open>list-sessions\<close> and, per session id, of
  \<open>show-session\<close> (\<open>None\<close> when the command fails). Of Unicode, which characters outside ASCII are
  letters or digits is a parameter too, and \<open>strings.Fields\<close> and \<open>TrimSpace\<close> know the ASCII spaces.
\<close>

section \<open>Sessions\<close>

record Session =
  ss_ID :: string
  ss_AuthorizationID :: string
  ss_User :: string
  ss_Type :: string
  ss_Class :: string
  ss_State :: string
  ss_Remote :: bool

definition BalanceAuthorizationID :: "Session \<Rightarrow> string" where
  "BalanceAuthorizationID s = (if ss_AuthorizationID s \<noteq> [] then ss_AuthorizationID s else ss_ID s)"

definition IsLocalGraphical :: "Session \<Rightarrow> bool" where
  "IsLocalGraphical s \<longleftrightarrow>
     (let graphical = ss_Type s = ''x11'' \<or> ss_Type s = ''wayland'';
          userSession = ss_Class s = ''user'' \<or> ss_Class s = ''user-early'';
          alive = ss_State s \<noteq> ''closing''
      in graphical \<and> userSession \<and> alive \<and> \<not> ss_Remote s)"

datatype SessionError =
    CommandFailed | InvalidSessionID string | InvalidRemote string | IncompleteProperties string
  | InvalidBool string | InvalidLoginctlPath | InvalidNamespace

section \<open>Strings\<close>

definition is_space :: "char \<Rightarrow> bool" where
  "is_space c \<longleftrightarrow> c \<in> {CHR 0x09, CHR 0x0A, CHR 0x0B, CHR 0x0C, CHR 0x0D, CHR 0x20}"

text \<open>\<open>strings.Split\<close> on one character, \<open>strings.Fields\<close>, \<open>strings.TrimSpace\<close> and \<open>strings.Cut\<close>.\<close>

fun split_on :: "char \<Rightarrow> string \<Rightarrow> string list" where
  "split_on c [] = [[]]"
| "split_on c (x # xs) =
     (if x = c then [] # split_on c xs
      else case split_on c xs of [] \<Rightarrow> [[x]] | y # ys \<Rightarrow> (x # y) # ys)"

fun fields_from :: "string \<Rightarrow> string \<Rightarrow> string list" where
  "fields_from acc [] = (if acc = [] then [] else [rev acc])"
| "fields_from acc (x # xs) =
     (if is_space x then (if acc = [] then fields_from [] xs else rev acc # fields_from [] xs)
      else fields_from (x # acc) xs)"

definition fields_of :: "string \<Rightarrow> string list" where
  "fields_of s = fields_from [] s"

definition trim_space :: "string \<Rightarrow> string" where
  "trim_space s = rev (dropWhile is_space (rev (dropWhile is_space s)))"

definition cut :: "char \<Rightarrow> string \<Rightarrow> (string \<times> string) option" where
  "cut c s = (if c \<in> set s
     then Some (takeWhile (\<lambda>x. x \<noteq> c) s, tl (dropWhile (\<lambda>x. x \<noteq> c) s)) else None)"

section \<open>Parsing\<close>

definition parseLogindBool :: "string \<Rightarrow> SessionError + bool" where
  "parseLogindBool value =
     (if value = ''yes'' then Inr True
      else if value = ''no'' then Inr False
      else if value \<in> {''1'', ''t'', ''T'', ''true'', ''TRUE'', ''True''} then Inr True
      else if value \<in> {''0'', ''f'', ''F'', ''false'', ''FALSE'', ''False''} then Inr False
      else Inl (InvalidBool value))"

text \<open>Later lines replace earlier ones, a missing key reads as the empty string.\<close>

fun property_values :: "string list \<Rightarrow> string \<Rightarrow> string" where
  "property_values [] = (\<lambda>_. [])"
| "property_values (l # ls) =
     (\<lambda>k. case cut (CHR ''='') l of
            None \<Rightarrow> property_values ls k
          | Some (key, v) \<Rightarrow>
              if key = k \<and> list_all (\<lambda>m. map_option fst (cut (CHR ''='') m) \<noteq> Some k) ls then v
              else property_values ls k)"

definition parseProperties :: "string \<Rightarrow> string \<Rightarrow> SessionError + Session" where
  "parseProperties i output =
     (let vals = property_values (split_on (CHR 0x0A) (trim_space output))
      in case parseLogindBool (vals ''Remote'') of
           Inl _ \<Rightarrow> Inl (InvalidRemote i)
         | Inr remote \<Rightarrow>
             if vals ''Name'' = [] \<or> vals ''Type'' = [] \<or> vals ''Class'' = [] \<or> vals ''State'' = []
             then Inl (IncompleteProperties i)
             else Inr \<lparr>ss_ID = i, ss_AuthorizationID = [], ss_User = vals ''Name'',
                    ss_Type = vals ''Type'', ss_Class = vals ''Class'', ss_State = vals ''State'',
                    ss_Remote = remote\<rparr>)"

definition ascii_id_char :: "char \<Rightarrow> bool" where
  "ascii_id_char c \<longleftrightarrow>
     (let n = of_char c :: nat
      in 48 \<le> n \<and> n \<le> 57 \<or> 65 \<le> n \<and> n \<le> 90 \<or> 97 \<le> n \<and> n \<le> 122 \<or> n \<in> {45, 46, 95})"

text \<open>\<open>unicode_ok i\<close>: every character of \<open>i\<close> outside ASCII is a Unicode letter or digit.\<close>

definition validateSessionID :: "(string \<Rightarrow> bool) \<Rightarrow> string \<Rightarrow> SessionError option" where
  "validateSessionID unicode_ok i =
     (if i = [] \<or> hd i = CHR ''-'' then Some (InvalidSessionID i)
      else if list_all (\<lambda>c. 128 \<le> (of_char c :: nat) \<or> ascii_id_char c) i \<and> unicode_ok i then None
      else Some (InvalidSessionID i))"

section \<open>Listing and locking\<close>

record Logind =
  lg_path :: string
  lg_sessionNamespaceID :: string

definition newLogind :: "string \<Rightarrow> string \<Rightarrow> SessionError + Logind" where
  "newLogind loginctlPath sessionNamespaceID =
     (if loginctlPath = [] then Inl InvalidLoginctlPath
      else if sessionNamespaceID = []
           \<or> list_ex (\<lambda>c. c \<in> {CHR 0x20, CHR 0x09, CHR 0x0D, CHR 0x0A, CHR ''/'', CHR ''@''}) sessionNamespaceID
      then Inl InvalidNamespace
      else Inr \<lparr>lg_path = loginctlPath, lg_sessionNamespaceID = sessionNamespaceID\<rparr>)"

fun collect_sessions :: "(string \<Rightarrow> bool) \<Rightarrow> (string \<Rightarrow> string option) \<Rightarrow> string \<Rightarrow> string
    \<Rightarrow> string list \<Rightarrow> SessionError + Session list" where
  "collect_sessions unicode_ok show_session ns username [] = Inr []"
| "collect_sessions unicode_ok show_session ns username (l # ls) =
     (let fields = fields_of l
      in if length fields < 3 \<or> fields ! 2 \<noteq> username
         then collect_sessions unicode_ok show_session ns username ls
         else let i = fields ! 0
              in case validateSessionID unicode_ok i of
                   Some e \<Rightarrow> Inl e
                 | None \<Rightarrow>
                     (case show_session i of
                        None \<Rightarrow> Inl CommandFailed
                      | Some details \<Rightarrow>
                          (case parseProperties i details of
                             Inl e \<Rightarrow> Inl e
                           | Inr s \<Rightarrow>
                               (case collect_sessions unicode_ok show_session ns username ls of
                                  Inl e \<Rightarrow> Inl e
                                | Inr rest \<Rightarrow>
                                    Inr (if ss_User s = username
                                         then s\<lparr>ss_AuthorizationID := ns @ ''_'' @ ss_ID s\<rparr> # rest
                                         else rest)))))"

definition logind_Sessions :: "(string \<Rightarrow> bool) \<Rightarrow> string option \<Rightarrow> (string \<Rightarrow> string option)
    \<Rightarrow> Logind \<Rightarrow> string \<Rightarrow> SessionError + Session list" where
  "logind_Sessions unicode_ok list_sessions show_session l username =
     (case list_sessions of
        None \<Rightarrow> Inl CommandFailed
      | Some output \<Rightarrow> collect_sessions unicode_ok show_session (lg_sessionNamespaceID l) username
          (split_on (CHR 0x0A) output))"

definition logind_IsLocked :: "(string \<Rightarrow> bool) \<Rightarrow> (string \<Rightarrow> string option) \<Rightarrow> Session \<Rightarrow> SessionError + bool" where
  "logind_IsLocked unicode_ok show_locked current =
     (case validateSessionID unicode_ok (ss_ID current) of
        Some e \<Rightarrow> Inl e
      | None \<Rightarrow>
          (case show_locked (ss_ID current) of
             None \<Rightarrow> Inl CommandFailed
           | Some output \<Rightarrow> parseLogindBool (trim_space output)))"

text \<open>Locking and unlocking run one command for a valid id; \<open>served\<close> is its success.\<close>

definition logind_Lock :: "(string \<Rightarrow> bool) \<Rightarrow> (string \<Rightarrow> bool) \<Rightarrow> Session \<Rightarrow> SessionError + unit" where
  "logind_Lock unicode_ok served current =
     (case validateSessionID unicode_ok (ss_ID current) of
        Some e \<Rightarrow> Inl e
      | None \<Rightarrow> if served (ss_ID current) then Inr () else Inl CommandFailed)"

definition logind_Unlock :: "(string \<Rightarrow> bool) \<Rightarrow> (string \<Rightarrow> bool) \<Rightarrow> Session \<Rightarrow> SessionError + unit" where
  "logind_Unlock unicode_ok served current =
     (case validateSessionID unicode_ok (ss_ID current) of
        Some e \<Rightarrow> Inl e
      | None \<Rightarrow> if served (ss_ID current) then Inr () else Inl CommandFailed)"

section \<open>The session namespace\<close>

definition is_hex :: "char \<Rightarrow> bool" where
  "is_hex c \<longleftrightarrow> (let n = of_char c :: nat in 48 \<le> n \<and> n \<le> 57 \<or> 65 \<le> n \<and> n \<le> 70 \<or> 97 \<le> n \<and> n \<le> 102)"

definition namespace_valid :: "string \<Rightarrow> bool" where
  "namespace_valid identifier \<longleftrightarrow> length identifier = 32 \<and> list_all is_hex identifier"

text \<open>The namespace file: absent, or with its safety of permissions and its contents.\<close>

definition readSessionNamespace :: "(bool \<times> string) \<Rightarrow> SessionError + string" where
  "readSessionNamespace stored =
     (if \<not> fst stored then Inl InvalidNamespace
      else let identifier = trim_space (snd stored)
           in if namespace_valid identifier then Inr identifier else Inl InvalidNamespace)"

end
