(* ===== verification/SessionProps.thy ===== *)
theory SessionProps
  imports Session
begin

text \<open>
  What the session listing guarantees to the daemon and to the server: the sessions are the
  requested user's, their ids are safe command arguments, and the authorization id names one
  session of one boot of the agent's runtime directory.
\<close>

lemma collect_sessions_mem:
  "collect_sessions u show ns user ls = Inr ss \<Longrightarrow> s \<in> set ss \<Longrightarrow>
     ss_User s = user \<and> ss_AuthorizationID s = ns @ ''_'' @ ss_ID s
     \<and> validateSessionID u (ss_ID s) = None
     \<and> (\<exists>l\<in>set ls. fields_of l \<noteq> [] \<and> fields_of l ! 0 = ss_ID s)"
proof (induction ls arbitrary: ss)
  case (Cons l ls)
  show ?case
  proof (cases "length (fields_of l) < 3 \<or> fields_of l ! 2 \<noteq> user")
    case True
    with Cons show ?thesis by (auto simp: Let_def)
  next
    case False
    then obtain details s1 rest where id: "validateSessionID u (fields_of l ! 0) = None"
        and parse: "parseProperties (fields_of l ! 0) details = Inr s1"
        and rest: "collect_sessions u show ns user ls = Inr rest"
        and ss: "ss = (if ss_User s1 = user then s1\<lparr>ss_AuthorizationID := ns @ ''_'' @ ss_ID s1\<rparr> # rest
          else rest)"
      using Cons.prems(1) by (auto simp: Let_def split: option.splits sum.splits)
    have "ss_ID s1 = fields_of l ! 0"
      using parse by (auto simp: parseProperties_def Let_def split: sum.splits if_splits)
    moreover have "fields_of l \<noteq> []" using False by auto
    ultimately show ?thesis
      using Cons.IH [OF rest] Cons.prems(2) id by (auto simp: ss split: if_splits)
  qed
qed simp

lemma listed_sessions_identified_facts:
  assumes "logind_Sessions u list show l user = Inr ss" and "s \<in> set ss"
    and "logind_Sessions u list' show' l' user' = Inr ss'" and "s' \<in> set ss'"
    and "namespace_valid (lg_sessionNamespaceID l)" and "namespace_valid (lg_sessionNamespaceID l')"
  shows "ss_User s = user" and "ss_ID s \<noteq> []" and "hd (ss_ID s) \<noteq> CHR ''-''"
    and "BalanceAuthorizationID s = BalanceAuthorizationID s' \<Longrightarrow>
      lg_sessionNamespaceID l = lg_sessionNamespaceID l' \<and> ss_ID s = ss_ID s'"
proof -
  have mem: "ss_User t = u' \<and> ss_AuthorizationID t = lg_sessionNamespaceID k @ ''_'' @ ss_ID t
      \<and> validateSessionID u (ss_ID t) = None"
    if "logind_Sessions u li sh k u' = Inr ts" "t \<in> set ts" for li sh k u' ts t
    using that collect_sessions_mem [of u sh "lg_sessionNamespaceID k" u']
    by (auto simp: logind_Sessions_def split: option.splits)
  note s = mem [OF assms(1,2)] and s' = mem [OF assms(3,4)]
  show "ss_User s = user" using s by simp
  show "ss_ID s \<noteq> []" and "hd (ss_ID s) \<noteq> CHR ''-''"
    using s by (auto simp: validateSessionID_def split: if_splits)
  assume "BalanceAuthorizationID s = BalanceAuthorizationID s'"
  then have eq: "lg_sessionNamespaceID l @ CHR ''_'' # ss_ID s = lg_sessionNamespaceID l' @ CHR ''_'' # ss_ID s'"
    using s s' by (simp add: BalanceAuthorizationID_def)
  have "length (lg_sessionNamespaceID l) = length (lg_sessionNamespaceID l')"
    using assms(5,6) by (simp add: namespace_valid_def)
  with eq show "lg_sessionNamespaceID l = lg_sessionNamespaceID l' \<and> ss_ID s = ss_ID s'"
    by simp
qed

text \<open>A listed session is the requested user's, its id is one the agent may pass to
  \<open>loginctl\<close> (not empty, not an option), and its authorization id determines both the namespace
  of the agent's run and the session: two sessions listed under two valid namespaces with the
  same authorization id are the same session under the same namespace.\<close>

theorem listed_sessions_identified:
  assumes "logind_Sessions u list show l user = Inr ss" and "s \<in> set ss"
    and "logind_Sessions u list' show' l' user' = Inr ss'" and "s' \<in> set ss'"
    and "namespace_valid (lg_sessionNamespaceID l)" and "namespace_valid (lg_sessionNamespaceID l')"
  shows "ss_User s = user \<and> ss_ID s \<noteq> [] \<and> hd (ss_ID s) \<noteq> CHR ''-''
    \<and> (BalanceAuthorizationID s = BalanceAuthorizationID s' \<longrightarrow>
      lg_sessionNamespaceID l = lg_sessionNamespaceID l' \<and> ss_ID s = ss_ID s')"
  using listed_sessions_identified_facts [OF assms] by blast

definition sample_namespace :: Logind where
  "sample_namespace = \<lparr>lg_path = ''/usr/bin/loginctl'',
     lg_sessionNamespaceID = ''0123456789abcdef0123456789abcdef''\<rparr>"

definition sample_list :: string where
  "sample_list = ''  2 1000 ana seat0 tty2'' @ [CHR 0x0A] @ ''  c1 120 gdm seat0 tty1'' @ [CHR 0x0A]"

definition sample_show :: "string \<Rightarrow> string option" where
  "sample_show i = (if i = ''2'' then Some (''Name=ana'' @ [CHR 0x0A] @ ''Remote=no'' @ [CHR 0x0A]
     @ ''Type=wayland'' @ [CHR 0x0A] @ ''Class=user'' @ [CHR 0x0A] @ ''State=active'' @ [CHR 0x0A])
     else None)"

definition sample_session :: Session where
  "sample_session = \<lparr>ss_ID = ''2'', ss_AuthorizationID = ''0123456789abcdef0123456789abcdef_2'',
     ss_User = ''ana'', ss_Type = ''wayland'', ss_Class = ''user'', ss_State = ''active'',
     ss_Remote = False\<rparr>"

lemma listed_sessions_identified_witness:
  "logind_Sessions (\<lambda>_. True) (Some sample_list) sample_show sample_namespace ''ana'' =
     Inr [sample_session]
   \<and> ss_User sample_session = ''ana'' \<and> hd (ss_ID sample_session) \<noteq> CHR ''-''"
proof -
  have l: "logind_Sessions (\<lambda>_. True) (Some sample_list) sample_show sample_namespace ''ana'' =
      Inr [sample_session]" by code_simp
  have n: "namespace_valid (lg_sessionNamespaceID sample_namespace)" by code_simp
  have m: "sample_session \<in> set [sample_session]" by simp
  from l listed_sessions_identified [OF l m l m n n] show ?thesis by blast
qed

end
