(* ===== verification/Daemon.thy ===== *)
theory Daemon
  imports Effects Session Alert UsageCounter
begin

text \<open>
  The daemon's polling cycle (\<open>agent/daemon/daemon.go\<close>): observation of the sessions, completion
  of control effects, accounting of the elapsed use, the decision and its enforcement. A cycle
  is an action on the daemon's state that keeps what it changed before an error. What a cycle
  asks of the outside is its environment: the synchronization source, logind, and whether the
  database serves each of the calls the cycle makes. The calls it makes of the outside
  (presence reports, locks and unlocks) are appended to a trace, which is not part of the
  program.
\<close>

section \<open>Data\<close>

definition sessionLockRetryInterval :: duration where "sessionLockRetryInterval = 30 * second"

record Status =
  su_Decision :: Decision
  su_GraphicalSession :: bool
  su_AwaitingSynchronization :: bool
  su_UsageSeconds :: int
  su_DueAlerts :: "Alert list"

definition zero_status :: Status where
  "zero_status = \<lparr>su_Decision = zero_decision, su_GraphicalSession = False,
     su_AwaitingSynchronization = False, su_UsageSeconds = 0, su_DueAlerts = []\<rparr>"

record RemoteControl =
  rc_online :: bool
  rc_paused :: bool
  rc_blocked :: bool
  rc_revision :: int

datatype Action = SetGraphicalSession bool string bool | LockSession Session | UnlockSession Session

record Daemon =
  dm_store :: Store
  dm_controlledUser :: string
  dm_checkpointEvery :: duration
  dm_tracker :: "UsageTracker option"
  dm_trackerDate :: string
  dm_lastAt :: time
  dm_lastShouldCount :: bool
  dm_lastHadSession :: bool
  dm_lastCountUntil :: time
  dm_fraction :: duration
  dm_lockAttempts :: "string \<Rightarrow> time option"
  dm_alertTracker :: Tracker
  dm_trace :: "Action list"

text \<open>The database calls of a cycle, each made at most once in it.\<close>

datatype DbCall =
    CallPendingControl | CallCompleteControl | CallAddBefore | CallFlushPrevious | CallLoadUsage
  | CallBonusMidnight | CallAdd | CallEnsure | CallBonus | CallFlushBlocked

record Env =
  ev_now :: time
  ev_remote :: "RemoteControl option"
  ev_sessions :: "SessionError + Session list"
  ev_locked :: "Session \<Rightarrow> SessionError + bool"
  ev_lock :: "Session \<Rightarrow> SessionError + unit"
  ev_unlock :: "Session \<Rightarrow> SessionError + unit"
  ev_db :: "DbCall \<Rightarrow> bool"

datatype DaemonError =
    StepTimeNotSet | StepTimeBackwards | NilTracker | FromStore StoreError | FromSession SessionError
  | FromPolicy PolicyError | FromAlerts AlertError | FromEnforcement SessionError Status
  | InvalidDaemon

definition NewDaemon :: "Store \<Rightarrow> string \<Rightarrow> duration \<Rightarrow> DaemonError + Daemon" where
  "NewDaemon store controlledUser checkpointEvery =
     (if controlledUser = [] \<or> checkpointEvery \<le> 0 then Inl InvalidDaemon
      else Inr \<lparr>dm_store = store, dm_controlledUser = controlledUser,
             dm_checkpointEvery = checkpointEvery, dm_tracker = None, dm_trackerDate = [],
             dm_lastAt = zero_time, dm_lastShouldCount = False, dm_lastHadSession = False,
             dm_lastCountUntil = zero_time, dm_fraction = 0, dm_lockAttempts = (\<lambda>_. None),
             dm_alertTracker = zero_tracker, dm_trace = []\<rparr>)"

type_synonym 'a step = "(Daemon, DaemonError, 'a) act"

section \<open>Sessions\<close>

definition graphicalSessions :: "Session list \<Rightarrow> Session list" where
  "graphicalSessions sessions = filter IsLocalGraphical sessions"

definition is_active :: "Session \<Rightarrow> bool" where
  "is_active s \<longleftrightarrow> ss_State s = ''active''"

definition establishedGraphicalSessionID :: "Session list \<Rightarrow> string" where
  "establishedGraphicalSessionID sessions =
     (case find is_active sessions of None \<Rightarrow> [] | Some s \<Rightarrow> BalanceAuthorizationID s)"

text \<open>\<open>lockedSessions\<close> of the active sessions; a missing key reads as false.\<close>

fun inspect_locks :: "(Session \<Rightarrow> SessionError + bool) \<Rightarrow> Session list \<Rightarrow> (string \<Rightarrow> bool)
    \<Rightarrow> SessionError + (string \<Rightarrow> bool)" where
  "inspect_locks is_locked [] locked = Inr locked"
| "inspect_locks is_locked (s # ss) locked =
     (if \<not> is_active s then inspect_locks is_locked ss locked
      else case is_locked s of
             Inl e \<Rightarrow> Inl e
           | Inr b \<Rightarrow> inspect_locks is_locked ss (locked(BalanceAuthorizationID s := b)))"

definition active_keys :: "Session list \<Rightarrow> string set" where
  "active_keys graphical = BalanceAuthorizationID ` set (filter is_active graphical)"

record Observation =
  ob_graphical :: "Session list"
  ob_activeID :: string
  ob_locked :: "string \<Rightarrow> bool"
  ob_activeLocked :: bool

definition observe_sessions :: "Env \<Rightarrow> Observation step" where
  "observe_sessions env =
     andThen (returned (wrap_error FromSession (ev_sessions env))) (\<lambda>allSessions.
       let graphical = graphicalSessions allSessions
       in andThen (returned (wrap_error FromSession (inspect_locks (ev_locked env) graphical (\<lambda>_. False))))
            (\<lambda>locked.
              andThen (modify (\<lambda>d. d\<lparr>dm_lockAttempts := (\<lambda>key.
                  if key \<in> active_keys graphical then dm_lockAttempts d key else None)\<rparr>)) (\<lambda>_.
              let activeID = establishedGraphicalSessionID graphical;
                  activeLocked = (case find is_active graphical of
                      None \<Rightarrow> False | Some s \<Rightarrow> locked (BalanceAuthorizationID s))
              in andThen (if ev_remote env = None then ret ()
                    else modify (\<lambda>d. d\<lparr>dm_trace := dm_trace d
                           @ [SetGraphicalSession (activeID \<noteq> []) activeID activeLocked]\<rparr>)) (\<lambda>_.
                 ret \<lparr>ob_graphical = graphical, ob_activeID = activeID, ob_locked = locked,
                      ob_activeLocked = activeLocked\<rparr>))))"

section \<open>Control effects\<close>

definition effect_confirmed :: "string \<Rightarrow> string \<Rightarrow> bool \<Rightarrow> bool" where
  "effect_confirmed kind activeID activeLocked \<longleftrightarrow>
     (if kind = ''block_now'' then activeID \<noteq> [] \<and> activeLocked
      else if kind = ''clear_manual_block'' \<or> kind = ''pause_monitoring''
        then activeID = [] \<or> \<not> activeLocked
      else kind = ''resume_monitoring'')"

definition on_store :: "(Store \<Rightarrow> (StoreError + 'a) \<times> Store) \<Rightarrow> 'a step" where
  "on_store f = (\<lambda>d. case f (dm_store d) of (r, s) \<Rightarrow> (wrap_error FromStore r, d\<lparr>dm_store := s\<rparr>))"

text \<open>The control effect that is still to be enforced in this cycle, if any.\<close>

definition control_effect :: "Env \<Rightarrow> bool \<Rightarrow> int \<Rightarrow> Observation \<Rightarrow> PendingControlEffect option step" where
  "control_effect env remoteOnline remoteControlRevision ob =
     andThen (on_store (\<lambda>s. (LoadPendingControlEffect (ev_db env CallPendingControl) s, s))) (\<lambda>pending.
       case pending of
         None \<Rightarrow> ret None
       | Some eff \<Rightarrow>
           if \<not> (remoteOnline \<and> ce_Revision eff = remoteControlRevision) then ret None
           else if effect_confirmed (ce_Kind eff) (ob_activeID ob) (ob_activeLocked ob)
           then andThen (on_store (CompleteControlEffect (ev_db env CallCompleteControl)
                  (ce_CommandID eff) (ev_now env))) (\<lambda>_. ret None)
           else ret (Some eff))"

section \<open>Accounting\<close>

definition cappedElapsed :: "time \<Rightarrow> time \<Rightarrow> time \<Rightarrow> duration" where
  "cappedElapsed start end1 countUntil =
     (let end' = (if \<not> is_zero countUntil \<and> countUntil < end1 then countUntil else end1)
      in if \<not> start < end' then 0 else time_sub end' start)"

text \<open>The tracker is nil only before the first cycle that loads it.\<close>

definition on_tracker :: "(UsageTracker \<times> Store \<Rightarrow> (StoreError + 'a) \<times> UsageTracker \<times> Store) \<Rightarrow> 'a step" where
  "on_tracker f = (\<lambda>d. case dm_tracker d of
       None \<Rightarrow> (Inl NilTracker, d)
     | Some t \<Rightarrow> (case f (t, dm_store d) of
         (r, t', s) \<Rightarrow> (wrap_error FromStore r, d\<lparr>dm_tracker := Some t', dm_store := s\<rparr>)))"

definition addElapsed :: "bool \<Rightarrow> duration \<Rightarrow> time \<Rightarrow> unit step" where
  "addElapsed io elapsed now =
     (if elapsed \<le> 0 then ret ()
      else andThen (reads (\<lambda>d. wrap64 (dm_fraction d + elapsed))) (\<lambda>total.
        let whole = total - go_mod total second
        in andThen (modify (\<lambda>d. d\<lparr>dm_fraction := total - whole\<rparr>)) (\<lambda>_.
           if whole = 0 then ret () else on_tracker (tracker_Add io whole now))))"

definition prepareTracker :: "Env \<Rightarrow> string \<Rightarrow> unit step" where
  "prepareTracker env localDate = andThen get_state (\<lambda>d.
     if dm_trackerDate d = localDate then ret ()
     else andThen (if dm_tracker d = None then ret ()
                   else on_tracker (tracker_Flush (ev_db env CallFlushPrevious) (ev_now env))) (\<lambda>_.
          andThen (on_store (\<lambda>s. (NewUsageTracker (ev_db env CallLoadUsage) s localDate
                     (dm_checkpointEvery d), s))) (\<lambda>t.
          modify (\<lambda>d. d\<lparr>dm_tracker := Some t, dm_trackerDate := localDate, dm_fraction := 0\<rparr>))))"

definition tracker_seconds :: "Daemon \<Rightarrow> int" where
  "tracker_seconds d = (case dm_tracker d of None \<Rightarrow> 0 | Some t \<Rightarrow> ut_seconds t)"

section \<open>The decision\<close>

definition policy_routines :: "StoredRoutine list \<Rightarrow> Routine list" where
  "policy_routines rs = map (\<lambda>r. \<lparr>r_Name = sr_Name r, r_Days = sr_Days r, r_Start = sr_Start r,
     r_End = sr_End r\<rparr>) (filter sr_Enabled rs)"

definition confirmed_remaining :: "Daemon \<Rightarrow> int" where
  "confirmed_remaining d =
     (case CurrentConfirmedSessionState (dm_store d) of
        None \<Rightarrow> 0
      | Some c \<Rightarrow>
          if cs_LocalDate c \<noteq> dm_trackerDate d then 0
          else max 0 (wrap64 (cs_RemainingSeconds c
                 - max 0 (wrap64 (tracker_seconds d - cs_UsageSeconds c)))))"

definition policy_input :: "location \<Rightarrow> PolicySnapshot \<Rightarrow> time \<Rightarrow> Input" where
  "policy_input loc snapshot now =
     \<lparr>in_Now = now,
      in_Monitoring = (if ps_MonitoringPaused snapshot then MonitoringPaused else MonitoringActive),
      in_ManualBlock = ps_ManualBlock snapshot, in_Quota = (\<lambda>_. 0), in_Consumed = 0, in_Bonus = 0,
      in_Routines = policy_routines (ps_Routines snapshot)\<rparr>"

definition daemon_evaluate :: "location \<Rightarrow> bool \<Rightarrow> PolicySnapshot \<Rightarrow> time \<Rightarrow> bool \<Rightarrow> Decision step" where
  "daemon_evaluate loc io snapshot now serverAuthority =
     andThen
       (if \<not> serverAuthority
        then andThen (reads dm_trackerDate) (\<lambda>date.
             andThen (on_store (\<lambda>s. (TotalBonusSeconds io date s, s))) (\<lambda>bonus.
             reads (\<lambda>d. (policy_input loc snapshot now)\<lparr>in_Quota := ps_WeeklyQuota snapshot,
               in_Consumed := seconds_duration (tracker_seconds d),
               in_Bonus := seconds_duration bonus\<rparr>)))
        else reads (\<lambda>d. (policy_input loc snapshot now)\<lparr>in_Quota := (\<lambda>_. 0)(weekday_of loc now :=
               seconds_duration (confirmed_remaining d))\<rparr>))
       (\<lambda>i. returned (wrap_error FromPolicy (Evaluate loc i)))"

text \<open>The use since the previous cycle, split at local midnight when the date changed.\<close>

definition account :: "location \<Rightarrow> Env \<Rightarrow> PolicySnapshot \<Rightarrow> bool \<Rightarrow> Session list \<Rightarrow> unit step" where
  "account loc env snapshot remoteOnline graphical = andThen get_state (\<lambda>d.
     let now = ev_now env; localDate = local_date loc now; midnight = midnight_of loc now
     in if dm_tracker d = None then prepareTracker env localDate
        else if dm_trackerDate d \<noteq> localDate
        then andThen (if dm_lastShouldCount d \<and> dm_lastHadSession d
               then addElapsed (ev_db env CallAddBefore)
                      (cappedElapsed (dm_lastAt d) midnight (dm_lastCountUntil d)) midnight
               else ret ()) (\<lambda>_.
             andThen (prepareTracker env localDate) (\<lambda>_.
             andThen (daemon_evaluate loc (ev_db env CallBonusMidnight) snapshot midnight remoteOnline)
               (\<lambda>newDayDecision.
                 if d_ShouldCount newDayDecision \<and> graphical \<noteq> []
                 then addElapsed (ev_db env CallAdd)
                        (cappedElapsed midnight now (d_NextBlockAt newDayDecision)) now
                 else ret ())))
        else if \<not> is_zero (dm_lastAt d) \<and> dm_lastShouldCount d \<and> dm_lastHadSession d
        then addElapsed (ev_db env CallAdd) (cappedElapsed (dm_lastAt d) now (dm_lastCountUntil d)) now
        else ret ())"

text \<open>The server's larger counter of the day is taken over.\<close>

definition reconcile :: "location \<Rightarrow> Env \<Rightarrow> unit step" where
  "reconcile loc env = andThen get_state (\<lambda>d.
     case CurrentConfirmedSessionState (dm_store d) of
       None \<Rightarrow> ret ()
     | Some c \<Rightarrow>
         if cs_LocalDate c = local_date loc (ev_now env) \<and> tracker_seconds d < cs_UsageSeconds c
         then on_tracker (tracker_EnsureAtLeast (ev_db env CallEnsure) (cs_UsageSeconds c) (ev_now env))
         else ret ())"

definition awaiting_synchronization ::
    "string \<Rightarrow> bool \<Rightarrow> PolicySnapshot \<Rightarrow> string \<Rightarrow> ConfirmedSessionState option \<Rightarrow> bool" where
  "awaiting_synchronization localDate remoteOnline snapshot activeID confirmed \<longleftrightarrow>
     remoteOnline \<and> \<not> ps_MonitoringPaused snapshot \<and> \<not> ps_ManualBlock snapshot \<and> activeID \<noteq> []
     \<and> (case confirmed of
          None \<Rightarrow> True
        | Some c \<Rightarrow> cs_SessionID c \<noteq> activeID \<or> cs_LocalDate c \<noteq> localDate
            \<or> cs_Revision c < ps_Revision snapshot)"

text \<open>The state of the confirmation is the one read before the reconciliation, which does not
  change it.\<close>

definition decide :: "location \<Rightarrow> Env \<Rightarrow> PolicySnapshot \<Rightarrow> bool \<Rightarrow> string \<Rightarrow> (bool \<times> Decision) step" where
  "decide loc env snapshot remoteOnline activeID = andThen get_state (\<lambda>d.
     let awaiting = awaiting_synchronization (local_date loc (ev_now env)) remoteOnline snapshot
           activeID (CurrentConfirmedSessionState (dm_store d))
     in if awaiting
        then ret (True, zero_decision\<lparr>d_Allowed := True, d_Reason := ReasonAwaitingSynchronization\<rparr>)
        else andThen (daemon_evaluate loc (ev_db env CallBonus) snapshot (ev_now env) remoteOnline)
               (\<lambda>decision. ret (False, decision)))"

definition flush_blocked :: "Env \<Rightarrow> Decision \<Rightarrow> unit step" where
  "flush_blocked env decision = andThen get_state (\<lambda>d.
     if \<not> d_Allowed decision \<and> dm_lastShouldCount d
     then on_tracker (tracker_Flush (ev_db env CallFlushBlocked) (ev_now env))
     else ret ())"

definition due_alerts :: "location \<Rightarrow> Env \<Rightarrow> PolicySnapshot \<Rightarrow> Observation \<Rightarrow> bool \<Rightarrow> Decision
    \<Rightarrow> Alert list step" where
  "due_alerts loc env snapshot ob awaiting decision = (\<lambda>d.
     case Due (dm_alertTracker d) decision (ps_WarningMinutes snapshot)
            \<lparr>cy_PolicyRevision = ps_Revision snapshot, cy_SessionID = ob_activeID ob,
             cy_LocalDate = local_date loc (ev_now env)\<rparr> (ev_now env)
            (ob_activeID ob \<noteq> [] \<and> \<not> ob_activeLocked ob \<and> \<not> awaiting) of
       (r, tr) \<Rightarrow> (wrap_error FromAlerts r, d\<lparr>dm_alertTracker := tr\<rparr>))"

section \<open>Enforcement\<close>

definition unlock_requested :: "PendingControlEffect option \<Rightarrow> bool" where
  "unlock_requested eff = (case eff of None \<Rightarrow> False
     | Some e \<Rightarrow> ce_Kind e = ''clear_manual_block'' \<or> ce_Kind e = ''pause_monitoring'')"

fun unlock_all :: "Env \<Rightarrow> (string \<Rightarrow> bool) \<Rightarrow> Status \<Rightarrow> Session list \<Rightarrow> unit step" where
  "unlock_all env locked status [] = ret ()"
| "unlock_all env locked status (s # ss) =
     (if \<not> is_active s \<or> \<not> locked (BalanceAuthorizationID s) then unlock_all env locked status ss
      else andThen (modify (\<lambda>d. d\<lparr>dm_trace := dm_trace d @ [UnlockSession s]\<rparr>)) (\<lambda>_.
           andThen (returned (wrap_error (\<lambda>e. FromEnforcement e status) (ev_unlock env s))) (\<lambda>_.
           unlock_all env locked status ss)))"

text \<open>A session tried less than the retry interval ago is skipped.\<close>

definition attempted_recently :: "time \<Rightarrow> time option \<Rightarrow> bool" where
  "attempted_recently now attempt =
     (case attempt of None \<Rightarrow> False | Some t \<Rightarrow> time_sub now t < sessionLockRetryInterval)"

fun lock_all :: "Env \<Rightarrow> Status \<Rightarrow> Session list \<Rightarrow> unit step" where
  "lock_all env status [] = ret ()"
| "lock_all env status (s # ss) = andThen get_state (\<lambda>d.
     if \<not> is_active s \<or> attempted_recently (ev_now env) (dm_lockAttempts d (BalanceAuthorizationID s))
     then lock_all env status ss
     else andThen (modify (\<lambda>d. d\<lparr>dm_lockAttempts :=
              (dm_lockAttempts d)(BalanceAuthorizationID s \<mapsto> ev_now env),
              dm_trace := dm_trace d @ [LockSession s]\<rparr>)) (\<lambda>_.
          andThen (returned (wrap_error (\<lambda>e. FromEnforcement e status) (ev_lock env s))) (\<lambda>_.
          lock_all env status ss)))"

definition enforce :: "Env \<Rightarrow> Observation \<Rightarrow> PendingControlEffect option \<Rightarrow> Status \<Rightarrow> Status step" where
  "enforce env ob eff status =
     (if su_AwaitingSynchronization status then ret status
      else if d_Allowed (su_Decision status)
      then andThen (if unlock_requested eff then unlock_all env (ob_locked ob) status (ob_graphical ob)
             else ret ()) (\<lambda>_.
           andThen (modify (\<lambda>d. d\<lparr>dm_lockAttempts := (\<lambda>_. None)\<rparr>)) (\<lambda>_. ret status))
      else andThen (lock_all env status (ob_graphical ob)) (\<lambda>_. ret status))"

section \<open>The cycle\<close>

text \<open>The policy in force, with the server's pause and block instead of the stored ones.\<close>

definition effective_policy :: "Env \<Rightarrow> PolicySnapshot \<Rightarrow> PolicySnapshot \<times> bool \<times> int" where
  "effective_policy env snapshot =
     (case ev_remote env of
        None \<Rightarrow> (snapshot, False, 0)
      | Some rc \<Rightarrow>
          (if rc_online rc
           then snapshot\<lparr>ps_MonitoringPaused := rc_paused rc, ps_ManualBlock := rc_blocked rc\<rparr>
           else snapshot\<lparr>ps_MonitoringPaused := False, ps_ManualBlock := False\<rparr>,
           rc_online rc, rc_revision rc))"

text \<open>Runtime accounting state advances before enforcement.\<close>

definition advance :: "Env \<Rightarrow> Observation \<Rightarrow> Decision \<Rightarrow> unit step" where
  "advance env ob decision = modify (\<lambda>d. d\<lparr>dm_lastAt := ev_now env,
     dm_lastShouldCount := d_ShouldCount decision, dm_lastHadSession := ob_graphical ob \<noteq> [],
     dm_lastCountUntil := d_NextBlockAt decision\<rparr>)"

definition begin_cycle :: "Env \<Rightarrow> (PolicySnapshot \<times> bool \<times> Observation \<times> PendingControlEffect option) step" where
  "begin_cycle env =
     andThen (fails_if (is_zero (ev_now env)) StepTimeNotSet) (\<lambda>_.
     andThen (reads dm_lastAt) (\<lambda>lastAt.
     andThen (fails_if (\<not> is_zero lastAt \<and> ev_now env < lastAt) StepTimeBackwards) (\<lambda>_.
     andThen (on_store (\<lambda>s. (CurrentPolicy s, s))) (\<lambda>stored.
     case effective_policy env stored of (snapshot, remoteOnline, remoteControlRevision) \<Rightarrow>
     andThen (observe_sessions env) (\<lambda>ob.
     andThen (control_effect env remoteOnline remoteControlRevision ob) (\<lambda>eff.
     ret (snapshot, remoteOnline, ob, eff)))))))"

definition decide_cycle :: "location \<Rightarrow> Env \<Rightarrow> PolicySnapshot \<Rightarrow> bool \<Rightarrow> Observation \<Rightarrow> Status step" where
  "decide_cycle loc env snapshot remoteOnline ob =
     andThen (account loc env snapshot remoteOnline (ob_graphical ob)) (\<lambda>_.
     andThen (reconcile loc env) (\<lambda>_.
     andThen (decide loc env snapshot remoteOnline (ob_activeID ob)) (\<lambda>(awaiting, decision).
     andThen (flush_blocked env decision) (\<lambda>_.
     andThen (reads tracker_seconds) (\<lambda>usage.
     andThen (due_alerts loc env snapshot ob awaiting decision) (\<lambda>alerts.
     ret \<lparr>su_Decision = decision, su_GraphicalSession = ob_graphical ob \<noteq> [],
       su_AwaitingSynchronization = awaiting, su_UsageSeconds = usage, su_DueAlerts = alerts\<rparr>))))))"

definition Step :: "location \<Rightarrow> Env \<Rightarrow> Status step" where
  "Step loc env =
     andThen (begin_cycle env) (\<lambda>(snapshot, remoteOnline, ob, eff).
     andThen (decide_cycle loc env snapshot remoteOnline ob) (\<lambda>status.
     andThen (advance env ob (su_Decision status)) (\<lambda>_.
     enforce env ob eff status)))"

definition daemon_Flush :: "bool \<Rightarrow> time \<Rightarrow> unit step" where
  "daemon_Flush io now = andThen get_state (\<lambda>d. if dm_tracker d = None then ret ()
     else on_tracker (tracker_Flush io now))"

end
