(* ===== verification/DaemonFacts.thy ===== *)
theory DaemonFacts
  imports Daemon
begin

text \<open>
  What each phase of the daemon's cycle leaves alone and what it does to the parts it changes:
  the library of the properties of the cycle.
\<close>

section \<open>Views of the state\<close>

text \<open>The accounting state of the previous cycle, and the effects on sessions.\<close>

definition last_view :: "Daemon \<Rightarrow> time \<times> bool \<times> bool \<times> time" where
  "last_view d = (dm_lastAt d, dm_lastShouldCount d, dm_lastHadSession d, dm_lastCountUntil d)"

definition effects_view :: "Daemon \<Rightarrow> Action list \<times> (string \<Rightarrow> time option)" where
  "effects_view d = (dm_trace d, dm_lockAttempts d)"

text \<open>The durable state of control commands.\<close>

definition control_view :: "Daemon \<Rightarrow> PendingControlEffect option \<times> AppliedRow list" where
  "control_view d = (pending_control_effect (st_db (dm_store d)), applied_command (st_db (dm_store d)))"

text \<open>What the decision reads, besides the usage counter.\<close>

definition balance_view :: "Daemon \<Rightarrow> ConfirmedSessionState option \<times> Bonus list" where
  "balance_view d = (CurrentConfirmedSessionState (dm_store d), bonus (st_db (dm_store d)))"

text \<open>The usage accounting of the day.\<close>

definition usage_view :: "Daemon \<Rightarrow> UsageTracker option \<times> string \<times> duration \<times> DailyUsage list" where
  "usage_view d = (dm_tracker d, dm_trackerDate d, dm_fraction d, daily_usage (st_db (dm_store d)))"

lemmas view_defs = last_view_def effects_view_def control_view_def balance_view_def usage_view_def

lemma keeps_on_store:
  assumes "\<And>d r s. h (dm_store d) = (r, s) \<Longrightarrow> f (d\<lparr>dm_store := s\<rparr>) = f d"
  shows "keeps f (on_store h)"
  using assms by (simp add: keeps_def on_store_def split: prod.split)

lemma keeps_on_store_read: "keeps f (on_store (\<lambda>s. (g s, s)))"
  by (rule keeps_on_store) simp

lemma keeps_on_tracker:
  assumes "\<And>d t r t' s. h (t, dm_store d) = (r, t', s) \<Longrightarrow> f (d\<lparr>dm_tracker := Some t', dm_store := s\<rparr>) = f d"
  shows "keeps f (on_tracker h)"
  using assms by (simp add: keeps_def on_tracker_def split: prod.split option.split)

text \<open>A write of the counter changes nothing but the table of the daily usage.\<close>

definition usage_only :: "Store \<Rightarrow> Store \<Rightarrow> bool" where
  "usage_only s s' \<longleftrightarrow> (\<exists>t. s' = s\<lparr>st_db := (st_db s)\<lparr>daily_usage := t\<rparr>\<rparr>)"

lemma usage_only_refl [simp]: "usage_only s s"
proof -
  have "s = s\<lparr>st_db := (st_db s)\<lparr>daily_usage := daily_usage (st_db s)\<rparr>\<rparr>" by simp
  then show ?thesis unfolding usage_only_def by blast
qed

lemma usage_only_checkpoint: "usage_only s (snd (CheckpointUsage io u s))"
proof (cases "snd (CheckpointUsage io u s) = s")
  case False
  then have "snd (CheckpointUsage io u s) = s\<lparr>st_db := upsert_usage u (st_db s)\<rparr>"
    by (auto simp: CheckpointUsage_def split: option.splits if_splits)
  then show ?thesis by (auto simp: usage_only_def upsert_usage_def)
qed simp

lemma usage_only_checkpoint_tracker: "usage_only (snd ts) (snd (snd (checkpoint_tracker io now ts)))"
  using usage_only_checkpoint [of "snd ts" io]
  by (auto simp: checkpoint_tracker_def split: prod.splits sum.splits) (metis snd_conv)+

lemma usage_only_tracker:
  "usage_only (snd ts) (snd (snd (tracker_Add io el now ts)))"
  "usage_only (snd ts) (snd (snd (tracker_Flush io now ts)))"
  "usage_only (snd ts) (snd (snd (tracker_EnsureAtLeast io n now ts)))"
proof -
  show "usage_only (snd ts) (snd (snd (tracker_Add io el now ts)))"
    using usage_only_checkpoint_tracker [of "(t, snd ts)" for t]
    by (auto simp: tracker_Add_def Let_def)
  show "usage_only (snd ts) (snd (snd (tracker_Flush io now ts)))"
    using usage_only_checkpoint_tracker [of ts] by (auto simp: tracker_Flush_def)
  show "usage_only (snd ts) (snd (snd (tracker_EnsureAtLeast io n now ts)))"
    using usage_only_checkpoint [of "snd ts" io]
    by (auto simp: tracker_EnsureAtLeast_def Let_def split: prod.splits) (metis snd_conv)
qed

text \<open>An observation that does not see the counter and its table.\<close>

definition blind :: "(Daemon \<Rightarrow> 'x) \<Rightarrow> bool" where
  "blind f \<longleftrightarrow> (\<forall>d t u x y a. f (d\<lparr>dm_tracker := t\<rparr>) = f d \<and> f (d\<lparr>dm_trackerDate := y\<rparr>) = f d
     \<and> f (d\<lparr>dm_store := (dm_store d)\<lparr>st_db := (st_db (dm_store d))\<lparr>daily_usage := u\<rparr>\<rparr>\<rparr>) = f d
     \<and> f (d\<lparr>dm_fraction := x\<rparr>) = f d \<and> f (d\<lparr>dm_alertTracker := a\<rparr>) = f d)"

lemma blindD:
  assumes "blind f"
  shows "f (d\<lparr>dm_tracker := t\<rparr>) = f d" "f (d\<lparr>dm_trackerDate := y\<rparr>) = f d"
    "f (d\<lparr>dm_store := (dm_store d)\<lparr>st_db := (st_db (dm_store d))\<lparr>daily_usage := u\<rparr>\<rparr>\<rparr>) = f d"
    "f (d\<lparr>dm_fraction := x\<rparr>) = f d" "f (d\<lparr>dm_alertTracker := a\<rparr>) = f d"
  using assms unfolding blind_def by blast+

lemma blind_views [simp]: "blind last_view" "blind effects_view" "blind control_view" "blind balance_view"
  by (simp_all add: blind_def view_defs CurrentConfirmedSessionState_def)

lemma keeps_tracker_op:
  assumes "blind f" and "\<And>ts. usage_only (snd ts) (snd (snd (h ts)))"
  shows "keeps f (on_tracker h)"
proof (rule keeps_on_tracker)
  fix d :: Daemon and t r t' s assume h: "h (t, dm_store d) = (r, t', s)"
  then have "usage_only (dm_store d) s" using assms(2) [of "(t, dm_store d)"] by simp
  then obtain u where "s = (dm_store d)\<lparr>st_db := (st_db (dm_store d))\<lparr>daily_usage := u\<rparr>\<rparr>"
    by (auto simp: usage_only_def)
  with blindD(3) [OF assms(1), where u = u and d = "d\<lparr>dm_tracker := Some t'\<rparr>"] blindD(1) [OF assms(1), where d = d and t = "Some t'"]
  show "f (d\<lparr>dm_tracker := Some t', dm_store := s\<rparr>) = f d" by simp
qed

lemma keeps_addElapsed [keeps_intros]:
  assumes "blind f" shows "keeps f (addElapsed io el now)"
proof -
  have "keeps f (modify (\<lambda>d. d\<lparr>dm_fraction := x\<rparr>))" for x
    using assms by (intro keeps_modify) (simp add: blindD)
  then show ?thesis
    unfolding addElapsed_def
    by (intro keeps_intros keeps_tracker_op usage_only_tracker assms)
qed

lemma keeps_daemon_evaluate [keeps_intros]: "keeps f (daemon_evaluate loc io snapshot now auth)"
  unfolding daemon_evaluate_def by (intro keeps_intros keeps_on_store_read)

lemma keeps_prepareTracker [keeps_intros]:
  assumes "blind f" shows "keeps f (prepareTracker env localDate)"
proof -
  have m: "keeps f (modify (\<lambda>d. d\<lparr>dm_tracker := Some t, dm_trackerDate := localDate, dm_fraction := 0\<rparr>))" for t
    using assms by (intro keeps_modify) (simp add: blindD)
  show ?thesis
    unfolding prepareTracker_def
    by (intro keeps_intros keeps_on_store_read m keeps_tracker_op usage_only_tracker assms)
qed

lemma keeps_account [keeps_intros]:
  "blind f \<Longrightarrow> keeps f (account loc env snapshot online graphical)"
  unfolding account_def by (intro keeps_intros)

lemma keeps_reconcile [keeps_intros]: "blind f \<Longrightarrow> keeps f (reconcile loc env)"
  unfolding reconcile_def
  by (intro keeps_intros keeps_tracker_op usage_only_tracker)

lemma keeps_decide [keeps_intros]: "keeps f (decide loc env snapshot online activeID)"
  unfolding decide_def by (intro keeps_intros)

lemma keeps_flush_blocked [keeps_intros]: "blind f \<Longrightarrow> keeps f (flush_blocked env decision)"
  unfolding flush_blocked_def by (intro keeps_intros keeps_tracker_op usage_only_tracker)

lemma keeps_due_alerts [keeps_intros]:
  "blind f \<Longrightarrow> keeps f (due_alerts loc env snapshot ob awaiting decision)"
  by (simp add: keeps_def due_alerts_def blindD split: prod.split)

lemma keeps_decide_cycle:
  assumes "blind f" shows "keeps f (decide_cycle loc env snapshot online ob)"
  unfolding decide_cycle_def by (intro keeps_intros assms)

section \<open>The beginning of a cycle\<close>

lemma keeps_on_store_last [keeps_intros]: "keeps last_view (on_store h)"
  by (intro keeps_on_store) (simp add: last_view_def)

lemma keeps_begin_last: "keeps last_view (begin_cycle env)"
proof -
  have "keeps last_view (modify (\<lambda>d. d\<lparr>dm_lockAttempts := g d\<rparr>))"
    and "keeps last_view (modify (\<lambda>d. d\<lparr>dm_trace := h d\<rparr>))" for g h
    by (intro keeps_modify; simp add: last_view_def)+
  then show ?thesis
    unfolding begin_cycle_def observe_sessions_def control_effect_def
    by (intro keeps_intros)
qed

lemma observe_sessions_run:
  "observe_sessions env d = (r, d') \<Longrightarrow>
     (case r of
        Inl e \<Rightarrow> d' = d
      | Inr ob \<Rightarrow> (\<exists>sessions. ev_sessions env = Inr sessions
          \<and> ob_graphical ob = graphicalSessions sessions
          \<and> ob_activeID ob = establishedGraphicalSessionID (ob_graphical ob)
          \<and> inspect_locks (ev_locked env) (ob_graphical ob) (\<lambda>_. False) = Inr (ob_locked ob)
          \<and> ob_activeLocked ob = (case find is_active (ob_graphical ob) of
               None \<Rightarrow> False | Some s \<Rightarrow> ob_locked ob (BalanceAuthorizationID s)))
          \<and> d' = d\<lparr>dm_lockAttempts := (\<lambda>key. if key \<in> active_keys (ob_graphical ob)
                 then dm_lockAttempts d key else None),
               dm_trace := dm_trace d @ (if ev_remote env = None then []
                 else [SetGraphicalSession (ob_activeID ob \<noteq> []) (ob_activeID ob) (ob_activeLocked ob)])\<rparr>)"
  by (auto simp: observe_sessions_def andThen_def run_simps wrap_error_def Let_def
      split: sum.splits if_splits cong: option.case_cong)

text \<open>What is left to enforce of the staged command after the control phase: nothing changed in
  the store, or the observed effect completed the staged command.\<close>

definition effect_pending :: "bool \<Rightarrow> int \<Rightarrow> Store \<Rightarrow> PendingControlEffect \<Rightarrow> bool" where
  "effect_pending online n s e \<longleftrightarrow> online \<and> pending_control_effect (st_db s) = Some e \<and> ce_Revision e = n"

lemma control_effect_run:
  assumes "control_effect env online revision ob d = (r, d')"
  shows "(d' = d \<and> (\<forall>e. r = Inr (Some e) \<longrightarrow> effect_pending online revision (dm_store d) e))
    \<or> (\<exists>e. r = Inr None \<and> effect_pending online revision (dm_store d) e
         \<and> effect_confirmed (ce_Kind e) (ob_activeID ob) (ob_activeLocked ob)
         \<and> CompleteControlEffect True (ce_CommandID e) (ev_now env) (dm_store d) = (Inr (), dm_store d')
         \<and> d' = d\<lparr>dm_store := dm_store d'\<rparr>)"
  using assms
  by (auto simp: control_effect_def andThen_def run_simps on_store_def wrap_error_def
      LoadPendingControlEffect_def effect_pending_def CompleteControlEffect_def
      split: option.splits if_splits prod.splits sum.splits)

lemma begin_cycle_run:
  assumes "begin_cycle env d = (Inr (snapshot, online, ob, eff), d')"
  obtains stored revision sessions where "CurrentPolicy (dm_store d) = Inr stored"
    and "effective_policy env stored = (snapshot, online, revision)"
    and "\<not> is_zero (ev_now env)" and "is_zero (dm_lastAt d) \<or> dm_lastAt d \<le> ev_now env"
    and "ev_sessions env = Inr sessions" and "ob_graphical ob = graphicalSessions sessions"
    and "ob_activeID ob = establishedGraphicalSessionID (ob_graphical ob)"
    and "inspect_locks (ev_locked env) (ob_graphical ob) (\<lambda>_. False) = Inr (ob_locked ob)"
    and "ob_activeLocked ob = (case find is_active (ob_graphical ob) of
               None \<Rightarrow> False | Some s \<Rightarrow> ob_locked ob (BalanceAuthorizationID s))"
    and "d' = d\<lparr>dm_lockAttempts := (\<lambda>key. if key \<in> active_keys (ob_graphical ob)
                 then dm_lockAttempts d key else None),
               dm_trace := dm_trace d @ (if ev_remote env = None then []
                 else [SetGraphicalSession (ob_activeID ob \<noteq> []) (ob_activeID ob) (ob_activeLocked ob)]),
               dm_store := dm_store d'\<rparr>"
    and "dm_store d' = dm_store d \<and> (\<forall>e. eff = Some e \<longrightarrow> effect_pending online revision (dm_store d) e)
      \<or> (\<exists>e. eff = None \<and> effect_pending online revision (dm_store d) e
         \<and> effect_confirmed (ce_Kind e) (ob_activeID ob) (ob_activeLocked ob)
         \<and> CompleteControlEffect True (ce_CommandID e) (ev_now env) (dm_store d) = (Inr (), dm_store d'))"
proof -
  obtain stored where st: "CurrentPolicy (dm_store d) = Inr stored" and z: "\<not> is_zero (ev_now env)"
    and m: "is_zero (dm_lastAt d) \<or> dm_lastAt d \<le> ev_now env"
    using assms by (cases "CurrentPolicy (dm_store d)") (auto simp: begin_cycle_def andThen_def
        run_simps on_store_def wrap_error_def split: if_splits)
  obtain revision where ep: "effective_policy env stored = (snapshot, online, revision)"
    and rest: "andThen (observe_sessions env) (\<lambda>ob. andThen (control_effect env online revision ob)
       (\<lambda>eff. ret (snapshot, online, ob, eff))) d = (Inr (snapshot, online, ob, eff), d')"
    using assms st z m by (auto simp: begin_cycle_def andThen_def run_simps on_store_def wrap_error_def
        split: prod.splits sum.splits if_splits)
  from rest obtain d1 where o: "observe_sessions env d = (Inr ob, d1)"
    and c: "control_effect env online revision ob d1 = (Inr eff, d')"
    by (auto elim!: andThen_InrE simp: run_simps)
  from observe_sessions_run [OF o] obtain sessions where ob: "ev_sessions env = Inr sessions"
      "ob_graphical ob = graphicalSessions sessions"
      "ob_activeID ob = establishedGraphicalSessionID (ob_graphical ob)"
      "inspect_locks (ev_locked env) (ob_graphical ob) (\<lambda>_. False) = Inr (ob_locked ob)"
      "ob_activeLocked ob = (case find is_active (ob_graphical ob) of
               None \<Rightarrow> False | Some s \<Rightarrow> ob_locked ob (BalanceAuthorizationID s))"
    and d1: "d1 = d\<lparr>dm_lockAttempts := (\<lambda>key. if key \<in> active_keys (ob_graphical ob)
                 then dm_lockAttempts d key else None),
               dm_trace := dm_trace d @ (if ev_remote env = None then []
                 else [SetGraphicalSession (ob_activeID ob \<noteq> []) (ob_activeID ob) (ob_activeLocked ob)])\<rparr>"
    by auto
  have s1: "dm_store d1 = dm_store d" by (simp add: d1)
  have d': "d' = d1\<lparr>dm_store := dm_store d'\<rparr>"
    using control_effect_run [OF c] by auto
  show ?thesis
  proof (rule that [OF st ep z m ob])
    show "dm_store d' = dm_store d \<and> (\<forall>e. eff = Some e \<longrightarrow> effect_pending online revision (dm_store d) e)
      \<or> (\<exists>e. eff = None \<and> effect_pending online revision (dm_store d) e
         \<and> effect_confirmed (ce_Kind e) (ob_activeID ob) (ob_activeLocked ob)
         \<and> CompleteControlEffect True (ce_CommandID e) (ev_now env) (dm_store d) = (Inr (), dm_store d'))"
      using control_effect_run [OF c] by (auto simp: s1)
  qed (use d' in \<open>simp add: d1\<close>)
qed

section \<open>Enforcement\<close>

lemma attempted_now [simp]: "attempted_recently now (Some now)"
  by (simp add: attempted_recently_def time_sub_def sessionLockRetryInterval_def duration_defs)

lemma lock_all_run:
  "lock_all env status ss d = (r, d') \<Longrightarrow>
     (\<exists>ls. dm_trace d' = dm_trace d @ map LockSession ls
        \<and> (\<forall>s\<in>set ls. s \<in> set ss \<and> is_active s
             \<and> \<not> attempted_recently (ev_now env) (dm_lockAttempts d (BalanceAuthorizationID s))))
     \<and> (case r of Inl e \<Rightarrow> (\<exists>x. e = FromEnforcement x status)
        | Inr _ \<Rightarrow> (\<forall>s\<in>set ss. is_active s \<longrightarrow>
             attempted_recently (ev_now env) (dm_lockAttempts d' (BalanceAuthorizationID s))))
     \<and> (\<forall>k. attempted_recently (ev_now env) (dm_lockAttempts d k) \<longrightarrow>
          attempted_recently (ev_now env) (dm_lockAttempts d' k))"
proof (induction ss arbitrary: d)
  case Nil
  then show ?case by (auto simp: run_simps)
next
  case (Cons s ss)
  let ?recent = "\<lambda>d k. attempted_recently (ev_now env) (dm_lockAttempts d k)"
  show ?case
  proof (cases "\<not> is_active s \<or> ?recent d (BalanceAuthorizationID s)")
    case True
    with Cons.prems have "lock_all env status ss d = (r, d')" by (auto simp: run_simps)
    from Cons.IH [OF this] True show ?thesis by (auto split: sum.splits)
  next
    case False
    let ?d1 = "d\<lparr>dm_lockAttempts := (dm_lockAttempts d)(BalanceAuthorizationID s \<mapsto> ev_now env),
      dm_trace := dm_trace d @ [LockSession s]\<rparr>"
    have mono: "?recent d k \<Longrightarrow> ?recent ?d1 k" for k by simp
    show ?thesis
    proof (cases "ev_lock env s")
      case (Inl x)
      with Cons.prems False have "r = Inl (FromEnforcement x status)" "d' = ?d1"
        by (auto simp: run_simps andThen_def wrap_error_def)
      with False mono show ?thesis by (auto intro!: exI [of _ "[s]"])
    next
      case (Inr u)
      with Cons.prems False have "lock_all env status ss ?d1 = (r, d')"
        by (auto simp: run_simps andThen_def wrap_error_def)
      from Cons.IH [OF this] obtain ls where
        ls: "dm_trace d' = dm_trace d @ map LockSession (s # ls)"
          "\<forall>x\<in>set ls. x \<in> set ss \<and> is_active x \<and> \<not> ?recent ?d1 (BalanceAuthorizationID x)"
        and r: "case r of Inl e \<Rightarrow> (\<exists>x. e = FromEnforcement x status)
          | Inr _ \<Rightarrow> (\<forall>x\<in>set ss. is_active x \<longrightarrow> ?recent d' (BalanceAuthorizationID x))"
        and k: "\<forall>k. ?recent ?d1 k \<longrightarrow> ?recent d' k" by auto
      have "?recent ?d1 (BalanceAuthorizationID s)" by simp
      with k have "?recent d' (BalanceAuthorizationID s)" by blast
      moreover have "\<forall>x\<in>set (s # ls). x \<in> set (s # ss) \<and> is_active x
          \<and> \<not> ?recent d (BalanceAuthorizationID x)"
        using ls(2) False mono by auto
      ultimately show ?thesis
        using ls(1) r k mono by (intro conjI exI [of _ "s # ls"]) (auto split: sum.splits)
    qed
  qed
qed

lemma unlock_all_run:
  "unlock_all env locked status ss d = (r, d') \<Longrightarrow>
     (\<exists>us. dm_trace d' = dm_trace d @ map UnlockSession us
        \<and> (\<forall>s\<in>set us. s \<in> set ss \<and> is_active s \<and> locked (BalanceAuthorizationID s)))
     \<and> (\<forall>e. r = Inl e \<longrightarrow> (\<exists>x. e = FromEnforcement x status))"
proof (induction ss arbitrary: d)
  case Nil
  then show ?case by (auto simp: run_simps)
next
  case (Cons s ss)
  show ?case
  proof (cases "\<not> is_active s \<or> \<not> locked (BalanceAuthorizationID s)")
    case True
    with Cons.prems have "unlock_all env locked status ss d = (r, d')" by auto
    from Cons.IH [OF this] show ?thesis by auto
  next
    case False
    let ?d1 = "d\<lparr>dm_trace := dm_trace d @ [UnlockSession s]\<rparr>"
    show ?thesis
    proof (cases "ev_unlock env s")
      case (Inl x)
      with Cons.prems False have "r = Inl (FromEnforcement x status)" "d' = ?d1"
        by (auto simp: run_simps andThen_def wrap_error_def)
      with False show ?thesis by (auto intro!: exI [of _ "[s]"])
    next
      case (Inr u)
      with Cons.prems False have "unlock_all env locked status ss ?d1 = (r, d')"
        by (auto simp: run_simps andThen_def wrap_error_def)
      from Cons.IH [OF this] obtain us where
        "dm_trace d' = dm_trace d @ map UnlockSession (s # us)"
        "\<forall>x\<in>set us. x \<in> set ss \<and> is_active x \<and> locked (BalanceAuthorizationID x)"
        "\<forall>e. r = Inl e \<longrightarrow> (\<exists>x. e = FromEnforcement x status)" by auto
      with False show ?thesis by (intro conjI exI [of _ "s # us"]) auto
    qed
  qed
qed

section \<open>The whole cycle\<close>

definition advanced :: "Env \<Rightarrow> Observation \<Rightarrow> Decision \<Rightarrow> Daemon \<Rightarrow> Daemon" where
  "advanced env ob decision d = d\<lparr>dm_lastAt := ev_now env,
     dm_lastShouldCount := d_ShouldCount decision, dm_lastHadSession := ob_graphical ob \<noteq> [],
     dm_lastCountUntil := d_NextBlockAt decision\<rparr>"

lemma Step_cases:
  assumes "Step loc env d = (r, d')"
  obtains (begin_failed) e where "begin_cycle env d = (Inl e, d')" and "r = Inl e"
  | (decide_failed) snapshot online ob eff d1 e
    where "begin_cycle env d = (Inr (snapshot, online, ob, eff), d1)"
      and "decide_cycle loc env snapshot online ob d1 = (Inl e, d')" and "r = Inl e"
  | (enforced) snapshot online ob eff d1 status d2
    where "begin_cycle env d = (Inr (snapshot, online, ob, eff), d1)"
      and "decide_cycle loc env snapshot online ob d1 = (Inr status, d2)"
      and "enforce env ob eff status (advanced env ob (su_Decision status) d2) = (r, d')"
proof -
  from assms show ?thesis
    unfolding Step_def
  proof (cases rule: andThen_cases)
    case (failed e)
    then show ?thesis by (rule begin_failed)
  next
    case (went_on x d1)
    obtain snapshot online ob eff where x: "x = (snapshot, online, ob, eff)" by (cases x)
    from went_on(2) have "andThen (decide_cycle loc env snapshot online ob) (\<lambda>status.
        andThen (advance env ob (su_Decision status)) (\<lambda>_. enforce env ob eff status)) d1 = (r, d')"
      by (simp add: x)
    then show ?thesis
    proof (cases rule: andThen_cases)
      case (failed e)
      then show ?thesis by (rule decide_failed [OF went_on(1) [unfolded x]])
    next
      case went: (went_on status d2)
      then have "enforce env ob eff status (advanced env ob (su_Decision status) d2) = (r, d')"
        by (simp add: advance_def advanced_def run_simps)
      then show ?thesis by (rule enforced [OF went_on(1) [unfolded x] went(1)])
    qed
  qed
qed

text \<open>The status a cycle reports, with an enforcement error too.\<close>

definition step_status :: "DaemonError + Status \<Rightarrow> Status option" where
  "step_status r = (case r of Inr st \<Rightarrow> Some st
     | Inl e \<Rightarrow> (case e of FromEnforcement x st \<Rightarrow> Some st | _ \<Rightarrow> None))"

definition presence_only :: "Action list \<Rightarrow> bool" where
  "presence_only acts \<longleftrightarrow> (\<forall>a\<in>set acts. case a of SetGraphicalSession _ _ _ \<Rightarrow> True | _ \<Rightarrow> False)"

lemma begin_cycle_presence:
  assumes "begin_cycle env d = (r, d')"
  shows "\<exists>ps. dm_trace d' = dm_trace d @ ps \<and> presence_only ps"
proof -
  have on: "dm_trace d2 = dm_trace d1" if "on_store h d1 = (x, d2)" for h x d1 d2
    using that by (auto simp: on_store_def split: prod.splits)
  have obs: "\<exists>ps. dm_trace d2 = dm_trace d1 @ ps \<and> presence_only ps"
    if "observe_sessions env d1 = (x, d2)" for x d1 d2
    using observe_sessions_run [OF that] by (auto simp: presence_only_def split: sum.splits)
  have ctl: "dm_trace d2 = dm_trace d1" if "control_effect env o1 o2 o3 d1 = (x, d2)" for o1 o2 o3 x d1 d2
  proof -
    have "d2 = d1 \<or> d2 = d1\<lparr>dm_store := dm_store d2\<rparr>" using control_effect_run [OF that] by auto
    then show ?thesis by (elim disjE) (simp, drule arg_cong [where f = dm_trace], simp)
  qed
  show ?thesis
    using assms unfolding begin_cycle_def
    by (auto simp: run_simps presence_only_def split: prod.splits if_splits elim!: andThen_cases
        dest!: on ctl obs)
qed

lemma decide_cycle_Inr:
  assumes "decide_cycle loc env snapshot online ob d = (Inr st, d')"
  obtains da dr df alerts awaiting decision
  where "account loc env snapshot online (ob_graphical ob) d = (Inr (), da)"
    and "reconcile loc env da = (Inr (), dr)"
    and "decide loc env snapshot online (ob_activeID ob) dr = (Inr (awaiting, decision), dr)"
    and "flush_blocked env decision dr = (Inr (), df)"
    and "due_alerts loc env snapshot ob awaiting decision df = (Inr alerts, d')"
    and "st = \<lparr>su_Decision = decision, su_GraphicalSession = ob_graphical ob \<noteq> [],
       su_AwaitingSynchronization = awaiting, su_UsageSeconds = tracker_seconds df,
       su_DueAlerts = alerts\<rparr>"
proof -
  from assms obtain da where a: "account loc env snapshot online (ob_graphical ob) d = (Inr (), da)"
    and 1: "andThen (reconcile loc env) (\<lambda>_.
     andThen (decide loc env snapshot online (ob_activeID ob)) (\<lambda>(awaiting, decision).
     andThen (flush_blocked env decision) (\<lambda>_.
     andThen (reads tracker_seconds) (\<lambda>usage.
     andThen (due_alerts loc env snapshot ob awaiting decision) (\<lambda>alerts.
     ret \<lparr>su_Decision = decision, su_GraphicalSession = ob_graphical ob \<noteq> [],
       su_AwaitingSynchronization = awaiting, su_UsageSeconds = usage, su_DueAlerts = alerts\<rparr>))))) da
       = (Inr st, d')"
    unfolding decide_cycle_def by (rule andThen_InrE) simp
  from 1 obtain dr where b: "reconcile loc env da = (Inr (), dr)"
    and 2: "andThen (decide loc env snapshot online (ob_activeID ob)) (\<lambda>(awaiting, decision).
     andThen (flush_blocked env decision) (\<lambda>_.
     andThen (reads tracker_seconds) (\<lambda>usage.
     andThen (due_alerts loc env snapshot ob awaiting decision) (\<lambda>alerts.
     ret \<lparr>su_Decision = decision, su_GraphicalSession = ob_graphical ob \<noteq> [],
       su_AwaitingSynchronization = awaiting, su_UsageSeconds = usage, su_DueAlerts = alerts\<rparr>)))) dr
       = (Inr st, d')"
    by (rule andThen_InrE) simp
  from 2 obtain awaiting decision dd where
    c: "decide loc env snapshot online (ob_activeID ob) dr = (Inr (awaiting, decision), dd)"
    and 3: "andThen (flush_blocked env decision) (\<lambda>_.
     andThen (reads tracker_seconds) (\<lambda>usage.
     andThen (due_alerts loc env snapshot ob awaiting decision) (\<lambda>alerts.
     ret \<lparr>su_Decision = decision, su_GraphicalSession = ob_graphical ob \<noteq> [],
       su_AwaitingSynchronization = awaiting, su_UsageSeconds = usage, su_DueAlerts = alerts\<rparr>))) dd
       = (Inr st, d')"
    by (rule andThen_InrE) (auto split: prod.splits)
  have dd: "dd = dr" using keepsD [OF keeps_decide c, of "\<lambda>d. d"] by simp
  from 3 obtain df where e: "flush_blocked env decision dd = (Inr (), df)"
    and 4: "andThen (due_alerts loc env snapshot ob awaiting decision) (\<lambda>alerts.
     ret \<lparr>su_Decision = decision, su_GraphicalSession = ob_graphical ob \<noteq> [],
       su_AwaitingSynchronization = awaiting, su_UsageSeconds = tracker_seconds df,
       su_DueAlerts = alerts\<rparr>) df = (Inr st, d')"
    by (rule andThen_InrE) (simp add: run_simps)
  from 4 obtain alerts dx where "due_alerts loc env snapshot ob awaiting decision df = (Inr alerts, dx)"
    and "st = \<lparr>su_Decision = decision, su_GraphicalSession = ob_graphical ob \<noteq> [],
       su_AwaitingSynchronization = awaiting, su_UsageSeconds = tracker_seconds df,
       su_DueAlerts = alerts\<rparr>" and "dx = d'"
    by (rule andThen_InrE) (simp add: run_simps)
  with a b c e dd that show ?thesis by simp
qed

lemma decide_awaiting:
  assumes "decide loc env snapshot online activeID d = (Inr (awaiting, decision), d')"
  shows "awaiting = awaiting_synchronization (local_date loc (ev_now env)) online snapshot activeID
      (CurrentConfirmedSessionState (dm_store d))"
    and "awaiting \<Longrightarrow> decision = zero_decision\<lparr>d_Allowed := True, d_Reason := ReasonAwaitingSynchronization\<rparr>"
    and "\<not> awaiting \<Longrightarrow> daemon_evaluate loc (ev_db env CallBonus) snapshot (ev_now env) online d
      = (Inr decision, d)"
proof -
  let ?w = "awaiting_synchronization (local_date loc (ev_now env)) online snapshot activeID
      (CurrentConfirmedSessionState (dm_store d))"
  have d: "d' = d" using keepsD [OF keeps_decide assms, of "\<lambda>d. d"] by simp
  have "awaiting = ?w \<and> (awaiting \<longrightarrow> decision = zero_decision\<lparr>d_Allowed := True,
      d_Reason := ReasonAwaitingSynchronization\<rparr>) \<and> (\<not> awaiting \<longrightarrow>
      daemon_evaluate loc (ev_db env CallBonus) snapshot (ev_now env) online d = (Inr decision, d))"
  proof (cases ?w)
    case True
    with assms show ?thesis by (simp add: decide_def run_simps Let_def)
  next
    case False
    with assms have "andThen (daemon_evaluate loc (ev_db env CallBonus) snapshot (ev_now env) online)
        (\<lambda>decision. ret (False, decision)) d = (Inr (awaiting, decision), d')"
      by (simp add: decide_def run_simps Let_def)
    with False d show ?thesis by (auto elim!: andThen_InrE simp: run_simps)
  qed
  then show "awaiting = ?w"
    and "awaiting \<Longrightarrow> decision = zero_decision\<lparr>d_Allowed := True, d_Reason := ReasonAwaitingSynchronization\<rparr>"
    and "\<not> awaiting \<Longrightarrow> daemon_evaluate loc (ev_db env CallBonus) snapshot (ev_now env) online d
      = (Inr decision, d)" by blast+
qed

lemma begin_cycle_Inl:
  assumes "begin_cycle env d = (Inl e, d')"
  shows "dm_store d' = dm_store d"
proof -
  have obs: "dm_store d2 = dm_store d1" if "observe_sessions env d1 = (x, d2)" for x d1 d2
    using observe_sessions_run [OF that] by (auto split: sum.splits)
  have st: "dm_store d2 = dm_store d1" if "on_store (\<lambda>s. (g s, s)) d1 = (x, d2)" for g x d1 d2
    using that by (auto simp: on_store_def)
  have ctl: "d2 = d1" if "control_effect env o1 o2 o3 d1 = (Inl x, d2)" for o1 o2 o3 x d1 d2
    using control_effect_run [OF that] by auto
  show ?thesis
    using assms unfolding begin_cycle_def
    by (auto simp: run_simps split: prod.splits if_splits elim!: andThen_cases dest!: st ctl obs)
qed

end
