(* ===== verification/DaemonProps.thy ===== *)
theory DaemonProps
  imports DaemonFacts AgentStoreProps SessionProps
begin

text \<open>
  The properties of the daemon's cycle: what it enforces and when, when a control command is
  completed, which balance decides, and how much use it accounts.
\<close>

section \<open>Enforcement\<close>

lemma enforce_locks:
  assumes "enforce env ob eff status d = (r, d')"
  shows "\<exists>acts. dm_trace d' = dm_trace d @ acts
    \<and> (\<forall>s. LockSession s \<in> set acts \<longrightarrow> step_status r = Some status \<and> \<not> d_Allowed (su_Decision status)
         \<and> s \<in> set (ob_graphical ob) \<and> is_active s
         \<and> \<not> attempted_recently (ev_now env) (dm_lockAttempts d (BalanceAuthorizationID s)))
    \<and> (\<forall>s. UnlockSession s \<in> set acts \<longrightarrow> step_status r = Some status \<and> d_Allowed (su_Decision status)
         \<and> \<not> su_AwaitingSynchronization status \<and> unlock_requested eff
         \<and> s \<in> set (ob_graphical ob) \<and> is_active s \<and> ob_locked ob (BalanceAuthorizationID s))"
proof -
  consider "su_AwaitingSynchronization status" | "\<not> su_AwaitingSynchronization status" "d_Allowed (su_Decision status)"
    | "\<not> su_AwaitingSynchronization status" "\<not> d_Allowed (su_Decision status)" by blast
  then show ?thesis
  proof cases
    case 1
    with assms have "d' = d" by (simp add: enforce_def run_simps)
    then show ?thesis by (intro exI [of _ "[]"]) simp
  next
    case 2
    let ?m = "if unlock_requested eff then unlock_all env (ob_locked ob) status (ob_graphical ob) else ret ()"
    have un: "(\<exists>us. dm_trace d1 = dm_trace d @ map UnlockSession us \<and> (us \<noteq> [] \<longrightarrow> unlock_requested eff)
          \<and> (\<forall>s\<in>set us. s \<in> set (ob_graphical ob) \<and> is_active s \<and> ob_locked ob (BalanceAuthorizationID s)))
        \<and> (\<forall>e. x = Inl e \<longrightarrow> (\<exists>y. e = FromEnforcement y status))" if "?m d = (x, d1)" for x d1
      using that unlock_all_run [of env "ob_locked ob" status "ob_graphical ob" d x d1]
      by (auto simp: run_simps split: if_splits)
    from assms 2 have "andThen ?m (\<lambda>_. andThen (modify (\<lambda>d. d\<lparr>dm_lockAttempts := (\<lambda>_. None)\<rparr>))
        (\<lambda>_. ret status)) d = (r, d')" by (simp add: enforce_def)
    then show ?thesis
    proof (cases rule: andThen_cases)
      case (failed e)
      from un [OF failed(1)] obtain us y where "dm_trace d' = dm_trace d @ map UnlockSession us"
          "us \<noteq> [] \<longrightarrow> unlock_requested eff" "\<forall>s\<in>set us. s \<in> set (ob_graphical ob) \<and> is_active s
            \<and> ob_locked ob (BalanceAuthorizationID s)" "e = FromEnforcement y status" by blast
      with 2 failed(2) show ?thesis
        by (intro exI [of _ "map UnlockSession us"]) (auto simp: step_status_def)
    next
      case (went_on a d1)
      from un [OF went_on(1)] obtain us where "dm_trace d1 = dm_trace d @ map UnlockSession us"
          "us \<noteq> [] \<longrightarrow> unlock_requested eff" "\<forall>s\<in>set us. s \<in> set (ob_graphical ob) \<and> is_active s
            \<and> ob_locked ob (BalanceAuthorizationID s)" by blast
      with 2 went_on(2) show ?thesis
        by (intro exI [of _ "map UnlockSession us"]) (auto simp: run_simps step_status_def)
    qed
  next
    case 3
    from assms 3 have "andThen (lock_all env status (ob_graphical ob)) (\<lambda>_. ret status) d = (r, d')"
      by (simp add: enforce_def)
    then show ?thesis
    proof (cases rule: andThen_cases)
      case (failed e)
      from lock_all_run [OF failed(1)] obtain ls y where "dm_trace d' = dm_trace d @ map LockSession ls"
          "\<forall>s\<in>set ls. s \<in> set (ob_graphical ob) \<and> is_active s
            \<and> \<not> attempted_recently (ev_now env) (dm_lockAttempts d (BalanceAuthorizationID s))"
          "e = FromEnforcement y status" by auto
      with 3 failed(2) show ?thesis
        by (intro exI [of _ "map LockSession ls"]) (auto simp: step_status_def)
    next
      case (went_on a d1)
      from lock_all_run [OF went_on(1)] obtain ls where "dm_trace d1 = dm_trace d @ map LockSession ls"
          "\<forall>s\<in>set ls. s \<in> set (ob_graphical ob) \<and> is_active s
            \<and> \<not> attempted_recently (ev_now env) (dm_lockAttempts d (BalanceAuthorizationID s))" by blast
      with 3 went_on(2) show ?thesis
        by (intro exI [of _ "map LockSession ls"]) (auto simp: run_simps step_status_def)
    qed
  qed
qed

lemma enforce_all_locked:
  assumes "enforce env ob eff status d = (Inr st, d')" and "\<not> su_AwaitingSynchronization status"
    and "\<not> d_Allowed (su_Decision status)" and "s \<in> set (ob_graphical ob)" and "is_active s"
  shows "attempted_recently (ev_now env) (dm_lockAttempts d' (BalanceAuthorizationID s))"
proof -
  have "andThen (lock_all env status (ob_graphical ob)) (\<lambda>_. ret status) d = (Inr st, d')"
    using assms by (simp add: enforce_def)
  then obtain u where "lock_all env status (ob_graphical ob) d = (Inr u, d')"
    by (auto elim!: andThen_InrE simp: run_simps)
  from lock_all_run [OF this] assms(4,5) show ?thesis by simp
qed

lemma begin_lock_attempts:
  assumes "begin_cycle env d = (Inr (snapshot, online, ob, eff), d1)" and "s \<in> set (ob_graphical ob)"
    and "is_active s"
  shows "dm_lockAttempts d1 (BalanceAuthorizationID s) = dm_lockAttempts d (BalanceAuthorizationID s)"
proof -
  have "BalanceAuthorizationID s \<in> active_keys (ob_graphical ob)"
    using assms(2,3) by (auto simp: active_keys_def)
  moreover have "dm_lockAttempts d1 =
      (\<lambda>key. if key \<in> active_keys (ob_graphical ob) then dm_lockAttempts d key else None)"
    by (rule begin_cycle_run [OF assms(1)]) (erule ssubst, simp)
  ultimately show ?thesis by simp
qed

text \<open>When a cycle may lock a session, and when it may unlock one, in terms of its environment,
  the state it starts from and what it reports.\<close>

definition lock_justified :: "Env \<Rightarrow> Daemon \<Rightarrow> DaemonError + Status \<Rightarrow> Session \<Rightarrow> bool" where
  "lock_justified env d r s \<longleftrightarrow>
     (case step_status r of None \<Rightarrow> False | Some st \<Rightarrow> \<not> d_Allowed (su_Decision st))
     \<and> (case ev_sessions env of Inl _ \<Rightarrow> False | Inr sessions \<Rightarrow> s \<in> set sessions)
     \<and> IsLocalGraphical s \<and> is_active s
     \<and> \<not> attempted_recently (ev_now env) (dm_lockAttempts d (BalanceAuthorizationID s))"

definition unlock_justified :: "Env \<Rightarrow> Daemon \<Rightarrow> DaemonError + Status \<Rightarrow> Session \<Rightarrow> bool" where
  "unlock_justified env d r s \<longleftrightarrow>
     (case step_status r of None \<Rightarrow> False
      | Some st \<Rightarrow> d_Allowed (su_Decision st) \<and> \<not> su_AwaitingSynchronization st)
     \<and> (case ev_remote env of None \<Rightarrow> False | Some rc \<Rightarrow> rc_online rc
          \<and> (case pending_control_effect (st_db (dm_store d)) of None \<Rightarrow> False
             | Some eff \<Rightarrow> ce_Revision eff = rc_revision rc
                 \<and> ce_Kind eff \<in> {''clear_manual_block'', ''pause_monitoring''}))
     \<and> is_active s"

definition acts_justified :: "Env \<Rightarrow> Daemon \<Rightarrow> DaemonError + Status \<Rightarrow> Action list \<Rightarrow> bool" where
  "acts_justified env d r acts \<longleftrightarrow>
     (\<forall>a\<in>set acts. case a of LockSession s \<Rightarrow> lock_justified env d r s
        | UnlockSession s \<Rightarrow> unlock_justified env d r s | SetGraphicalSession _ _ _ \<Rightarrow> True)"

lemma acts_justified_presence: "presence_only acts \<Longrightarrow> acts_justified env d r acts"
  by (auto simp: presence_only_def acts_justified_def split: Action.splits)

lemma enforced_acts:
  assumes b: "begin_cycle env d = (Inr (snapshot, online, ob, eff), d1)"
    and e: "enforce env ob eff status d2 = (r, d')" and same: "dm_lockAttempts d2 = dm_lockAttempts d1"
  shows "\<exists>acts. dm_trace d' = dm_trace d2 @ acts \<and> acts_justified env d r acts"
proof -
  obtain acts where acts: "dm_trace d' = dm_trace d2 @ acts"
      "\<forall>s. LockSession s \<in> set acts \<longrightarrow> step_status r = Some status \<and> \<not> d_Allowed (su_Decision status)
       \<and> s \<in> set (ob_graphical ob) \<and> is_active s
       \<and> \<not> attempted_recently (ev_now env) (dm_lockAttempts d1 (BalanceAuthorizationID s))"
      "\<forall>s. UnlockSession s \<in> set acts \<longrightarrow> step_status r = Some status \<and> d_Allowed (su_Decision status)
       \<and> \<not> su_AwaitingSynchronization status \<and> unlock_requested eff
       \<and> s \<in> set (ob_graphical ob) \<and> is_active s \<and> ob_locked ob (BalanceAuthorizationID s)"
    using enforce_locks [OF e] by (auto simp: same)
  obtain sessions where sess: "ev_sessions env = Inr sessions" "ob_graphical ob = graphicalSessions sessions"
    by (rule begin_cycle_run [OF b])
  obtain stored revision where ep: "effective_policy env stored = (snapshot, online, revision)"
    and pend: "dm_store d1 = dm_store d \<and> (\<forall>e. eff = Some e \<longrightarrow> effect_pending online revision (dm_store d) e)
      \<or> (\<exists>e. eff = None \<and> effect_pending online revision (dm_store d) e
        \<and> effect_confirmed (ce_Kind e) (ob_activeID ob) (ob_activeLocked ob)
        \<and> CompleteControlEffect True (ce_CommandID e) (ev_now env) (dm_store d) = (Inr (), dm_store d1))"
    by (rule begin_cycle_run [OF b])
  have "lock_justified env d r s" if "LockSession s \<in> set acts" for s
    using that acts(2) sess begin_lock_attempts [OF b, of s]
    by (auto simp: lock_justified_def graphicalSessions_def)
  moreover have "unlock_justified env d r s" if "UnlockSession s \<in> set acts" for s
  proof -
    from acts(3) that have u: "step_status r = Some status" "d_Allowed (su_Decision status)"
        "\<not> su_AwaitingSynchronization status" "unlock_requested eff" "is_active s" by blast+
    then obtain x where x: "eff = Some x" "ce_Kind x \<in> {''clear_manual_block'', ''pause_monitoring''}"
      by (auto simp: unlock_requested_def split: option.splits)
    with pend have "effect_pending online revision (dm_store d) x" by auto
    with ep u x(2) show ?thesis
      by (auto simp: unlock_justified_def effective_policy_def effect_pending_def split: option.splits)
  qed
  ultimately show ?thesis
    using acts(1) by (auto simp: acts_justified_def split: Action.split)
qed

lemma step_acts:
  assumes run: "Step loc env d = (r, d')"
  shows "\<exists>acts. dm_trace d' = dm_trace d @ acts \<and> acts_justified env d r acts"
  using run
proof (cases rule: Step_cases)
  case (begin_failed e)
  with begin_cycle_presence [OF begin_failed(1)] acts_justified_presence show ?thesis by blast
next
  case (decide_failed snapshot online ob eff d1 e)
  have "dm_trace d' = dm_trace d1"
    using keepsD [OF keeps_decide_cycle [OF blind_views(2)] decide_failed(2)]
    by (simp add: effects_view_def)
  with begin_cycle_presence [OF decide_failed(1)] acts_justified_presence show ?thesis by auto
next
  case (enforced snapshot online ob eff d1 status d2)
  have d2: "dm_trace d2 = dm_trace d1" "dm_lockAttempts d2 = dm_lockAttempts d1"
    using keepsD [OF keeps_decide_cycle [OF blind_views(2)] enforced(2)]
    by (simp_all add: effects_view_def)
  obtain ps where ps: "dm_trace d1 = dm_trace d @ ps" "presence_only ps"
    using begin_cycle_presence [OF enforced(1)] by blast
  obtain acts where "dm_trace d' = dm_trace d2 @ acts" "acts_justified env d r acts"
    using enforced_acts [OF enforced(1,3)] by (auto simp: advanced_def d2)
  with ps acts_justified_presence [OF ps(2)] d2 show ?thesis
    by (intro exI [of _ "ps @ acts"]) (auto simp: acts_justified_def)
qed

lemma Inr_enforced:
  assumes "Step loc env d = (Inr st, d')"
  obtains snapshot online ob eff d1 d2
  where "begin_cycle env d = (Inr (snapshot, online, ob, eff), d1)"
    and "decide_cycle loc env snapshot online ob d1 = (Inr st, d2)"
    and "enforce env ob eff st (advanced env ob (su_Decision st) d2) = (Inr st, d')"
  using assms
proof (cases rule: Step_cases)
  case (enforced snapshot online ob eff d1 status d2)
  have "st = status"
    using enforced(3) by (auto simp: enforce_def run_simps split: if_splits elim!: andThen_InrE)
  with enforced that show ?thesis by blast
qed simp_all

lemma awaiting_allowed:
  assumes "decide_cycle loc env snapshot online ob d1 = (Inr st, d2)"
    and "su_AwaitingSynchronization st"
  shows "d_Allowed (su_Decision st)"
  by (rule decide_cycle_Inr [OF assms(1)]) (use assms(2) decide_awaiting(2) in fastforce)

lemma step_all_tried:
  assumes "Step loc env d = (Inr st, d')" and "\<not> d_Allowed (su_Decision st)"
    and "ev_sessions env = Inr sessions" and "s \<in> set sessions" and "IsLocalGraphical s" and "is_active s"
  shows "attempted_recently (ev_now env) (dm_lockAttempts d' (BalanceAuthorizationID s))"
proof (rule Inr_enforced [OF assms(1)])
  fix snapshot online ob eff d1 d2
  assume b: "begin_cycle env d = (Inr (snapshot, online, ob, eff), d1)"
    and c: "decide_cycle loc env snapshot online ob d1 = (Inr st, d2)"
    and e: "enforce env ob eff st (advanced env ob (su_Decision st) d2) = (Inr st, d')"
  obtain sessions' where "ev_sessions env = Inr sessions'" "ob_graphical ob = graphicalSessions sessions'"
    by (rule begin_cycle_run [OF b])
  then have "s \<in> set (ob_graphical ob)" using assms by (simp add: graphicalSessions_def)
  moreover have "\<not> su_AwaitingSynchronization st" using awaiting_allowed [OF c] assms(2) by blast
  ultimately show ?thesis using enforce_all_locked [OF e] assms(2,6) by blast
qed

lemma step_enforces_decision_facts:
  assumes "Step loc env d = (r, d')"
  shows "\<exists>acts. dm_trace d' = dm_trace d @ acts \<and> acts_justified env d r acts"
    and "r = Inr st \<Longrightarrow> \<not> d_Allowed (su_Decision st) \<Longrightarrow> ev_sessions env = Inr sessions \<Longrightarrow>
      s \<in> set sessions \<Longrightarrow> IsLocalGraphical s \<Longrightarrow> is_active s \<Longrightarrow>
      attempted_recently (ev_now env) (dm_lockAttempts d' (BalanceAuthorizationID s))"
  using step_acts [OF assms] step_all_tried assms by blast+


section \<open>Samples\<close>

definition sample_store :: "PolicySnapshot \<Rightarrow> Store" where
  "sample_store p = snd (ReplacePolicy True p empty_store)"

definition sample_daemon :: "Store \<Rightarrow> Daemon" where
  "sample_daemon s = (case NewDaemon s ''ana'' (10 * second) of Inl _ \<Rightarrow> undefined | Inr d \<Rightarrow> d)"

definition sample_env :: "time \<Rightarrow> Env" where
  "sample_env now = \<lparr>ev_now = now, ev_remote = None, ev_sessions = Inr [sample_session],
     ev_locked = (\<lambda>_. Inr False), ev_lock = (\<lambda>_. Inr ()), ev_unlock = (\<lambda>_. Inr ()),
     ev_db = (\<lambda>_. True)\<rparr>"

definition blocked_daemon :: Daemon where
  "blocked_daemon = sample_daemon (sample_store ((sample_policy 3)\<lparr>ps_ManualBlock := True\<rparr>))"


section \<open>Control commands\<close>

lemma inspect_locks_reported:
  "inspect_locks is_locked ss l = Inr locked \<Longrightarrow> distinct (map BalanceAuthorizationID (filter is_active ss)) \<Longrightarrow>
   (\<forall>s\<in>set ss. is_active s \<longrightarrow> is_locked s = Inr (locked (BalanceAuthorizationID s)))
   \<and> (\<forall>k. k \<notin> active_keys ss \<longrightarrow> locked k = l k)"
proof (induction ss arbitrary: l)
  case Nil
  then show ?case by simp
next
  case (Cons s ss)
  show ?case
  proof (cases "is_active s")
    case False
    have k: "active_keys (s # ss) = active_keys ss" using False by (simp add: active_keys_def)
    have "inspect_locks is_locked ss l = Inr locked"
        "distinct (map BalanceAuthorizationID (filter is_active ss))"
      using Cons.prems False by simp_all
    from Cons.IH [OF this] False show ?thesis unfolding k list.set(2) by blast
  next
    case True
    with Cons.prems obtain b where b: "is_locked s = Inr b"
        "inspect_locks is_locked ss (l(BalanceAuthorizationID s := b)) = Inr locked"
      by (auto split: sum.splits)
    have "distinct (map BalanceAuthorizationID (filter is_active ss))"
        "BalanceAuthorizationID s \<notin> active_keys ss"
      using Cons.prems(2) True by (auto simp: active_keys_def)
    with Cons.IH [OF b(2)] b(1) True show ?thesis by (simp add: active_keys_def)
  qed
qed

lemma keeps_enforce:
  assumes "\<And>d g. f (d\<lparr>dm_lockAttempts := g\<rparr>) = f d" and "\<And>d t. f (d\<lparr>dm_trace := t\<rparr>) = f d"
  shows "keeps f (enforce env ob eff status)"
proof -
  have m: "keeps f (modify (\<lambda>d. d\<lparr>dm_trace := h d\<rparr>))" "keeps f (modify (\<lambda>d. d\<lparr>dm_lockAttempts := g d\<rparr>))"
    "keeps f (modify (\<lambda>d. d\<lparr>dm_lockAttempts := g d, dm_trace := h d\<rparr>))" for g h
    by (intro keeps_modify; simp add: assms)+
  have "keeps f (unlock_all env locked status ss)" for locked ss
    by (induction ss) (simp_all add: keeps_intros m)
  moreover have "keeps f (lock_all env status ss)" for ss
    by (induction ss) (auto intro!: keeps_intros m)
  ultimately show ?thesis
    unfolding enforce_def by (intro keeps_intros m)
qed

lemma keeps_control_advance: "control_view (advanced env ob decision d) = control_view d"
  by (simp add: control_view_def advanced_def)

lemma CompleteControlEffect_done:
  assumes "CompleteControlEffect True (ce_CommandID e) now s = (Inr (), s')"
    and "pending_control_effect (st_db s) = Some e"
  shows "pending_control_effect (st_db s') = None"
    and "tbl_has ap_id (ce_CommandID e) (applied_command (st_db s'))"
proof -
  have "s' = s\<lparr>st_db := record_applied (ce_CommandID e) now ((st_db s)\<lparr>pending_control_effect := None\<rparr>)\<rparr>"
    using assms by (simp add: CompleteControlEffect_def split: if_splits)
  then show "pending_control_effect (st_db s') = None"
    and "tbl_has ap_id (ce_CommandID e) (applied_command (st_db s'))"
    by (auto simp: record_applied_def tbl_has_iff set_tbl_insert_ignore)
qed

text \<open>After the beginning of a cycle nothing touches the control commands.\<close>

lemma step_control_view:
  assumes "Step loc env d = (r, d')"
  obtains (same) "control_view d' = control_view d"
  | (completed) snapshot online ob eff d1 where "begin_cycle env d = (Inr (snapshot, online, ob, eff), d1)"
      and "control_view d' = control_view d1" and "dm_store d1 \<noteq> dm_store d"
proof -
  have dc: "control_view d2 = control_view d1" if "decide_cycle loc env snapshot online ob d1 = (x, d2)"
    for snapshot online ob d1 x d2
    by (rule keepsD [OF keeps_decide_cycle [OF blind_views(3)] that])
  have en: "control_view d3 = control_view d2" if "enforce env ob eff st d2 = (x, d3)" for ob eff st d2 x d3
    by (rule keepsD [OF keeps_enforce that]) (simp_all add: control_view_def)
  have start: ?thesis if b: "begin_cycle env d = (Inr (snapshot, online, ob, eff), d1)"
      and v: "control_view d' = control_view d1" for snapshot online ob eff d1
  proof (cases "dm_store d1 = dm_store d")
    case True
    then have "control_view d1 = control_view d" by (simp add: control_view_def)
    with v show ?thesis by (intro same) simp
  next
    case False
    with b v show ?thesis by (rule completed)
  qed
  from assms show ?thesis
  proof (cases rule: Step_cases)
    case (begin_failed e)
    have "dm_store d' = dm_store d" by (rule begin_cycle_Inl [OF begin_failed(1)])
    then show ?thesis by (intro same) (simp add: control_view_def)
  next
    case (decide_failed snapshot online ob eff d1 e)
    from start [OF decide_failed(1) dc [OF decide_failed(2)]] show ?thesis .
  next
    case (enforced snapshot online ob eff d1 status d2)
    from en [OF enforced(3)] dc [OF enforced(2)] have "control_view d' = control_view d1"
      by (simp add: keeps_control_advance)
    from start [OF enforced(1) this] show ?thesis .
  qed
qed

definition control_observed :: "Env \<Rightarrow> PendingControlEffect \<Rightarrow> bool" where
  "control_observed env eff \<longleftrightarrow>
     (case ev_remote env of None \<Rightarrow> False | Some rc \<Rightarrow> rc_online rc \<and> rc_revision rc = ce_Revision eff)
     \<and> (case ev_sessions env of Inl _ \<Rightarrow> False
        | Inr sessions \<Rightarrow>
            (let screen = find is_active (graphicalSessions sessions)
             in if ce_Kind eff = ''block_now''
                then (case screen of None \<Rightarrow> False | Some s \<Rightarrow> ev_locked env s = Inr True)
                else if ce_Kind eff = ''resume_monitoring'' then True
                else (case screen of None \<Rightarrow> True
                      | Some s \<Rightarrow> BalanceAuthorizationID s = [] \<or> ev_locked env s = Inr False)))"

text \<open>C4: When the daemon completes a control command. If a cycle, whatever it returns, changes the
  staged control command or the applied commands, then the server was online, the staged
  command is of its current revision and its effect was seen in this cycle: for a block the
  active graphical session reported as locked by logind, for lifting a block or pausing no
  active graphical session or one reported as unlocked, for resuming nothing; the staged
  command is then gone and its id is the one recorded as applied.\<close>

theorem control_completed_only_when_observed:
  assumes run: "Step loc env d = (r, d')" and change: "control_view d' \<noteq> control_view d"
    and keys: "\<forall>sessions. ev_sessions env = Inr sessions \<longrightarrow>
      distinct (map BalanceAuthorizationID (filter is_active (graphicalSessions sessions)))"
  shows "\<exists>eff. pending_control_effect (st_db (dm_store d)) = Some eff \<and> control_observed env eff
    \<and> pending_control_effect (st_db (dm_store d')) = None
    \<and> tbl_has ap_id (ce_CommandID eff) (applied_command (st_db (dm_store d')))"
proof (rule step_control_view [OF run])
  assume "control_view d' = control_view d"
  with change show ?thesis by simp
next
  fix snapshot online ob eff d1
  assume b: "begin_cycle env d = (Inr (snapshot, online, ob, eff), d1)"
    and v: "control_view d' = control_view d1" and ne: "dm_store d1 \<noteq> dm_store d"
  show ?thesis
  proof (rule begin_cycle_run [OF b])
    fix stored revision sessions
    assume ep: "effective_policy env stored = (snapshot, online, revision)"
      and s: "ev_sessions env = Inr sessions" "ob_graphical ob = graphicalSessions sessions"
        "ob_activeID ob = establishedGraphicalSessionID (ob_graphical ob)"
      and il: "inspect_locks (ev_locked env) (ob_graphical ob) (\<lambda>_. False) = Inr (ob_locked ob)"
      and al: "ob_activeLocked ob = (case find is_active (ob_graphical ob) of
               None \<Rightarrow> False | Some s \<Rightarrow> ob_locked ob (BalanceAuthorizationID s))"
      and "dm_store d1 = dm_store d \<and> (\<forall>e. eff = Some e \<longrightarrow> effect_pending online revision (dm_store d) e)
        \<or> (\<exists>e. eff = None \<and> effect_pending online revision (dm_store d) e
           \<and> effect_confirmed (ce_Kind e) (ob_activeID ob) (ob_activeLocked ob)
           \<and> CompleteControlEffect True (ce_CommandID e) (ev_now env) (dm_store d) = (Inr (), dm_store d1))"
    with ne obtain e where e: "effect_pending online revision (dm_store d) e"
        "effect_confirmed (ce_Kind e) (ob_activeID ob) (ob_activeLocked ob)"
        "CompleteControlEffect True (ce_CommandID e) (ev_now env) (dm_store d) = (Inr (), dm_store d1)"
      by blast
    obtain rc where rc: "ev_remote env = Some rc" "rc_online rc" "rc_revision rc = ce_Revision e"
      using ep e(1) by (auto simp: effective_policy_def effect_pending_def split: option.splits)
    have rep: "ev_locked env x = Inr (ob_locked ob (BalanceAuthorizationID x))"
      if "find is_active (graphicalSessions sessions) = Some x" for x
    proof -
      have "x \<in> set (ob_graphical ob)" "is_active x"
        using that s(2) by (auto simp: find_Some_iff)
      moreover have "distinct (map BalanceAuthorizationID (filter is_active (ob_graphical ob)))"
        using keys s by simp
      ultimately show ?thesis using inspect_locks_reported [OF il] by blast
    qed
    have sess: "ob_graphical ob = graphicalSessions sessions" using s(2) .
    have obs: "control_observed env e"
    proof (cases "find is_active (graphicalSessions sessions)")
      case None
      then have ids: "ob_activeID ob = []" "ob_activeLocked ob = False"
        using s(3) al by (simp_all add: establishedGraphicalSessionID_def sess)
      have "control_observed env e \<longleftrightarrow> ce_Kind e \<noteq> ''block_now''"
        by (simp add: control_observed_def rc s(1) None Let_def)
      with e(2) show ?thesis unfolding ids effect_confirmed_def by (simp split: if_splits)
    next
      case (Some x)
      then have ids: "ob_activeID ob = BalanceAuthorizationID x"
          "ob_activeLocked ob = ob_locked ob (BalanceAuthorizationID x)"
        using s(3) al by (simp_all add: establishedGraphicalSessionID_def sess)
      have "control_observed env e \<longleftrightarrow>
          (if ce_Kind e = ''block_now'' then ev_locked env x = Inr True
           else if ce_Kind e = ''resume_monitoring'' then True
           else BalanceAuthorizationID x = [] \<or> ev_locked env x = Inr False)"
        by (simp add: control_observed_def rc s(1) Some Let_def)
      then have "control_observed env e \<longleftrightarrow>
          (if ce_Kind e = ''block_now'' then ob_locked ob (BalanceAuthorizationID x)
           else if ce_Kind e = ''resume_monitoring'' then True
           else BalanceAuthorizationID x = [] \<or> \<not> ob_locked ob (BalanceAuthorizationID x))"
        by (simp add: rep [OF Some])
      with e(2) show ?thesis
        unfolding ids effect_confirmed_def by presburger
    qed
    have fin: "pending_control_effect (st_db (dm_store d1)) = None"
        "tbl_has ap_id (ce_CommandID e) (applied_command (st_db (dm_store d1)))"
      by (rule CompleteControlEffect_done [OF e(3)], use e(1) in \<open>simp add: effect_pending_def\<close>)+
    with v e(1) obs show ?thesis by (auto simp: control_view_def effect_pending_def)
  qed
qed

text \<open>A block staged under revision 4: the cycle that sees the screen locked completes it.\<close>

definition staged_daemon :: Daemon where
  "staged_daemon = sample_daemon (run_store [OpReplacePolicy True (sample_policy 3),
     OpStageControl True ''c2'' 4 ''block_now'' sample_now] empty_store)"

definition online_env :: "bool \<Rightarrow> bool \<Rightarrow> time \<Rightarrow> Env" where
  "online_env blocked locked now = (sample_env now)\<lparr>ev_remote := Some \<lparr>rc_online = True, rc_paused = False,
     rc_blocked = blocked, rc_revision = 4\<rparr>, ev_locked := (\<lambda>_. Inr locked)\<rparr>"

lemma control_completed_only_when_observed_witness:
  "pending_control_effect (st_db (dm_store
     (snd (Step (fixed_zone 0) (online_env True True sample_now) staged_daemon)))) = None"
proof -
  obtain r d' where run: "Step (fixed_zone 0) (online_env True True sample_now) staged_daemon = (r, d')"
    by fastforce
  have "map ap_id (snd (control_view (snd (Step (fixed_zone 0) (online_env True True sample_now) staged_daemon))))
      \<noteq> map ap_id (snd (control_view staged_daemon))" by code_simp
  then have change: "control_view d' \<noteq> control_view staged_daemon" by (auto simp: run)
  have "ev_sessions (online_env True True sample_now) = Inr [sample_session]"
    by (simp add: online_env_def sample_env_def)
  moreover have "distinct (map BalanceAuthorizationID (filter is_active (graphicalSessions [sample_session])))"
    by code_simp
  ultimately have keys: "\<forall>sessions. ev_sessions (online_env True True sample_now) = Inr sessions \<longrightarrow>
      distinct (map BalanceAuthorizationID (filter is_active (graphicalSessions sessions)))" by simp
  from control_completed_only_when_observed [OF run change keys] show ?thesis by (auto simp: run)
qed

end
