(* ===== verification/DaemonAccounting.thy ===== *)
theory DaemonAccounting
  imports DaemonProps
begin

text \<open>
  The decision and the accounting of a cycle that ends well: which balance decides, how much of
  the time since the previous cycle is counted, the split at midnight, and what happens to the
  accounting when a cycle fails.
\<close>

section \<open>The counter through the phases\<close>

lemma on_tracker_Inr:
  assumes "on_tracker h d = (Inr a, d')"
  obtains t t' s where "dm_tracker d = Some t" and "h (t, dm_store d) = (Inr a, t', s)"
    and "d' = d\<lparr>dm_tracker := Some t', dm_store := s\<rparr>"
  using assms by (auto simp: on_tracker_def split: option.splits prod.splits)

lemma keeps_trackerDate_on_tracker [keeps_intros]: "keeps dm_trackerDate (on_tracker h)"
  by (rule keeps_on_tracker) simp

lemma keeps_trackerDate_add [keeps_intros]: "keeps dm_trackerDate (addElapsed io el now)"
  unfolding addElapsed_def by (intro keeps_intros keeps_modify) simp

lemma keeps_trackerDate_reconcile: "keeps dm_trackerDate (reconcile loc env)"
  unfolding reconcile_def by (intro keeps_intros)

lemma keeps_trackerDate_flush: "keeps dm_trackerDate (flush_blocked env decision)"
  unfolding flush_blocked_def by (intro keeps_intros)

lemma tracker_Add_seconds:
  "tracker_Add io el now (t, s) = (Inr (), t', s') \<Longrightarrow>
     ut_seconds t' = wrap64 (ut_seconds t + go_div el second) \<and> 0 \<le> el \<and> ut_localDate t' = ut_localDate t"
  by (auto simp: tracker_Add_def checkpoint_tracker_def Let_def split: if_splits prod.splits sum.splits)

lemma tracker_Flush_seconds:
  "tracker_Flush io now (t, s) = (r, t', s') \<Longrightarrow> ut_seconds t' = ut_seconds t \<and> ut_localDate t' = ut_localDate t"
  by (auto simp: tracker_Flush_def checkpoint_tracker_def split: if_splits prod.splits sum.splits)

lemma tracker_Ensure_seconds:
  "tracker_EnsureAtLeast io n now (t, s) = (r, t', s') \<Longrightarrow> 0 \<le> n \<Longrightarrow> \<not> is_zero now \<Longrightarrow>
     ut_seconds t' = max (ut_seconds t) n"
  by (auto simp: tracker_EnsureAtLeast_def Let_def split: if_splits prod.splits)

text \<open>An addition that does not overflow: the whole seconds go to the counter, the rest stays.\<close>

lemma addElapsed_run:
  assumes run: "addElapsed io el now d = (Inr (), d')" and t: "dm_tracker d \<noteq> None"
    and frac: "0 \<le> dm_fraction d" "dm_fraction d < second" and el: "el < 2 ^ 62"
    and secs: "0 \<le> tracker_seconds d" "tracker_seconds d < 2 ^ 62"
  shows "dm_fraction d' = (dm_fraction d + max 0 el) mod second"
    and "tracker_seconds d' = tracker_seconds d + (dm_fraction d + max 0 el) div second"
    and "dm_tracker d' \<noteq> None"
proof -
  have "dm_fraction d' = (dm_fraction d + max 0 el) mod second
    \<and> tracker_seconds d' = tracker_seconds d + (dm_fraction d + max 0 el) div second \<and> dm_tracker d' \<noteq> None"
  proof (cases "el \<le> 0")
    case True
    with run have "d' = d" by (simp add: addElapsed_def run_simps)
    with True frac t show ?thesis by simp
  next
    case False
    define total where "total = dm_fraction d + el"
    have b: "0 \<le> total" "total < 2 ^ 62 + second" using False frac el by (auto simp: total_def)
    have w: "wrap64 (dm_fraction d + el) = total"
      unfolding total_def [symmetric] using b by (intro wrap64_id) (simp add: in64_def second_def)
    have whole: "total - go_mod total second = total div second * second"
      using b(1) by (simp add: minus_mod_eq_div_mult)
    have nz: "total div second * second = 0 \<longleftrightarrow> total div second = 0"
      by (simp add: second_def)
    have r: "(if total div second = 0 then ret ()
        else on_tracker (tracker_Add io (total div second * second) now)) (d\<lparr>dm_fraction := total mod second\<rparr>)
        = (Inr (), d')"
      using run False
      by (simp only: addElapsed_def if_False andThen_reads w Let_def whole nz andThen_modify
          minus_div_mult_eq_mod)
    show ?thesis
    proof (cases "total div second = 0")
      case True
      with r False t show ?thesis by (auto simp: run_simps tracker_seconds_def total_def)
    next
      case pos: False
      with r obtain t1 t2 s where t1: "dm_tracker d = Some t1"
          and add: "tracker_Add io (total div second * second) now (t1, dm_store d) = (Inr (), t2, s)"
          and d': "d' = d\<lparr>dm_fraction := total mod second, dm_tracker := Some t2, dm_store := s\<rparr>"
        by (auto elim!: on_tracker_Inr)
      have "total div second \<le> total" using b(1) unfolding second_def by linarith
      then have "in64 (ut_seconds t1 + total div second)"
        using secs t1 b pos_imp_zdiv_nonneg_iff [OF second_pos, of total]
        by (auto simp: in64_def tracker_seconds_def second_def)
      moreover have "go_div (total div second * second) second = total div second"
        using b(1) by (subst go_div_nonneg) (simp_all add: pos_imp_zdiv_nonneg_iff second_def)
      ultimately have "ut_seconds t2 = ut_seconds t1 + total div second"
        using tracker_Add_seconds [OF add] by (simp add: wrap64_id)
      with False t1 show ?thesis by (simp add: d' tracker_seconds_def total_def)
    qed
  qed
  then show "dm_fraction d' = (dm_fraction d + max 0 el) mod second"
    and "tracker_seconds d' = tracker_seconds d + (dm_fraction d + max 0 el) div second"
    and "dm_tracker d' \<noteq> None" by blast+
qed

section \<open>The state after the accounting\<close>

lemma prepareTracker_run:
  assumes "prepareTracker env date d = (Inr (), d')"
  shows "dm_trackerDate d' = date" and "dm_trackerDate d \<noteq> date \<Longrightarrow> dm_tracker d' \<noteq> None"
    and "dm_trackerDate d = date \<Longrightarrow> d' = d"
proof -
  have "dm_trackerDate d' = date \<and> dm_tracker d' \<noteq> None" if "dm_trackerDate d \<noteq> date"
    using assms that unfolding prepareTracker_def
    by (auto simp: run_simps elim!: andThen_InrE split: if_splits)
  moreover have "d' = d" if "dm_trackerDate d = date"
    using assms that by (simp add: prepareTracker_def run_simps)
  ultimately show "dm_trackerDate d' = date" and "dm_trackerDate d \<noteq> date \<Longrightarrow> dm_tracker d' \<noteq> None"
    and "dm_trackerDate d = date \<Longrightarrow> d' = d" by blast+
qed

lemma account_date:
  assumes "account loc env snapshot online graphical d = (Inr (), d')"
  shows "dm_trackerDate d' = local_date loc (ev_now env)"
proof (cases "dm_tracker d = None")
  case True
  with assms have "prepareTracker env (local_date loc (ev_now env)) d = (Inr (), d')"
    by (simp add: account_def run_simps Let_def)
  then show ?thesis by (rule prepareTracker_run(1))
next
  case False
  show ?thesis
  proof (cases "dm_trackerDate d = local_date loc (ev_now env)")
    case True
    from keepsD [OF keeps_trackerDate_add] False True assms show ?thesis
      by (auto simp: account_def run_simps Let_def split: if_splits)
  next
    case other: False
    let ?now = "ev_now env" and ?mid = "midnight_of loc (ev_now env)"
    have k: "keeps dm_trackerDate (if c then addElapsed io el t else ret ())" for c io el t
      by (intro keeps_intros)
    from assms False other obtain d1 d2 d3 x nd where
      p: "prepareTracker env (local_date loc ?now) d1 = (Inr (), d2)"
      and e: "daemon_evaluate loc (ev_db env CallBonusMidnight) snapshot ?mid online d2 = (Inr nd, d3)"
      and a: "(if d_ShouldCount nd \<and> graphical \<noteq> [] then addElapsed (ev_db env CallAdd)
          (cappedElapsed ?mid ?now (d_NextBlockAt nd)) ?now else ret ()) d3 = (Inr (), d')"
      by (auto simp: account_def run_simps Let_def elim!: andThen_InrE)
    show ?thesis
      using keepsD [OF k a] keepsD [OF keeps_daemon_evaluate e, of "\<lambda>d. d"] prepareTracker_run(1) [OF p]
      by simp
  qed
qed

section \<open>Which balance decides\<close>

text \<open>What is left of the balance the server confirmed for the date, after the use since then.\<close>

definition server_remaining :: "ConfirmedSessionState option \<Rightarrow> string \<Rightarrow> int \<Rightarrow> int" where
  "server_remaining confirmed date usage =
     (case confirmed of None \<Rightarrow> 0
      | Some c \<Rightarrow> if cs_LocalDate c \<noteq> date then 0
          else max 0 (wrap64 (cs_RemainingSeconds c - max 0 (wrap64 (usage - cs_UsageSeconds c)))))"

definition local_input :: "location \<Rightarrow> PolicySnapshot \<Rightarrow> time \<Rightarrow> int \<Rightarrow> int \<Rightarrow> Input" where
  "local_input loc snapshot now usage bonusSeconds =
     (policy_input loc snapshot now)\<lparr>in_Quota := ps_WeeklyQuota snapshot,
       in_Consumed := seconds_duration usage, in_Bonus := seconds_duration bonusSeconds\<rparr>"

definition server_input :: "location \<Rightarrow> PolicySnapshot \<Rightarrow> time \<Rightarrow> int \<Rightarrow> Input" where
  "server_input loc snapshot now remaining =
     (policy_input loc snapshot now)\<lparr>in_Quota := (\<lambda>_. 0)(weekday_of loc now := seconds_duration remaining)\<rparr>"

lemma daemon_evaluate_run:
  assumes "daemon_evaluate loc io snapshot now auth d = (Inr decision, d')"
  shows "Evaluate loc (if auth
      then server_input loc snapshot now (server_remaining (CurrentConfirmedSessionState (dm_store d))
             (dm_trackerDate d) (tracker_seconds d))
      else local_input loc snapshot now (tracker_seconds d)
             (bonus_total (dm_trackerDate d) (st_db (dm_store d)))) = Inr decision"
  using assms
  by (cases auth) (auto simp: daemon_evaluate_def andThen_def run_simps on_store_def wrap_error_def
      TotalBonusSeconds_def server_input_def local_input_def confirmed_remaining_def server_remaining_def
      split: sum.splits option.splits if_splits)

lemma flush_blocked_seconds:
  assumes "flush_blocked env decision d = (r, d')"
  shows "tracker_seconds d' = tracker_seconds d"
proof -
  have "keeps tracker_seconds (on_tracker (tracker_Flush io now))" for io now
    unfolding keeps_def on_tracker_def tracker_seconds_def
    by (auto split: option.splits prod.splits dest: tracker_Flush_seconds)
  then have "keeps tracker_seconds (flush_blocked env decision)"
    unfolding flush_blocked_def by (intro keeps_intros)
  from keepsD [OF this assms] show ?thesis .
qed

text \<open>Completing a control command touches neither balance nor bonuses.\<close>

lemma begin_balance:
  assumes "begin_cycle env d = (Inr (snapshot, online, ob, eff), d1)"
  shows "balance_view d1 = balance_view d"
proof -
  have same: "st_confirmed s' = st_confirmed s \<and> bonus (st_db s') = bonus (st_db s)"
    if "CompleteControlEffect True i now s = (Inr (), s')" for i now s s'
    using that by (auto simp: CompleteControlEffect_def record_applied_def split: if_splits option.splits)
  show ?thesis
  proof (rule begin_cycle_run [OF assms])
    fix revision :: int
    assume "dm_store d1 = dm_store d \<and> (\<forall>e. eff = Some e \<longrightarrow> effect_pending online revision (dm_store d) e)
      \<or> (\<exists>e. eff = None \<and> effect_pending online revision (dm_store d) e
         \<and> effect_confirmed (ce_Kind e) (ob_activeID ob) (ob_activeLocked ob)
         \<and> CompleteControlEffect True (ce_CommandID e) (ev_now env) (dm_store d) = (Inr (), dm_store d1))"
    then have "st_confirmed (dm_store d1) = st_confirmed (dm_store d)
        \<and> bonus (st_db (dm_store d1)) = bonus (st_db (dm_store d))"
      using same by metis
    then show ?thesis by (simp add: balance_view_def CurrentConfirmedSessionState_def)
  qed
qed

text \<open>The store seen at the end of the cycle.\<close>

lemma end_views:
  assumes "enforce env ob eff st (advanced env ob decision d2) = (r, d')"
  shows "balance_view d' = balance_view d2" and "usage_view d' = usage_view d2"
    and "tracker_seconds d' = tracker_seconds d2"
  using keepsD [OF keeps_enforce assms, of balance_view] keepsD [OF keeps_enforce assms, of usage_view]
  by (simp_all add: balance_view_def usage_view_def advanced_def CurrentConfirmedSessionState_def
      tracker_seconds_def)

text \<open>The parts of a cycle that ends well, with what each contributes.\<close>

lemma step_parts:
  assumes "Step loc env d = (Inr st, d')"
  obtains stored snapshot online revision ob eff d1 da dr
  where "CurrentPolicy (dm_store d) = Inr stored"
    and "effective_policy env stored = (snapshot, online, revision)"
    and "begin_cycle env d = (Inr (snapshot, online, ob, eff), d1)"
    and "account loc env snapshot online (ob_graphical ob) d1 = (Inr (), da)"
    and "reconcile loc env da = (Inr (), dr)"
    and "decide loc env snapshot online (ob_activeID ob) dr =
      (Inr (su_AwaitingSynchronization st, su_Decision st), dr)"
    and "su_UsageSeconds st = tracker_seconds dr" and "tracker_seconds d' = tracker_seconds dr"
    and "balance_view d' = balance_view d" and "balance_view dr = balance_view d"
    and "dm_trackerDate dr = local_date loc (ev_now env)"
    and "dm_fraction d' = dm_fraction dr" and "dm_trackerDate d' = dm_trackerDate dr"
proof (rule Inr_enforced [OF assms])
  fix snapshot online ob eff d1 d2
  assume b: "begin_cycle env d = (Inr (snapshot, online, ob, eff), d1)"
    and c: "decide_cycle loc env snapshot online ob d1 = (Inr st, d2)"
    and e: "enforce env ob eff st (advanced env ob (su_Decision st) d2) = (Inr st, d')"
  obtain stored revision where p: "CurrentPolicy (dm_store d) = Inr stored"
      "effective_policy env stored = (snapshot, online, revision)" by (rule begin_cycle_run [OF b])
  show thesis
  proof (rule decide_cycle_Inr [OF c])
    fix da dr df alerts awaiting decision
    assume a: "account loc env snapshot online (ob_graphical ob) d1 = (Inr (), da)"
      and r: "reconcile loc env da = (Inr (), dr)"
      and dec: "decide loc env snapshot online (ob_activeID ob) dr = (Inr (awaiting, decision), dr)"
      and f: "flush_blocked env decision dr = (Inr (), df)"
      and al: "due_alerts loc env snapshot ob awaiting decision df = (Inr alerts, d2)"
      and st: "st = \<lparr>su_Decision = decision, su_GraphicalSession = ob_graphical ob \<noteq> [],
         su_AwaitingSynchronization = awaiting, su_UsageSeconds = tracker_seconds df, su_DueAlerts = alerts\<rparr>"
    have d2: "d2 = df\<lparr>dm_alertTracker := dm_alertTracker d2\<rparr>"
      using al by (auto simp: due_alerts_def split: prod.splits)
    have us: "tracker_seconds df = tracker_seconds dr" by (rule flush_blocked_seconds [OF f])
    have t2: "tracker_seconds d2 = tracker_seconds df" "dm_fraction d2 = dm_fraction df"
        "dm_trackerDate d2 = dm_trackerDate df"
      by (subst d2, simp add: tracker_seconds_def)+
    have fr: "dm_fraction df = dm_fraction dr" "dm_trackerDate df = dm_trackerDate dr"
      using f by (auto simp: flush_blocked_def run_simps split: if_splits elim!: on_tracker_Inr)
    have bal: "balance_view dr = balance_view d" "balance_view d2 = balance_view d"
      using keepsD [OF keeps_account [OF blind_views(4)] a] keepsD [OF keeps_reconcile [OF blind_views(4)] r]
        keepsD [OF keeps_decide_cycle [OF blind_views(4)] c] begin_balance [OF b] by simp_all
    have date: "dm_trackerDate dr = local_date loc (ev_now env)"
      using account_date [OF a] keepsD [OF keeps_trackerDate_reconcile r] by simp
    note ev = end_views [OF e]
    show thesis
      by (rule that [OF p b a r]) (use dec us t2 fr bal date ev st in \<open>simp_all add: usage_view_def\<close>)
  qed
qed

text \<open>The decision of a cycle in the terms of its own steps.\<close>

lemma step_decides_parts:
  assumes "Step loc env d = (Inr st, d')"
  shows "\<exists>stored snapshot online revision sessions.
    CurrentPolicy (dm_store d) = Inr stored
    \<and> effective_policy env stored = (snapshot, online, revision)
    \<and> ev_sessions env = Inr sessions
    \<and> su_AwaitingSynchronization st = awaiting_synchronization (local_date loc (ev_now env)) online
        snapshot (establishedGraphicalSessionID (graphicalSessions sessions)) (st_confirmed (dm_store d))
    \<and> (if su_AwaitingSynchronization st
       then su_Decision st = zero_decision\<lparr>d_Allowed := True, d_Reason := ReasonAwaitingSynchronization\<rparr>
       else Evaluate loc (if online
          then server_input loc snapshot (ev_now env)
                 (server_remaining (st_confirmed (dm_store d)) (local_date loc (ev_now env)) (su_UsageSeconds st))
          else local_input loc snapshot (ev_now env) (su_UsageSeconds st)
                 (bonus_total (local_date loc (ev_now env)) (st_db (dm_store d)))) = Inr (su_Decision st))"
proof (rule step_parts [OF assms])
  fix stored snapshot online revision ob eff d1 da dr
  assume p: "CurrentPolicy (dm_store d) = Inr stored" "effective_policy env stored = (snapshot, online, revision)"
    and b: "begin_cycle env d = (Inr (snapshot, online, ob, eff), d1)"
    and dec: "decide loc env snapshot online (ob_activeID ob) dr =
      (Inr (su_AwaitingSynchronization st, su_Decision st), dr)"
    and us: "su_UsageSeconds st = tracker_seconds dr" and bal: "balance_view dr = balance_view d"
    and date: "dm_trackerDate dr = local_date loc (ev_now env)"
  obtain sessions where s: "ev_sessions env = Inr sessions"
      "ob_activeID ob = establishedGraphicalSessionID (graphicalSessions sessions)"
    by (rule begin_cycle_run [OF b]) simp
  have v: "CurrentConfirmedSessionState (dm_store dr) = st_confirmed (dm_store d)"
      "bonus (st_db (dm_store dr)) = bonus (st_db (dm_store d))"
    using bal by (simp_all add: balance_view_def CurrentConfirmedSessionState_def)
  have bt: "bonus_total date (st_db (dm_store dr)) = bonus_total date (st_db (dm_store d))" for date
    using v(2) by (simp add: bonus_total_def)
  note aw = decide_awaiting [OF dec]
  have "if su_AwaitingSynchronization st
       then su_Decision st = zero_decision\<lparr>d_Allowed := True, d_Reason := ReasonAwaitingSynchronization\<rparr>
       else Evaluate loc (if online
          then server_input loc snapshot (ev_now env)
                 (server_remaining (st_confirmed (dm_store d)) (local_date loc (ev_now env)) (su_UsageSeconds st))
          else local_input loc snapshot (ev_now env) (su_UsageSeconds st)
                 (bonus_total (local_date loc (ev_now env)) (st_db (dm_store d)))) = Inr (su_Decision st)"
    using aw(2) daemon_evaluate_run [OF aw(3)] unfolding v(1) date us bt by simp
  with p s aw(1) v(1) show ?thesis by (intro exI) auto
qed

text \<open>The same without the daemon's own helpers: the routines in force, the session in use and
  the input of the policy engine, read off the stored policy and what the cycle observed.\<close>

definition enabled_routines :: "PolicySnapshot \<Rightarrow> Routine list" where
  "enabled_routines stored = [\<lparr>r_Name = sr_Name r, r_Days = sr_Days r, r_Start = sr_Start r,
     r_End = sr_End r\<rparr>. r \<leftarrow> ps_Routines stored, sr_Enabled r]"

definition session_in_use :: "Session list \<Rightarrow> string" where
  "session_in_use sessions =
     (case find (\<lambda>s. IsLocalGraphical s \<and> ss_State s = ''active'') sessions of
        None \<Rightarrow> [] | Some s \<Rightarrow> BalanceAuthorizationID s)"

definition decision_input ::
    "location \<Rightarrow> PolicySnapshot \<Rightarrow> time \<Rightarrow> bool \<Rightarrow> bool \<Rightarrow> (weekday \<Rightarrow> duration) \<Rightarrow> int \<Rightarrow> int \<Rightarrow> Input" where
  "decision_input loc stored now paused blocked quota usage extra =
     \<lparr>in_Now = now, in_Monitoring = (if paused then MonitoringPaused else MonitoringActive),
      in_ManualBlock = blocked, in_Quota = quota, in_Consumed = seconds_duration usage,
      in_Bonus = seconds_duration extra, in_Routines = enabled_routines stored\<rparr>"

lemma find_filter: "find P (filter Q xs) = find (\<lambda>x. Q x \<and> P x) xs"
  by (induction xs) auto

lemma session_in_use_eq:
  "establishedGraphicalSessionID (graphicalSessions sessions) = session_in_use sessions"
  by (simp add: establishedGraphicalSessionID_def graphicalSessions_def session_in_use_def
      find_filter is_active_def)

lemma policy_routines_eq: "policy_routines (ps_Routines stored) = enabled_routines stored"
proof -
  have "concat (map (\<lambda>r. if Q r then [f r] else []) rs) = map f (filter Q rs)"
    for Q :: "StoredRoutine \<Rightarrow> bool" and f :: "StoredRoutine \<Rightarrow> Routine" and rs
    by (induction rs) auto
  then show ?thesis by (simp add: policy_routines_def enabled_routines_def)
qed

lemma effective_policy_cases:
  assumes "effective_policy env stored = (snapshot, online, revision)"
  shows "online = (\<exists>rc. ev_remote env = Some rc \<and> rc_online rc)"
    and "ps_MonitoringPaused snapshot = (case ev_remote env of None \<Rightarrow> ps_MonitoringPaused stored
           | Some rc \<Rightarrow> rc_online rc \<and> rc_paused rc)"
    and "ps_ManualBlock snapshot = (case ev_remote env of None \<Rightarrow> ps_ManualBlock stored
           | Some rc \<Rightarrow> rc_online rc \<and> rc_blocked rc)"
    and "ps_Routines snapshot = ps_Routines stored" and "ps_WeeklyQuota snapshot = ps_WeeklyQuota stored"
    and "ps_Revision snapshot = ps_Revision stored"
  using assms by (auto simp: effective_policy_def split: option.splits if_splits)



section \<open>The use of a day\<close>

text \<open>The time since the previous cycle that the cycle counts.\<close>

definition counted_elapsed :: "Env \<Rightarrow> Daemon \<Rightarrow> duration" where
  "counted_elapsed env d =
     (if \<not> is_zero (dm_lastAt d) \<and> dm_lastShouldCount d \<and> dm_lastHadSession d
      then cappedElapsed (dm_lastAt d) (ev_now env) (dm_lastCountUntil d) else 0)"

definition confirmed_usage :: "Daemon \<Rightarrow> string \<Rightarrow> int" where
  "confirmed_usage d date =
     (case st_confirmed (dm_store d) of None \<Rightarrow> 0
      | Some c \<Rightarrow> if cs_LocalDate c = date then cs_UsageSeconds c else 0)"

definition counters_sane :: "Env \<Rightarrow> Daemon \<Rightarrow> bool" where
  "counters_sane env d \<longleftrightarrow> 0 \<le> dm_fraction d \<and> dm_fraction d < second
     \<and> 0 \<le> tracker_seconds d \<and> tracker_seconds d < 2 ^ 62
     \<and> (is_zero (dm_lastAt d) \<or> ev_now env - dm_lastAt d < 2 ^ 62)"

lemma cappedElapsed_bounds:
  "0 \<le> cappedElapsed start end1 until" "start \<le> end1 \<Longrightarrow> cappedElapsed start end1 until \<le> end1 - start"
proof -
  show "0 \<le> cappedElapsed start end1 until"
    by (simp add: cappedElapsed_def Let_def time_sub_nonneg)
  have le: "u \<le> end1 \<Longrightarrow> start < u \<Longrightarrow> time_sub u start \<le> end1 - start" for u
    using time_sub_le [of start u] by simp
  assume "start \<le> end1"
  with le show "cappedElapsed start end1 until \<le> end1 - start"
    by (simp add: cappedElapsed_def Let_def)
qed

lemma counted_elapsed_bounds:
  assumes "is_zero (dm_lastAt d) \<or> dm_lastAt d \<le> ev_now env" and "counters_sane env d"
  shows "0 \<le> counted_elapsed env d" and "counted_elapsed env d < 2 ^ 62"
    and "counted_elapsed env d \<le> max 0 (ev_now env - dm_lastAt d)"
  using assms cappedElapsed_bounds(1) [of "dm_lastAt d" "ev_now env" "dm_lastCountUntil d"]
    cappedElapsed_bounds(2) [of "dm_lastAt d" "ev_now env" "dm_lastCountUntil d"]
  by (auto simp: counted_elapsed_def counters_sane_def)

lemma reconcile_run:
  assumes "reconcile loc env d = (Inr (), d')" and "dm_tracker d \<noteq> None"
    and "\<not> is_zero (ev_now env)"
  shows "tracker_seconds d' = max (tracker_seconds d) (confirmed_usage d (local_date loc (ev_now env)))
      \<or> tracker_seconds d < 0"
    and "dm_fraction d' = dm_fraction d"
proof -
  obtain t where t: "dm_tracker d = Some t" using assms(2) by blast
  have "(tracker_seconds d' = max (tracker_seconds d) (confirmed_usage d (local_date loc (ev_now env)))
      \<or> tracker_seconds d < 0) \<and> dm_fraction d' = dm_fraction d"
  proof (cases "\<exists>c. st_confirmed (dm_store d) = Some c \<and> cs_LocalDate c = local_date loc (ev_now env)
      \<and> tracker_seconds d < cs_UsageSeconds c")
    case True
    then obtain c where c: "st_confirmed (dm_store d) = Some c" "cs_LocalDate c = local_date loc (ev_now env)"
        "tracker_seconds d < cs_UsageSeconds c" by blast
    with assms(1) have "on_tracker (tracker_EnsureAtLeast (ev_db env CallEnsure) (cs_UsageSeconds c) (ev_now env)) d
        = (Inr (), d')" by (simp add: reconcile_def run_simps CurrentConfirmedSessionState_def)
    then obtain t' s where e: "tracker_EnsureAtLeast (ev_db env CallEnsure) (cs_UsageSeconds c) (ev_now env)
        (t, dm_store d) = (Inr (), t', s)" "d' = d\<lparr>dm_tracker := Some t', dm_store := s\<rparr>"
      using t by (auto elim!: on_tracker_Inr)
    then have "0 \<le> cs_UsageSeconds c" by (auto simp: tracker_EnsureAtLeast_def split: if_splits)
    with tracker_Ensure_seconds [OF e(1)] assms(3) e(2) c t show ?thesis
      by (simp add: tracker_seconds_def confirmed_usage_def)
  next
    case False
    with assms(1) have "d' = d"
      by (auto simp: reconcile_def run_simps CurrentConfirmedSessionState_def split: option.splits if_splits)
    with False show ?thesis by (auto simp: confirmed_usage_def split: option.split)
  qed
  then show "tracker_seconds d' = max (tracker_seconds d) (confirmed_usage d (local_date loc (ev_now env)))
      \<or> tracker_seconds d < 0" and "dm_fraction d' = dm_fraction d" by blast+
qed

end
