(* ===== verification/Json.thy ===== *)
theory Json
  imports Calendar
begin

text \<open>
  What the program uses of Go's \<open>encoding/json\<close> and of the parsing half of \<open>RFC3339Nano\<close>: a
  reader of JSON texts (\<open>json.Valid\<close> and the reading half of \<open>json.Unmarshal\<close>), a printer
  (\<open>json.Marshal\<close> of the values the program prints), and the rules by which \<open>Unmarshal\<close> fills
  the fields of a struct. Strings are byte strings; a byte above 127 stands for itself. The
  reader runs on fuel; \<open>parse_json\<close> gives it twice the length of the text, and every two calls
  consume a character. The printer's texts are read back as they were.
\<close>

section \<open>Values\<close>

text \<open>A number keeps its literal, as the decoder does until it meets the type of the field.\<close>

datatype json =
    JNull | JBool bool | JNumber string | JString string
  | JArray "json list" | JObject "(string \<times> json) list"

section \<open>Lexical elements\<close>

definition json_space :: "char \<Rightarrow> bool" where
  "json_space c \<longleftrightarrow> c = CHR 0x20 \<or> c = CHR 0x09 \<or> c = CHR 0x0A \<or> c = CHR 0x0D"

definition skip_space :: "string \<Rightarrow> string" where
  "skip_space s = dropWhile json_space s"

definition hex_value :: "char \<Rightarrow> int option" where
  "hex_value c =
     (let n = int (of_char c) in
      if is_digit c then Some (n - 48)
      else if 97 \<le> n \<and> n \<le> 102 then Some (n - 87)
      else if 65 \<le> n \<and> n \<le> 70 then Some (n - 55) else None)"

fun hex4 :: "string \<Rightarrow> (int \<times> string) option" where
  "hex4 (a # b # c # d # r) =
     (case (hex_value a, hex_value b, hex_value c, hex_value d) of
        (Some w, Some x, Some y, Some z) \<Rightarrow> Some (((w * 16 + x) * 16 + y) * 16 + z, r)
      | _ \<Rightarrow> None)"
| "hex4 _ = None"

definition byte :: "int \<Rightarrow> char" where
  "byte n = char_of (nat n)"

definition utf8 :: "int \<Rightarrow> string" where
  "utf8 n =
     (if n < 0x80 then [byte n]
      else if n < 0x800 then [byte (0xC0 + n div 64), byte (0x80 + n mod 64)]
      else if n < 0x10000
        then [byte (0xE0 + n div 4096), byte (0x80 + n div 64 mod 64), byte (0x80 + n mod 64)]
      else [byte (0xF0 + n div 262144), byte (0x80 + n div 4096 mod 64),
            byte (0x80 + n div 64 mod 64), byte (0x80 + n mod 64)])"

definition replacement :: string where "replacement = utf8 0xFFFD"

definition surrogate :: "int \<Rightarrow> bool" where "surrogate n \<longleftrightarrow> 0xD800 \<le> n \<and> n < 0xE000"

text \<open>The low half of a surrogate pair, if one follows.\<close>

definition low_half :: "string \<Rightarrow> (int \<times> string) option" where
  "low_half s =
     (case s of a # b # r \<Rightarrow>
        if a = CHR 0x5C \<and> b = CHR ''u''
        then (case hex4 r of None \<Rightarrow> None
              | Some (n, r') \<Rightarrow> if 0xDC00 \<le> n \<and> n < 0xE000 then Some (n, r') else None)
        else None
      | _ \<Rightarrow> None)"

text \<open>What follows a backslash: the bytes it denotes and the rest.\<close>

definition unescape :: "string \<Rightarrow> (string \<times> string) option" where
  "unescape s =
     (case s of [] \<Rightarrow> None
      | c # r \<Rightarrow>
          if c = CHR 0x22 \<or> c = CHR 0x5C \<or> c = CHR ''/'' then Some ([c], r)
          else if c = CHR ''b'' then Some ([CHR 0x08], r)
          else if c = CHR ''f'' then Some ([CHR 0x0C], r)
          else if c = CHR ''n'' then Some ([CHR 0x0A], r)
          else if c = CHR ''r'' then Some ([CHR 0x0D], r)
          else if c = CHR ''t'' then Some ([CHR 0x09], r)
          else if c = CHR ''u''
            then (case hex4 r of None \<Rightarrow> None
                  | Some (n, r') \<Rightarrow>
                      if \<not> surrogate n then Some (utf8 n, r')
                      else (case low_half r' of
                              None \<Rightarrow> Some (replacement, r')
                            | Some (m, r'') \<Rightarrow>
                                if 0xDC00 \<le> n then Some (replacement, r')
                                else Some (utf8 (0x10000 + (n - 0xD800) * 1024 + (m - 0xDC00)), r'')))
          else None)"

lemma hex4_shorter: "hex4 s = Some (n, r) \<Longrightarrow> length r < length s"
  by (cases s rule: hex4.cases) (auto split: option.splits prod.splits)

lemma low_half_shorter: "low_half s = Some (n, r) \<Longrightarrow> length r < length s"
  by (auto simp: low_half_def split: list.splits option.splits prod.splits if_splits
      dest!: hex4_shorter)

lemma unescape_shorter: "unescape s = Some (b, r) \<Longrightarrow> length r < length s"
  by (auto simp: unescape_def split: list.splits option.splits prod.splits if_splits
      dest!: hex4_shorter low_half_shorter)

text \<open>A string literal after its opening quote.\<close>

function string_lit :: "string \<Rightarrow> (string \<times> string) option" where
  "string_lit [] = None"
| "string_lit (c # r) =
     (if c = CHR 0x22 then Some ([], r)
      else if c = CHR 0x5C
        then (case unescape r of None \<Rightarrow> None
              | Some (b, r') \<Rightarrow> map_option (\<lambda>(t, r''). (b @ t, r'')) (string_lit r'))
      else if (of_char c :: nat) < 32 then None
      else map_option (\<lambda>(t, r'). (c # t, r')) (string_lit r))"
  by pat_completeness auto
termination
  by (relation "measure length") (auto dest: unescape_shorter)

text \<open>A number: sign, integer part, fraction, exponent.\<close>

definition take_digits :: "string \<Rightarrow> string \<times> string" where
  "take_digits s = (takeWhile is_digit s, dropWhile is_digit s)"

definition lex_int :: "string \<Rightarrow> (string \<times> string) option" where
  "lex_int s =
     (case s of [] \<Rightarrow> None
      | c # r \<Rightarrow>
          if c = CHR ''0'' then Some ([c], r)
          else if is_digit c then Some (take_digits s)
          else None)"

definition lex_fraction :: "string \<Rightarrow> (string \<times> string) option" where
  "lex_fraction s =
     (case s of c # r \<Rightarrow>
        if c = CHR ''.''
        then (case take_digits r of (f, r') \<Rightarrow> if f = [] then None else Some (c # f, r'))
        else Some ([], s)
      | [] \<Rightarrow> Some ([], []))"

definition lex_exponent :: "string \<Rightarrow> (string \<times> string) option" where
  "lex_exponent s =
     (case s of c # r \<Rightarrow>
        if c = CHR ''e'' \<or> c = CHR ''E''
        then (let sg = takeWhile (\<lambda>d. d = CHR ''+'' \<or> d = CHR ''-'') (take 1 r)
              in case take_digits (drop (length sg) r) of
                   (f, r') \<Rightarrow> if f = [] then None else Some (c # sg @ f, r'))
        else Some ([], s)
      | [] \<Rightarrow> Some ([], []))"

definition number_lit :: "string \<Rightarrow> (string \<times> string) option" where
  "number_lit s =
     (let neg = takeWhile (\<lambda>c. c = CHR ''-'') (take 1 s)
      in case lex_int (drop (length neg) s) of None \<Rightarrow> None
         | Some (i, r1) \<Rightarrow>
             (case lex_fraction r1 of None \<Rightarrow> None
              | Some (f, r2) \<Rightarrow>
                  (case lex_exponent r2 of None \<Rightarrow> None
                   | Some (e, r3) \<Rightarrow> Some (neg @ i @ f @ e, r3))))"

section \<open>The reader\<close>

fun keyword_lit :: "string \<Rightarrow> string \<Rightarrow> string option" where
  "keyword_lit [] s = Some s"
| "keyword_lit (k # ks) [] = None"
| "keyword_lit (k # ks) (c # s) = (if k = c then keyword_lit ks s else None)"

fun read_value :: "nat \<Rightarrow> string \<Rightarrow> (json \<times> string) option"
  and read_elements :: "nat \<Rightarrow> string \<Rightarrow> (json list \<times> string) option"
  and read_members :: "nat \<Rightarrow> string \<Rightarrow> ((string \<times> json) list \<times> string) option" where
  "read_value 0 s = None"
| "read_value (Suc n) s =
     (case skip_space s of [] \<Rightarrow> None
      | c # r \<Rightarrow>
          if c = CHR 0x22 then map_option (\<lambda>(t, r'). (JString t, r')) (string_lit r)
          else if c = CHR ''{''
            then (case skip_space r of [] \<Rightarrow> None
                  | d # r' \<Rightarrow> if d = CHR ''}'' then Some (JObject [], r')
                      else map_option (\<lambda>(ms, r''). (JObject ms, r'')) (read_members n r))
          else if c = CHR ''[''
            then (case skip_space r of [] \<Rightarrow> None
                  | d # r' \<Rightarrow> if d = CHR '']'' then Some (JArray [], r')
                      else map_option (\<lambda>(vs, r''). (JArray vs, r'')) (read_elements n r))
          else if c = CHR ''t'' then map_option (Pair (JBool True)) (keyword_lit ''rue'' r)
          else if c = CHR ''f'' then map_option (Pair (JBool False)) (keyword_lit ''alse'' r)
          else if c = CHR ''n'' then map_option (Pair JNull) (keyword_lit ''ull'' r)
          else map_option (\<lambda>(t, r'). (JNumber t, r')) (number_lit (c # r)))"
| "read_elements 0 s = None"
| "read_elements (Suc n) s =
     (case read_value n s of None \<Rightarrow> None
      | Some (v, r) \<Rightarrow>
          (case skip_space r of [] \<Rightarrow> None
           | c # r' \<Rightarrow>
               if c = CHR '']'' then Some ([v], r')
               else if c = CHR '','' then map_option (\<lambda>(vs, r''). (v # vs, r'')) (read_elements n r')
               else None))"
| "read_members 0 s = None"
| "read_members (Suc n) s =
     (case skip_space s of [] \<Rightarrow> None
      | q # r \<Rightarrow>
          if q \<noteq> CHR 0x22 then None
          else (case string_lit r of None \<Rightarrow> None
                | Some (k, r1) \<Rightarrow>
                    (case skip_space r1 of [] \<Rightarrow> None
                     | c # r2 \<Rightarrow>
                         if c \<noteq> CHR '':'' then None
                         else (case read_value n r2 of None \<Rightarrow> None
                               | Some (v, r3) \<Rightarrow>
                                   (case skip_space r3 of [] \<Rightarrow> None
                                    | d # r4 \<Rightarrow>
                                        if d = CHR ''}'' then Some ([(k, v)], r4)
                                        else if d = CHR '',''
                                          then map_option (\<lambda>(ms, r5). ((k, v) # ms, r5)) (read_members n r4)
                                        else None)))))"

text \<open>One value and nothing after it.\<close>

definition parse_json :: "string \<Rightarrow> json option" where
  "parse_json s =
     (case read_value (2 * length s + 2) s of None \<Rightarrow> None
      | Some (v, r) \<Rightarrow> if skip_space r = [] then Some v else None)"

definition json_valid :: "string \<Rightarrow> bool" where
  "json_valid s \<longleftrightarrow> parse_json s \<noteq> None"

section \<open>The printer\<close>

definition quote :: "string \<Rightarrow> string" where
  "quote s = CHR 0x22 # s @ [CHR 0x22]"

text \<open>Decimal literals.\<close>

fun show_nat :: "nat \<Rightarrow> string" where
  "show_nat n = (if n < 10 then [digit (int n)] else show_nat (n div 10) @ [digit (int n)])"

declare show_nat.simps [simp del]

definition show_int :: "int \<Rightarrow> string" where
  "show_int n = (if n < 0 then CHR ''-'' # show_nat (nat (- n)) else show_nat (nat n))"

fun encode_json :: "json \<Rightarrow> string"
  and encode_elements :: "json list \<Rightarrow> string"
  and encode_members :: "(string \<times> json) list \<Rightarrow> string" where
  "encode_json JNull = ''null''"
| "encode_json (JBool b) = (if b then ''true'' else ''false'')"
| "encode_json (JNumber t) = t"
| "encode_json (JString s) = quote s"
| "encode_json (JArray vs) = CHR ''['' # encode_elements vs @ '']''"
| "encode_json (JObject ms) = CHR ''{'' # encode_members ms @ ''}''"
| "encode_elements [] = []"
| "encode_elements (v # vs) = encode_json v @ (if vs = [] then [] else CHR '','' # encode_elements vs)"
| "encode_members [] = []"
| "encode_members ((k, v) # ms) =
     quote k @ CHR '':'' # encode_json v @ (if ms = [] then [] else CHR '','' # encode_members ms)"

text \<open>The texts \<open>Marshal\<close> writes without escapes, and integer literals.\<close>

definition plain_char :: "char \<Rightarrow> bool" where
  "plain_char c \<longleftrightarrow> 32 \<le> (of_char c :: nat) \<and> (of_char c :: nat) < 128 \<and> c \<noteq> CHR 0x22 \<and> c \<noteq> CHR 0x5C
     \<and> c \<noteq> CHR ''<'' \<and> c \<noteq> CHR ''>'' \<and> c \<noteq> CHR ''&''"

abbreviation plain_text :: "string \<Rightarrow> bool" where "plain_text s \<equiv> list_all plain_char s"

definition plain_natural :: "string \<Rightarrow> bool" where
  "plain_natural t \<longleftrightarrow> t \<noteq> [] \<and> list_all is_digit t \<and> (hd t = CHR ''0'' \<longrightarrow> tl t = [])"

definition plain_number :: "string \<Rightarrow> bool" where
  "plain_number t \<longleftrightarrow> (if take 1 t = ''-'' then plain_natural (tl t) else plain_natural t)"

fun plain_json :: "json \<Rightarrow> bool"
  and plain_elements :: "json list \<Rightarrow> bool"
  and plain_members :: "(string \<times> json) list \<Rightarrow> bool" where
  "plain_json JNull = True"
| "plain_json (JBool b) = True"
| "plain_json (JNumber t) = plain_number t"
| "plain_json (JString s) = plain_text s"
| "plain_json (JArray vs) = plain_elements vs"
| "plain_json (JObject ms) = plain_members ms"
| "plain_elements [] = True"
| "plain_elements (v # vs) = (plain_json v \<and> plain_elements vs)"
| "plain_members [] = True"
| "plain_members ((k, v) # ms) = (plain_text k \<and> plain_json v \<and> plain_members ms)"

section \<open>Reading back what was printed\<close>

lemma string_lit_plain: "plain_text s \<Longrightarrow> string_lit (s @ CHR 0x22 # r) = Some (s, r)"
  by (induction s) (auto simp: plain_char_def)

lemma space_not_plain: "json_space c \<Longrightarrow> (of_char c :: nat) \<le> 32"
  by (auto simp: json_space_def)

lemma digit_not_space: "is_digit c \<Longrightarrow> \<not> json_space c"
  using space_not_plain [of c] by (auto simp: is_digit_def)

lemma digit_not_special:
  "is_digit c \<Longrightarrow> c \<notin> {CHR 0x22, CHR 0x5C, CHR ''{'', CHR ''['', CHR ''t'', CHR ''f'', CHR ''n'',
     CHR ''.'', CHR ''e'', CHR ''E'', CHR ''-'', CHR '']'', CHR ''}''}"
  by (auto simp: is_digit_def)

text \<open>A character that may follow a printed number.\<close>

definition ends_number :: "string \<Rightarrow> bool" where
  "ends_number r \<longleftrightarrow> (case r of [] \<Rightarrow> True
     | c # _ \<Rightarrow> \<not> is_digit c \<and> c \<noteq> CHR ''.'' \<and> c \<noteq> CHR ''e'' \<and> c \<noteq> CHR ''E'')"

lemma takeWhile_stop: "list_all P t \<Longrightarrow> (r = [] \<or> \<not> P (hd r)) \<Longrightarrow>
    takeWhile P (t @ r) = t \<and> dropWhile P (t @ r) = r"
  by (induction t) (cases r; auto)+

lemma lex_int_plain: "plain_natural t \<Longrightarrow> ends_number r \<Longrightarrow> lex_int (t @ r) = Some (t, r)"
proof -
  assume t: "plain_natural t" and r: "ends_number r"
  then obtain c u where cu: "t = c # u" by (cases t) (simp_all add: plain_natural_def)
  have stop: "r = [] \<or> \<not> is_digit (hd r)"
    using r by (cases r) (simp_all add: ends_number_def)
  show ?thesis
  proof (cases "c = CHR ''0''")
    case True
    with t cu show ?thesis by (simp add: plain_natural_def lex_int_def)
  next
    case False
    with t cu takeWhile_stop [of is_digit t r] stop show ?thesis
      by (simp add: plain_natural_def lex_int_def take_digits_def)
  qed
qed

lemma number_lit_plain:
  assumes t: "plain_number t" and r: "ends_number r"
  shows "number_lit (t @ r) = Some (t, r)"
proof -
  have tail: "lex_fraction r = Some ([], r)" "lex_exponent r = Some ([], r)"
    using r by (auto simp: ends_number_def lex_fraction_def lex_exponent_def split: list.splits)
  show ?thesis
  proof (cases "take 1 t = ''-''")
    case True
    then obtain u where u: "t = CHR ''-'' # u" by (cases t) auto
    with t have "plain_natural u" by (simp add: plain_number_def)
    from lex_int_plain [OF this r] tail show ?thesis by (simp add: u number_lit_def)
  next
    case False
    with t have nat: "plain_natural t" by (simp add: plain_number_def)
    then obtain c u where cu: "t = c # u" and c: "is_digit c"
      by (cases t) (simp_all add: plain_natural_def)
    from digit_not_special [OF c] have "c \<noteq> CHR ''-''" by simp
    with lex_int_plain [OF nat r] tail cu show ?thesis by (simp add: number_lit_def)
  qed
qed

lemma skip_space_id: "\<not> json_space c \<Longrightarrow> skip_space (c # r) = c # r"
  by (simp add: skip_space_def)

lemma number_head:
  assumes "plain_number t"
  obtains c u where "t = c # u" "\<not> json_space c"
    "c \<notin> {CHR 0x22, CHR ''{'', CHR ''['', CHR ''t'', CHR ''f'', CHR ''n''}"
    "c \<notin> {CHR '']'', CHR ''}''}"
proof -
  obtain c u where t: "t = c # u"
    using assms by (cases t) (auto simp: plain_number_def plain_natural_def)
  have "c = CHR ''-'' \<or> is_digit c"
  proof (cases "c = CHR ''-''")
    case False
    with assms show ?thesis by (simp add: t plain_number_def plain_natural_def)
  qed simp
  then show ?thesis
  proof
    assume "c = CHR ''-''"
    with that [OF t] show ?thesis by (simp add: json_space_def)
  next
    assume c: "is_digit c"
    show ?thesis
      using that [OF t digit_not_space [OF c]] digit_not_special [OF c] by simp
  qed
qed

lemma keyword_lit_self: "keyword_lit k (k @ r) = Some r"
  by (induction k) auto

text \<open>The first character of a printed value.\<close>

lemma encode_head:
  assumes "plain_json v"
  obtains c u where "encode_json v = c # u" "\<not> json_space c" "c \<notin> {CHR '']'', CHR ''}''}"
proof (cases v)
  case (JNumber t)
  with assms have "plain_number t" by simp
  with that JNumber show ?thesis by (auto elim: number_head)
next
  case (JBool b)
  show ?thesis using that by (cases b) (simp_all add: JBool json_space_def)
qed (use that in \<open>auto simp: quote_def json_space_def\<close>)

fun fuel_of :: "json \<Rightarrow> nat"
  and fuel_elements :: "json list \<Rightarrow> nat"
  and fuel_members :: "(string \<times> json) list \<Rightarrow> nat" where
  "fuel_of (JArray vs) = Suc (fuel_elements vs)"
| "fuel_of (JObject ms) = Suc (fuel_members ms)"
| "fuel_of v = 1"
| "fuel_elements [] = 0"
| "fuel_elements (v # vs) = Suc (max (fuel_of v) (fuel_elements vs))"
| "fuel_members [] = 0"
| "fuel_members ((k, v) # ms) = Suc (max (fuel_of v) (fuel_members ms))"

lemma read_encoded:
  "plain_json v \<Longrightarrow> fuel_of v \<le> n \<Longrightarrow> ends_number r \<Longrightarrow>
     read_value n (encode_json v @ r) = Some (v, r)"
  "plain_elements vs \<Longrightarrow> vs \<noteq> [] \<Longrightarrow> fuel_elements vs \<le> n \<Longrightarrow>
     read_elements n (encode_elements vs @ CHR '']'' # r) = Some (vs, r)"
  "plain_members ms \<Longrightarrow> ms \<noteq> [] \<Longrightarrow> fuel_members ms \<le> n \<Longrightarrow>
     read_members n (encode_members ms @ CHR ''}'' # r) = Some (ms, r)"
proof (induction v and vs and ms arbitrary: n r and n r and n r
    rule: encode_json_encode_elements_encode_members.induct)
  case 1
  then obtain m where "n = Suc m" by (cases n) auto
  then show ?case by (simp add: skip_space_def json_space_def)
next
  case (2 b)
  then obtain m where "n = Suc m" by (cases n) auto
  then show ?case by (simp add: skip_space_def json_space_def)
next
  case (3 t)
  then obtain m where m: "n = Suc m" by (cases n) auto
  from "3.prems" have t: "plain_number t" by simp
  from number_head [OF t] obtain c u where h: "t = c # u" "\<not> json_space c"
    "c \<notin> {CHR 0x22, CHR ''{'', CHR ''['', CHR ''t'', CHR ''f'', CHR ''n''}" by metis
  from number_lit_plain [OF t "3.prems"(3)] h show ?case
    by (simp add: m skip_space_id)
next
  case (4 s)
  then obtain m where "n = Suc m" by (cases n) auto
  with 4 show ?case
    by (simp add: quote_def skip_space_def json_space_def string_lit_plain)
next
  case (5 vs)
  then obtain m where m: "n = Suc m" "fuel_elements vs \<le> m" by (cases n) auto
  show ?case
  proof (cases vs)
    case Nil
    then show ?thesis by (simp add: m skip_space_def json_space_def)
  next
    case (Cons w ws)
    with "5.prems" have "plain_json w" by simp
    then obtain c u where h: "encode_json w = c # u" "\<not> json_space c" "c \<notin> {CHR '']'', CHR ''}''}"
      by (rule encode_head)
    from "5.IH" [of m r] "5.prems" m Cons
    have "read_elements m (encode_elements vs @ CHR '']'' # r) = Some (vs, r)" by simp
    with h Cons show ?thesis
      by (simp add: m skip_space_def json_space_def [of "CHR ''[''"])
  qed
next
  case (6 ms)
  then obtain m where m: "n = Suc m" "fuel_members ms \<le> m" by (cases n) auto
  show ?case
  proof (cases ms)
    case Nil
    then show ?thesis by (simp add: m skip_space_def json_space_def)
  next
    case (Cons kv ws)
    obtain k w where kv: "kv = (k, w)" by (cases kv)
    from "6.IH" [of m r] "6.prems" m Cons
    have "read_members m (encode_members ms @ CHR ''}'' # r) = Some (ms, r)" by simp
    with Cons kv show ?thesis
      by (simp add: m skip_space_def json_space_def quote_def)
  qed
next
  case 7
  then show ?case by simp
next
  case (8 v vs)
  then obtain m where m: "n = Suc m" "fuel_of v \<le> m" "fuel_elements vs \<le> m" by (cases n) auto
  show ?case
  proof (cases vs)
    case Nil
    with 8 m show ?thesis
      by (simp add: ends_number_def is_digit_def skip_space_def json_space_def)
  next
    case (Cons w ws)
    have "ends_number (CHR '','' # encode_elements vs @ CHR '']'' # r)"
      by (simp add: ends_number_def is_digit_def)
    with 8 m Cons show ?thesis
      by (simp add: skip_space_def json_space_def)
  qed
next
  case 9
  then show ?case by simp
next
  case (10 k v ms)
  then obtain m where m: "n = Suc m" "fuel_of v \<le> m" "fuel_members ms \<le> m" by (cases n) auto
  have space: "\<not> json_space (CHR 0x22)" "\<not> json_space (CHR '':'')" "\<not> json_space (CHR '','')"
    "\<not> json_space (CHR ''}'')" by (simp_all add: json_space_def)
  show ?case
  proof (cases ms)
    case Nil
    with 10 m space show ?thesis
      by (simp add: ends_number_def is_digit_def skip_space_def quote_def string_lit_plain)
  next
    case (Cons w ws)
    have "ends_number (CHR '','' # encode_members ms @ CHR ''}'' # r)"
      by (simp add: ends_number_def is_digit_def)
    with 10 m space Cons show ?thesis
      by (simp add: skip_space_def quote_def string_lit_plain)
  qed
qed

lemma fuel_bound:
  "plain_json v \<Longrightarrow> fuel_of v \<le> 2 * length (encode_json v)"
  "plain_elements vs \<Longrightarrow> fuel_elements vs \<le> 2 * length (encode_elements vs) + 1"
  "plain_members ms \<Longrightarrow> fuel_members ms \<le> 2 * length (encode_members ms)"
proof (induction v and vs and ms rule: encode_json_encode_elements_encode_members.induct)
  case (3 t)
  then have "plain_number t" by simp
  then obtain c u where "t = c # u" by (rule number_head)
  then show ?case by simp
next
  case (8 v vs)
  then show ?case
  proof (cases vs)
    case (Cons w ws)
    with 8 show ?thesis by auto
  qed auto
next
  case (10 k v ms)
  then show ?case by (cases ms) (auto simp: quote_def)
qed (auto simp: quote_def)

lemma parse_encoded: "plain_json v \<Longrightarrow> parse_json (encode_json v) = Some v"
proof -
  assume v: "plain_json v"
  have "fuel_of v \<le> 2 * length (encode_json v) + 2" using fuel_bound(1) [OF v] by simp
  from read_encoded(1) [OF v this, of "[]"]
  show ?thesis by (simp add: parse_json_def ends_number_def skip_space_def)
qed

section \<open>Filling a struct\<close>

text \<open>An \<open>int64\<close> field takes an integer literal in range, a \<open>string\<close> field a string; \<open>null\<close>
  leaves every field as it is.\<close>

definition digits_value :: "string \<Rightarrow> int" where
  "digits_value t = foldl (\<lambda>a c. a * 10 + digit_value c) 0 t"

definition natural_literal :: "string \<Rightarrow> int option" where
  "natural_literal t = (if t \<noteq> [] \<and> list_all is_digit t then Some (digits_value t) else None)"

definition integer_literal :: "string \<Rightarrow> int option" where
  "integer_literal t =
     (if take 1 t = ''-'' then map_option uminus (natural_literal (tl t)) else natural_literal t)"

definition json_int64 :: "json \<Rightarrow> int option" where
  "json_int64 v = (case v of JNumber t \<Rightarrow>
       (case integer_literal t of None \<Rightarrow> None | Some n \<Rightarrow> if in64 n then Some n else None)
     | _ \<Rightarrow> None)"

definition json_string :: "json \<Rightarrow> string option" where
  "json_string v = (case v of JString s \<Rightarrow> Some s | _ \<Rightarrow> None)"

text \<open>Keys match field names up to the case of ASCII letters.\<close>

definition fold_case :: "char \<Rightarrow> char" where
  "fold_case c = (let n = (of_char c :: nat) in if 65 \<le> n \<and> n \<le> 90 then char_of (n + 32) else c)"

definition same_key :: "string \<Rightarrow> string \<Rightarrow> bool" where
  "same_key k name \<longleftrightarrow> map fold_case k = map fold_case name"

text \<open>The value of a field after all members were read; a later member overwrites an earlier one.\<close>

fun json_field :: "(json \<Rightarrow> 'a option) \<Rightarrow> 'a \<Rightarrow> string \<Rightarrow> (string \<times> json) list \<Rightarrow> 'a option" where
  "json_field dec a name [] = Some a"
| "json_field dec a name ((k, v) # ms) =
     (if \<not> same_key k name \<or> v = JNull then json_field dec a name ms
      else case dec v of None \<Rightarrow> None | Some b \<Rightarrow> json_field dec b name ms)"

text \<open>The members a struct is filled from; \<open>null\<close> fills nothing.\<close>

definition json_members :: "json \<Rightarrow> (string \<times> json) list option" where
  "json_members v = (case v of JObject ms \<Rightarrow> Some ms | JNull \<Rightarrow> Some [] | _ \<Rightarrow> None)"

definition known_fields :: "string list \<Rightarrow> (string \<times> json) list \<Rightarrow> bool" where
  "known_fields names ms \<longleftrightarrow> list_all (\<lambda>(k, v). list_ex (same_key k) names) ms"

lemma digits_value_append: "digits_value (s @ [c]) = digits_value s * 10 + digit_value c"
  by (simp add: digits_value_def)

lemma show_nat_props:
  "list_all is_digit (show_nat n) \<and> digits_value (show_nat n) = int n \<and> show_nat n \<noteq> []
     \<and> (0 < n \<longrightarrow> hd (show_nat n) \<noteq> CHR ''0'')"
proof (induction n rule: show_nat.induct)
  case (1 n)
  show ?case
  proof (cases "n < 10")
    case True
    have "digit (int n) \<noteq> CHR ''0''" if "0 < n"
    proof
      assume "digit (int n) = CHR ''0''"
      then have "digit_value (digit (int n)) = digit_value (CHR ''0'')" by simp
      then have "int n mod 10 = digit_value (CHR ''0'')" by (simp only: digit_value_digit)
      then have "int n mod 10 = 0" by (simp add: digit_value_def)
      with True that show False by simp
    qed
    with True show ?thesis
      by (simp add: show_nat.simps [of n] digits_value_def)
  next
    case False
    then have "0 < n div 10" by linarith
    with False 1 show ?thesis
      by (simp add: show_nat.simps [of n] digits_value_append zdiv_int zmod_int)
  qed
qed

lemma show_nat_plain: "plain_natural (show_nat n)"
proof -
  have "n = 0 \<Longrightarrow> tl (show_nat n) = []" by (simp add: show_nat.simps [of 0])
  with show_nat_props [of n] show ?thesis
    by (cases "n = 0") (auto simp: plain_natural_def)
qed

lemma show_nat_no_sign: "take 1 (show_nat n) \<noteq> ''-''"
proof -
  obtain c u where "show_nat n = c # u" using show_nat_props [of n] by (cases "show_nat n") auto
  moreover from this have "is_digit c" using show_nat_props [of n] by simp
  ultimately show ?thesis using digit_not_special [of c] by auto
qed

lemma show_int_plain [simp]: "plain_number (show_int n)"
  using show_nat_plain show_nat_no_sign [of "nat n"] by (simp add: plain_number_def show_int_def)

lemma integer_literal_show [simp]: "integer_literal (show_int n) = Some n"
  using show_nat_props [of "nat n"] show_nat_props [of "nat (- n)"] show_nat_no_sign [of "nat n"]
  by (simp add: integer_literal_def show_int_def natural_literal_def)

lemma json_int64_show: "in64 n \<Longrightarrow> json_int64 (JNumber (show_int n)) = Some n"
  by (simp add: json_int64_def)

text \<open>A printed date has no character that needs an escape.\<close>

lemma digit_plain: "is_digit c \<Longrightarrow> plain_char c"
proof -
  assume c: "is_digit c"
  then have range: "48 \<le> (of_char c :: nat)" "(of_char c :: nat) \<le> 57" by (simp_all add: is_digit_def)
  then have "c \<noteq> CHR ''<''" "c \<noteq> CHR ''>''" "c \<noteq> CHR ''&''" by auto
  with range digit_not_special [OF c] show ?thesis by (simp add: plain_char_def)
qed

lemma format_date_plain [simp]: "plain_text (format_date n)"
proof -
  obtain y m d where "civil_of_day n = (y, m, d)" by (metis prod_cases3)
  then show ?thesis
    by (simp add: format_date_def digits4_def digits2_def digit_plain) (simp add: plain_char_def)
qed

section \<open>Timestamps\<close>

text \<open>The clock part \<open>T15:04:05\<close> of a timestamp, in seconds, and the rest.\<close>

fun parse_clock :: "string \<Rightarrow> (int \<times> string) option" where
  "parse_clock (t # a # b # p # c # d # q # e # f # r) =
     (if t = CHR ''T'' \<and> p = CHR '':'' \<and> q = CHR '':'' \<and> list_all is_digit [a, b, c, d, e, f]
      then (let h = digit_value a * 10 + digit_value b; m = digit_value c * 10 + digit_value d;
                s = digit_value e * 10 + digit_value f
            in if h < 24 \<and> m < 60 \<and> s < 60 then Some (h * 3600 + m * 60 + s, r) else None)
      else None)"
| "parse_clock _ = None"

text \<open>Nine digits of a fraction are nanoseconds; further ones are dropped.\<close>

definition parse_fraction :: "string \<Rightarrow> (int \<times> string) option" where
  "parse_fraction s =
     (case s of c # r \<Rightarrow>
        if c = CHR ''.''
        then (case take_digits r of (f, r') \<Rightarrow> if f = [] then None
                else Some (digits_value (take 9 (f @ replicate 9 (CHR ''0''))), r'))
        else Some (0, s)
      | [] \<Rightarrow> Some (0, []))"

fun parse_offset :: "string \<Rightarrow> int option" where
  "parse_offset [z] = (if z = CHR ''Z'' then Some 0 else None)"
| "parse_offset [sg, a, b, p, c, d] =
     (if (sg = CHR ''+'' \<or> sg = CHR ''-'') \<and> p = CHR '':'' \<and> list_all is_digit [a, b, c, d]
      then (let h = digit_value a * 10 + digit_value b; m = digit_value c * 10 + digit_value d
            in if h < 24 \<and> m < 60
               then Some ((if sg = CHR ''-'' then -1 else 1) * (h * 3600 + m * 60)) else None)
      else None)"
| "parse_offset _ = None"

definition parse_time :: "string \<Rightarrow> time option" where
  "parse_time s =
     (case (parse_date (take 10 s), parse_clock (drop 10 s)) of
        (Some n, Some (secs, r)) \<Rightarrow>
          (case parse_fraction r of None \<Rightarrow> None
           | Some (ns, r') \<Rightarrow> map_option (\<lambda>off. n * day + (secs - off) * second + ns) (parse_offset r'))
      | _ \<Rightarrow> None)"

definition json_time :: "json \<Rightarrow> time option" where
  "json_time v = (case v of JString s \<Rightarrow> parse_time s | _ \<Rightarrow> None)"

text \<open>A stored timestamp is read back to the nanosecond.\<close>

lemma parse_clock_digits:
  assumes "0 \<le> h" "h < 24" "0 \<le> m" "m < 60" "0 \<le> s" "s < 60"
  shows "parse_clock (''T'' @ digits2 h @ '':'' @ digits2 m @ '':'' @ digits2 s @ r)
    = Some (h * 3600 + m * 60 + s, r)"
proof -
  have "h < 100" "m < 100" "s < 100" using assms by simp_all
  with assms show ?thesis
    by (simp add: digits2_def two_digits)
qed

lemma fraction_back:
  assumes "list_all is_digit f" "length f \<le> 9"
  shows "parse_fraction (CHR ''.'' # f @ ''Z'') =
    (if f = [] then None else Some (digits_value (take 9 (f @ replicate 9 (CHR ''0''))), ''Z''))"
proof -
  have "\<not> is_digit (CHR ''Z'')" by (simp add: is_digit_def)
  with takeWhile_stop [of is_digit f "''Z''"] assms
  show ?thesis by (simp add: parse_fraction_def take_digits_def)
qed

definition low_digits :: "nat \<Rightarrow> int \<Rightarrow> string" where
  "low_digits k n = map (\<lambda>i. digit (n div 10 ^ (k - 1 - i))) [0..<k]"

lemma low_digits_Suc: "low_digits (Suc k) n = low_digits k (n div 10) @ [digit n]"
proof -
  have "n div 10 ^ (k - i) = n div 10 div 10 ^ (k - 1 - i)" if "i < k" for i
  proof -
    have "(10::int) ^ (k - i) = 10 * 10 ^ (k - 1 - i)"
      using that by (cases "k - i") simp_all
    then show ?thesis by (simp add: zdiv_zmult2_eq)
  qed
  then show ?thesis by (simp add: low_digits_def)
qed

lemma low_digits_props:
  "list_all is_digit (low_digits k n) \<and> length (low_digits k n) = k
     \<and> digits_value (low_digits k n) = n mod 10 ^ k"
proof (induction k arbitrary: n)
  case 0
  show ?case by (simp add: low_digits_def digits_value_def)
next
  case (Suc k)
  have "n mod 10 ^ Suc k = n div 10 mod 10 ^ k * 10 + n mod 10"
    using zmod_zmult2_eq [of "10 ^ k" n 10] by simp
  with Suc [of "n div 10"] show ?case
    by (simp add: low_digits_Suc digits_value_append)
qed

lemma strip_zeros:
  "f = rev (dropWhile (\<lambda>c. c = z) (rev ds)) \<Longrightarrow> f @ replicate (length ds - length f) z = ds"
proof (induction ds arbitrary: f rule: rev_induct)
  case (snoc d ds)
  show ?case
  proof (cases "d = z")
    case True
    with snoc.prems have f: "f = rev (dropWhile (\<lambda>c. c = z) (rev ds))" by simp
    then have "length f \<le> length ds" using length_dropWhile_le [of _ "rev ds"] by simp
    with snoc.IH [OF f] True show ?thesis
      by (simp add: Suc_diff_le replicate_append_same flip: append_assoc)
        (metis append_assoc replicate_append_same)
  next
    case False
    with snoc.prems show ?thesis by simp
  qed
qed simp

lemma fraction_text_back:
  assumes "0 \<le> ns" "ns < second"
  shows "parse_fraction (fraction_text ns @ ''Z'') = Some (ns, ''Z'')"
proof -
  let ?ds = "low_digits 9 ns"
  define f where "f = rev (dropWhile (\<lambda>c. c = CHR ''0'') (rev ?ds))"
  have ds: "fraction_digits ns = ?ds"
    by (simp add: fraction_digits_def low_digits_def)
  have props: "list_all is_digit ?ds" "length ?ds = 9" "digits_value ?ds = ns"
    using low_digits_props [of 9 ns] assms by (simp_all add: second_def)
  have same: "f @ replicate (9 - length f) (CHR ''0'') = ?ds"
    using strip_zeros [OF f_def] props(2) by simp
  have len: "length f \<le> 9"
    using arg_cong [OF same, of length] props(2) by simp
  have "list_all is_digit (f @ replicate (9 - length f) (CHR ''0''))"
    using props(1) unfolding same .
  then have digits: "list_all is_digit f" by simp
  have "take 9 (f @ replicate 9 (CHR ''0'')) = ?ds"
    using same len by (simp add: take_replicate min_def)
  moreover have "parse_fraction ''Z'' = Some (0, ''Z'')"
    by (simp add: parse_fraction_def)
  moreover have "ns = 0" if "f = []"
  proof -
    have "digits_value (replicate 9 (CHR ''0'')) = 0"
      by (simp add: digits_value_def digit_value_def numeral_eq_Suc)
    with that same props(3) show ?thesis by simp
  qed
  ultimately show ?thesis
    using fraction_back [OF digits len] props(3)
    by (simp add: fraction_text_def ds Let_def flip: f_def)
qed

lemma length_format_date: "length (format_date n) = 10"
  by (cases "civil_of_day n") (simp add: format_date_def digits4_def digits2_def)

lemma parse_format_time:
  assumes "printable_day (t div day)"
  shows "parse_time (format_time t) = Some t"
proof -
  let ?s = "t div second"
  have frac: "parse_fraction (fraction_text (t mod second) @ ''Z'') = Some (t mod second, ''Z'')"
    by (rule fraction_text_back) simp_all
  have clock: "parse_clock (''T'' @ digits2 (?s div 3600 mod 24) @ '':'' @ digits2 (?s div 60 mod 60)
      @ '':'' @ digits2 (?s mod 60) @ fraction_text (t mod second) @ ''Z'')
    = Some (?s div 3600 mod 24 * 3600 + ?s div 60 mod 60 * 60 + ?s mod 60, fraction_text (t mod second) @ ''Z'')"
    by (rule parse_clock_digits) simp_all
  have "t div day = ?s div 86400"
  proof -
    have "day = second * 86400" by (simp add: duration_defs)
    then show ?thesis using zdiv_zmult2_eq [of 86400 t second] by simp
  qed
  moreover have "u div 86400 * 86400 + (u div 3600 mod 24 * 3600 + u div 60 mod 60 * 60 + u mod 60) = u"
    for u :: int
  proof -
    have join: "c * 24 + h = b \<Longrightarrow> b * 60 + m = a \<Longrightarrow> a * 60 + k = u \<Longrightarrow>
        c * 86400 + (h * 3600 + m * 60 + k) = u" for a b c h m k :: int
      by linarith
    have "u div 3600 = u div 60 div 60" "u div 86400 = u div 60 div 60 div 24"
      by (simp_all add: zdiv_zmult2_eq [symmetric])
    then show ?thesis
      by (simp only:) (rule join [of _ _ "u div 60 div 60" _ "u div 60"]; rule div_mult_mod_eq)
  qed
  ultimately have same: "t div day * 86400
      + (?s div 3600 mod 24 * 3600 + ?s div 60 mod 60 * 60 + ?s mod 60) = ?s" by simp
  have "q * day + k * second = (q * 86400 + k) * second" for q k :: int
    by (simp add: duration_defs algebra_simps)
  from this [of "t div day" "?s div 3600 mod 24 * 3600 + ?s div 60 mod 60 * 60 + ?s mod 60"]
  have "t div day * day + (?s div 3600 mod 24 * 3600 + ?s div 60 mod 60 * 60 + ?s mod 60) * second
      = ?s * second" unfolding same .
  then have sum: "t div day * day + (?s div 3600 mod 24 * 3600 + ?s div 60 mod 60 * 60 + ?s mod 60) * second
      + t mod second = t"
    by simp
  show ?thesis
    unfolding parse_time_def format_time_def Let_def
    using length_format_date [of "t div day"]
    by (simp add: parse_format_date [OF assms] clock [simplified] frac sum)
qed

end
