(* ===== verification/Protocol.thy ===== *)
theory Protocol
  imports Json
begin

text \<open>
  The heartbeat contract shared by agent and server (\<open>protocol/v1/sync.go\<close>): the messages, one
  record each, and the two JSON payloads that travel inside them as raw text, with the texts
  both sides print and the way each side reads them.
\<close>

section \<open>Messages\<close>

record wire_event =
  we_UUID :: string
  we_Kind :: string
  we_Payload :: string
  we_CreatedAt :: time

record HeartbeatRequest =
  hr_PolicyRevision :: int
  hr_ControlRevision :: int
  hr_SessionStateRevision :: int
  hr_LocalDate :: string
  hr_SecondsUsed :: int
  hr_GraphicalSessionActive :: bool
  hr_GraphicalSessionID :: string
  hr_GraphicalSessionLocked :: bool
  hr_RequestSessionState :: bool
  hr_Events :: "wire_event list"
  hr_CommandAcks :: "string list"

record Control =
  co_Revision :: int
  co_MonitoringPaused :: bool
  co_ManualBlock :: bool

record SessionState =
  ws_Revision :: int
  ws_SessionID :: string
  ws_LocalDate :: string
  ws_RemainingSeconds :: int
  ws_UsageSeconds :: int
  ws_ConfirmedAt :: time

record wire_routine =
  wr_ID :: string
  wr_Name :: string
  wr_Days :: "weekday \<Rightarrow> bool"
  wr_StartSecond :: int
  wr_EndSecond :: int
  wr_Enabled :: bool

record wire_policy =
  wp_Revision :: int
  wp_MonitoringPaused :: bool
  wp_ManualBlock :: bool
  wp_WarningMinutes :: int
  wp_LocalPasswordVerifier :: string
  wp_WeeklyQuotaSeconds :: "weekday \<Rightarrow> int"
  wp_Routines :: "wire_routine list"
  wp_UpdatedAt :: time

record Command =
  wc_ID :: string
  wc_Kind :: string
  wc_Payload :: string
  wc_CreatedAt :: time

record HeartbeatResponse =
  hs_ServerTime :: time
  hs_NextHeartbeatSeconds :: int
  hs_AcknowledgedEvents :: "string list"
  hs_AcknowledgedCommands :: "string list"
  hs_Policy :: "wire_policy option"
  hs_SessionState :: "SessionState option"
  hs_Commands :: "Command list"
  hs_Control :: Control

record ErrorResponse =
  er_Error :: string
  er_Code :: string
  er_ClientRevision :: int
  er_ServerRevision :: int

definition zero_control :: Control where
  "zero_control = \<lparr>co_Revision = 0, co_MonitoringPaused = False, co_ManualBlock = False\<rparr>"

section \<open>Payloads\<close>

record BonusPayload =
  bp_UUID :: string
  bp_LocalDate :: string
  bp_Seconds :: int
  bp_Origin :: string
  bp_CreatedAt :: time

record CreditIncrementPayload =
  ci_UUID :: string
  ci_Seconds :: int
  ci_Origin :: string
  ci_CreatedAt :: time

text \<open>\<open>Unmarshal\<close> into a \<open>CreditIncrementPayload\<close>; unknown members are ignored.\<close>

definition read_credit :: "string \<Rightarrow> CreditIncrementPayload option" where
  "read_credit text =
     (case Option.bind (parse_json text) json_members of None \<Rightarrow> None
      | Some ms \<Rightarrow>
          (case (json_field json_string [] ''uuid'' ms, json_field json_int64 0 ''seconds'' ms,
                 json_field json_string [] ''origin'' ms, json_field json_time zero_time ''created_at'' ms) of
             (Some u, Some n, Some src, Some t) \<Rightarrow>
               Some \<lparr>ci_UUID = u, ci_Seconds = n, ci_Origin = src, ci_CreatedAt = t\<rparr>
           | _ \<Rightarrow> None))"

text \<open>\<open>Decode\<close> into a \<open>BonusPayload\<close> with unknown members disallowed.\<close>

definition read_bonus :: "string \<Rightarrow> BonusPayload option" where
  "read_bonus text =
     (case Option.bind (parse_json text) json_members of None \<Rightarrow> None
      | Some ms \<Rightarrow>
          if \<not> known_fields [''uuid'', ''local_date'', ''seconds'', ''origin'', ''created_at''] ms then None
          else
          (case (json_field json_string [] ''uuid'' ms, json_field json_string [] ''local_date'' ms,
                 json_field json_int64 0 ''seconds'' ms, json_field json_string [] ''origin'' ms,
                 json_field json_time zero_time ''created_at'' ms) of
             (Some u, Some d, Some n, Some src, Some t) \<Rightarrow>
               Some \<lparr>bp_UUID = u, bp_LocalDate = d, bp_Seconds = n, bp_Origin = src, bp_CreatedAt = t\<rparr>
           | _ \<Rightarrow> None))"

text \<open>The text of a local bonus event: printed by the agent's authorization service and, after
  validation, by the server into its audit.\<close>

definition bonus_text :: "string \<Rightarrow> int \<Rightarrow> string" where
  "bonus_text localDate seconds = encode_json (JObject
     [(''local_date'', JString localDate), (''seconds'', JNumber (show_int seconds)),
      (''origin'', JString ''local'')])"

text \<open>The text of a queued remote bonus, printed by the server.\<close>

definition credit_text :: "string \<Rightarrow> int \<Rightarrow> time \<Rightarrow> string" where
  "credit_text uuid seconds createdAt = encode_json (JObject
     ((if uuid = [] then [] else [(''uuid'', JString uuid)])
      @ [(''seconds'', JNumber (show_int seconds)), (''origin'', JString ''web''),
         (''created_at'', JString (format_time createdAt))]))"

section \<open>What is printed is read back\<close>

lemma fraction_text_plain: "plain_text (fraction_text ns)"
proof -
  let ?f = "rev (dropWhile (\<lambda>c. c = CHR ''0'') (rev (fraction_digits ns)))"
  have "list_all plain_char (fraction_digits ns)"
    by (simp add: fraction_digits_def list_all_iff digit_plain)
  then have "list_all plain_char ?f"
    by (auto simp: list_all_iff dest: set_dropWhileD)
  then show ?thesis
    by (simp add: fraction_text_def Let_def plain_char_def)
qed

lemma format_time_plain [simp]: "plain_text (format_time t)"
proof -
  have "plain_char (CHR ''T'')" "plain_char (CHR ''Z'')" "plain_char (CHR '':'')"
    by (simp_all add: plain_char_def)
  then show ?thesis
    by (simp add: format_time_def Let_def digits2_def digit_plain fraction_text_plain)
qed

lemmas key_simps = same_key_def fold_case_def known_fields_def

lemma read_bonus_text:
  assumes "plain_text localDate" and "in64 seconds"
  shows "read_bonus (bonus_text localDate seconds) = Some \<lparr>bp_UUID = [], bp_LocalDate = localDate,
    bp_Seconds = seconds, bp_Origin = ''local'', bp_CreatedAt = zero_time\<rparr>"
proof -
  have "plain_json (JObject [(''local_date'', JString localDate), (''seconds'', JNumber (show_int seconds)),
      (''origin'', JString ''local'')])" using assms by (simp add: plain_char_def)
  from parse_encoded [OF this] show ?thesis
    by (simp add: read_bonus_def bonus_text_def json_members_def key_simps json_string_def
        json_int64_show [OF assms(2)])
qed

lemma read_credit_text:
  assumes "plain_text uuid" and "in64 seconds" and "printable_day (createdAt div day)"
  shows "read_credit (credit_text uuid seconds createdAt) = Some \<lparr>ci_UUID = uuid,
    ci_Seconds = seconds, ci_Origin = ''web'', ci_CreatedAt = createdAt\<rparr>"
proof -
  let ?ms = "(if uuid = [] then [] else [(''uuid'', JString uuid)])
      @ [(''seconds'', JNumber (show_int seconds)), (''origin'', JString ''web''),
         (''created_at'', JString (format_time createdAt))]"
  have "plain_json (JObject ?ms)" using assms(1) by (simp add: plain_char_def)
  from parse_encoded [OF this] show ?thesis
    by (simp add: read_credit_def credit_text_def json_members_def key_simps json_string_def
        json_int64_show [OF assms(2)] json_time_def parse_format_time [OF assms(3)])
qed

text \<open>The texts are valid JSON, whatever the date.\<close>

lemma bonus_text_valid: "plain_text localDate \<Longrightarrow> json_valid (bonus_text localDate seconds)"
proof -
  assume "plain_text localDate"
  then have "plain_json (JObject [(''local_date'', JString localDate),
      (''seconds'', JNumber (show_int seconds)), (''origin'', JString ''local'')])"
    by (simp add: plain_char_def)
  from parse_encoded [OF this] show ?thesis
    by (simp add: json_valid_def bonus_text_def)
qed

end
