(* ===== verification/SyncClient.thy ===== *)
theory SyncClient
  imports Protocol Daemon
begin

text \<open>
  The synchronization client (\<open>agent/syncclient/client.go\<close>): one heartbeat - the request built
  from the agent's store, the exchange, the installation of the response - and the loop that
  repeats it. The exchange is a parameter: a function from the request to its outcome, so a
  server can be put in its place. A response body is given by what its decoder finds in it. The
  client's mutexes make the accesses to the session and control fields atomic; the heartbeat
  is one action on the client's state that keeps what it changed before an error.
\<close>

section \<open>State\<close>

record HeartbeatConfig =
  hc_ServerURL :: string
  hc_DeviceID :: string
  hc_DeviceToken :: string
  hc_HeartbeatInterval :: duration
  hc_AttemptTimeout :: duration

definition DefaultHeartbeatInterval :: duration where "DefaultHeartbeatInterval = 3 * second"
definition MinimumHeartbeatInterval :: duration where "MinimumHeartbeatInterval = second"
definition MaximumHeartbeatInterval :: duration where "MaximumHeartbeatInterval = 10 * minute"
definition repeatedFailureLogInterval :: duration where "repeatedFailureLogInterval = minute"

datatype Stage = LocalStateStage | RequestStage | TransportStage | ResponseStage | ApplyStage

datatype CommandError =
    InvalidEnvelope | InvalidBonusCommand | UnsupportedKind string | CommandNotStored StoreError

datatype ClientError =
    TimeRequired | StoreFailed StoreError | InvalidEventPayload string
  | RequestFailed | SendFailed string
  | RevisionAhead int int | StateConflict | ProtocolTooOld | HttpStatus int
  | DecodeFailed | TrailingData
  | ForgetFailed StoreError | PolicyFailed int StoreError
  | SessionStateMissing | PolicyWithoutBalance | InvalidSessionState | SessionStateOlder
  | ConfirmFailed StoreError | CommandFailed string CommandError

type_synonym HeartbeatError = "Stage \<times> ClientError"

text \<open>\<open>sc_detail\<close> is the last failure reported (\<open>synchronizationDetail\<close>), \<open>sc_reports\<close> what the
  status reporter was called with.\<close>

record Client =
  sc_store :: Store
  sc_config :: HeartbeatConfig
  sc_sessionActive :: bool
  sc_sessionID :: string
  sc_sessionLocked :: bool
  sc_online :: bool
  sc_checked :: bool
  sc_paused :: bool
  sc_blocked :: bool
  sc_revision :: int
  sc_detail :: "HeartbeatError option"
  sc_reports :: "HeartbeatError option list"

datatype ConfigError = IncompleteConfiguration | IntervalOutOfRange

text \<open>\<open>TrimRight(url, "/")\<close>.\<close>

definition trim_slashes :: "string \<Rightarrow> string" where
  "trim_slashes s = rev (dropWhile (\<lambda>c. c = CHR ''/'') (rev s))"

definition NewClient :: "Store \<Rightarrow> HeartbeatConfig \<Rightarrow> ConfigError + Client" where
  "NewClient store config =
     (if hc_ServerURL config = [] \<or> hc_DeviceID config = [] \<or> hc_DeviceToken config = []
         \<or> hc_AttemptTimeout config \<le> 0
      then Inl IncompleteConfiguration
      else if hc_HeartbeatInterval config < MinimumHeartbeatInterval
         \<or> MaximumHeartbeatInterval < hc_HeartbeatInterval config
      then Inl IntervalOutOfRange
      else Inr \<lparr>sc_store = store,
             sc_config = config\<lparr>hc_ServerURL := trim_slashes (hc_ServerURL config)\<rparr>,
             sc_sessionActive = False, sc_sessionID = [], sc_sessionLocked = False,
             sc_online = False, sc_checked = False, sc_paused = False, sc_blocked = False,
             sc_revision = 0, sc_detail = None, sc_reports = []\<rparr>)"

text \<open>What the daemon reads of the client, and what it tells it.\<close>

definition client_RemoteControl :: "Client \<Rightarrow> RemoteControl" where
  "client_RemoteControl c = \<lparr>rc_online = sc_online c, rc_paused = sc_paused c,
     rc_blocked = sc_blocked c, rc_revision = sc_revision c\<rparr>"

definition SynchronizationStatus :: "Client \<Rightarrow> bool \<times> bool" where
  "SynchronizationStatus c = (sc_checked c, sc_online c)"

definition SynchronizationReport :: "Client \<Rightarrow> bool \<times> bool \<times> HeartbeatError option" where
  "SynchronizationReport c = (sc_checked c, sc_online c, sc_detail c)"

definition setRemoteControl :: "bool \<Rightarrow> bool \<Rightarrow> bool \<Rightarrow> int \<Rightarrow> Client \<Rightarrow> Client" where
  "setRemoteControl online paused blocked revision c =
     c\<lparr>sc_checked := True, sc_online := online, sc_paused := paused, sc_blocked := blocked,
       sc_revision := revision\<rparr>"

definition reportStatus :: "HeartbeatError option \<Rightarrow> Client \<Rightarrow> Client" where
  "reportStatus err c = c\<lparr>sc_detail := err, sc_reports := sc_reports c @ [err]\<rparr>"

definition client_SetGraphicalSession :: "bool \<Rightarrow> string \<Rightarrow> bool \<Rightarrow> Client \<Rightarrow> Client" where
  "client_SetGraphicalSession active sessionID locked c =
     (let (sid, lock) = (if \<not> active then ([], False) else (sessionID, locked))
      in c\<lparr>sc_sessionActive := active, sc_sessionID := sid, sc_sessionLocked := lock\<rparr>)"

section \<open>The exchange\<close>

text \<open>What the decoders find in a response body: the document, whether more follows it, and the
  error document of a refusal.\<close>

record Body =
  bd_document :: "HeartbeatResponse option"
  bd_trailing :: bool
  bd_error :: "ErrorResponse option"

datatype Outcome = RequestNotBuilt | NoResponse string | Response int Body

text \<open>The database calls of a heartbeat, by position where there are several of one kind.\<close>

datatype ClientCall =
    CallLoadPolicy | CallUsage | CallEvents | CallAcks | CallRetries | CallAcknowledge nat
  | CallForget | CallReplace | CallConfirm | CallCommand nat

record HeartbeatEnv =
  hv_db :: "ClientCall \<Rightarrow> bool"
  hv_exchange :: "HeartbeatRequest \<Rightarrow> Outcome"

definition decodeHeartbeatError :: "int \<Rightarrow> Body \<Rightarrow> ClientError" where
  "decodeHeartbeatError status body =
     (let other = (if status = 409 then StateConflict
                   else if status = 426 then ProtocolTooOld else HttpStatus status)
      in case bd_error body of None \<Rightarrow> other
         | Some e \<Rightarrow> if er_Code e = ''revision_ahead''
             then RevisionAhead (er_ClientRevision e) (er_ServerRevision e) else other)"

definition decodeHeartbeatResponse :: "Body \<Rightarrow> ClientError + HeartbeatResponse" where
  "decodeHeartbeatResponse body =
     (case bd_document body of None \<Rightarrow> Inl DecodeFailed
      | Some r \<Rightarrow> if bd_trailing body then Inl TrailingData else Inr r)"

text \<open>\<open>strings.ReplaceAll(message, secret, "[REDACTED]")\<close>: occurrences from left to right, not
  overlapping.\<close>

definition redaction :: string where "redaction = ''[REDACTED]''"

function replace_all :: "string \<Rightarrow> string \<Rightarrow> string" where
  "replace_all secret [] = []"
| "replace_all secret (c # s) =
     (if secret \<noteq> [] \<and> take (length secret) (c # s) = secret
      then redaction @ replace_all secret (drop (length secret) (c # s))
      else c # replace_all secret s)"
  by pat_completeness auto
termination
  by (relation "measure (\<lambda>(secret, s). length s)") auto

definition redactSensitiveText :: "string \<Rightarrow> string \<Rightarrow> string" where
  "redactSensitiveText message secret = (if secret = [] then message else replace_all secret message)"

section \<open>Building the request\<close>

type_synonym 'a beat = "(Client, HeartbeatError, 'a) act"

definition on_client_store :: "Stage \<Rightarrow> (StoreError \<Rightarrow> ClientError) \<Rightarrow>
    (Store \<Rightarrow> (StoreError + 'a) \<times> Store) \<Rightarrow> 'a beat" where
  "on_client_store stage err f = (\<lambda>c. case f (sc_store c) of
     (r, s) \<Rightarrow> (wrap_error (\<lambda>e. (stage, err e)) r, c\<lparr>sc_store := s\<rparr>))"

text \<open>An operation whose error the client ignores.\<close>

definition ignoring :: "(Store \<Rightarrow> (StoreError + 'a) \<times> Store) \<Rightarrow> unit beat" where
  "ignoring f = modify (\<lambda>c. c\<lparr>sc_store := snd (f (sc_store c))\<rparr>)"

definition recordRetries :: "HeartbeatEnv \<Rightarrow> PendingEvent list \<Rightarrow> unit beat" where
  "recordRetries env events =
     (if events = [] then ret ()
      else ignoring (IncrementEventRetries (hv_db env CallRetries) (map pe_UUID events)))"

definition wire_of_event :: "PendingEvent \<Rightarrow> wire_event" where
  "wire_of_event e = \<lparr>we_UUID = pe_UUID e, we_Kind = pe_Kind e, we_Payload = pe_PayloadJSON e,
     we_CreatedAt = pe_CreatedAt e\<rparr>"

fun collect_events :: "HeartbeatEnv \<Rightarrow> PendingEvent list \<Rightarrow> unit beat" where
  "collect_events env [] = ret ()"
| "collect_events env (e # es) =
     (if \<not> json_valid (pe_PayloadJSON e)
      then andThen (ignoring (IncrementEventRetries (hv_db env CallRetries) [pe_UUID e])) (\<lambda>_.
           throw (LocalStateStage, InvalidEventPayload (pe_UUID e)))
      else collect_events env es)"

definition session_state_wanted ::
    "bool \<Rightarrow> string \<Rightarrow> string \<Rightarrow> int \<Rightarrow> ConfirmedSessionState option \<Rightarrow> bool" where
  "session_state_wanted active sessionID localDate revision confirmed \<longleftrightarrow>
     active \<and> (case confirmed of None \<Rightarrow> True
       | Some c \<Rightarrow> cs_SessionID c \<noteq> sessionID \<or> cs_LocalDate c \<noteq> localDate \<or> cs_Revision c < revision)"

definition local_revision :: "HeartbeatEnv \<Rightarrow> int beat" where
  "local_revision env = (\<lambda>c. case LoadPolicy (hv_db env CallLoadPolicy) (sc_store c) of
     Inr p \<Rightarrow> (Inr (ps_Revision p), c)
   | Inl e \<Rightarrow> if e = ErrNoPolicy then (Inr 0, c) else (Inl (LocalStateStage, StoreFailed e), c))"

definition reading :: "(Store \<Rightarrow> StoreError + 'a) \<Rightarrow> 'a beat" where
  "reading f = on_client_store LocalStateStage StoreFailed (\<lambda>s. (f s, s))"

definition build_request :: "location \<Rightarrow> HeartbeatEnv \<Rightarrow> time \<Rightarrow> (HeartbeatRequest \<times> PendingEvent list) beat" where
  "build_request loc env now =
     andThen (fails_if (is_zero now) (LocalStateStage, TimeRequired)) (\<lambda>_.
     andThen (local_revision env) (\<lambda>revision.
     let localDate = local_date loc now in
     andThen get_state (\<lambda>c.
     let confirmed = CurrentConfirmedSessionState (sc_store c) in
     andThen (reading (LoadDailyUsage (hv_db env CallUsage) localDate)) (\<lambda>usage.
     andThen (reading (PendingEvents (hv_db env CallEvents) 100)) (\<lambda>pending.
     andThen (reading (AppliedCommandIDs (hv_db env CallAcks) 100)) (\<lambda>commandAcks.
     andThen (collect_events env pending) (\<lambda>_.
     ret (\<lparr>hr_PolicyRevision = revision, hr_ControlRevision = sc_revision c,
       hr_SessionStateRevision = (case confirmed of None \<Rightarrow> 0 | Some s \<Rightarrow> cs_Revision s),
       hr_LocalDate = localDate, hr_SecondsUsed = du_SecondsUsed usage,
       hr_GraphicalSessionActive = sc_sessionActive c, hr_GraphicalSessionID = sc_sessionID c,
       hr_GraphicalSessionLocked = sc_sessionLocked c,
       hr_RequestSessionState = session_state_wanted (sc_sessionActive c) (sc_sessionID c)
         localDate revision confirmed,
       hr_Events = map wire_of_event pending, hr_CommandAcks = commandAcks\<rparr>, pending))))))))"

section \<open>Exchanging it\<close>

definition exchange_request :: "HeartbeatEnv \<Rightarrow> HeartbeatRequest \<Rightarrow> PendingEvent list \<Rightarrow> HeartbeatResponse beat" where
  "exchange_request env request pending =
     (case hv_exchange env request of
        RequestNotBuilt \<Rightarrow> throw (RequestStage, RequestFailed)
      | NoResponse message \<Rightarrow>
          andThen (recordRetries env pending) (\<lambda>_.
          andThen (reads (\<lambda>c. redactSensitiveText message (hc_DeviceToken (sc_config c)))) (\<lambda>text.
          throw (TransportStage, SendFailed text)))
      | Response status body \<Rightarrow>
          if status \<noteq> 200
          then andThen (recordRetries env pending) (\<lambda>_.
               throw (ResponseStage, decodeHeartbeatError status body))
          else (case decodeHeartbeatResponse body of
                  Inl e \<Rightarrow> andThen (recordRetries env pending) (\<lambda>_. throw (ResponseStage, e))
                | Inr result \<Rightarrow> ret result))"

section \<open>Installing the response\<close>

definition fromProtocolPolicy :: "wire_policy \<Rightarrow> PolicySnapshot" where
  "fromProtocolPolicy p =
     \<lparr>ps_Revision = wp_Revision p, ps_MonitoringPaused = wp_MonitoringPaused p,
      ps_ManualBlock = wp_ManualBlock p, ps_WarningMinutes = wp_WarningMinutes p,
      ps_LocalPasswordVerifier = wp_LocalPasswordVerifier p,
      ps_WeeklyQuota = (\<lambda>d. seconds_duration (wp_WeeklyQuotaSeconds p d)),
      ps_Routines = map (\<lambda>r. \<lparr>sr_ID = wr_ID r, sr_Name = wr_Name r, sr_Days = wr_Days r,
        sr_Start = seconds_duration (wr_StartSecond r), sr_End = seconds_duration (wr_EndSecond r),
        sr_Enabled = wr_Enabled r\<rparr>) (wp_Routines p),
      ps_UpdatedAt = wp_UpdatedAt p\<rparr>"

fun acknowledge_events :: "HeartbeatEnv \<Rightarrow> nat \<Rightarrow> string list \<Rightarrow> unit beat" where
  "acknowledge_events env k [] = ret ()"
| "acknowledge_events env k (eventID # ids) =
     andThen (on_client_store ApplyStage StoreFailed (AcknowledgeEvent (hv_db env (CallAcknowledge k)) eventID)) (\<lambda>_.
     acknowledge_events env (Suc k) ids)"

text \<open>The credit a bonus command carries, after its checks and defaults.\<close>

definition command_bonus :: "Command \<Rightarrow> string \<Rightarrow> Bonus option" where
  "command_bonus command localDate =
     (case read_credit (wc_Payload command) of None \<Rightarrow> None
      | Some p \<Rightarrow>
          if ci_Origin p \<noteq> ''web'' \<or> ci_Seconds p \<le> 0 then None
          else Some \<lparr>bo_UUID = (if ci_UUID p = [] then wc_ID command else ci_UUID p),
                 bo_LocalDate = localDate, bo_Seconds = ci_Seconds p, bo_Origin = ''web'',
                 bo_CreatedAt = (if is_zero (ci_CreatedAt p) then wc_CreatedAt command
                                 else ci_CreatedAt p)\<rparr>)"

definition applyCommand :: "bool \<Rightarrow> Command \<Rightarrow> int \<Rightarrow> string \<Rightarrow> time \<Rightarrow> Store
    \<Rightarrow> (CommandError + unit) \<times> Store" where
  "applyCommand io command controlRevision localDate now s =
     (if wc_ID command = [] \<or> is_zero (wc_CreatedAt command) then (Inl InvalidEnvelope, s)
      else if validControlKind (wc_Kind command)
      then (case StageControlEffect io (wc_ID command) controlRevision (wc_Kind command) now s of
              (r, s') \<Rightarrow> (wrap_error CommandNotStored r, s'))
      else if wc_Kind command = ''add_bonus''
      then (case command_bonus command localDate of None \<Rightarrow> (Inl InvalidBonusCommand, s)
            | Some b \<Rightarrow> (case ApplyRemoteBonus io (wc_ID command) b now s of
                  (r, s') \<Rightarrow> (wrap_error CommandNotStored r, s')))
      else (Inl (UnsupportedKind (wc_Kind command)), s))"

fun apply_commands :: "HeartbeatEnv \<Rightarrow> nat \<Rightarrow> int \<Rightarrow> string \<Rightarrow> time \<Rightarrow> Command list \<Rightarrow> unit beat" where
  "apply_commands env k controlRevision localDate now [] = ret ()"
| "apply_commands env k controlRevision localDate now (cmd # cmds) =
     andThen (\<lambda>c. case applyCommand (hv_db env (CallCommand k)) cmd controlRevision localDate now (sc_store c) of
         (r, s) \<Rightarrow> (wrap_error (\<lambda>e. (ApplyStage, CommandFailed (wc_ID cmd) e)) r, c\<lparr>sc_store := s\<rparr>)) (\<lambda>_.
     apply_commands env (Suc k) controlRevision localDate now cmds)"

definition confirmed_of :: "SessionState \<Rightarrow> ConfirmedSessionState" where
  "confirmed_of s = \<lparr>cs_Revision = ws_Revision s, cs_SessionID = ws_SessionID s,
     cs_LocalDate = ws_LocalDate s, cs_RemainingSeconds = ws_RemainingSeconds s,
     cs_UsageSeconds = ws_UsageSeconds s, cs_ConfirmedAt = ws_ConfirmedAt s\<rparr>"

text \<open>The checks on the balance of a response; \<open>None\<close> when it may be installed.\<close>

definition balance_error :: "HeartbeatRequest \<Rightarrow> HeartbeatResponse \<Rightarrow> ClientError option" where
  "balance_error request result =
     (if hr_RequestSessionState request \<and> hs_SessionState result = None then Some SessionStateMissing
      else if (case hs_Policy result of None \<Rightarrow> False
               | Some p \<Rightarrow> hr_GraphicalSessionActive request
                   \<and> hr_SessionStateRevision request < wp_Revision p \<and> hs_SessionState result = None)
      then Some PolicyWithoutBalance
      else case hs_SessionState result of None \<Rightarrow> None
           | Some s \<Rightarrow>
               if \<not> hr_GraphicalSessionActive request \<or> ws_SessionID s \<noteq> hr_GraphicalSessionID request
                  \<or> ws_LocalDate s \<noteq> hr_LocalDate request \<or> ws_Revision s < 0
                  \<or> ws_RemainingSeconds s < 0 \<or> ws_UsageSeconds s < 0 \<or> is_zero (ws_ConfirmedAt s)
               then Some InvalidSessionState
               else if (case hs_Policy result of None \<Rightarrow> False | Some p \<Rightarrow> ws_Revision s < wp_Revision p)
               then Some SessionStateOlder
               else None)"

definition install_response :: "HeartbeatEnv \<Rightarrow> HeartbeatRequest \<Rightarrow> time \<Rightarrow> HeartbeatResponse \<Rightarrow> unit beat" where
  "install_response env request now result =
     andThen (modify (setRemoteControl True (co_MonitoringPaused (hs_Control result))
       (co_ManualBlock (hs_Control result)) (co_Revision (hs_Control result)))) (\<lambda>_.
     andThen (acknowledge_events env 0 (hs_AcknowledgedEvents result)) (\<lambda>_.
     andThen (on_client_store ApplyStage ForgetFailed
       (ForgetAppliedCommandIDs (hv_db env CallForget) (hs_AcknowledgedCommands result))) (\<lambda>_.
     andThen (case hs_Policy result of None \<Rightarrow> ret ()
       | Some p \<Rightarrow> on_client_store ApplyStage (PolicyFailed (wp_Revision p))
           (ReplacePolicy (hv_db env CallReplace) (fromProtocolPolicy p))) (\<lambda>_.
     andThen (case balance_error request result of None \<Rightarrow> ret ()
       | Some e \<Rightarrow> throw (ApplyStage, e)) (\<lambda>_.
     andThen (case hs_SessionState result of None \<Rightarrow> ret ()
       | Some s \<Rightarrow> on_client_store ApplyStage ConfirmFailed
           (SaveConfirmedSessionState (hv_db env CallConfirm) (confirmed_of s))) (\<lambda>_.
     apply_commands env 0 (co_Revision (hs_Control result)) (hr_LocalDate request) now
       (hs_Commands result)))))))"

text \<open>Whatever went wrong, the control received online is discarded.\<close>

definition Heartbeat :: "location \<Rightarrow> HeartbeatEnv \<Rightarrow> time \<Rightarrow> HeartbeatResponse beat" where
  "Heartbeat loc env now = (\<lambda>c.
     case andThen (build_request loc env now) (\<lambda>(request, pending).
          andThen (exchange_request env request pending) (\<lambda>result.
          andThen (install_response env request now result) (\<lambda>_.
          ret result))) c of
       (Inl e, c') \<Rightarrow> (Inl e, setRemoteControl False False False 0 c')
     | (Inr r, c') \<Rightarrow> (Inr r, c'))"

section \<open>The loop\<close>

definition nextHeartbeatInterval :: "int \<Rightarrow> duration \<Rightarrow> duration" where
  "nextHeartbeatInterval serverSeconds fallback =
     (if serverSeconds < go_div MinimumHeartbeatInterval second
         \<or> go_div MaximumHeartbeatInterval second < serverSeconds
      then fallback else seconds_duration serverSeconds)"

definition initialHeartbeatBackoff :: "duration \<Rightarrow> duration" where
  "initialHeartbeatBackoff normalInterval = (if normalInterval < second then normalInterval else second)"

record Loop =
  lp_delay :: duration
  lp_normal :: duration
  lp_backoff :: duration
  lp_online :: bool
  lp_first :: bool
  lp_fastFollowUp :: bool
  lp_attempts :: int
  lp_offlineSince :: time
  lp_lastFailureLog :: time

definition start_loop :: "duration \<Rightarrow> Loop" where
  "start_loop interval = \<lparr>lp_delay = 0, lp_normal = interval,
     lp_backoff = initialHeartbeatBackoff interval, lp_online = False, lp_first = True,
     lp_fastFollowUp = False, lp_attempts = 0, lp_offlineSince = zero_time,
     lp_lastFailureLog = zero_time\<rparr>"

text \<open>What the loop does after a failed attempt that lasted from \<open>started\<close> to \<open>finished\<close>.\<close>

definition after_failure :: "time \<Rightarrow> time \<Rightarrow> Loop \<Rightarrow> Loop" where
  "after_failure started finished lp =
     (let attemptDuration = time_sub finished started;
          lp1 = lp\<lparr>lp_attempts := lp_attempts lp + 1\<rparr>;
          lp2 = (if lp_online lp \<or> lp_first lp
                 then lp1\<lparr>lp_offlineSince := finished, lp_lastFailureLog := finished\<rparr>
                 else if repeatedFailureLogInterval \<le> time_sub finished (lp_lastFailureLog lp)
                 then lp1\<lparr>lp_lastFailureLog := finished\<rparr> else lp1)
      in lp2\<lparr>lp_online := False, lp_first := False, lp_fastFollowUp := False,
             lp_delay := max 0 (lp_backoff lp - attemptDuration),
             lp_backoff := min (lp_normal lp) (lp_backoff lp * 2)\<rparr>)"

definition after_success :: "duration \<Rightarrow> HeartbeatResponse \<Rightarrow> Loop \<Rightarrow> Loop" where
  "after_success interval result lp =
     (let normal = nextHeartbeatInterval (hs_NextHeartbeatSeconds result) interval;
          fast = hs_Commands result \<noteq> [] \<and> \<not> lp_fastFollowUp lp
      in lp\<lparr>lp_online := True, lp_first := False, lp_attempts := 0, lp_offlineSince := zero_time,
            lp_lastFailureLog := zero_time, lp_normal := normal,
            lp_backoff := initialHeartbeatBackoff normal,
            lp_delay := (if fast then 0 else normal), lp_fastFollowUp := fast\<rparr>)"

text \<open>One pass of the loop: when it runs, what the heartbeat meets, and whether the context is
  cancelled while it waits or while the attempt fails.\<close>

record Attempt =
  at_started :: time
  at_finished :: time
  at_now :: time
  at_env :: HeartbeatEnv
  at_stopped_waiting :: bool
  at_cancelled :: bool

definition attempt_once :: "location \<Rightarrow> Attempt \<Rightarrow> Client \<times> Loop \<Rightarrow> bool \<times> Client \<times> Loop" where
  "attempt_once loc a = (\<lambda>(c, lp).
     if 0 < lp_delay lp \<and> at_stopped_waiting a then (False, c, lp)
     else case Heartbeat loc (at_env a) (at_now a) c of
            (Inl e, c') \<Rightarrow>
              if at_cancelled a then (False, c', lp)
              else (True, if lp_online lp \<or> lp_first lp then reportStatus (Some e) c' else c',
                    after_failure (at_started a) (at_finished a) lp)
          | (Inr result, c') \<Rightarrow>
              (True, if \<not> lp_online lp then reportStatus None c' else c',
               after_success (hc_HeartbeatInterval (sc_config c)) result lp))"

text \<open>The loop over the passes that take place; it returns when the context is cancelled.\<close>

fun run_loop :: "location \<Rightarrow> Attempt list \<Rightarrow> Client \<times> Loop \<Rightarrow> Client \<times> Loop" where
  "run_loop loc [] st = st"
| "run_loop loc (a # as) st =
     (case attempt_once loc a st of (goes_on, st') \<Rightarrow> if goes_on then run_loop loc as st' else st')"

definition client_Run :: "location \<Rightarrow> Attempt list \<Rightarrow> Client \<Rightarrow> Client \<times> Loop" where
  "client_Run loc as c = run_loop loc as (c, start_loop (hc_HeartbeatInterval (sc_config c)))"

end
