(* ===== verification/SyncFacts.thy ===== *)
theory SyncFacts
  imports SyncClient AgentStoreRuns
begin

text \<open>
  What a heartbeat does to the agent's store, as a run of its operations: whatever the outcome,
  the store is the one before after operations each of which is a retry count or comes from the
  response received. The lemmas follow the heartbeat's stages.
\<close>

section \<open>Actions as runs of store operations\<close>

definition as_run :: "(store_op \<Rightarrow> bool) \<Rightarrow> 'a beat \<Rightarrow> bool" where
  "as_run ok m \<longleftrightarrow> (\<forall>c r c'. m c = (r, c') \<longrightarrow>
     (\<exists>ops. list_all ok ops \<and> sc_store c' = run_store ops (sc_store c)))"

named_theorems as_run_intros \<open>actions of the client as runs of store operations\<close>

lemma as_runD: "as_run ok m \<Longrightarrow> m c = (r, c') \<Longrightarrow>
    \<exists>ops. list_all ok ops \<and> sc_store c' = run_store ops (sc_store c)"
  by (simp add: as_run_def)

lemma as_run_one: "(\<And>c. ok (g c) \<and> sc_store (snd (m c)) = store_step (g c) (sc_store c)) \<Longrightarrow> as_run ok m"
  unfolding as_run_def
proof (intro allI impI)
  fix c r c'
  assume one: "\<And>c. ok (g c) \<and> sc_store (snd (m c)) = store_step (g c) (sc_store c)" and "m c = (r, c')"
  with one [of c] show "\<exists>ops. list_all ok ops \<and> sc_store c' = run_store ops (sc_store c)"
    by (intro exI [of _ "[g c]"]) simp
qed

lemma as_run_none: "(\<And>c. sc_store (snd (m c)) = sc_store c) \<Longrightarrow> as_run ok m"
  unfolding as_run_def
proof (intro allI impI)
  fix c r c' assume none: "\<And>c. sc_store (snd (m c)) = sc_store c" and "m c = (r, c')"
  with none [of c] show "\<exists>ops. list_all ok ops \<and> sc_store c' = run_store ops (sc_store c)"
    by (intro exI [of _ "[]"]) simp
qed

lemma as_run_elementary [as_run_intros]:
  "as_run ok (ret a)" "as_run ok (throw e)" "as_run ok (reads g)" "as_run ok get_state"
  "as_run ok (fails_if b e)"
  by (rule as_run_none, simp add: run_simps)+

lemma as_run_reading [as_run_intros]: "as_run ok (reading f)" "as_run ok (local_revision env)"
  by (rule as_run_none, simp add: reading_def on_client_store_def local_revision_def split: sum.split)+

lemma run_store_append: "run_store (xs @ ys) s = run_store ys (run_store xs s)"
  by (simp add: run_store_def)

lemma as_run_andThen [as_run_intros]:
  assumes m: "as_run ok m" and k: "\<And>a. as_run ok (k a)"
  shows "as_run ok (andThen m k)"
  unfolding as_run_def
proof (intro allI impI)
  fix c r c' assume "andThen m k c = (r, c')"
  then show "\<exists>ops. list_all ok ops \<and> sc_store c' = run_store ops (sc_store c)"
  proof (cases rule: andThen_cases)
    case (failed e)
    then show ?thesis using as_runD [OF m] by blast
  next
    case (went_on a c1)
    from as_runD [OF m went_on(1)] as_runD [OF k went_on(2)] obtain xs ys
      where "list_all ok xs" "sc_store c1 = run_store xs (sc_store c)"
        and "list_all ok ys" "sc_store c' = run_store ys (sc_store c1)" by blast
    then show ?thesis by (intro exI [of _ "xs @ ys"]) (simp add: run_store_append)
  qed
qed

lemma as_run_if [as_run_intros]:
  "(b \<Longrightarrow> as_run ok m) \<Longrightarrow> (\<not> b \<Longrightarrow> as_run ok k) \<Longrightarrow> as_run ok (if b then m else k)"
  by simp

lemma as_run_Let [as_run_intros]: "(\<And>x. as_run ok (k x)) \<Longrightarrow> as_run ok (let x = v in k x)"
  by simp

lemma as_run_weaken: "as_run ok m \<Longrightarrow> (\<And>x. ok x \<Longrightarrow> ok' x) \<Longrightarrow> as_run ok' m"
  unfolding as_run_def by (metis list.pred_mono_strong)

fun is_retry :: "store_op \<Rightarrow> bool" where
  "is_retry (OpIncrementRetries io us) = True"
| "is_retry _ = False"

lemma as_run_retries [as_run_intros]: "as_run is_retry (recordRetries env pending)"
  unfolding recordRetries_def ignoring_def
  by (intro as_run_intros as_run_one [where g = "\<lambda>_. OpIncrementRetries (hv_db env CallRetries) (map pe_UUID pending)"])
    (simp add: run_simps)

lemma as_run_collect [as_run_intros]: "as_run is_retry (collect_events env es)"
proof (induction es)
  case (Cons e es)
  have "as_run is_retry (ignoring (IncrementEventRetries (hv_db env CallRetries) [pe_UUID e]))"
    unfolding ignoring_def
    by (rule as_run_one [where g = "\<lambda>_. OpIncrementRetries (hv_db env CallRetries) [pe_UUID e]"])
      (simp add: run_simps)
  with Cons show ?case by (simp add: as_run_intros)
qed (simp add: as_run_intros)

lemma as_run_build: "as_run is_retry (build_request loc env now)"
  unfolding build_request_def by (intro as_run_intros)

lemma as_run_exchange: "as_run is_retry (exchange_request env request pending)"
  unfolding exchange_request_def
  by (auto split: Outcome.split sum.split intro!: as_run_intros)

section \<open>Installing a response\<close>

text \<open>The operations a response can lead to.\<close>

fun installs :: "HeartbeatResponse \<Rightarrow> store_op \<Rightarrow> bool" where
  "installs result (OpAcknowledgeEvent io u) = (u \<in> set (hs_AcknowledgedEvents result))"
| "installs result (OpForgetApplied io ids) = (ids = hs_AcknowledgedCommands result)"
| "installs result (OpReplacePolicy io p) = (Some p = map_option fromProtocolPolicy (hs_Policy result))"
| "installs result (OpSaveConfirmed io s) = (Some s = map_option confirmed_of (hs_SessionState result))"
| "installs result (OpApplyRemoteBonus io i b now) =
     (\<exists>cmd\<in>set (hs_Commands result). wc_Kind cmd = ''add_bonus'' \<and> wc_ID cmd = i
        \<and> command_bonus cmd (bo_LocalDate b) = Some b)"
| "installs result (OpStageControl io i revision kind now) =
     (revision = co_Revision (hs_Control result)
      \<and> (\<exists>cmd\<in>set (hs_Commands result). wc_Kind cmd = kind \<and> wc_ID cmd = i))"
| "installs result _ = False"

lemma as_run_client_op:
  assumes "\<And>s. snd (f s) = store_step op s" and "ok op"
  shows "as_run ok (on_client_store stage err f)"
proof (rule as_run_one [where g = "\<lambda>_. op"])
  fix c :: Client
  show "ok op \<and> sc_store (snd (on_client_store stage err f c)) = store_step op (sc_store c)"
    using assms(2) assms(1) [of "sc_store c"]
    by (cases "f (sc_store c)") (simp add: on_client_store_def)
qed

lemma as_run_acknowledge:
  "set ids \<subseteq> set (hs_AcknowledgedEvents result) \<Longrightarrow> as_run (installs result) (acknowledge_events env k ids)"
  by (induction ids arbitrary: k)
    (auto intro!: as_run_intros as_run_client_op [where op = "OpAcknowledgeEvent io u" for io u])

text \<open>What a command does is one operation of the store, or nothing.\<close>

lemma applyCommand_step:
  "snd (applyCommand io cmd revn localDate now s) = s
   \<or> (wc_Kind cmd = ''add_bonus'' \<and> (\<exists>b. command_bonus cmd localDate = Some b \<and>
        snd (applyCommand io cmd revn localDate now s) = store_step (OpApplyRemoteBonus io (wc_ID cmd) b now) s))
   \<or> snd (applyCommand io cmd revn localDate now s) = store_step (OpStageControl io (wc_ID cmd) revn (wc_Kind cmd) now) s"
  by (auto simp: applyCommand_def split: option.split prod.split)

lemma command_bonus_date: "command_bonus cmd d = Some b \<Longrightarrow> bo_LocalDate b = d"
  by (auto simp: command_bonus_def split: option.splits if_splits)

lemma as_run_command:
  assumes "cmd \<in> set (hs_Commands result)" and "revn = co_Revision (hs_Control result)"
  shows "as_run (installs result) (\<lambda>c. case applyCommand io cmd revn localDate now (sc_store c) of
     (r, s) \<Rightarrow> (wrap_error f r, c\<lparr>sc_store := s\<rparr>))"
  unfolding as_run_def
proof (intro allI impI)
  fix c r c'
  assume run: "(case applyCommand io cmd revn localDate now (sc_store c) of
     (r, s) \<Rightarrow> (wrap_error f r, c\<lparr>sc_store := s\<rparr>)) = (r, c')"
  then have store: "sc_store c' = snd (applyCommand io cmd revn localDate now (sc_store c))"
    by (auto split: prod.splits)
  from applyCommand_step [of io cmd revn localDate now "sc_store c"]
  show "\<exists>ops. list_all (installs result) ops \<and> sc_store c' = run_store ops (sc_store c)"
  proof (elim disjE conjE exE)
    assume "snd (applyCommand io cmd revn localDate now (sc_store c)) = sc_store c"
    with store show ?thesis by (intro exI [of _ "[]"]) simp
  next
    fix b assume "wc_Kind cmd = ''add_bonus''" "command_bonus cmd localDate = Some b"
      "snd (applyCommand io cmd revn localDate now (sc_store c))
        = store_step (OpApplyRemoteBonus io (wc_ID cmd) b now) (sc_store c)"
    with store assms show ?thesis
      by (intro exI [of _ "[OpApplyRemoteBonus io (wc_ID cmd) b now]"])
        (auto dest: command_bonus_date)
  next
    assume "snd (applyCommand io cmd revn localDate now (sc_store c))
        = store_step (OpStageControl io (wc_ID cmd) revn (wc_Kind cmd) now) (sc_store c)"
    with store assms show ?thesis
      by (intro exI [of _ "[OpStageControl io (wc_ID cmd) revn (wc_Kind cmd) now]"]) auto
  qed
qed

lemma as_run_commands:
  "set cmds \<subseteq> set (hs_Commands result) \<Longrightarrow> revn = co_Revision (hs_Control result) \<Longrightarrow>
     as_run (installs result) (apply_commands env k revn localDate now cmds)"
proof (induction cmds arbitrary: k)
  case (Cons cmd cmds)
  then show ?case
    unfolding apply_commands.simps by (intro as_run_intros as_run_command) simp_all
qed (simp add: as_run_intros)

lemma as_run_install: "as_run (installs result) (install_response env request now result)"
  unfolding install_response_def
proof (intro as_run_andThen)
  show "as_run (installs result) (modify (setRemoteControl True (co_MonitoringPaused (hs_Control result))
      (co_ManualBlock (hs_Control result)) (co_Revision (hs_Control result))))"
    by (rule as_run_none) (simp add: run_simps setRemoteControl_def)
  show "as_run (installs result) (acknowledge_events env 0 (hs_AcknowledgedEvents result))"
    by (rule as_run_acknowledge) simp
  show "as_run (installs result) (on_client_store ApplyStage ForgetFailed
      (ForgetAppliedCommandIDs (hv_db env CallForget) (hs_AcknowledgedCommands result)))"
    by (rule as_run_client_op [where op = "OpForgetApplied (hv_db env CallForget) (hs_AcknowledgedCommands result)"]) simp_all
  show "as_run (installs result) (case hs_Policy result of None \<Rightarrow> ret ()
      | Some p \<Rightarrow> on_client_store ApplyStage (PolicyFailed (wp_Revision p))
          (ReplacePolicy (hv_db env CallReplace) (fromProtocolPolicy p)))"
    by (auto split: option.split intro: as_run_intros
        as_run_client_op [where op = "OpReplacePolicy io p" for io p])
  show "as_run (installs result) (case balance_error request result of None \<Rightarrow> ret ()
      | Some e \<Rightarrow> throw (ApplyStage, e))"
    by (auto split: option.split intro: as_run_intros)
  show "as_run (installs result) (case hs_SessionState result of None \<Rightarrow> ret ()
      | Some s \<Rightarrow> on_client_store ApplyStage ConfirmFailed
          (SaveConfirmedSessionState (hv_db env CallConfirm) (confirmed_of s)))"
    by (auto split: option.split intro: as_run_intros
        as_run_client_op [where op = "OpSaveConfirmed io p" for io p])
  show "as_run (installs result) (apply_commands env 0 (co_Revision (hs_Control result))
      (hr_LocalDate request) now (hs_Commands result))"
    by (rule as_run_commands) simp_all
qed

section \<open>The heartbeat\<close>

text \<open>The response the exchange yields, if it is one.\<close>

definition answer_of :: "Outcome \<Rightarrow> HeartbeatResponse option" where
  "answer_of outcome = (case outcome of
     Response status body \<Rightarrow>
       if status \<noteq> 200 then None
       else (case decodeHeartbeatResponse body of Inl _ \<Rightarrow> None | Inr result \<Rightarrow> Some result)
   | _ \<Rightarrow> None)"

definition heartbeat_answer :: "location \<Rightarrow> HeartbeatEnv \<Rightarrow> time \<Rightarrow> Client \<Rightarrow> HeartbeatResponse option" where
  "heartbeat_answer loc env now c =
     (case fst (build_request loc env now c) of Inl _ \<Rightarrow> None
      | Inr (request, pending) \<Rightarrow> answer_of (hv_exchange env request))"

lemma exchange_answer:
  "exchange_request env request pending c = (Inr result, c') \<Longrightarrow>
     answer_of (hv_exchange env request) = Some result \<and> c' = c"
  by (auto simp: exchange_request_def answer_of_def andThen_def run_simps
      split: Outcome.splits if_splits sum.splits prod.splits)

text \<open>The ways a heartbeat can go, by stage.\<close>

lemma Heartbeat_cases:
  assumes "Heartbeat loc env now c = (r, c')"
  obtains (not_sent) e c1 where "build_request loc env now c = (Inl e, c1)" "r = Inl e"
      "c' = setRemoteControl False False False 0 c1"
  | (not_answered) request pending c1 e c2 where
      "build_request loc env now c = (Inr (request, pending), c1)"
      "exchange_request env request pending c1 = (Inl e, c2)" "r = Inl e"
      "c' = setRemoteControl False False False 0 c2"
  | (not_installed) request pending c1 result e c2 where
      "build_request loc env now c = (Inr (request, pending), c1)"
      "exchange_request env request pending c1 = (Inr result, c1)"
      "answer_of (hv_exchange env request) = Some result"
      "install_response env request now result c1 = (Inl e, c2)" "r = Inl e"
      "c' = setRemoteControl False False False 0 c2"
  | (installed) request pending c1 result where
      "build_request loc env now c = (Inr (request, pending), c1)"
      "exchange_request env request pending c1 = (Inr result, c1)"
      "answer_of (hv_exchange env request) = Some result"
      "install_response env request now result c1 = (Inr (), c')" "r = Inr result"
proof (cases "build_request loc env now c")
  case (Pair b c1)
  show ?thesis
  proof (cases b)
    case (Inl e)
    with assms Pair show ?thesis
      by (intro not_sent) (auto simp: Heartbeat_def andThen_Inl)
  next
    case (Inr rp)
    obtain request pending where rp: "rp = (request, pending)" by (cases rp)
    note build = Pair [unfolded Inr rp]
    obtain x c2 where ex: "exchange_request env request pending c1 = (x, c2)" by fastforce
    show ?thesis
    proof (cases x)
      case (Inl e)
      with assms build ex show ?thesis
        by (intro not_answered) (auto simp: Heartbeat_def andThen_Inl andThen_Inr)
    next
      case (Inr result)
      with ex exchange_answer have ans: "answer_of (hv_exchange env request) = Some result" "c2 = c1"
        by blast+
      obtain y c3 where ins: "install_response env request now result c1 = (y, c3)" by fastforce
      from ex Inr ans have ex': "exchange_request env request pending c1 = (Inr result, c1)" by simp
      show ?thesis
      proof (cases y)
        case (Inl e)
        with assms build ex' ins ans show ?thesis
          by (intro not_installed) (auto simp: Heartbeat_def andThen_Inl andThen_Inr)
      next
        case (Inr u)
        with assms build ex' ins ans show ?thesis
          by (intro installed) (auto simp: Heartbeat_def andThen_Inr run_simps)
      qed
    qed
  qed
qed

definition heartbeat_op :: "HeartbeatResponse option \<Rightarrow> store_op \<Rightarrow> bool" where
  "heartbeat_op answer op \<longleftrightarrow> is_retry op \<or> (\<exists>result. answer = Some result \<and> installs result op)"

lemma setRemoteControl_store [simp]: "sc_store (setRemoteControl o' p b n c) = sc_store c"
  by (simp add: setRemoteControl_def)

lemma heartbeat_op_retries: "list_all is_retry ops \<Longrightarrow> list_all (heartbeat_op answer) ops"
  by (erule list.pred_mono_strong) (simp add: heartbeat_op_def)

lemma heartbeat_op_installs: "list_all (installs result) ops \<Longrightarrow> list_all (heartbeat_op (Some result)) ops"
  by (erule list.pred_mono_strong) (simp add: heartbeat_op_def)

lemma heartbeat_answer_eq:
  "build_request loc env now c = (Inr (request, pending), c1) \<Longrightarrow>
     heartbeat_answer loc env now c = answer_of (hv_exchange env request)"
  by (simp add: heartbeat_answer_def)

lemma Heartbeat_as_run:
  assumes "Heartbeat loc env now c = (r, c')"
  shows "\<exists>ops. list_all (heartbeat_op (heartbeat_answer loc env now c)) ops
    \<and> sc_store c' = run_store ops (sc_store c)"
  using assms
proof (cases rule: Heartbeat_cases)
  case (not_sent e c1)
  from as_runD [OF as_run_build not_sent(1)] not_sent(3) heartbeat_op_retries show ?thesis
    by auto
next
  case (not_answered request pending c1 e c2)
  from as_runD [OF as_run_build not_answered(1)] as_runD [OF as_run_exchange not_answered(2)]
  obtain xs ys where "list_all is_retry xs" "sc_store c1 = run_store xs (sc_store c)"
      "list_all is_retry ys" "sc_store c2 = run_store ys (sc_store c1)" by blast
  with not_answered(4) show ?thesis
    by (intro exI [of _ "xs @ ys"]) (simp add: run_store_append heartbeat_op_retries)
next
  case (not_installed request pending c1 result e c2)
  from as_runD [OF as_run_build not_installed(1)] as_runD [OF as_run_install not_installed(4)]
  obtain xs ys where "list_all is_retry xs" "sc_store c1 = run_store xs (sc_store c)"
      "list_all (installs result) ys" "sc_store c2 = run_store ys (sc_store c1)" by blast
  with not_installed(3,6) heartbeat_answer_eq [OF not_installed(1)] show ?thesis
    by (intro exI [of _ "xs @ ys"])
      (simp add: run_store_append heartbeat_op_retries heartbeat_op_installs)
next
  case (installed request pending c1 result)
  from as_runD [OF as_run_build installed(1)] as_runD [OF as_run_install installed(4)]
  obtain xs ys where "list_all is_retry xs" "sc_store c1 = run_store xs (sc_store c)"
      "list_all (installs result) ys" "sc_store c' = run_store ys (sc_store c1)" by blast
  with installed(3) heartbeat_answer_eq [OF installed(1)] show ?thesis
    by (intro exI [of _ "xs @ ys"])
      (simp add: run_store_append heartbeat_op_retries heartbeat_op_installs)
qed

text \<open>None of these operations ends the enrollment, and the policies they carry are typed.\<close>

lemma heartbeat_op_no_reset:
  fixes s :: Store
  shows "list_all (heartbeat_op answer) ops \<Longrightarrow> no_reset ops s"
proof (induction ops arbitrary: s)
  case (Cons x ops s)
  then have "heartbeat_op answer x" and rest: "no_reset ops (store_step x s)" by simp_all
  then have "\<not> (\<exists>io u d trust. x = OpBindEnrollment io u d trust)"
    by (auto simp: heartbeat_op_def)
  with rest show ?case by (cases x) simp_all
qed simp

lemma fromProtocolPolicy_typed: "quotas_in64 (fromProtocolPolicy p)"
  by (simp add: quotas_in64_def fromProtocolPolicy_def seconds_duration_def)

lemma heartbeat_op_typed: "heartbeat_op answer x \<Longrightarrow> op_typed x"
  by (cases x) (auto simp: heartbeat_op_def fromProtocolPolicy_typed split: option.splits dest!: sym [of "Some _"])

lemma heartbeat_op_refreshed: "heartbeat_op answer x \<Longrightarrow> op_refreshed x"
  by (cases x) (auto simp: heartbeat_op_def)

end
