(* ===== verification/SyncInstall.thy ===== *)
theory SyncInstall
  imports SyncFacts
begin

text \<open>
  What a heartbeat that succeeded has done: the stages of \<open>install_response\<close> one after the
  other, and what each leaves in the store for the ones after it.
\<close>

section \<open>The stages of a successful installation\<close>

lemma keeps_client_store [keeps_intros]: "keeps client_RemoteControl (on_client_store stage err f)"
  by (rule keepsI) (auto simp: on_client_store_def client_RemoteControl_def split: prod.splits)

lemma keeps_acknowledge [keeps_intros]: "keeps client_RemoteControl (acknowledge_events env k ids)"
  by (induction ids arbitrary: k) (simp_all add: keeps_intros)

lemma keeps_commands [keeps_intros]:
  "keeps client_RemoteControl (apply_commands env k revn localDate now cmds)"
proof (induction cmds arbitrary: k)
  case (Cons cmd cmds)
  have "keeps client_RemoteControl (\<lambda>c. case applyCommand (hv_db env (CallCommand k)) cmd revn localDate now
      (sc_store c) of (r, s) \<Rightarrow> (wrap_error (\<lambda>e. (ApplyStage, CommandFailed (wc_ID cmd) e)) r, c\<lparr>sc_store := s\<rparr>))"
    by (rule keepsI) (auto simp: client_RemoteControl_def split: prod.splits)
  with Cons show ?case by (simp add: keeps_intros)
qed (simp add: keeps_intros)

lemma on_client_store_InrE:
  assumes "on_client_store stage err f c = (Inr a, c')"
  shows "f (sc_store c) = (Inr a, sc_store c')"
  using assms by (auto simp: on_client_store_def split: prod.splits)

lemma case_option_ret_InrE:
  assumes "(case x of None \<Rightarrow> ret () | Some p \<Rightarrow> on_client_store stage (err p) (f p)) c = (Inr (), c')"
  shows "case x of None \<Rightarrow> sc_store c' = sc_store c | Some p \<Rightarrow> f p (sc_store c) = (Inr (), sc_store c')"
  using assms by (auto simp: run_simps split: option.splits dest: on_client_store_InrE)

text \<open>The commands, on the store alone.\<close>

fun run_commands :: "HeartbeatEnv \<Rightarrow> nat \<Rightarrow> int \<Rightarrow> string \<Rightarrow> time \<Rightarrow> Command list \<Rightarrow> Store
    \<Rightarrow> (CommandError + unit) \<times> Store" where
  "run_commands env k revn localDate now [] s = (Inr (), s)"
| "run_commands env k revn localDate now (cmd # cmds) s =
     (case applyCommand (hv_db env (CallCommand k)) cmd revn localDate now s of
        (Inl e, s') \<Rightarrow> (Inl e, s')
      | (Inr _, s') \<Rightarrow> run_commands env (Suc k) revn localDate now cmds s')"

lemma apply_commands_InrE:
  "apply_commands env k revn localDate now cmds c = (Inr (), c') \<Longrightarrow>
     run_commands env k revn localDate now cmds (sc_store c) = (Inr (), sc_store c')"
proof (induction cmds arbitrary: k c)
  case (Cons cmd cmds)
  from Cons.prems obtain a c1 where
    first: "(\<lambda>c. case applyCommand (hv_db env (CallCommand k)) cmd revn localDate now (sc_store c) of
      (r, s) \<Rightarrow> (wrap_error (\<lambda>e. (ApplyStage, CommandFailed (wc_ID cmd) e)) r, c\<lparr>sc_store := s\<rparr>)) c = (Inr a, c1)"
    and rest: "apply_commands env (Suc k) revn localDate now cmds c1 = (Inr (), c')"
    by (auto elim: andThen_InrE)
  then have "applyCommand (hv_db env (CallCommand k)) cmd revn localDate now (sc_store c) = (Inr a, sc_store c1)"
    by (auto split: prod.splits)
  with Cons.IH [OF rest] show ?case by simp
qed (simp add: run_simps)

lemma acknowledge_InrE:
  "acknowledge_events env k ids c = (Inr (), c') \<Longrightarrow>
     sc_store c' = (sc_store c)\<lparr>st_db := (st_db (sc_store c))\<lparr>pending_event :=
       tbl_delete (\<lambda>e. pe_UUID e \<in> set ids) (pending_event (st_db (sc_store c)))\<rparr>\<rparr>"
proof (induction ids arbitrary: k c)
  case Nil
  then show ?case by (simp add: run_simps tbl_delete_def)
next
  case (Cons u ids)
  from Cons.prems obtain a c1 where
    first: "on_client_store ApplyStage StoreFailed (AcknowledgeEvent (hv_db env (CallAcknowledge k)) u) c = (Inr a, c1)"
    and rest: "acknowledge_events env (Suc k) ids c1 = (Inr (), c')"
    by (auto elim: andThen_InrE)
  from on_client_store_InrE [OF first]
  have "sc_store c1 = (sc_store c)\<lparr>st_db := (st_db (sc_store c))\<lparr>pending_event :=
      tbl_delete (\<lambda>e. pe_UUID e = u) (pending_event (st_db (sc_store c)))\<rparr>\<rparr>"
    by (simp add: AcknowledgeEvent_def split: if_splits)
  with Cons.IH [OF rest] show ?case by (simp add: tbl_delete_def conj_commute)
qed

lemma install_response_InrE:
  assumes "install_response env request now result c = (Inr (), c')"
  obtains s1 s2 s3 s4 where
    "s1 = (sc_store c)\<lparr>st_db := (st_db (sc_store c))\<lparr>pending_event :=
       tbl_delete (\<lambda>e. pe_UUID e \<in> set (hs_AcknowledgedEvents result)) (pending_event (st_db (sc_store c)))\<rparr>\<rparr>"
    and "ForgetAppliedCommandIDs (hv_db env CallForget) (hs_AcknowledgedCommands result) s1 = (Inr (), s2)"
    and "case hs_Policy result of None \<Rightarrow> s3 = s2
      | Some p \<Rightarrow> ReplacePolicy (hv_db env CallReplace) (fromProtocolPolicy p) s2 = (Inr (), s3)"
    and "balance_error request result = None"
    and "case hs_SessionState result of None \<Rightarrow> s4 = s3
      | Some st \<Rightarrow> SaveConfirmedSessionState (hv_db env CallConfirm) (confirmed_of st) s3 = (Inr (), s4)"
    and "run_commands env 0 (co_Revision (hs_Control result)) (hr_LocalDate request) now
      (hs_Commands result) s4 = (Inr (), sc_store c')"
    and "client_RemoteControl c' = \<lparr>rc_online = True, rc_paused = co_MonitoringPaused (hs_Control result),
      rc_blocked = co_ManualBlock (hs_Control result), rc_revision = co_Revision (hs_Control result)\<rparr>"
proof -
  let ?c0 = "setRemoteControl True (co_MonitoringPaused (hs_Control result))
    (co_ManualBlock (hs_Control result)) (co_Revision (hs_Control result)) c"
  from assms obtain a1 c1 a2 c2 a3 c3 a4 c4 a5 c5 where
    ack: "acknowledge_events env 0 (hs_AcknowledgedEvents result) ?c0 = (Inr a1, c1)"
    and forget: "on_client_store ApplyStage ForgetFailed
       (ForgetAppliedCommandIDs (hv_db env CallForget) (hs_AcknowledgedCommands result)) c1 = (Inr a2, c2)"
    and pol: "(case hs_Policy result of None \<Rightarrow> ret ()
       | Some p \<Rightarrow> on_client_store ApplyStage (PolicyFailed (wp_Revision p))
           (ReplacePolicy (hv_db env CallReplace) (fromProtocolPolicy p))) c2 = (Inr a3, c3)"
    and bal: "(case balance_error request result of None \<Rightarrow> ret ()
       | Some e \<Rightarrow> throw (ApplyStage, e)) c3 = (Inr a4, c4)"
    and conf: "(case hs_SessionState result of None \<Rightarrow> ret ()
       | Some s \<Rightarrow> on_client_store ApplyStage ConfirmFailed
           (SaveConfirmedSessionState (hv_db env CallConfirm) (confirmed_of s))) c4 = (Inr a5, c5)"
    and cmds: "apply_commands env 0 (co_Revision (hs_Control result)) (hr_LocalDate request) now
       (hs_Commands result) c5 = (Inr (), c')"
    unfolding install_response_def andThen_modify by (auto elim!: andThen_InrE)
  from bal have b: "balance_error request result = None" "c4 = c3"
    by (auto simp: run_simps split: option.splits)
  have keep: "keeps client_RemoteControl (case hs_Policy result of None \<Rightarrow> ret ()
       | Some p \<Rightarrow> on_client_store ApplyStage (PolicyFailed (wp_Revision p))
           (ReplacePolicy (hv_db env CallReplace) (fromProtocolPolicy p)))"
    "keeps client_RemoteControl (case hs_SessionState result of None \<Rightarrow> ret ()
       | Some s \<Rightarrow> on_client_store ApplyStage ConfirmFailed
           (SaveConfirmedSessionState (hv_db env CallConfirm) (confirmed_of s)))"
    by (intro keeps_intros)+
  have "client_RemoteControl c' = client_RemoteControl ?c0"
    using keepsD [OF keeps_acknowledge ack] keepsD [OF keeps_client_store forget]
      keepsD [OF keep(1) pol] keepsD [OF keep(2) conf] keepsD [OF keeps_commands cmds] b(2) by simp
  then have view: "client_RemoteControl c' = \<lparr>rc_online = True,
      rc_paused = co_MonitoringPaused (hs_Control result),
      rc_blocked = co_ManualBlock (hs_Control result), rc_revision = co_Revision (hs_Control result)\<rparr>"
    by (simp add: client_RemoteControl_def setRemoteControl_def)
  have p: "case hs_Policy result of None \<Rightarrow> sc_store c3 = sc_store c2
      | Some p \<Rightarrow> ReplacePolicy (hv_db env CallReplace) (fromProtocolPolicy p) (sc_store c2) = (Inr (), sc_store c3)"
    using case_option_ret_InrE [OF pol [unfolded unit_eq [of a3]]] .
  have q: "case hs_SessionState result of None \<Rightarrow> sc_store c5 = sc_store c4
      | Some st \<Rightarrow> SaveConfirmedSessionState (hv_db env CallConfirm) (confirmed_of st) (sc_store c4) = (Inr (), sc_store c5)"
    using case_option_ret_InrE [OF conf [unfolded unit_eq [of a5]]] .
  have f: "ForgetAppliedCommandIDs (hv_db env CallForget) (hs_AcknowledgedCommands result) (sc_store c1)
      = (Inr (), sc_store c2)"
    using on_client_store_InrE [OF forget] by simp
  show ?thesis
    using that [OF acknowledge_InrE [OF ack [unfolded unit_eq [of a1]], simplified] _ p _ _ apply_commands_InrE [OF cmds] view]
      f q [unfolded b(2)] b(1) by simp
qed

section \<open>What the commands leave alone and what they leave behind\<close>

definition command_update :: "Bonus list \<Rightarrow> AppliedRow list \<Rightarrow> PendingControlEffect option \<Rightarrow> Store \<Rightarrow> Store" where
  "command_update bs ids eff s = s\<lparr>st_db := (st_db s)\<lparr>bonus := bonus (st_db s) @ bs,
     applied_command := applied_command (st_db s) @ ids, pending_control_effect := eff\<rparr>\<rparr>"

definition command_blind :: "Store \<Rightarrow> Store \<Rightarrow> bool" where
  "command_blind s s' \<longleftrightarrow> (\<exists>bs ids eff. s' = command_update bs ids eff s
     \<and> list_all (\<lambda>b. bo_Origin b = ''web'') bs)"

lemma command_blindI: "list_all (\<lambda>b. bo_Origin b = ''web'') bs \<Longrightarrow> command_blind s (command_update bs ids eff s)"
  unfolding command_blind_def by blast

lemma command_update_simps [simp]:
  "command_update bs' ids' eff' (command_update bs ids eff s) = command_update (bs @ bs') (ids @ ids') eff' s"
  "command_update [] [] (pending_control_effect (st_db s)) s = s"
  by (simp_all add: command_update_def)

lemma command_blind_refl: "command_blind s s"
  using command_blindI [of "[]" s "[]" "pending_control_effect (st_db s)"] by simp

lemma command_blind_trans: "command_blind s s1 \<Longrightarrow> command_blind s1 s2 \<Longrightarrow> command_blind s s2"
proof -
  assume "command_blind s s1" "command_blind s1 s2"
  then obtain bs ids eff bs' ids' eff' where "s1 = command_update bs ids eff s"
    "s2 = command_update bs' ids' eff' s1" "list_all (\<lambda>b. bo_Origin b = ''web'') (bs @ bs')"
    unfolding command_blind_def by auto
  then show ?thesis using command_blindI [of "bs @ bs'" s "ids @ ids'" eff'] by simp
qed

lemma command_bonus_origin: "command_bonus cmd d = Some b \<Longrightarrow> bo_Origin b = ''web''"
  by (auto simp: command_bonus_def split: option.splits if_splits)

lemma insert_ignore_append: "\<exists>bs. tbl_insert_ignore key r t = t @ bs \<and> set bs \<subseteq> {r}"
  by (auto simp: tbl_insert_ignore_def)

lemma applyCommand_blind:
  assumes "applyCommand io cmd revn localDate now s = (r, s')"
  shows "command_blind s s'"
proof -
  have bonus: "command_blind s (snd (ApplyRemoteBonus io (wc_ID cmd) b now s))"
    if "command_bonus cmd localDate = Some b" for b
  proof -
    have b: "bo_Origin b = ''web''" using that by (rule command_bonus_origin)
    obtain bs where bs: "tbl_insert_ignore bo_UUID b (bonus (st_db s)) = bonus (st_db s) @ bs" "set bs \<subseteq> {b}"
      using insert_ignore_append [of bo_UUID b "bonus (st_db s)"] by blast
    obtain as where as: "tbl_insert_ignore ap_id \<lparr>ap_id = wc_ID cmd, ap_applied_at = now\<rparr>
        (applied_command (st_db s)) = applied_command (st_db s) @ as"
      using insert_ignore_append [of ap_id "\<lparr>ap_id = wc_ID cmd, ap_applied_at = now\<rparr>" "applied_command (st_db s)"]
      by blast
    have "snd (ApplyRemoteBonus io (wc_ID cmd) b now s) \<in> {s,
        command_update bs as (pending_control_effect (st_db s)) s,
        command_update [] as (pending_control_effect (st_db s)) s}"
      by (simp add: ApplyRemoteBonus_def record_applied_def command_update_def Let_def as bs(1)
          split: option.split)
    moreover have "list_all (\<lambda>b. bo_Origin b = ''web'') bs" using bs(2) b by (auto simp: list_all_iff)
    ultimately show ?thesis
      using command_blind_refl [of s] command_blindI [of bs s as] command_blindI [of "[]" s as]
      by (elim insertE emptyE) simp_all
  qed
  have "StageControlEffect io (wc_ID cmd) revn (wc_Kind cmd) now s = (x, s'') \<Longrightarrow>
      s'' = s \<or> (\<exists>eff. s'' = command_update [] [] eff s)" for x s''
    by (auto simp: StageControlEffect_def command_update_def split: if_splits)
  then have stage: "command_blind s (snd (StageControlEffect io (wc_ID cmd) revn (wc_Kind cmd) now s))"
    using command_blind_refl command_blindI [of "[]" s "[]"]
    by (metis list.pred_inject(1) prod.collapse)
  from applyCommand_step [of io cmd revn localDate now s] assms command_blind_refl bonus stage
  show ?thesis by auto
qed

lemma run_commands_blind:
  "run_commands env k revn localDate now cmds s = (r, s') \<Longrightarrow> command_blind s s'"
proof (induction cmds arbitrary: k s)
  case (Cons cmd cmds)
  show ?case
  proof (cases "applyCommand (hv_db env (CallCommand k)) cmd revn localDate now s")
    case (Pair x s1)
    with Cons.prems Cons.IH applyCommand_blind [OF Pair] show ?thesis
      by (cases x) (auto intro: command_blind_trans)
  qed
qed (simp add: command_blind_refl)

lemma command_blind_props:
  assumes "command_blind s s'"
  shows "st_cachedPolicy s' = st_cachedPolicy s" "st_confirmed s' = st_confirmed s"
    "pending_event (st_db s') = pending_event (st_db s)"
    "pending_local_bonus d (st_db s') = pending_local_bonus d (st_db s)"
    "stored_revision s' = stored_revision s"
    "ap_id ` set (applied_command (st_db s)) \<subseteq> ap_id ` set (applied_command (st_db s'))"
    "bo_UUID ` set (bonus (st_db s)) \<subseteq> bo_UUID ` set (bonus (st_db s'))"
proof -
  obtain bs ids eff where s': "s' = command_update bs ids eff s"
    and web: "list_all (\<lambda>b. bo_Origin b = ''web'') bs"
    using assms unfolding command_blind_def by blast
  have "filter (\<lambda>b. bo_LocalDate b = d \<and> bo_Origin b = ''local''
      \<and> tbl_has pe_UUID (bo_UUID b) (pending_event (st_db s))) bs = []"
    using web by (auto simp: filter_empty_conv list_all_iff)
  then show "pending_local_bonus d (st_db s') = pending_local_bonus d (st_db s)"
    by (simp add: s' command_update_def pending_local_bonus_def)
qed (use assms in \<open>auto simp: command_blind_def command_update_def stored_revision_def policyRevision_def\<close>)

text \<open>Every bonus command of a successful run has its identifier recorded, and the control effect
  pending afterwards is that of the last control command.\<close>

lemma applyCommand_records:
  assumes "applyCommand io cmd revn localDate now s = (Inr u, s')"
  shows "wc_Kind cmd = ''add_bonus'' \<Longrightarrow> wc_ID cmd \<in> ap_id ` set (applied_command (st_db s'))"
    and "pending_control_effect (st_db s') = (if validControlKind (wc_Kind cmd)
      then Some \<lparr>ce_CommandID = wc_ID cmd, ce_Revision = revn, ce_Kind = wc_Kind cmd, ce_ReceivedAt = now\<rparr>
      else pending_control_effect (st_db s))"
proof -
  have not_control: "\<not> validControlKind ''add_bonus''" by (simp add: validControlKind_def)
  show "wc_Kind cmd = ''add_bonus'' \<Longrightarrow> wc_ID cmd \<in> ap_id ` set (applied_command (st_db s'))"
    using assms not_control
    by (auto simp: applyCommand_def ApplyRemoteBonus_def record_applied_def Let_def
        tbl_insert_ignore_def tbl_has_iff split: option.splits if_splits prod.splits)
  show "pending_control_effect (st_db s') = (if validControlKind (wc_Kind cmd)
      then Some \<lparr>ce_CommandID = wc_ID cmd, ce_Revision = revn, ce_Kind = wc_Kind cmd, ce_ReceivedAt = now\<rparr>
      else pending_control_effect (st_db s))"
    using assms
    by (auto simp: applyCommand_def ApplyRemoteBonus_def StageControlEffect_def record_applied_def Let_def
        split: option.splits if_splits prod.splits)
qed

definition last_control :: "int \<Rightarrow> time \<Rightarrow> Command list \<Rightarrow> PendingControlEffect option \<Rightarrow> PendingControlEffect option" where
  "last_control revn now cmds before =
     fold (\<lambda>cmd eff. if validControlKind (wc_Kind cmd)
       then Some \<lparr>ce_CommandID = wc_ID cmd, ce_Revision = revn, ce_Kind = wc_Kind cmd, ce_ReceivedAt = now\<rparr>
       else eff) cmds before"

lemma run_commands_records:
  assumes "run_commands env k revn localDate now cmds s = (Inr (), s')"
  shows "(\<forall>cmd\<in>set cmds. wc_Kind cmd = ''add_bonus'' \<longrightarrow> wc_ID cmd \<in> ap_id ` set (applied_command (st_db s')))
    \<and> pending_control_effect (st_db s') = last_control revn now cmds (pending_control_effect (st_db s))"
  using assms
proof (induction cmds arbitrary: k s)
  case (Cons cmd cmds)
  obtain u s1 where one: "applyCommand (hv_db env (CallCommand k)) cmd revn localDate now s = (Inr u, s1)"
    and rest: "run_commands env (Suc k) revn localDate now cmds s1 = (Inr (), s')"
    using Cons.prems by (auto split: prod.splits sum.splits)
  note IH = Cons.IH [OF rest] and rec = applyCommand_records [OF one]
  have "ap_id ` set (applied_command (st_db s1)) \<subseteq> ap_id ` set (applied_command (st_db s'))"
    using command_blind_props(6) [OF run_commands_blind [OF rest]] .
  with IH rec show ?case by (auto simp: last_control_def)
qed (simp add: last_control_def)

end
