(* ===== verification/SyncProps.thy ===== *)
theory SyncProps
  imports SyncInstall AgentStoreProps
begin

text \<open>
  The properties of the synchronization client: a heartbeat as a run of the agent's store, what
  its success and its failure leave behind, delivery of events at least once, redelivery of
  responses, and the cadence of the loop.
\<close>

section \<open>Samples for the witnesses\<close>

definition sample_config :: HeartbeatConfig where
  "sample_config = \<lparr>hc_ServerURL = ''https://s'', hc_DeviceID = ''d1'', hc_DeviceToken = ''tok-en-012345'',
     hc_HeartbeatInterval = 3 * second, hc_AttemptTimeout = 10 * second\<rparr>"

definition sample_sync_store :: Store where
  "sample_sync_store = \<lparr>st_db = empty_database\<lparr>bonus := [sample_bonus ''b1'' ''local''],
     pending_event := [sample_event ''b1'']\<rparr>, st_cachedPolicy = None, st_confirmed = None\<rparr>"

definition sample_client :: Client where
  "sample_client = \<lparr>sc_store = sample_sync_store,
     sc_config = sample_config, sc_sessionActive = True, sc_sessionID = ''2'', sc_sessionLocked = False,
     sc_online = False, sc_checked = False, sc_paused = False, sc_blocked = False, sc_revision = 0,
     sc_detail = None, sc_reports = []\<rparr>"

definition sample_wire_policy :: wire_policy where
  "sample_wire_policy = \<lparr>wp_Revision = 4, wp_MonitoringPaused = False, wp_ManualBlock = False,
     wp_WarningMinutes = 10, wp_LocalPasswordVerifier = [], wp_WeeklyQuotaSeconds = (\<lambda>_. 7200),
     wp_Routines = [\<lparr>wr_ID = ''r1'', wr_Name = ''dormir'', wr_Days = (\<lambda>d. d = Monday),
       wr_StartSecond = 79200, wr_EndSecond = 21600, wr_Enabled = True\<rparr>],
     wp_UpdatedAt = sample_now\<rparr>"

definition sample_response :: HeartbeatResponse where
  "sample_response = \<lparr>hs_ServerTime = sample_now, hs_NextHeartbeatSeconds = 30,
     hs_AcknowledgedEvents = [''b1''], hs_AcknowledgedCommands = [],
     hs_Policy = Some sample_wire_policy,
     hs_SessionState = Some \<lparr>ws_Revision = 4, ws_SessionID = ''2'', ws_LocalDate = ''2026-07-20'',
       ws_RemainingSeconds = 3600, ws_UsageSeconds = 600, ws_ConfirmedAt = sample_now\<rparr>,
     hs_Commands = [\<lparr>wc_ID = ''c1'', wc_Kind = ''add_bonus'',
         wc_Payload = credit_text ''c1'' 900 sample_now, wc_CreatedAt = sample_now\<rparr>,
       \<lparr>wc_ID = ''c2'', wc_Kind = ''block_now'', wc_Payload = ''{}'', wc_CreatedAt = sample_now\<rparr>],
     hs_Control = \<lparr>co_Revision = 5, co_MonitoringPaused = False, co_ManualBlock = True\<rparr>\<rparr>"

definition answering :: "HeartbeatResponse \<Rightarrow> HeartbeatEnv" where
  "answering r = \<lparr>hv_db = (\<lambda>_. True), hv_exchange = (\<lambda>_. Response 200
     \<lparr>bd_document = Some r, bd_trailing = False, bd_error = None\<rparr>)\<rparr>"

definition unreachable :: HeartbeatEnv where
  "unreachable = \<lparr>hv_db = (\<lambda>_. True), hv_exchange = (\<lambda>_. NoResponse ''no route for tok-en-012345'')\<rparr>"

definition sample_request :: HeartbeatRequest where
  "sample_request = \<lparr>hr_PolicyRevision = 0, hr_ControlRevision = 0, hr_SessionStateRevision = 0,
     hr_LocalDate = ''2026-07-20'', hr_SecondsUsed = 0, hr_GraphicalSessionActive = True,
     hr_GraphicalSessionID = ''2'', hr_GraphicalSessionLocked = False, hr_RequestSessionState = True,
     hr_Events = [wire_of_event (sample_event ''b1'')], hr_CommandAcks = []\<rparr>"

lemma sample_readings:
  "LoadPolicy True sample_sync_store = Inl ErrNoPolicy"
  "LoadDailyUsage True ''2026-07-20'' sample_sync_store =
     Inr \<lparr>du_LocalDate = ''2026-07-20'', du_SecondsUsed = 0, du_CheckpointAt = zero_time\<rparr>"
  "PendingEvents True 100 sample_sync_store = Inr [sample_event ''b1'']"
  "AppliedCommandIDs True 100 sample_sync_store = Inr []"
  "json_valid (pe_PayloadJSON (sample_event ''b1''))"
  "local_date (fixed_zone 0) sample_now = ''2026-07-20''"
  "\<not> is_zero sample_now"
  "CurrentConfirmedSessionState sample_sync_store = None"
  by (code_simp, code_simp, simp add: PendingEvents_def sample_sync_store_def,
      simp add: AppliedCommandIDs_def sample_sync_store_def empty_database_def, code_simp+)

lemma sample_build: "hv_db env = (\<lambda>_. True) \<Longrightarrow>
    build_request (fixed_zone 0) env sample_now sample_client = (Inr (sample_request, [sample_event ''b1'']), sample_client)"
  by (simp add: build_request_def andThen_def run_simps local_revision_def reading_def on_client_store_def
      wrap_error_def sample_client_def sample_readings Let_def sample_request_def session_state_wanted_def)

lemma sample_store_fields: "sc_store sample_client = sample_sync_store"
  by (simp add: sample_client_def)

definition sample_s1 :: Store where "sample_s1 = snd (AcknowledgeEvent True ''b1'' sample_sync_store)"

definition sample_s3 :: Store where
  "sample_s3 = snd (ReplacePolicy True (fromProtocolPolicy sample_wire_policy) sample_s1)"

definition sample_s4 :: Store where
  "sample_s4 = snd (SaveConfirmedSessionState True (confirmed_of (the (hs_SessionState sample_response))) sample_s3)"

definition sample_s5 :: Store where
  "sample_s5 = snd (applyCommand True (hd (hs_Commands sample_response)) 5 ''2026-07-20'' sample_now sample_s4)"

definition sample_s6 :: Store where
  "sample_s6 = snd (applyCommand True (hs_Commands sample_response ! 1) 5 ''2026-07-20'' sample_now sample_s5)"

lemma sample_bonus_command: "read_credit (wc_Payload (hd (hs_Commands sample_response))) =
    Some \<lparr>ci_UUID = ''c1'', ci_Seconds = 900, ci_Origin = ''web'', ci_CreatedAt = sample_now\<rparr>"
proof -
  have "printable_day (sample_now div day)" "plain_text ''c1''" by code_simp+
  then show ?thesis
    by (simp add: sample_response_def read_credit_text in64_def)
qed

lemma sample_steps_ok:
  "fst (AcknowledgeEvent True ''b1'' sample_sync_store) = Inr ()"
  "fst (ReplacePolicy True (fromProtocolPolicy sample_wire_policy) sample_s1) = Inr ()"
  "balance_error sample_request sample_response = None"
  by code_simp+

lemma sample_step4: "fst (SaveConfirmedSessionState True (confirmed_of (the (hs_SessionState sample_response))) sample_s3) = Inr ()"
  by code_simp

lemma sample_step5:
  "fst (applyCommand True (hd (hs_Commands sample_response)) 5 ''2026-07-20'' sample_now s) = Inr ()"
proof -
  have "wc_ID (hd (hs_Commands sample_response)) = ''c1''" "wc_Kind (hd (hs_Commands sample_response)) = ''add_bonus''"
    "wc_CreatedAt (hd (hs_Commands sample_response)) = sample_now" by (simp_all add: sample_response_def)
  moreover have "\<not> validControlKind ''add_bonus''" "validateLocalDate ''2026-07-20'' = None" by code_simp+
  ultimately show ?thesis
    using sample_readings(7)
    by (simp add: applyCommand_def command_bonus_def sample_bonus_command ApplyRemoteBonus_def
        validateBonus_def Let_def wrap_error_def)
qed

lemma sample_step6:
  "fst (applyCommand True (hs_Commands sample_response ! 1) 5 ''2026-07-20'' sample_now s) = Inr ()"
proof -
  have "validControlKind ''block_now''" by code_simp
  then show ?thesis
    using sample_readings(7)
    by (simp add: applyCommand_def sample_response_def StageControlEffect_def wrap_error_def)
qed

lemma pair_of_fst: "fst x = a \<Longrightarrow> x = (a, snd x)"
  by (cases x) simp

lemma sample_install:
  "fst (install_response (answering sample_response) sample_request sample_now sample_response sample_client) = Inr ()"
proof -
  define x where "x = hd (hs_Commands sample_response)"
  define y where "y = hs_Commands sample_response ! 1"
  have commands: "hs_Commands sample_response = [x, y]"
    by (simp add: x_def y_def sample_response_def)
  obtain w where w: "hs_SessionState sample_response = Some w"
    by (simp add: sample_response_def)
  note steps = sample_steps_ok(1,2)[THEN pair_of_fst, folded sample_s1_def sample_s3_def]
    sample_step4 [THEN pair_of_fst, folded sample_s4_def]
  have fields: "hs_AcknowledgedEvents sample_response = [''b1'']" "hs_AcknowledgedCommands sample_response = []"
    "hs_Policy sample_response = Some sample_wire_policy"
    "co_Revision (hs_Control sample_response) = 5" "hv_db (answering sample_response) = (\<lambda>_. True)"
    "hr_LocalDate sample_request = ''2026-07-20''"
    by (simp_all add: sample_response_def answering_def sample_request_def)
  obtain s5 where s5: "applyCommand True x 5 ''2026-07-20'' sample_now sample_s4 = (Inr (), s5)"
    using sample_step5 [THEN pair_of_fst] unfolding x_def by blast
  obtain s6 where s6: "applyCommand True y 5 ''2026-07-20'' sample_now s5 = (Inr (), s6)"
    using sample_step6 [THEN pair_of_fst] unfolding y_def by blast
  show ?thesis
    using steps s5 s6 by (simp add: install_response_def fields commands w andThen_def run_simps
        on_client_store_def sample_store_fields wrap_error_def ForgetAppliedCommandIDs_def sample_steps_ok(3))
qed

lemma sample_heartbeat: "fst (Heartbeat (fixed_zone 0) (answering sample_response) sample_now sample_client)
    = Inr sample_response"
proof -
  have "answering sample_response = \<lparr>hv_db = (\<lambda>_. True), hv_exchange = (\<lambda>_. Response 200
     \<lparr>bd_document = Some sample_response, bd_trailing = False, bd_error = None\<rparr>)\<rparr>"
    by (simp add: answering_def)
  then have exchange: "exchange_request (answering sample_response) q p c = (Inr sample_response, c)" for q p c
    by (simp add: exchange_request_def decodeHeartbeatResponse_def run_simps)
  have "hv_db (answering sample_response) = (\<lambda>_. True)" by (simp add: answering_def)
  note build = sample_build [OF this]
  obtain c' where "install_response (answering sample_response) sample_request sample_now
      sample_response sample_client = (Inr (), c')"
    using sample_install [THEN pair_of_fst] by blast
  with build exchange show ?thesis
    by (simp add: Heartbeat_def andThen_def run_simps)
qed

lemma sample_heartbeat_run: "Heartbeat (fixed_zone 0) (answering sample_response) sample_now sample_client
    = (Inr sample_response, snd (Heartbeat (fixed_zone 0) (answering sample_response) sample_now sample_client))"
  using sample_heartbeat by (rule pair_of_fst)

lemma sample_store_ok: "store_inv sample_sync_store" "confirmed_coherent sample_sync_store"
proof -
  have "policy_tables_ok empty_database" "loadPolicyFromDatabase empty_database = Inl ErrNoPolicy"
    by (simp_all add: policy_tables_ok_def empty_database_def loadPolicyFromDatabase_def)
  then show "store_inv sample_sync_store" "confirmed_coherent sample_sync_store"
    by (simp_all add: store_inv_def sample_sync_store_def confirmed_coherent_def cache_coherent_def
        policy_tables_ok_def state_tables_ok_def empty_database_def loadPolicyFromDatabase_def
        sample_bonus_def sample_event_def tbl_keyed_def)
qed

section \<open>A heartbeat is a run of the store\<close>

text \<open>C28: Whatever way a heartbeat ends - a refused or failed exchange, a response that cannot be
  installed, a database that stops serving half way - the agent's store afterwards is the one
  before after operations of the store each of which is a retry count or comes from the response
  the exchange yielded. So the schema's constraints hold, reopening the database gives the same
  store, and neither the policy revision nor the durable usage of any date went back.\<close>

theorem heartbeat_is_a_store_run:
  assumes "Heartbeat loc env now c = (r, c')"
    and "store_inv (sc_store c)" and "confirmed_coherent (sc_store c)"
  shows "(\<exists>ops. list_all (heartbeat_op (heartbeat_answer loc env now c)) ops
            \<and> sc_store c' = run_store ops (sc_store c))
    \<and> store_inv (sc_store c') \<and> OpenStore True (st_db (sc_store c')) = Inr (sc_store c')
    \<and> stored_revision (sc_store c) \<le> stored_revision (sc_store c')
    \<and> (\<forall>date. durable_seconds date (st_db (sc_store c)) \<le> durable_seconds date (st_db (sc_store c')))"
proof -
  from Heartbeat_as_run [OF assms(1)] obtain ops
    where ops: "list_all (heartbeat_op (heartbeat_answer loc env now c)) ops"
      and store: "sc_store c' = run_store ops (sc_store c)" by blast
  have typed: "list_all op_typed ops" "list_all op_refreshed ops"
    using ops by (auto simp: list_all_iff heartbeat_op_typed heartbeat_op_refreshed)
  have inv: "store_inv (sc_store c')" "confirmed_coherent (sc_store c')"
    unfolding store using store_inv_run confirmed_run assms(2,3) typed by blast+
  note no_reset = heartbeat_op_no_reset [OF ops, of "sc_store c"]
  show ?thesis
    using ops store inv reopen_same [OF inv] revision_run [OF no_reset] durable_run [OF no_reset]
    by metis
qed

lemma heartbeat_is_a_store_run_witness:
  "store_inv (sc_store (snd (Heartbeat (fixed_zone 0) (answering sample_response) sample_now sample_client)))"
  using heartbeat_is_a_store_run [OF sample_heartbeat_run] sample_store_ok
  by (simp add: sample_store_fields)

section \<open>Events are delivered at least once\<close>

text \<open>The event is still queued; at most its retry count grew.\<close>

definition event_kept :: "PendingEvent \<Rightarrow> Database \<Rightarrow> bool" where
  "event_kept e db \<longleftrightarrow> list_ex (\<lambda>e'. e'\<lparr>pe_RetryCount := pe_RetryCount e\<rparr> = e
     \<and> pe_RetryCount e \<le> pe_RetryCount e') (pending_event db)"

lemma event_kept_same: "pending_event db' = pending_event db \<Longrightarrow> event_kept e db' = event_kept e db"
  by (simp add: event_kept_def)

lemma event_kept_step:
  assumes "event_kept e (st_db s)" and "heartbeat_op answer op"
    and "\<And>result. answer = Some result \<Longrightarrow> pe_UUID e \<notin> set (hs_AcknowledgedEvents result)"
  shows "event_kept e (st_db (store_step op s))"
proof -
  have pol: "pending_event (st_db (snd (ReplacePolicy io p s))) = pending_event (st_db s)" for io p
    by (cases rule: ReplacePolicy_cases [of io p s]) (simp_all add: write_policy_def)
  from assms(1) obtain e' where e': "e' \<in> set (pending_event (st_db s))"
    "e'\<lparr>pe_RetryCount := pe_RetryCount e\<rparr> = e" "pe_RetryCount e \<le> pe_RetryCount e'"
    by (auto simp: event_kept_def list_ex_iff)
  from e'(2) have "pe_UUID (e'\<lparr>pe_RetryCount := pe_RetryCount e\<rparr>) = pe_UUID e" by (rule arg_cong)
  then have uuid: "pe_UUID e' = pe_UUID e" by simp
  have kept: "event_kept e db" if "x \<in> set (pending_event db)" "x\<lparr>pe_RetryCount := pe_RetryCount e\<rparr> = e"
    "pe_RetryCount e \<le> pe_RetryCount x" for x db
    using that by (auto simp: event_kept_def list_ex_iff)
  show ?thesis
  proof (cases op)
    case (OpIncrementRetries io us)
    let ?bump = "\<lambda>e. e\<lparr>pe_RetryCount := pe_RetryCount e + 1\<rparr>"
    have "event_kept e (db\<lparr>pending_event := tbl_update hit ?bump (pending_event (st_db s))\<rparr>)" for hit db
      using kept [of "if hit e' then ?bump e' else e'"] e' by (auto simp: tbl_update_def)
    then show ?thesis
      using assms(1) by (simp add: OpIncrementRetries IncrementEventRetries_def Let_def split: option.split)
  next
    case (OpAcknowledgeEvent io u)
    with assms(2,3) have "u \<noteq> pe_UUID e" by (auto simp: heartbeat_op_def)
    with e' uuid have "e' \<in> set (tbl_delete (\<lambda>x. pe_UUID x = u) (pending_event (st_db s)))"
      by (simp add: tbl_delete_def)
    then have "event_kept e (db\<lparr>pending_event := tbl_delete (\<lambda>x. pe_UUID x = u) (pending_event (st_db s))\<rparr>)" for db
      using kept e' by simp
    with assms(1) show ?thesis by (simp add: OpAcknowledgeEvent AcknowledgeEvent_def)
  next
    case (OpReplacePolicy io p)
    with assms(1) event_kept_same [OF pol] show ?thesis by simp
  next
    case (OpSaveConfirmed io st)
    have "pending_event (st_db (snd (SaveConfirmedSessionState io st s))) = pending_event (st_db s)"
      by (simp add: SaveConfirmedSessionState_def upsert_usage_def Let_def split: option.split)
    from event_kept_same [OF this] assms(1) show ?thesis by (simp add: OpSaveConfirmed)
  next
    case (OpApplyRemoteBonus io i b now)
    have "pending_event (st_db (snd (ApplyRemoteBonus io i b now s))) = pending_event (st_db s)"
      by (simp add: ApplyRemoteBonus_def record_applied_def Let_def split: option.split)
    from event_kept_same [OF this] assms(1) show ?thesis by (simp add: OpApplyRemoteBonus)
  next
    case (OpStageControl io i r k now)
    have "pending_event (st_db (snd (StageControlEffect io i r k now s))) = pending_event (st_db s)"
      by (simp add: StageControlEffect_def)
    from event_kept_same [OF this] assms(1) show ?thesis by (simp add: OpStageControl)
  next
    case (OpForgetApplied io ids)
    have "pending_event (st_db (snd (ForgetAppliedCommandIDs io ids s))) = pending_event (st_db s)"
      by (simp add: ForgetAppliedCommandIDs_def)
    from event_kept_same [OF this] assms(1) show ?thesis by (simp add: OpForgetApplied)
  qed (use assms(2) in \<open>simp_all add: heartbeat_op_def\<close>)
qed

lemma event_kept_run:
  assumes "\<And>result. answer = Some result \<Longrightarrow> pe_UUID e \<notin> set (hs_AcknowledgedEvents result)"
  shows "event_kept e (st_db s) \<Longrightarrow> list_all (heartbeat_op answer) ops \<Longrightarrow>
    event_kept e (st_db (run_store ops s))"
proof (induction ops arbitrary: s)
  case (Cons x ops)
  have "event_kept e (st_db (store_step x s))"
    using Cons.prems by (intro event_kept_step [OF _ _ assms]) simp_all
  with Cons show ?case by simp
qed simp

text \<open>C29: A queued event leaves the queue only when the server acknowledged it: after a heartbeat
  that failed in any way, or whose response does not name the event, the event is still queued
  with its payload and its creation time, and only its retry count may have grown.\<close>

theorem events_removed_only_when_acknowledged:
  assumes "Heartbeat loc env now c = (r, c')"
    and "e \<in> set (pending_event (st_db (sc_store c)))"
    and "\<forall>result. heartbeat_answer loc env now c = Some result \<longrightarrow>
           pe_UUID e \<notin> set (hs_AcknowledgedEvents result)"
  shows "event_kept e (st_db (sc_store c'))"
proof -
  have "event_kept e (st_db (sc_store c))"
    using assms(2) by (auto simp: event_kept_def list_ex_iff intro!: bexI [of _ e])
  with Heartbeat_as_run [OF assms(1)] event_kept_run assms(3) show ?thesis by metis
qed

lemma unreachable_answer: "heartbeat_answer loc unreachable now c = None"
  by (simp add: heartbeat_answer_def answer_of_def unreachable_def split: sum.split prod.split)

lemma events_removed_only_when_acknowledged_witness:
  "event_kept (sample_event ''b1'') (st_db (sc_store (snd (Heartbeat (fixed_zone 0) unreachable sample_now sample_client))))"
proof (rule events_removed_only_when_acknowledged [OF prod.collapse [symmetric]])
  show "sample_event ''b1'' \<in> set (pending_event (st_db (sc_store sample_client)))"
    by (simp add: sample_client_def sample_sync_store_def)
qed (simp add: unreachable_answer)

section \<open>What success and failure leave behind\<close>

text \<open>A request that was built changed nothing.\<close>

lemma reading_same: "reading f c = (r, c') \<Longrightarrow> c' = c"
  by (auto simp: reading_def on_client_store_def)

lemma local_revision_same: "local_revision env c = (r, c') \<Longrightarrow> c' = c"
  by (auto simp: local_revision_def split: sum.splits if_splits)

lemma collect_events_same: "collect_events env es c = (Inr u, c') \<Longrightarrow> c' = c"
  by (induction es arbitrary: u) (auto simp: run_simps andThen_def ignoring_def split: if_splits)

lemma build_request_same:
  "build_request loc env now c = (Inr (request, pending), c') \<Longrightarrow> c' = c"
  unfolding build_request_def Let_def
  by (auto elim!: andThen_InrE dest!: reading_same local_revision_same collect_events_same
      simp: run_simps split: if_splits)

definition installed_balance :: "SessionState \<Rightarrow> Store \<Rightarrow> ConfirmedSessionState" where
  "installed_balance st s = (confirmed_of st)\<lparr>cs_RemainingSeconds := wrap64 (ws_RemainingSeconds st
     + pending_local_bonus (ws_LocalDate st) (st_db s))\<rparr>"

definition sorted_routines :: "PolicySnapshot \<Rightarrow> PolicySnapshot" where
  "sorted_routines p = p\<lparr>ps_Routines := sort_key sr_ID (ps_Routines p)\<rparr>"

lemma ReplacePolicy_Inr:
  assumes "ReplacePolicy io p s = (Inr (), s')"
  shows "pending_event (st_db s') = pending_event (st_db s) \<and> ps_Revision p \<le> stored_revision s'
    \<and> (stored_revision s < ps_Revision p \<longrightarrow> st_cachedPolicy s' = Some (sorted_routines p))
    \<and> (ps_Revision p \<le> stored_revision s \<longrightarrow> s' = s)
    \<and> pending_local_bonus d (st_db s') = pending_local_bonus d (st_db s)
    \<and> pending_control_effect (st_db s') = pending_control_effect (st_db s)"
proof (cases rule: ReplacePolicy_cases [of io p s])
  case (error e)
  with assms show ?thesis by simp
next
  case same
  with assms show ?thesis by (simp add: stored_revision_def)
next
  case replaced
  from replaced(2) have "0 \<le> ps_Revision p" by (simp add: validatePolicy_None)
  with replaced(3) have "stored_revision s < ps_Revision p"
    by (auto simp: stored_revision_def)
  with replaced assms show ?thesis
    by (auto simp: write_policy_def sorted_routines_def stored_revision_def policyRevision_def
        policy_row_def pending_local_bonus_def)
qed

lemma Forget_Inr:
  assumes "ForgetAppliedCommandIDs io ids s = (Inr (), s')"
  shows "s' = s\<lparr>st_db := (st_db s)\<lparr>applied_command := fold (\<lambda>i. tbl_delete (\<lambda>a. ap_id a = i)) ids
    (applied_command (st_db s))\<rparr>\<rparr>"
  using assms by (cases ids) (auto simp: ForgetAppliedCommandIDs_def split: if_splits)

lemma SaveConfirmed_Inr:
  assumes "SaveConfirmedSessionState io (confirmed_of st) s = (Inr (), s')"
  shows "s' = s\<lparr>st_db := (upsert_usage \<lparr>du_LocalDate = ws_LocalDate st, du_SecondsUsed = ws_UsageSeconds st,
      du_CheckpointAt = ws_ConfirmedAt st\<rparr> (st_db s))\<lparr>confirmed_session_state := Some (installed_balance st s)\<rparr>,
      st_confirmed := Some (installed_balance st s)\<rparr>"
  using assms
  by (simp add: SaveConfirmedSessionState_def confirmed_of_def installed_balance_def Let_def
      split: option.splits if_splits)



section \<open>A response delivered twice\<close>

text \<open>Everything but the control effect that waits for completion, which is compared on its own.\<close>

definition durable_view :: "Store \<Rightarrow> Store" where
  "durable_view s = s\<lparr>st_db := (st_db s)\<lparr>pending_control_effect := None\<rparr>\<rparr>"

lemma durable_view_eq:
  assumes "durable_view s' = durable_view s"
  shows "s' = s\<lparr>st_db := (st_db s)\<lparr>pending_control_effect := pending_control_effect (st_db s')\<rparr>\<rparr>"
proof -
  have "st_db s' = (st_db s)\<lparr>pending_control_effect := pending_control_effect (st_db s')\<rparr>"
  proof -
    have "(st_db s')\<lparr>pending_control_effect := None\<rparr> = (st_db s)\<lparr>pending_control_effect := None\<rparr>"
      using assms by (simp add: durable_view_def) (metis Store.select_convs(1) Store.surjective Store.update_convs(1))
    then show ?thesis by (cases "st_db s'"; cases "st_db s") simp
  qed
  with assms show ?thesis by (cases s'; cases s) (simp add: durable_view_def)
qed

lemma last_control_again:
  "last_control revn now' cmds (last_control revn now cmds before) =
     (if list_ex (\<lambda>cmd. validControlKind (wc_Kind cmd)) cmds
      then map_option (\<lambda>e. e\<lparr>ce_ReceivedAt := now'\<rparr>) (last_control revn now cmds before)
      else last_control revn now cmds before)"
proof -
  have "last_control revn t cmds x =
      (case find (\<lambda>cmd. validControlKind (wc_Kind cmd)) (rev cmds) of None \<Rightarrow> x
       | Some cmd \<Rightarrow> Some \<lparr>ce_CommandID = wc_ID cmd, ce_Revision = revn, ce_Kind = wc_Kind cmd, ce_ReceivedAt = t\<rparr>)"
    for t x
    by (induction cmds rule: rev_induct) (simp_all add: last_control_def)
  moreover have "find (\<lambda>cmd. validControlKind (wc_Kind cmd)) (rev cmds) = None \<longleftrightarrow>
      \<not> list_ex (\<lambda>cmd. validControlKind (wc_Kind cmd)) cmds"
    by (auto simp: find_None_iff list_ex_iff)
  ultimately show ?thesis by (auto split: option.split)
qed

lemma run_commands_again:
  assumes "\<forall>cmd\<in>set cmds. wc_Kind cmd = ''add_bonus'' \<longrightarrow> tbl_has ap_id (wc_ID cmd) (applied_command (st_db s))"
    and "run_commands env k revn localDate now cmds s = (Inr (), s')"
  shows "durable_view s' = durable_view s"
  using assms
proof (induction cmds arbitrary: k s)
  case (Cons cmd cmds)
  obtain u s1 where one: "applyCommand (hv_db env (CallCommand k)) cmd revn localDate now s = (Inr u, s1)"
    and rest: "run_commands env (Suc k) revn localDate now cmds s1 = (Inr (), s')"
    using Cons.prems by (auto split: prod.splits sum.splits)
  have "\<exists>eff. s1 = s\<lparr>st_db := (st_db s)\<lparr>pending_control_effect := eff\<rparr>\<rparr>"
  proof (cases "validControlKind (wc_Kind cmd)")
    case True
    with one show ?thesis
      by (auto simp: applyCommand_def StageControlEffect_def wrap_error_def split: if_splits)
  next
    case False
    with one have kind: "wc_Kind cmd = ''add_bonus''" by (auto simp: applyCommand_def split: if_splits)
    with Cons.prems(1) have "tbl_has ap_id (wc_ID cmd) (applied_command (st_db s))" by simp
    with one False kind have "s1 = s"
      by (auto simp: applyCommand_def ApplyRemoteBonus_def record_applied_def tbl_insert_ignore_def
          wrap_error_def Let_def split: if_splits option.splits)
    then show ?thesis by (intro exI [of _ "pending_control_effect (st_db s)"]) simp
  qed
  then obtain eff where s1: "s1 = s\<lparr>st_db := (st_db s)\<lparr>pending_control_effect := eff\<rparr>\<rparr>" by blast
  with Cons.prems(1) have "durable_view s' = durable_view s1"
    by (intro Cons.IH [OF _ rest]) simp
  then show ?case by (simp add: s1 durable_view_def)
qed simp

lemma delete_ids_again:
  "fold (\<lambda>i. tbl_delete (\<lambda>a. ap_id a = i)) ids t = tbl_delete (\<lambda>a. ap_id a \<in> set ids) t"
proof (induction ids arbitrary: t)
  case (Cons i ids)
  then show ?case by (simp add: tbl_delete_def conj_commute)
qed (simp add: tbl_delete_def)

lemma tbl_delete_none: "\<forall>x\<in>set t. \<not> p x \<Longrightarrow> tbl_delete p t = t"
  by (simp add: tbl_delete_def)

lemma upsert_usage_again:
  assumes "tbl_find du_LocalDate (du_LocalDate u) t = Some x" and "tbl_keyed du_LocalDate t"
    and "usage_merge x u = x"
  shows "tbl_upsert du_LocalDate usage_merge u t = t"
proof -
  have "(if du_LocalDate y = du_LocalDate u then usage_merge y u else y) = y" if "y \<in> set t" for y
    using tbl_find_keyed [OF assms(2) that] assms(1,3) by auto
  moreover have "tbl_has du_LocalDate (du_LocalDate u) t" using assms(1) by (simp add: tbl_has_find)
  ultimately show ?thesis by (simp add: tbl_upsert_def map_idI)
qed

lemma usage_merge_again: "usage_merge (usage_merge x u) u = usage_merge x u"
  by (simp add: usage_merge_def)

lemma run_commands_applied:
  "run_commands env k revn localDate now cmds s = (r, s') \<Longrightarrow> a \<in> set (applied_command (st_db s')) \<Longrightarrow>
     a \<in> set (applied_command (st_db s)) \<or> ap_id a \<in> wc_ID ` set cmds"
proof (induction cmds arbitrary: k s)
  case (Cons cmd cmds)
  obtain x s1 where one: "applyCommand (hv_db env (CallCommand k)) cmd revn localDate now s = (x, s1)"
    by fastforce
  have step: "b \<in> set (applied_command (st_db s1)) \<Longrightarrow>
      b \<in> set (applied_command (st_db s)) \<or> ap_id b = wc_ID cmd" for b
    using one
    by (auto simp: applyCommand_def ApplyRemoteBonus_def StageControlEffect_def record_applied_def Let_def
        set_tbl_insert_ignore split: if_splits option.splits prod.splits)
  show ?case
  proof (cases x)
    case (Inl e)
    with one Cons.prems step show ?thesis by auto
  next
    case (Inr u)
    with one Cons.prems have "run_commands env (Suc k) revn localDate now cmds s1 = (r, s')" by simp
    from Cons.IH [OF this Cons.prems(2)] step show ?thesis by auto
  qed
qed simp

text \<open>Redelivering a response to the store it left behind, with nothing granted or checkpointed
  in between.\<close>

lemma redelivery_stages:
  assumes keyed: "tbl_keyed du_LocalDate (daily_usage (st_db (sc_store c)))"
    and first: "install_response env request now result c = (Inr (), c1)"
    and again: "install_response env' request' now' result c1 = (Inr (), c2)"
    and apart: "set (hs_AcknowledgedCommands result) \<inter> wc_ID ` set (hs_Commands result) = {}"
  shows "sc_store c2 = (sc_store c1)\<lparr>st_db := (st_db (sc_store c1))\<lparr>pending_control_effect :=
     if list_ex (\<lambda>cmd. validControlKind (wc_Kind cmd)) (hs_Commands result)
     then map_option (\<lambda>e. e\<lparr>ce_ReceivedAt := now'\<rparr>) (pending_control_effect (st_db (sc_store c1)))
     else pending_control_effect (st_db (sc_store c1))\<rparr>\<rparr>"
proof -
  define t where "t = sc_store c1"
  obtain s1 s2 s3 s4 where s1: "s1 = (sc_store c)\<lparr>st_db := (st_db (sc_store c))\<lparr>pending_event :=
       tbl_delete (\<lambda>e. pe_UUID e \<in> set (hs_AcknowledgedEvents result)) (pending_event (st_db (sc_store c)))\<rparr>\<rparr>"
    and s2: "ForgetAppliedCommandIDs (hv_db env CallForget) (hs_AcknowledgedCommands result) s1 = (Inr (), s2)"
    and s3: "case hs_Policy result of None \<Rightarrow> s3 = s2
      | Some p \<Rightarrow> ReplacePolicy (hv_db env CallReplace) (fromProtocolPolicy p) s2 = (Inr (), s3)"
    and s4: "case hs_SessionState result of None \<Rightarrow> s4 = s3
      | Some st \<Rightarrow> SaveConfirmedSessionState (hv_db env CallConfirm) (confirmed_of st) s3 = (Inr (), s4)"
    and t: "run_commands env 0 (co_Revision (hs_Control result)) (hr_LocalDate request) now
      (hs_Commands result) s4 = (Inr (), t)"
    using install_response_InrE [OF first] unfolding t_def by metis
  obtain t1 t2 t3 t4 where t1: "t1 = t\<lparr>st_db := (st_db t)\<lparr>pending_event :=
       tbl_delete (\<lambda>e. pe_UUID e \<in> set (hs_AcknowledgedEvents result)) (pending_event (st_db t))\<rparr>\<rparr>"
    and t2: "ForgetAppliedCommandIDs (hv_db env' CallForget) (hs_AcknowledgedCommands result) t1 = (Inr (), t2)"
    and t3: "case hs_Policy result of None \<Rightarrow> t3 = t2
      | Some p \<Rightarrow> ReplacePolicy (hv_db env' CallReplace) (fromProtocolPolicy p) t2 = (Inr (), t3)"
    and t4: "case hs_SessionState result of None \<Rightarrow> t4 = t3
      | Some st \<Rightarrow> SaveConfirmedSessionState (hv_db env' CallConfirm) (confirmed_of st) t3 = (Inr (), t4)"
    and t5: "run_commands env' 0 (co_Revision (hs_Control result)) (hr_LocalDate request') now'
      (hs_Commands result) t4 = (Inr (), sc_store c2)"
    using install_response_InrE [OF again] unfolding t_def by metis
  obtain bs ids eff where upd: "t = command_update bs ids eff s4"
    using run_commands_blind [OF t] unfolding command_blind_def by blast
  note blind = command_blind_props [OF run_commands_blind [OF t]]
  have s3': "pending_event (st_db s3) = pending_event (st_db s1)"
      "applied_command (st_db s3) = applied_command (st_db s2)"
      "daily_usage (st_db s3) = daily_usage (st_db (sc_store c))"
  proof -
    have "pending_event (st_db s3) = pending_event (st_db s2) \<and> applied_command (st_db s3) = applied_command (st_db s2)
       \<and> daily_usage (st_db s3) = daily_usage (st_db s2)"
    proof (cases "hs_Policy result")
      case (Some p)
      then show ?thesis using s3
        by (cases rule: ReplacePolicy_cases [of "hv_db env CallReplace" "fromProtocolPolicy p" s2])
          (auto simp: write_policy_def)
    qed (use s3 in simp)
    then show "pending_event (st_db s3) = pending_event (st_db s1)"
      "applied_command (st_db s3) = applied_command (st_db s2)"
      "daily_usage (st_db s3) = daily_usage (st_db (sc_store c))"
      by (simp_all add: Forget_Inr [OF s2] s1)
  qed
  have s4': "pending_event (st_db s4) = pending_event (st_db s3) \<and> applied_command (st_db s4) = applied_command (st_db s3)
      \<and> stored_revision s4 = stored_revision s3
      \<and> (\<forall>d. pending_local_bonus d (st_db s4) = pending_local_bonus d (st_db s3))"
  proof (cases "hs_SessionState result")
    case (Some st)
    with s4 have "SaveConfirmedSessionState (hv_db env CallConfirm) (confirmed_of st) s3 = (Inr (), s4)" by simp
    from SaveConfirmed_Inr [OF this] show ?thesis
      by (simp add: upsert_usage_def pending_local_bonus_def stored_revision_def policyRevision_def)
  qed (use s4 in simp)
  have "\<forall>e\<in>set (pending_event (st_db t)). pe_UUID e \<notin> set (hs_AcknowledgedEvents result)"
    by (simp add: blind(3) s4' s3' s1 set_tbl_delete)
  then have "t1 = t" by (simp add: t1 tbl_delete_none)
  moreover have "\<forall>a\<in>set (applied_command (st_db t)). ap_id a \<notin> set (hs_AcknowledgedCommands result)"
  proof
    fix a assume "a \<in> set (applied_command (st_db t))"
    from run_commands_applied [OF t this] show "ap_id a \<notin> set (hs_AcknowledgedCommands result)"
      using apart by (auto simp: s4' s3' Forget_Inr [OF s2] delete_ids_again set_tbl_delete)
  qed
  ultimately have t2': "t2 = t"
    using Forget_Inr [OF t2] by (simp add: delete_ids_again tbl_delete_none)
  have "t3 = t"
  proof (cases "hs_Policy result")
    case (Some p)
    with s3 have "ReplacePolicy (hv_db env CallReplace) (fromProtocolPolicy p) s2 = (Inr (), s3)" by simp
    from ReplacePolicy_Inr [OF this] have "ps_Revision (fromProtocolPolicy p) \<le> stored_revision t"
      by (simp add: blind(5) s4')
    moreover from t3 Some have "ReplacePolicy (hv_db env' CallReplace) (fromProtocolPolicy p) t = (Inr (), t3)"
      by (simp add: t2')
    ultimately show ?thesis using ReplacePolicy_Inr by blast
  qed (use t3 t2' in simp)
  moreover have "t4 = t3"
  proof (cases "hs_SessionState result")
    case (Some st)
    define u where "u = \<lparr>du_LocalDate = ws_LocalDate st, du_SecondsUsed = ws_UsageSeconds st,
      du_CheckpointAt = ws_ConfirmedAt st\<rparr>"
    from s4 Some have "SaveConfirmedSessionState (hv_db env CallConfirm) (confirmed_of st) s3 = (Inr (), s4)" by simp
    note saved = SaveConfirmed_Inr [OF this, folded u_def]
    from t4 Some have "SaveConfirmedSessionState (hv_db env' CallConfirm) (confirmed_of st) t3 = (Inr (), t4)" by simp
    note saved' = SaveConfirmed_Inr [OF this, folded u_def]
    have balance: "installed_balance st t = installed_balance st s3"
      by (simp add: installed_balance_def blind(4) s4')
    have usage: "daily_usage (st_db t) = tbl_upsert du_LocalDate usage_merge u (daily_usage (st_db s3))"
      by (simp add: upd command_update_def saved upsert_usage_def)
    have find: "tbl_find du_LocalDate (du_LocalDate u) (daily_usage (st_db t)) =
        Some (case tbl_find du_LocalDate (du_LocalDate u) (daily_usage (st_db s3)) of None \<Rightarrow> u | Some x \<Rightarrow> usage_merge x u)"
      unfolding usage by (rule usage_table.find_upsert_same)
    have keyed': "tbl_keyed du_LocalDate (daily_usage (st_db t))"
      unfolding usage s3' using keyed by (rule usage_table.keyed_upsert)
    have "usage_merge u u = u" by (simp add: usage_merge_def)
    then have "tbl_upsert du_LocalDate usage_merge u (daily_usage (st_db t)) = daily_usage (st_db t)"
      by (intro upsert_usage_again [OF find keyed']) (simp add: usage_merge_again split: option.split)
    moreover have "confirmed_session_state (st_db t) = Some (installed_balance st s3)"
      "st_confirmed t = Some (installed_balance st s3)"
      by (simp_all add: upd command_update_def saved)
    ultimately show ?thesis
      by (simp add: saved' \<open>t3 = t\<close> balance upsert_usage_def)
  qed (use t4 in simp)
  ultimately have "t4 = t" by simp
  have "\<forall>cmd\<in>set (hs_Commands result). wc_Kind cmd = ''add_bonus'' \<longrightarrow> tbl_has ap_id (wc_ID cmd) (applied_command (st_db t))"
    using run_commands_records [OF t] by (simp add: tbl_has_iff)
  from durable_view_eq [OF run_commands_again [OF this t5 [unfolded \<open>t4 = t\<close>]]]
    run_commands_records [OF t5] run_commands_records [OF t] last_control_again
  show ?thesis by (simp add: \<open>t4 = t\<close> flip: t_def)
qed

text \<open>C31: A response that is delivered again right away - because its receipt was lost on the way
  back to the server - changes nothing the second time: every table and both caches of the
  agent's store are those after the first delivery, down to the order of the rows, with one
  exception. When the response carries a control command, the control effect waiting for
  completion is written once more, and the time it was received becomes that of the second
  delivery; its command, kind and revision stay. It is assumed that the response acknowledges no
  command that it also carries, and that nothing else writes to the store between the two
  deliveries.\<close>

theorem redelivered_response_changes_nothing:
  assumes "Heartbeat loc env now c = (Inr result, c1)"
    and "Heartbeat loc env' now' c1 = (Inr result, c2)"
    and "store_inv (sc_store c)"
    and "set (hs_AcknowledgedCommands result) \<inter> wc_ID ` set (hs_Commands result) = {}"
  shows "sc_store c2 = (sc_store c1)\<lparr>st_db := (st_db (sc_store c1))\<lparr>pending_control_effect :=
     if list_ex (\<lambda>cmd. validControlKind (wc_Kind cmd)) (hs_Commands result)
     then map_option (\<lambda>e. e\<lparr>ce_ReceivedAt := now'\<rparr>) (pending_control_effect (st_db (sc_store c1)))
     else pending_control_effect (st_db (sc_store c1))\<rparr>\<rparr>"
proof -
  have stages: "\<exists>request. install_response env request now result c = (Inr (), c')"
    if "Heartbeat loc env now c = (Inr result, c')" for env now c c'
    using that
  proof (cases rule: Heartbeat_cases)
    case (installed request pending c0 result')
    with build_request_same [OF installed(1)] show ?thesis by auto
  qed auto
  have keyed: "tbl_keyed du_LocalDate (daily_usage (st_db (sc_store c)))"
    using assms(3) by (simp add: store_inv_def state_tables_ok_def)
  obtain q q' where "install_response env q now result c = (Inr (), c1)"
    "install_response env' q' now' result c1 = (Inr (), c2)"
    using stages [OF assms(1)] stages [OF assms(2)] by blast
  from redelivery_stages [OF keyed this assms(4)] show ?thesis .
qed

text \<open>The sample: an agent without a session receives a bonus, twice.\<close>

definition bonus_response :: HeartbeatResponse where
  "bonus_response = sample_response\<lparr>hs_Policy := None, hs_SessionState := None,
     hs_Commands := [hd (hs_Commands sample_response)]\<rparr>"

definition quiet_client :: Client where
  "quiet_client = sample_client\<lparr>sc_sessionActive := False, sc_sessionID := []\<rparr>"

definition bonus_granted :: Bonus where
  "bonus_granted = \<lparr>bo_UUID = ''c1'', bo_LocalDate = ''2026-07-20'', bo_Seconds = 900, bo_Origin = ''web'',
     bo_CreatedAt = sample_now\<rparr>"

definition bonus_store :: Store where
  "bonus_store = sample_sync_store\<lparr>st_db := (st_db sample_sync_store)\<lparr>pending_event := [],
     bonus := [sample_bonus ''b1'' ''local'', bonus_granted],
     applied_command := [\<lparr>ap_id = ''c1'', ap_applied_at = sample_now\<rparr>]\<rparr>\<rparr>"

lemma bonus_command_step:
  assumes "ApplyRemoteBonus True ''c1'' bonus_granted sample_now s = (Inr (), s')"
  shows "applyCommand True (hd (hs_Commands sample_response)) n ''2026-07-20'' sample_now s = (Inr (), s')"
proof -
  have "wc_ID (hd (hs_Commands sample_response)) = ''c1''" "wc_Kind (hd (hs_Commands sample_response)) = ''add_bonus''"
    "wc_CreatedAt (hd (hs_Commands sample_response)) = sample_now" by (simp_all add: sample_response_def)
  moreover have "\<not> validControlKind ''add_bonus''" by code_simp
  ultimately show ?thesis
    using sample_readings(7) assms
    by (simp add: applyCommand_def command_bonus_def sample_bonus_command bonus_granted_def wrap_error_def)
qed

lemma bonus_apply:
  "ApplyRemoteBonus True ''c1'' bonus_granted sample_now
     (sample_sync_store\<lparr>st_db := (st_db sample_sync_store)\<lparr>pending_event := []\<rparr>\<rparr>) = (Inr (), bonus_store)"
  "ApplyRemoteBonus True ''c1'' bonus_granted sample_now bonus_store = (Inr (), bonus_store)"
proof -
  have "validateLocalDate ''2026-07-20'' = None" by code_simp
  then have "validateBonus bonus_granted = None"
    using sample_readings(7) by (simp add: validateBonus_def bonus_granted_def)
  then show "ApplyRemoteBonus True ''c1'' bonus_granted sample_now
     (sample_sync_store\<lparr>st_db := (st_db sample_sync_store)\<lparr>pending_event := []\<rparr>\<rparr>) = (Inr (), bonus_store)"
  "ApplyRemoteBonus True ''c1'' bonus_granted sample_now bonus_store = (Inr (), bonus_store)"
    using sample_readings(7)
    by (simp_all add: ApplyRemoteBonus_def bonus_store_def sample_sync_store_def record_applied_def
        tbl_insert_ignore_def tbl_has_def sample_bonus_def bonus_granted_def empty_database_def)
qed

lemma bonus_install:
  assumes "sc_store c \<in> {sample_sync_store, bonus_store}" and "hr_LocalDate request = ''2026-07-20''"
    and "\<not> hr_RequestSessionState request"
  shows "\<exists>c'. install_response (answering bonus_response) request sample_now bonus_response c = (Inr (), c')
     \<and> sc_store c' = bonus_store \<and> sc_sessionActive c' = sc_sessionActive c"
proof -
  let ?s1 = "\<lambda>s. s\<lparr>st_db := (st_db s)\<lparr>pending_event := []\<rparr>\<rparr>"
  have ack: "AcknowledgeEvent True ''b1'' s = (Inr (), ?s1 s)" if "s \<in> {sample_sync_store, bonus_store}" for s
    using that by (auto simp: AcknowledgeEvent_def sample_sync_store_def bonus_store_def tbl_delete_def sample_event_def)
  have cmd: "applyCommand True (hd (hs_Commands sample_response)) n ''2026-07-20'' sample_now (?s1 s) = (Inr (), bonus_store)"
    if "s \<in> {sample_sync_store, bonus_store}" for s n
  proof -
    have "?s1 bonus_store = bonus_store" by (simp add: bonus_store_def)
    with that bonus_apply have "ApplyRemoteBonus True ''c1'' bonus_granted sample_now (?s1 s) = (Inr (), bonus_store)"
      by auto
    then show ?thesis by (rule bonus_command_step)
  qed
  have fields: "hs_AcknowledgedEvents bonus_response = [''b1'']" "hs_AcknowledgedCommands bonus_response = []"
    "hs_Policy bonus_response = None" "hs_SessionState bonus_response = None"
    "hs_Commands bonus_response = [hd (hs_Commands sample_response)]"
    "hv_db (answering bonus_response) = (\<lambda>_. True)"
    by (simp_all add: bonus_response_def sample_response_def answering_def)
  have "balance_error request bonus_response = None"
    using assms(3) by (simp add: balance_error_def fields)
  then show ?thesis
    using assms(1,2) ack [OF assms(1)] cmd [OF assms(1)]
    by (simp add: install_response_def fields andThen_def run_simps on_client_store_def wrap_error_def
        ForgetAppliedCommandIDs_def) (simp add: setRemoteControl_def)
qed

lemma bonus_build:
  assumes "sc_store c \<in> {sample_sync_store, bonus_store}" and "\<not> sc_sessionActive c"
  shows "\<exists>request pending. build_request (fixed_zone 0) (answering bonus_response) sample_now c = (Inr (request, pending), c)
     \<and> hr_LocalDate request = ''2026-07-20'' \<and> \<not> hr_RequestSessionState request"
proof -
  have "validateLocalDate ''2026-07-20'' = None" by code_simp
  then have reads: "LoadDailyUsage True ''2026-07-20'' (sc_store c) =
      Inr \<lparr>du_LocalDate = ''2026-07-20'', du_SecondsUsed = 0, du_CheckpointAt = zero_time\<rparr>"
    "LoadPolicy True (sc_store c) = Inl ErrNoPolicy"
    "\<exists>es. PendingEvents True 100 (sc_store c) = Inr es \<and> set es \<subseteq> {sample_event ''b1''}"
    "\<exists>ids. AppliedCommandIDs True 100 (sc_store c) = Inr ids"
    using assms(1)
    by (auto simp: LoadDailyUsage_def LoadPolicy_def loadPolicyFromDatabase_def PendingEvents_def
        AppliedCommandIDs_def bonus_store_def sample_sync_store_def empty_database_def)
  then obtain es ids where es: "PendingEvents True 100 (sc_store c) = Inr es" "set es \<subseteq> {sample_event ''b1''}"
    and ids: "AppliedCommandIDs True 100 (sc_store c) = Inr ids" by blast
  from es(2) have "collect_events env es c = (Inr (), c)" for env
    by (induction es) (simp_all add: run_simps sample_readings(5))
  moreover have "hv_db (answering bonus_response) = (\<lambda>_. True)" by (simp add: answering_def)
  ultimately show ?thesis
    using assms(2) reads(1,2) es(1) ids
    by (simp add: build_request_def andThen_def run_simps local_revision_def reading_def on_client_store_def
        wrap_error_def sample_readings(6,7) Let_def session_state_wanted_def)
qed

lemma bonus_heartbeat:
  assumes "sc_store c \<in> {sample_sync_store, bonus_store}" and "\<not> sc_sessionActive c"
  shows "\<exists>c'. Heartbeat (fixed_zone 0) (answering bonus_response) sample_now c = (Inr bonus_response, c')
    \<and> sc_store c' = bonus_store \<and> \<not> sc_sessionActive c'"
proof -
  have exchange: "exchange_request (answering bonus_response) q p c = (Inr bonus_response, c)" for q p
    by (simp add: exchange_request_def answering_def decodeHeartbeatResponse_def run_simps)
  from bonus_build [OF assms] obtain q p
    where build: "build_request (fixed_zone 0) (answering bonus_response) sample_now c = (Inr (q, p), c)"
      and q: "hr_LocalDate q = ''2026-07-20''" "\<not> hr_RequestSessionState q" by blast
  from bonus_install [OF assms(1) q] obtain c' where
    "install_response (answering bonus_response) q sample_now bonus_response c = (Inr (), c')"
    "sc_store c' = bonus_store" "sc_sessionActive c' = sc_sessionActive c" by blast
  with build exchange assms(2) show ?thesis
    by (intro exI [of _ c']) (simp add: Heartbeat_def andThen_def run_simps)
qed

lemma redelivered_response_changes_nothing_witness:
  "\<exists>c1 c2. Heartbeat (fixed_zone 0) (answering bonus_response) sample_now quiet_client = (Inr bonus_response, c1)
     \<and> Heartbeat (fixed_zone 0) (answering bonus_response) sample_now c1 = (Inr bonus_response, c2)
     \<and> sc_store c2 = sc_store c1 \<and> bonus (st_db (sc_store c2)) \<noteq> []"
proof -
  have q: "sc_store quiet_client = sample_sync_store" "\<not> sc_sessionActive quiet_client"
    by (simp_all add: quiet_client_def sample_client_def)
  then obtain c1 where c1: "Heartbeat (fixed_zone 0) (answering bonus_response) sample_now quiet_client = (Inr bonus_response, c1)"
    "sc_store c1 = bonus_store" "\<not> sc_sessionActive c1"
    using bonus_heartbeat [of quiet_client] by auto
  then obtain c2 where c2: "Heartbeat (fixed_zone 0) (answering bonus_response) sample_now c1 = (Inr bonus_response, c2)"
    "sc_store c2 = bonus_store" using bonus_heartbeat [of c1] by auto
  have "set (hs_AcknowledgedCommands bonus_response) \<inter> wc_ID ` set (hs_Commands bonus_response) = {}"
    by (simp add: bonus_response_def sample_response_def)
  moreover have "\<not> list_ex (\<lambda>cmd. validControlKind (wc_Kind cmd)) (hs_Commands bonus_response)"
    by (simp add: bonus_response_def sample_response_def validControlKind_def)
  ultimately have "sc_store c2 = sc_store c1"
    using redelivered_response_changes_nothing [OF c1(1) c2(1)] sample_store_ok(1) q(1) by simp
  moreover have "bonus (st_db (sc_store c2)) \<noteq> []" by (simp add: c2(2) bonus_store_def)
  ultimately show ?thesis using c1(1) c2(1) by (intro exI [of _ c1] exI [of _ c2]) simp
qed

end
