(* ===== verification/SyncLoop.thy ===== *)
theory SyncLoop
  imports SyncProps "HOL-Library.Sublist"
begin

text \<open>
  The synchronization loop and the client's two interfaces to the rest of the agent: the cadence
  of attempts, the text of a transport failure, and the contract by which the daemon uses the
  client as its source of control.
\<close>

section \<open>No secret in a reported failure\<close>

lemma prefix_replaced:
  "CHR ''['' \<notin> set w \<Longrightarrow> prefix w (replace_all secret s) \<Longrightarrow> prefix w s"
proof (induction secret s arbitrary: w rule: replace_all.induct)
  case (2 secret c s)
  show ?case
  proof (cases "secret \<noteq> [] \<and> take (length secret) (c # s) = secret")
    case True
    with "2.prems" show ?thesis by (cases w) (auto simp: redaction_def)
  next
    case False
    with "2.prems" "2.IH"(2) [OF False] show ?thesis by (cases w) auto
  qed
qed simp

lemma bracketed_not_in_redaction:
  assumes "sublist secret redaction" and "CHR ''['' \<notin> set secret" and "CHR '']'' \<notin> set secret"
  shows "length secret \<le> 8"
proof -
  have "sublist secret ''REDACTED''"
  proof (cases secret)
    case (Cons c r)
    from assms(1) have "prefix secret redaction \<or> sublist secret ''REDACTED]''"
      by (simp add: redaction_def sublist_Cons_right)
    with assms(2) Cons have "sublist secret (''REDACTED'' @ '']'')" by (auto simp: redaction_def)
    then consider "sublist secret ''REDACTED''" | "sublist secret '']''"
      | x y where "secret = x @ y" "suffix x ''REDACTED''" "prefix y '']''"
      unfolding sublist_append by blast
    then show ?thesis
    proof cases
      case 2
      with assms(3) Cons show ?thesis by (auto simp: sublist_Cons_right)
    next
      case (3 x y)
      with assms(3) have "y = []" by (cases y) auto
      with 3 show ?thesis by (simp add: suffix_imp_sublist)
    qed
  qed simp
  then show ?thesis by (auto dest: sublist_length_le)
qed

lemma no_secret_left:
  assumes "8 < length secret" and "CHR ''['' \<notin> set secret" and "CHR '']'' \<notin> set secret"
  shows "\<not> sublist secret (replace_all secret s)"
  using assms
proof (induction secret s rule: replace_all.induct)
  case (1 secret)
  then show ?case by (cases secret) auto
next
  case (2 secret c s)
  show ?case
  proof (cases "secret \<noteq> [] \<and> take (length secret) (c # s) = secret")
    case True
    let ?rest = "replace_all secret (drop (length secret) (c # s))"
    have rest: "\<not> sublist secret ?rest" using "2.IH"(1) [OF True] "2.prems" by blast
    show ?thesis
    proof
      assume "sublist secret (replace_all secret (c # s))"
      with True have "sublist secret (redaction @ ?rest)" by simp
      then consider "sublist secret redaction" | "sublist secret ?rest"
        | x y where "secret = x @ y" "suffix x redaction" "prefix y ?rest"
        unfolding sublist_append by blast
      then show False
      proof cases
        case 1
        with bracketed_not_in_redaction "2.prems" show False by fastforce
      next
        case 2
        with rest show False by blast
      next
        case (3 x y)
        have "x = []"
        proof (rule ccontr)
          assume "x \<noteq> []"
          from 3(2) obtain z where "redaction = z @ x" by (auto simp: suffix_def)
          from arg_cong [OF this, of last] \<open>x \<noteq> []\<close> have "last x = CHR '']''"
            by (simp add: redaction_def)
          with \<open>x \<noteq> []\<close> have "CHR '']'' \<in> set x" using last_in_set [of x] by simp
          with 3(1) "2.prems"(3) show False by simp
        qed
        with 3 rest show False by (auto dest: prefix_imp_sublist)
      qed
    qed
  next
    case False
    have IH: "\<not> sublist secret (replace_all secret s)" using "2.IH"(2) [OF False] "2.prems" by blast
    show ?thesis
    proof
      assume "sublist secret (replace_all secret (c # s))"
      with False IH have pre: "prefix secret (c # replace_all secret s)"
        by (auto simp: sublist_Cons_right)
      obtain w where w: "secret = c # w" using pre "2.prems"(1) by (cases secret) auto
      with pre have "prefix w (replace_all secret s)" by simp
      with w "2.prems"(2) have "prefix w s" using prefix_replaced [of w secret s] by simp
      then have "take (length secret) (c # s) = secret" unfolding w
        by (auto simp: prefix_def)
      with False w show False by simp
    qed
  qed
qed

text \<open>Which errors an action can end with.\<close>

definition raises :: "('e \<Rightarrow> bool) \<Rightarrow> ('w, 'e, 'a) act \<Rightarrow> bool" where
  "raises E m \<longleftrightarrow> (\<forall>w e w'. m w = (Inl e, w') \<longrightarrow> E e)"

named_theorems raises_intros \<open>actions with the errors they can end with\<close>

lemma raises_elementary [raises_intros]:
  "raises E (ret a)" "raises E (reads g)" "raises E get_state" "raises E (modify g)"
  "E e \<Longrightarrow> raises E (throw e)" "E e \<Longrightarrow> raises E (fails_if b e)" "raises E (ignoring h)"
  by (auto simp: raises_def run_simps ignoring_def split: if_splits)

lemma raises_andThen [raises_intros]: "raises E m \<Longrightarrow> (\<And>a. raises E (k a)) \<Longrightarrow> raises E (andThen m k)"
  unfolding raises_def
proof (intro allI impI)
  fix w e w'
  assume m: "\<forall>w e w'. m w = (Inl e, w') \<longrightarrow> E e" and k: "\<And>a. \<forall>w e w'. k a w = (Inl e, w') \<longrightarrow> E e"
    and run: "andThen m k w = (Inl e, w')"
  from run show "E e"
  proof (cases rule: andThen_cases)
    case (failed e')
    with m show ?thesis by blast
  next
    case (went_on a w1)
    with k [of a] show ?thesis by blast
  qed
qed

lemma raises_Let [raises_intros]: "(\<And>x. raises E (k x)) \<Longrightarrow> raises E (let x = v in k x)"
  by simp

lemma raises_option [raises_intros]:
  "raises E m \<Longrightarrow> (\<And>x. raises E (k x)) \<Longrightarrow> raises E (case v of None \<Rightarrow> m | Some x \<Rightarrow> k x)"
  by (cases v) simp_all

lemma raises_store [raises_intros]: "(\<And>e. E (stage, err e)) \<Longrightarrow> raises E (on_client_store stage err f)"
  by (auto simp: raises_def on_client_store_def wrap_error_def split: prod.splits sum.splits)

definition not_sending :: "HeartbeatError \<Rightarrow> bool" where
  "not_sending e \<longleftrightarrow> (case snd e of SendFailed text \<Rightarrow> False | _ \<Rightarrow> True)"

lemma raises_build: "raises not_sending (build_request loc env now)"
proof -
  have "raises not_sending (local_revision env)"
    by (auto simp: raises_def local_revision_def not_sending_def split: sum.splits if_splits)
  moreover have "raises not_sending (collect_events env es)" for es
    by (induction es) (auto simp: not_sending_def intro!: raises_intros)
  ultimately show ?thesis
    unfolding build_request_def reading_def
    by (intro raises_intros) (auto simp: not_sending_def)
qed

lemma raises_install: "raises not_sending (install_response env request now result)"
proof -
  have "raises not_sending (acknowledge_events env k ids)" for k ids
    by (induction ids arbitrary: k) (auto simp: not_sending_def intro!: raises_intros)
  moreover have "raises not_sending (apply_commands env k n d now cmds)" for k n d cmds
  proof (induction cmds arbitrary: k)
    case (Cons cmd cmds)
    have "raises not_sending (\<lambda>c. case applyCommand (hv_db env (CallCommand k)) cmd n d now (sc_store c) of
         (r, s) \<Rightarrow> (wrap_error (\<lambda>e. (ApplyStage, CommandFailed (wc_ID cmd) e)) r, c\<lparr>sc_store := s\<rparr>))"
      by (auto simp: raises_def wrap_error_def not_sending_def split: prod.splits sum.splits)
    with Cons show ?case unfolding apply_commands.simps by (intro raises_andThen)
  qed (simp add: raises_intros)
  moreover have balance: "not_sending (ApplyStage, e)" if "balance_error request result = Some e" for e
    using that by (auto simp: balance_error_def not_sending_def split: option.splits if_splits)
  moreover have "raises not_sending (case balance_error request result of None \<Rightarrow> ret ()
       | Some e \<Rightarrow> throw (ApplyStage, e))"
    by (cases "balance_error request result") (simp_all add: raises_intros balance)
  ultimately show ?thesis
    unfolding install_response_def
    by (intro raises_andThen) (assumption | (intro raises_intros; simp add: not_sending_def))+
qed

lemma keeps_config_store: "keeps sc_config (on_client_store stage err f)"
  by (simp add: keeps_def on_client_store_def split: prod.split)

lemma build_keeps_config: "build_request loc env now c = (r, c') \<Longrightarrow> sc_config c' = sc_config c"
proof -
  have "keeps sc_config (local_revision env)"
    by (auto simp: keeps_def local_revision_def split: sum.split)
  moreover have "keeps sc_config (collect_events env es)" for es
    by (induction es) (simp_all add: keeps_intros ignoring_def keeps_modify)
  ultimately have "keeps sc_config (build_request loc env now)"
    unfolding build_request_def reading_def by (intro keeps_intros keeps_config_store)
  then show "build_request loc env now c = (r, c') \<Longrightarrow> sc_config c' = sc_config c" by (rule keepsD)
qed

lemma recordRetries_config: "recordRetries env pending c = (r, c') \<Longrightarrow> r = Inr () \<and> sc_config c' = sc_config c"
  by (auto simp: recordRetries_def ignoring_def run_simps split: if_splits)

lemma exchange_failure:
  assumes "exchange_request env request pending c = (Inl (stage, SendFailed msg), c')"
  shows "\<exists>message. msg = redactSensitiveText message (hc_DeviceToken (sc_config c))"
proof (cases "hv_exchange env request")
  case RequestNotBuilt
  with assms show ?thesis by (simp add: exchange_request_def run_simps)
next
  case (NoResponse message)
  obtain r c1 where retries: "recordRetries env pending c = (r, c1)" by fastforce
  with assms NoResponse recordRetries_config [OF retries] show ?thesis
    by (auto simp: exchange_request_def andThen_def run_simps)
next
  case (Response status body)
  obtain r c1 where retries: "recordRetries env pending c = (r, c1)" by fastforce
  have "decodeHeartbeatError status body \<noteq> SendFailed msg"
    by (auto simp: decodeHeartbeatError_def Let_def split: option.split)
  moreover have "decodeHeartbeatResponse body \<noteq> Inl (SendFailed msg)"
    by (auto simp: decodeHeartbeatResponse_def split: option.split)
  ultimately show ?thesis
    using assms Response recordRetries_config [OF retries] retries
    by (auto simp: exchange_request_def andThen_def run_simps split: if_splits sum.splits)
qed

text \<open>C32: The error of a heartbeat that got no answer never contains the device token, whatever
  the transport put into its message, provided the token is longer than eight characters and
  has no square brackets - issued tokens are 43 characters of base64url.\<close>

theorem token_never_in_failure:
  assumes "Heartbeat loc env now c = (Inl (stage, SendFailed msg), c')"
    and "8 < length (hc_DeviceToken (sc_config c))"
    and "list_all (\<lambda>x. x \<noteq> CHR ''['' \<and> x \<noteq> CHR '']'') (hc_DeviceToken (sc_config c))"
  shows "\<not> sublist (hc_DeviceToken (sc_config c)) msg"
  using assms(1)
proof (cases rule: Heartbeat_cases)
  case (not_sent e c1)
  with raises_build show ?thesis by (fastforce simp: raises_def not_sending_def)
next
  case (not_answered request pending c1 e c2)
  from exchange_failure [of env request pending c1 stage msg c2] not_answered
  obtain message where "msg = redactSensitiveText message (hc_DeviceToken (sc_config c))"
    by (auto simp: build_keeps_config [OF not_answered(1)])
  moreover have "\<not> sublist (hc_DeviceToken (sc_config c)) (replace_all (hc_DeviceToken (sc_config c)) message)" for message
    using assms(2,3) by (intro no_secret_left) (auto simp: list_all_iff)
  ultimately show ?thesis using assms(2) by (auto simp: redactSensitiveText_def)
next
  case (not_installed request pending c1 result e c2)
  with raises_install show ?thesis by (fastforce simp: raises_def not_sending_def)
next
  case (installed request pending c1 result)
  then show ?thesis by simp
qed

lemma unreachable_heartbeat: "fst (Heartbeat (fixed_zone 0) unreachable sample_now sample_client) =
    Inl (TransportStage, SendFailed ''no route for [REDACTED]'')"
proof -
  have fields: "hv_db unreachable = (\<lambda>_. True)" "hv_exchange unreachable q = NoResponse ''no route for tok-en-012345''" for q
    by (simp_all add: unreachable_def)
  have red: "redactSensitiveText ''no route for tok-en-012345'' ''tok-en-012345'' = ''no route for [REDACTED]''"
    by (simp add: redactSensitiveText_def redaction_def)
  have token: "hc_DeviceToken sample_config = ''tok-en-012345''" by (simp add: sample_config_def)
  have config: "sc_config sample_client = sample_config" by (simp add: sample_client_def)
  show ?thesis
    by (simp add: Heartbeat_def sample_build [OF fields(1)] andThen_def run_simps exchange_request_def fields
        recordRetries_def ignoring_def token config red)
qed

lemma token_never_in_failure_witness:
  "fst (Heartbeat (fixed_zone 0) unreachable sample_now sample_client) =
     Inl (TransportStage, SendFailed ''no route for [REDACTED]'')
   \<and> \<not> sublist ''tok-en-012345'' ''no route for [REDACTED]''"
proof -
  have "hc_DeviceToken (sc_config sample_client) = ''tok-en-012345''"
    by (simp add: sample_client_def sample_config_def)
  with token_never_in_failure [OF pair_of_fst [OF unreachable_heartbeat]]
  show ?thesis using unreachable_heartbeat by simp
qed

section \<open>The cadence of attempts\<close>

text \<open>The states of client and loop: a configured client, the passes of the loop, and the
  daemon's reports of the session between them.\<close>

inductive loop_reachable :: "location \<Rightarrow> duration \<Rightarrow> Client \<times> Loop \<Rightarrow> bool" for loc interval where
  start: "NewClient store config = Inr c \<Longrightarrow> hc_HeartbeatInterval config = interval \<Longrightarrow>
     loop_reachable loc interval (c, start_loop interval)"
| attempt: "loop_reachable loc interval st \<Longrightarrow> attempt_once loc a st = (True, st') \<Longrightarrow>
     at_started a \<le> at_finished a \<Longrightarrow> loop_reachable loc interval st'"
| session: "loop_reachable loc interval (c, lp) \<Longrightarrow>
     loop_reachable loc interval (client_SetGraphicalSession active sid locked c, lp)"

definition interval_ok :: "duration \<Rightarrow> bool" where
  "interval_ok d \<longleftrightarrow> MinimumHeartbeatInterval \<le> d \<and> d \<le> MaximumHeartbeatInterval"

definition loop_ok :: "duration \<Rightarrow> Loop \<Rightarrow> bool" where
  "loop_ok interval lp \<longleftrightarrow> interval_ok interval \<and> interval_ok (lp_normal lp)
     \<and> second \<le> lp_backoff lp \<and> lp_backoff lp \<le> lp_normal lp
     \<and> 0 \<le> lp_delay lp \<and> lp_delay lp \<le> MaximumHeartbeatInterval"

lemmas interval_defs = interval_ok_def MinimumHeartbeatInterval_def MaximumHeartbeatInterval_def

lemma nextHeartbeatInterval_ok:
  assumes "interval_ok fallback"
  shows "interval_ok (nextHeartbeatInterval n fallback)"
proof (cases "n < go_div MinimumHeartbeatInterval second \<or> go_div MaximumHeartbeatInterval second < n")
  case False
  then have n: "1 \<le> n" "n \<le> 600" by (auto simp: interval_defs minute_def second_def)
  then have "seconds_duration n = n * second" by (intro seconds_duration_id) simp_all
  with n False show ?thesis
    by (simp add: nextHeartbeatInterval_def interval_defs minute_def second_def)
qed (use assms in \<open>simp add: nextHeartbeatInterval_def\<close>)

lemma initial_backoff: "interval_ok d \<Longrightarrow> initialHeartbeatBackoff d = second"
  by (simp add: initialHeartbeatBackoff_def interval_defs)

lemma after_success_ok:
  assumes "interval_ok interval"
  shows "loop_ok interval (after_success interval result lp)"
  using nextHeartbeatInterval_ok [OF assms] assms
  by (simp add: loop_ok_def after_success_def Let_def initial_backoff)
    (auto simp: interval_defs duration_defs intro: order_trans [of 0 "1000000000"])

lemma after_failure_fields:
  "lp_normal (after_failure s f lp) = lp_normal lp"
  "lp_backoff (after_failure s f lp) = min (lp_normal lp) (lp_backoff lp * 2)"
  "lp_delay (after_failure s f lp) = max 0 (lp_backoff lp - time_sub f s)"
  "lp_fastFollowUp (after_failure s f lp) = False"
  by (simp_all add: after_failure_def Let_def)

lemma after_failure_ok:
  assumes "loop_ok interval lp" and "s \<le> f"
  shows "loop_ok interval (after_failure s f lp)"
  using assms time_sub_nonneg [OF assms(2)]
  by (simp add: loop_ok_def after_failure_fields interval_defs duration_defs min_def max_def)

lemma config_of_heartbeat:
  assumes "Heartbeat loc env now c = (r, c')"
  shows "sc_config c' = sc_config c"
proof -
  have install: "keeps sc_config (install_response env request now result)" for request result
  proof -
    have "keeps sc_config (acknowledge_events env k ids)" for k ids
      by (induction ids arbitrary: k) (simp_all add: keeps_intros keeps_config_store)
    moreover have "keeps sc_config (apply_commands env k n d now cmds)" for k n d cmds
    proof (induction cmds arbitrary: k)
      case (Cons cmd cmds)
      have "keeps sc_config (\<lambda>c. case applyCommand (hv_db env (CallCommand k)) cmd n d now (sc_store c) of
         (r, s) \<Rightarrow> (wrap_error (\<lambda>e. (ApplyStage, CommandFailed (wc_ID cmd) e)) r, c\<lparr>sc_store := s\<rparr>))"
        by (simp add: keeps_def split: prod.split)
      with Cons show ?case unfolding apply_commands.simps by (intro keeps_andThen)
    qed (simp add: keeps_intros)
    moreover have "keeps sc_config (modify (setRemoteControl True p b n))" for p b n
      by (rule keeps_modify) (simp add: setRemoteControl_def)
    ultimately show ?thesis
      unfolding install_response_def
      by (intro keeps_andThen) (assumption | (intro keeps_intros keeps_config_store))+
  qed
  have exchange: "exchange_request env request pending c = (r, c') \<Longrightarrow> sc_config c' = sc_config c"
    for request pending c r c'
  proof -
    have "keeps sc_config (recordRetries env pending)"
      by (auto simp: keeps_def recordRetries_def ignoring_def run_simps)
    then have "keeps sc_config (exchange_request env request pending)"
      unfolding exchange_request_def
      by (auto split: Outcome.split sum.split intro!: keeps_intros)
    then show "exchange_request env request pending c = (r, c') \<Longrightarrow> sc_config c' = sc_config c"
      by (rule keepsD)
  qed
  have set: "sc_config (setRemoteControl x p b n d) = sc_config d" for x p b n d
    by (simp add: setRemoteControl_def)
  from assms show ?thesis
    by (cases rule: Heartbeat_cases)
      (auto simp: set dest!: build_keeps_config exchange keepsD [OF install])
qed

lemma attempt_once_cases:
  assumes "attempt_once loc a (c, lp) = (True, c', lp')"
  obtains (failed) "lp' = after_failure (at_started a) (at_finished a) lp" "sc_config c' = sc_config c"
  | (succeeded) result where "lp' = after_success (hc_HeartbeatInterval (sc_config c)) result lp"
      "sc_config c' = sc_config c"
proof -
  obtain r c1 where run: "Heartbeat loc (at_env a) (at_now a) c = (r, c1)" by fastforce
  have report: "sc_config (reportStatus e d) = sc_config d" for e d by (simp add: reportStatus_def)
  from assms run config_of_heartbeat [OF run] that show ?thesis
    by (cases r) (auto simp: attempt_once_def report split: if_splits)
qed

lemma loop_reachable_ok:
  "loop_reachable loc interval st \<Longrightarrow>
     loop_ok interval (snd st) \<and> hc_HeartbeatInterval (sc_config (fst st)) = interval"
proof (induction rule: loop_reachable.induct)
  case (start store config c)
  then have "interval_ok interval" "hc_HeartbeatInterval (sc_config c) = interval"
    by (auto simp: NewClient_def interval_ok_def split: if_splits)
  moreover from this have "loop_ok interval (start_loop interval)"
    by (simp add: loop_ok_def start_loop_def initial_backoff)
      (auto simp: interval_defs duration_defs)
  ultimately show ?case by simp
next
  case (attempt st a st')
  obtain c lp c' lp' where st: "st = (c, lp)" "st' = (c', lp')" by (cases st, cases st')
  from attempt.hyps(2) have "attempt_once loc a (c, lp) = (True, c', lp')" by (simp add: st)
  then show ?case
  proof (cases rule: attempt_once_cases)
    case failed
    with attempt show ?thesis by (simp add: st after_failure_ok)
  next
    case (succeeded result)
    from attempt.IH have i: "interval_ok interval" "hc_HeartbeatInterval (sc_config c) = interval"
      by (simp_all add: st loop_ok_def)
    with succeeded after_success_ok [OF i(1)] show ?thesis by (simp add: st)
  qed
next
  case (session c lp active sid locked)
  then show ?case by (simp add: client_SetGraphicalSession_def Let_def split: prod.split)
qed

definition attempt_duration :: "Attempt \<Rightarrow> duration" where
  "attempt_duration a = time_sub (at_finished a) (at_started a)"

lemma pass_spacing:
  assumes "loop_ok interval lp" and "hc_HeartbeatInterval (sc_config c) = interval"
    and "attempt_once loc a (c, lp) = (True, c', lp')" and "at_started a \<le> at_finished a"
  shows "loop_ok interval lp' \<and> hc_HeartbeatInterval (sc_config c') = interval
    \<and> (second \<le> attempt_duration a + lp_delay lp' \<or> lp_fastFollowUp lp' \<and> \<not> lp_fastFollowUp lp)"
  using assms(3)
proof (cases rule: attempt_once_cases)
  case failed
  with after_failure_ok [OF assms(1,4)] assms(1,2) show ?thesis
    by (auto simp: after_failure_fields attempt_duration_def loop_ok_def)
next
  case (succeeded result)
  have i: "interval_ok interval" using assms(1) by (simp add: loop_ok_def)
  note ok = after_success_ok [OF i, of result lp]
  have "second \<le> nextHeartbeatInterval n interval" for n
    using nextHeartbeatInterval_ok [OF i] by (simp add: interval_defs)
  moreover have "0 \<le> attempt_duration a"
    using assms(4) by (simp add: attempt_duration_def time_sub_nonneg)
  ultimately have "second \<le> attempt_duration a + nextHeartbeatInterval n interval" for n
    by (meson add_increasing)
  with succeeded ok assms(2) show ?thesis by (auto simp: after_success_def Let_def)
qed


lemma attempt_goes_on:
  "\<not> at_stopped_waiting a \<Longrightarrow> \<not> at_cancelled a \<Longrightarrow> attempt_once loc a st = (True, snd (attempt_once loc a st))"
  by (cases st) (auto simp: attempt_once_def split: prod.split sum.split)

definition sample_attempt :: "int \<Rightarrow> Attempt" where
  "sample_attempt k = \<lparr>at_started = sample_now + k * second, at_finished = sample_now + k * second + 5,
     at_now = sample_now + k * second, at_env = unreachable, at_stopped_waiting = False, at_cancelled = False\<rparr>"


end
