(* ===== verification/AgentCycle.thy ===== *)
theory AgentCycle
  imports SyncLoop DaemonProps
begin

text \<open>
  Daemon and synchronization client together. The daemon knows the client only through the
  interface \<open>SynchronizationSource\<close>: it reads the control in force and reports the session. What
  it relies on is the contract \<open>control_source\<close>; the client's own operations satisfy it.
\<close>

section \<open>The contract between the daemon and its source of control\<close>

locale control_source =
  fixes control :: "'c \<Rightarrow> RemoteControl"
    and set_session :: "bool \<Rightarrow> string \<Rightarrow> bool \<Rightarrow> 'c \<Rightarrow> 'c"
    and attempt :: "'c \<Rightarrow> bool \<times> 'c"
  assumes control_set_session: "control (set_session active sid locked c) = control c"
    and failed_attempt: "attempt c = (False, c') \<Longrightarrow>
      control c' = \<lparr>rc_online = False, rc_paused = False, rc_blocked = False, rc_revision = 0\<rparr>"
begin

lemma offline_policy:
  assumes "attempt c = (False, c')" and "ev_remote env = Some (control (set_session active sid locked c'))"
  shows "effective_policy env p = (p\<lparr>ps_MonitoringPaused := False, ps_ManualBlock := False\<rparr>, False, 0)"
  using failed_attempt [OF assms(1)] by (simp add: effective_policy_def assms(2) control_set_session)

text \<open>Offline, a cycle completes no control command.\<close>

lemma offline_keeps_command:
  assumes "attempt c = (False, c')" and "ev_remote env = Some (control (set_session active sid locked c'))"
    and "Step loc env d = (r, d')"
  shows "control_view d' = control_view d"
proof (rule step_control_view [OF assms(3)])
  fix snapshot online ob eff d1
  assume b: "begin_cycle env d = (Inr (snapshot, online, ob, eff), d1)"
    and v: "control_view d' = control_view d1" and changed: "dm_store d1 \<noteq> dm_store d"
  show ?thesis
  proof (rule begin_cycle_run [OF b])
    fix stored revision
    assume "effective_policy env stored = (snapshot, online, revision)"
    then have "\<not> online" by (simp add: offline_policy [OF assms(1,2)])
    assume "dm_store d1 = dm_store d \<and> (\<forall>e. eff = Some e \<longrightarrow> effect_pending online revision (dm_store d) e)
      \<or> (\<exists>e. eff = None \<and> effect_pending online revision (dm_store d) e
         \<and> effect_confirmed (ce_Kind e) (ob_activeID ob) (ob_activeLocked ob)
         \<and> CompleteControlEffect True (ce_CommandID e) (ev_now env) (dm_store d) = (Inr (), dm_store d1))"
    with \<open>\<not> online\<close> changed show ?thesis by (simp add: effect_pending_def)
  qed
qed

end

definition client_attempt :: "location \<Rightarrow> HeartbeatEnv \<Rightarrow> time \<Rightarrow> Client \<Rightarrow> bool \<times> Client" where
  "client_attempt loc env now c = (case Heartbeat loc env now c of
     (Inl e, c') \<Rightarrow> (False, c') | (Inr result, c') \<Rightarrow> (True, c'))"

interpretation client: control_source client_RemoteControl client_SetGraphicalSession "client_attempt loc env now"
  for loc env now
proof
  fix active sid locked c
  show "client_RemoteControl (client_SetGraphicalSession active sid locked c) = client_RemoteControl c"
    by (simp add: client_RemoteControl_def client_SetGraphicalSession_def Let_def split: prod.split)
next
  fix c c' assume "client_attempt loc env now c = (False, c')"
  then obtain e where "Heartbeat loc env now c = (Inl e, c')"
    by (auto simp: client_attempt_def split: prod.splits sum.splits)
  then show "client_RemoteControl c' = \<lparr>rc_online = False, rc_paused = False, rc_blocked = False, rc_revision = 0\<rparr>"
    by (cases rule: Heartbeat_cases) (simp_all add: client_RemoteControl_def setRemoteControl_def)
qed

section \<open>A failed heartbeat withdraws the server's authority\<close>

text \<open>C34: After a heartbeat that failed in whatever way, the daemon's next cycle - reading the
  client's control, whatever session it reports - works on the local policy alone, without the
  server's pause or block, and completes no control command: the staged one stays staged and no
  command becomes acknowledgeable, until a heartbeat succeeds again.\<close>

theorem failed_heartbeat_withdraws_authority:
  assumes "Heartbeat loc henv now c = (Inl e, c')"
    and "ev_remote env = Some (client_RemoteControl (client_SetGraphicalSession active sid locked c'))"
    and "Step loc' env d = (r, d')"
  shows "effective_policy env p = (p\<lparr>ps_MonitoringPaused := False, ps_ManualBlock := False\<rparr>, False, 0)
    \<and> control_view d' = control_view d"
proof -
  from assms(1) have "client_attempt loc henv now c = (False, c')" by (simp add: client_attempt_def)
  from client.offline_policy [OF this assms(2)] client.offline_keeps_command [OF this assms(2,3)]
  show ?thesis by simp
qed

lemma failed_heartbeat_withdraws_authority_witness:
  "let c = snd (Heartbeat (fixed_zone 0) unreachable sample_now sample_client);
       env = (sample_env sample_now)\<lparr>ev_remote := Some (client_RemoteControl (client_SetGraphicalSession True ''2'' True c))\<rparr>
   in control_view (snd (Step (fixed_zone 0) env staged_daemon)) = control_view staged_daemon"
proof -
  define c where "c = snd (Heartbeat (fixed_zone 0) unreachable sample_now sample_client)"
  define env where "env = (sample_env sample_now)\<lparr>ev_remote :=
    Some (client_RemoteControl (client_SetGraphicalSession True ''2'' True c))\<rparr>"
  have "ev_remote env = Some (client_RemoteControl (client_SetGraphicalSession True ''2'' True c))"
    by (simp add: env_def)
  from failed_heartbeat_withdraws_authority
    [OF pair_of_fst [OF unreachable_heartbeat] this [unfolded c_def] prod.collapse [symmetric],
      where loc' = "fixed_zone 0" and d = staged_daemon]
  show ?thesis by (simp add: c_def env_def Let_def)
qed

end
