(* ===== verification/Password.thy ===== *)
theory Password
  imports Session Protocol
begin

text \<open>
  The responsible person's password (\<open>agent/localauth/password.go\<close>): the text form of an Argon2id
  verifier, its reading and its checks. Argon2id itself is a library's: a parameter
  \<open>argon2 password salt iterations memory parallelism keyLength\<close>. Byte strings are strings. Where
  the source first scans a field and then compares it with the same values printed again, the
  model reads the canonical text only; the two refusals are one error.
\<close>

section \<open>Base64 without padding\<close>

definition base64_alphabet :: string where
  "base64_alphabet = ''ABCDEFGHIJKLMNOPQRSTUVWXYZabcdefghijklmnopqrstuvwxyz0123456789+/''"

definition sextet_char :: "int \<Rightarrow> char" where
  "sextet_char n = base64_alphabet ! nat (n mod 64)"

fun index_of :: "char \<Rightarrow> string \<Rightarrow> int \<Rightarrow> int option" where
  "index_of c [] k = None"
| "index_of c (x # xs) k = (if c = x then Some k else index_of c xs (k + 1))"

definition sextet_value :: "char \<Rightarrow> int option" where
  "sextet_value c = index_of c base64_alphabet 0"

definition octet :: "char \<Rightarrow> int" where "octet c = int (of_char c)"

fun base64_encode :: "string \<Rightarrow> string" where
  "base64_encode [] = []"
| "base64_encode [a] = (let n = octet a * 16 in [sextet_char (n div 64), sextet_char n])"
| "base64_encode [a, b] = (let n = (octet a * 256 + octet b) * 4
     in [sextet_char (n div 4096), sextet_char (n div 64), sextet_char n])"
| "base64_encode (a # b # c # r) = (let n = (octet a * 256 + octet b) * 256 + octet c
     in [sextet_char (n div 262144), sextet_char (n div 4096), sextet_char (n div 64), sextet_char n]
        @ base64_encode r)"

text \<open>Strict: the unused bits of the last character must be zero.\<close>

fun base64_groups :: "string \<Rightarrow> string option" where
  "base64_groups [] = Some []"
| "base64_groups [w] = None"
| "base64_groups [w, x] =
     (case (sextet_value w, sextet_value x) of
        (Some a, Some b) \<Rightarrow> if b mod 16 \<noteq> 0 then None else Some [byte (a * 4 + b div 16)]
      | _ \<Rightarrow> None)"
| "base64_groups [w, x, y] =
     (case (sextet_value w, sextet_value x, sextet_value y) of
        (Some a, Some b, Some c) \<Rightarrow>
          if c mod 4 \<noteq> 0 then None
          else Some [byte (a * 4 + b div 16), byte (b mod 16 * 16 + c div 4)]
      | _ \<Rightarrow> None)"
| "base64_groups (w # x # y # z # r) =
     (case (sextet_value w, sextet_value x, sextet_value y, sextet_value z, base64_groups r) of
        (Some a, Some b, Some c, Some d, Some t) \<Rightarrow>
          Some (byte (a * 4 + b div 16) # byte (b mod 16 * 16 + c div 4) # byte (c mod 4 * 64 + d) # t)
      | _ \<Rightarrow> None)"

text \<open>Line breaks are skipped.\<close>

definition base64_decode :: "string \<Rightarrow> string option" where
  "base64_decode s = base64_groups (filter (\<lambda>c. c \<noteq> CHR 0x0A \<and> c \<noteq> CHR 0x0D) s)"

section \<open>Parameters\<close>

record Argon2Params =
  ar_Memory :: int
  ar_Iterations :: int
  ar_Parallelism :: int
  ar_SaltLength :: int
  ar_KeyLength :: int

definition DefaultArgon2Params :: Argon2Params where
  "DefaultArgon2Params = \<lparr>ar_Memory = 64 * 1024, ar_Iterations = 3, ar_Parallelism = 2,
     ar_SaltLength = 16, ar_KeyLength = 32\<rparr>"

datatype PasswordError =
    EmptyPassword | MemoryOutOfRange | IterationsOutOfRange | ParallelismOutOfRange | LengthOutOfRange
  | InvalidVerifierFormat | InvalidVersion | InvalidParameters | InvalidSalt | InvalidHash | NoRandomness

definition validateParams :: "Argon2Params \<Rightarrow> PasswordError option" where
  "validateParams p =
     (if ar_Memory p < 8 * 1024 \<or> 256 * 1024 < ar_Memory p then Some MemoryOutOfRange
      else if ar_Iterations p = 0 \<or> 10 < ar_Iterations p then Some IterationsOutOfRange
      else if ar_Parallelism p = 0 \<or> 8 < ar_Parallelism p then Some ParallelismOutOfRange
      else if ar_SaltLength p < 8 \<or> 64 < ar_SaltLength p \<or> ar_KeyLength p < 16 \<or> 64 < ar_KeyLength p
      then Some LengthOutOfRange else None)"

text \<open>\<open>argon2.Version\<close> is 0x13.\<close>

definition argon2_version :: int where "argon2_version = 19"

definition params_field :: "Argon2Params \<Rightarrow> string" where
  "params_field p = ''m='' @ show_int (ar_Memory p) @ '',t='' @ show_int (ar_Iterations p)
     @ '',p='' @ show_int (ar_Parallelism p)"

text \<open>A field \<open>key=<number>\<close> as it prints, with the number at most \<open>limit\<close>.\<close>

definition numbered_field :: "string \<Rightarrow> int \<Rightarrow> string \<Rightarrow> int option" where
  "numbered_field key limit s =
     (if take (length key) s \<noteq> key then None
      else case natural_literal (drop (length key) s) of None \<Rightarrow> None
           | Some n \<Rightarrow> if n \<le> limit \<and> show_int n = drop (length key) s then Some n else None)"

definition read_params :: "string \<Rightarrow> (int \<times> int \<times> int) option" where
  "read_params s =
     (case split_on (CHR '','') s of
        [a, b, c] \<Rightarrow>
          (case (numbered_field ''m='' (2 ^ 32 - 1) a, numbered_field ''t='' (2 ^ 32 - 1) b,
                 numbered_field ''p='' 255 c) of
             (Some m, Some t, Some p) \<Rightarrow> Some (m, t, p)
           | _ \<Rightarrow> None)
      | _ \<Rightarrow> None)"

section \<open>Hashing and verifying\<close>

type_synonym argon2 = "string \<Rightarrow> string \<Rightarrow> int \<Rightarrow> int \<Rightarrow> int \<Rightarrow> int \<Rightarrow> string"

text \<open>\<open>salt\<close>: the random bytes, when the system gave them.\<close>

definition HashPassword :: "argon2 \<Rightarrow> string option \<Rightarrow> string \<Rightarrow> Argon2Params \<Rightarrow> PasswordError + string" where
  "HashPassword argon2 randomness password p =
     (if password = [] then Inl EmptyPassword
      else case validateParams p of Some e \<Rightarrow> Inl e
           | None \<Rightarrow>
               (case randomness of None \<Rightarrow> Inl NoRandomness
                | Some salt \<Rightarrow>
                    Inr (''$argon2id$v='' @ show_int argon2_version @ ''$'' @ params_field p @ ''$''
                      @ base64_encode salt @ ''$''
                      @ base64_encode (argon2 password salt (ar_Iterations p) (ar_Memory p)
                          (ar_Parallelism p) (ar_KeyLength p)))))"

definition VerifyPassword :: "argon2 \<Rightarrow> string \<Rightarrow> string \<Rightarrow> PasswordError + bool" where
  "VerifyPassword argon2 password verifier =
     (case split_on (CHR ''$'') verifier of
        [p0, p1, p2, p3, p4, p5] \<Rightarrow>
          if p0 \<noteq> [] \<or> p1 \<noteq> ''argon2id'' then Inl InvalidVerifierFormat
          else if p2 \<noteq> ''v='' @ show_int argon2_version then Inl InvalidVersion
          else (case read_params p3 of None \<Rightarrow> Inl InvalidParameters
          | Some (m, t, p) \<Rightarrow>
              (case base64_decode p4 of None \<Rightarrow> Inl InvalidSalt
               | Some salt \<Rightarrow>
                   (case base64_decode p5 of None \<Rightarrow> Inl InvalidHash
                    | Some expected \<Rightarrow>
                        (case validateParams \<lparr>ar_Memory = m, ar_Iterations = t, ar_Parallelism = p,
                                ar_SaltLength = int (length salt), ar_KeyLength = int (length expected)\<rparr> of
                           Some e \<Rightarrow> Inl e
                         | None \<Rightarrow>
                             Inr (argon2 password salt t m p (int (length expected)) = expected)))))
      | _ \<Rightarrow> Inl InvalidVerifierFormat)"

section \<open>Round trips\<close>

lemma alphabet_props: "length base64_alphabet = 64" "distinct base64_alphabet"
  by (simp_all add: base64_alphabet_def)

lemma index_of_nth:
  "distinct xs \<Longrightarrow> i < length xs \<Longrightarrow> index_of (xs ! i) xs k = Some (k + int i)"
proof (induction xs arbitrary: i k)
  case (Cons x xs)
  show ?case
  proof (cases i)
    case (Suc j)
    with Cons.prems have "xs ! j \<noteq> x" by auto
    with Suc Cons show ?thesis by simp
  qed simp
qed simp

lemma sextet_back [simp]: "sextet_value (sextet_char n) = Some (n mod 64)"
proof -
  have "nat (n mod 64) < 64" by (simp add: nat_less_iff)
  with index_of_nth [of base64_alphabet "nat (n mod 64)" 0] alphabet_props show ?thesis
    by (simp add: sextet_value_def sextet_char_def)
qed

lemma octet_range: "0 \<le> octet c" "octet c < 256"
proof -
  have "(of_char c :: nat) mod 256 = of_char c" by simp
  then have "(of_char c :: nat) < 256" by (metis mod_less_divisor zero_less_numeral)
  then show "0 \<le> octet c" "octet c < 256" by (simp_all add: octet_def)
qed

lemma byte_octet [simp]: "byte (octet c) = c"
  by (simp add: byte_def octet_def)

lemma base64_digits:
  fixes q r :: int assumes "0 \<le> r" "r < 64"
  shows "(q * 64 + r) div 64 = q" "(q * 64 + r) mod 64 = r"
  using assms by simp_all

lemma decode_three:
  fixes a b c :: int
  assumes "0 \<le> a" "a < 256" "0 \<le> b" "b < 256" "0 \<le> c" "c < 256"
  defines "n \<equiv> (a * 256 + b) * 256 + c"
  shows "n div 262144 mod 64 * 4 + n div 4096 mod 64 div 16 = a"
    "n div 4096 mod 64 mod 16 * 16 + n div 64 mod 64 div 4 = b"
    "n div 64 mod 64 mod 4 * 64 + n mod 64 = c"
proof -
  define x1 x2 x3 x4 where x: "x1 = a div 4" "x2 = a mod 4 * 16 + b div 16"
    "x3 = b mod 16 * 4 + c div 64" "x4 = c mod 64"
  from assms(1-6) have bits: "a div 4 * 4 + a mod 4 = a" "0 \<le> a mod 4" "a mod 4 < 4" "0 \<le> a div 4" "a div 4 < 64"
      "b div 16 * 16 + b mod 16 = b" "0 \<le> b mod 16" "b mod 16 < 16" "0 \<le> b div 16" "b div 16 < 16"
      "c div 64 * 64 + c mod 64 = c" "0 \<le> c mod 64" "c mod 64 < 64" "0 \<le> c div 64" "c div 64 < 4"
    by simp_all
  have range: "0 \<le> x1" "x1 < 64" "0 \<le> x2" "x2 < 64" "0 \<le> x3" "x3 < 64" "0 \<le> x4" "x4 < 64"
    using bits assms(1-6) by (simp_all add: x)
  have n: "n = ((x1 * 64 + x2) * 64 + x3) * 64 + x4"
  proof -
    have "((a1 * 4 + a0) * 256 + (b1 * 16 + b0)) * 256 + (c1 * 64 + c0) =
        ((a1 * 64 + (a0 * 16 + b1)) * 64 + (b0 * 4 + c1)) * 64 + c0" for a1 a0 b1 b0 c1 c0 :: int by simp
    from this [of "a div 4" "a mod 4" "b div 16" "b mod 16" "c div 64" "c mod 64"] show ?thesis
      unfolding bits(1,6,11) n_def x .
  qed
  note steps = base64_digits [OF range(7,8), of "(x1 * 64 + x2) * 64 + x3", folded n]
    base64_digits [OF range(5,6), of "x1 * 64 + x2"] base64_digits [OF range(3,4), of x1]
  have "n div 4096 = n div 64 div 64" "n div 262144 = n div 64 div 64 div 64"
    by (simp_all add: zdiv_zmult2_eq [symmetric])
  then have d: "n div 262144 mod 64 = x1" "n div 4096 mod 64 = x2" "n div 64 mod 64 = x3" "n mod 64 = x4"
    using range(1,2) by (simp_all only: steps mod_pos_pos_trivial)
  show "n div 262144 mod 64 * 4 + n div 4096 mod 64 div 16 = a"
    "n div 4096 mod 64 mod 16 * 16 + n div 64 mod 64 div 4 = b"
    "n div 64 mod 64 mod 4 * 64 + n mod 64 = c"
    unfolding d x using bits assms(1-6) by simp_all
qed

lemma decode_two:
  fixes a b :: int
  assumes "0 \<le> a" "a < 256" "0 \<le> b" "b < 256"
  defines "n \<equiv> (a * 256 + b) * 4"
  shows "n div 4096 mod 64 * 4 + n div 64 mod 64 div 16 = a"
    "n div 64 mod 64 mod 16 * 16 + n mod 64 div 4 = b" "n mod 64 mod 4 = 0"
proof -
  define x1 x2 x3 where x: "x1 = a div 4" "x2 = a mod 4 * 16 + b div 16" "x3 = b mod 16 * 4"
  from assms(1-4) have bits: "a div 4 * 4 + a mod 4 = a" "0 \<le> a mod 4" "a mod 4 < 4" "0 \<le> a div 4" "a div 4 < 64"
      "b div 16 * 16 + b mod 16 = b" "0 \<le> b mod 16" "b mod 16 < 16" "0 \<le> b div 16" "b div 16 < 16"
    by simp_all
  have range: "0 \<le> x1" "x1 < 64" "0 \<le> x2" "x2 < 64" "0 \<le> x3" "x3 < 64"
    using bits assms(1-4) by (simp_all add: x)
  have n: "n = (x1 * 64 + x2) * 64 + x3"
  proof -
    have "((a1 * 4 + a0) * 256 + (b1 * 16 + b0)) * 4 = (a1 * 64 + (a0 * 16 + b1)) * 64 + b0 * 4"
      for a1 a0 b1 b0 :: int by simp
    from this [of "a div 4" "a mod 4" "b div 16" "b mod 16"] show ?thesis
      unfolding bits(1,6) n_def x .
  qed
  note steps = base64_digits [OF range(5,6), of "x1 * 64 + x2", folded n]
    base64_digits [OF range(3,4), of x1]
  have "n div 4096 = n div 64 div 64"
    by (simp add: zdiv_zmult2_eq [symmetric])
  then have d: "n div 4096 mod 64 = x1" "n div 64 mod 64 = x2" "n mod 64 = x3"
    using range(1,2) by (simp_all only: steps mod_pos_pos_trivial)
  show "n div 4096 mod 64 * 4 + n div 64 mod 64 div 16 = a"
    "n div 64 mod 64 mod 16 * 16 + n mod 64 div 4 = b" "n mod 64 mod 4 = 0"
    unfolding d x using bits assms(1-4) by simp_all
qed

lemma decode_one:
  fixes a :: int
  assumes "0 \<le> a" "a < 256"
  shows "a * 16 div 64 mod 64 * 4 + a * 16 mod 64 div 16 = a" "a * 16 mod 64 mod 16 = 0"
proof -
  define x1 x2 where x: "x1 = a div 4" "x2 = a mod 4 * 16"
  from assms have bits: "a div 4 * 4 + a mod 4 = a" "0 \<le> a mod 4" "a mod 4 < 4" "0 \<le> a div 4" "a div 4 < 64"
    by simp_all
  have range: "0 \<le> x1" "x1 < 64" "0 \<le> x2" "x2 < 64" using bits assms by (simp_all add: x)
  have n: "a * 16 = x1 * 64 + x2" using bits(1) unfolding x by linarith
  have d: "a * 16 div 64 mod 64 = x1" "a * 16 mod 64 = x2"
    using range unfolding n by (simp_all add: base64_digits)
  show "a * 16 div 64 mod 64 * 4 + a * 16 mod 64 div 16 = a" "a * 16 mod 64 mod 16 = 0"
    unfolding d x using bits assms by simp_all
qed

lemma groups_encode: "base64_groups (base64_encode s) = Some s"
proof (induction s rule: base64_encode.induct)
  case (2 a)
  show ?case
    by (simp only: base64_encode.simps base64_groups.simps Let_def sextet_back prod.case option.case
        decode_one octet_range byte_octet simp_thms if_False)
next
  case (3 a b)
  show ?case
    by (simp only: base64_encode.simps base64_groups.simps Let_def sextet_back prod.case option.case
        decode_two octet_range byte_octet simp_thms if_False)
next
  case (4 a b c r)
  then show ?case
    by (simp only: base64_encode.simps base64_groups.simps append.simps Let_def sextet_back prod.case
        option.case decode_three octet_range byte_octet)
qed simp

lemma sextet_char_mem: "sextet_char n \<in> set base64_alphabet"
proof -
  have "nat (n mod 64) < 64" by (simp add: nat_less_iff)
  then show ?thesis by (simp add: sextet_char_def alphabet_props)
qed

lemma encode_alphabet: "set (base64_encode s) \<subseteq> set base64_alphabet"
  by (induction s rule: base64_encode.induct) (simp_all add: Let_def sextet_char_mem)

lemma decode_encode: "base64_decode (base64_encode s) = Some s"
proof -
  have "CHR 0x0A \<notin> set base64_alphabet" "CHR 0x0D \<notin> set base64_alphabet"
    by (simp_all add: base64_alphabet_def)
  with encode_alphabet [of s] have "filter (\<lambda>c. c \<noteq> CHR 0x0A \<and> c \<noteq> CHR 0x0D) (base64_encode s) = base64_encode s"
    by (intro filter_True) auto
  then show ?thesis by (simp add: base64_decode_def groups_encode)
qed

lemma split_on_single: "c \<notin> set x \<Longrightarrow> split_on c x = [x]"
  by (induction x) auto

lemma split_on_join: "c \<notin> set x \<Longrightarrow> split_on c (x @ c # r) = x # split_on c r"
  by (induction x) auto

lemma show_int_digits: "0 \<le> n \<Longrightarrow> list_all is_digit (show_int n) \<and> show_int n \<noteq> []"
  using show_nat_props [of "nat n"] by (simp add: show_int_def)

lemma natural_literal_show: "0 \<le> n \<Longrightarrow> natural_literal (show_int n) = Some n"
  using show_nat_props [of "nat n"] by (simp add: natural_literal_def show_int_def)

lemma digits_without: "list_all is_digit s \<Longrightarrow> \<not> is_digit c \<Longrightarrow> c \<notin> set s"
  by (auto simp: list_all_iff)

lemma numbered_field_back:
  "0 \<le> n \<Longrightarrow> n \<le> limit \<Longrightarrow> numbered_field key limit (key @ show_int n) = Some n"
  by (simp add: numbered_field_def natural_literal_show)

lemma validateParams_None:
  "validateParams p = None \<longleftrightarrow> 8 * 1024 \<le> ar_Memory p \<and> ar_Memory p \<le> 256 * 1024
     \<and> ar_Iterations p \<noteq> 0 \<and> ar_Iterations p \<le> 10 \<and> ar_Parallelism p \<noteq> 0 \<and> ar_Parallelism p \<le> 8
     \<and> 8 \<le> ar_SaltLength p \<and> ar_SaltLength p \<le> 64 \<and> 16 \<le> ar_KeyLength p \<and> ar_KeyLength p \<le> 64"
  by (simp add: validateParams_def not_less)

definition params_in_range :: "Argon2Params \<Rightarrow> bool" where
  "params_in_range p \<longleftrightarrow> 0 \<le> ar_Memory p \<and> 0 \<le> ar_Iterations p \<and> 0 \<le> ar_Parallelism p"

lemma read_params_back:
  assumes "validateParams p = None" and "params_in_range p"
  shows "read_params (params_field p) = Some (ar_Memory p, ar_Iterations p, ar_Parallelism p)"
proof -
  have bounds: "0 \<le> ar_Memory p" "ar_Memory p \<le> 2 ^ 32 - 1" "0 \<le> ar_Iterations p" "ar_Iterations p \<le> 2 ^ 32 - 1"
    "0 \<le> ar_Parallelism p" "ar_Parallelism p \<le> 255"
    using assms unfolding validateParams_None params_in_range_def by simp_all
  have comma: "\<not> is_digit (CHR '','')" by (simp add: is_digit_def)
  have no: "CHR '','' \<notin> set (show_int n)" if "0 \<le> n" for n
    using show_int_digits [OF that] digits_without comma by blast
  have "params_field p = (''m='' @ show_int (ar_Memory p)) @ CHR '','' # ((''t='' @ show_int (ar_Iterations p))
      @ CHR '','' # (''p='' @ show_int (ar_Parallelism p)))"
    by (simp add: params_field_def)
  moreover have "CHR '','' \<notin> set (''m='' @ show_int (ar_Memory p))" "CHR '','' \<notin> set (''t='' @ show_int (ar_Iterations p))"
    "CHR '','' \<notin> set (''p='' @ show_int (ar_Parallelism p))"
    using no bounds by simp_all
  ultimately have "split_on (CHR '','') (params_field p) =
      [''m='' @ show_int (ar_Memory p), ''t='' @ show_int (ar_Iterations p), ''p='' @ show_int (ar_Parallelism p)]"
    by (simp only: split_on_join split_on_single not_False_eq_True)
  then show ?thesis
    unfolding read_params_def
    by (simp only: list.case numbered_field_back bounds option.case prod.case)
qed

text \<open>The six parts of a printed verifier.\<close>

lemma split_verifier:
  assumes "0 \<le> ar_Memory p" "0 \<le> ar_Iterations p" "0 \<le> ar_Parallelism p"
  shows "split_on (CHR ''$'') (''$argon2id$v='' @ show_int argon2_version @ ''$'' @ params_field p @ ''$''
      @ base64_encode a @ ''$'' @ base64_encode b) =
    [[], ''argon2id'', ''v='' @ show_int argon2_version, params_field p, base64_encode a, base64_encode b]"
proof -
  have dollar: "\<not> is_digit (CHR ''$'')" by (simp add: is_digit_def)
  have no: "CHR ''$'' \<notin> set (show_int n)" if "0 \<le> n" for n
    using show_int_digits [OF that] digits_without dollar by blast
  have "CHR ''$'' \<notin> set (base64_encode x)" for x
    using encode_alphabet [of x] by (auto simp: base64_alphabet_def)
  moreover have "CHR ''$'' \<notin> set (params_field p)" "CHR ''$'' \<notin> set (''v='' @ show_int argon2_version)"
    using no assms by (simp_all add: params_field_def argon2_version_def)
  moreover have "CHR ''$'' \<notin> set ''argon2id''" by simp
  moreover have "''$argon2id$v='' @ show_int argon2_version @ ''$'' @ params_field p @ ''$''
      @ base64_encode a @ ''$'' @ base64_encode b = [] @ CHR ''$'' # (''argon2id'' @ CHR ''$'' #
      ((''v='' @ show_int argon2_version) @ CHR ''$'' # (params_field p @ CHR ''$'' #
      (base64_encode a @ CHR ''$'' # base64_encode b))))" by simp
  ultimately show ?thesis
    by (simp only: split_on_join split_on_single list.set empty_iff not_False_eq_True)
qed

lemma HashPassword_Inr:
  assumes "HashPassword argon2 (Some salt) password p = Inr v" and "params_in_range p"
    and "int (length salt) = ar_SaltLength p"
    and "int (length (argon2 password salt (ar_Iterations p) (ar_Memory p) (ar_Parallelism p) (ar_KeyLength p))) = ar_KeyLength p"
  shows "VerifyPassword argon2 attempt v = Inr (argon2 attempt salt (ar_Iterations p) (ar_Memory p) (ar_Parallelism p) (ar_KeyLength p)
    = argon2 password salt (ar_Iterations p) (ar_Memory p) (ar_Parallelism p) (ar_KeyLength p))"
proof -
  let ?h = "argon2 password salt (ar_Iterations p) (ar_Memory p) (ar_Parallelism p) (ar_KeyLength p)"
  have valid: "validateParams p = None"
    using assms(1) by (cases "validateParams p") (auto simp: HashPassword_def split: if_splits)
  with assms(1) have v: "v = ''$argon2id$v='' @ show_int argon2_version @ ''$'' @ params_field p @ ''$''
      @ base64_encode salt @ ''$'' @ base64_encode ?h"
    by (simp add: HashPassword_def split: if_splits)
  have valid': "validateParams \<lparr>ar_Memory = ar_Memory p, ar_Iterations = ar_Iterations p, ar_Parallelism = ar_Parallelism p,
      ar_SaltLength = int (length salt), ar_KeyLength = int (length ?h)\<rparr> = None"
    using valid unfolding validateParams_None by (simp add: assms(3,4))
  have "0 \<le> ar_Memory p" "0 \<le> ar_Iterations p" "0 \<le> ar_Parallelism p"
    using assms(2) by (simp_all add: params_in_range_def)
  note parts = split_verifier [OF this, of salt ?h]
  show ?thesis
    unfolding VerifyPassword_def v parts
    using valid' by (simp add: read_params_back [OF valid assms(2)] decode_encode assms(3,4))
qed

end
