(* ===== verification/LocalAuth.thy ===== *)
theory LocalAuth
  imports Password AgentStateStore Effects
begin

text \<open>
  The local authorization service (\<open>agent/localauth/service.go\<close>): it checks the responsible
  person's password against the verifier of the current policy, slows down after wrong
  passwords, and grants bonuses. The service's mutex serializes the grants; a grant is one
  action on the service's state and the store. The random bytes of the bonus identifier and
  whether the database serves each call are given from outside.
\<close>

record AuthService =
  as_store :: Store
  as_failed :: int
  as_nextAttemptAt :: time

record GrantResult =
  gr_UUID :: string
  gr_BonusSeconds :: int
  gr_TotalSeconds :: int

datatype GrantError =
    GrantTimeRequired | BonusOutOfRange | RateLimited time | VerifierNotLoaded StoreError
  | PasswordNotConfigured | VerifierUnusable PasswordError | WrongPassword
  | NoGrantUUID | BonusNotStored StoreError | TotalNotRead StoreError

definition NewAuthService :: "Store \<Rightarrow> AuthService" where
  "NewAuthService store = \<lparr>as_store = store, as_failed = 0, as_nextAttemptAt = zero_time\<rparr>"

definition failure_delays :: "duration list" where
  "failure_delays = [2 * second, 5 * second, 15 * second, minute, 5 * minute]"

definition backoffForFailure :: "int \<Rightarrow> duration" where
  "backoffForFailure failures =
     (if failures \<le> 0 then 0
      else if int (length failure_delays) < failures then last failure_delays
      else failure_delays ! nat (failures - 1))"

text \<open>A version-4 UUID from sixteen random bytes.\<close>

definition hex_digit :: "int \<Rightarrow> char" where
  "hex_digit n = ''0123456789abcdef'' ! nat (n mod 16)"

definition hex_byte :: "int \<Rightarrow> string" where
  "hex_byte b = [hex_digit (b div 16), hex_digit b]"

definition newUUID :: "int list \<Rightarrow> string" where
  "newUUID bytes =
     (let bytes' = bytes[6 := bytes ! 6 mod 16 + 64, 8 := bytes ! 8 mod 64 + 128];
          encoded = concat (map hex_byte bytes')
      in take 8 encoded @ ''-'' @ take 4 (drop 8 encoded) @ ''-'' @ take 4 (drop 12 encoded)
         @ ''-'' @ take 4 (drop 16 encoded) @ ''-'' @ take 12 (drop 20 encoded))"

text \<open>The database calls of a grant.\<close>

datatype GrantCall = CallVerifier | CallAddBonus | CallRefresh | CallTotal

record GrantEnv =
  ge_now :: time
  ge_random :: "int list option"
  ge_db :: "GrantCall \<Rightarrow> bool"

type_synonym 'a grant = "(AuthService, GrantError, 'a) act"

definition on_auth_store :: "(StoreError \<Rightarrow> GrantError) \<Rightarrow> (Store \<Rightarrow> (StoreError + 'a) \<times> Store) \<Rightarrow> 'a grant" where
  "on_auth_store err f = (\<lambda>a. case f (as_store a) of
     (r, s) \<Rightarrow> (wrap_error err r, a\<lparr>as_store := s\<rparr>))"

definition granted_bonus :: "string \<Rightarrow> string \<Rightarrow> int \<Rightarrow> time \<Rightarrow> Bonus" where
  "granted_bonus uuid localDate seconds now = \<lparr>bo_UUID = uuid, bo_LocalDate = localDate,
     bo_Seconds = seconds, bo_Origin = ''local'', bo_CreatedAt = now\<rparr>"

definition granted_event :: "string \<Rightarrow> string \<Rightarrow> int \<Rightarrow> time \<Rightarrow> PendingEvent" where
  "granted_event uuid localDate seconds now = \<lparr>pe_UUID = uuid, pe_Kind = ''bonus_added'',
     pe_PayloadJSON = bonus_text localDate seconds, pe_CreatedAt = now, pe_RetryCount = 0\<rparr>"

text \<open>A wrong password counts and sets the next time an attempt is looked at.\<close>

definition check_password :: "argon2 \<Rightarrow> GrantEnv \<Rightarrow> string \<Rightarrow> unit grant" where
  "check_password argon2 env password =
     andThen (on_auth_store VerifierNotLoaded (\<lambda>s. (LoadPolicy (ge_db env CallVerifier) s, s))) (\<lambda>policy.
     andThen (fails_if (ps_LocalPasswordVerifier policy = []) PasswordNotConfigured) (\<lambda>_.
     andThen (returned (wrap_error VerifierUnusable
        (VerifyPassword argon2 password (ps_LocalPasswordVerifier policy)))) (\<lambda>correct.
     if \<not> correct
     then andThen (modify (\<lambda>a. a\<lparr>as_failed := as_failed a + 1,
            as_nextAttemptAt := ge_now env + backoffForFailure (as_failed a + 1)\<rparr>)) (\<lambda>_.
          throw WrongPassword)
     else modify (\<lambda>a. a\<lparr>as_failed := 0, as_nextAttemptAt := zero_time\<rparr>))))"

definition store_grant :: "location \<Rightarrow> GrantEnv \<Rightarrow> int \<Rightarrow> GrantResult grant" where
  "store_grant loc env seconds =
     (case ge_random env of None \<Rightarrow> throw NoGrantUUID
      | Some bytes \<Rightarrow>
          (let uuid = newUUID bytes; localDate = local_date loc (ge_now env)
           in andThen (on_auth_store BonusNotStored (AddBonusWithEvent (ge_db env CallAddBonus)
                  (ge_db env CallRefresh) (granted_bonus uuid localDate seconds (ge_now env))
                  (granted_event uuid localDate seconds (ge_now env)))) (\<lambda>_.
              andThen (on_auth_store TotalNotRead (\<lambda>s. (TotalBonusSeconds (ge_db env CallTotal) localDate s, s)))
                (\<lambda>total. ret \<lparr>gr_UUID = uuid, gr_BonusSeconds = seconds, gr_TotalSeconds = total\<rparr>))))"

definition Grant :: "location \<Rightarrow> argon2 \<Rightarrow> GrantEnv \<Rightarrow> string \<Rightarrow> int \<Rightarrow> GrantResult grant" where
  "Grant loc argon2 env password seconds =
     andThen (fails_if (is_zero (ge_now env)) GrantTimeRequired) (\<lambda>_.
     andThen (fails_if (seconds < 60 \<or> go_div (12 * hour) second < seconds) BonusOutOfRange) (\<lambda>_.
     andThen (reads as_nextAttemptAt) (\<lambda>nextAttemptAt.
     andThen (fails_if (ge_now env < nextAttemptAt) (RateLimited nextAttemptAt)) (\<lambda>_.
     andThen (check_password argon2 env password) (\<lambda>_.
     store_grant loc env seconds)))))"

end
