(* ===== verification/LocalAuthProps.thy ===== *)
theory LocalAuthProps
  imports LocalAuth AgentStoreProps
begin

text \<open>
  The properties of the local authorization: verifiers accept their password and no work factor
  outside the limits is ever used, a grant is one bonus with the event that reports it, wrong
  passwords are slowed down, and a grant that reports an error may still have been made.
\<close>

section \<open>Verifiers\<close>

text \<open>A stand-in for Argon2id in the witnesses: it pads the password and the salt to the length asked for.\<close>

definition padded :: argon2 where
  "padded password salt t m p k = take (nat k) (password @ salt @ replicate (nat k) (CHR ''x''))"

definition test_params :: Argon2Params where
  "test_params = \<lparr>ar_Memory = 8 * 1024, ar_Iterations = 1, ar_Parallelism = 1, ar_SaltLength = 8, ar_KeyLength = 16\<rparr>"

text \<open>C35: The verifier made from a password with acceptable work factors is read back with the same
  factors, salt and hash: a password is accepted exactly when its Argon2id hash under them is the
  one of the original password, so the original is accepted. Argon2id is only assumed to return
  as many bytes as it is asked for.\<close>

theorem verifier_accepts_its_password:
  assumes "HashPassword argon2 (Some salt) password p = Inr v" and "params_in_range p"
    and "int (length salt) = ar_SaltLength p"
    and "\<forall>w s t m l k. length (argon2 w s t m l k) = nat k"
  shows "VerifyPassword argon2 password v = Inr True
    \<and> (\<forall>w. VerifyPassword argon2 w v =
        Inr (argon2 w salt (ar_Iterations p) (ar_Memory p) (ar_Parallelism p) (ar_KeyLength p)
           = argon2 password salt (ar_Iterations p) (ar_Memory p) (ar_Parallelism p) (ar_KeyLength p)))"
proof -
  from assms(1) have "validateParams p = None"
    by (cases "validateParams p") (auto simp: HashPassword_def split: if_splits)
  then have "0 \<le> ar_KeyLength p" unfolding validateParams_None by simp
  with assms(4) have "int (length (argon2 password salt (ar_Iterations p) (ar_Memory p) (ar_Parallelism p)
      (ar_KeyLength p))) = ar_KeyLength p" by simp
  from HashPassword_Inr [OF assms(1-3) this] show ?thesis by simp
qed

lemma verifier_accepts_its_password_witness:
  "\<exists>v. HashPassword padded (Some ''saltsalt'') ''secret'' test_params = Inr v
     \<and> VerifyPassword padded ''secret'' v = Inr True \<and> VerifyPassword padded ''wrong'' v = Inr False"
proof -
  have ok: "validateParams test_params = None" "params_in_range test_params"
    unfolding validateParams_None by (simp_all add: test_params_def params_in_range_def)
  then obtain v where v: "HashPassword padded (Some ''saltsalt'') ''secret'' test_params = Inr v"
    by (simp add: HashPassword_def)
  have len: "\<forall>w s t m l k. length (padded w s t m l k) = nat k" by (auto simp: padded_def min_def)
  have salt: "int (length ''saltsalt'') = ar_SaltLength test_params" by (simp add: test_params_def)
  have "padded ''wrong'' ''saltsalt'' 1 8192 1 16 \<noteq> padded ''secret'' ''saltsalt'' 1 8192 1 16"
    by (simp add: padded_def)
  with verifier_accepts_its_password [OF v ok(2) salt len] v show ?thesis
    by (simp add: test_params_def)
qed

text \<open>A stored verifier never makes Argon2id run outside the limits - between 8 and 256 MiB of
  memory, at most 10 iterations, at most 8 lanes, salt and key within 64 bytes: two functions
  that agree within the limits give the same verdict on every verifier.\<close>

theorem argon2_only_within_limits:
  assumes "\<forall>w s t m l k. validateParams \<lparr>ar_Memory = m, ar_Iterations = t, ar_Parallelism = l,
      ar_SaltLength = int (length s), ar_KeyLength = k\<rparr> = None \<longrightarrow> a1 w s t m l k = a2 w s t m l k"
  shows "VerifyPassword a1 password verifier = VerifyPassword a2 password verifier"
  using assms by (auto simp: VerifyPassword_def split: list.split option.split)

lemma argon2_only_within_limits_witness:
  "VerifyPassword padded ''password'' ''$argon2id$v=19$m=999999999,t=3,p=2$c2FsdHNhbHQ$aGFzaGhhc2hoYXNoaGFzaA''
    = VerifyPassword (\<lambda>w s t m l k. if 256 * 1024 < m then [] else padded w s t m l k) ''password''
        ''$argon2id$v=19$m=999999999,t=3,p=2$c2FsdHNhbHQ$aGFzaGhhc2hoYXNoaGFzaA''"
  by (rule argon2_only_within_limits) (simp add: validateParams_None)

section \<open>Wrong passwords are slowed down\<close>

text \<open>The refusals before the password is found right.\<close>

definition refused :: "GrantError + GrantResult \<Rightarrow> bool" where
  "refused r \<longleftrightarrow> (case r of Inr _ \<Rightarrow> False
     | Inl e \<Rightarrow> (case e of NoGrantUUID \<Rightarrow> False | BonusNotStored _ \<Rightarrow> False | TotalNotRead _ \<Rightarrow> False | _ \<Rightarrow> True))"

record GrantRequest =
  gq_env :: GrantEnv
  gq_password :: string
  gq_seconds :: int

text \<open>The times at which a wrong password was tried, in a sequence of grants, and whether all were
  refused.\<close>

fun guess_times :: "location \<Rightarrow> argon2 \<Rightarrow> GrantRequest list \<Rightarrow> AuthService \<Rightarrow> time list" where
  "guess_times loc argon2 [] a = []"
| "guess_times loc argon2 (q # qs) a =
     (case Grant loc argon2 (gq_env q) (gq_password q) (gq_seconds q) a of
        (r, a') \<Rightarrow> (if r = Inl WrongPassword then [ge_now (gq_env q)] else []) @ guess_times loc argon2 qs a')"

fun all_refused :: "location \<Rightarrow> argon2 \<Rightarrow> GrantRequest list \<Rightarrow> AuthService \<Rightarrow> bool" where
  "all_refused loc argon2 [] a = True"
| "all_refused loc argon2 (q # qs) a =
     (case Grant loc argon2 (gq_env q) (gq_password q) (gq_seconds q) a of
        (r, a') \<Rightarrow> refused r \<and> all_refused loc argon2 qs a')"

lemma Grant_refused:
  assumes "Grant loc argon2 env password seconds a = (r, a')" and "refused r"
  shows "if r = Inl WrongPassword
    then as_nextAttemptAt a \<le> ge_now env \<and> a' = a\<lparr>as_failed := as_failed a + 1,
           as_nextAttemptAt := ge_now env + backoffForFailure (as_failed a + 1)\<rparr>
    else a' = a"
proof -
  have store: "refused r \<Longrightarrow> store_grant loc env seconds b = (r, b') \<Longrightarrow> False" for b b'
    by (auto simp: store_grant_def refused_def andThen_def run_simps on_auth_store_def wrap_error_def Let_def
        split: option.splits prod.splits sum.splits)
  from assms show ?thesis
    by (auto simp: Grant_def check_password_def andThen_def run_simps on_auth_store_def wrap_error_def
        split: if_splits sum.splits prod.splits dest!: store)
qed

lemma backoff_monotone: "1 \<le> k \<Longrightarrow> 2 * second \<le> backoffForFailure k"
proof -
  assume k: "1 \<le> k"
  then consider "k = 1" | "k = 2" | "k = 3" | "k = 4" | "k = 5" | "5 < k" by linarith
  then show ?thesis
    by cases (simp_all add: backoffForFailure_def failure_delays_def duration_defs)
qed

lemma backoff_last: "5 \<le> k \<Longrightarrow> backoffForFailure k = 5 * minute"
  by (cases "k = 5") (auto simp: backoffForFailure_def failure_delays_def)

definition gaps_from :: "int \<Rightarrow> time list \<Rightarrow> bool" where
  "gaps_from k ts \<longleftrightarrow> (\<forall>i. Suc i < length ts \<longrightarrow> ts ! i + backoffForFailure (k + int i + 1) \<le> ts ! Suc i)"

lemma gaps_from_Cons:
  "gaps_from (k + 1) ts \<Longrightarrow> (ts \<noteq> [] \<Longrightarrow> t + backoffForFailure (k + 1) \<le> hd ts) \<Longrightarrow> gaps_from k (t # ts)"
  unfolding gaps_from_def
proof (intro allI impI)
  fix i assume gaps: "\<forall>i. Suc i < length ts \<longrightarrow> ts ! i + backoffForFailure (k + 1 + int i + 1) \<le> ts ! Suc i"
    and first: "ts \<noteq> [] \<Longrightarrow> t + backoffForFailure (k + 1) \<le> hd ts" and i: "Suc i < length (t # ts)"
  show "(t # ts) ! i + backoffForFailure (k + int i + 1) \<le> (t # ts) ! Suc i"
  proof (cases i)
    case 0
    with i have "ts \<noteq> []" by auto
    with first 0 show ?thesis by (simp add: hd_conv_nth)
  next
    case (Suc j)
    have "k + 1 + int j + 1 = k + int (Suc j) + 1" by simp
    moreover from gaps i Suc have "ts ! j + backoffForFailure (k + 1 + int j + 1) \<le> ts ! Suc j" by simp
    ultimately show ?thesis by (simp only: Suc nth_Cons_Suc)
  qed
qed

lemma guesses_gaps:
  "all_refused loc argon2 qs a \<Longrightarrow> 0 \<le> as_failed a \<Longrightarrow>
     gaps_from (as_failed a) (guess_times loc argon2 qs a)
     \<and> (\<forall>t\<in>set (take 1 (guess_times loc argon2 qs a)). as_nextAttemptAt a \<le> t)"
proof (induction qs arbitrary: a)
  case Nil
  show ?case by (simp add: gaps_from_def)
next
  case (Cons q qs)
  obtain r a' where run: "Grant loc argon2 (gq_env q) (gq_password q) (gq_seconds q) a = (r, a')" by fastforce
  from Cons.prems run have ref: "refused r" and rest: "all_refused loc argon2 qs a'" by simp_all
  note one = Grant_refused [OF run ref]
  show ?case
  proof (cases "r = Inl WrongPassword")
    case True
    with one have a': "a' = a\<lparr>as_failed := as_failed a + 1,
        as_nextAttemptAt := ge_now (gq_env q) + backoffForFailure (as_failed a + 1)\<rparr>"
      and now: "as_nextAttemptAt a \<le> ge_now (gq_env q)" by simp_all
    from Cons.IH [OF rest] Cons.prems(2)
    have IH: "gaps_from (as_failed a + 1) (guess_times loc argon2 qs a')"
      and first: "\<forall>t\<in>set (take 1 (guess_times loc argon2 qs a')). ge_now (gq_env q) + backoffForFailure (as_failed a + 1) \<le> t"
      by (simp_all add: a')
    have "gaps_from (as_failed a) (ge_now (gq_env q) # guess_times loc argon2 qs a')"
      using first by (intro gaps_from_Cons [OF IH]) (cases "guess_times loc argon2 qs a'", auto)
    with now run True show ?thesis by simp
  next
    case False
    with one Cons.IH [OF rest] Cons.prems(2) run show ?thesis by simp
  qed
qed

text \<open>C36: While the password is never right, the guesses come slower and slower, however often and
  with whatever times grants are requested: between the i-th wrong password and the next one at
  least the delay for i failures passes - two seconds at least, five minutes from the fifth on -
  so n guesses take at least five minutes times n less five.\<close>

theorem wrong_passwords_are_slowed_down:
  assumes "all_refused loc argon2 qs (NewAuthService s)"
  defines "ts \<equiv> guess_times loc argon2 qs (NewAuthService s)"
  shows "(\<forall>i. Suc i < length ts \<longrightarrow> ts ! i + backoffForFailure (int i + 1) \<le> ts ! Suc i)
    \<and> (ts \<noteq> [] \<longrightarrow> (int (length ts) - 5) * (5 * minute) \<le> last ts - hd ts)"
proof -
  have gaps: "gaps_from 0 ts"
    using guesses_gaps [OF assms(1)] by (simp add: NewAuthService_def ts_def)
  have step: "ts ! i + backoffForFailure (int i + 1) \<le> ts ! Suc i" if "Suc i < length ts" for i
    using gaps that by (simp add: gaps_from_def)
  have forward: "hd ts + (int i - 4) * (5 * minute) \<le> ts ! i" if "i < length ts" for i
    using that
  proof (induction i)
    case 0
    then show ?case by (simp add: hd_conv_nth duration_defs)
  next
    case (Suc i)
    show ?case
    proof (cases "4 \<le> i")
      case True
      with step [of i] Suc backoff_last [of "int i + 1"] show ?thesis by (simp add: algebra_simps)
    next
      case False
      have "hd ts \<le> ts ! j" if "j < length ts" for j
        using that
      proof (induction j)
        case (Suc j)
        with step [of j] backoff_monotone [of "int j + 1"] show ?case by (simp add: duration_defs)
      qed (simp add: hd_conv_nth)
      with Suc.prems have "hd ts \<le> ts ! Suc i" by blast
      moreover have "(int (Suc i) - 4) * (5 * minute) \<le> 0"
        using False by (simp add: duration_defs mult_nonpos_nonneg)
      ultimately show ?thesis by linarith
    qed
  qed
  have "(int (length ts) - 5) * (5 * minute) \<le> last ts - hd ts" if ne: "ts \<noteq> []"
  proof -
    obtain n where n: "length ts = Suc n" using ne by (cases ts) auto
    with ne have "last ts = ts ! n" by (simp add: last_conv_nth)
    with forward [of n] n show ?thesis by (simp add: algebra_simps)
  qed
  with step show ?thesis by blast
qed

text \<open>The samples: a store whose policy carries a verifier of the password, and a grant.\<close>

definition secret_verifier :: string where
  "secret_verifier = (case HashPassword padded (Some ''saltsalt'') ''secret'' test_params of Inr v \<Rightarrow> v | Inl e \<Rightarrow> [])"

definition password_policy :: PolicySnapshot where
  "password_policy = (sample_policy 3)\<lparr>ps_LocalPasswordVerifier := secret_verifier\<rparr>"

definition password_store :: Store where
  "password_store = empty_store\<lparr>st_db := write_policy password_policy
     (sort_key sr_ID (ps_Routines password_policy)) empty_database\<rparr>"

definition grant_env :: "int \<Rightarrow> GrantEnv" where
  "grant_env k = \<lparr>ge_now = sample_now + k * second, ge_random = Some [1..16], ge_db = (\<lambda>_. True)\<rparr>"

lemma secret_verifier_props:
  "secret_verifier \<noteq> []" "VerifyPassword padded ''secret'' secret_verifier = Inr True"
  "VerifyPassword padded ''wrong'' secret_verifier = Inr False"
proof -
  have ok: "validateParams test_params = None" "params_in_range test_params"
    unfolding validateParams_None by (simp_all add: test_params_def params_in_range_def)
  then obtain v where v: "HashPassword padded (Some ''saltsalt'') ''secret'' test_params = Inr v"
    by (simp add: HashPassword_def)
  have "int (length ''saltsalt'') = ar_SaltLength test_params" by (simp add: test_params_def)
  moreover have "int (length (padded ''secret'' ''saltsalt'' (ar_Iterations test_params) (ar_Memory test_params)
      (ar_Parallelism test_params) (ar_KeyLength test_params))) = ar_KeyLength test_params"
    by (simp add: padded_def test_params_def)
  moreover have "padded ''wrong'' ''saltsalt'' 1 8192 1 16 \<noteq> padded ''secret'' ''saltsalt'' 1 8192 1 16"
    by (simp add: padded_def)
  ultimately have "VerifyPassword padded ''secret'' v = Inr True" "VerifyPassword padded ''wrong'' v = Inr False"
    using HashPassword_Inr [OF v ok(2)] by (simp_all add: test_params_def)
  moreover have "secret_verifier = v" by (simp add: secret_verifier_def v)
  moreover have "v \<noteq> []" using v ok(1) by (auto simp: HashPassword_def)
  ultimately show "secret_verifier \<noteq> []" "VerifyPassword padded ''secret'' secret_verifier = Inr True"
    "VerifyPassword padded ''wrong'' secret_verifier = Inr False" by simp_all
qed

lemma password_store_loads:
  "\<exists>p. LoadPolicy True password_store = Inr p \<and> ps_LocalPasswordVerifier p = secret_verifier"
proof -
  have "validatePolicy (sample_policy 3) = None" by code_simp
  then have "validatePolicy password_policy = None"
    by (simp add: validatePolicy_None password_policy_def)
  moreover have "quotas_in64 password_policy"
    by (simp add: quotas_in64_def password_policy_def sample_policy_def in64_def duration_defs)
  ultimately show ?thesis
    by (simp add: LoadPolicy_def password_store_def load_write_policy) (simp add: password_policy_def)
qed

lemma wrong_guess:
  assumes "as_store a = password_store" and "as_nextAttemptAt a \<le> ge_now (grant_env k)" and "0 \<le> k"
  shows "Grant loc padded (grant_env k) ''wrong'' 900 a = (Inl WrongPassword, a\<lparr>as_failed := as_failed a + 1,
    as_nextAttemptAt := ge_now (grant_env k) + backoffForFailure (as_failed a + 1)\<rparr>)"
proof -
  from password_store_loads obtain p where "LoadPolicy True password_store = Inr p"
    "ps_LocalPasswordVerifier p = secret_verifier" by blast
  moreover have "\<not> is_zero (ge_now (grant_env k))"
    using assms(3) by (simp add: grant_env_def is_zero_def zero_time_def sample_now_def duration_defs)
  moreover have "go_div (12 * hour) second = 43200" by (simp add: duration_defs)
  moreover have "ge_db (grant_env k) = (\<lambda>_. True)" by (simp add: grant_env_def)
  ultimately show ?thesis
    using assms secret_verifier_props
    by (simp add: Grant_def check_password_def andThen_def run_simps on_auth_store_def wrap_error_def)
qed

lemma wrong_passwords_are_slowed_down_witness:
  "guess_times (fixed_zone 0) padded [\<lparr>gq_env = grant_env 0, gq_password = ''wrong'', gq_seconds = 900\<rparr>,
     \<lparr>gq_env = grant_env 2, gq_password = ''wrong'', gq_seconds = 900\<rparr>] (NewAuthService password_store)
     = [sample_now, sample_now + 2 * second]
   \<and> sample_now + backoffForFailure 1 \<le> sample_now + 2 * second"
proof -
  let ?qs = "[\<lparr>gq_env = grant_env 0, gq_password = ''wrong'', gq_seconds = 900\<rparr>,
     \<lparr>gq_env = grant_env 2, gq_password = ''wrong'', gq_seconds = 900\<rparr>]"
  have now: "ge_now (grant_env k) = sample_now + k * second" for k by (simp add: grant_env_def)
  have b: "backoffForFailure 1 = 2 * second" by (simp add: backoffForFailure_def failure_delays_def)
  define a where "a = NewAuthService password_store"
  have a: "as_nextAttemptAt a \<le> ge_now (grant_env 0)" "as_store a = password_store" "as_failed a = 0"
    by (simp_all add: a_def NewAuthService_def now zero_time_def sample_now_def duration_defs)
  define a' where "a' = a\<lparr>as_failed := 1, as_nextAttemptAt := sample_now + 2 * second\<rparr>"
  from wrong_guess [OF a(2,1), of "fixed_zone 0"]
  have one: "Grant (fixed_zone 0) padded (grant_env 0) ''wrong'' 900 a = (Inl WrongPassword, a')"
    by (simp add: a(3) now b a'_def)
  have a': "as_nextAttemptAt a' \<le> ge_now (grant_env 2)" "as_store a' = password_store"
    by (simp_all add: a'_def now a(2))
  obtain a'' where two: "Grant (fixed_zone 0) padded (grant_env 2) ''wrong'' 900 a' = (Inl WrongPassword, a'')"
    using wrong_guess [OF a'(2,1), of "fixed_zone 0"] by simp
  have times: "guess_times (fixed_zone 0) padded ?qs (NewAuthService password_store) = [sample_now, sample_now + 2 * second]"
    unfolding a_def [symmetric] by (simp add: one two now)
  have "all_refused (fixed_zone 0) padded ?qs (NewAuthService password_store)"
    unfolding a_def [symmetric] by (simp add: one two refused_def)
  from wrong_passwords_are_slowed_down [OF this] times
  have "[sample_now, sample_now + 2 * second] ! 0 + backoffForFailure (int 0 + 1) \<le> [sample_now, sample_now + 2 * second] ! Suc 0"
    by (metis length_Cons lessI list.size(3))
  with times show ?thesis by simp
qed

section \<open>What a grant does\<close>

abbreviation granted_db :: "location \<Rightarrow> GrantEnv \<Rightarrow> string \<Rightarrow> int \<Rightarrow> Database \<Rightarrow> Database" where
  "granted_db loc env uuid seconds db \<equiv>
     insert_bonus_event (granted_bonus uuid (local_date loc (ge_now env)) seconds (ge_now env))
       (granted_event uuid (local_date loc (ge_now env)) seconds (ge_now env)) db"

lemma AddBonusWithEvent_effect:
  assumes "AddBonusWithEvent io refresh b e s = (r, s')"
  shows "(st_db s' = st_db s \<and> r \<noteq> Inr ()) \<or> st_db s' = insert_bonus_event b e (st_db s)"
  using assms by (auto simp: AddBonusWithEvent_def refreshConfirmedSessionState_def
      split: option.splits if_splits)

lemma check_password_effect:
  assumes "check_password argon2 env password a = (r, a')"
  shows "as_store a' = as_store a"
    and "r = Inr () \<Longrightarrow> as_failed a' = 0 \<and> as_nextAttemptAt a' = zero_time
      \<and> (\<exists>p. LoadPolicy True (as_store a) = Inr p \<and> ps_LocalPasswordVerifier p \<noteq> []
             \<and> VerifyPassword argon2 password (ps_LocalPasswordVerifier p) = Inr True)"
    and "r = Inl e \<Longrightarrow> refused (Inl e)"
  using assms by (auto simp: check_password_def andThen_def run_simps on_auth_store_def wrap_error_def
      refused_def LoadPolicy_def split: if_splits sum.splits prod.splits)

lemma store_grant_effect:
  assumes "store_grant loc env seconds a = (r, a')"
  shows "as_failed a' = as_failed a \<and> as_nextAttemptAt a' = as_nextAttemptAt a"
    and "r = Inr g \<Longrightarrow> \<exists>bytes. ge_random env = Some bytes \<and> gr_UUID g = newUUID bytes
      \<and> gr_BonusSeconds g = seconds
      \<and> st_db (as_store a') = granted_db loc env (newUUID bytes) seconds (st_db (as_store a))
      \<and> gr_TotalSeconds g = bonus_total (local_date loc (ge_now env)) (st_db (as_store a'))"
    and "r = Inl e \<Longrightarrow> st_db (as_store a') = st_db (as_store a) \<and> (\<exists>e'. e = NoGrantUUID \<or> e = BonusNotStored e')
      \<or> (\<exists>bytes. ge_random env = Some bytes \<and> (\<exists>e'. e = BonusNotStored e' \<or> e = TotalNotRead e')
           \<and> st_db (as_store a') = granted_db loc env (newUUID bytes) seconds (st_db (as_store a)))"
  using assms by (auto simp: store_grant_def andThen_def run_simps on_auth_store_def wrap_error_def Let_def
      TotalBonusSeconds_def split: if_splits sum.splits prod.splits option.splits
      dest: AddBonusWithEvent_effect)

lemma sample_grant:
  "\<exists>g a'. Grant (fixed_zone 0) padded (grant_env 0) ''secret'' 900 (NewAuthService password_store) = (Inr g, a')"
proof -
  from password_store_loads obtain p where p: "LoadPolicy True password_store = Inr p"
    "ps_LocalPasswordVerifier p = secret_verifier" by blast
  have now: "ge_now (grant_env 0) = sample_now" "ge_random (grant_env 0) = Some [1..16]"
    "ge_db (grant_env 0) = (\<lambda>_. True)" by (simp_all add: grant_env_def)
  have "\<not> is_zero sample_now" "zero_time \<le> sample_now" by code_simp+
  moreover have hours: "go_div (12 * hour) second = 43200" by (simp add: duration_defs)
  have b: "validateBonus (granted_bonus (newUUID [1..16]) (local_date (fixed_zone 0) sample_now) 900 sample_now) = None"
    "validateEvent (granted_event (newUUID [1..16]) (local_date (fixed_zone 0) sample_now) 900 sample_now) = None"
    "validateLocalDate (local_date (fixed_zone 0) sample_now) = None"
    by code_simp+
  have fields: "bo_UUID (granted_bonus u d n t) = u" "pe_UUID (granted_event u d n t) = u"
    "bo_LocalDate (granted_bonus u d n t) = d" "bo_Seconds (granted_bonus u d n t) = n" for u d n t
    by (simp_all add: granted_bonus_def granted_event_def)
  have st: "confirmed_session_state (st_db password_store) = None" "bonus (st_db password_store) = []"
    by (simp_all add: password_store_def empty_store_def empty_database_def write_policy_def)
  ultimately show ?thesis
    using secret_verifier_props
    by (simp add: Grant_def check_password_def store_grant_def andThen_def run_simps on_auth_store_def
        wrap_error_def NewAuthService_def now p hours AddBonusWithEvent_def b fields
        refreshConfirmedSessionState_def tbl_insert_ignore_def tbl_has_def insert_bonus_event_def Let_def st add_to_confirmed_def
        TotalBonusSeconds_def bonus_total_def in64_def)
qed

text \<open>C37: A grant succeeds only for one minute to twelve hours, no earlier than the slow-down allows,
  and with a password the current verifier accepts; it then inserts one bonus and, with the same
  fresh identifier, the event that reports it - whose text the server reads back as the same date
  and seconds - returns the day's new total and resets the slow-down. Every refusal leaves the
  database alone; only an error of storing or of reading the total may come after the bonus.\<close>

theorem grant_outcome:
  assumes "Grant loc argon2 env password seconds a = (r, a')"
  shows "case r of
      Inr g \<Rightarrow> 60 \<le> seconds \<and> seconds \<le> 43200 \<and> as_nextAttemptAt a \<le> ge_now env
        \<and> (\<exists>p. LoadPolicy True (as_store a) = Inr p
             \<and> VerifyPassword argon2 password (ps_LocalPasswordVerifier p) = Inr True)
        \<and> (\<exists>bytes. ge_random env = Some bytes \<and> gr_UUID g = newUUID bytes)
        \<and> st_db (as_store a') = granted_db loc env (gr_UUID g) seconds (st_db (as_store a))
        \<and> gr_TotalSeconds g = bonus_total (local_date loc (ge_now env)) (st_db (as_store a'))
        \<and> read_bonus (pe_PayloadJSON (granted_event (gr_UUID g) (local_date loc (ge_now env)) seconds (ge_now env)))
            = Some \<lparr>bp_UUID = [], bp_LocalDate = local_date loc (ge_now env), bp_Seconds = seconds,
                    bp_Origin = ''local'', bp_CreatedAt = zero_time\<rparr>
        \<and> as_failed a' = 0
    | Inl e \<Rightarrow> st_db (as_store a') = st_db (as_store a)
        \<or> \<not> refused (Inl e) \<and> (\<exists>bytes. ge_random env = Some bytes
             \<and> st_db (as_store a') = granted_db loc env (newUUID bytes) seconds (st_db (as_store a)))"
proof -
  have hours: "go_div (12 * hour) second = 43200" by (simp add: duration_defs)
  show ?thesis
  proof (cases "is_zero (ge_now env) \<or> seconds < 60 \<or> 43200 < seconds \<or> ge_now env < as_nextAttemptAt a")
    case True
    with assms hours show ?thesis
      by (auto simp: Grant_def andThen_def run_simps split: if_splits)
  next
    case in_range: False
    obtain rc b where check: "check_password argon2 env password a = (rc, b)" by fastforce
    note checked = check_password_effect [OF check]
    show ?thesis
    proof (cases rc)
      case (Inl e)
      with assms hours in_range check have "r = Inl e" "a' = b"
        by (auto simp: Grant_def andThen_def run_simps)
      with checked(1) show ?thesis by simp
    next
      case (Inr u)
      with assms hours in_range check have store: "store_grant loc env seconds b = (r, a')"
        by (auto simp: Grant_def andThen_def run_simps)
      note stored = store_grant_effect [OF store]
      show ?thesis
      proof (cases r)
        case (Inl e)
        with stored(3) [OF this] checked(1) show ?thesis by (auto simp: refused_def)
      next
        case r: (Inr g)
        have "in64 seconds" using in_range by (simp add: in64_def)
        from read_bonus_text [OF _ this]
        have "read_bonus (bonus_text (local_date loc (ge_now env)) seconds) =
          Some \<lparr>bp_UUID = [], bp_LocalDate = local_date loc (ge_now env), bp_Seconds = seconds,
            bp_Origin = ''local'', bp_CreatedAt = zero_time\<rparr>" by (simp add: local_date_def)
        with stored(1) stored(2) [OF r] checked(1,2) Inr in_range r show ?thesis
          by (auto simp: granted_event_def)
      qed
    qed
  qed
qed

lemma grant_outcome_witness:
  "\<exists>g a'. Grant (fixed_zone 0) padded (grant_env 0) ''secret'' 900 (NewAuthService password_store) = (Inr g, a')
     \<and> gr_UUID g = newUUID [1..16] \<and> length (bonus (st_db (as_store a'))) = 1
     \<and> gr_TotalSeconds g = bonus_total ''2026-07-20'' (st_db (as_store a'))"
proof -
  from sample_grant obtain g a' where grant: "Grant (fixed_zone 0) padded (grant_env 0) ''secret'' 900
      (NewAuthService password_store) = (Inr g, a')" by blast
  have "ge_random (grant_env 0) = Some [1..16]" by (simp add: grant_env_def)
  moreover have "bonus (st_db password_store) = []"
    by (simp add: password_store_def empty_store_def empty_database_def write_policy_def)
  moreover have "local_date (fixed_zone 0) sample_now = ''2026-07-20''" by code_simp
  ultimately show ?thesis
    using grant grant_outcome [OF grant]
    by (simp add: NewAuthService_def insert_bonus_event_def Let_def grant_env_def tbl_insert_ignore_def tbl_has_def)
qed

text \<open>A grant that reports that the bonus could not be stored may have stored it: when the
  database serves everything but the read after the commit, the bonus and its event are in the
  database exactly as after the successful grant, and the caller gets an error and no identifier.\<close>

theorem grant_error_after_commit:
  assumes "Grant loc argon2 (env\<lparr>ge_db := \<lambda>_. True\<rparr>) password seconds a = (Inr g, a1)"
  shows "\<exists>a2. Grant loc argon2 (env\<lparr>ge_db := \<lambda>call. call \<noteq> CallRefresh\<rparr>) password seconds a
      = (Inl (BonusNotStored DbFailure), a2) \<and> st_db (as_store a2) = st_db (as_store a1)"
proof -
  let ?ok = "env\<lparr>ge_db := \<lambda>_. True\<rparr>"
  let ?bad = "env\<lparr>ge_db := \<lambda>call. call \<noteq> CallRefresh\<rparr>"
  have hours: "go_div (12 * hour) second = 43200" by (simp add: duration_defs)
  have same: "check_password argon2 ?bad password = check_password argon2 ?ok password"
    by (simp add: check_password_def cong: if_cong)
  from assms obtain b where check: "check_password argon2 ?ok password a = (Inr (), b)"
    and store: "store_grant loc ?ok seconds b = (Inr g, a1)"
    and guards: "\<not> is_zero (ge_now env)" "60 \<le> seconds" "seconds \<le> 43200" "as_nextAttemptAt a \<le> ge_now env"
    unfolding Grant_def hours
    by (auto simp: andThen_def run_simps split: if_splits sum.splits prod.splits)
  from store have "\<exists>a2. store_grant loc ?bad seconds b = (Inl (BonusNotStored DbFailure), a2)
      \<and> st_db (as_store a2) = st_db (as_store a1)"
    by (auto simp: store_grant_def andThen_def run_simps on_auth_store_def wrap_error_def Let_def
      AddBonusWithEvent_def refreshConfirmedSessionState_def
      split: if_splits sum.splits prod.splits option.splits)
  with check guards show ?thesis
    unfolding Grant_def hours by (auto simp: andThen_def run_simps same)
qed

lemma grant_error_after_commit_witness:
  "\<exists>g a1 a2. Grant (fixed_zone 0) padded ((grant_env 0)\<lparr>ge_db := \<lambda>_. True\<rparr>) ''secret'' 900
        (NewAuthService password_store) = (Inr g, a1)
     \<and> Grant (fixed_zone 0) padded ((grant_env 0)\<lparr>ge_db := \<lambda>call. call \<noteq> CallRefresh\<rparr>) ''secret'' 900
        (NewAuthService password_store) = (Inl (BonusNotStored DbFailure), a2)
     \<and> st_db (as_store a2) = st_db (as_store a1)"
proof -
  have env: "(grant_env 0)\<lparr>ge_db := \<lambda>_. True\<rparr> = grant_env 0" by (simp add: grant_env_def)
  from sample_grant obtain g a1 where "Grant (fixed_zone 0) padded ((grant_env 0)\<lparr>ge_db := \<lambda>_. True\<rparr>) ''secret'' 900
      (NewAuthService password_store) = (Inr g, a1)" unfolding env by blast
  with grant_error_after_commit [OF this] show ?thesis by blast
qed

end
