(* ===== verification/ServerRoutine.thy ===== *)
theory ServerRoutine
  imports PolicyProps Calendar
begin

text \<open>
  Routines on the server (\<open>server/storage/domain.go\<close>): the week as seconds from Sunday midnight,
  the intervals a routine takes in it, and the overlap test that rejects a routine - proved to
  say exactly that the policy engine of the agent would find both in force at some instant.
\<close>

section \<open>Routines\<close>

record server_routine =
  vr_ID :: string
  vr_Name :: string
  vr_IconKey :: string
  vr_Days :: "weekday \<Rightarrow> bool"
  vr_Start :: int
  vr_End :: int
  vr_Enabled :: bool

definition DefaultAvatarKey :: string where "DefaultAvatarKey = ''cat''"
definition DefaultRoutineIconKey :: string where "DefaultRoutineIconKey = ''general''"

definition validAvatarKeys :: "string list" where
  "validAvatarKeys = [''cat'', ''dog'', ''fox'', ''rabbit'', ''panda'', ''owl'', ''penguin'', ''capybara'',
     ''cat_bow'', ''rabbit_flower'', ''panda_flower'', ''fox_bow'', ''chick'', ''lion'', ''sheep'', ''tiger'']"

definition validRoutineIconKeys :: "string list" where
  "validRoutineIconKeys = [''study'', ''reading'', ''sleep'', ''bath'', ''meal'', ''school'', ''exercise'',
     ''chores'', ''family'', ''music'', ''outdoor'', ''general'']"

definition ValidAvatarKey :: "string \<Rightarrow> bool" where
  "ValidAvatarKey v \<longleftrightarrow> v \<in> set validAvatarKeys"

definition ValidRoutineIconKey :: "string \<Rightarrow> bool" where
  "ValidRoutineIconKey v \<longleftrightarrow> v \<in> set validRoutineIconKeys"

text \<open>\<open>strings.TrimSpace\<close>: the white space characters of Unicode in UTF-8.\<close>

definition utf8_text :: "int list \<Rightarrow> string" where
  "utf8_text bytes = map (char_of :: int \<Rightarrow> char) bytes"

text \<open>Tab to carriage return and the blank; U+0085, U+00A0, U+1680; U+2000 to U+200A, U+2028, U+2029,
  U+202F; U+205F, U+3000.\<close>

definition space_texts :: "string list" where
  "space_texts = map utf8_text (map (\<lambda>b. [b]) (32 # [9..13])
     @ map (\<lambda>b. [194, b]) [133, 160] @ [[225, 154, 128]]
     @ map (\<lambda>b. [226, 128, b]) ([128..138] @ [168, 169, 175]) @ [[226, 129, 159], [227, 128, 128]])"

function drop_texts :: "string list \<Rightarrow> string \<Rightarrow> string" where
  "drop_texts ts s =
     (case find (\<lambda>t. t \<noteq> [] \<and> take (length t) s = t) ts of
        None \<Rightarrow> s | Some t \<Rightarrow> drop_texts ts (drop (length t) s))"
  by pat_completeness auto
termination
proof (relation "measure (\<lambda>(ts, s). length s)")
  fix ts s t assume "find (\<lambda>t. t \<noteq> [] \<and> take (length t) s = t) ts = Some t"
  then have "t \<noteq> []" "take (length t) s = t" by (auto simp: find_Some_iff)
  then have "0 < length t" "length t \<le> length s" by (auto dest: arg_cong [of _ t length])
  then have "length s - length t < length s" by linarith
  then show "((ts, drop (length t) s), ts, s) \<in> measure (\<lambda>(ts, s). length s)" by simp
qed simp

declare drop_texts.simps [simp del]

definition TrimSpace :: "string \<Rightarrow> string" where
  "TrimSpace s = rev (drop_texts (map rev space_texts) (rev (drop_texts space_texts s)))"

section \<open>Intervals of the week\<close>

definition daySeconds :: int where "daySeconds = 24 * 60 * 60"

definition intervals_of_day :: "server_routine \<Rightarrow> int \<Rightarrow> (int \<times> int) list" where
  "intervals_of_day r n =
     (let previousDay = (n + 6) mod 7 in
      if vr_Start r = vr_End r
      then (if vr_Days r (weekday_at n) then [(n * daySeconds, (n + 1) * daySeconds)] else [])
      else if vr_Start r < vr_End r
      then (if vr_Days r (weekday_at n) then [(n * daySeconds + vr_Start r, n * daySeconds + vr_End r)] else [])
      else (if vr_Days r (weekday_at previousDay) \<and> 0 < vr_End r
            then [(n * daySeconds, n * daySeconds + vr_End r)] else [])
        @ (if vr_Days r (weekday_at n) then [(n * daySeconds + vr_Start r, (n + 1) * daySeconds)] else []))"

definition routineIntervals :: "server_routine \<Rightarrow> (int \<times> int) list" where
  "routineIntervals r = concat (map (intervals_of_day r) [0, 1, 2, 3, 4, 5, 6])"

definition routinesOverlap :: "server_routine \<Rightarrow> server_routine \<Rightarrow> bool" where
  "routinesOverlap r1 r2 \<longleftrightarrow>
     list_ex (\<lambda>(s, e). list_ex (\<lambda>(s', e'). s < e' \<and> s' < e) (routineIntervals r2)) (routineIntervals r1)"

lemma routinesOverlap_iff:
  "routinesOverlap r1 r2 \<longleftrightarrow>
     (\<exists>(s, e)\<in>set (routineIntervals r1). \<exists>(s', e')\<in>set (routineIntervals r2). s < e' \<and> s' < e)"
  by (auto simp: routinesOverlap_def list_ex_iff)

lemma routinesOverlap_sym: "routinesOverlap r1 r2 \<longleftrightarrow> routinesOverlap r2 r1"
  unfolding routinesOverlap_iff by fast

section \<open>Agreement with the policy engine\<close>

text \<open>The routine as the agent's engine gets it.\<close>

definition engine_routine :: "server_routine \<Rightarrow> Routine" where
  "engine_routine r = \<lparr>r_Name = vr_Name r, r_Days = vr_Days r,
     r_Start = seconds_duration (vr_Start r), r_End = seconds_duration (vr_End r)\<rparr>"

definition second_in_day :: "server_routine \<Rightarrow> bool" where
  "second_in_day r \<longleftrightarrow> 0 \<le> vr_Start r \<and> vr_Start r < 86400 \<and> 0 \<le> vr_End r \<and> vr_End r < 86400"

lemma engine_times:
  "second_in_day r \<Longrightarrow> r_Start (engine_routine r) = vr_Start r * second \<and> r_End (engine_routine r) = vr_End r * second"
  by (simp add: second_in_day_def engine_routine_def seconds_duration_id)

lemma engine_wf: "second_in_day r \<Longrightarrow> wf_routine (engine_routine r)"
  using engine_times [of r] by (auto simp: second_in_day_def wf_routine_def duration_defs)

lemma day_seconds: "day = daySeconds * second"
  by (simp add: duration_defs daySeconds_def)

text \<open>The instants of a week and a day of it.\<close>

lemma intervals_nonempty: "second_in_day r \<Longrightarrow> (s, e) \<in> set (routineIntervals r) \<Longrightarrow> s < e"
  by (auto simp: routineIntervals_def intervals_of_day_def second_in_day_def daySeconds_def Let_def
      split: if_splits)

lemma interval_in_day:
  "second_in_day r \<Longrightarrow> i \<in> set (intervals_of_day r n) \<Longrightarrow> n * daySeconds \<le> fst i \<and> snd i \<le> (n + 1) * daySeconds"
  by (auto simp: intervals_of_day_def second_in_day_def daySeconds_def Let_def split: if_splits)

lemma interval_in_week:
  assumes "second_in_day r" and "i \<in> set (routineIntervals r)"
  shows "0 \<le> fst i \<and> snd i \<le> 7 * daySeconds"
proof -
  from assms(2) obtain n where n: "n \<in> {0, 1, 2, 3, 4, 5, 6}" and i: "i \<in> set (intervals_of_day r n)"
    unfolding routineIntervals_def by auto
  have "0 \<le> n * daySeconds" "(n + 1) * daySeconds \<le> 7 * daySeconds" using n by (auto simp: daySeconds_def)
  with interval_in_day [OF assms(1) i] show ?thesis by linarith
qed

lemma weekday_of_shifted: "weekday_of_day (n + 3) = weekday_at (n mod 7)"
proof -
  have "n + 3 + 4 = n + 7 * 1" by simp
  then have "(n + 3 + 4) mod 7 = n mod 7" by (simp only: mod_mult_self2)
  then show ?thesis by (simp add: weekday_of_day_def)
qed

definition in_interval :: "int \<Rightarrow> int \<times> int \<Rightarrow> bool" where
  "in_interval x i \<longleftrightarrow> fst i * second \<le> x \<and> x < snd i * second"

lemma intervals_within_day:
  "second_in_day r \<Longrightarrow> i \<in> set (intervals_of_day r j) \<Longrightarrow> in_interval x i \<Longrightarrow> x div day = j"
proof -
  assume r: "second_in_day r" and i: "i \<in> set (intervals_of_day r j)" and x: "in_interval x i"
  from interval_in_day [OF r i] have "j * daySeconds \<le> fst i" "snd i \<le> (j + 1) * daySeconds" by simp_all
  with x have "j * daySeconds * second \<le> x" "x < (j + 1) * daySeconds * second"
    unfolding in_interval_def by (meson mult_right_mono order_trans second_pos less_imp_le order_less_le_trans)+
  then have "j * day \<le> x" "x < (j + 1) * day" by (simp_all add: day_seconds mult.assoc)
  then show "x div day = j" by (intro int_div_pos_eq [where r = "x - j * day"]) (simp_all add: algebra_simps)
qed

lemma week_interval:
  assumes "second_in_day r" and "0 \<le> x" and "x < 7 * day"
  shows "(\<exists>i\<in>set (routineIntervals r). in_interval x i) \<longleftrightarrow>
    (\<exists>i\<in>set (intervals_of_day r (x div day)). in_interval x i)"
proof -
  have "0 \<le> x div day" using assms(2) by (simp add: pos_imp_zdiv_nonneg_iff)
  moreover have "x div day * day < 7 * day" using div_day_le [of x] assms(3) by linarith
  then have "x div day < 7" by (simp add: mult_less_cancel_right)
  ultimately have "x div day \<in> {0, 1, 2, 3, 4, 5, 6}" by auto
  then have "set (intervals_of_day r (x div day)) \<subseteq> set (routineIntervals r)"
    unfolding routineIntervals_def by auto
  moreover have "i \<in> set (intervals_of_day r (x div day))"
    if "i \<in> set (routineIntervals r)" "in_interval x i" for i
  proof -
    from that(1) obtain j where "i \<in> set (intervals_of_day r j)" unfolding routineIntervals_def by auto
    with intervals_within_day [OF assms(1) this that(2)] show ?thesis by simp
  qed
  ultimately show ?thesis by blast
qed

text \<open>The reading \<open>w\<close> of the wall clock, within a week that begins on Sunday.\<close>

definition week_second :: "int \<Rightarrow> int" where
  "week_second w = (w - 3 * day) mod (7 * day)"

lemma week_second_parts:
  "week_second w div day = (w div day - 3) mod 7 \<and> week_second w mod day = w mod day"
proof -
  define a where "a = w - 3 * day"
  have w: "w = a + 3 * day" by (simp add: a_def)
  have "a mod (7 * day) = day * (a div day mod 7) + a mod day"
    using zmod_zmult2_eq [of 7 a day] by (simp add: mult.commute [of 7])
  moreover have "a mod day div day = 0" by (simp add: div_eq_0_iff)
  ultimately have "a mod (7 * day) div day = a div day mod 7"
    by (metis add.right_neutral day_neq_0 div_mult_self4 add.commute)
  moreover have "a mod (7 * day) mod day = a mod day" by (simp add: mod_mod_cancel)
  moreover have "w div day = a div day + 3" "w mod day = a mod day" unfolding w by simp_all
  ultimately show ?thesis by (simp add: week_second_def a_def)
qed

lemma covers_interval:
  assumes "second_in_day r"
  shows "covers (engine_routine r) w \<longleftrightarrow> (\<exists>i\<in>set (routineIntervals r). in_interval (week_second w) i)"
proof -
  define m where "m = w div day - 3"
  define A where "A = w div day * day"
  define k where "k = m mod 7"
  define tod where "tod = w mod day"
  have tod: "0 \<le> tod" "tod < day" by (simp_all add: tod_def)
  have w: "w = A + tod" by (simp add: A_def tod_def)
  have k: "0 \<le> k" "k < 7" by (simp_all add: k_def)
  have week: "week_second w div day = k" "week_second w mod day = tod"
    using week_second_parts [of w] by (simp_all add: k_def m_def tod_def)
  then have x: "week_second w = k * day + tod" by (metis div_mult_mod_eq)
  have range: "0 \<le> week_second w" "week_second w < 7 * day" by (simp_all add: week_second_def)
  have n: "w div day = m + 3" by (simp add: m_def)
  have days: "weekday_of_day (w div day) = weekday_at k" "weekday_of_day (w div day - 1) = weekday_at ((k + 6) mod 7)"
  proof -
    show "weekday_of_day (w div day) = weekday_at k" by (simp only: n weekday_of_shifted k_def)
    have "w div day - 1 = (m - 1) + 3" by (simp add: n)
    then have "weekday_of_day (w div day - 1) = weekday_at ((m - 1) mod 7)" by (simp only: weekday_of_shifted)
    moreover have "(m - 1) mod 7 = (k + 6) mod 7" unfolding k_def by presburger
    ultimately show "weekday_of_day (w div day - 1) = weekday_at ((k + 6) mod 7)" by simp
  qed
  have times: "(w div day + 1) * day = A + day" "(w div day - 1) * day = A - day" "(w div day - 1 + 1) * day = A"
    by (simp_all add: A_def algebra_simps)
  have ends: "(k + 1) * daySeconds * second = k * day + day" "k * daySeconds * second = k * day"
    "(k * daySeconds + z) * second = k * day + z * second" for z
    by (simp_all add: day_seconds algebra_simps)
  have bounds: "0 \<le> vr_Start r * second" "vr_Start r * second < day" "0 \<le> vr_End r * second" "vr_End r * second < day"
    using assms by (auto simp: second_in_day_def duration_defs)
  have order: "vr_Start r * second = vr_End r * second \<longleftrightarrow> vr_Start r = vr_End r"
    "vr_Start r * second < vr_End r * second \<longleftrightarrow> vr_Start r < vr_End r"
    "0 < vr_End r * second \<longleftrightarrow> 0 < vr_End r"
    by (simp_all add: duration_defs)
  define a where "a = vr_Start r * second"
  define b where "b = vr_End r * second"
  define N where "N = w div day"
  let ?on = "vr_Days r (weekday_at k)" and ?before = "vr_Days r (weekday_at ((k + 6) mod 7))"
  have engine: "r_Start (engine_routine r) = a" "r_End (engine_routine r) = b" "r_Days (engine_routine r) = vr_Days r"
    by (simp_all add: engine_times [OF assms] a_def b_def) (simp add: engine_routine_def)
  have ab: "0 \<le> a" "a < day" "0 \<le> b" "b < day" using bounds by (simp_all add: a_def b_def)
  note days' = days [folded N_def] and times' = times [folded N_def]
  have N: "N * day = A" by (simp add: N_def A_def)
  have left: "(\<exists>n\<in>{N - 1, N}. occurs (engine_routine r) n
        \<and> occ_begin (engine_routine r) n \<le> w \<and> w < occ_end (engine_routine r) n) \<longleftrightarrow>
      (if a = b then ?on else if a < b then ?on \<and> a \<le> tod \<and> tod < b
       else ?on \<and> a \<le> tod \<or> ?before \<and> tod < b)"
    using tod ab w by (auto simp: occurs_def occ_begin_def occ_end_def engine days' times' N)
  have right: "(\<exists>i\<in>set (intervals_of_day r k). in_interval (week_second w) i) \<longleftrightarrow>
      (if a = b then ?on else if a < b then ?on \<and> a \<le> tod \<and> tod < b
       else ?on \<and> a \<le> tod \<or> ?before \<and> tod < b)"
    using tod ab order
    by (auto simp: intervals_of_day_def Let_def in_interval_def ends x a_def [symmetric] b_def [symmetric])
  show ?thesis
    unfolding week_interval [OF assms range] week(1) covers_two_days [OF engine_wf [OF assms]]
      N_def [symmetric] left right ..
qed

context civil_zone
begin

lemma overlap_in_force:
  assumes "second_in_day r1" and "second_in_day r2"
  shows "routinesOverlap r1 r2 \<longleftrightarrow>
    (\<exists>t. routine_in_force loc t (engine_routine r1) \<and> routine_in_force loc t (engine_routine r2))"
proof
  assume "routinesOverlap r1 r2"
  then obtain i j where i: "i \<in> set (routineIntervals r1)" and j: "j \<in> set (routineIntervals r2)"
    and meet: "fst i < snd j" "fst j < snd i" by (auto simp: routinesOverlap_iff)
  have ne: "fst i < snd i" "fst j < snd j"
    using intervals_nonempty [OF assms(1), of "fst i" "snd i"] intervals_nonempty [OF assms(2), of "fst j" "snd j"] i j
    by simp_all
  define x where "x = max (fst i) (fst j) * second"
  have x: "in_interval x i" "in_interval x j"
    using meet ne by (auto simp: in_interval_def x_def max_def second_def)
  have "0 \<le> fst i" "snd i \<le> 7 * daySeconds" "0 \<le> fst j"
    using interval_in_week [OF assms(1) i] interval_in_week [OF assms(2) j] by simp_all
  with x(1) have "0 \<le> x" "x < 7 * day" by (auto simp: x_def in_interval_def day_seconds second_def)
  then have "week_second (x + 3 * day) = x" by (simp add: week_second_def)
  with x i j covers_interval [OF assms(1)] covers_interval [OF assms(2)]
  have "covers (engine_routine r1) (x + 3 * day)" "covers (engine_routine r2) (x + 3 * day)" by fastforce+
  then show "\<exists>t. routine_in_force loc t (engine_routine r1) \<and> routine_in_force loc t (engine_routine r2)"
    using in_force_covers [OF engine_wf [OF assms(1)]] in_force_covers [OF engine_wf [OF assms(2)]]
    by (metis wall_date)
next
  assume "\<exists>t. routine_in_force loc t (engine_routine r1) \<and> routine_in_force loc t (engine_routine r2)"
  then obtain w where "covers (engine_routine r1) w" "covers (engine_routine r2) w"
    using in_force_covers [OF engine_wf [OF assms(1)]] in_force_covers [OF engine_wf [OF assms(2)]] by blast
  then obtain i j where i: "i \<in> set (routineIntervals r1)" and j: "j \<in> set (routineIntervals r2)"
    and x: "in_interval (week_second w) i" "in_interval (week_second w) j"
    unfolding covers_interval [OF assms(1)] covers_interval [OF assms(2)] by blast
  from x have "fst i < snd j" "fst j < snd i" by (auto simp: in_interval_def second_def)
  with i j show "routinesOverlap r1 r2" unfolding routinesOverlap_iff by (force simp: split_def)
qed

end

text \<open>C40: The server rejects a routine as overlapping another exactly when the agent's policy engine
  would find both in force at some instant - across midnight and across the end of the week too.\<close>

theorem overlap_means_both_in_force:
  assumes "second_in_day r1" and "second_in_day r2"
  shows "routinesOverlap r1 r2 \<longleftrightarrow>
    (\<exists>t. routine_in_force (fixed_zone off) t (engine_routine r1)
       \<and> routine_in_force (fixed_zone off) t (engine_routine r2))"
  using assms by (rule fixed.overlap_in_force)

definition sample_server_routine :: "string \<Rightarrow> weekday \<Rightarrow> int \<Rightarrow> int \<Rightarrow> server_routine" where
  "sample_server_routine rid d s e = \<lparr>vr_ID = rid, vr_Name = rid, vr_IconKey = ''general'',
     vr_Days = (\<lambda>d'. d' = d), vr_Start = s, vr_End = e, vr_Enabled = True\<rparr>"

lemma overlap_means_both_in_force_witness:
  "(\<exists>t. routine_in_force (fixed_zone 0) t (engine_routine (sample_server_routine ''a'' Saturday 82800 3600))
      \<and> routine_in_force (fixed_zone 0) t (engine_routine (sample_server_routine ''b'' Sunday 1800 7200)))
   \<and> \<not> (\<exists>t. routine_in_force (fixed_zone 0) t (engine_routine (sample_server_routine ''a'' Saturday 82800 3600))
      \<and> routine_in_force (fixed_zone 0) t (engine_routine (sample_server_routine ''c'' Sunday 3600 7200)))"
proof -
  let ?a = "sample_server_routine ''a'' Saturday 82800 3600"
  have ok: "second_in_day ?a" "second_in_day (sample_server_routine ''b'' Sunday 1800 7200)"
    "second_in_day (sample_server_routine ''c'' Sunday 3600 7200)"
    by (simp_all add: second_in_day_def sample_server_routine_def)
  have "routinesOverlap ?a (sample_server_routine ''b'' Sunday 1800 7200)"
    "\<not> routinesOverlap ?a (sample_server_routine ''c'' Sunday 3600 7200)" by code_simp+
  with overlap_means_both_in_force [OF ok(1,2), of 0] overlap_means_both_in_force [OF ok(1,3), of 0]
  show ?thesis by blast
qed

end
