(* ===== verification/ServerDatabase.thy ===== *)
theory ServerDatabase
  imports ServerRoutine LocalAuth
begin

text \<open>
  The server's database (\<open>server/storage\<close>, schema in its migrations): one record of tables, each
  a list of rows; transactions, which change nothing when they fail; and the parts of
  \<open>activities.go\<close> and \<open>domain.go\<close> that every operation writes through - identifiers, the audit and
  the human-facing history. JSON columns are kept as the value they encode, timestamps as
  instants compared through their text where SQLite does.
\<close>

section \<open>Tables\<close>

record AdminRow =
  ad_id :: string
  ad_login :: string
  ad_hash :: string
  ad_active :: bool
  ad_created :: time
  ad_updated :: time

record DeviceRow =
  dv_id :: string
  dv_name :: string
  dv_avatar :: string
  dv_token_hash :: string
  dv_last_seen :: "time option"
  dv_policy_revision :: int
  dv_applied_policy :: int
  dv_applied_control :: int
  dv_session_active :: bool
  dv_session_locked :: bool
  dv_session_id :: "string option"
  dv_created :: time
  dv_updated :: time

record DevicePolicyRow =
  pw_device :: string
  pw_revision :: int
  pw_paused :: bool
  pw_blocked :: bool
  pw_warning :: int
  pw_verifier :: "string option"
  pw_updated :: time

record QuotaRow =
  qw_device :: string
  qw_weekday :: weekday
  qw_seconds :: int

record DeviceRoutineRow =
  rw_id :: string
  rw_device :: string
  rw_name :: string
  rw_icon :: string
  rw_start :: int
  rw_end :: int
  rw_enabled :: bool

record ControlRow =
  cw_device :: string
  cw_revision :: int
  cw_paused :: bool
  cw_blocked :: bool
  cw_updated :: time

record UsageRow =
  uw_device :: string
  uw_date :: string
  uw_seconds :: int
  uw_sync :: time

record BonusRow =
  bw_uuid :: string
  bw_device :: string
  bw_date :: string
  bw_seconds :: int
  bw_origin :: string
  bw_created :: time

record CommandRow =
  mw_id :: string
  mw_device :: string
  mw_kind :: string
  mw_payload :: string
  mw_created :: time
  mw_acknowledged :: "time option"
  mw_attempts :: int
  mw_first_offered :: "time option"
  mw_last_offered :: "time option"

record AuditRow =
  aw_uuid :: string
  aw_device :: "string option"
  aw_kind :: string
  aw_origin :: string
  aw_payload :: json
  aw_created :: time

type_synonym details = "(string \<times> string) list"

record ActivityRow =
  tw_id :: string
  tw_device :: string
  tw_kind :: string
  tw_origin :: string
  tw_status :: string
  tw_details :: details
  tw_occurred :: time
  tw_observed :: time
  tw_completed :: "time option"
  tw_expires :: "time option"
  tw_hidden :: "time option"

record StepRow =
  ew_activity :: string
  ew_kind :: string
  ew_actor :: string
  ew_occurred :: time
  ew_last :: time
  ew_occurrences :: int
  ew_details :: details

record ServerDb =
  sd_admin :: "AdminRow list"
  sd_device :: "DeviceRow list"
  sd_policy :: "DevicePolicyRow list"
  sd_quota :: "QuotaRow list"
  sd_routine :: "DeviceRoutineRow list"
  sd_day :: "(string \<times> weekday) list"
  sd_control :: "ControlRow list"
  sd_usage :: "UsageRow list"
  sd_bonus :: "BonusRow list"
  sd_command :: "CommandRow list"
  sd_audit :: "AuditRow list"
  sd_activity :: "ActivityRow list"
  sd_step :: "StepRow list"
  sd_last_cleanup :: "time option"

definition empty_server :: ServerDb where
  "empty_server = \<lparr>sd_admin = [], sd_device = [], sd_policy = [], sd_quota = [], sd_routine = [],
     sd_day = [], sd_control = [], sd_usage = [], sd_bonus = [], sd_command = [], sd_audit = [],
     sd_activity = [], sd_step = [], sd_last_cleanup = None\<rparr>"

section \<open>Transactions\<close>

datatype ServerError =
    EngineFailed | ConstraintFailed | RowNotFound | NoRows | NoRandomness
  | InvalidCounters | InvalidGraphicalSession | SessionWithoutActivity | LockedWithoutActivity
  | InvalidHeartbeatDate | BatchTooLarge | RevisionAheadError int int
  | InvalidPendingEvent | InvalidLocalBonus | InvalidBonusDate | InvalidAcknowledgement
  | InvalidCredit | CreditMismatch | UnknownControl | InvalidRemoteBonus
  | InvalidDevice | InvalidDeviceName | InvalidIdentity | QuotaOutOfRange | WarningOutOfRange
  | InvalidRoutine | RoutineWithoutDay | RoutineConflictError string | EmptyVerifier
  | InvalidAdmin | InvalidQuery | TimeRequiredError
  | InvalidDeviceCredentials | InvalidRevocation | InvalidActivityQuery
  | InvalidCommunicationLog | UnsafeCommunicationDetail | InvalidCommunicationQuery
  | DeviceIDRequired | RetentionOutOfRange

type_synonym 'a sact = "(ServerDb, ServerError, 'a) act"

text \<open>A transaction the engine serves is committed as a whole when its body succeeds, and rolled back
  as a whole otherwise.\<close>

definition transaction :: "bool \<Rightarrow> ('w, ServerError, 'a) act \<Rightarrow> ('w, ServerError, 'a) act" where
  "transaction served m = (\<lambda>db.
     if \<not> served then (Inl EngineFailed, db)
     else case m db of (Inl e, _) \<Rightarrow> (Inl e, db) | (Inr a, db') \<Rightarrow> (Inr a, db'))"

text \<open>What is given from outside: whether the engine serves the operation, the random bytes of the
  identifiers it draws, and the location of the server's clock.\<close>

record ServerEnv =
  sv_served :: bool
  sv_random :: "nat \<Rightarrow> int list option"
  sv_location :: location

definition randomID :: "int list \<Rightarrow> string" where
  "randomID bytes =
     (let bytes' = bytes[6 := bytes ! 6 mod 16 + 64, 8 := bytes ! 8 mod 64 + 128];
          encoded = concat (map hex_byte bytes')
      in concat [take 8 encoded, ''-'', take 4 (drop 8 encoded), ''-'', take 4 (drop 12 encoded),
           ''-'', take 4 (drop 16 encoded), ''-'', take 12 (drop 20 encoded)])"

definition newID :: "ServerEnv \<Rightarrow> nat \<Rightarrow> string sact" where
  "newID env k = (case sv_random env k of None \<Rightarrow> throw NoRandomness | Some bytes \<Rightarrow> ret (randomID bytes))"

definition has_device :: "string \<Rightarrow> ServerDb \<Rightarrow> bool" where
  "has_device deviceID db = tbl_has dv_id deviceID (sd_device db)"

definition has_activity :: "string \<Rightarrow> ServerDb \<Rightarrow> bool" where
  "has_activity activityID db = tbl_has tw_id activityID (sd_activity db)"

text \<open>\<open>requires p\<close>: a statement fails on a violated constraint.\<close>

definition requires :: "(ServerDb \<Rightarrow> bool) \<Rightarrow> unit sact" where
  "requires p = andThen (reads p) (\<lambda>ok. fails_if (\<not> ok) ConstraintFailed)"

section \<open>The human-facing history\<close>

definition completedActivityRetentionDays :: int where "completedActivityRetentionDays = 30"
definition activityHistoryCleanupInterval :: duration where "activityHistoryCleanupInterval = hour"

definition step_row :: "string \<Rightarrow> string \<Rightarrow> string \<Rightarrow> time \<Rightarrow> details \<Rightarrow> StepRow" where
  "step_row activityID kind actor now details = \<lparr>ew_activity = activityID, ew_kind = kind,
     ew_actor = actor, ew_occurred = now, ew_last = now, ew_occurrences = 1, ew_details = details\<rparr>"

definition step_key :: "StepRow \<Rightarrow> string \<times> string" where
  "step_key s = (ew_activity s, ew_kind s)"

definition repeat_step :: "StepRow \<Rightarrow> StepRow \<Rightarrow> StepRow" where
  "repeat_step old new = old\<lparr>ew_last := ew_last new, ew_occurrences := ew_occurrences old + 1,
     ew_details := ew_details new\<rparr>"

definition upsertActivityStep :: "string \<Rightarrow> string \<Rightarrow> string \<Rightarrow> time \<Rightarrow> details \<Rightarrow> bool \<Rightarrow> unit sact" where
  "upsertActivityStep activityID kind actor now details repeated =
     andThen (requires (has_activity activityID)) (\<lambda>_.
     modify (\<lambda>db. db\<lparr>sd_step :=
       (if repeated then tbl_upsert step_key repeat_step (step_row activityID kind actor now details) (sd_step db)
        else tbl_insert_ignore step_key (step_row activityID kind actor now details) (sd_step db))\<rparr>))"

definition waiting_activity :: "string \<Rightarrow> string \<Rightarrow> string \<Rightarrow> details \<Rightarrow> time \<Rightarrow> ActivityRow" where
  "waiting_activity aid deviceID kind details now = \<lparr>tw_id = aid, tw_device = deviceID, tw_kind = kind,
     tw_origin = ''admin'', tw_status = ''waiting_device'', tw_details = details, tw_occurred = now,
     tw_observed = now, tw_completed = None, tw_expires = None, tw_hidden = None\<rparr>"

definition insertAdminActivity :: "string \<Rightarrow> string \<Rightarrow> string \<Rightarrow> details \<Rightarrow> time \<Rightarrow> unit sact" where
  "insertAdminActivity aid deviceID kind details now =
     andThen (requires (\<lambda>db. \<not> has_activity aid db \<and> has_device deviceID db)) (\<lambda>_.
     andThen (modify (\<lambda>db. db\<lparr>sd_activity := sd_activity db @ [waiting_activity aid deviceID kind details now]\<rparr>)) (\<lambda>_.
     andThen (upsertActivityStep aid ''requested'' ''admin'' now [] False) (\<lambda>_.
     upsertActivityStep aid ''stored'' ''server'' now [] False)))"

text \<open>An activity that is complete as soon as it is seen; \<open>INSERT OR IGNORE\<close> keeps an older row, but
  not a missing device.\<close>

definition done_activity :: "location \<Rightarrow> string \<Rightarrow> string \<Rightarrow> string \<Rightarrow> string \<Rightarrow> details \<Rightarrow> time \<Rightarrow> time \<Rightarrow> ActivityRow" where
  "done_activity loc aid deviceID kind origin details occurredAt observedAt = \<lparr>tw_id = aid,
     tw_device = deviceID, tw_kind = kind, tw_origin = origin, tw_status = ''completed'',
     tw_details = details, tw_occurred = occurredAt, tw_observed = observedAt,
     tw_completed = Some observedAt,
     tw_expires = Some (add_days loc observedAt completedActivityRetentionDays), tw_hidden = None\<rparr>"

definition insert_or_ignore_activity :: "ActivityRow \<Rightarrow> bool sact" where
  "insert_or_ignore_activity a =
     andThen (reads (has_activity (tw_id a))) (\<lambda>present.
     if present then ret False
     else andThen (requires (has_device (tw_device a))) (\<lambda>_.
          andThen (modify (\<lambda>db. db\<lparr>sd_activity := sd_activity db @ [a]\<rparr>)) (\<lambda>_. ret True)))"

definition insertCompletedAdminActivity :: "location \<Rightarrow> string \<Rightarrow> string \<Rightarrow> string \<Rightarrow> details \<Rightarrow> time \<Rightarrow> unit sact" where
  "insertCompletedAdminActivity loc aid deviceID kind details now =
     andThen (insert_or_ignore_activity (done_activity loc aid deviceID kind ''admin'' details now now)) (\<lambda>_.
     andThen (upsertActivityStep aid ''requested'' ''admin'' now [] False) (\<lambda>_.
     upsertActivityStep aid ''completed'' ''server'' now [] False))"

definition insertLocalBonusActivity :: "location \<Rightarrow> string \<Rightarrow> string \<Rightarrow> int \<Rightarrow> string \<Rightarrow> time \<Rightarrow> time \<Rightarrow> unit sact" where
  "insertLocalBonusActivity loc eventID deviceID seconds localDate occurredAt observedAt =
     andThen (insert_or_ignore_activity (done_activity loc eventID deviceID ''add_bonus'' ''device''
       [(''local_date'', localDate), (''minutes'', show_int (go_div seconds 60))] occurredAt observedAt)) (\<lambda>inserted.
     if \<not> inserted then ret ()
     else andThen (upsertActivityStep eventID ''local_created'' ''device'' occurredAt [] False) (\<lambda>_.
          andThen (upsertActivityStep eventID ''synchronized'' ''server'' observedAt [] False) (\<lambda>_.
          upsertActivityStep eventID ''confirmed'' ''server'' observedAt [] False)))"

text \<open>Deleting an activity deletes its steps.\<close>

definition delete_activities :: "(ActivityRow \<Rightarrow> bool) \<Rightarrow> ServerDb \<Rightarrow> ServerDb" where
  "delete_activities p db =
     (let gone = map tw_id (filter p (sd_activity db))
      in db\<lparr>sd_activity := tbl_delete p (sd_activity db),
            sd_step := tbl_delete (\<lambda>s. ew_activity s \<in> set gone) (sd_step db)\<rparr>)"

definition expired :: "time \<Rightarrow> ActivityRow \<Rightarrow> bool" where
  "expired now a \<longleftrightarrow> tw_status a = ''completed''
     \<and> (case tw_expires a of None \<Rightarrow> False | Some e \<Rightarrow> format_time e \<le> format_time now)"

definition cleanupExpiredCompletedActivitiesIfDue :: "time \<Rightarrow> int sact" where
  "cleanupExpiredCompletedActivitiesIfDue now = (\<lambda>db.
     if (case sd_last_cleanup db of None \<Rightarrow> False
         | Some t \<Rightarrow> time_sub now t < activityHistoryCleanupInterval)
     then (Inr 0, db)
     else (Inr (int (length (filter (expired now) (sd_activity db)))),
           (delete_activities (expired now) db)\<lparr>sd_last_cleanup := Some now\<rparr>))"

definition CleanupExpiredCompletedActivities :: "bool \<Rightarrow> time \<Rightarrow> int sact" where
  "CleanupExpiredCompletedActivities served now =
     (if is_zero now then throw TimeRequiredError
      else transaction served (cleanupExpiredCompletedActivitiesIfDue now))"

section \<open>The audit\<close>

definition auditsWithDedicatedActivity :: "string list" where
  "auditsWithDedicatedActivity =
     [''bonus_queued'', ''pause_monitoring'', ''resume_monitoring'', ''block_now'', ''clear_manual_block'']"

definition completedAdminAuditKind :: "string \<Rightarrow> bool" where
  "completedAdminAuditKind kind \<longleftrightarrow> kind \<notin> set auditsWithDedicatedActivity"

text \<open>\<open>copyValue\<close>: strings, numbers (small integers here, printed as they were written) and
  booleans are copied, everything else is left out.\<close>

definition copied_value :: "string \<Rightarrow> (string \<times> json) list \<Rightarrow> details" where
  "copied_value key values =
     (case map_of values key of
        Some (JString s) \<Rightarrow> [(key, s)] | Some (JNumber n) \<Rightarrow> [(key, n)]
      | Some (JBool b) \<Rightarrow> [(key, if b then ''true'' else ''false'')] | _ \<Rightarrow> [])"

definition humanActivityDetails :: "string \<Rightarrow> json \<Rightarrow> details" where
  "humanActivityDetails kind payload =
     (case payload of
        JObject values \<Rightarrow>
          if kind \<in> {''device_created'', ''device_renamed''} then copied_value ''name'' values
          else if kind = ''quotas_updated'' then copied_value ''warning_minutes'' values
          else if kind \<in> {''routine_saved'', ''routine_deleted''}
          then copied_value ''routine_id'' values @ copied_value ''name'' values @ copied_value ''action'' values
          else []
      | _ \<Rightarrow> [])"

definition audit_row :: "string \<Rightarrow> string \<Rightarrow> string \<Rightarrow> string \<Rightarrow> json \<Rightarrow> time \<Rightarrow> AuditRow" where
  "audit_row uuid deviceID kind origin payload now = \<lparr>aw_uuid = uuid, aw_device = Some deviceID,
     aw_kind = kind, aw_origin = origin, aw_payload = payload, aw_created = now\<rparr>"

definition insertAudit :: "ServerEnv \<Rightarrow> nat \<Rightarrow> string \<Rightarrow> string \<Rightarrow> json \<Rightarrow> time \<Rightarrow> unit sact" where
  "insertAudit env k deviceID kind payload now =
     andThen (newID env k) (\<lambda>aid.
     andThen (requires (\<lambda>db. \<not> tbl_has aw_uuid aid (sd_audit db) \<and> has_device deviceID db)) (\<lambda>_.
     andThen (modify (\<lambda>db. db\<lparr>sd_audit := sd_audit db @ [audit_row aid deviceID kind ''web'' payload now]\<rparr>)) (\<lambda>_.
     if completedAdminAuditKind kind
     then insertCompletedAdminActivity (sv_location env) aid deviceID kind (humanActivityDetails kind payload) now
     else ret ())))"

section \<open>Identifiers\<close>

definition opaque_char :: "char \<Rightarrow> bool" where
  "opaque_char c = (list_ex (\<lambda>(least, greatest). least \<le> c \<and> c \<le> greatest)
     [(CHR ''a'', CHR ''z''), (CHR ''A'', CHR ''Z''), (CHR ''0'', CHR ''9'')] \<or> c \<in> set ''-_'')"

definition validOpaqueIdentifier :: "string \<Rightarrow> bool" where
  "validOpaqueIdentifier s \<longleftrightarrow> s \<noteq> [] \<and> length s \<le> 128 \<and> list_all opaque_char s"

end
