(* ===== verification/ServerDomain.thy ===== *)
theory ServerDomain
  imports ServerDatabase
begin

text \<open>
  The administrative operations of the server (\<open>server/storage/domain.go\<close>): administrators,
  devices, policies with their quotas and routines, and the summaries the other parts read.
  Every change of a policy goes through \<open>bumpPolicy\<close>, which raises the revision of the policy
  and the copy the device row keeps of it.
\<close>

section \<open>What is read\<close>

record Admin =
  am_ID :: string
  am_Login :: string
  am_PasswordHash :: string
  am_Active :: bool

record Device =
  dc_ID :: string
  dc_Name :: string
  dc_AvatarKey :: string
  dc_LastSeenAt :: "time option"
  dc_PolicyRevision :: int
  dc_AppliedPolicyRevision :: int
  dc_AppliedControlRevision :: int
  dc_GraphicalSessionActive :: bool
  dc_GraphicalSessionLocked :: bool
  dc_GraphicalSessionID :: string
  dc_CreatedAt :: time
  dc_Online :: bool

record server_policy =
  vp_Revision :: int
  vp_MonitoringPaused :: bool
  vp_ManualBlock :: bool
  vp_WarningMinutes :: int
  vp_LocalPasswordVerifier :: string
  vp_WeeklyQuota :: "weekday \<Rightarrow> int"
  vp_Routines :: "server_routine list"
  vp_UpdatedAt :: time

record server_control =
  vc_Revision :: int
  vc_MonitoringPaused :: bool
  vc_ManualBlock :: bool

record AuditEvent =
  ax_ID :: string
  ax_Kind :: string
  ax_Origin :: string
  ax_Details :: json
  ax_CreatedAt :: time

record DailySummary =
  dy_UsedSeconds :: int
  dy_BonusSeconds :: int

definition querying :: "bool \<Rightarrow> (ServerDb \<Rightarrow> ServerError + 'a) \<Rightarrow> 'a sact" where
  "querying served q = (\<lambda>db. (if served then q db else Inl EngineFailed, db))"

definition loadControl :: "string \<Rightarrow> ServerDb \<Rightarrow> ServerError + server_control" where
  "loadControl deviceID db =
     (case tbl_find cw_device deviceID (sd_control db) of None \<Rightarrow> Inl RowNotFound
      | Some c \<Rightarrow> Inr \<lparr>vc_Revision = cw_revision c, vc_MonitoringPaused = cw_paused c,
          vc_ManualBlock = cw_blocked c\<rparr>)"

definition pending_control :: "string \<Rightarrow> CommandRow \<Rightarrow> bool" where
  "pending_control deviceID c \<longleftrightarrow>
     mw_device c = deviceID \<and> mw_acknowledged c = None \<and> validControlKind (mw_kind c)"

text \<open>\<open>ORDER BY created_at DESC, id DESC LIMIT 1\<close>.\<close>

definition command_order :: "CommandRow \<Rightarrow> string \<times> string" where
  "command_order c = (format_time (mw_created c), mw_id c)"

definition latest_control :: "string \<Rightarrow> ServerDb \<Rightarrow> CommandRow option" where
  "latest_control deviceID db =
     (case rev (sort_key command_order (filter (pending_control deviceID) (sd_command db))) of
        [] \<Rightarrow> None | c # _ \<Rightarrow> Some c)"

definition PendingControlKind :: "string \<Rightarrow> ServerDb \<Rightarrow> ServerError + string" where
  "PendingControlKind deviceID db =
     (case latest_control deviceID db of None \<Rightarrow> Inr [] | Some c \<Rightarrow> Inr (mw_kind c))"

definition stored_routine :: "ServerDb \<Rightarrow> DeviceRoutineRow \<Rightarrow> server_routine" where
  "stored_routine db r = \<lparr>vr_ID = rw_id r, vr_Name = rw_name r, vr_IconKey = rw_icon r,
     vr_Days = (\<lambda>d. (rw_id r, d) \<in> set (sd_day db)), vr_Start = rw_start r, vr_End = rw_end r,
     vr_Enabled = rw_enabled r\<rparr>"

definition routines_of :: "string \<Rightarrow> ServerDb \<Rightarrow> DeviceRoutineRow list" where
  "routines_of deviceID db = filter (\<lambda>r. rw_device r = deviceID) (sd_routine db)"

definition loadRoutines :: "string \<Rightarrow> ServerDb \<Rightarrow> server_routine list" where
  "loadRoutines deviceID db = map (stored_routine db) (sort_key rw_id (routines_of deviceID db))"

definition quota_of :: "string \<Rightarrow> ServerDb \<Rightarrow> weekday \<Rightarrow> int" where
  "quota_of deviceID db d =
     (case find (\<lambda>q. qw_device q = deviceID \<and> qw_weekday q = d) (sd_quota db) of
        None \<Rightarrow> 0 | Some q \<Rightarrow> qw_seconds q)"

definition loadPolicy :: "string \<Rightarrow> ServerDb \<Rightarrow> ServerError + server_policy" where
  "loadPolicy deviceID db =
     (case tbl_find pw_device deviceID (sd_policy db) of None \<Rightarrow> Inl NoRows
      | Some p \<Rightarrow> Inr \<lparr>vp_Revision = pw_revision p, vp_MonitoringPaused = pw_paused p,
          vp_ManualBlock = pw_blocked p, vp_WarningMinutes = pw_warning p,
          vp_LocalPasswordVerifier = (case pw_verifier p of None \<Rightarrow> [] | Some v \<Rightarrow> v),
          vp_WeeklyQuota = quota_of deviceID db,
          vp_Routines = map (stored_routine db) (sort_key (\<lambda>r. (rw_name r, rw_id r)) (routines_of deviceID db)),
          vp_UpdatedAt = pw_updated p\<rparr>)"

definition device_of_row :: "DeviceRow \<Rightarrow> Device" where
  "device_of_row d = \<lparr>dc_ID = dv_id d, dc_Name = dv_name d, dc_AvatarKey = dv_avatar d,
     dc_LastSeenAt = dv_last_seen d, dc_PolicyRevision = dv_policy_revision d,
     dc_AppliedPolicyRevision = dv_applied_policy d, dc_AppliedControlRevision = dv_applied_control d,
     dc_GraphicalSessionActive = dv_session_active d, dc_GraphicalSessionLocked = dv_session_locked d,
     dc_GraphicalSessionID = (case dv_session_id d of None \<Rightarrow> [] | Some s \<Rightarrow> s),
     dc_CreatedAt = dv_created d, dc_Online = False\<rparr>"

definition ListDevices :: "ServerDb \<Rightarrow> Device list" where
  "ListDevices db = map device_of_row (sort_key (\<lambda>d. (dv_name d, dv_id d)) (sd_device db))"

definition LoadDevice :: "string \<Rightarrow> ServerDb \<Rightarrow> ServerError + (Device \<times> server_policy)" where
  "LoadDevice deviceID db =
     (case tbl_find dv_id deviceID (sd_device db) of None \<Rightarrow> Inl RowNotFound
      | Some d \<Rightarrow> (case loadPolicy deviceID db of Inl e \<Rightarrow> Inl e | Inr p \<Rightarrow> Inr (device_of_row d, p)))"

definition ListAudit :: "string \<Rightarrow> int \<Rightarrow> ServerDb \<Rightarrow> AuditEvent list" where
  "ListAudit deviceID limit db =
     map (\<lambda>a. \<lparr>ax_ID = aw_uuid a, ax_Kind = aw_kind a, ax_Origin = aw_origin a, ax_Details = aw_payload a,
            ax_CreatedAt = aw_created a\<rparr>)
       (let rows = rev (sort_key (\<lambda>a. (format_time (aw_created a), aw_uuid a))
              (filter (\<lambda>a. aw_device a = Some deviceID) (sd_audit db)))
        in if limit < 0 then rows else take (nat limit) rows)"

definition bonus_sum :: "string \<Rightarrow> string \<Rightarrow> ServerDb \<Rightarrow> int" where
  "bonus_sum deviceID localDate db =
     sum_list (map bw_seconds (filter (\<lambda>b. bw_device b = deviceID \<and> bw_date b = localDate) (sd_bonus db)))"

definition used_seconds :: "string \<Rightarrow> string \<Rightarrow> ServerDb \<Rightarrow> int" where
  "used_seconds deviceID localDate db =
     (case find (\<lambda>u. uw_device u = deviceID \<and> uw_date u = localDate) (sd_usage db) of
        None \<Rightarrow> 0 | Some u \<Rightarrow> uw_seconds u)"

text \<open>A sum that leaves the 64-bit integers is an error of the engine.\<close>

definition LoadDailySummary :: "string \<Rightarrow> string \<Rightarrow> ServerDb \<Rightarrow> ServerError + DailySummary" where
  "LoadDailySummary deviceID localDate db =
     (if \<not> in64 (bonus_sum deviceID localDate db) then Inl EngineFailed
      else Inr \<lparr>dy_UsedSeconds = used_seconds deviceID localDate db,
             dy_BonusSeconds = bonus_sum deviceID localDate db\<rparr>)"

definition valid_date :: "string \<Rightarrow> bool" where
  "valid_date s \<longleftrightarrow> (case parse_date s of None \<Rightarrow> False | Some n \<Rightarrow> format_date n = s)"

definition LatestHeartbeatLocalDate :: "string \<Rightarrow> ServerDb \<Rightarrow> ServerError + string" where
  "LatestHeartbeatLocalDate deviceID db =
     (case rev (sort_key (\<lambda>u. format_time (uw_sync u)) (filter (\<lambda>u. uw_device u = deviceID) (sd_usage db))) of
        [] \<Rightarrow> Inr []
      | u # _ \<Rightarrow> if valid_date (uw_date u) then Inr (uw_date u) else Inl InvalidHeartbeatDate)"

section \<open>Administrators\<close>

definition HasAdministrators :: "ServerDb \<Rightarrow> bool" where
  "HasAdministrators db \<longleftrightarrow> sd_admin db \<noteq> []"

definition AdminByLogin :: "string \<Rightarrow> ServerDb \<Rightarrow> ServerError + Admin" where
  "AdminByLogin login db =
     (case tbl_find ad_login (TrimSpace login) (sd_admin db) of None \<Rightarrow> Inl RowNotFound
      | Some a \<Rightarrow> Inr \<lparr>am_ID = ad_id a, am_Login = ad_login a, am_PasswordHash = ad_hash a,
          am_Active = ad_active a\<rparr>)"

definition BootstrapAdmin :: "ServerEnv \<Rightarrow> string \<Rightarrow> string \<Rightarrow> time \<Rightarrow> bool sact" where
  "BootstrapAdmin env login passwordHash now =
     andThen (fails_if (TrimSpace login = [] \<or> passwordHash = [] \<or> is_zero now) InvalidAdmin) (\<lambda>_.
     andThen (newID env 0) (\<lambda>aid.
     transaction (sv_served env) (
       andThen (reads (\<lambda>db. length (sd_admin db))) (\<lambda>count.
       if count \<noteq> 0 then ret False
       else andThen (modify (\<lambda>db. db\<lparr>sd_admin := sd_admin db @ [\<lparr>ad_id = aid, ad_login = TrimSpace login,
              ad_hash = passwordHash, ad_active = True, ad_created = now, ad_updated = now\<rparr>]\<rparr>)) (\<lambda>_.
            ret True)))))"

section \<open>Devices\<close>

definition name_ok :: "string \<Rightarrow> bool" where
  "name_ok n \<longleftrightarrow> n \<noteq> [] \<and> length n \<le> 80"

definition new_device :: "string \<Rightarrow> string \<Rightarrow> string \<Rightarrow> time \<Rightarrow> DeviceRow" where
  "new_device deviceID name avatarKey now = \<lparr>dv_id = deviceID, dv_name = name, dv_avatar = avatarKey,
     dv_token_hash = [], dv_last_seen = None, dv_policy_revision = 1, dv_applied_policy = 0,
     dv_applied_control = 0, dv_session_active = False, dv_session_locked = False,
     dv_session_id = None, dv_created = now, dv_updated = now\<rparr>"

text \<open>The rows of a new device: its policy at revision 1, its control, seven empty quotas.\<close>

definition insert_device :: "string \<Rightarrow> string \<Rightarrow> string \<Rightarrow> time \<Rightarrow> unit sact" where
  "insert_device deviceID name avatarKey now =
     andThen (requires (\<lambda>db. \<not> has_device deviceID db)) (\<lambda>_.
     andThen (modify (\<lambda>db. db\<lparr>sd_device := sd_device db @ [new_device deviceID name avatarKey now]\<rparr>)) (\<lambda>_.
     andThen (requires (\<lambda>db. \<not> tbl_has pw_device deviceID (sd_policy db))) (\<lambda>_.
     andThen (modify (\<lambda>db. db\<lparr>sd_policy := sd_policy db @ [\<lparr>pw_device = deviceID, pw_revision = 1,
        pw_paused = False, pw_blocked = False, pw_warning = 10, pw_verifier = None, pw_updated = now\<rparr>]\<rparr>)) (\<lambda>_.
     andThen (requires (\<lambda>db. \<not> tbl_has cw_device deviceID (sd_control db))) (\<lambda>_.
     andThen (modify (\<lambda>db. db\<lparr>sd_control := sd_control db @ [\<lparr>cw_device = deviceID, cw_revision = 1,
        cw_paused = False, cw_blocked = False, cw_updated = now\<rparr>]\<rparr>)) (\<lambda>_.
     andThen (requires (\<lambda>db. \<not> tbl_has qw_device deviceID (sd_quota db))) (\<lambda>_.
     modify (\<lambda>db. db\<lparr>sd_quota := sd_quota db @ map (\<lambda>d. \<lparr>qw_device = deviceID, qw_weekday = d,
        qw_seconds = 0\<rparr>) weekdays\<rparr>))))))))"

definition CreateDeviceWithAvatar :: "ServerEnv \<Rightarrow> string \<Rightarrow> string \<Rightarrow> time \<Rightarrow> Device sact" where
  "CreateDeviceWithAvatar env name avatarKey now =
     (let name' = TrimSpace name; avatar = (if avatarKey = [] then DefaultAvatarKey else avatarKey)
      in andThen (fails_if (\<not> name_ok name' \<or> \<not> ValidAvatarKey avatar \<or> is_zero now) InvalidDevice) (\<lambda>_.
         andThen (newID env 0) (\<lambda>deviceID.
         transaction (sv_served env) (
           andThen (insert_device deviceID name' avatar now) (\<lambda>_.
           andThen (insertAudit env 1 deviceID ''device_created'' (JObject [(''name'', JString name')]) now) (\<lambda>_.
           ret (device_of_row (new_device deviceID name' avatar now))))))))"

definition CreateDevice :: "ServerEnv \<Rightarrow> string \<Rightarrow> time \<Rightarrow> Device sact" where
  "CreateDevice env name now = CreateDeviceWithAvatar env name DefaultAvatarKey now"

text \<open>\<open>UPDATE device ... WHERE id=?\<close>, with \<open>RowNotFound\<close> when no row has the id.\<close>

definition update_device :: "string \<Rightarrow> (DeviceRow \<Rightarrow> DeviceRow) \<Rightarrow> ServerDb \<Rightarrow> ServerDb" where
  "update_device deviceID f db = db\<lparr>sd_device := tbl_update (\<lambda>d. dv_id d = deviceID) f (sd_device db)\<rparr>"

definition change_device :: "string \<Rightarrow> (DeviceRow \<Rightarrow> DeviceRow) \<Rightarrow> unit sact" where
  "change_device deviceID f =
     andThen (reads (has_device deviceID)) (\<lambda>changed.
     andThen (fails_if (\<not> changed) RowNotFound) (\<lambda>_. modify (update_device deviceID f)))"

definition RenameDevice :: "ServerEnv \<Rightarrow> string \<Rightarrow> string \<Rightarrow> time \<Rightarrow> unit sact" where
  "RenameDevice env deviceID name now =
     (let name' = TrimSpace name
      in andThen (fails_if (\<not> name_ok name') InvalidDeviceName) (\<lambda>_.
         transaction (sv_served env) (
           andThen (change_device deviceID (\<lambda>d. d\<lparr>dv_name := name', dv_updated := now\<rparr>)) (\<lambda>_.
           insertAudit env 0 deviceID ''device_renamed'' (JObject [(''name'', JString name')]) now))))"

definition UpdateDeviceIdentity :: "ServerEnv \<Rightarrow> string \<Rightarrow> string \<Rightarrow> string \<Rightarrow> time \<Rightarrow> unit sact" where
  "UpdateDeviceIdentity env deviceID name avatarKey now =
     (let name' = TrimSpace name
      in andThen (fails_if (\<not> name_ok name' \<or> \<not> ValidAvatarKey avatarKey) InvalidIdentity) (\<lambda>_.
         transaction (sv_served env) (
           andThen (change_device deviceID (\<lambda>d. d\<lparr>dv_name := name', dv_avatar := avatarKey, dv_updated := now\<rparr>)) (\<lambda>_.
           insertAudit env 0 deviceID ''device_identity_updated''
             (JObject [(''avatar_key'', JString avatarKey), (''name'', JString name')]) now))))"

text \<open>Deleting a device deletes every row that refers to it and detaches its audit.\<close>

definition delete_device :: "string \<Rightarrow> ServerDb \<Rightarrow> ServerDb" where
  "delete_device deviceID db =
     (let gone = map rw_id (routines_of deviceID db);
          db1 = delete_activities (\<lambda>a. tw_device a = deviceID) db
      in db1\<lparr>sd_device := tbl_delete (\<lambda>d. dv_id d = deviceID) (sd_device db),
          sd_policy := tbl_delete (\<lambda>p. pw_device p = deviceID) (sd_policy db),
          sd_quota := tbl_delete (\<lambda>q. qw_device q = deviceID) (sd_quota db),
          sd_routine := tbl_delete (\<lambda>r. rw_device r = deviceID) (sd_routine db),
          sd_day := tbl_delete (\<lambda>x. fst x \<in> set gone) (sd_day db),
          sd_control := tbl_delete (\<lambda>c. cw_device c = deviceID) (sd_control db),
          sd_usage := tbl_delete (\<lambda>u. uw_device u = deviceID) (sd_usage db),
          sd_bonus := tbl_delete (\<lambda>b. bw_device b = deviceID) (sd_bonus db),
          sd_command := tbl_delete (\<lambda>c. mw_device c = deviceID) (sd_command db),
          sd_audit := tbl_update (\<lambda>a. aw_device a = Some deviceID) (\<lambda>a. a\<lparr>aw_device := None\<rparr>) (sd_audit db)\<rparr>)"

definition DeleteDevice :: "bool \<Rightarrow> string \<Rightarrow> unit sact" where
  "DeleteDevice served deviceID =
     transaction served (andThen (reads (has_device deviceID)) (\<lambda>changed.
       andThen (fails_if (\<not> changed) RowNotFound) (\<lambda>_. modify (delete_device deviceID))))"

section \<open>Policies\<close>

definition bump_rows :: "string \<Rightarrow> (DevicePolicyRow \<Rightarrow> DevicePolicyRow) \<Rightarrow> time \<Rightarrow> ServerDb \<Rightarrow> ServerDb" where
  "bump_rows deviceID f now db =
     update_device deviceID (\<lambda>d. d\<lparr>dv_policy_revision := dv_policy_revision d + 1, dv_updated := now\<rparr>)
       (db\<lparr>sd_policy := tbl_update (\<lambda>p. pw_device p = deviceID)
             (\<lambda>p. f (p\<lparr>pw_revision := pw_revision p + 1, pw_updated := now\<rparr>)) (sd_policy db)\<rparr>)"

definition bumpPolicy :: "string \<Rightarrow> int \<Rightarrow> time \<Rightarrow> int sact" where
  "bumpPolicy deviceID warningMinutes now =
     andThen (modify (bump_rows deviceID (\<lambda>p. p\<lparr>pw_warning := warningMinutes\<rparr>) now)) (\<lambda>_.
     andThen (reads (\<lambda>db. tbl_find pw_device deviceID (sd_policy db))) (\<lambda>p.
     case p of None \<Rightarrow> throw NoRows | Some p \<Rightarrow> ret (pw_revision p)))"

definition bumpPolicyKeepWarning :: "string \<Rightarrow> time \<Rightarrow> int sact" where
  "bumpPolicyKeepWarning deviceID now =
     andThen (reads (\<lambda>db. tbl_find pw_device deviceID (sd_policy db))) (\<lambda>p.
     case p of None \<Rightarrow> throw NoRows | Some p \<Rightarrow> bumpPolicy deviceID (pw_warning p) now)"

definition quotas_json :: "(weekday \<Rightarrow> int) \<Rightarrow> json" where
  "quotas_json quotas = JArray (map (\<lambda>d. JNumber (show_int (quotas d))) weekdays)"

definition set_quotas :: "string \<Rightarrow> (weekday \<Rightarrow> int) \<Rightarrow> ServerDb \<Rightarrow> ServerDb" where
  "set_quotas deviceID quotas db = db\<lparr>sd_quota := tbl_update (\<lambda>q. qw_device q = deviceID)
     (\<lambda>q. q\<lparr>qw_seconds := quotas (qw_weekday q)\<rparr>) (sd_quota db)\<rparr>"

definition SaveQuotas :: "ServerEnv \<Rightarrow> string \<Rightarrow> (weekday \<Rightarrow> int) \<Rightarrow> int \<Rightarrow> time \<Rightarrow> unit sact" where
  "SaveQuotas env deviceID quotas warningMinutes now =
     andThen (fails_if (list_ex (\<lambda>d. quotas d < 0 \<or> 24 * 60 * 60 < quotas d) weekdays) QuotaOutOfRange) (\<lambda>_.
     andThen (fails_if (warningMinutes < 0 \<or> 120 < warningMinutes) WarningOutOfRange) (\<lambda>_.
     transaction (sv_served env) (
       andThen (modify (set_quotas deviceID quotas)) (\<lambda>_.
       andThen (bumpPolicy deviceID warningMinutes now) (\<lambda>revision.
       insertAudit env 0 deviceID ''quotas_updated'' (JObject [(''revision'', JNumber (show_int revision)),
         (''warning_minutes'', JNumber (show_int warningMinutes)), (''weekly_seconds'', quotas_json quotas)]) now)))))"

definition SetLocalPassword :: "ServerEnv \<Rightarrow> string \<Rightarrow> string \<Rightarrow> time \<Rightarrow> unit sact" where
  "SetLocalPassword env deviceID verifier now =
     andThen (fails_if (verifier = []) EmptyVerifier) (\<lambda>_.
     transaction (sv_served env) (
       andThen (reads (\<lambda>db. tbl_has pw_device deviceID (sd_policy db))) (\<lambda>changed.
       andThen (fails_if (\<not> changed) RowNotFound) (\<lambda>_.
       andThen (modify (bump_rows deviceID (\<lambda>p. p\<lparr>pw_verifier := Some verifier\<rparr>) now)) (\<lambda>_.
       insertAudit env 0 deviceID ''local_password_changed'' (JObject [(''status'', JString ''awaiting_sync'')]) now)))))"

section \<open>Routines\<close>

definition routine_error :: "server_routine \<Rightarrow> ServerError option" where
  "routine_error r =
     (if \<not> name_ok (vr_Name r) \<or> vr_Start r < 0 \<or> 86400 \<le> vr_Start r \<or> vr_End r < 0 \<or> 86400 \<le> vr_End r
         \<or> vr_IconKey r \<noteq> [] \<and> \<not> ValidRoutineIconKey (vr_IconKey r) then Some InvalidRoutine
      else if \<not> list_ex (vr_Days r) weekdays then Some RoutineWithoutDay else None)"

text \<open>\<open>INSERT ... ON CONFLICT(id) DO UPDATE ... WHERE routine.device_id=excluded.device_id\<close>, and the days
  of the routine written anew.\<close>

definition write_routine :: "string \<Rightarrow> server_routine \<Rightarrow> ServerDb \<Rightarrow> ServerDb" where
  "write_routine deviceID r db =
     db\<lparr>sd_routine := tbl_upsert rw_id
          (\<lambda>old new. if rw_device old = rw_device new then new else old)
          \<lparr>rw_id = vr_ID r, rw_device = deviceID, rw_name = vr_Name r, rw_icon = vr_IconKey r,
           rw_start = vr_Start r, rw_end = vr_End r, rw_enabled = vr_Enabled r\<rparr> (sd_routine db),
        sd_day := tbl_delete (\<lambda>x. fst x = vr_ID r) (sd_day db)
          @ map (\<lambda>d. (vr_ID r, d)) (filter (vr_Days r) weekdays)\<rparr>"

definition conflicting :: "server_routine \<Rightarrow> server_routine list \<Rightarrow> server_routine option" where
  "conflicting r existing = find (\<lambda>c. vr_ID c \<noteq> vr_ID r \<and> routinesOverlap r c) existing"

text \<open>The icon of the stored routine is kept when none is given.\<close>

definition choose_icon :: "bool \<Rightarrow> string \<Rightarrow> server_routine \<Rightarrow> server_routine sact" where
  "choose_icon isNew deviceID r =
     (if isNew then ret (if vr_IconKey r = [] then r\<lparr>vr_IconKey := DefaultRoutineIconKey\<rparr> else r)
      else andThen (reads (\<lambda>db. find (\<lambda>x. rw_id x = vr_ID r \<and> rw_device x = deviceID) (sd_routine db))) (\<lambda>old.
           case old of None \<Rightarrow> throw RowNotFound
           | Some x \<Rightarrow> ret (if vr_IconKey r = [] then r\<lparr>vr_IconKey := rw_icon x\<rparr> else r)))"

definition commit_routine :: "ServerEnv \<Rightarrow> bool \<Rightarrow> string \<Rightarrow> server_routine \<Rightarrow> time \<Rightarrow> string sact" where
  "commit_routine env isNew deviceID r now =
     andThen (requires (\<lambda>db. has_device deviceID db \<or> tbl_has rw_id (vr_ID r) (sd_routine db))) (\<lambda>_.
     andThen (modify (write_routine deviceID r)) (\<lambda>_.
     andThen (bumpPolicyKeepWarning deviceID now) (\<lambda>revision.
     andThen (insertAudit env 1 deviceID ''routine_saved'' (JObject
       [(''action'', JString (if isNew then ''created'' else ''updated'')), (''icon_key'', JString (vr_IconKey r)),
        (''name'', JString (vr_Name r)), (''revision'', JNumber (show_int revision)),
        (''routine_id'', JString (vr_ID r))]) now) (\<lambda>_.
     ret (vr_ID r)))))"

definition store_routine :: "ServerEnv \<Rightarrow> bool \<Rightarrow> string \<Rightarrow> server_routine \<Rightarrow> time \<Rightarrow> string sact" where
  "store_routine env isNew deviceID r0 now =
     transaction (sv_served env) (
       andThen (choose_icon isNew deviceID r0) (\<lambda>r.
       andThen (reads (loadRoutines deviceID)) (\<lambda>existing.
       case conflicting r existing of Some c \<Rightarrow> throw (RoutineConflictError (vr_Name c))
       | None \<Rightarrow> commit_routine env isNew deviceID r now)))"

definition SaveRoutine :: "ServerEnv \<Rightarrow> string \<Rightarrow> server_routine \<Rightarrow> time \<Rightarrow> string sact" where
  "SaveRoutine env deviceID r0 now =
     (let r = r0\<lparr>vr_Name := TrimSpace (vr_Name r0)\<rparr>
      in case routine_error r of Some e \<Rightarrow> throw e
         | None \<Rightarrow>
             if vr_ID r = []
             then andThen (newID env 0) (\<lambda>rid. store_routine env True deviceID (r\<lparr>vr_ID := rid\<rparr>) now)
             else store_routine env False deviceID r now)"

definition DeleteRoutine :: "ServerEnv \<Rightarrow> string \<Rightarrow> string \<Rightarrow> time \<Rightarrow> unit sact" where
  "DeleteRoutine env deviceID routineID now =
     transaction (sv_served env) (
       andThen (reads (\<lambda>db. find (\<lambda>x. rw_id x = routineID \<and> rw_device x = deviceID) (sd_routine db))) (\<lambda>old.
       case old of None \<Rightarrow> throw RowNotFound
       | Some x \<Rightarrow>
           andThen (modify (\<lambda>db. db\<lparr>sd_routine := tbl_delete (\<lambda>r. rw_id r = routineID \<and> rw_device r = deviceID) (sd_routine db),
              sd_day := tbl_delete (\<lambda>d. fst d = routineID) (sd_day db)\<rparr>)) (\<lambda>_.
           andThen (bumpPolicyKeepWarning deviceID now) (\<lambda>_.
           insertAudit env 0 deviceID ''routine_deleted'' (JObject [(''name'', JString (rw_name x)),
             (''routine_id'', JString routineID)]) now))))"

end
