(* ===== verification/ServerSync.thy ===== *)
theory ServerSync
  imports ServerDomain
begin

text \<open>
  Synchronization on the server (\<open>server/storage/sync.go\<close>): a heartbeat is received in one
  transaction - usage, pending credits, events, acknowledgements - and answered by reads after
  its commit and a second transaction that counts the commands offered. Controls and bonuses
  are queued as commands.
\<close>

section \<open>The parts of a heartbeat\<close>

definition maximumDailyUsageSeconds :: int where
  "maximumDailyUsageSeconds = go_div (48 * hour) second"

definition heartbeat_error :: "string \<Rightarrow> HeartbeatRequest \<Rightarrow> time \<Rightarrow> ServerError option" where
  "heartbeat_error deviceID request now =
     (if \<not> validOpaqueIdentifier deviceID \<or> hr_PolicyRevision request < 0 \<or> hr_ControlRevision request < 0
         \<or> hr_SessionStateRevision request < 0 \<or> hr_SecondsUsed request < 0
         \<or> maximumDailyUsageSeconds < hr_SecondsUsed request \<or> is_zero now then Some InvalidCounters
      else if hr_GraphicalSessionActive request \<and> \<not> validOpaqueIdentifier (hr_GraphicalSessionID request)
      then Some InvalidGraphicalSession
      else if \<not> hr_GraphicalSessionActive request
         \<and> (hr_GraphicalSessionID request \<noteq> [] \<or> hr_RequestSessionState request)
      then Some SessionWithoutActivity
      else if hr_GraphicalSessionLocked request \<and> \<not> hr_GraphicalSessionActive request
      then Some LockedWithoutActivity
      else if \<not> valid_date (hr_LocalDate request) then Some InvalidHeartbeatDate
      else if 100 < length (hr_Events request) \<or> 100 < length (hr_CommandAcks request) then Some BatchTooLarge
      else None)"

definition nullableSessionID :: "bool \<Rightarrow> string \<Rightarrow> string option" where
  "nullableSessionID active sessionID = (if \<not> active then None else Some sessionID)"

definition report_device :: "HeartbeatRequest \<Rightarrow> time \<Rightarrow> DeviceRow \<Rightarrow> DeviceRow" where
  "report_device request now d = d\<lparr>dv_last_seen := Some now, dv_applied_policy := hr_PolicyRevision request,
     dv_applied_control := hr_ControlRevision request, dv_session_active := hr_GraphicalSessionActive request,
     dv_session_locked := hr_GraphicalSessionLocked request,
     dv_session_id := nullableSessionID (hr_GraphicalSessionActive request) (hr_GraphicalSessionID request),
     dv_updated := now\<rparr>"

definition usage_key :: "UsageRow \<Rightarrow> string \<times> string" where
  "usage_key u = (uw_device u, uw_date u)"

definition merge_usage :: "UsageRow \<Rightarrow> UsageRow \<Rightarrow> UsageRow" where
  "merge_usage old new = old\<lparr>uw_seconds := max (uw_seconds old) (uw_seconds new), uw_sync := uw_sync new\<rparr>"

definition report_usage :: "string \<Rightarrow> HeartbeatRequest \<Rightarrow> time \<Rightarrow> ServerDb \<Rightarrow> ServerDb" where
  "report_usage deviceID request now db = db\<lparr>sd_usage := tbl_upsert usage_key merge_usage
     \<lparr>uw_device = deviceID, uw_date = hr_LocalDate request, uw_seconds = hr_SecondsUsed request, uw_sync = now\<rparr>
     (sd_usage db)\<rparr>"

subsection \<open>Credits queued by the administrator\<close>

definition decodeCreditIncrementCommand :: "string \<Rightarrow> string \<Rightarrow> time \<Rightarrow> ServerError + CreditIncrementPayload" where
  "decodeCreditIncrementCommand commandID payloadJSON fallbackCreatedAt =
     (case read_credit payloadJSON of None \<Rightarrow> Inl InvalidCredit
      | Some p \<Rightarrow>
          if ci_Seconds p \<le> 0 \<or> go_div (24 * hour) second < ci_Seconds p \<or> ci_Origin p \<noteq> ''web''
          then Inl InvalidCredit
          else let p1 = (if ci_UUID p = [] then p\<lparr>ci_UUID := commandID\<rparr> else p)
               in if ci_UUID p1 \<noteq> commandID then Inl CreditMismatch
                  else Inr (if is_zero (ci_CreatedAt p1) then p1\<lparr>ci_CreatedAt := fallbackCreatedAt\<rparr> else p1))"

record pendingRemoteCredit =
  pq_id :: string
  pq_seconds :: int
  pq_createdAt :: time

fun decode_credits :: "CommandRow list \<Rightarrow> ServerError + pendingRemoteCredit list" where
  "decode_credits [] = Inr []"
| "decode_credits (c # cs) =
     (case decodeCreditIncrementCommand (mw_id c) (mw_payload c) (mw_created c) of Inl e \<Rightarrow> Inl e
      | Inr credit \<Rightarrow>
          (case decode_credits cs of Inl e \<Rightarrow> Inl e
           | Inr queued \<Rightarrow> Inr (\<lparr>pq_id = mw_id c, pq_seconds = ci_Seconds credit,
               pq_createdAt = ci_CreatedAt credit\<rparr> # queued)))"

definition credit_due :: "string \<Rightarrow> ServerDb \<Rightarrow> CommandRow \<Rightarrow> bool" where
  "credit_due deviceID db c \<longleftrightarrow> mw_device c = deviceID \<and> mw_kind c = ''add_bonus''
     \<and> mw_acknowledged c = None \<and> \<not> tbl_has bw_uuid (mw_id c) (sd_bonus db)"

definition loadPendingRemoteCredits :: "string \<Rightarrow> ServerDb \<Rightarrow> ServerError + pendingRemoteCredit list" where
  "loadPendingRemoteCredits deviceID db =
     decode_credits (sort_key command_order (filter (credit_due deviceID db) (sd_command db)))"

text \<open>\<open>INSERT OR IGNORE INTO bonus\<close>.\<close>

definition insert_bonus_row :: "BonusRow \<Rightarrow> unit sact" where
  "insert_bonus_row b =
     andThen (requires (\<lambda>db. tbl_has bw_uuid (bw_uuid b) (sd_bonus db) \<or> has_device (bw_device b) db)) (\<lambda>_.
     modify (\<lambda>db. db\<lparr>sd_bonus := tbl_insert_ignore bw_uuid b (sd_bonus db)\<rparr>))"

definition credit_bonus :: "string \<Rightarrow> string \<Rightarrow> pendingRemoteCredit \<Rightarrow> BonusRow" where
  "credit_bonus deviceID localDate credit = \<lparr>bw_uuid = pq_id credit, bw_device = deviceID,
     bw_date = localDate, bw_seconds = pq_seconds credit, bw_origin = ''web'', bw_created = pq_createdAt credit\<rparr>"

fun apply_credits :: "string \<Rightarrow> string \<Rightarrow> pendingRemoteCredit list \<Rightarrow> unit sact" where
  "apply_credits deviceID localDate [] = ret ()"
| "apply_credits deviceID localDate (credit # credits) =
     andThen (insert_bonus_row (credit_bonus deviceID localDate credit)) (\<lambda>_.
     apply_credits deviceID localDate credits)"

definition applyPendingRemoteBonuses :: "string \<Rightarrow> string \<Rightarrow> unit sact" where
  "applyPendingRemoteBonuses deviceID localDate =
     andThen (reads (loadPendingRemoteCredits deviceID)) (\<lambda>queued.
     case queued of Inl e \<Rightarrow> throw e | Inr credits \<Rightarrow> apply_credits deviceID localDate credits)"

subsection \<open>Events of the agent\<close>

definition event_malformed :: "wire_event \<Rightarrow> bool" where
  "event_malformed e \<longleftrightarrow> \<not> validOpaqueIdentifier (we_UUID e) \<or> we_Kind e \<noteq> ''bonus_added''
     \<or> is_zero (we_CreatedAt e) \<or> we_Payload e = [] \<or> 16 * 1024 < length (we_Payload e)
     \<or> \<not> json_valid (we_Payload e)"

definition event_bonus :: "wire_event \<Rightarrow> ServerError + BonusPayload" where
  "event_bonus e =
     (if event_malformed e then Inl InvalidPendingEvent
      else case read_bonus (we_Payload e) of None \<Rightarrow> Inl InvalidLocalBonus
      | Some b \<Rightarrow>
          if bp_LocalDate b = [] \<or> bp_Seconds b \<le> 0 \<or> go_div (12 * hour) second < bp_Seconds b
             \<or> bp_Origin b \<noteq> ''local'' then Inl InvalidLocalBonus
          else if \<not> valid_date (bp_LocalDate b) then Inl InvalidBonusDate
          else Inr b)"

definition local_bonus_row :: "string \<Rightarrow> wire_event \<Rightarrow> BonusPayload \<Rightarrow> BonusRow" where
  "local_bonus_row deviceID e b = \<lparr>bw_uuid = we_UUID e, bw_device = deviceID, bw_date = bp_LocalDate b,
     bw_seconds = bp_Seconds b, bw_origin = ''local'', bw_created = we_CreatedAt e\<rparr>"

definition local_bonus_audit :: "string \<Rightarrow> wire_event \<Rightarrow> BonusPayload \<Rightarrow> AuditRow" where
  "local_bonus_audit deviceID e b = audit_row (we_UUID e) deviceID ''bonus_added'' ''local''
     (JObject [(''local_date'', JString (bp_LocalDate b)), (''seconds'', JNumber (show_int (bp_Seconds b))),
        (''origin'', JString ''local'')]) (we_CreatedAt e)"

definition receiveEvent :: "location \<Rightarrow> string \<Rightarrow> wire_event \<Rightarrow> time \<Rightarrow> unit sact" where
  "receiveEvent loc deviceID e observedAt =
     (case event_bonus e of Inl err \<Rightarrow> throw err
      | Inr b \<Rightarrow>
          andThen (insert_bonus_row (local_bonus_row deviceID e b)) (\<lambda>_.
          andThen (requires (\<lambda>db. tbl_has aw_uuid (we_UUID e) (sd_audit db) \<or> has_device deviceID db)) (\<lambda>_.
          andThen (modify (\<lambda>db. db\<lparr>sd_audit := tbl_insert_ignore aw_uuid (local_bonus_audit deviceID e b) (sd_audit db)\<rparr>)) (\<lambda>_.
          insertLocalBonusActivity loc (we_UUID e) deviceID (bp_Seconds b) (bp_LocalDate b) (we_CreatedAt e) observedAt))))"

fun receive_events :: "location \<Rightarrow> string \<Rightarrow> time \<Rightarrow> wire_event list \<Rightarrow> unit sact" where
  "receive_events loc deviceID now [] = ret ()"
| "receive_events loc deviceID now (e # es) =
     andThen (receiveEvent loc deviceID e now) (\<lambda>_. receive_events loc deviceID now es)"

subsection \<open>Acknowledged commands\<close>

definition or_now :: "time \<Rightarrow> time option \<Rightarrow> time option" where
  "or_now now t = (case t of None \<Rightarrow> Some now | Some u \<Rightarrow> Some u)"

definition of_command :: "string \<Rightarrow> string \<Rightarrow> CommandRow \<Rightarrow> bool" where
  "of_command deviceID commandID c \<longleftrightarrow> mw_id c = commandID \<and> mw_device c = deviceID"

definition of_activity :: "string \<Rightarrow> string \<Rightarrow> ActivityRow \<Rightarrow> bool" where
  "of_activity deviceID activityID a \<longleftrightarrow> tw_id a = activityID \<and> tw_device a = deviceID"

definition completed_activity :: "location \<Rightarrow> time \<Rightarrow> ActivityRow \<Rightarrow> ActivityRow" where
  "completed_activity loc now a = a\<lparr>tw_status := ''completed'', tw_completed := or_now now (tw_completed a),
     tw_expires := or_now (add_days loc now completedActivityRetentionDays) (tw_expires a)\<rparr>"

definition acknowledge_command :: "location \<Rightarrow> string \<Rightarrow> time \<Rightarrow> string \<Rightarrow> unit sact" where
  "acknowledge_command loc deviceID now commandID =
     andThen (fails_if (\<not> validOpaqueIdentifier commandID) InvalidAcknowledgement) (\<lambda>_.
     andThen (reads (\<lambda>db. list_ex (of_command deviceID commandID) (sd_command db))) (\<lambda>matchedCommand.
     andThen (modify (\<lambda>db. db\<lparr>sd_command := tbl_update (of_command deviceID commandID)
        (\<lambda>c. c\<lparr>mw_acknowledged := or_now now (mw_acknowledged c)\<rparr>) (sd_command db)\<rparr>)) (\<lambda>_.
     if \<not> matchedCommand then ret ()
     else
       andThen (reads (\<lambda>db. list_ex (of_activity deviceID commandID) (sd_activity db))) (\<lambda>matchedActivity.
       andThen (modify (\<lambda>db. db\<lparr>sd_activity := tbl_update (of_activity deviceID commandID)
          (completed_activity loc now) (sd_activity db)\<rparr>)) (\<lambda>_.
       andThen (if matchedActivity then upsertActivityStep commandID ''completed'' ''device'' now [] False else ret ()) (\<lambda>_.
       modify (\<lambda>db. db\<lparr>sd_command := tbl_delete (\<lambda>c. of_command deviceID commandID c
          \<and> validControlKind (mw_kind c)) (sd_command db)\<rparr>)))))))"

fun acknowledge_commands :: "location \<Rightarrow> string \<Rightarrow> time \<Rightarrow> string list \<Rightarrow> unit sact" where
  "acknowledge_commands loc deviceID now [] = ret ()"
| "acknowledge_commands loc deviceID now (c # cs) =
     andThen (acknowledge_command loc deviceID now c) (\<lambda>_. acknowledge_commands loc deviceID now cs)"

section \<open>Receiving a heartbeat\<close>

definition receive_report :: "location \<Rightarrow> string \<Rightarrow> HeartbeatRequest \<Rightarrow> time \<Rightarrow> int sact" where
  "receive_report loc deviceID request now =
     andThen (reads (\<lambda>db. tbl_find dv_id deviceID (sd_device db))) (\<lambda>found.
     case found of None \<Rightarrow> throw RowNotFound
     | Some d \<Rightarrow>
         (let serverRevision = dv_policy_revision d
          in andThen (fails_if (serverRevision < hr_PolicyRevision request
                 \<or> serverRevision < hr_SessionStateRevision request)
               (RevisionAheadError (max (hr_PolicyRevision request) (hr_SessionStateRevision request)) serverRevision)) (\<lambda>_.
             andThen (modify (update_device deviceID (report_device request now))) (\<lambda>_.
             andThen (modify (report_usage deviceID request now)) (\<lambda>_.
             andThen (applyPendingRemoteBonuses deviceID (hr_LocalDate request)) (\<lambda>_.
             andThen (receive_events loc deviceID now (hr_Events request)) (\<lambda>_.
             andThen (acknowledge_commands loc deviceID now (hr_CommandAcks request)) (\<lambda>_.
             andThen (cleanupExpiredCompletedActivitiesIfDue now) (\<lambda>_.
             ret serverRevision)))))))))"

definition policyForAPI :: "server_policy \<Rightarrow> wire_policy" where
  "policyForAPI p = \<lparr>wp_Revision = vp_Revision p, wp_MonitoringPaused = vp_MonitoringPaused p,
     wp_ManualBlock = vp_ManualBlock p, wp_WarningMinutes = vp_WarningMinutes p,
     wp_LocalPasswordVerifier = vp_LocalPasswordVerifier p, wp_WeeklyQuotaSeconds = vp_WeeklyQuota p,
     wp_Routines = map (\<lambda>r. \<lparr>wr_ID = vr_ID r, wr_Name = vr_Name r, wr_Days = vr_Days r,
       wr_StartSecond = vr_Start r, wr_EndSecond = vr_End r, wr_Enabled = vr_Enabled r\<rparr>) (vp_Routines p),
     wp_UpdatedAt = vp_UpdatedAt p\<rparr>"

definition balance_left :: "int \<Rightarrow> int \<Rightarrow> int \<Rightarrow> int" where
  "balance_left quota extra used =
     (let remaining = wrap64 (wrap64 (quota + extra) - used) in if remaining < 0 then 0 else remaining)"

definition confirmedSessionState :: "string \<Rightarrow> string \<Rightarrow> string \<Rightarrow> time \<Rightarrow> ServerDb \<Rightarrow> ServerError + SessionState" where
  "confirmedSessionState deviceID sessionID localDate now db =
     (case loadPolicy deviceID db of Inl e \<Rightarrow> Inl e
      | Inr policy \<Rightarrow>
          (case LoadDailySummary deviceID localDate db of Inl e \<Rightarrow> Inl e
           | Inr summary \<Rightarrow>
               (case weekday_of_date localDate of None \<Rightarrow> Inl InvalidHeartbeatDate
                | Some wd \<Rightarrow> Inr \<lparr>ws_Revision = vp_Revision policy, ws_SessionID = sessionID,
                    ws_LocalDate = localDate,
                    ws_RemainingSeconds = balance_left (vp_WeeklyQuota policy wd) (dy_BonusSeconds summary) (dy_UsedSeconds summary),
                    ws_UsageSeconds = dy_UsedSeconds summary, ws_ConfirmedAt = now\<rparr>)))"

text \<open>Offering the commands: every one is counted, and its activity is marked when there is one.\<close>

definition offer_command :: "string \<Rightarrow> time \<Rightarrow> string \<Rightarrow> unit sact" where
  "offer_command deviceID now commandID =
     andThen (modify (\<lambda>db. db\<lparr>sd_command := tbl_update
        (\<lambda>c. of_command deviceID commandID c \<and> mw_acknowledged c = None)
        (\<lambda>c. c\<lparr>mw_attempts := mw_attempts c + 1, mw_first_offered := or_now now (mw_first_offered c),
           mw_last_offered := Some now\<rparr>) (sd_command db)\<rparr>)) (\<lambda>_.
     andThen (reads (\<lambda>db. list_ex (\<lambda>a. of_activity deviceID commandID a \<and> tw_status a \<noteq> ''completed'') (sd_activity db))) (\<lambda>matchedActivity.
     andThen (modify (\<lambda>db. db\<lparr>sd_activity := tbl_update
        (\<lambda>a. of_activity deviceID commandID a \<and> tw_status a \<noteq> ''completed'')
        (\<lambda>a. a\<lparr>tw_status := ''offered''\<rparr>) (sd_activity db)\<rparr>)) (\<lambda>_.
     if \<not> matchedActivity then ret ()
     else upsertActivityStep commandID ''offered'' ''server'' now [] True)))"

fun offer_commands :: "string \<Rightarrow> time \<Rightarrow> string list \<Rightarrow> unit sact" where
  "offer_commands deviceID now [] = ret ()"
| "offer_commands deviceID now (c # cs) =
     andThen (offer_command deviceID now c) (\<lambda>_. offer_commands deviceID now cs)"

definition wire_command :: "CommandRow \<Rightarrow> Command" where
  "wire_command c = \<lparr>wc_ID = mw_id c, wc_Kind = mw_kind c, wc_Payload = mw_payload c, wc_CreatedAt = mw_created c\<rparr>"

definition commands_due :: "string \<Rightarrow> int \<Rightarrow> ServerDb \<Rightarrow> Command list" where
  "commands_due deviceID limit db = map wire_command (take (nat limit) (sort_key command_order
     (filter (\<lambda>c. mw_device c = deviceID \<and> mw_acknowledged c = None) (sd_command db))))"

datatype HeartbeatPhase = PhaseReport | PhaseControl | PhasePolicy | PhaseBalance | PhaseCommands | PhaseOffer

definition pendingCommands :: "(HeartbeatPhase \<Rightarrow> bool) \<Rightarrow> string \<Rightarrow> int \<Rightarrow> time \<Rightarrow> Command list sact" where
  "pendingCommands served deviceID limit now =
     andThen (querying (served PhaseCommands) (\<lambda>db. Inr (commands_due deviceID limit db))) (\<lambda>commands.
     if commands = [] then ret []
     else andThen (transaction (served PhaseOffer) (offer_commands deviceID now (map wc_ID commands))) (\<lambda>_.
          ret commands))"

definition wire_control :: "server_control \<Rightarrow> Control" where
  "wire_control c = \<lparr>co_Revision = vc_Revision c, co_MonitoringPaused = vc_MonitoringPaused c,
     co_ManualBlock = vc_ManualBlock c\<rparr>"

definition ReceiveHeartbeat :: "location \<Rightarrow> (HeartbeatPhase \<Rightarrow> bool) \<Rightarrow> string \<Rightarrow> HeartbeatRequest \<Rightarrow> time
    \<Rightarrow> HeartbeatResponse sact" where
  "ReceiveHeartbeat loc served deviceID request now =
     (case heartbeat_error deviceID request now of Some e \<Rightarrow> throw e
      | None \<Rightarrow>
          andThen (transaction (served PhaseReport) (receive_report loc deviceID request now)) (\<lambda>serverRevision.
          andThen (querying (served PhaseControl) (loadControl deviceID)) (\<lambda>control.
          andThen (if hr_PolicyRevision request < serverRevision
                   then andThen (querying (served PhasePolicy) (loadPolicy deviceID)) (\<lambda>p. ret (Some (policyForAPI p)))
                   else ret None) (\<lambda>policy.
          andThen (if hr_GraphicalSessionActive request
                     \<and> (hr_RequestSessionState request \<or> hr_SessionStateRevision request < serverRevision)
                   then andThen (querying (served PhaseBalance) (confirmedSessionState deviceID
                          (hr_GraphicalSessionID request) (hr_LocalDate request) now)) (\<lambda>st. ret (Some st))
                   else ret None) (\<lambda>state.
          andThen (pendingCommands served deviceID 100 now) (\<lambda>commands.
          ret \<lparr>hs_ServerTime = now, hs_NextHeartbeatSeconds = 0,
             hs_AcknowledgedEvents = map we_UUID (hr_Events request),
             hs_AcknowledgedCommands = hr_CommandAcks request, hs_Policy = policy, hs_SessionState = state,
             hs_Commands = commands, hs_Control = wire_control control\<rparr>))))))"

section \<open>Queueing commands\<close>

definition control_flags :: "string \<Rightarrow> (bool \<times> bool) option" where
  "control_flags kind =
     (if kind = ''pause_monitoring'' then Some (True, False)
      else if kind = ''resume_monitoring'' then Some (False, False)
      else if kind = ''block_now'' then Some (False, True)
      else if kind = ''clear_manual_block'' then Some (False, False)
      else None)"

text \<open>An unacknowledged control command and its history give way to the new one.\<close>

definition discard_pending_controls :: "string \<Rightarrow> ServerDb \<Rightarrow> ServerDb" where
  "discard_pending_controls deviceID db =
     (let gone = map mw_id (filter (pending_control deviceID) (sd_command db))
      in (delete_activities (\<lambda>a. tw_id a \<in> set gone) db)\<lparr>sd_command :=
           tbl_delete (pending_control deviceID) (sd_command db)\<rparr>)"

definition change_control :: "string \<Rightarrow> bool \<times> bool \<Rightarrow> time \<Rightarrow> unit sact" where
  "change_control deviceID flags now =
     andThen (reads (\<lambda>db. tbl_has cw_device deviceID (sd_control db))) (\<lambda>changed.
     andThen (fails_if (\<not> changed) RowNotFound) (\<lambda>_.
     modify (\<lambda>db. db\<lparr>sd_control := tbl_update (\<lambda>c. cw_device c = deviceID)
       (\<lambda>c. c\<lparr>cw_paused := fst flags, cw_blocked := snd flags, cw_revision := cw_revision c + 1,
          cw_updated := now\<rparr>) (sd_control db)\<rparr>)))"

definition new_command :: "string \<Rightarrow> string \<Rightarrow> string \<Rightarrow> string \<Rightarrow> time \<Rightarrow> CommandRow" where
  "new_command commandID deviceID kind payload now = \<lparr>mw_id = commandID, mw_device = deviceID,
     mw_kind = kind, mw_payload = payload, mw_created = now, mw_acknowledged = None, mw_attempts = 0,
     mw_first_offered = None, mw_last_offered = None\<rparr>"

text \<open>The insertion fails on a used identifier, a missing device, and a second pending control.\<close>

definition insert_command :: "CommandRow \<Rightarrow> unit sact" where
  "insert_command c =
     andThen (requires (\<lambda>db. \<not> tbl_has mw_id (mw_id c) (sd_command db) \<and> has_device (mw_device c) db
        \<and> \<not> (pending_control (mw_device c) c \<and> list_ex (pending_control (mw_device c)) (sd_command db)))) (\<lambda>_.
     modify (\<lambda>db. db\<lparr>sd_command := sd_command db @ [c]\<rparr>))"

definition QueueControlOperation :: "ServerEnv \<Rightarrow> string \<Rightarrow> string \<Rightarrow> time \<Rightarrow> string sact" where
  "QueueControlOperation env deviceID kind now =
     (case control_flags kind of None \<Rightarrow> throw UnknownControl
      | Some flags \<Rightarrow>
          transaction (sv_served env) (
            andThen (reads (latest_control deviceID)) (\<lambda>pending.
            if (case pending of None \<Rightarrow> False | Some c \<Rightarrow> mw_kind c = kind)
            then ret (case pending of None \<Rightarrow> [] | Some c \<Rightarrow> mw_id c)
            else
              andThen (newID env 0) (\<lambda>commandID.
              andThen (modify (discard_pending_controls deviceID)) (\<lambda>_.
              andThen (change_control deviceID flags now) (\<lambda>_.
              andThen (insert_command (new_command commandID deviceID kind ''{}'' now)) (\<lambda>_.
              andThen (insertAdminActivity commandID deviceID kind [(''command'', kind)] now) (\<lambda>_.
              ret commandID)))))))) "

definition QueueControl :: "ServerEnv \<Rightarrow> string \<Rightarrow> string \<Rightarrow> time \<Rightarrow> unit sact" where
  "QueueControl env deviceID kind now = andThen (QueueControlOperation env deviceID kind now) (\<lambda>_. ret ())"

definition QueueRemoteBonus :: "ServerEnv \<Rightarrow> string \<Rightarrow> int \<Rightarrow> time \<Rightarrow> string sact" where
  "QueueRemoteBonus env deviceID seconds now =
     andThen (fails_if (seconds \<le> 0 \<or> go_div (24 * hour) second < seconds \<or> is_zero now) InvalidRemoteBonus) (\<lambda>_.
     andThen (newID env 0) (\<lambda>uuid.
     transaction (sv_served env) (
       andThen (bumpPolicyKeepWarning deviceID now) (\<lambda>_.
       andThen (insert_command (new_command uuid deviceID ''add_bonus'' (credit_text uuid seconds now) now)) (\<lambda>_.
       andThen (insertAdminActivity uuid deviceID ''add_bonus'' [(''minutes'', show_int (go_div seconds 60))] now) (\<lambda>_.
       andThen (insertAudit env 1 deviceID ''bonus_queued'' (JObject [(''origin'', JString ''web''),
         (''seconds'', JNumber (show_int seconds))]) now) (\<lambda>_.
       ret uuid)))))))"

section \<open>Following a bonus\<close>

definition RemoteBonusAcknowledged :: "string \<Rightarrow> string \<Rightarrow> ServerDb \<Rightarrow> ServerError + bool" where
  "RemoteBonusAcknowledged deviceID operationID db =
     (if \<not> validOpaqueIdentifier deviceID \<or> \<not> validOpaqueIdentifier operationID then Inl RowNotFound
      else case find (\<lambda>c. of_command deviceID operationID c \<and> mw_kind c = ''add_bonus'') (sd_command db) of
             None \<Rightarrow> Inl RowNotFound | Some c \<Rightarrow> Inr (mw_acknowledged c \<noteq> None))"

definition unacknowledged_bonus :: "string \<Rightarrow> CommandRow \<Rightarrow> bool" where
  "unacknowledged_bonus deviceID c \<longleftrightarrow>
     mw_device c = deviceID \<and> mw_kind c = ''add_bonus'' \<and> mw_acknowledged c = None"

definition HasPendingRemoteBonus :: "string \<Rightarrow> ServerDb \<Rightarrow> bool" where
  "HasPendingRemoteBonus deviceID db = list_ex (unacknowledged_bonus deviceID) (sd_command db)"

definition UnacknowledgedRemoteBonusSeconds :: "string \<Rightarrow> string \<Rightarrow> ServerDb \<Rightarrow> int" where
  "UnacknowledgedRemoteBonusSeconds deviceID localDate db =
     sum_list (map bw_seconds (filter (\<lambda>b. bw_device b = deviceID \<and> bw_date b = localDate
       \<and> list_ex (\<lambda>c. mw_id c = bw_uuid b \<and> unacknowledged_bonus deviceID c) (sd_command db)) (sd_bonus db)))"

end
