(* ===== verification/ServerTokens.thy ===== *)
theory ServerTokens
  imports ServerSync
begin

text \<open>
  The credentials of devices (\<open>server/storage/sync.go\<close>) and the reading side of the activity
  history (\<open>server/storage/activities.go\<close>). SHA-256 is a parameter: a function from texts to the
  32 bytes of their digest.
\<close>

section \<open>Device tokens\<close>

type_synonym sha256 = "string \<Rightarrow> string"

text \<open>\<open>base64.RawURLEncoding\<close> differs from the standard alphabet in its last two characters.\<close>

definition url_char :: "char \<Rightarrow> char" where
  "url_char c = (if c = CHR ''+'' then CHR ''-'' else if c = CHR ''/'' then CHR ''_'' else c)"

definition base64url_encode :: "string \<Rightarrow> string" where
  "base64url_encode bytes = map url_char (base64_encode bytes)"

definition hex_digest :: "sha256 \<Rightarrow> string \<Rightarrow> string" where
  "hex_digest sha256 token = concat (map (hex_byte \<circ> octet) (sha256 token))"

definition IssueDeviceToken :: "ServerEnv \<Rightarrow> sha256 \<Rightarrow> string option \<Rightarrow> string \<Rightarrow> time \<Rightarrow> string sact" where
  "IssueDeviceToken env sha256 secret deviceID now =
     (case secret of None \<Rightarrow> throw NoRandomness
      | Some bytes \<Rightarrow>
          let token = base64url_encode bytes in
          transaction (sv_served env) (
            andThen (change_device deviceID (\<lambda>d. d\<lparr>dv_token_hash := hex_digest sha256 token, dv_updated := now\<rparr>)) (\<lambda>_.
            andThen (insertAudit env 0 deviceID ''device_token_issued'' (JObject [(''status'', JString ''replaced'')]) now) (\<lambda>_.
            ret token))))"

definition RevokeDeviceToken :: "ServerEnv \<Rightarrow> string \<Rightarrow> time \<Rightarrow> unit sact" where
  "RevokeDeviceToken env deviceID now =
     andThen (fails_if (deviceID = [] \<or> is_zero now) InvalidRevocation) (\<lambda>_.
     transaction (sv_served env) (
       andThen (change_device deviceID (\<lambda>d. d\<lparr>dv_token_hash := [], dv_updated := now\<rparr>)) (\<lambda>_.
       insertAudit env 0 deviceID ''device_token_revoked'' (JObject [(''status'', JString ''revoked'')]) now)))"

text \<open>A failing query leaves the stored hash empty, so it too is answered as invalid credentials.\<close>

definition AuthenticateDevice :: "bool \<Rightarrow> sha256 \<Rightarrow> string \<Rightarrow> string \<Rightarrow> ServerDb \<Rightarrow> ServerError + unit" where
  "AuthenticateDevice served sha256 deviceID token db =
     (if \<not> validOpaqueIdentifier deviceID \<or> length token \<noteq> 43 then Inl InvalidDeviceCredentials
      else let stored = (if served then (case tbl_find dv_id deviceID (sd_device db) of None \<Rightarrow> []
                           | Some d \<Rightarrow> dv_token_hash d) else [])
           in if stored = [] \<or> stored \<noteq> hex_digest sha256 token then Inl InvalidDeviceCredentials
              else Inr ())"

section \<open>Reading the history\<close>

record ActivityStep =
  as_Kind :: string
  as_Actor :: string
  as_OccurredAt :: time
  as_LastOccurredAt :: time
  as_Occurrences :: int
  as_Details :: details

record DeviceActivity =
  da_ID :: string
  da_DeviceID :: string
  da_Kind :: string
  da_Origin :: string
  da_Status :: string
  da_Details :: details
  da_OccurredAt :: time
  da_ObservedAt :: time
  da_CompletedAt :: "time option"
  da_ExpiresAt :: "time option"
  da_Steps :: "ActivityStep list"

definition activity_step :: "StepRow \<Rightarrow> ActivityStep" where
  "activity_step s = \<lparr>as_Kind = ew_kind s, as_Actor = ew_actor s, as_OccurredAt = ew_occurred s,
     as_LastOccurredAt = ew_last s, as_Occurrences = ew_occurrences s, as_Details = ew_details s\<rparr>"

text \<open>The steps are joined in the order of their times, equal times in the order of insertion.\<close>

definition device_activity :: "ServerDb \<Rightarrow> ActivityRow \<Rightarrow> DeviceActivity" where
  "device_activity db a = \<lparr>da_ID = tw_id a, da_DeviceID = tw_device a, da_Kind = tw_kind a,
     da_Origin = tw_origin a, da_Status = tw_status a, da_Details = tw_details a,
     da_OccurredAt = tw_occurred a, da_ObservedAt = tw_observed a, da_CompletedAt = tw_completed a,
     da_ExpiresAt = tw_expires a,
     da_Steps = map activity_step (sort_key (\<lambda>s. format_time (ew_occurred s))
       (filter (\<lambda>s. ew_activity s = tw_id a) (sd_step db)))\<rparr>"

definition visible_activity :: "string \<Rightarrow> ActivityRow \<Rightarrow> bool" where
  "visible_activity deviceID a \<longleftrightarrow> tw_device a = deviceID \<and> tw_hidden a = None"

text \<open>\<open>ORDER BY occurred_at DESC, id DESC LIMIT ?\<close>.\<close>

definition ListDeviceActivities :: "string \<Rightarrow> int \<Rightarrow> ServerDb \<Rightarrow> ServerError + DeviceActivity list" where
  "ListDeviceActivities deviceID limit db =
     (if \<not> validOpaqueIdentifier deviceID \<or> limit < 1 \<or> 200 < limit then Inl InvalidActivityQuery
      else if \<not> has_device deviceID db then Inl RowNotFound
      else Inr (map (device_activity db) (take (nat limit)
             (rev (sort_key (\<lambda>a. (format_time (tw_occurred a), tw_id a))
                (filter (visible_activity deviceID) (sd_activity db)))))))"

definition LoadDeviceActivity :: "string \<Rightarrow> string \<Rightarrow> ServerDb \<Rightarrow> ServerError + DeviceActivity" where
  "LoadDeviceActivity deviceID activityID db =
     (if \<not> validOpaqueIdentifier deviceID \<or> \<not> validOpaqueIdentifier activityID then Inl RowNotFound
      else case find (\<lambda>a. visible_activity deviceID a \<and> tw_id a = activityID) (sd_activity db) of
             None \<Rightarrow> Inl RowNotFound | Some a \<Rightarrow> Inr (device_activity db a))"

definition hide_completed :: "string \<Rightarrow> time \<Rightarrow> ServerDb \<Rightarrow> ServerDb" where
  "hide_completed deviceID now db = db\<lparr>sd_activity :=
     tbl_update (\<lambda>a. visible_activity deviceID a \<and> tw_status a = ''completed'')
       (\<lambda>a. a\<lparr>tw_hidden := Some now\<rparr>) (sd_activity db)\<rparr>"

definition DeleteCompletedDeviceActivities :: "bool \<Rightarrow> string \<Rightarrow> time \<Rightarrow> int sact" where
  "DeleteCompletedDeviceActivities served deviceID now =
     andThen (fails_if (\<not> validOpaqueIdentifier deviceID) RowNotFound) (\<lambda>_.
     andThen (fails_if (\<not> served) EngineFailed) (\<lambda>_.
     andThen (reads (has_device deviceID)) (\<lambda>exists.
     andThen (fails_if (\<not> exists) RowNotFound) (\<lambda>_.
     andThen (reads (\<lambda>db. int (length (filter (\<lambda>a. visible_activity deviceID a \<and> tw_status a = ''completed'')
        (sd_activity db))))) (\<lambda>deleted.
     andThen (modify (hide_completed deviceID now)) (\<lambda>_. ret deleted))))))"

end
