(* ===== verification/ServerFacts.thy ===== *)
theory ServerFacts
  imports ServerTokens
begin

text \<open>
  What the server's operations leave alone, and what the ones that change a policy do to the rows
  of devices, policies, quotas and routines. A transaction that fails leaves everything alone,
  so a frame of its body is a frame of the operation, and its postcondition has to be shown
  for success only.
\<close>

section \<open>Transactions\<close>

lemma transaction_cases:
  assumes "transaction served m db = (r, db')"
  obtains (failed) e where "r = Inl e" and "db' = db"
  | (committed) a where "r = Inr a" and "m db = (Inr a, db')"
  using assms unfolding transaction_def by (auto split: if_splits prod.splits sum.splits)

lemma keeps_transaction [keeps_intros]: "keeps f m \<Longrightarrow> keeps f (transaction served m)"
  by (rule keepsI, erule transaction_cases) (auto dest: keepsD)

lemma keeps_querying [keeps_intros]: "keeps f (querying served q)"
  by (simp add: keeps_def querying_def)

lemma keeps_newID [keeps_intros]: "keeps f (newID env k)"
  unfolding newID_def by (intro keeps_intros)

lemma keeps_requires [keeps_intros]: "keeps f (requires p)"
  unfolding requires_def by (intro keeps_intros)

lemma keeps_sum [keeps_intros]:
  "(\<And>e. keeps f (g e)) \<Longrightarrow> (\<And>x. keeps f (h x)) \<Longrightarrow> keeps f (case v of Inl e \<Rightarrow> g e | Inr x \<Rightarrow> h x)"
  by (simp split: sum.split)

text \<open>\<open>commits P m Q\<close>: when \<open>m\<close> succeeds in a state with \<open>P\<close>, it ends in one with \<open>Q\<close>; whatever happens
  on failure is rolled back.\<close>

definition commits :: "(ServerDb \<Rightarrow> bool) \<Rightarrow> 'a sact \<Rightarrow> ('a \<Rightarrow> ServerDb \<Rightarrow> bool) \<Rightarrow> bool" where
  "commits P m Q \<longleftrightarrow> (\<forall>db a db'. P db \<longrightarrow> m db = (Inr a, db') \<longrightarrow> Q a db')"

lemma commitsD: "commits P m Q \<Longrightarrow> P db \<Longrightarrow> m db = (Inr a, db') \<Longrightarrow> Q a db'"
  unfolding commits_def by blast

lemma commitsI: "(\<And>db a db'. P db \<Longrightarrow> m db = (Inr a, db') \<Longrightarrow> Q a db') \<Longrightarrow> commits P m Q"
  unfolding commits_def by blast

lemma commits_andThen:
  assumes "commits P m R" and "\<And>a. commits (R a) (k a) Q"
  shows "commits P (andThen m k) Q"
  using assms by (intro commitsI) (blast elim: andThen_InrE dest: commitsD)

lemma commits_keeps:
  assumes "keeps f m" and "\<And>db db'. f db' = f db \<Longrightarrow> P db \<Longrightarrow> P db'"
  shows "commits P m (\<lambda>_. P)"
  using assms by (intro commitsI) (blast dest: keepsD)

lemma commits_transaction: "commits P m Q \<Longrightarrow> commits P (transaction served m) Q"
  by (rule commitsI, erule transaction_cases) (auto dest: commitsD)

lemma commits_throw: "commits P (throw e) Q"
  by (simp add: commits_def run_simps)

lemma commits_ret: "(\<And>db. P db \<Longrightarrow> Q a db) \<Longrightarrow> commits P (ret a) Q"
  by (simp add: commits_def run_simps)

lemma commits_modify: "(\<And>db. P db \<Longrightarrow> Q () (g db)) \<Longrightarrow> commits P (modify g) Q"
  by (simp add: commits_def run_simps)

lemma commits_reads: "(\<And>x. commits (\<lambda>db. P db \<and> x = g db) (k x) Q) \<Longrightarrow> commits P (andThen (reads g) k) Q"
  unfolding commits_def by (simp add: run_simps)

lemma commits_fails_if: "(\<not> c \<Longrightarrow> commits P m Q) \<Longrightarrow> commits P (andThen (fails_if c e) (\<lambda>_. m)) Q"
  by (auto simp: commits_def andThen_def run_simps)

lemma commits_requires:
  "commits (\<lambda>db. P db \<and> p db) m Q \<Longrightarrow> commits P (andThen (requires p) (\<lambda>_. m)) Q"
  by (auto simp: commits_def requires_def andThen_def run_simps split: if_splits)

lemma commits_weaken:
  "commits P m Q \<Longrightarrow> (\<And>db. P' db \<Longrightarrow> P db) \<Longrightarrow> (\<And>a db. Q a db \<Longrightarrow> Q' a db) \<Longrightarrow> commits P' m Q'"
  unfolding commits_def by blast

text \<open>An operation keeps an invariant when its transaction commits states that have it.\<close>

lemma preserved_transaction:
  "commits P m (\<lambda>_. P) \<Longrightarrow> P db \<Longrightarrow> P (snd (transaction served m db))"
  by (cases "transaction served m db") (auto elim!: transaction_cases dest: commitsD)

definition preserves :: "(ServerDb \<Rightarrow> bool) \<Rightarrow> 'a sact \<Rightarrow> bool" where
  "preserves P m \<longleftrightarrow> (\<forall>db. P db \<longrightarrow> P (snd (m db)))"

named_theorems preserves_intros \<open>operations that keep an invariant\<close>

lemma preservesD: "preserves P m \<Longrightarrow> P db \<Longrightarrow> m db = (r, db') \<Longrightarrow> P db'"
  unfolding preserves_def by (metis snd_conv)

lemma preserves_keeps: "keeps f m \<Longrightarrow> (\<And>db db'. f db' = f db \<Longrightarrow> P db \<Longrightarrow> P db') \<Longrightarrow> preserves P m"
  unfolding preserves_def keeps_def by blast

lemma preserves_transaction: "commits P m (\<lambda>_. P) \<Longrightarrow> preserves P (transaction served m)"
  unfolding preserves_def using preserved_transaction by blast

lemma preserves_andThen:
  assumes "preserves P m" and "\<And>a. preserves P (k a)"
  shows "preserves P (andThen m k)"
  unfolding preserves_def
proof (intro allI impI)
  fix db assume "P db"
  obtain r db' where run: "andThen m k db = (r, db')" by fastforce
  then show "P (snd (andThen m k db))"
    by (cases rule: andThen_cases) (use \<open>P db\<close> run assms in \<open>auto dest: preservesD\<close>)
qed

lemma preserves_fails_if: "(\<not> c \<Longrightarrow> preserves P m) \<Longrightarrow> preserves P (andThen (fails_if c e) (\<lambda>_. m))"
  by (auto simp: preserves_def andThen_def run_simps)

section \<open>Views and what keeps them\<close>

text \<open>The part of the database that policies are made of.\<close>

definition device_revisions :: "ServerDb \<Rightarrow> (string \<times> int) list" where
  "device_revisions db = map (\<lambda>d. (dv_id d, dv_policy_revision d)) (sd_device db)"

definition policy_view :: "ServerDb \<Rightarrow> _" where
  "policy_view db = (device_revisions db, sd_policy db, sd_quota db, sd_routine db, sd_day db)"

lemma device_revisions_update:
  assumes "\<And>d. dv_id (f d) = dv_id d" and "\<And>d. dv_policy_revision (f d) = dv_policy_revision d"
  shows "device_revisions (update_device deviceID f db) = device_revisions db"
  by (simp add: device_revisions_def update_device_def tbl_update_def assms)

lemma update_device_other [simp]:
  "sd_policy (update_device i f db) = sd_policy db" "sd_quota (update_device i f db) = sd_quota db"
  "sd_routine (update_device i f db) = sd_routine db" "sd_day (update_device i f db) = sd_day db"
  by (simp_all add: update_device_def)

lemma delete_activities_other [simp]:
  "sd_device (delete_activities p db) = sd_device db" "sd_policy (delete_activities p db) = sd_policy db"
  "sd_quota (delete_activities p db) = sd_quota db" "sd_routine (delete_activities p db) = sd_routine db"
  "sd_day (delete_activities p db) = sd_day db" "sd_control (delete_activities p db) = sd_control db"
  "sd_usage (delete_activities p db) = sd_usage db" "sd_bonus (delete_activities p db) = sd_bonus db"
  "sd_command (delete_activities p db) = sd_command db"
  by (simp_all add: delete_activities_def Let_def)

text \<open>The history and the audit are on tables of their own.\<close>

definition business_view :: "ServerDb \<Rightarrow> _" where
  "business_view db = (sd_device db, sd_policy db, sd_quota db, sd_routine db, sd_day db, sd_control db,
     sd_usage db, sd_bonus db, sd_command db)"

lemma business_viewD:
  "business_view db' = business_view db \<Longrightarrow> sd_device db' = sd_device db \<and> sd_policy db' = sd_policy db
     \<and> sd_quota db' = sd_quota db \<and> sd_routine db' = sd_routine db \<and> sd_day db' = sd_day db
     \<and> sd_control db' = sd_control db \<and> sd_usage db' = sd_usage db \<and> sd_bonus db' = sd_bonus db
     \<and> sd_command db' = sd_command db"
  by (simp add: business_view_def)

lemma keeps_step [keeps_intros]: "keeps business_view (upsertActivityStep aid kind actor now details repeated)"
  unfolding upsertActivityStep_def
  by (intro keeps_intros keeps_modify) (simp add: business_view_def)

lemma keeps_insert_or_ignore [keeps_intros]: "keeps business_view (insert_or_ignore_activity a)"
  unfolding insert_or_ignore_activity_def
  by (intro keeps_intros keeps_modify) (simp add: business_view_def)

lemma keeps_admin_activity [keeps_intros]: "keeps business_view (insertAdminActivity aid d kind details now)"
  unfolding insertAdminActivity_def
  by (intro keeps_intros keeps_modify) (simp add: business_view_def)

lemma keeps_completed_activity [keeps_intros]:
  "keeps business_view (insertCompletedAdminActivity loc aid d kind details now)"
  unfolding insertCompletedAdminActivity_def by (intro keeps_intros)

lemma keeps_local_activity [keeps_intros]:
  "keeps business_view (insertLocalBonusActivity loc e d seconds date t now)"
  unfolding insertLocalBonusActivity_def by (intro keeps_intros)

lemma keeps_cleanup [keeps_intros]: "keeps business_view (cleanupExpiredCompletedActivitiesIfDue now)"
  unfolding keeps_def cleanupExpiredCompletedActivitiesIfDue_def
  by (simp add: business_view_def split: option.split)

lemma keeps_audit [keeps_intros]: "keeps business_view (insertAudit env k d kind payload now)"
  unfolding insertAudit_def by (intro keeps_intros keeps_modify) (simp add: business_view_def)

lemma keeps_finer: "keeps f m \<Longrightarrow> (\<And>db db'. f db' = f db \<Longrightarrow> g db' = g db) \<Longrightarrow> keeps g m"
  unfolding keeps_def by blast

lemma policy_of_business: "business_view db' = business_view db \<Longrightarrow> policy_view db' = policy_view db"
  by (simp add: business_view_def policy_view_def device_revisions_def)

text \<open>Credentials and the visibility of the history are apart from the rest.\<close>

definition core_view :: "ServerDb \<Rightarrow> _" where
  "core_view db = (device_revisions db, sd_policy db, sd_quota db, sd_routine db, sd_day db, sd_control db,
     sd_usage db, sd_bonus db, sd_command db)"

lemma core_of_business: "business_view db' = business_view db \<Longrightarrow> core_view db' = core_view db"
  by (simp add: business_view_def core_view_def device_revisions_def)

lemma keeps_core_credentials:
  "keeps core_view (IssueDeviceToken env sha256 secret d now)"
  "keeps core_view (RevokeDeviceToken env d now)"
  "keeps core_view (DeleteCompletedDeviceActivities served d now)"
proof -
  have change: "keeps core_view (change_device d f)"
    if "\<And>x. dv_id (f x) = dv_id x" "\<And>x. dv_policy_revision (f x) = dv_policy_revision x" for f
    unfolding change_device_def
    by (intro keeps_intros keeps_modify) (simp add: core_view_def device_revisions_update that, simp add: update_device_def)
  note audit = keeps_finer [OF keeps_audit core_of_business]
  show "keeps core_view (IssueDeviceToken env sha256 secret d now)"
    unfolding IssueDeviceToken_def by (intro keeps_intros change audit) simp_all
  show "keeps core_view (RevokeDeviceToken env d now)"
    unfolding RevokeDeviceToken_def by (intro keeps_intros change audit) simp_all
  show "keeps core_view (DeleteCompletedDeviceActivities served d now)"
    unfolding DeleteCompletedDeviceActivities_def
    by (intro keeps_intros keeps_modify) (simp add: core_view_def hide_completed_def device_revisions_def)
qed

end
