(* ===== verification/ServerPolicies.thy ===== *)
theory ServerPolicies
  imports ServerFacts
begin

text \<open>
  Policies in every run of the server: the revision of a policy and the copy in its device's row
  agree, quotas and warnings are in range, and no two routines of a device overlap.
\<close>

section \<open>Runs\<close>

definition clock_ok :: "time \<Rightarrow> bool" where
  "clock_ok now \<longleftrightarrow> \<not> is_zero now \<and> printable_day (now div day)"

text \<open>Random identifiers do not repeat; the schema rejects a repeated one everywhere but in the
  upsert of a routine.\<close>

definition fresh_routine :: "ServerEnv \<Rightarrow> server_routine \<Rightarrow> ServerDb \<Rightarrow> bool" where
  "fresh_routine env r db \<longleftrightarrow> (vr_ID r = [] \<longrightarrow>
     (\<forall>bytes. sv_random env 0 = Some bytes \<longrightarrow> \<not> tbl_has rw_id (randomID bytes) (sd_routine db)))"

inductive server_step :: "ServerDb \<Rightarrow> ServerDb \<Rightarrow> bool" where
  bootstrap: "BootstrapAdmin env login hash now db = (r, db') \<Longrightarrow> server_step db db'"
| create_device: "clock_ok now \<Longrightarrow> CreateDeviceWithAvatar env name avatar now db = (r, db') \<Longrightarrow> server_step db db'"
| rename_device: "RenameDevice env d name now db = (r, db') \<Longrightarrow> server_step db db'"
| update_identity: "UpdateDeviceIdentity env d name avatar now db = (r, db') \<Longrightarrow> server_step db db'"
| delete_device: "DeleteDevice served d db = (r, db') \<Longrightarrow> server_step db db'"
| save_quotas: "clock_ok now \<Longrightarrow> SaveQuotas env d quotas warning now db = (r, db') \<Longrightarrow> server_step db db'"
| set_password: "clock_ok now \<Longrightarrow> SetLocalPassword env d verifier now db = (r, db') \<Longrightarrow> server_step db db'"
| save_routine: "clock_ok now \<Longrightarrow> fresh_routine env routine' db \<Longrightarrow>
    SaveRoutine env d routine' now db = (r, db') \<Longrightarrow> server_step db db'"
| delete_routine: "clock_ok now \<Longrightarrow> DeleteRoutine env d rid now db = (r, db') \<Longrightarrow> server_step db db'"
| queue_control: "clock_ok now \<Longrightarrow> QueueControlOperation env d kind now db = (r, db') \<Longrightarrow> server_step db db'"
| queue_bonus: "clock_ok now \<Longrightarrow> QueueRemoteBonus env d seconds now db = (r, db') \<Longrightarrow> server_step db db'"
| heartbeat: "clock_ok now \<Longrightarrow> ReceiveHeartbeat loc phases d request now db = (r, db') \<Longrightarrow> server_step db db'"
| issue_token: "IssueDeviceToken env sha256 secret d now db = (r, db') \<Longrightarrow> server_step db db'"
| revoke_token: "RevokeDeviceToken env d now db = (r, db') \<Longrightarrow> server_step db db'"
| hide_history: "DeleteCompletedDeviceActivities served d now db = (r, db') \<Longrightarrow> server_step db db'"
| cleanup: "CleanupExpiredCompletedActivities served now db = (r, db') \<Longrightarrow> server_step db db'"

inductive server_reachable :: "ServerDb \<Rightarrow> bool" where
  start: "server_reachable empty_server"
| step: "server_reachable db \<Longrightarrow> server_step db db' \<Longrightarrow> server_reachable db'"

section \<open>Operations that leave policies alone\<close>

lemma keeps_change_device:
  "(\<And>d. dv_id (f d) = dv_id d) \<Longrightarrow> (\<And>d. dv_policy_revision (f d) = dv_policy_revision d) \<Longrightarrow>
     keeps policy_view (change_device deviceID f)"
  unfolding change_device_def
  by (intro keeps_intros keeps_modify) (simp add: policy_view_def device_revisions_update)

lemma keeps_policy_audit [keeps_intros]: "keeps policy_view (insertAudit env k d kind payload now)"
  by (rule keeps_finer [OF keeps_audit policy_of_business])

lemma keeps_policy_admin_activity [keeps_intros]: "keeps policy_view (insertAdminActivity aid d kind details now)"
  by (rule keeps_finer [OF keeps_admin_activity policy_of_business])

lemma keeps_policy_step [keeps_intros]: "keeps policy_view (upsertActivityStep aid kind actor now details repeated)"
  by (rule keeps_finer [OF keeps_step policy_of_business])

lemma keeps_policy_bonus_row [keeps_intros]: "keeps policy_view (insert_bonus_row b)"
  unfolding insert_bonus_row_def
  by (intro keeps_intros keeps_modify) (simp add: policy_view_def device_revisions_def)

lemma keeps_policy_credits [keeps_intros]: "keeps policy_view (apply_credits d date credits)"
  by (induction credits) (auto intro!: keeps_intros)

lemma keeps_policy_pending [keeps_intros]: "keeps policy_view (applyPendingRemoteBonuses d date)"
  unfolding applyPendingRemoteBonuses_def by (intro keeps_intros)

lemma keeps_policy_event [keeps_intros]: "keeps policy_view (receiveEvent loc d e now)"
  unfolding receiveEvent_def
  by (intro keeps_intros keeps_modify keeps_finer [OF keeps_local_activity policy_of_business])
    (simp_all add: policy_view_def device_revisions_def)

lemma keeps_policy_events [keeps_intros]: "keeps policy_view (receive_events loc d now es)"
  by (induction es) (auto intro!: keeps_intros)

lemma keeps_policy_acknowledge [keeps_intros]: "keeps policy_view (acknowledge_command loc d now c)"
  unfolding acknowledge_command_def
  by (intro keeps_intros keeps_modify) (simp_all add: policy_view_def device_revisions_def)

lemma keeps_policy_acknowledges [keeps_intros]: "keeps policy_view (acknowledge_commands loc d now cs)"
  by (induction cs) (auto intro!: keeps_intros)

lemma device_revisions_usage: "device_revisions (report_usage d request now db) = device_revisions db"
  by (simp add: device_revisions_def report_usage_def)

lemma keeps_policy_report [keeps_intros]: "keeps policy_view (receive_report loc d request now)"
  unfolding receive_report_def Let_def
  by (intro keeps_intros keeps_modify keeps_finer [OF keeps_cleanup policy_of_business])
    (simp_all add: policy_view_def device_revisions_update device_revisions_usage report_device_def,
     simp add: report_usage_def)

lemma keeps_policy_offer [keeps_intros]: "keeps policy_view (offer_command d now c)"
  unfolding offer_command_def
  by (intro keeps_intros keeps_modify) (simp_all add: policy_view_def device_revisions_def)

lemma keeps_policy_offers [keeps_intros]: "keeps policy_view (offer_commands d now cs)"
  by (induction cs) (auto intro!: keeps_intros)

lemma keeps_policy_heartbeat [keeps_intros]: "keeps policy_view (ReceiveHeartbeat loc phases d request now)"
  unfolding ReceiveHeartbeat_def pendingCommands_def by (intro keeps_intros)

lemma keeps_policy_control [keeps_intros]: "keeps policy_view (QueueControlOperation env d kind now)"
  unfolding QueueControlOperation_def change_control_def insert_command_def
  by (intro keeps_intros keeps_modify)
    (simp_all add: policy_view_def device_revisions_def discard_pending_controls_def Let_def)

lemma keeps_policy_bootstrap [keeps_intros]: "keeps policy_view (BootstrapAdmin env login hash now)"
  unfolding BootstrapAdmin_def
  by (intro keeps_intros keeps_modify) (simp add: policy_view_def device_revisions_def)

lemma keeps_policy_cleanup [keeps_intros]: "keeps policy_view (CleanupExpiredCompletedActivities served now)"
  unfolding CleanupExpiredCompletedActivities_def
  by (intro keeps_intros keeps_finer [OF keeps_cleanup policy_of_business])

lemma keeps_policy_rename [keeps_intros]: "keeps policy_view (RenameDevice env d name now)"
  unfolding RenameDevice_def by (intro keeps_intros keeps_change_device) simp_all

lemma keeps_policy_identity [keeps_intros]: "keeps policy_view (UpdateDeviceIdentity env d name avatar now)"
  unfolding UpdateDeviceIdentity_def by (intro keeps_intros keeps_change_device) simp_all

section \<open>The invariant\<close>

definition revisions_agree :: "ServerDb \<Rightarrow> bool" where
  "revisions_agree db \<longleftrightarrow> device_revisions db = map (\<lambda>p. (pw_device p, pw_revision p)) (sd_policy db)
     \<and> tbl_keyed pw_device (sd_policy db)"

definition policy_rows_ok :: "ServerDb \<Rightarrow> bool" where
  "policy_rows_ok db \<longleftrightarrow>
     (\<forall>p\<in>set (sd_policy db). 1 \<le> pw_revision p \<and> 0 \<le> pw_warning p \<and> pw_warning p \<le> 120 \<and> \<not> is_zero (pw_updated p))
     \<and> (\<forall>q\<in>set (sd_quota db). 0 \<le> qw_seconds q \<and> qw_seconds q \<le> 86400)"

definition routine_row_ok :: "DeviceRoutineRow \<Rightarrow> bool" where
  "routine_row_ok r \<longleftrightarrow> rw_id r \<noteq> [] \<and> name_ok (rw_name r)
     \<and> 0 \<le> rw_start r \<and> rw_start r < 86400 \<and> 0 \<le> rw_end r \<and> rw_end r < 86400"

definition no_overlap :: "ServerDb \<Rightarrow> bool" where
  "no_overlap db \<longleftrightarrow> (\<forall>r1\<in>set (sd_routine db). \<forall>r2\<in>set (sd_routine db).
     rw_device r1 = rw_device r2 \<and> rw_id r1 \<noteq> rw_id r2 \<longrightarrow>
       \<not> routinesOverlap (stored_routine db r1) (stored_routine db r2))"

definition routines_ok :: "ServerDb \<Rightarrow> bool" where
  "routines_ok db \<longleftrightarrow> tbl_keyed rw_id (sd_routine db) \<and> (\<forall>r\<in>set (sd_routine db). routine_row_ok r) \<and> no_overlap db"

definition policies_ok :: "ServerDb \<Rightarrow> bool" where
  "policies_ok db \<longleftrightarrow> revisions_agree db \<and> policy_rows_ok db \<and> routines_ok db"

lemmas policies_ok_defs = policies_ok_def revisions_agree_def policy_rows_ok_def routines_ok_def no_overlap_def
  stored_routine_def

lemma policies_ok_view: "policy_view db' = policy_view db \<Longrightarrow> policies_ok db \<Longrightarrow> policies_ok db'"
  by (simp add: policy_view_def policies_ok_defs)

lemmas preserves_view = preserves_keeps [OF _ policies_ok_view]

lemma policies_ok_empty: "policies_ok empty_server"
  by (simp add: policies_ok_defs empty_server_def device_revisions_def)

subsection \<open>Raising the revision\<close>

lemma bump_rows_revisions:
  assumes "\<And>p. pw_device (f p) = pw_device p" and "\<And>p. pw_revision (f p) = pw_revision p"
    and "device_revisions db = map (\<lambda>p. (pw_device p, pw_revision p)) (sd_policy db)"
  shows "device_revisions (bump_rows deviceID f now db)
      = map (\<lambda>p. (pw_device p, pw_revision p)) (sd_policy (bump_rows deviceID f now db))"
proof -
  have "map (\<lambda>(i, n). (i, if i = deviceID then n + 1 else n)) (device_revisions db)
      = map (\<lambda>(i, n). (i, if i = deviceID then n + 1 else n)) (map (\<lambda>p. (pw_device p, pw_revision p)) (sd_policy db))"
    using assms(3) by simp
  then show "device_revisions (bump_rows deviceID f now db)
      = map (\<lambda>p. (pw_device p, pw_revision p)) (sd_policy (bump_rows deviceID f now db))"
    by (simp add: device_revisions_def bump_rows_def update_device_def tbl_update_def comp_def split_def
        if_distrib assms(1,2) cong: if_cong)
qed

lemma policies_ok_bump:
  assumes "policies_ok db" and "\<not> is_zero now"
    and "\<And>p. pw_device (f p) = pw_device p \<and> pw_revision (f p) = pw_revision p \<and> pw_updated (f p) = pw_updated p"
    and "\<And>p. 0 \<le> pw_warning p \<Longrightarrow> pw_warning p \<le> 120 \<Longrightarrow> 0 \<le> pw_warning (f p) \<and> pw_warning (f p) \<le> 120"
  shows "policies_ok (bump_rows deviceID f now db)"
proof -
  let ?db = "bump_rows deviceID f now db"
  have "revisions_agree ?db"
    using assms(1) bump_rows_revisions [of f db deviceID now] assms(3)
    by (auto simp: policies_ok_def revisions_agree_def bump_rows_def update_device_def intro!: tbl_keyed_update)
  moreover have "policy_rows_ok ?db"
    using assms by (auto simp: policies_ok_def policy_rows_ok_def bump_rows_def dest!: set_tbl_updateD)
  moreover have "routines_ok ?db"
    using assms(1) by (simp add: policies_ok_defs bump_rows_def)
  ultimately show ?thesis by (simp add: policies_ok_def)
qed

lemma commits_bumpPolicy:
  assumes "\<not> is_zero now" and "0 \<le> warning" and "warning \<le> 120"
  shows "commits policies_ok (bumpPolicy d warning now) (\<lambda>_. policies_ok)"
proof (rule commitsI)
  fix db n db' assume "policies_ok db" and "bumpPolicy d warning now db = (Inr n, db')"
  then show "policies_ok db'"
    using assms policies_ok_bump [of db now "\<lambda>p. p\<lparr>pw_warning := warning\<rparr>" d]
    by (auto simp: bumpPolicy_def run_simps split: option.splits)
qed

lemma commits_bumpPolicyKeepWarning:
  assumes "\<not> is_zero now"
  shows "commits policies_ok (bumpPolicyKeepWarning d now) (\<lambda>_. policies_ok)"
proof (rule commitsI)
  fix db n db' assume ok: "policies_ok db" and run: "bumpPolicyKeepWarning d now db = (Inr n, db')"
  from run obtain p where p: "tbl_find pw_device d (sd_policy db) = Some p"
    and bump: "bumpPolicy d (pw_warning p) now db = (Inr n, db')"
    by (auto simp: bumpPolicyKeepWarning_def run_simps split: option.splits)
  from tbl_find_SomeD [OF p] ok have "0 \<le> pw_warning p \<and> pw_warning p \<le> 120"
    by (auto simp: policies_ok_def policy_rows_ok_def)
  with commitsD [OF commits_bumpPolicy [OF assms] ok bump] show "policies_ok db'" by simp
qed

lemma commits_audit: "commits policies_ok (insertAudit env k d kind payload now) (\<lambda>_. policies_ok)"
  by (rule commits_keeps [OF keeps_policy_audit policies_ok_view])

subsection \<open>Devices\<close>

lemma insert_device_Inr:
  assumes "insert_device d name avatar now db = (Inr u, db')"
  shows "\<not> tbl_has pw_device d (sd_policy db)"
    and "device_revisions db' = device_revisions db @ [(d, 1)]"
    and "\<exists>p. sd_policy db' = sd_policy db @ [p] \<and> pw_device p = d \<and> pw_revision p = 1 \<and> pw_warning p = 10
      \<and> pw_updated p = now"
    and "sd_quota db' = sd_quota db @ map (\<lambda>wd. \<lparr>qw_device = d, qw_weekday = wd, qw_seconds = 0\<rparr>) weekdays"
    and "sd_routine db' = sd_routine db" and "sd_day db' = sd_day db"
  using assms
  by (auto simp: insert_device_def requires_def andThen_def run_simps device_revisions_def new_device_def
      split: if_splits)

lemma policies_ok_insert_device:
  assumes "insert_device d name avatar now db = (Inr u, db')" and "policies_ok db" and "\<not> is_zero now"
  shows "policies_ok db'"
proof -
  from insert_device_Inr(3) [OF assms(1)] obtain p where p: "sd_policy db' = sd_policy db @ [p]"
    "pw_device p = d" "pw_revision p = 1" "pw_warning p = 10" "pw_updated p = now" by blast
  note rows = insert_device_Inr(1,2,4-6) [OF assms(1)] p
  have "revisions_agree db'"
    using assms(2) rows by (auto simp: policies_ok_def revisions_agree_def tbl_keyed_def table_simps)
  moreover have "policy_rows_ok db'"
    using assms(2,3) rows by (auto simp: policies_ok_def policy_rows_ok_def)
  moreover have "routines_ok db'" using assms(2) rows by (simp add: policies_ok_defs)
  ultimately show ?thesis by (simp add: policies_ok_def)
qed

lemma preserves_create:
  assumes "\<not> is_zero now"
  shows "preserves policies_ok (CreateDeviceWithAvatar env name avatar now)"
proof -
  have "commits policies_ok (insert_device d n a now) (\<lambda>_. policies_ok)" for d n a
    by (rule commitsI) (use assms policies_ok_insert_device in blast)
  then have body: "commits policies_ok (andThen (insert_device d n a now) (\<lambda>_.
      andThen (insertAudit env 1 d ''device_created'' payload now) (\<lambda>_. ret x))) (\<lambda>_. policies_ok)"
    for d n a payload x
    by (intro commits_andThen [OF _ commits_andThen [OF commits_audit commits_ret]])
  show ?thesis
    unfolding CreateDeviceWithAvatar_def Let_def
    by (intro preserves_andThen [OF preserves_view [OF keeps_elementary(6)]]
        preserves_andThen [OF preserves_view [OF keeps_newID]] preserves_transaction body)
qed

lemma stored_routine_days:
  "(\<And>wd. (rw_id r, wd) \<in> set (sd_day db') \<longleftrightarrow> (rw_id r, wd) \<in> set (sd_day db)) \<Longrightarrow>
     stored_routine db' r = stored_routine db r"
  by (simp add: stored_routine_def)

lemma tbl_keyed_sub: "tbl_keyed key t \<Longrightarrow> x \<in> set t \<Longrightarrow> y \<in> set t \<Longrightarrow> key x = key y \<Longrightarrow> x = y"
  by (simp add: tbl_keyed_def distinct_map inj_on_def)

lemma policies_ok_delete_device: "policies_ok db \<Longrightarrow> policies_ok (delete_device d db)"
proof -
  assume ok: "policies_ok db"
  let ?db = "delete_device d db"
  have routines: "sd_routine ?db = tbl_delete (\<lambda>r. rw_device r = d) (sd_routine db)"
    and days: "sd_day ?db = tbl_delete (\<lambda>x. fst x \<in> rw_id ` set (routines_of d db)) (sd_day db)"
    by (simp_all add: delete_device_def Let_def)
  have "filter (\<lambda>x. fst x \<noteq> d) (device_revisions db) =
      filter (\<lambda>x. fst x \<noteq> d) (map (\<lambda>p. (pw_device p, pw_revision p)) (sd_policy db))"
    using ok by (simp add: policies_ok_def revisions_agree_def)
  then have "revisions_agree ?db"
    using ok by (simp add: policies_ok_def revisions_agree_def delete_device_def Let_def device_revisions_def
        tbl_delete_def filter_map comp_def)
      (simp add: tbl_delete_def [symmetric])
  moreover have "policy_rows_ok ?db"
    using ok by (auto simp: policies_ok_def policy_rows_ok_def delete_device_def Let_def table_simps)
  moreover have "stored_routine ?db r = stored_routine db r" if "r \<in> set (sd_routine ?db)" for r
  proof (rule stored_routine_days)
    fix wd
    have "rw_id r \<notin> rw_id ` set (routines_of d db)"
      using that ok by (auto simp: routines table_simps routines_of_def policies_ok_def routines_ok_def
          dest: tbl_keyed_sub)
    then show "(rw_id r, wd) \<in> set (sd_day ?db) \<longleftrightarrow> (rw_id r, wd) \<in> set (sd_day db)"
      by (auto simp: days table_simps)
  qed
  then have "routines_ok ?db"
    using ok by (auto simp: routines_ok_def policies_ok_def no_overlap_def routines table_simps)
  ultimately show ?thesis by (simp add: policies_ok_def)
qed

lemma preserves_delete: "preserves policies_ok (DeleteDevice served d)"
  unfolding DeleteDevice_def
  by (intro preserves_transaction commits_reads commits_fails_if commits_modify)
    (simp add: policies_ok_delete_device)

subsection \<open>Quotas, passwords and routines\<close>

lemma policies_ok_quotas:
  "policies_ok db \<Longrightarrow> (\<And>wd. 0 \<le> quotas wd \<and> quotas wd \<le> 86400) \<Longrightarrow> policies_ok (set_quotas d quotas db)"
  by (auto simp: policies_ok_defs set_quotas_def device_revisions_def dest!: set_tbl_updateD)

lemma preserves_quotas:
  assumes "\<not> is_zero now"
  shows "preserves policies_ok (SaveQuotas env d quotas warning now)"
  unfolding SaveQuotas_def
proof (intro preserves_fails_if preserves_transaction)
  assume q: "\<not> list_ex (\<lambda>wd. quotas wd < 0 \<or> 24 * 60 * 60 < quotas wd) weekdays"
    and w: "\<not> (warning < 0 \<or> 120 < warning)"
  from q have "0 \<le> quotas wd \<and> quotas wd \<le> 86400" for wd by (auto simp: list_ex_iff not_less)
  then have "commits policies_ok (modify (set_quotas d quotas)) (\<lambda>_. policies_ok)"
    by (intro commits_modify policies_ok_quotas) auto
  then show "commits policies_ok (andThen (modify (set_quotas d quotas)) (\<lambda>_. andThen (bumpPolicy d warning now)
      (\<lambda>revision. insertAudit env 0 d ''quotas_updated'' (JObject [(''revision'', JNumber (show_int revision)),
        (''warning_minutes'', JNumber (show_int warning)), (''weekly_seconds'', quotas_json quotas)]) now)))
      (\<lambda>_. policies_ok)" 
    using assms w by (intro commits_andThen [where R = "\<lambda>_. policies_ok"] commits_bumpPolicy commits_audit) auto
qed

lemma preserves_password:
  assumes "\<not> is_zero now"
  shows "preserves policies_ok (SetLocalPassword env d verifier now)"
  unfolding SetLocalPassword_def
  by (intro preserves_fails_if preserves_transaction
      commits_reads commits_fails_if commits_andThen [OF commits_modify commits_audit])
    (auto intro: policies_ok_bump [OF _ assms])

interpretation routine_rows: keyed_table rw_id "\<lambda>old new. if rw_device old = rw_device new then new else old"
  by unfold_locales simp

text \<open>A written routine reads back, the others are not touched.\<close>

lemma set_write_routine:
  assumes "tbl_keyed rw_id (sd_routine db)" and "\<forall>x\<in>set (sd_routine db). rw_id x = vr_ID r \<longrightarrow> rw_device x = d"
  shows "set (sd_routine (write_routine d r db)) = insert \<lparr>rw_id = vr_ID r, rw_device = d, rw_name = vr_Name r,
      rw_icon = vr_IconKey r, rw_start = vr_Start r, rw_end = vr_End r, rw_enabled = vr_Enabled r\<rparr>
      {x \<in> set (sd_routine db). rw_id x \<noteq> vr_ID r}"
  using assms by (auto simp: write_routine_def tbl_upsert_def table_simps image_iff)

lemma keyed_write_routine:
  "tbl_keyed rw_id (sd_routine db) \<Longrightarrow> tbl_keyed rw_id (sd_routine (write_routine d r db))"
  by (simp add: write_routine_def routine_rows.keyed_upsert)

lemma stored_written:
  "stored_routine (write_routine d r db) \<lparr>rw_id = vr_ID r, rw_device = d, rw_name = vr_Name r,
      rw_icon = vr_IconKey r, rw_start = vr_Start r, rw_end = vr_End r, rw_enabled = vr_Enabled r\<rparr> = r"
  "rw_id x \<noteq> vr_ID r \<Longrightarrow> stored_routine (write_routine d r db) x = stored_routine db x"
  by (cases r) (auto simp: stored_routine_def write_routine_def table_simps image_iff)

lemma conflicting_None:
  "conflicting r (loadRoutines d db) = None \<longleftrightarrow>
     (\<forall>x\<in>set (sd_routine db). rw_device x = d \<and> rw_id x \<noteq> vr_ID r \<longrightarrow> \<not> routinesOverlap r (stored_routine db x))"
  by (auto simp: conflicting_def find_None_iff loadRoutines_def routines_of_def stored_routine_def)

lemma policies_ok_write_routine:
  assumes ok: "policies_ok db" and "\<forall>x\<in>set (sd_routine db). rw_id x = vr_ID r \<longrightarrow> rw_device x = d"
    and "conflicting r (loadRoutines d db) = None" and "second_in_day r" and "name_ok (vr_Name r)"
    and "vr_ID r \<noteq> []"
  shows "policies_ok (write_routine d r db)"
proof -
  let ?db = "write_routine d r db"
  define new where "new = \<lparr>rw_id = vr_ID r, rw_device = d, rw_name = vr_Name r,
      rw_icon = vr_IconKey r, rw_start = vr_Start r, rw_end = vr_End r, rw_enabled = vr_Enabled r\<rparr>"
  have keyed: "tbl_keyed rw_id (sd_routine db)" using ok by (simp add: policies_ok_def routines_ok_def)
  have rows: "set (sd_routine ?db) = insert new {x \<in> set (sd_routine db). rw_id x \<noteq> vr_ID r}"
    using set_write_routine [OF keyed assms(2)] by (simp add: new_def)
  have new: "stored_routine ?db new = r" "rw_id new = vr_ID r" "rw_device new = d"
    by (simp_all add: new_def stored_written)
  have old: "no_overlap db" using ok by (simp add: policies_ok_def routines_ok_def)
  have apart: "\<not> routinesOverlap r (stored_routine ?db x)"
    if "x \<in> set (sd_routine db)" "rw_id x \<noteq> vr_ID r" "rw_device x = d" for x
    using assms(3) that unfolding conflicting_None by (simp add: stored_written(2))
  have "no_overlap ?db"
    unfolding no_overlap_def
  proof (intro ballI impI)
    fix r1 r2 assume r1: "r1 \<in> set (sd_routine ?db)" and r2: "r2 \<in> set (sd_routine ?db)"
      and same: "rw_device r1 = rw_device r2 \<and> rw_id r1 \<noteq> rw_id r2"
    consider "r1 = new" | "r2 = new" | "r1 \<noteq> new" "r2 \<noteq> new" by blast
    then show "\<not> routinesOverlap (stored_routine ?db r1) (stored_routine ?db r2)"
    proof cases
      case 1
      then show ?thesis using apart [of r2] r2 same new rows by auto
    next
      case 2
      then show ?thesis using apart [of r1] r1 same new rows routinesOverlap_sym [of r] by auto
    next
      case 3
      then show ?thesis using r1 r2 same old rows by (auto simp: no_overlap_def stored_written(2))
    qed
  qed
  moreover have "routine_row_ok new"
    using assms(4-6) by (simp add: routine_row_ok_def new_def second_in_day_def)
  ultimately have "routines_ok ?db"
    using ok keyed_write_routine [OF keyed] by (auto simp: routines_ok_def policies_ok_def rows)
  moreover have "revisions_agree ?db" "policy_rows_ok ?db"
    using ok by (auto simp: policies_ok_def revisions_agree_def policy_rows_ok_def write_routine_def device_revisions_def)
  ultimately show ?thesis by (simp add: policies_ok_def)
qed

lemma choose_icon_Inr:
  assumes "choose_icon isNew d r db = (Inr r', db')"
  shows "db' = db \<and> (\<exists>icon. r' = r\<lparr>vr_IconKey := icon\<rparr>
    \<and> (\<not> isNew \<longrightarrow> (\<exists>x\<in>set (sd_routine db). rw_id x = vr_ID r \<and> rw_device x = d)))"
proof -
  have "\<exists>icon. r = r\<lparr>vr_IconKey := icon\<rparr>" by (rule exI [of _ "vr_IconKey r"]) simp
  with assms show ?thesis
    by (auto simp: choose_icon_def run_simps find_Some_iff split: if_splits option.splits)
qed

lemma routinesOverlap_icon: "routinesOverlap (r\<lparr>vr_IconKey := icon\<rparr>) = routinesOverlap r"
proof -
  have "intervals_of_day (r\<lparr>vr_IconKey := icon\<rparr>) = intervals_of_day r"
    by (rule ext) (simp add: intervals_of_day_def Let_def)
  then show ?thesis by (intro ext) (simp add: routinesOverlap_def routineIntervals_def)
qed

lemma store_routine_body:
  assumes "\<not> is_zero now" and "second_in_day r0" and "name_ok (vr_Name r0)" and "vr_ID r0 \<noteq> []"
    and free: "isNew \<longrightarrow> \<not> tbl_has rw_id (vr_ID r0) (sd_routine db)" and ok: "policies_ok db"
    and run: "store_routine env isNew d r0 now db = (r, db')"
  shows "policies_ok db'"
  using run [unfolded store_routine_def]
proof (cases rule: transaction_cases)
  case (failed e)
  with ok show ?thesis by simp
next
  case (committed a)
  from committed(2) obtain r1 db1 where icon: "choose_icon isNew d r0 db = (Inr r1, db1)"
    and none: "conflicting r1 (loadRoutines d db1) = None"
    and rest: "commit_routine env isNew d r1 now db1 = (Inr a, db')"
    by (elim andThen_InrE) (auto simp: run_simps split: option.splits)
  from choose_icon_Inr [OF icon] obtain ic where r1: "r1 = r0\<lparr>vr_IconKey := ic\<rparr>" and db1: "db1 = db"
    and old: "\<not> isNew \<longrightarrow> (\<exists>x\<in>set (sd_routine db). rw_id x = vr_ID r0 \<and> rw_device x = d)" by blast
  have owner: "\<forall>x\<in>set (sd_routine db). rw_id x = vr_ID r1 \<longrightarrow> rw_device x = d"
    using free old ok by (auto simp: r1 tbl_has_def list_ex_iff policies_ok_def routines_ok_def dest: tbl_keyed_sub)
  have "policies_ok (write_routine d r1 db)"
    using assms(2-4) none
    by (intro policies_ok_write_routine [OF ok owner]) (simp_all add: r1 db1 second_in_day_def)
  then have written: "policies_ok (write_routine d r1 db1)" by (simp add: db1)
  from rest obtain n db2 u k payload where bump: "bumpPolicyKeepWarning d now (write_routine d r1 db1) = (Inr n, db2)"
    and audit: "insertAudit env 1 d k payload now db2 = (Inr u, db')"
    by (auto simp: commit_routine_def requires_def run_simps elim!: andThen_InrE split: if_splits)
  from commitsD [OF commits_bumpPolicyKeepWarning [OF assms(1)] written bump]
  show ?thesis by (rule commitsD [OF commits_audit _ audit])
qed

lemma randomID_nonempty: "randomID bytes \<noteq> []"
  by (simp add: randomID_def Let_def)

lemma save_routine_ok:
  assumes "SaveRoutine env d r0 now db = (r, db')" and "policies_ok db" and "\<not> is_zero now"
    and "fresh_routine env r0 db"
  shows "policies_ok db'"
proof -
  let ?r = "r0\<lparr>vr_Name := TrimSpace (vr_Name r0)\<rparr>"
  show ?thesis
  proof (cases "routine_error ?r")
    case (Some e)
    with assms(1,2) show ?thesis by (simp add: SaveRoutine_def run_simps)
  next
    case None
    then have r: "second_in_day (?r\<lparr>vr_ID := i\<rparr>)" "name_ok (vr_Name (?r\<lparr>vr_ID := i\<rparr>))" "second_in_day ?r" "name_ok (vr_Name ?r)" for i
      by (auto simp: routine_error_def second_in_day_def split: if_splits)
    show ?thesis
    proof (cases "vr_ID r0 = []")
      case False
      with assms(1) None have "store_routine env False d ?r now db = (r, db')" by (simp add: SaveRoutine_def)
      from store_routine_body [OF assms(3) r(3,4) _ _ assms(2) this] False show ?thesis by simp
    next
      case new: True
      show ?thesis
      proof (cases "sv_random env 0")
        case None
        with assms(1,2) new \<open>routine_error ?r = None\<close> show ?thesis
          by (simp add: SaveRoutine_def newID_def andThen_def run_simps)
      next
        case (Some bytes)
        with assms(1) new None
        have "store_routine env True d (?r\<lparr>vr_ID := randomID bytes\<rparr>) now db = (r, db')"
          by (simp add: SaveRoutine_def newID_def andThen_def run_simps)
        moreover have "\<not> tbl_has rw_id (randomID bytes) (sd_routine db)"
          using assms(4) new Some by (simp add: fresh_routine_def)
        ultimately show ?thesis
          by (intro store_routine_body [OF assms(3) r(1,2) _ _ assms(2)]) (simp_all add: randomID_nonempty)
      qed
    qed
  qed
qed

lemma find_SomeD: "find p xs = Some x \<Longrightarrow> x \<in> set xs \<and> p x"
  by (auto simp: find_Some_iff)

lemma preserves_delete_routine:
  assumes "\<not> is_zero now"
  shows "preserves policies_ok (DeleteRoutine env d rid now)"
  unfolding DeleteRoutine_def
proof (intro preserves_transaction, rule commitsI)
  fix db u db' assume ok: "policies_ok db"
    and run: "andThen (reads (\<lambda>db. find (\<lambda>x. rw_id x = rid \<and> rw_device x = d) (sd_routine db))) (\<lambda>old.
       case old of None \<Rightarrow> throw RowNotFound
       | Some x \<Rightarrow>
           andThen (modify (\<lambda>db. db\<lparr>sd_routine := tbl_delete (\<lambda>r. rw_id r = rid \<and> rw_device r = d) (sd_routine db),
              sd_day := tbl_delete (\<lambda>d. fst d = rid) (sd_day db)\<rparr>)) (\<lambda>_.
           andThen (bumpPolicyKeepWarning d now) (\<lambda>_.
           insertAudit env 0 d ''routine_deleted'' (JObject [(''name'', JString (rw_name x)),
             (''routine_id'', JString rid)]) now))) db = (Inr u, db')"
  let ?db = "db\<lparr>sd_routine := tbl_delete (\<lambda>r. rw_id r = rid \<and> rw_device r = d) (sd_routine db),
              sd_day := tbl_delete (\<lambda>d. fst d = rid) (sd_day db)\<rparr>"
  from run obtain x n db2 k payload where x: "x \<in> set (sd_routine db)" "rw_id x = rid" "rw_device x = d"
    and bump: "bumpPolicyKeepWarning d now ?db = (Inr n, db2)"
    and audit: "insertAudit env 0 d k payload now db2 = (Inr u, db')"
    by (auto simp: run_simps elim!: andThen_InrE split: option.splits dest!: find_SomeD)
  have "stored_routine ?db y = stored_routine db y" if "y \<in> set (sd_routine ?db)" for y
    using that x ok by (intro stored_routine_days)
      (auto simp: table_simps policies_ok_def routines_ok_def dest: tbl_keyed_sub)
  then have "routines_ok ?db"
    using ok by (auto simp: routines_ok_def policies_ok_def no_overlap_def table_simps)
  moreover have "revisions_agree ?db" "policy_rows_ok ?db"
    using ok by (auto simp: policies_ok_def revisions_agree_def policy_rows_ok_def device_revisions_def)
  ultimately have "policies_ok ?db" by (simp add: policies_ok_def)
  from commitsD [OF commits_bumpPolicyKeepWarning [OF assms] this bump]
  show "policies_ok db'" by (rule commitsD [OF commits_audit _ audit])
qed

lemma preserves_remote_bonus:
  assumes "\<not> is_zero now"
  shows "preserves policies_ok (QueueRemoteBonus env d seconds now)"
proof -
  have "keeps policy_view (insert_command c)" for c
    unfolding insert_command_def by (intro keeps_intros keeps_modify) (simp add: policy_view_def device_revisions_def)
  note kept = commits_keeps [OF this policies_ok_view] commits_keeps [OF keeps_policy_admin_activity policies_ok_view]
  show ?thesis
    unfolding QueueRemoteBonus_def
    by (intro preserves_fails_if preserves_andThen [OF preserves_view [OF keeps_newID]] preserves_transaction
        commits_andThen [OF commits_bumpPolicyKeepWarning [OF assms]] commits_andThen [OF kept(1)]
        commits_andThen [OF kept(2)] commits_andThen [OF commits_audit] commits_ret)
qed

lemma policies_kept: "keeps policy_view m \<Longrightarrow> policies_ok db \<Longrightarrow> m db = (r, db') \<Longrightarrow> policies_ok db'"
  by (metis keepsD policies_ok_view)

lemma policy_of_core: "core_view db' = core_view db \<Longrightarrow> policy_view db' = policy_view db"
  by (simp add: core_view_def policy_view_def)

lemma server_step_policies: "server_step db db' \<Longrightarrow> policies_ok db \<Longrightarrow> policies_ok db'"
proof (induction rule: server_step.induct)
  case bootstrap
  then show ?case by - (rule policies_kept [OF keeps_policy_bootstrap]; assumption)
next
  case rename_device
  then show ?case by - (rule policies_kept [OF keeps_policy_rename]; assumption)
next
  case update_identity
  then show ?case by - (rule policies_kept [OF keeps_policy_identity]; assumption)
next
  case heartbeat
  then show ?case by - (rule policies_kept [OF keeps_policy_heartbeat]; assumption)
next
  case queue_control
  then show ?case by - (rule policies_kept [OF keeps_policy_control]; assumption)
next
  case cleanup
  then show ?case by - (rule policies_kept [OF keeps_policy_cleanup]; assumption)
next
  case create_device
  then show ?case unfolding clock_ok_def by - (rule preservesD [OF preserves_create]; (assumption | (elim conjE, assumption))?)
next
  case save_quotas
  then show ?case unfolding clock_ok_def by - (rule preservesD [OF preserves_quotas]; (assumption | (elim conjE, assumption))?)
next
  case set_password
  then show ?case unfolding clock_ok_def by - (rule preservesD [OF preserves_password]; (assumption | (elim conjE, assumption))?)
next
  case delete_routine
  then show ?case unfolding clock_ok_def by - (rule preservesD [OF preserves_delete_routine]; (assumption | (elim conjE, assumption))?)
next
  case queue_bonus
  then show ?case unfolding clock_ok_def by - (rule preservesD [OF preserves_remote_bonus]; (assumption | (elim conjE, assumption))?)
next
  case delete_device
  then show ?case by - (rule preservesD [OF preserves_delete]; assumption)
next
  case save_routine
  then show ?case unfolding clock_ok_def by - (rule save_routine_ok; (assumption | (elim conjE, assumption))?)
next
  case issue_token
  then show ?case by - (rule policies_kept [OF keeps_finer [OF keeps_core_credentials(1) policy_of_core]]; assumption)
next
  case revoke_token
  then show ?case by - (rule policies_kept [OF keeps_finer [OF keeps_core_credentials(2) policy_of_core]]; assumption)
next
  case hide_history
  then show ?case by - (rule policies_kept [OF keeps_finer [OF keeps_core_credentials(3) policy_of_core]]; assumption)
qed

lemma reachable_policies: "server_reachable db \<Longrightarrow> policies_ok db"
  by (induction rule: server_reachable.induct) (simp add: policies_ok_empty, rule server_step_policies)

end
