(* ===== verification/ServerCommands.thy ===== *)
theory ServerCommands
  imports ServerPolicies
begin

text \<open>
  Controls and commands in every run of the server: at most one control command of a device is
  pending and it is the one that leads to the control state the server reports; every bonus
  command carries a credit that both sides read back.
\<close>

section \<open>The invariant\<close>

definition control_row_ok :: "ControlRow \<Rightarrow> bool" where
  "control_row_ok c \<longleftrightarrow> 1 \<le> cw_revision c \<and> \<not> (cw_paused c \<and> cw_blocked c)"

definition credit_payload :: "string \<Rightarrow> string \<Rightarrow> bool" where
  "credit_payload commandID payload \<longleftrightarrow> (\<exists>seconds created. payload = credit_text commandID seconds created
     \<and> 0 < seconds \<and> seconds \<le> 86400 \<and> clock_ok created)"

definition command_row_ok :: "CommandRow \<Rightarrow> bool" where
  "command_row_ok c \<longleftrightarrow> mw_id c \<noteq> [] \<and> plain_text (mw_id c) \<and> \<not> is_zero (mw_created c)
     \<and> (validControlKind (mw_kind c) \<or> mw_kind c = ''add_bonus'' \<and> credit_payload (mw_id c) (mw_payload c))"

text \<open>\<open>leads_to c r\<close>: the command leads to the flags of the control row of its device.\<close>

definition leads_to :: "CommandRow \<Rightarrow> ControlRow \<Rightarrow> bool" where
  "leads_to c r \<longleftrightarrow> cw_device r = mw_device c \<and> control_flags (mw_kind c) = Some (cw_paused r, cw_blocked r)"

definition one_pending :: "CommandRow list \<Rightarrow> bool" where
  "one_pending cs \<longleftrightarrow> (\<forall>d. length (filter (pending_control d) cs) \<le> 1)"

definition commands_inv :: "ControlRow list \<Rightarrow> CommandRow list \<Rightarrow> bool" where
  "commands_inv rs cs \<longleftrightarrow> tbl_keyed cw_device rs \<and> (\<forall>r\<in>set rs. control_row_ok r) \<and> (\<forall>c\<in>set cs. command_row_ok c)
     \<and> one_pending cs \<and> (\<forall>c\<in>set cs. pending_control (mw_device c) c \<longrightarrow> (\<exists>r\<in>set rs. leads_to c r))"

definition commands_ok :: "ServerDb \<Rightarrow> bool" where
  "commands_ok db \<longleftrightarrow> commands_inv (sd_control db) (sd_command db)"

definition command_view :: "ServerDb \<Rightarrow> _" where
  "command_view db = (sd_control db, sd_command db)"

lemma commands_ok_view: "command_view db' = command_view db \<Longrightarrow> commands_ok db \<Longrightarrow> commands_ok db'"
  by (simp add: command_view_def commands_ok_def)

lemma commits_commands_view: "keeps command_view m \<Longrightarrow> commits commands_ok m (\<lambda>_. commands_ok)"
  by (erule commits_keeps) (rule commands_ok_view)

lemma preserves_commands_view: "keeps command_view m \<Longrightarrow> preserves commands_ok m"
  by (erule preserves_keeps) (rule commands_ok_view)

lemma command_of_business: "business_view db' = business_view db \<Longrightarrow> command_view db' = command_view db"
  by (simp add: business_view_def command_view_def)

lemma keeps_command_finer: "keeps business_view m \<Longrightarrow> keeps command_view m"
  by (erule keeps_finer) (rule command_of_business)

lemma keeps_command_history [keeps_intros]:
  "keeps command_view (insertAudit env k d kind payload now)"
  "keeps command_view (insertAdminActivity aid d kind details now)"
  "keeps command_view (upsertActivityStep aid kind actor now details repeated)"
  "keeps command_view (insertLocalBonusActivity loc e d seconds date t now)"
  "keeps command_view (cleanupExpiredCompletedActivitiesIfDue now)"
  by (intro keeps_command_finer keeps_intros)+

lemma commands_ok_empty: "commands_ok empty_server"
  by (simp add: commands_ok_def commands_inv_def empty_server_def one_pending_def)

section \<open>Commands that are changed or deleted\<close>

text \<open>What may happen to a command row: its bookkeeping changes, and it may become acknowledged.\<close>

definition same_command :: "CommandRow \<Rightarrow> CommandRow \<Rightarrow> bool" where
  "same_command c c' \<longleftrightarrow> mw_id c' = mw_id c \<and> mw_device c' = mw_device c \<and> mw_kind c' = mw_kind c
     \<and> mw_payload c' = mw_payload c \<and> mw_created c' = mw_created c
     \<and> (mw_acknowledged c' = None \<longrightarrow> mw_acknowledged c = None)"

lemma same_command_pending: "same_command c c' \<Longrightarrow> pending_control d c' \<Longrightarrow> pending_control d c"
  by (auto simp: same_command_def pending_control_def)

lemma length_filter_map_le:
  "(\<And>x. P (f x) \<Longrightarrow> P x) \<Longrightarrow> length (filter P (map f xs)) \<le> length (filter P xs)"
  by (induction xs) (auto simp: le_SucI)

lemma commands_inv_update:
  assumes "commands_inv rs cs" and "\<And>c. same_command c (f c)"
  shows "commands_inv rs (tbl_update p f cs)"
proof -
  let ?g = "\<lambda>c. if p c then f c else c"
  have same: "same_command c (?g c)" for c using assms(2) by (simp add: same_command_def)
  have "length (filter (pending_control d) (map ?g cs)) \<le> length (filter (pending_control d) cs)" for d
    using same_command_pending [OF same] by (intro length_filter_map_le)
  then have "one_pending (map ?g cs)"
    using assms(1) unfolding commands_inv_def one_pending_def by (meson le_trans)
  moreover have "command_row_ok (?g c)" if "c \<in> set cs" for c
    using that same [of c] assms(1) by (simp add: commands_inv_def command_row_ok_def same_command_def)
  moreover have "\<exists>r\<in>set rs. leads_to (?g c) r" if "c \<in> set cs" "pending_control (mw_device (?g c)) (?g c)" for c
  proof -
    have d: "mw_device (?g c) = mw_device c" using same [of c] by (simp add: same_command_def)
    have "pending_control (mw_device c) c" using that(2) same_command_pending [OF same] unfolding d by blast
    with that(1) assms(1) obtain r where "r \<in> set rs" "leads_to c r" unfolding commands_inv_def by blast
    then show ?thesis using same [of c] by (auto simp: leads_to_def same_command_def)
  qed
  ultimately show ?thesis
    using assms(1) unfolding commands_inv_def tbl_update_def set_map by blast
qed

lemma commands_inv_delete: "commands_inv rs cs \<Longrightarrow> commands_inv rs (tbl_delete p cs)"
proof -
  assume inv: "commands_inv rs cs"
  have "length (filter q (tbl_delete p cs)) \<le> length (filter q cs)" for q
    by (induction cs) (auto simp: tbl_delete_def)
  then have "one_pending (tbl_delete p cs)"
    using inv unfolding commands_inv_def one_pending_def by (meson le_trans)
  with inv show ?thesis by (auto simp: commands_inv_def table_simps)
qed

lemma commits_acknowledge: "commits commands_ok (acknowledge_command loc d now c) (\<lambda>_. commands_ok)"
proof -
  have acknowledged: "commits commands_ok (modify (\<lambda>db. db\<lparr>sd_command := tbl_update (of_command d c)
      (\<lambda>c. c\<lparr>mw_acknowledged := or_now now (mw_acknowledged c)\<rparr>) (sd_command db)\<rparr>)) (\<lambda>_. commands_ok)"
    by (intro commits_modify) (auto simp: commands_ok_def same_command_def or_now_def intro: commands_inv_update
        split: option.splits)
  have removed: "commits commands_ok (modify (\<lambda>db. db\<lparr>sd_command := tbl_delete (\<lambda>x. of_command d c x
      \<and> validControlKind (mw_kind x)) (sd_command db)\<rparr>)) (\<lambda>_. commands_ok)"
    by (intro commits_modify) (simp add: commands_ok_def commands_inv_delete)
  have kept: "commits commands_ok (modify (\<lambda>db. db\<lparr>sd_activity := g db\<rparr>)) (\<lambda>_. commands_ok)" for g
    by (intro commits_modify) (simp add: commands_ok_def)
  have step: "commits commands_ok (if m then upsertActivityStep c k a now x False else ret ()) (\<lambda>_. commands_ok)" for m k a x
    by (intro commits_commands_view keeps_intros)
  have rest: "commits commands_ok (if \<not> matched then ret () else
       andThen (reads (\<lambda>db. list_ex (of_activity d c) (sd_activity db))) (\<lambda>matchedActivity.
       andThen (modify (\<lambda>db. db\<lparr>sd_activity := tbl_update (of_activity d c)
          (completed_activity loc now) (sd_activity db)\<rparr>)) (\<lambda>_.
       andThen (if matchedActivity then upsertActivityStep c ''completed'' ''device'' now [] False else ret ()) (\<lambda>_.
       modify (\<lambda>db. db\<lparr>sd_command := tbl_delete (\<lambda>x. of_command d c x
          \<and> validControlKind (mw_kind x)) (sd_command db)\<rparr>))))) (\<lambda>_. commands_ok)" for matched
  proof (cases matched)
    case True
    have reading: "commits commands_ok (reads g) (\<lambda>_. commands_ok)" for g :: "ServerDb \<Rightarrow> bool"
      by (intro commits_commands_view keeps_intros)
    show ?thesis
      using True by (simp add: commits_andThen [OF reading commits_andThen [OF kept commits_andThen [OF step removed]]])
  qed (simp add: commits_ret)
  show ?thesis
    unfolding acknowledge_command_def
    by (intro commits_fails_if commits_andThen [OF commits_commands_view [OF keeps_elementary(3)]
        commits_andThen [OF acknowledged rest]])
qed

lemma commits_acknowledges: "commits commands_ok (acknowledge_commands loc d now cs) (\<lambda>_. commands_ok)"
  by (induction cs) (auto intro: commits_ret commits_andThen [OF commits_acknowledge])

lemma commits_offer: "commits commands_ok (offer_command d now c) (\<lambda>_. commands_ok)"
proof -
  have offered: "commits commands_ok (modify (\<lambda>db. db\<lparr>sd_command := tbl_update
        (\<lambda>x. of_command d c x \<and> mw_acknowledged x = None)
        (\<lambda>c. c\<lparr>mw_attempts := mw_attempts c + 1, mw_first_offered := or_now now (mw_first_offered c),
           mw_last_offered := Some now\<rparr>) (sd_command db)\<rparr>)) (\<lambda>_. commands_ok)"
    by (intro commits_modify) (simp add: commands_ok_def commands_inv_update same_command_def)
  have rest: "keeps command_view (andThen (reads (\<lambda>db. list_ex (\<lambda>a. of_activity d c a \<and> tw_status a \<noteq> ''completed'') (sd_activity db))) (\<lambda>matchedActivity.
     andThen (modify (\<lambda>db. db\<lparr>sd_activity := tbl_update
        (\<lambda>a. of_activity d c a \<and> tw_status a \<noteq> ''completed'')
        (\<lambda>a. a\<lparr>tw_status := ''offered''\<rparr>) (sd_activity db)\<rparr>)) (\<lambda>_.
     if \<not> matchedActivity then ret ()
     else upsertActivityStep c ''offered'' ''server'' now [] True)))"
    by (intro keeps_intros keeps_modify) (simp add: command_view_def)
  show ?thesis
    unfolding offer_command_def by (rule commits_andThen [OF offered commits_commands_view [OF rest]])
qed

lemma commits_offers: "commits commands_ok (offer_commands d now cs) (\<lambda>_. commands_ok)"
  by (induction cs) (auto intro: commits_ret commits_andThen [OF commits_offer])

section \<open>Identifiers\<close>

lemma hex_digit_plain: "plain_char (hex_digit n)"
proof -
  have "nat (n mod 16) < length ''0123456789abcdef''"
    using pos_mod_bound [of 16 n] by simp
  then have "hex_digit n \<in> set ''0123456789abcdef''"
    unfolding hex_digit_def by (rule nth_mem)
  then show ?thesis by (auto simp: plain_char_def)
qed

lemma randomID_plain: "plain_text (randomID bytes)"
proof -
  have "list_all plain_char (concat (map hex_byte bs))" for bs
    by (induction bs) (simp_all add: hex_byte_def hex_digit_plain)
  then have "list_all plain_char (take n (drop k (concat (map hex_byte bs))))" for bs n k
    unfolding list_all_iff by (blast dest: in_set_takeD in_set_dropD)
  from this [of _ 0] this show ?thesis
    by (simp add: randomID_def Let_def) (simp add: plain_char_def)
qed

lemma newID_Inr: "newID env k db = (Inr i, db') \<Longrightarrow> db' = db \<and> i \<noteq> [] \<and> plain_text i"
  by (auto simp: newID_def run_simps randomID_nonempty randomID_plain split: option.splits)

lemma preserves_newID:
  assumes "\<And>i. i \<noteq> [] \<Longrightarrow> plain_text i \<Longrightarrow> preserves P (k i)"
  shows "preserves P (andThen (newID env n) k)"
proof (cases "sv_random env n")
  case (Some bytes)
  then have "andThen (newID env n) k = k (randomID bytes)"
    by (intro ext) (simp add: newID_def run_simps)
  then show ?thesis by (simp add: assms randomID_nonempty randomID_plain)
qed (simp add: newID_def preserves_def andThen_def run_simps)

lemma commits_newID:
  assumes "\<And>i. i \<noteq> [] \<Longrightarrow> plain_text i \<Longrightarrow> commits P (k i) Q"
  shows "commits P (andThen (newID env n) k) Q"
proof (rule commitsI, erule andThen_InrE)
  fix db a db' i db1 assume "P db" and new: "newID env n db = (Inr i, db1)" and run: "k i db1 = (Inr a, db')"
  then show "Q a db'" using newID_Inr [OF new] commitsD [OF assms, of i db a db'] by blast
qed

lemma commits_seq:
  "commits P m (\<lambda>_. P) \<Longrightarrow> (\<And>a. commits P (k a) (\<lambda>_. P)) \<Longrightarrow> commits P (andThen m k) (\<lambda>_. P)"
  by (rule commits_andThen)

section \<open>Devices\<close>

lemma commits_insert_device: "commits commands_ok (insert_device d name avatar now) (\<lambda>_. commands_ok)"
proof (rule commitsI)
  fix db u db' assume ok: "commands_ok db" and run: "insert_device d name avatar now db = (Inr u, db')"
  let ?r = "\<lparr>cw_device = d, cw_revision = 1, cw_paused = False, cw_blocked = False, cw_updated = now\<rparr>"
  from run have "sd_control db' = sd_control db @ [?r]" "sd_command db' = sd_command db"
    "\<not> tbl_has cw_device d (sd_control db)"
    by (auto simp: insert_device_def requires_def andThen_def run_simps split: if_splits)
  with ok show "commands_ok db'"
    by (auto simp: commands_ok_def commands_inv_def tbl_keyed_def table_simps control_row_ok_def)
qed

lemma commands_ok_delete_device: "commands_ok db \<Longrightarrow> commands_ok (delete_device d db)"
proof -
  assume ok: "commands_ok db"
  let ?cs = "tbl_delete (\<lambda>c. mw_device c = d) (sd_command db)"
  let ?rs = "tbl_delete (\<lambda>r. cw_device r = d) (sd_control db)"
  have cs: "commands_inv (sd_control db) ?cs" using ok by (simp add: commands_ok_def commands_inv_delete)
  moreover have "\<exists>r\<in>set ?rs. leads_to c r" if "c \<in> set ?cs" "pending_control (mw_device c) c" for c
  proof -
    from cs that obtain r where "r \<in> set (sd_control db)" "leads_to c r" unfolding commands_inv_def by blast
    then show ?thesis using that(1) by (auto simp: table_simps leads_to_def)
  qed
  moreover have "\<forall>r\<in>set ?rs. control_row_ok r"
    using ok by (simp add: commands_ok_def commands_inv_def table_simps)
  ultimately have "commands_inv ?rs ?cs"
    unfolding commands_inv_def using tbl_keyed_delete by blast
  then show ?thesis by (simp add: commands_ok_def delete_device_def Let_def)
qed

section \<open>Queueing\<close>

lemma insert_command_Inr:
  assumes "insert_command c db = (Inr u, db')"
  shows "db' = db\<lparr>sd_command := sd_command db @ [c]\<rparr>"
    and "\<not> (pending_control (mw_device c) c \<and> list_ex (pending_control (mw_device c)) (sd_command db))"
    and "\<not> tbl_has mw_id (mw_id c) (sd_command db)" and "has_device (mw_device c) db"
  using assms by (auto simp: insert_command_def requires_def andThen_def run_simps split: if_splits)

lemma one_pending_append:
  assumes "one_pending cs" and "\<not> (pending_control (mw_device c) c \<and> list_ex (pending_control (mw_device c)) cs)"
  shows "one_pending (cs @ [c])"
  unfolding one_pending_def
proof
  fix d
  have "filter (pending_control d) cs = []" if "pending_control d c"
    using that assms(2) by (auto simp: filter_empty_conv list_ex_iff pending_control_def)
  then show "length (filter (pending_control d) (cs @ [c])) \<le> 1"
    using assms(1) by (auto simp: one_pending_def)
qed

lemma commits_insert_command:
  assumes "command_row_ok c"
  shows "commits (\<lambda>db. commands_ok db \<and> (pending_control (mw_device c) c \<longrightarrow> (\<exists>r\<in>set (sd_control db). leads_to c r)))
    (insert_command c) (\<lambda>_. commands_ok)"
proof (rule commitsI, elim conjE)
  fix db u db' assume ok: "commands_ok db"
    and flags: "pending_control (mw_device c) c \<longrightarrow> (\<exists>r\<in>set (sd_control db). leads_to c r)"
    and run: "insert_command c db = (Inr u, db')"
  note ins = insert_command_Inr [OF run]
  have "one_pending (sd_command db @ [c])"
    using ok ins(2) by (intro one_pending_append) (simp_all add: commands_ok_def commands_inv_def)
  with ok flags assms show "commands_ok db'"
    by (auto simp: ins(1) commands_ok_def commands_inv_def)
qed

lemma commits_bump_commands: "commits commands_ok (bumpPolicyKeepWarning d now) (\<lambda>_. commands_ok)"
  unfolding bumpPolicyKeepWarning_def bumpPolicy_def bump_rows_def
  by (intro commits_commands_view keeps_intros keeps_modify) (simp add: command_view_def update_device_def)

lemma preserves_commands_bonus:
  assumes "clock_ok now"
  shows "preserves commands_ok (QueueRemoteBonus env d seconds now)"
  unfolding QueueRemoteBonus_def
proof (intro preserves_fails_if preserves_newID preserves_transaction)
  fix uuid assume id: "uuid \<noteq> []" "plain_text uuid"
    and range: "\<not> (seconds \<le> 0 \<or> go_div (24 * hour) second < seconds \<or> is_zero now)"
  let ?c = "new_command uuid d ''add_bonus'' (credit_text uuid seconds now) now"
  have n: "0 < seconds" "seconds \<le> 86400" using range by (auto simp: duration_defs)
  have row: "command_row_ok ?c"
    using id n assms by (auto simp: command_row_ok_def new_command_def credit_payload_def clock_ok_def)
  have "commits commands_ok (insert_command ?c) (\<lambda>_. commands_ok)"
    by (rule commits_weaken [OF commits_insert_command [OF row]])
      (simp_all add: pending_control_def new_command_def validControlKind_def)
  then show "commits commands_ok (andThen (bumpPolicyKeepWarning d now) (\<lambda>_. andThen (insert_command ?c) (\<lambda>_.
       andThen (insertAdminActivity uuid d ''add_bonus'' [(''minutes'', show_int (go_div seconds 60))] now) (\<lambda>_.
       andThen (insertAudit env 1 d ''bonus_queued'' (JObject [(''origin'', JString ''web''),
         (''seconds'', JNumber (show_int seconds))]) now) (\<lambda>_. ret uuid))))) (\<lambda>_. commands_ok)"
    by - (rule commits_seq [OF commits_bump_commands], rule commits_seq, assumption,
      intro commits_commands_view keeps_intros)
qed

text \<open>A control command is queued after the older pending ones are discarded and the control row
  has taken the flags it leads to.\<close>

lemma discarded_controls:
  assumes "commands_ok db"
  shows "commands_ok (discard_pending_controls d db)"
    and "\<not> list_ex (pending_control d) (sd_command (discard_pending_controls d db))"
    and "sd_control (discard_pending_controls d db) = sd_control db"
proof -
  have cs: "sd_command (discard_pending_controls d db) = tbl_delete (pending_control d) (sd_command db)"
    and rs: "sd_control (discard_pending_controls d db) = sd_control db"
    by (simp_all add: discard_pending_controls_def Let_def)
  show "commands_ok (discard_pending_controls d db)"
    using assms by (simp add: commands_ok_def cs rs commands_inv_delete)
  show "\<not> list_ex (pending_control d) (sd_command (discard_pending_controls d db))"
    by (auto simp: cs tbl_delete_def list_ex_iff)
qed (simp add: discard_pending_controls_def Let_def)

lemma change_control_Inr:
  assumes "change_control d flags now db = (Inr u, db')"
  shows "tbl_has cw_device d (sd_control db)"
    and "sd_control db' = tbl_update (\<lambda>c. cw_device c = d) (\<lambda>c. c\<lparr>cw_paused := fst flags,
       cw_blocked := snd flags, cw_revision := cw_revision c + 1, cw_updated := now\<rparr>) (sd_control db)"
    and "sd_command db' = sd_command db" and "sd_activity db' = sd_activity db"
  using assms by (auto simp: change_control_def andThen_def run_simps split: if_splits)

lemma commands_ok_changed_control:
  assumes ok: "commands_ok db" and idle: "\<not> list_ex (pending_control d) (sd_command db)"
    and run: "change_control d flags now db = (Inr u, db')" and flags: "\<not> (fst flags \<and> snd flags)"
  shows "commands_ok db'" and "\<exists>r\<in>set (sd_control db'). cw_device r = d \<and> (cw_paused r, cw_blocked r) = flags"
proof -
  note ch = change_control_Inr [OF run]
  let ?f = "\<lambda>c. c\<lparr>cw_paused := fst flags, cw_blocked := snd flags, cw_revision := cw_revision c + 1, cw_updated := now\<rparr>"
  show "\<exists>r\<in>set (sd_control db'). cw_device r = d \<and> (cw_paused r, cw_blocked r) = flags"
  proof -
    obtain x where x: "x \<in> set (sd_control db)" "cw_device x = d" using ch(1) by (auto simp: tbl_has_iff)
    then have "?f x \<in> set (sd_control db')" by (force simp: ch(2) tbl_update_def)
    with x(2) show ?thesis by (intro bexI [of _ "?f x"]) simp_all
  qed
  have "tbl_keyed cw_device (sd_control db')"
    using ok unfolding ch(2) by (intro tbl_keyed_update) (simp_all add: commands_ok_def commands_inv_def)
  moreover have "\<forall>r\<in>set (sd_control db'). control_row_ok r"
    using ok flags unfolding ch(2) commands_ok_def commands_inv_def
    by (auto simp: control_row_ok_def dest!: set_tbl_updateD)
  moreover have "\<exists>r\<in>set (sd_control db'). leads_to c r"
    if c: "c \<in> set (sd_command db')" "pending_control (mw_device c) c" for c
  proof -
    from c ok obtain r where r: "r \<in> set (sd_control db)" "leads_to c r"
      unfolding commands_ok_def commands_inv_def ch(3) by blast
    have "mw_device c \<noteq> d" using c idle by (auto simp: ch(3) list_ex_iff)
    with r(2) have "cw_device r \<noteq> d" by (simp add: leads_to_def)
    then have "r \<in> set (sd_control db')" using r(1) by (force simp: ch(2) tbl_update_def)
    with r(2) show ?thesis by blast
  qed
  ultimately show "commands_ok db'"
    using ok unfolding commands_ok_def commands_inv_def ch(3) by blast
qed

lemma control_flags_valid: "control_flags kind = Some flags \<Longrightarrow> validControlKind kind \<and> \<not> (fst flags \<and> snd flags)"
  by (auto simp: control_flags_def validControlKind_def split: if_splits)

text \<open>What the insertion of a control command ends in.\<close>

definition control_queued :: "string \<Rightarrow> string \<Rightarrow> time \<Rightarrow> string \<Rightarrow> ServerDb \<Rightarrow> bool" where
  "control_queued d kind now commandID db \<longleftrightarrow> commands_ok db
     \<and> filter (pending_control d) (sd_command db) = [new_command commandID d kind ''{}'' now]"

abbreviation queue_control :: "string \<Rightarrow> string \<Rightarrow> bool \<times> bool \<Rightarrow> details \<Rightarrow> time \<Rightarrow> string \<Rightarrow> string sact" where
  "queue_control d kind flags details now i \<equiv>
     andThen (modify (discard_pending_controls d)) (\<lambda>_. andThen (change_control d flags now) (\<lambda>_.
     andThen (insert_command (new_command i d kind ''{}'' now)) (\<lambda>_.
     andThen (insertAdminActivity i d kind details now) (\<lambda>_. ret i))))"

lemma queue_control_Inr:
  assumes "queue_control d kind flags details now i db = (Inr j, db')"
  obtains u db1 v db2 where "change_control d flags now (discard_pending_controls d db) = (Inr u, db1)"
    and "insert_command (new_command i d kind ''{}'' now) db1 = (Inr v, db2)"
    and "command_view db' = command_view db2" and "j = i"
proof -
  from assms obtain u1 db1 u2 db2 u3 db3 where change: "change_control d flags now (discard_pending_controls d db) = (Inr u1, db1)"
    and ins: "insert_command (new_command i d kind ''{}'' now) db1 = (Inr u2, db2)"
    and history: "insertAdminActivity i d kind details now db2 = (Inr u3, db3)"
    and last: "(ret i :: string sact) db3 = (Inr j, db')"
    unfolding andThen_modify by (elim andThen_InrE) iprover
  then show ?thesis
    using that [OF change ins] keepsD [OF keeps_command_history(2) history] by (simp add: run_simps)
qed

lemma commits_queue_control:
  assumes flags: "control_flags kind = Some flags" and id: "i \<noteq> []" "plain_text i" and now: "\<not> is_zero now"
  shows "commits commands_ok (queue_control d kind flags details now i) (\<lambda>j db. j = i \<and> control_queued d kind now i db)"
proof (rule commitsI)
  fix db j db'
  let ?c = "new_command i d kind ''{}'' now" and ?db = "discard_pending_controls d db"
  assume ok: "commands_ok db" and run: "queue_control d kind flags details now i db = (Inr j, db')"
  note dis = discarded_controls [OF ok, of d] and valid = control_flags_valid [OF flags]
  obtain u1 db1 u2 db2 where change: "change_control d flags now ?db = (Inr u1, db1)"
    and ins: "insert_command ?c db1 = (Inr u2, db2)" and db': "command_view db' = command_view db2" "j = i"
    by (rule queue_control_Inr [OF run])
  note changed = commands_ok_changed_control [OF dis(1,2) change conjunct2 [OF valid]]
  have row: "command_row_ok ?c" using id now valid by (simp add: command_row_ok_def new_command_def)
  have "\<exists>r\<in>set (sd_control db1). leads_to ?c r"
    using changed(2) flags by (force simp: leads_to_def new_command_def)
  with commitsD [OF commits_insert_command [OF row] _ ins] changed(1) have ok2: "commands_ok db2" by blast
  have "filter (pending_control d) (sd_command db1) = []"
    using dis(2) change_control_Inr(3) [OF change] by (auto simp: filter_empty_conv list_ex_iff)
  moreover have "pending_control d ?c" using valid by (simp add: pending_control_def new_command_def)
  ultimately have "filter (pending_control d) (sd_command db2) = [?c]"
    by (simp add: insert_command_Inr(1) [OF ins])
  with ok2 db' show "j = i \<and> control_queued d kind now i db'"
    using commands_ok_view [OF db'(1)] by (simp add: control_queued_def command_view_def)
qed

lemma preserves_commands_control:
  assumes "clock_ok now"
  shows "preserves commands_ok (QueueControlOperation env d kind now)"
proof (cases "control_flags kind")
  case (Some flags)
  show ?thesis
    unfolding QueueControlOperation_def Some option.case
  proof (intro preserves_transaction commits_reads)
    fix pending
    let ?m = "\<lambda>i. andThen (modify (discard_pending_controls d)) (\<lambda>_. andThen (change_control d flags now) (\<lambda>_.
      andThen (insert_command (new_command i d kind ''{}'' now)) (\<lambda>_.
      andThen (insertAdminActivity i d kind [(''command'', kind)] now) (\<lambda>_. ret i))))"
    have unchanged: "commits (\<lambda>db. commands_ok db \<and> pending = latest_control d db) (ret x) (\<lambda>_. commands_ok)" for x :: string
      by (rule commits_ret) simp
    have "commits commands_ok (andThen (newID env 0) ?m) (\<lambda>_. commands_ok)"
    proof (rule commits_newID)
      fix i :: string assume id: "i \<noteq> []" "plain_text i"
      have "\<not> is_zero now" using assms by (simp add: clock_ok_def)
      from commits_queue_control [OF Some id this]
      show "commits commands_ok (?m i) (\<lambda>_. commands_ok)"
        by (rule commits_weaken) (auto simp: control_queued_def)
    qed
    then have "commits (\<lambda>db. commands_ok db \<and> pending = latest_control d db) (andThen (newID env 0) ?m) (\<lambda>_. commands_ok)"
      by (rule commits_weaken) auto
    then show "commits (\<lambda>db. commands_ok db \<and> pending = latest_control d db)
        (if (case pending of None \<Rightarrow> False | Some c \<Rightarrow> mw_kind c = kind)
         then ret (case pending of None \<Rightarrow> [] | Some c \<Rightarrow> mw_id c) else andThen (newID env 0) ?m) (\<lambda>_. commands_ok)"
      using unchanged by (simp split: if_split)
  qed
qed (simp add: QueueControlOperation_def preserves_def run_simps)

section \<open>Heartbeats\<close>

lemma keeps_command_bonus_row [keeps_intros]: "keeps command_view (insert_bonus_row b)"
  unfolding insert_bonus_row_def by (intro keeps_intros keeps_modify) (simp add: command_view_def)

lemma keeps_command_event [keeps_intros]: "keeps command_view (receiveEvent loc d e now)"
  unfolding receiveEvent_def by (intro keeps_intros keeps_modify) (simp add: command_view_def)

lemma keeps_command_credits [keeps_intros]: "keeps command_view (apply_credits d date credits)"
  by (induction credits) (auto intro!: keeps_intros)

lemma keeps_command_events [keeps_intros]: "keeps command_view (receive_events loc d now es)"
  by (induction es) (auto intro!: keeps_intros)

lemma commits_report: "commits commands_ok (receive_report loc d request now) (\<lambda>_. commands_ok)"
proof -
  have rows: "commits commands_ok (modify (update_device d f)) (\<lambda>_. commands_ok)"
    "commits commands_ok (modify (report_usage d request now)) (\<lambda>_. commands_ok)" for f
    by (auto intro!: commits_modify simp: commands_ok_def update_device_def report_usage_def)
  have credits: "commits commands_ok (applyPendingRemoteBonuses d date) (\<lambda>_. commands_ok)" for date
    unfolding applyPendingRemoteBonuses_def by (intro commits_commands_view keeps_intros)
  have cleanup: "commits commands_ok (cleanupExpiredCompletedActivitiesIfDue now) (\<lambda>_. commands_ok)"
    and events: "commits commands_ok (receive_events loc d now es) (\<lambda>_. commands_ok)" for es
    by (intro commits_commands_view keeps_intros)+
  have body: "commits commands_ok (andThen (fails_if c e) (\<lambda>_.
       andThen (modify (update_device d (report_device request now))) (\<lambda>_.
       andThen (modify (report_usage d request now)) (\<lambda>_.
       andThen (applyPendingRemoteBonuses d (hr_LocalDate request)) (\<lambda>_.
       andThen (receive_events loc d now (hr_Events request)) (\<lambda>_.
       andThen (acknowledge_commands loc d now (hr_CommandAcks request)) (\<lambda>_.
       andThen (cleanupExpiredCompletedActivitiesIfDue now) (\<lambda>_. ret n)))))))) (\<lambda>_. commands_ok)" for c e n
    by (intro commits_fails_if commits_seq rows credits events commits_acknowledges cleanup commits_ret)
  show ?thesis
    unfolding receive_report_def Let_def
    by (rule commits_reads, rule commits_weaken [where P = commands_ok and Q = "\<lambda>_. commands_ok"])
      (auto intro: commits_throw body split: option.split)
qed

lemma preserves_commands_heartbeat: "preserves commands_ok (ReceiveHeartbeat loc phases d request now)"
proof -
  have offer: "preserves commands_ok (if x = [] then ret [] else
      andThen (transaction (phases PhaseOffer) (offer_commands d now (map wc_ID x))) (\<lambda>_. ret x))" for x
  proof (cases "x = []")
    case True
    then show ?thesis using preserves_commands_view [OF keeps_elementary(1)] by simp
  next
    case False
    have "preserves commands_ok (andThen (transaction (phases PhaseOffer) (offer_commands d now (map wc_ID x))) (\<lambda>_. ret x))"
      by (rule preserves_andThen [OF preserves_transaction [OF commits_offers] preserves_commands_view [OF keeps_elementary(1)]])
    with False show ?thesis by simp
  qed
  then have offers: "preserves commands_ok (pendingCommands phases d n now)" for n
    unfolding pendingCommands_def by (rule preserves_andThen [OF preserves_commands_view [OF keeps_querying]])
  have reading: "preserves commands_ok (if c then andThen (querying s q) k else ret x)"
    if "\<And>a. k a = ret (f a)" for c s q k x f
    using that by (intro preserves_commands_view) (auto intro!: keeps_intros)
  show ?thesis
  proof (cases "heartbeat_error d request now")
    case None
    show ?thesis
      unfolding ReceiveHeartbeat_def None option.case
      by (rule preserves_andThen [OF preserves_transaction [OF commits_report]],
          rule preserves_andThen [OF preserves_commands_view [OF keeps_querying]],
          rule preserves_andThen [OF reading [OF refl]], rule preserves_andThen [OF reading [OF refl]],
          rule preserves_andThen [OF offers preserves_commands_view [OF keeps_elementary(1)]])
  qed (simp add: ReceiveHeartbeat_def preserves_def run_simps)
qed

section \<open>Runs\<close>

lemma keeps_command_view_policies:
  "keeps command_view (BootstrapAdmin env login hash now)"
  "keeps command_view (RenameDevice env d name now)"
  "keeps command_view (UpdateDeviceIdentity env d name avatar now)"
  "keeps command_view (SaveQuotas env d quotas warning now)"
  "keeps command_view (SetLocalPassword env d verifier now)"
  "keeps command_view (SaveRoutine env d r now)"
  "keeps command_view (DeleteRoutine env d rid now)"
  "keeps command_view (CleanupExpiredCompletedActivities served now)"
  unfolding BootstrapAdmin_def RenameDevice_def UpdateDeviceIdentity_def SaveQuotas_def SetLocalPassword_def
    SaveRoutine_def store_routine_def choose_icon_def commit_routine_def DeleteRoutine_def
    CleanupExpiredCompletedActivities_def change_device_def bumpPolicyKeepWarning_def bumpPolicy_def
    write_routine_def bump_rows_def set_quotas_def Let_def
  by (intro keeps_intros keeps_modify; simp add: command_view_def update_device_def)+

lemma preserves_commands_create: "preserves commands_ok (CreateDeviceWithAvatar env name avatar now)"
proof -
  have rest: "commits commands_ok (andThen (insertAudit env 1 d k payload now) (\<lambda>_. ret x)) (\<lambda>_. commands_ok)"
    for d k payload and x :: Device
    by (intro commits_commands_view keeps_intros)
  show ?thesis
    unfolding CreateDeviceWithAvatar_def Let_def
    by (intro preserves_fails_if preserves_newID preserves_transaction commits_seq [OF commits_insert_device rest])
qed

lemma preserves_commands_delete: "preserves commands_ok (DeleteDevice served d)"
  unfolding DeleteDevice_def
  by (intro preserves_transaction commits_reads commits_fails_if commits_modify) (simp add: commands_ok_delete_device)

lemma commands_kept: "keeps command_view m \<Longrightarrow> commands_ok db \<Longrightarrow> m db = (r, db') \<Longrightarrow> commands_ok db'"
  by (metis keepsD commands_ok_view)

lemma commands_of_core: "core_view db' = core_view db \<Longrightarrow> command_view db' = command_view db"
  by (simp add: core_view_def command_view_def)

lemma server_step_commands: "server_step db db' \<Longrightarrow> commands_ok db \<Longrightarrow> commands_ok db'"
proof (induction rule: server_step.induct)
  case bootstrap
  then show ?case by - (rule commands_kept [OF keeps_command_view_policies(1)]; assumption)
next
  case rename_device
  then show ?case by - (rule commands_kept [OF keeps_command_view_policies(2)]; assumption)
next
  case update_identity
  then show ?case by - (rule commands_kept [OF keeps_command_view_policies(3)]; assumption)
next
  case save_quotas
  then show ?case by - (rule commands_kept [OF keeps_command_view_policies(4)]; assumption)
next
  case set_password
  then show ?case by - (rule commands_kept [OF keeps_command_view_policies(5)]; assumption)
next
  case save_routine
  then show ?case by - (rule commands_kept [OF keeps_command_view_policies(6)]; assumption)
next
  case delete_routine
  then show ?case by - (rule commands_kept [OF keeps_command_view_policies(7)]; assumption)
next
  case cleanup
  then show ?case by - (rule commands_kept [OF keeps_command_view_policies(8)]; assumption)
next
  case create_device
  then show ?case by - (rule preservesD [OF preserves_commands_create]; assumption)
next
  case delete_device
  then show ?case by - (rule preservesD [OF preserves_commands_delete]; assumption)
next
  case queue_control
  then show ?case by - (rule preservesD [OF preserves_commands_control]; assumption)
next
  case queue_bonus
  then show ?case by - (rule preservesD [OF preserves_commands_bonus]; assumption)
next
  case heartbeat
  then show ?case by - (rule preservesD [OF preserves_commands_heartbeat]; assumption)
next
  case issue_token
  then show ?case by - (rule commands_kept [OF keeps_finer [OF keeps_core_credentials(1) commands_of_core]]; assumption)
next
  case revoke_token
  then show ?case by - (rule commands_kept [OF keeps_finer [OF keeps_core_credentials(2) commands_of_core]]; assumption)
next
  case hide_history
  then show ?case by - (rule commands_kept [OF keeps_finer [OF keeps_core_credentials(3) commands_of_core]]; assumption)
qed

lemma reachable_commands: "server_reachable db \<Longrightarrow> commands_ok db"
  by (induction rule: server_reachable.induct) (simp add: commands_ok_empty, rule server_step_commands)

end
