(* ===== verification/ServerSamples.thy ===== *)
theory ServerSamples
  imports ServerCommands AgentStoreProps
begin

text \<open>
  A run of the server that the witnesses start from: a device, two routines, a queued bonus and a
  queued control.
\<close>

section \<open>Identifiers\<close>

definition server_env :: "int \<Rightarrow> ServerEnv" where
  "server_env n = \<lparr>sv_served = True, sv_random = (\<lambda>k. Some (replicate 16 (n + int k))), sv_location = fixed_zone 0\<rparr>"

definition sample_id :: "int \<Rightarrow> string" where
  "sample_id n = randomID (replicate 16 n)"

lemma server_env_simps [simp]:
  "sv_served (server_env n)" "sv_location (server_env n) = fixed_zone 0"
  "newID (server_env n) k = ret (sample_id (n + int k))"
  "sv_random (server_env n) k = Some (replicate 16 (n + int k))"
  by (simp_all add: newID_def server_env_def sample_id_def)

abbreviation pc :: string where "pc \<equiv> sample_id 16"

lemma sample_id_texts:
  "sample_id 16 = ''10101010-1010-4010-9010-101010101010''"
  "sample_id 17 = ''11111111-1111-4111-9111-111111111111''"
  "sample_id 32 = ''20202020-2020-4020-a020-202020202020''"
  "sample_id 33 = ''21212121-2121-4121-a121-212121212121''"
  "sample_id 48 = ''30303030-3030-4030-b030-303030303030''"
  "sample_id 49 = ''31313131-3131-4131-b131-313131313131''"
  "sample_id 64 = ''40404040-4040-4040-8040-404040404040''"
  "sample_id 65 = ''41414141-4141-4141-8141-414141414141''"
  "sample_id 80 = ''50505050-5050-4050-9050-505050505050''"
  "sample_id 81 = ''51515151-5151-4151-9151-515151515151''"
  by code_simp+

text \<open>The names are only compared; their texts are not needed for that.\<close>

lemma sample_ids_differ:
  "distinct (map sample_id [16, 17, 32, 33, 48, 49, 64, 65, 80, 81])"
  by (simp add: sample_id_texts)

lemma sample_id_neq:
  "m \<in> {16, 17, 32, 33, 48, 49, 64, 65, 80, 81} \<Longrightarrow> n \<in> {16, 17, 32, 33, 48, 49, 64, 65, 80, 81} \<Longrightarrow>
     sample_id m = sample_id n \<longleftrightarrow> m = n"
  using sample_ids_differ unfolding distinct_map by (auto dest: inj_onD)

section \<open>The history of an operation\<close>

definition audited :: "string \<Rightarrow> string \<Rightarrow> string \<Rightarrow> json \<Rightarrow> ServerDb \<Rightarrow> ServerDb" where
  "audited i d kind payload db = db\<lparr>sd_audit := sd_audit db @ [audit_row i d kind ''web'' payload sample_now],
     sd_activity := sd_activity db @ [done_activity (fixed_zone 0) i d kind ''admin''
       (humanActivityDetails kind payload) sample_now sample_now],
     sd_step := sd_step db @ [step_row i ''requested'' ''admin'' sample_now [], step_row i ''completed'' ''server'' sample_now []]\<rparr>"

definition unused :: "string \<Rightarrow> ServerDb \<Rightarrow> bool" where
  "unused i db \<longleftrightarrow> i \<notin> aw_uuid ` set (sd_audit db) \<and> i \<notin> tw_id ` set (sd_activity db) \<and> i \<notin> ew_activity ` set (sd_step db)"

lemma insertAudit_sample:
  assumes "unused (sample_id (n + int k)) db" and "has_device d db" and "completedAdminAuditKind kind"
  shows "insertAudit (server_env n) k d kind payload sample_now db = (Inr (), audited (sample_id (n + int k)) d kind payload db)"
  using assms
  by (auto simp: insertAudit_def requires_def andThen_def run_simps insertCompletedAdminActivity_def
      insert_or_ignore_activity_def upsertActivityStep_def has_activity_def has_device_def table_simps
      unused_def audited_def done_activity_def tbl_insert_ignore_def step_key_def step_row_def image_iff)

lemma unused_simps [simp]:
  "unused i (audited j d kind payload db) \<longleftrightarrow> i \<noteq> j \<and> unused i db"
  "unused i (bump_rows d f t db) \<longleftrightarrow> unused i db"
  "unused i (write_routine d r db) \<longleftrightarrow> unused i db"
  by (auto simp: unused_def audited_def audit_row_def done_activity_def step_row_def bump_rows_def
      update_device_def write_routine_def)

lemma audited_simps [simp]:
  "sd_device (audited j d kind payload db) = sd_device db" "sd_policy (audited j d kind payload db) = sd_policy db"
  "sd_quota (audited j d kind payload db) = sd_quota db" "sd_routine (audited j d kind payload db) = sd_routine db"
  "sd_day (audited j d kind payload db) = sd_day db" "sd_control (audited j d kind payload db) = sd_control db"
  "sd_command (audited j d kind payload db) = sd_command db" "sd_bonus (audited j d kind payload db) = sd_bonus db"
  "sd_usage (audited j d kind payload db) = sd_usage db"
  by (simp_all add: audited_def)

lemma bump_simps [simp]:
  "sd_device (bump_rows d f t db) = tbl_update (\<lambda>x. dv_id x = d)
     (\<lambda>x. x\<lparr>dv_policy_revision := dv_policy_revision x + 1, dv_updated := t\<rparr>) (sd_device db)"
  "sd_policy (bump_rows d f t db) = tbl_update (\<lambda>p. pw_device p = d)
     (\<lambda>p. f (p\<lparr>pw_revision := pw_revision p + 1, pw_updated := t\<rparr>)) (sd_policy db)"
  "sd_quota (bump_rows d f t db) = sd_quota db" "sd_routine (bump_rows d f t db) = sd_routine db"
  "sd_day (bump_rows d f t db) = sd_day db" "sd_control (bump_rows d f t db) = sd_control db"
  "sd_command (bump_rows d f t db) = sd_command db" "sd_bonus (bump_rows d f t db) = sd_bonus db"
  "sd_usage (bump_rows d f t db) = sd_usage db"
  by (simp_all add: bump_rows_def update_device_def)

lemma write_simps [simp]:
  "sd_device (write_routine d r db) = sd_device db" "sd_policy (write_routine d r db) = sd_policy db"
  "sd_quota (write_routine d r db) = sd_quota db" "sd_control (write_routine d r db) = sd_control db"
  "sd_command (write_routine d r db) = sd_command db" "sd_bonus (write_routine d r db) = sd_bonus db"
  "sd_usage (write_routine d r db) = sd_usage db"
  by (simp_all add: write_routine_def)

section \<open>A device\<close>

definition sdb0 :: ServerDb where
  "sdb0 = empty_server\<lparr>sd_device := [new_device pc ''pc'' DefaultAvatarKey sample_now],
     sd_policy := [\<lparr>pw_device = pc, pw_revision = 1, pw_paused = False, pw_blocked = False, pw_warning = 10,
       pw_verifier = None, pw_updated = sample_now\<rparr>],
     sd_control := [\<lparr>cw_device = pc, cw_revision = 1, cw_paused = False, cw_blocked = False,
       cw_updated = sample_now\<rparr>],
     sd_quota := map (\<lambda>d. \<lparr>qw_device = pc, qw_weekday = d, qw_seconds = 0\<rparr>) weekdays\<rparr>"

definition sdb1 :: ServerDb where
  "sdb1 = audited (sample_id 17) pc ''device_created'' (JObject [(''name'', JString ''pc'')]) sdb0"

lemma sample_clock: "clock_ok sample_now" "\<not> is_zero sample_now"
  unfolding clock_ok_def by code_simp+

lemma sample_names: "TrimSpace ''pc'' = ''pc''" "name_ok ''pc''" "ValidAvatarKey DefaultAvatarKey"
  "DefaultAvatarKey \<noteq> []" "completedAdminAuditKind ''device_created''" "completedAdminAuditKind ''routine_saved''"
  by code_simp+

lemma device_created: "fst (CreateDeviceWithAvatar (server_env 16) ''pc'' [] sample_now empty_server) \<noteq> Inl e
  \<and> snd (CreateDeviceWithAvatar (server_env 16) ''pc'' [] sample_now empty_server) = sdb1"
proof -
  have ins: "insert_device pc ''pc'' DefaultAvatarKey sample_now empty_server = (Inr (), sdb0)"
    by (simp add: insert_device_def requires_def andThen_def run_simps empty_server_def sdb0_def
        has_device_def tbl_has_def new_device_def)
  have "unused (sample_id (16 + int 1)) sdb0" "has_device pc sdb0"
    by (simp_all add: unused_def sdb0_def empty_server_def has_device_def tbl_has_def new_device_def)
  from insertAudit_sample [OF this sample_names(5), of "JObject [(''name'', JString ''pc'')]"]
  have "insertAudit (server_env 16) (Suc 0) pc ''device_created'' (JObject [(''name'', JString ''pc'')]) sample_now sdb0
      = (Inr (), sdb1)" by (simp add: sdb1_def)
  with ins show ?thesis
    by (simp add: CreateDeviceWithAvatar_def Let_def sample_names sample_clock run_simps transaction_def andThen_def)
qed

lemma sdb1_view:
  "sd_device sdb1 = [new_device pc ''pc'' DefaultAvatarKey sample_now]"
  "sd_policy sdb1 = [\<lparr>pw_device = pc, pw_revision = 1, pw_paused = False, pw_blocked = False, pw_warning = 10,
       pw_verifier = None, pw_updated = sample_now\<rparr>]"
  "sd_control sdb1 = [\<lparr>cw_device = pc, cw_revision = 1, cw_paused = False, cw_blocked = False,
       cw_updated = sample_now\<rparr>]"
  "sd_quota sdb1 = map (\<lambda>d. \<lparr>qw_device = pc, qw_weekday = d, qw_seconds = 0\<rparr>) weekdays"
  "sd_routine sdb1 = []" "sd_day sdb1 = []" "sd_command sdb1 = []" "sd_bonus sdb1 = []" "sd_usage sdb1 = []"
  "unused i sdb1 \<longleftrightarrow> i \<noteq> sample_id 17"
  by (simp_all add: sdb1_def sdb0_def empty_server_def) (simp add: unused_def)

lemma reachable_1: "server_reachable sdb1"
proof -
  obtain r where "CreateDeviceWithAvatar (server_env 16) ''pc'' [] sample_now empty_server = (r, sdb1)"
    using device_created by (metis prod.collapse)
  from server_step.create_device [OF sample_clock(1) this] show ?thesis
    by (rule server_reachable.step [OF server_reachable.start])
qed

section \<open>Two routines\<close>

definition sample_evening :: server_routine where
  "sample_evening = (sample_server_routine [] Monday 79200 21600)\<lparr>vr_Name := ''noite''\<rparr>"

definition sample_afternoon :: server_routine where
  "sample_afternoon = (sample_server_routine [] Monday 50400 54000)\<lparr>vr_Name := ''tarde''\<rparr>"

definition saved_payload :: "string \<Rightarrow> int \<Rightarrow> server_routine \<Rightarrow> json" where
  "saved_payload action revision r = JObject [(''action'', JString action), (''icon_key'', JString (vr_IconKey r)),
     (''name'', JString (vr_Name r)), (''revision'', JNumber (show_int revision)), (''routine_id'', JString (vr_ID r))]"

lemma save_routine_runs:
  assumes "routine_error r = None" and "vr_Name r = TrimSpace (vr_Name r)" and "vr_ID r = []" and "vr_IconKey r \<noteq> []"
    and "conflicting (r\<lparr>vr_ID := sample_id n\<rparr>) (loadRoutines d db) = None"
    and "tbl_find pw_device d (sd_policy db) = Some p" and "has_device d db" and "unused (sample_id (n + 1)) db"
  shows "SaveRoutine (server_env n) d r sample_now db = (Inr (sample_id n), audited (sample_id (n + 1)) d ''routine_saved''
      (saved_payload ''created'' (pw_revision p + 1) (r\<lparr>vr_ID := sample_id n\<rparr>))
      (bump_rows d (\<lambda>x. x\<lparr>pw_warning := pw_warning p\<rparr>) sample_now (write_routine d (r\<lparr>vr_ID := sample_id n\<rparr>) db)))"
proof -
  let ?r = "r\<lparr>vr_ID := sample_id n\<rparr>"
  let ?db = "bump_rows d (\<lambda>x. x\<lparr>pw_warning := pw_warning p\<rparr>) sample_now (write_routine d ?r db)"
  have "tbl_find pw_device d (tbl_update (\<lambda>p. pw_device p = d)
      (\<lambda>x. x\<lparr>pw_revision := pw_revision x + 1, pw_updated := sample_now, pw_warning := pw_warning p\<rparr>) t)
      = map_option (\<lambda>x. x\<lparr>pw_revision := pw_revision x + 1, pw_updated := sample_now, pw_warning := pw_warning p\<rparr>) (tbl_find pw_device d t)" for t :: "DevicePolicyRow list"
    by (induction t) (auto simp: tbl_update_def)
  then have bump: "bumpPolicyKeepWarning d sample_now (write_routine d ?r db) = (Inr (pw_revision p + 1), ?db)"
    using assms(6) by (simp add: bumpPolicyKeepWarning_def bumpPolicy_def run_simps)
  have dev: "has_device d ?db"
  proof -
    have "map dv_id (sd_device ?db) = map dv_id (sd_device db)" by (simp add: tbl_update_def)
    then show ?thesis using assms(7) unfolding has_device_def tbl_has_iff by (metis set_map)
  qed
  have audit: "insertAudit (server_env n) (Suc 0) d ''routine_saved'' payload sample_now ?db
      = (Inr (), audited (sample_id (n + 1)) d ''routine_saved'' payload ?db)" for payload
    using insertAudit_sample [of n 1 ?db d "''routine_saved''" payload] assms(8) dev sample_names(6) by simp
  have r: "r\<lparr>vr_Name := TrimSpace (vr_Name r)\<rparr> = r" using assms(2) by (cases r) simp
  show ?thesis
    using assms(1,3-5,7) bump audit
    by (simp add: SaveRoutine_def Let_def r run_simps store_routine_def transaction_def choose_icon_def
        commit_routine_def requires_def andThen_def saved_payload_def)
qed

definition sdb2 :: ServerDb where
  "sdb2 = audited (sample_id 33) pc ''routine_saved'' (saved_payload ''created'' 2 (sample_evening\<lparr>vr_ID := sample_id 32\<rparr>))
     (bump_rows pc (\<lambda>x. x\<lparr>pw_warning := 10\<rparr>) sample_now (write_routine pc (sample_evening\<lparr>vr_ID := sample_id 32\<rparr>) sdb1))"

definition sdb3 :: ServerDb where
  "sdb3 = audited (sample_id 49) pc ''routine_saved'' (saved_payload ''created'' 3 (sample_afternoon\<lparr>vr_ID := sample_id 48\<rparr>))
     (bump_rows pc (\<lambda>x. x\<lparr>pw_warning := 10\<rparr>) sample_now (write_routine pc (sample_afternoon\<lparr>vr_ID := sample_id 48\<rparr>) sdb2))"

lemma sample_routines_ok:
  "routine_error sample_evening = None" "routine_error sample_afternoon = None"
  "vr_Name sample_evening = TrimSpace (vr_Name sample_evening)" "vr_Name sample_afternoon = TrimSpace (vr_Name sample_afternoon)"
  by code_simp+

lemma sdb2_no_conflict: "conflicting (sample_afternoon\<lparr>vr_ID := sample_id 48\<rparr>) (loadRoutines pc sdb2) = None"
proof -
  have "Option.is_none (conflicting (sample_afternoon\<lparr>vr_ID := sample_id 48\<rparr>) (loadRoutines pc sdb2))" by code_simp
  then show ?thesis by (simp add: is_none_code(1) Option.is_none_def)
qed

lemma sdb2_saved: "SaveRoutine (server_env 32) pc sample_evening sample_now sdb1 = (Inr (sample_id 32), sdb2)"
proof -
  have find: "tbl_find pw_device pc (sd_policy sdb1) = Some \<lparr>pw_device = pc, pw_revision = 1, pw_paused = False,
      pw_blocked = False, pw_warning = 10, pw_verifier = None, pw_updated = sample_now\<rparr>"
    by (simp add: sdb1_view)
  have "vr_ID sample_evening = []" "vr_IconKey sample_evening \<noteq> []"
    by (simp_all add: sample_evening_def sample_server_routine_def)
  moreover have "conflicting x (loadRoutines pc sdb1) = None" for x
    by (simp add: conflicting_def loadRoutines_def routines_of_def sdb1_view)
  moreover have "has_device pc sdb1" by (simp add: has_device_def tbl_has_def sdb1_view new_device_def)
  ultimately show ?thesis
    using save_routine_runs [OF sample_routines_ok(1,3) _ _ _ find, of 32]
    by (simp add: sdb2_def sdb1_view sample_id_neq)
qed

lemma sdb2_view:
  "sd_policy sdb2 = [\<lparr>pw_device = pc, pw_revision = 2, pw_paused = False, pw_blocked = False, pw_warning = 10,
       pw_verifier = None, pw_updated = sample_now\<rparr>]"
  "has_device pc sdb2" "unused (sample_id 49) sdb2"
  by (simp_all add: sdb2_def sdb1_view tbl_update_def has_device_def tbl_has_def new_device_def sample_id_neq)

lemma sdb3_saved: "SaveRoutine (server_env 48) pc sample_afternoon sample_now sdb2 = (Inr (sample_id 48), sdb3)"
proof -
  have find: "tbl_find pw_device pc (sd_policy sdb2) = Some \<lparr>pw_device = pc, pw_revision = 2, pw_paused = False,
      pw_blocked = False, pw_warning = 10, pw_verifier = None, pw_updated = sample_now\<rparr>"
    by (simp add: sdb2_view)
  have "vr_ID sample_afternoon = []" "vr_IconKey sample_afternoon \<noteq> []"
    by (simp_all add: sample_afternoon_def sample_server_routine_def)
  then show ?thesis
    using save_routine_runs [OF sample_routines_ok(2,4) _ _ sdb2_no_conflict find] sdb2_view(2,3)
    by (simp add: sdb3_def)
qed

lemma sample_fresh: "fresh_routine (server_env 32) r sdb1" "fresh_routine (server_env 48) r sdb2"
  by (simp_all add: fresh_routine_def tbl_has_def sdb1_view sample_id_def [symmetric])
    (simp add: sdb2_def sdb1_view write_routine_def tbl_upsert_def tbl_has_def sample_id_neq)

lemma reachable_3: "server_reachable sdb3"
  using server_reachable.step [OF server_reachable.step [OF reachable_1
    server_step.save_routine [OF sample_clock(1) sample_fresh(1) sdb2_saved]]
    server_step.save_routine [OF sample_clock(1) sample_fresh(2) sdb3_saved]] .

lemma sdb3_view:
  "sd_device sdb3 = [(new_device pc ''pc'' DefaultAvatarKey sample_now)\<lparr>dv_policy_revision := 3\<rparr>]"
  "sd_policy sdb3 = [\<lparr>pw_device = pc, pw_revision = 3, pw_paused = False, pw_blocked = False, pw_warning = 10,
       pw_verifier = None, pw_updated = sample_now\<rparr>]"
  "sd_control sdb3 = [\<lparr>cw_device = pc, cw_revision = 1, cw_paused = False, cw_blocked = False,
       cw_updated = sample_now\<rparr>]"
  "sd_command sdb3 = []" "sd_bonus sdb3 = []" "sd_usage sdb3 = []"
  by (simp_all add: sdb3_def sdb2_def sdb1_view tbl_update_def new_device_def)

lemma sdb3_routines: "routines_of pc sdb3 = sd_routine sdb3" "length (sd_routine sdb3) = 2"
  by (simp_all add: routines_of_def sdb3_def sdb2_def sdb1_view write_routine_def tbl_upsert_def tbl_has_def sample_id_neq)

section \<open>A queued control and a queued bonus\<close>

definition awaiting :: "string \<Rightarrow> string \<Rightarrow> string \<Rightarrow> details \<Rightarrow> ServerDb \<Rightarrow> ServerDb" where
  "awaiting i d kind details db = db\<lparr>
     sd_activity := sd_activity db @ [waiting_activity i d kind details sample_now],
     sd_step := sd_step db @ [step_row i ''requested'' ''admin'' sample_now [], step_row i ''stored'' ''server'' sample_now []]\<rparr>"

lemma insertAdminActivity_sample:
  assumes "unused i db" and "has_device d db"
  shows "insertAdminActivity i d kind details sample_now db = (Inr (), awaiting i d kind details db)"
  using assms
  by (auto simp: insertAdminActivity_def requires_def andThen_def run_simps upsertActivityStep_def
      has_activity_def has_device_def table_simps unused_def awaiting_def waiting_activity_def
      tbl_insert_ignore_def step_key_def step_row_def image_iff)

lemma awaiting_simps [simp]:
  "sd_device (awaiting i d kind details db) = sd_device db" "sd_policy (awaiting i d kind details db) = sd_policy db"
  "sd_control (awaiting i d kind details db) = sd_control db" "sd_command (awaiting i d kind details db) = sd_command db"
  "sd_bonus (awaiting i d kind details db) = sd_bonus db" "sd_usage (awaiting i d kind details db) = sd_usage db"
  "unused j (awaiting i d kind details db) \<longleftrightarrow> j \<noteq> i \<and> unused j db"
  by (auto simp: awaiting_def unused_def waiting_activity_def step_row_def)

definition sdb4 :: ServerDb where
  "sdb4 = awaiting (sample_id 64) pc ''block_now'' [(''command'', ''block_now'')] (sdb3\<lparr>
     sd_control := [\<lparr>cw_device = pc, cw_revision = 2, cw_paused = False, cw_blocked = True, cw_updated = sample_now\<rparr>],
     sd_command := [new_command (sample_id 64) pc ''block_now'' ''{}'' sample_now]\<rparr>)"

lemma sdb3_unused: "unused i sdb3 \<longleftrightarrow> i \<notin> {sample_id 17, sample_id 33, sample_id 49}"
  by (auto simp: sdb3_def sdb2_def sdb1_view)

lemma sdb4_queued: "QueueControlOperation (server_env 64) pc ''block_now'' sample_now sdb3 = (Inr (sample_id 64), sdb4)"
proof -
  have discard: "discard_pending_controls pc sdb3 = sdb3"
    by (simp add: discard_pending_controls_def delete_activities_def tbl_delete_def sdb3_view Let_def)
  let ?db = "sdb3\<lparr>sd_control := [\<lparr>cw_device = pc, cw_revision = 2, cw_paused = False, cw_blocked = True, cw_updated = sample_now\<rparr>]\<rparr>"
  have change: "change_control pc (False, True) sample_now sdb3 = (Inr (), ?db)"
    by (simp add: change_control_def andThen_def run_simps sdb3_view tbl_has_def tbl_update_def)
  have insert: "insert_command (new_command (sample_id 64) pc ''block_now'' ''{}'' sample_now) ?db
      = (Inr (), ?db\<lparr>sd_command := [new_command (sample_id 64) pc ''block_now'' ''{}'' sample_now]\<rparr>)"
    by (simp add: insert_command_def requires_def andThen_def run_simps sdb3_view tbl_has_def has_device_def
        new_command_def new_device_def)
  have "unused (sample_id 64) (?db\<lparr>sd_command := c\<rparr>) \<and> has_device pc (?db\<lparr>sd_command := c\<rparr>)" for c
    using sdb3_unused [of "sample_id 64"]
    by (simp add: unused_def sample_id_neq has_device_def tbl_has_def sdb3_view new_device_def)
  from insertAdminActivity_sample [OF conjunct1 [OF this] conjunct2 [OF this]]
  show ?thesis
    using discard change insert
    by (simp add: QueueControlOperation_def control_flags_def transaction_def andThen_def run_simps
        latest_control_def sdb3_view sdb4_def)
qed

lemma reachable_4: "server_reachable sdb4"
  by (rule server_reachable.step [OF reachable_3 server_step.queue_control [OF sample_clock(1) sdb4_queued]])

definition sdb5 :: ServerDb where
  "sdb5 = (awaiting (sample_id 80) pc ''add_bonus'' [(''minutes'', show_int (go_div 900 60))]
     ((bump_rows pc (\<lambda>x. x\<lparr>pw_warning := 10\<rparr>) sample_now sdb4)\<lparr>sd_command := sd_command sdb4
        @ [new_command (sample_id 80) pc ''add_bonus'' (credit_text (sample_id 80) 900 sample_now) sample_now]\<rparr>))
     \<lparr>sd_audit := sd_audit sdb4 @ [audit_row (sample_id 81) pc ''bonus_queued'' ''web''
        (JObject [(''origin'', JString ''web''), (''seconds'', JNumber (show_int 900))]) sample_now]\<rparr>"

lemma sdb4_view:
  "sd_device sdb4 = sd_device sdb3" "sd_policy sdb4 = sd_policy sdb3"
  "sd_control sdb4 = [\<lparr>cw_device = pc, cw_revision = 2, cw_paused = False, cw_blocked = True, cw_updated = sample_now\<rparr>]"
  "sd_command sdb4 = [new_command (sample_id 64) pc ''block_now'' ''{}'' sample_now]"
  "sd_bonus sdb4 = []" "sd_usage sdb4 = []"
  "unused i sdb4 \<longleftrightarrow> i \<notin> {sample_id 17, sample_id 33, sample_id 49, sample_id 64}"
proof -
  have "unused i (sdb3\<lparr>sd_control := x, sd_command := y\<rparr>) = unused i sdb3" for x y by (simp add: unused_def)
  then show "unused i sdb4 \<longleftrightarrow> i \<notin> {sample_id 17, sample_id 33, sample_id 49, sample_id 64}"
    by (auto simp: sdb4_def sdb3_unused)
qed (simp_all add: sdb4_def sdb3_view)

lemma sdb5_queued: "QueueRemoteBonus (server_env 80) pc 900 sample_now sdb4 = (Inr (sample_id 80), sdb5)"
proof -
  let ?bumped = "bump_rows pc (\<lambda>x. x\<lparr>pw_warning := 10\<rparr>) sample_now sdb4"
  let ?command = "new_command (sample_id 80) pc ''add_bonus'' (credit_text (sample_id 80) 900 sample_now) sample_now"
  let ?db = "?bumped\<lparr>sd_command := sd_command sdb4 @ [?command]\<rparr>"
  have device: "has_device pc ?bumped" "has_device pc ?db"
    by (simp_all add: has_device_def tbl_has_def sdb4_view sdb3_view tbl_update_def new_device_def)
  have bump: "bumpPolicyKeepWarning pc sample_now sdb4 = (Inr 4, ?bumped)"
    by (simp add: bumpPolicyKeepWarning_def bumpPolicy_def andThen_def run_simps sdb4_view sdb3_view tbl_update_def)
  have insert: "insert_command ?command ?bumped = (Inr (), ?db)"
    using device(1)
    by (simp add: insert_command_def requires_def andThen_def run_simps tbl_has_def sdb4_view new_command_def
        sample_id_neq pending_control_def validControlKind_def)
  have "unused i ?db = unused i sdb4" for i
    using unused_simps(2) [of i pc _ sample_now sdb4] by (simp add: unused_def)
  then have admin: "insertAdminActivity (sample_id 80) pc ''add_bonus'' details sample_now ?db
      = (Inr (), awaiting (sample_id 80) pc ''add_bonus'' details ?db)" for details
    using device(2) by (intro insertAdminActivity_sample) (simp_all add: sdb4_view sample_id_neq)
  have "sd_audit (awaiting i d k details ?db) = sd_audit sdb4" for i d k details
    by (simp add: awaiting_def bump_rows_def update_device_def)
  moreover have "\<not> tbl_has aw_uuid (sample_id 81) (sd_audit sdb4)"
    using sdb4_view(7) [of "sample_id 81"] by (simp add: sample_id_neq unused_def tbl_has_iff)
  moreover have "\<not> completedAdminAuditKind ''bonus_queued''"
    by (simp add: completedAdminAuditKind_def auditsWithDedicatedActivity_def)
  moreover have "has_device pc (awaiting i d k details ?db)" for i d k details
    using device(2) by (simp add: has_device_def)
  ultimately have "insertAudit (server_env 80) (Suc 0) pc ''bonus_queued'' payload sample_now (awaiting i d k details ?db)
      = (Inr (), (awaiting i d k details ?db)\<lparr>sd_audit := sd_audit sdb4 @ [audit_row (sample_id 81) pc ''bonus_queued'' ''web'' payload sample_now]\<rparr>)" for payload i d k details
    by (simp add: insertAudit_def andThen_def run_simps requires_def)
  with bump insert admin show ?thesis
    by (simp add: QueueRemoteBonus_def transaction_def andThen_def run_simps sdb5_def duration_defs go_div_def
        sample_clock)
qed

lemma reachable_5: "server_reachable sdb5"
  by (rule server_reachable.step [OF reachable_4 server_step.queue_bonus [OF sample_clock(1) sdb5_queued]])

lemma sdb5_view:
  "sd_device sdb5 = [(new_device pc ''pc'' DefaultAvatarKey sample_now)\<lparr>dv_policy_revision := 4\<rparr>]"
  "sd_command sdb5 = [new_command (sample_id 64) pc ''block_now'' ''{}'' sample_now,
     new_command (sample_id 80) pc ''add_bonus'' (credit_text (sample_id 80) 900 sample_now) sample_now]"
  "sd_bonus sdb5 = []" "sd_usage sdb5 = []"
  "sd_control sdb5 = [\<lparr>cw_device = pc, cw_revision = 2, cw_paused = False, cw_blocked = True, cw_updated = sample_now\<rparr>]"
  by (simp_all add: sdb5_def sdb4_view sdb3_view tbl_update_def new_device_def)

end
