(* ===== verification/ServerControl.thy ===== *)
theory ServerControl
  imports ServerSamples
begin

text \<open>
  The properties of remote control on the server: the state it reports and the command it has
  pending agree, and queueing a control replaces the one before.
\<close>

lemma latest_control_pending:
  assumes "one_pending (sd_command db)"
  shows "latest_control d db = (case filter (pending_control d) (sd_command db) of [] \<Rightarrow> None | c # _ \<Rightarrow> Some c)"
proof -
  have "length (filter (pending_control d) (sd_command db)) \<le> 1" using assms by (simp add: one_pending_def)
  then consider "filter (pending_control d) (sd_command db) = []"
    | c where "filter (pending_control d) (sd_command db) = [c]"
    by (cases "filter (pending_control d) (sd_command db)") auto
  then show ?thesis by cases (simp_all add: latest_control_def)
qed

lemma reachable_pending:
  assumes "server_reachable db"
  shows "PendingControlKind d db = Inr (case filter (pending_control d) (sd_command db) of [] \<Rightarrow> [] | c # _ \<Rightarrow> mw_kind c)"
    and "commands_ok db"
proof -
  show "commands_ok db" by (rule reachable_commands [OF assms])
  then have "one_pending (sd_command db)" by (simp add: commands_ok_def commands_inv_def)
  then show "PendingControlKind d db = Inr (case filter (pending_control d) (sd_command db) of [] \<Rightarrow> [] | c # _ \<Rightarrow> mw_kind c)"
    by (simp add: PendingControlKind_def latest_control_pending split: list.split)
qed

lemma loadControl_row:
  assumes "commands_ok db" and "r \<in> set (sd_control db)"
  shows "loadControl (cw_device r) db = Inr \<lparr>vc_Revision = cw_revision r, vc_MonitoringPaused = cw_paused r,
    vc_ManualBlock = cw_blocked r\<rparr>"
  using assms by (simp add: loadControl_def tbl_find_keyed commands_ok_def commands_inv_def)

lemma pending_control_kind: "pending_control d c \<Longrightarrow> mw_kind c \<noteq> [] \<and> mw_device c = d"
  by (auto simp: pending_control_def validControlKind_def)

lemma control_row_matches:
  assumes "server_reachable db" and "loadControl d db = Inr ctl" and "PendingControlKind d db = Inr kind"
  shows "\<not> (vc_MonitoringPaused ctl \<and> vc_ManualBlock ctl) \<and> 1 \<le> vc_Revision ctl"
    and "kind \<noteq> [] \<Longrightarrow> control_flags kind = Some (vc_MonitoringPaused ctl, vc_ManualBlock ctl)"
proof -
  note pending = reachable_pending [OF assms(1)]
  from assms(2) obtain r where r: "r \<in> set (sd_control db)" "cw_device r = d"
    "ctl = \<lparr>vc_Revision = cw_revision r, vc_MonitoringPaused = cw_paused r, vc_ManualBlock = cw_blocked r\<rparr>"
    by (auto simp: loadControl_def split: option.splits dest!: tbl_find_SomeD)
  have row: "control_row_ok r" and keyed: "tbl_keyed cw_device (sd_control db)"
    using pending(2) r(1) by (auto simp: commands_ok_def commands_inv_def)
  have "control_flags kind = Some (cw_paused r, cw_blocked r)" if "kind \<noteq> []"
  proof -
    from that assms(3) pending(1) [of d] obtain c cs where c: "filter (pending_control d) (sd_command db) = c # cs"
      "kind = mw_kind c" by (auto split: list.splits)
    then have "c \<in> set (filter (pending_control d) (sd_command db))" by simp
    then have in_db: "c \<in> set (sd_command db)" "pending_control (mw_device c) c" "mw_device c = d"
      using pending_control_kind by auto
    with pending(2) obtain x where "x \<in> set (sd_control db)" "leads_to c x"
      unfolding commands_ok_def commands_inv_def by blast
    moreover from this in_db(3) r have "x = r" using keyed by (auto simp: leads_to_def dest: tbl_keyed_sub)
    ultimately show ?thesis using c(2) by (simp add: leads_to_def)
  qed
  then show "kind \<noteq> [] \<Longrightarrow> control_flags kind = Some (vc_MonitoringPaused ctl, vc_ManualBlock ctl)"
    by (simp add: r(3))
  show "\<not> (vc_MonitoringPaused ctl \<and> vc_ManualBlock ctl) \<and> 1 \<le> vc_Revision ctl"
    using row by (simp add: r(3) control_row_ok_def)
qed

text \<open>C14: In every database the server can reach, the control state of a device is never paused and
  blocked at once, its revision is positive, at most one control command is pending, and a pending
  command is the one that leads to the state the server reports.\<close>

theorem pending_control_matches_state:
  assumes "server_reachable db" and "loadControl d db = Inr ctl" and "PendingControlKind d db = Inr kind"
  shows "\<not> (vc_MonitoringPaused ctl \<and> vc_ManualBlock ctl) \<and> 1 \<le> vc_Revision ctl
    \<and> length (filter (pending_control d) (sd_command db)) \<le> 1
    \<and> (kind \<noteq> [] \<longrightarrow> control_flags kind = Some (vc_MonitoringPaused ctl, vc_ManualBlock ctl))"
proof -
  have "one_pending (sd_command db)"
    using reachable_pending(2) [OF assms(1)] by (simp add: commands_ok_def commands_inv_def)
  with control_row_matches [OF assms] show ?thesis by (simp add: one_pending_def)
qed

theorem pending_control_matches_state_witness:
  "\<exists>ctl. loadControl pc sdb5 = Inr ctl \<and> PendingControlKind pc sdb5 = Inr ''block_now''
     \<and> control_flags ''block_now'' = Some (vc_MonitoringPaused ctl, vc_ManualBlock ctl)"
proof -
  obtain ctl where ctl: "loadControl pc sdb5 = Inr ctl" by (simp add: loadControl_def sdb5_view)
  have kind: "PendingControlKind pc sdb5 = Inr ''block_now''"
    by (simp add: reachable_pending(1) [OF reachable_5] sdb5_view pending_control_def new_command_def validControlKind_def)
  from pending_control_matches_state [OF reachable_5 ctl kind] ctl kind show ?thesis by simp
qed

lemma kept_commands:
  assumes "queue_control d kind flags details now i db = (Inr j, db')" and "validControlKind kind"
  shows "filter (\<lambda>c. \<not> pending_control d c) (sd_command db') = filter (\<lambda>c. \<not> pending_control d c) (sd_command db)"
    and "\<exists>r\<in>set (sd_control db). cw_device r = d \<and> (\<exists>r'\<in>set (sd_control db'). cw_device r' = d
      \<and> cw_revision r' = cw_revision r + 1 \<and> (cw_paused r', cw_blocked r') = flags)"
proof -
  obtain u1 db1 u2 db2 where change: "change_control d flags now (discard_pending_controls d db) = (Inr u1, db1)"
    and ins: "insert_command (new_command i d kind ''{}'' now) db1 = (Inr u2, db2)" and db': "command_view db' = command_view db2"
    by (rule queue_control_Inr [OF assms(1)])
  note ch = change_control_Inr [OF change]
  have rows: "sd_command db' = tbl_delete (pending_control d) (sd_command db) @ [new_command i d kind ''{}'' now]"
    "sd_control db' = sd_control db1"
    using db' ch(3) by (simp_all add: command_view_def insert_command_Inr(1) [OF ins] discard_pending_controls_def Let_def)
  have "pending_control d (new_command i d kind ''{}'' now)"
    using assms(2) by (simp add: pending_control_def new_command_def)
  then show "filter (\<lambda>c. \<not> pending_control d c) (sd_command db') = filter (\<lambda>c. \<not> pending_control d c) (sd_command db)"
    by (simp add: rows tbl_delete_def)
  have same: "sd_control (discard_pending_controls d db) = sd_control db" by (simp add: discard_pending_controls_def Let_def)
  let ?f = "\<lambda>c. c\<lparr>cw_paused := fst flags, cw_blocked := snd flags, cw_revision := cw_revision c + 1, cw_updated := now\<rparr>"
  obtain r where r: "r \<in> set (sd_control db)" "cw_device r = d" using ch(1) by (auto simp: same tbl_has_iff)
  then have "?f r \<in> set (sd_control db')" by (simp add: rows(2) ch(2) same tbl_update_def)
  with r show "\<exists>r\<in>set (sd_control db). cw_device r = d \<and> (\<exists>r'\<in>set (sd_control db'). cw_device r' = d
      \<and> cw_revision r' = cw_revision r + 1 \<and> (cw_paused r', cw_blocked r') = flags)"
    by (intro bexI [of _ r] conjI bexI [of _ "?f r"]) simp_all
qed

text \<open>C15: Queueing a control is idempotent and replaces what was pending: when that control is already
  pending nothing changes; otherwise the control state takes its flags with the next revision, it
  becomes the only pending control of the device, and every other command stays. On an error
  nothing changes.\<close>

theorem queue_control_outcome:
  assumes "server_reachable db" and "clock_ok now" and "loadControl d db = Inr ctl"
    and "QueueControlOperation env d kind now db = (r, db')"
  shows "case r of Inl _ \<Rightarrow> db' = db
    | Inr commandID \<Rightarrow> if PendingControlKind d db = Inr kind then db' = db
        else filter (pending_control d) (sd_command db') = [new_command commandID d kind ''{}'' now]
          \<and> filter (\<lambda>c. \<not> pending_control d c) (sd_command db') = filter (\<lambda>c. \<not> pending_control d c) (sd_command db)
          \<and> (\<exists>paused blocked. control_flags kind = Some (paused, blocked)
               \<and> loadControl d db' = Inr \<lparr>vc_Revision = vc_Revision ctl + 1, vc_MonitoringPaused = paused,
                   vc_ManualBlock = blocked\<rparr>)"
proof (cases "control_flags kind")
  case None
  with assms(4) show ?thesis by (auto simp: QueueControlOperation_def run_simps)
next
  case (Some flags)
  note pending = reachable_pending [OF assms(1)] and valid = control_flags_valid [OF Some]
  have one: "one_pending (sd_command db)" using pending(2) by (simp add: commands_ok_def commands_inv_def)
  have "kind \<noteq> []" using valid by (auto simp: validControlKind_def)
  then have same: "PendingControlKind d db = Inr kind \<longleftrightarrow>
      (case latest_control d db of None \<Rightarrow> False | Some c \<Rightarrow> mw_kind c = kind)"
    unfolding pending(1) latest_control_pending [OF one] by (simp split: list.split)
  from assms(4) [unfolded QueueControlOperation_def Some option.case] show ?thesis
  proof (cases rule: transaction_cases)
    case (committed commandID)
    show ?thesis
    proof (cases "PendingControlKind d db = Inr kind")
      case True
      with committed same show ?thesis by (auto simp: run_simps split: if_splits)
    next
      case False
      with committed(2) same obtain i where i: "i \<noteq> []" "plain_text i"
        and run: "queue_control d kind flags [(''command'', kind)] now i db = (Inr commandID, db')"
        by (auto simp: run_simps elim!: andThen_InrE [of "newID env 0"] dest!: newID_Inr)
      have queued: "commandID = i" "control_queued d kind now i db'"
        using commitsD [OF commits_queue_control [OF Some i] pending(2) run] assms(2) by (simp_all add: clock_ok_def)
      note kept = kept_commands [OF run conjunct1 [OF valid]]
      from kept(2) obtain x y where x: "x \<in> set (sd_control db)" "cw_device x = d" and y: "y \<in> set (sd_control db')"
        "cw_device y = d" "cw_revision y = cw_revision x + 1" "(cw_paused y, cw_blocked y) = flags" by blast
      have "vc_Revision ctl = cw_revision x" using loadControl_row [OF pending(2) x(1)] assms(3) x(2) by auto
      moreover have "commands_ok db'" using queued(2) by (simp add: control_queued_def)
      ultimately have "loadControl d db' = Inr \<lparr>vc_Revision = vc_Revision ctl + 1, vc_MonitoringPaused = cw_paused y,
          vc_ManualBlock = cw_blocked y\<rparr>"
        using loadControl_row [of db' y] y by simp
      with False queued kept(1) Some y(4) show ?thesis by (simp add: committed(1) control_queued_def)
    qed
  qed simp
qed

theorem queue_control_outcome_witness:
  "\<exists>commandID db'. QueueControlOperation (server_env 64) pc ''block_now'' sample_now sdb3 = (Inr commandID, db')
     \<and> filter (pending_control pc) (sd_command db') = [new_command commandID pc ''block_now'' ''{}'' sample_now]"
proof -
  obtain ctl where ctl: "loadControl pc sdb3 = Inr ctl" by (simp add: loadControl_def sdb3_view)
  have "PendingControlKind pc sdb3 = Inr []" by (simp add: reachable_pending(1) [OF reachable_3] sdb3_view)
  with queue_control_outcome [OF reachable_3 sample_clock(1) ctl sdb4_queued] sdb4_queued show ?thesis by auto
qed

end
