(* ===== verification/ServerProps.thy ===== *)
theory ServerProps
  imports ServerSamples SyncProps
begin

text \<open>
  The properties of the server's store: what every reachable database promises to the agents
  that read it.
\<close>

section \<open>Policies\<close>

lemma loaded_device:
  assumes "policies_ok db" and "LoadDevice d db = Inr (dev, p)"
  shows "dc_PolicyRevision dev = vp_Revision p" and "loadPolicy d db = Inr p"
proof -
  from assms(2) obtain dv where dv: "tbl_find dv_id d (sd_device db) = Some dv" "dev = device_of_row dv"
    and load: "loadPolicy d db = Inr p"
    by (auto simp: LoadDevice_def split: option.splits sum.splits)
  from load obtain pw where p: "tbl_find pw_device d (sd_policy db) = Some pw" "vp_Revision p = pw_revision pw"
    by (auto simp: loadPolicy_def split: option.splits)
  show "loadPolicy d db = Inr p" by (rule load)
  note rows = tbl_find_SomeD [OF dv(1)] tbl_find_SomeD [OF p(1)]
  have keyed: "tbl_keyed pw_device (sd_policy db)"
    and agree: "device_revisions db = map (\<lambda>p. (pw_device p, pw_revision p)) (sd_policy db)"
    using assms(1) by (simp_all add: policies_ok_def revisions_agree_def)
  have "(d, dv_policy_revision dv) \<in> set (device_revisions db)"
    using rows(1) by (force simp: device_revisions_def)
  then obtain q where "q \<in> set (sd_policy db)" "pw_device q = d" "pw_revision q = dv_policy_revision dv"
    unfolding agree by auto
  moreover from this(1,2) rows(2) have "q = pw" using keyed by (auto dest: tbl_keyed_sub)
  ultimately show "dc_PolicyRevision dev = vp_Revision p" by (simp add: dv(2) p(2) device_of_row_def)
qed

lemma seconds_of_day:
  assumes "0 \<le> n" and "n \<le> 86400"
  shows "whole_seconds (seconds_duration n)" and "n < 86400 \<Longrightarrow> seconds_duration n < day"
proof -
  have "seconds_duration n = n * second" using assms by (intro seconds_duration_id) simp_all
  then show "whole_seconds (seconds_duration n)" "n < 86400 \<Longrightarrow> seconds_duration n < day"
    using assms(1) by (simp_all add: whole_seconds_def duration_defs)
qed

text \<open>The policy of a reachable database passes the checks of the agent that receives it.\<close>

lemma loaded_policy_valid:
  assumes ok: "policies_ok db" and load: "loadPolicy d db = Inr p"
  shows "validatePolicy (fromProtocolPolicy (policyForAPI p)) = None" and "1 \<le> vp_Revision p"
proof -
  from load obtain pw where pw: "pw \<in> set (sd_policy db)" "vp_Revision p = pw_revision pw"
      "vp_WarningMinutes p = pw_warning pw" "vp_UpdatedAt p = pw_updated pw"
    and quota: "vp_WeeklyQuota p = quota_of d db"
    and routines: "vp_Routines p = map (stored_routine db) (sort_key (\<lambda>r. (rw_name r, rw_id r)) (routines_of d db))"
    by (auto simp: loadPolicy_def split: option.splits dest!: tbl_find_SomeD)
  have rows: "1 \<le> pw_revision pw" "0 \<le> pw_warning pw" "\<not> is_zero (pw_updated pw)"
    using ok pw(1) by (auto simp: policies_ok_def policy_rows_ok_def)
  then show "1 \<le> vp_Revision p" by (simp add: pw)
  have "0 \<le> quota_of d db wd \<and> quota_of d db wd \<le> 86400" for wd
    using ok by (auto simp: quota_of_def policies_ok_def policy_rows_ok_def split: option.split dest!: find_SomeD)
  then have q: "whole_seconds (seconds_duration (quota_of d db wd))" for wd by (simp add: seconds_of_day)
  let ?rs = "ps_Routines (fromProtocolPolicy (policyForAPI p))"
  have rs: "?rs = map (\<lambda>r. \<lparr>sr_ID = rw_id r, sr_Name = rw_name r, sr_Days = vr_Days (stored_routine db r),
      sr_Start = seconds_duration (rw_start r), sr_End = seconds_duration (rw_end r), sr_Enabled = rw_enabled r\<rparr>)
      (sort_key (\<lambda>r. (rw_name r, rw_id r)) (routines_of d db))"
    by (simp add: fromProtocolPolicy_def policyForAPI_def routines stored_routine_def)
  have "distinct (map rw_id (routines_of d db))"
    using ok by (simp add: policies_ok_def routines_ok_def tbl_keyed_def routines_of_def distinct_map_filter)
  then have "distinct (map sr_ID ?rs)"
    by (simp add: rs comp_def distinct_map)
  moreover have "stored_routine_ok r" if "r \<in> set ?rs" for r
  proof -
    from that obtain row where row: "row \<in> set (sd_routine db)" "sr_ID r = rw_id row" "sr_Name r = rw_name row"
      "sr_Start r = seconds_duration (rw_start row)" "sr_End r = seconds_duration (rw_end row)"
      by (auto simp: rs routines_of_def)
    then have "routine_row_ok row" using ok by (simp add: policies_ok_def routines_ok_def)
    then show ?thesis
      by (simp add: routine_row_ok_def name_ok_def row stored_routine_ok_def seconds_of_day)
  qed
  ultimately show "validatePolicy (fromProtocolPolicy (policyForAPI p)) = None"
    using rows q unfolding validatePolicy_None
    by (simp add: fromProtocolPolicy_def policyForAPI_def pw quota)
qed

text \<open>C13: In every database the server can reach, the revision of a device agrees with the one of its
  policy, the policy passes the validation of the agent that receives it, and no two of its
  routines are in force at the same instant, whatever the time zone.\<close>

theorem server_policies_consistent:
  assumes "server_reachable db" and "LoadDevice d db = Inr (dev, p)"
  shows "dc_PolicyRevision dev = vp_Revision p \<and> 1 \<le> vp_Revision p
    \<and> validatePolicy (fromProtocolPolicy (policyForAPI p)) = None
    \<and> (\<forall>r1\<in>set (vp_Routines p). \<forall>r2\<in>set (vp_Routines p). vr_ID r1 \<noteq> vr_ID r2 \<longrightarrow>
        \<not> (\<exists>t. routine_in_force (fixed_zone off) t (engine_routine r1)
             \<and> routine_in_force (fixed_zone off) t (engine_routine r2)))"
proof -
  note ok = reachable_policies [OF assms(1)]
  note loaded = loaded_device [OF ok assms(2)]
  have apart: "\<not> (\<exists>t. routine_in_force (fixed_zone off) t (engine_routine r1)
             \<and> routine_in_force (fixed_zone off) t (engine_routine r2))"
    if r: "r1 \<in> set (vp_Routines p)" "r2 \<in> set (vp_Routines p)" "vr_ID r1 \<noteq> vr_ID r2" for r1 r2
  proof -
    from loaded(2) have "set (vp_Routines p) = stored_routine db ` set (routines_of d db)"
      by (auto simp: loadPolicy_def split: option.splits)
    with r obtain x1 x2 where x: "r1 = stored_routine db x1" "r2 = stored_routine db x2"
      "x1 \<in> set (sd_routine db)" "x2 \<in> set (sd_routine db)" "rw_device x1 = d" "rw_device x2 = d"
      by (auto simp: routines_of_def)
    have "routine_row_ok x1" "routine_row_ok x2" "\<not> routinesOverlap r1 r2"
      using ok x r(3) by (auto simp: policies_ok_def routines_ok_def no_overlap_def stored_routine_def)
    moreover from this(1,2) have "second_in_day r1" "second_in_day r2"
      by (simp_all add: x second_in_day_def routine_row_ok_def stored_routine_def)
    ultimately show ?thesis using fixed.overlap_in_force by blast
  qed
  with loaded loaded_policy_valid [OF ok loaded(2)] show ?thesis by blast
qed

theorem server_policies_consistent_witness:
  "\<exists>dev p. LoadDevice pc sdb3 = Inr (dev, p) \<and> vp_Revision p = 3 \<and> length (vp_Routines p) = 2
     \<and> dc_PolicyRevision dev = vp_Revision p \<and> validatePolicy (fromProtocolPolicy (policyForAPI p)) = None"
proof -
  obtain dev p where load: "LoadDevice pc sdb3 = Inr (dev, p)" "vp_Revision p = 3" "length (vp_Routines p) = 2"
    by (simp add: LoadDevice_def loadPolicy_def sdb3_routines sdb3_view new_device_def device_of_row_def)
  with server_policies_consistent [OF reachable_3 load(1), of 0] show ?thesis by blast
qed

end
