(* ===== verification/ServerAnswer.thy ===== *)
theory ServerAnswer
  imports ServerProps
begin

text \<open>
  The answer of a heartbeat: where its parts come from, and what the agent relies on in each.
\<close>

section \<open>The parts of an answer\<close>

lemma querying_InrE: "querying served q db = (Inr a, db') \<Longrightarrow> db' = db \<and> q db = Inr a"
  by (auto simp: querying_def split: if_splits)

lemma pendingCommands_Inr:
  "pendingCommands phases d n now db = (Inr cmds, db') \<Longrightarrow> cmds = commands_due d n db"
  unfolding pendingCommands_def
  by (auto elim!: andThen_InrE dest!: querying_InrE simp: run_simps split: if_splits)

definition policy_part :: "string \<Rightarrow> HeartbeatRequest \<Rightarrow> int \<Rightarrow> ServerDb \<Rightarrow> wire_policy option \<Rightarrow> bool" where
  "policy_part d request revision db part \<longleftrightarrow> (case part of None \<Rightarrow> revision \<le> hr_PolicyRevision request
     | Some w \<Rightarrow> hr_PolicyRevision request < revision \<and> (\<exists>p. loadPolicy d db = Inr p \<and> w = policyForAPI p))"

definition balance_part :: "string \<Rightarrow> HeartbeatRequest \<Rightarrow> int \<Rightarrow> time \<Rightarrow> ServerDb \<Rightarrow> SessionState option \<Rightarrow> bool" where
  "balance_part d request revision now db part \<longleftrightarrow>
     (part \<noteq> None \<longleftrightarrow> hr_GraphicalSessionActive request
        \<and> (hr_RequestSessionState request \<or> hr_SessionStateRevision request < revision))
     \<and> (\<forall>s. part = Some s \<longrightarrow> confirmedSessionState d (hr_GraphicalSessionID request) (hr_LocalDate request) now db = Inr s)"

lemma ReceiveHeartbeat_Inr:
  assumes "ReceiveHeartbeat loc phases d request now db = (Inr result, db')"
  obtains revision db1 ctl where "heartbeat_error d request now = None"
    and "receive_report loc d request now db = (Inr revision, db1)"
    and "loadControl d db1 = Inr ctl" and "hs_Control result = wire_control ctl"
    and "policy_part d request revision db1 (hs_Policy result)"
    and "balance_part d request revision now db1 (hs_SessionState result)"
    and "hs_Commands result = commands_due d 100 db1"
    and "hs_AcknowledgedEvents result = map we_UUID (hr_Events request)"
    and "hs_AcknowledgedCommands result = hr_CommandAcks request"
proof -
  have valid: "heartbeat_error d request now = None"
    using assms by (auto simp: ReceiveHeartbeat_def run_simps split: option.splits)
  from assms obtain revision db1 ctl db2 policy db3 st db4 cmds db5 where
    report: "transaction (phases PhaseReport) (receive_report loc d request now) db = (Inr revision, db1)"
    and control: "querying (phases PhaseControl) (loadControl d) db1 = (Inr ctl, db2)"
    and policy: "(if hr_PolicyRevision request < revision
                   then andThen (querying (phases PhasePolicy) (loadPolicy d)) (\<lambda>p. ret (Some (policyForAPI p)))
                   else ret None) db2 = (Inr policy, db3)"
    and balance: "(if hr_GraphicalSessionActive request
                     \<and> (hr_RequestSessionState request \<or> hr_SessionStateRevision request < revision)
                   then andThen (querying (phases PhaseBalance) (confirmedSessionState d
                          (hr_GraphicalSessionID request) (hr_LocalDate request) now)) (\<lambda>st. ret (Some st))
                   else ret None) db3 = (Inr st, db4)"
    and commands: "pendingCommands phases d 100 now db4 = (Inr cmds, db5)"
    and last: "(ret \<lparr>hs_ServerTime = now, hs_NextHeartbeatSeconds = 0,
             hs_AcknowledgedEvents = map we_UUID (hr_Events request),
             hs_AcknowledgedCommands = hr_CommandAcks request, hs_Policy = policy, hs_SessionState = st,
             hs_Commands = cmds, hs_Control = wire_control ctl\<rparr> :: HeartbeatResponse sact) db5 = (Inr result, db')"
    unfolding ReceiveHeartbeat_def valid option.case by (elim andThen_InrE) iprover
  from control have db2: "db2 = db1" "loadControl d db1 = Inr ctl" by (auto dest: querying_InrE)
  have db3: "db3 = db1" "policy_part d request revision db1 policy"
    using policy unfolding db2(1) policy_part_def
    by (auto elim!: andThen_InrE dest!: querying_InrE simp: run_simps split: if_splits)
  have db4: "db4 = db1" "balance_part d request revision now db1 st"
    using balance unfolding db3(1) balance_part_def
    by (auto elim!: andThen_InrE dest!: querying_InrE simp: run_simps split: if_splits)
  show ?thesis
    using that [of revision db1 ctl] report valid db2(2) db3(2) db4(2) pendingCommands_Inr [OF commands [unfolded db4(1)]]
      last by (auto simp: run_simps elim: transaction_cases)
qed

section \<open>The report\<close>

lemma receive_events_valid:
  "receive_events loc d now es db = (Inr u, db') \<Longrightarrow> \<forall>e\<in>set es. validOpaqueIdentifier (we_UUID e)"
proof (induction es arbitrary: u db)
  case (Cons e es)
  from Cons.prems obtain v db1 where one: "receiveEvent loc d e now db = (Inr v, db1)"
    and rest: "receive_events loc d now es db1 = (Inr u, db')" by (auto elim: andThen_InrE)
  from one have "validOpaqueIdentifier (we_UUID e)"
    by (auto simp: receiveEvent_def event_bonus_def event_malformed_def run_simps split: sum.splits if_splits)
  with Cons.IH [OF rest] show ?case by simp
qed simp

lemma acknowledge_commands_valid:
  "acknowledge_commands loc d now cs db = (Inr u, db') \<Longrightarrow> \<forall>c\<in>set cs. validOpaqueIdentifier c"
proof (induction cs arbitrary: u db)
  case (Cons c cs)
  from Cons.prems obtain v db1 where one: "acknowledge_command loc d now c db = (Inr v, db1)"
    and rest: "acknowledge_commands loc d now cs db1 = (Inr u, db')" by (auto elim: andThen_InrE)
  from one have "validOpaqueIdentifier c"
    by (auto simp: acknowledge_command_def run_simps elim!: andThen_InrE split: if_splits)
  with Cons.IH [OF rest] show ?case by simp
qed simp

lemma keeps_usage_rest:
  "keeps sd_usage (applyPendingRemoteBonuses d date)"
  "keeps sd_usage (receive_events loc d now es)"
  "keeps sd_usage (acknowledge_commands loc d now cs)"
  "keeps sd_usage (cleanupExpiredCompletedActivitiesIfDue now)"
proof -
  have business: "keeps business_view m \<Longrightarrow> keeps sd_usage m" for m :: "'b sact"
    by (erule keeps_finer) (simp add: business_view_def)
  have row: "keeps sd_usage (insert_bonus_row b)" for b
    unfolding insert_bonus_row_def by (intro keeps_intros keeps_modify) simp
  have "keeps sd_usage (apply_credits d date credits)" for credits
    by (induction credits) (auto intro!: keeps_intros row)
  then show "keeps sd_usage (applyPendingRemoteBonuses d date)"
    unfolding applyPendingRemoteBonuses_def by (intro keeps_intros)
  have "keeps sd_usage (receiveEvent loc d e now)" for e
    unfolding receiveEvent_def by (intro keeps_intros keeps_modify row business) simp
  then show "keeps sd_usage (receive_events loc d now es)" by (induction es) (auto intro!: keeps_intros)
  have "keeps sd_usage (upsertActivityStep i k a t x r)" for i k a t x r
    by (intro business keeps_intros)
  then have "keeps sd_usage (acknowledge_command loc d now c)" for c
    unfolding acknowledge_command_def by (intro keeps_intros keeps_modify) simp_all
  then show "keeps sd_usage (acknowledge_commands loc d now cs)" by (induction cs) (auto intro!: keeps_intros)
  show "keeps sd_usage (cleanupExpiredCompletedActivitiesIfDue now)" by (intro business keeps_intros)
qed

interpretation usage_rows: keyed_table usage_key merge_usage
  by unfold_locales (simp add: usage_key_def merge_usage_def)

lemma used_seconds_find:
  "used_seconds d date db = (case tbl_find usage_key (d, date) (sd_usage db) of None \<Rightarrow> 0 | Some u \<Rightarrow> uw_seconds u)"
  by (simp add: used_seconds_def tbl_find_def usage_key_def)

lemma reported_usage:
  "hr_SecondsUsed request \<le> used_seconds d (hr_LocalDate request) (report_usage d request now db)"
proof -
  let ?u = "\<lparr>uw_device = d, uw_date = hr_LocalDate request, uw_seconds = hr_SecondsUsed request, uw_sync = now\<rparr>"
  have "usage_key ?u = (d, hr_LocalDate request)" by (simp add: usage_key_def)
  with usage_rows.find_upsert_same [of ?u "sd_usage db"] show ?thesis
    by (simp add: used_seconds_find report_usage_def merge_usage_def split: option.split)
qed

lemma receive_report_Inr:
  assumes "receive_report loc d request now db = (Inr revision, db')"
  obtains dv where "tbl_find dv_id d (sd_device db) = Some dv" and "revision = dv_policy_revision dv"
    and "hr_PolicyRevision request \<le> revision" and "hr_SessionStateRevision request \<le> revision"
    and "\<forall>e\<in>set (hr_Events request). validOpaqueIdentifier (we_UUID e)"
    and "\<forall>c\<in>set (hr_CommandAcks request). validOpaqueIdentifier c"
    and "hr_SecondsUsed request \<le> used_seconds d (hr_LocalDate request) db'"
proof -
  from assms obtain dv where dv: "tbl_find dv_id d (sd_device db) = Some dv"
    by (auto simp: receive_report_def run_simps split: option.splits)
  let ?db = "report_usage d request now (update_device d (report_device request now) db)"
  from assms obtain db1 db2 db3 db4 u1 u2 u3 u4 where rev: "revision = dv_policy_revision dv"
    and ahead: "\<not> (dv_policy_revision dv < hr_PolicyRevision request \<or> dv_policy_revision dv < hr_SessionStateRevision request)"
    and credits: "applyPendingRemoteBonuses d (hr_LocalDate request) ?db = (Inr u1, db1)"
    and events: "receive_events loc d now (hr_Events request) db1 = (Inr u2, db2)"
    and acks: "acknowledge_commands loc d now (hr_CommandAcks request) db2 = (Inr u3, db3)"
    and cleanup: "cleanupExpiredCompletedActivitiesIfDue now db3 = (Inr u4, db4)" and db': "db' = db4"
    unfolding receive_report_def
    by (auto simp: run_simps dv Let_def elim!: andThen_InrE split: if_splits)
  have "sd_usage db' = sd_usage ?db"
    using keepsD [OF keeps_usage_rest(1) credits] keepsD [OF keeps_usage_rest(2) events]
      keepsD [OF keeps_usage_rest(3) acks] keepsD [OF keeps_usage_rest(4) cleanup] by (simp add: db')
  then have "used_seconds d (hr_LocalDate request) db' = used_seconds d (hr_LocalDate request) ?db"
    by (simp add: used_seconds_def)
  then show ?thesis
    using that [OF dv rev] ahead receive_events_valid [OF events] acknowledge_commands_valid [OF acks]
      reported_usage [of request d now] by (simp add: rev not_less)
qed

end
