(* ===== verification/ServerBonus.thy ===== *)
theory ServerBonus
  imports ServerAnswer
begin

text \<open>
  Bonuses on the server: what a heartbeat books, and that it is booked once.
\<close>

section \<open>Insertions that ignore a used identifier\<close>

abbreviation insert_all :: "BonusRow list \<Rightarrow> BonusRow list \<Rightarrow> BonusRow list" where
  "insert_all rows t \<equiv> fold (tbl_insert_ignore bw_uuid) rows t"

lemma insert_all_props:
  "set t \<subseteq> set (insert_all rows t)"
  "b \<in> set (insert_all rows t) \<Longrightarrow> b \<notin> set t \<Longrightarrow> b \<in> set rows \<and> bw_uuid b \<notin> bw_uuid ` set t"
  "bw_uuid ` set (insert_all rows t) = bw_uuid ` set t \<union> bw_uuid ` set rows"
  "tbl_keyed bw_uuid t \<Longrightarrow> tbl_keyed bw_uuid (insert_all rows t)"
proof -
  show "tbl_keyed bw_uuid t \<Longrightarrow> tbl_keyed bw_uuid (insert_all rows t)"
    by (induction rows arbitrary: t) simp_all
  show "set t \<subseteq> set (insert_all rows t)"
  proof (induction rows arbitrary: t)
    case (Cons r rows)
    from Cons [of "tbl_insert_ignore bw_uuid r t"] show ?case by (auto simp: table_simps split: if_splits)
  qed simp
  show "bw_uuid ` set (insert_all rows t) = bw_uuid ` set t \<union> bw_uuid ` set rows"
  proof (induction rows arbitrary: t)
    case (Cons r rows)
    from Cons [of "tbl_insert_ignore bw_uuid r t"] show ?case by (auto simp: table_simps split: if_splits)
  qed simp
  show "b \<in> set (insert_all rows t) \<Longrightarrow> b \<notin> set t \<Longrightarrow> b \<in> set rows \<and> bw_uuid b \<notin> bw_uuid ` set t"
  proof (induction rows arbitrary: t)
    case (Cons r rows)
    show ?case
    proof (cases "b \<in> set (tbl_insert_ignore bw_uuid r t)")
      case True
      with Cons.prems(2) show ?thesis by (auto simp: table_simps split: if_splits)
    next
      case False
      with Cons.IH [of "tbl_insert_ignore bw_uuid r t"] Cons.prems(1) show ?thesis
        by (auto simp: table_simps split: if_splits)
    qed
  qed simp
qed

section \<open>Where bonuses are booked\<close>

lemma keeps_bonus_business: "keeps business_view m \<Longrightarrow> keeps sd_bonus m"
  by (erule keeps_finer) (simp add: business_view_def)

lemma keeps_bonus_history [keeps_intros]:
  "keeps sd_bonus (insertAudit env k d kind payload now)"
  "keeps sd_bonus (insertAdminActivity aid d kind details now)"
  "keeps sd_bonus (upsertActivityStep aid kind actor now details repeated)"
  "keeps sd_bonus (insertLocalBonusActivity loc e d seconds date t now)"
  "keeps sd_bonus (cleanupExpiredCompletedActivitiesIfDue now)"
  by (intro keeps_bonus_business keeps_intros)+

lemma insert_bonus_row_Inr:
  "insert_bonus_row b db = (Inr u, db') \<Longrightarrow> sd_bonus db' = tbl_insert_ignore bw_uuid b (sd_bonus db)"
  by (auto simp: insert_bonus_row_def requires_def andThen_def run_simps split: if_splits)

lemma apply_credits_bonus:
  "apply_credits d date credits db = (Inr u, db') \<Longrightarrow>
     sd_bonus db' = insert_all (map (credit_bonus d date) credits) (sd_bonus db)"
proof (induction credits arbitrary: u db)
  case (Cons credit credits)
  from Cons.prems obtain v db1 where "insert_bonus_row (credit_bonus d date credit) db = (Inr v, db1)"
    and rest: "apply_credits d date credits db1 = (Inr u, db')" by (auto elim: andThen_InrE)
  with Cons.IH [OF rest] insert_bonus_row_Inr show ?case by simp
qed (simp add: run_simps)

lemma receive_events_bonus:
  assumes "receive_events loc d now es db = (Inr u, db')"
  shows "\<exists>ps. map event_bonus es = map Inr ps
    \<and> sd_bonus db' = insert_all (map (\<lambda>(e, p). local_bonus_row d e p) (zip es ps)) (sd_bonus db)"
  using assms
proof (induction es arbitrary: u db)
  case (Cons e es)
  from Cons.prems obtain v db1 where one: "receiveEvent loc d e now db = (Inr v, db1)"
    and rest: "receive_events loc d now es db1 = (Inr u, db')" by (auto elim: andThen_InrE)
  from one obtain p where p: "event_bonus e = Inr p"
    by (auto simp: receiveEvent_def run_simps split: sum.splits)
  from one [unfolded receiveEvent_def p sum.case] obtain w db0 where
    ins: "insert_bonus_row (local_bonus_row d e p) db = (Inr w, db0)"
    and others: "andThen (requires (\<lambda>db. tbl_has aw_uuid (we_UUID e) (sd_audit db) \<or> has_device d db)) (\<lambda>_.
       andThen (modify (\<lambda>db. db\<lparr>sd_audit := tbl_insert_ignore aw_uuid (local_bonus_audit d e p) (sd_audit db)\<rparr>)) (\<lambda>_.
       insertLocalBonusActivity loc (we_UUID e) d (bp_Seconds p) (bp_LocalDate p) (we_CreatedAt e) now)) db0 = (Inr v, db1)"
    by (elim andThen_InrE [of "insert_bonus_row (local_bonus_row d e p)"]) iprover
  have "keeps sd_bonus (andThen (requires (\<lambda>db. tbl_has aw_uuid (we_UUID e) (sd_audit db) \<or> has_device d db)) (\<lambda>_.
       andThen (modify (\<lambda>db. db\<lparr>sd_audit := tbl_insert_ignore aw_uuid (local_bonus_audit d e p) (sd_audit db)\<rparr>)) (\<lambda>_.
       insertLocalBonusActivity loc (we_UUID e) d (bp_Seconds p) (bp_LocalDate p) (we_CreatedAt e) now)))"
    by (intro keeps_intros keeps_modify) simp
  from keepsD [OF this others]
  have "sd_bonus db1 = tbl_insert_ignore bw_uuid (local_bonus_row d e p) (sd_bonus db)"
    using insert_bonus_row_Inr [OF ins] by simp
  moreover from Cons.IH [OF rest] obtain ps where "map event_bonus es = map Inr ps"
    "sd_bonus db' = insert_all (map (\<lambda>(e, p). local_bonus_row d e p) (zip es ps)) (sd_bonus db1)" by iprover
  ultimately show ?case using p by (intro exI [of _ "p # ps"]) simp
qed (simp add: run_simps)

lemma keeps_bonus_acks: "keeps sd_bonus (acknowledge_commands loc d now cs)"
proof -
  have "keeps sd_bonus (acknowledge_command loc d now c)" for c
    unfolding acknowledge_command_def by (intro keeps_intros keeps_modify) simp_all
  then show ?thesis by (induction cs) (auto intro!: keeps_intros)
qed

lemma decode_credits_Inr:
  "decode_credits cs = Inr credits \<Longrightarrow> \<forall>c\<in>set cs. command_row_ok c \<and> mw_kind c = ''add_bonus'' \<Longrightarrow>
     map pq_id credits = map mw_id cs
     \<and> (\<forall>q\<in>set credits. \<exists>c\<in>set cs. pq_id q = mw_id c
          \<and> mw_payload c = credit_text (mw_id c) (pq_seconds q) (pq_createdAt q))"
proof (induction cs arbitrary: credits)
  case (Cons c cs)
  have "\<not> validControlKind ''add_bonus''" by (simp add: validControlKind_def)
  with Cons.prems(2) obtain n t where row: "mw_payload c = credit_text (mw_id c) n t"
    "0 < n" "n \<le> 86400" "clock_ok t" "mw_id c \<noteq> []" "plain_text (mw_id c)"
    by (auto simp: command_row_ok_def credit_payload_def)
  have "read_credit (mw_payload c) = Some \<lparr>ci_UUID = mw_id c, ci_Seconds = n, ci_Origin = ''web'', ci_CreatedAt = t\<rparr>"
    using row by (simp add: read_credit_text in64_def clock_ok_def)
  then have one: "decodeCreditIncrementCommand (mw_id c) (mw_payload c) (mw_created c)
      = Inr \<lparr>ci_UUID = mw_id c, ci_Seconds = n, ci_Origin = ''web'', ci_CreatedAt = t\<rparr>"
    using row by (simp add: decodeCreditIncrementCommand_def clock_ok_def duration_defs)
  with Cons.prems(1) obtain rest where rest: "decode_credits cs = Inr rest"
    "credits = \<lparr>pq_id = mw_id c, pq_seconds = n, pq_createdAt = t\<rparr> # rest"
    by (auto split: sum.splits)
  with Cons.IH [OF rest(1)] Cons.prems(2) row(1) show ?case by auto
qed simp

section \<open>Identifiers of bonuses\<close>

lemma keeps_bonus_offers: "keeps sd_bonus (offer_commands d now cs)"
proof -
  have "keeps sd_bonus (offer_command d now c)" for c
    unfolding offer_command_def by (intro keeps_intros keeps_modify) simp_all
  then show ?thesis by (induction cs) (auto intro!: keeps_intros)
qed

lemma heartbeat_report:
  assumes "ReceiveHeartbeat loc phases d request now db = (Inr result, db')"
  obtains n db1 where "receive_report loc d request now db = (Inr n, db1)" and "sd_bonus db' = sd_bonus db1"
proof -
  have valid: "heartbeat_error d request now = None"
    using assms by (auto simp: ReceiveHeartbeat_def run_simps split: option.splits)
  let ?rest = "\<lambda>n. andThen (querying (phases PhaseControl) (loadControl d)) (\<lambda>control.
          andThen (if hr_PolicyRevision request < n
                   then andThen (querying (phases PhasePolicy) (loadPolicy d)) (\<lambda>p. ret (Some (policyForAPI p)))
                   else ret None) (\<lambda>policy.
          andThen (if hr_GraphicalSessionActive request
                     \<and> (hr_RequestSessionState request \<or> hr_SessionStateRevision request < n)
                   then andThen (querying (phases PhaseBalance) (confirmedSessionState d
                          (hr_GraphicalSessionID request) (hr_LocalDate request) now)) (\<lambda>st. ret (Some st))
                   else ret None) (\<lambda>state.
          andThen (pendingCommands phases d 100 now) (\<lambda>commands.
          ret \<lparr>hs_ServerTime = now, hs_NextHeartbeatSeconds = 0,
             hs_AcknowledgedEvents = map we_UUID (hr_Events request),
             hs_AcknowledgedCommands = hr_CommandAcks request, hs_Policy = policy, hs_SessionState = state,
             hs_Commands = commands, hs_Control = wire_control control\<rparr>))))"
  from assms obtain n db1 where report: "transaction (phases PhaseReport) (receive_report loc d request now) db = (Inr n, db1)"
    and rest: "?rest n db1 = (Inr result, db')"
    unfolding ReceiveHeartbeat_def valid option.case by (elim andThen_InrE [of "transaction _ _"]) iprover
  have "keeps sd_bonus (?rest n)"
    unfolding pendingCommands_def by (intro keeps_intros keeps_bonus_offers)
  from keepsD [OF this rest] report that show ?thesis by (auto elim: transaction_cases)
qed

definition bonus_ids_ok :: "ServerDb \<Rightarrow> bool" where
  "bonus_ids_ok db \<longleftrightarrow> tbl_keyed bw_uuid (sd_bonus db)"

lemma bonus_ids_kept: "keeps sd_bonus m \<Longrightarrow> bonus_ids_ok db \<Longrightarrow> m db = (r, db') \<Longrightarrow> bonus_ids_ok db'"
  using keepsD [of sd_bonus m db r db'] by (simp add: bonus_ids_ok_def)

lemma keeps_bonus_rest:
  "keeps sd_bonus (BootstrapAdmin env login hash now)"
  "keeps sd_bonus (CreateDeviceWithAvatar env name avatar now)"
  "keeps sd_bonus (RenameDevice env d name now)"
  "keeps sd_bonus (UpdateDeviceIdentity env d name avatar now)"
  "keeps sd_bonus (SaveQuotas env d quotas warning now)"
  "keeps sd_bonus (SetLocalPassword env d verifier now)"
  "keeps sd_bonus (SaveRoutine env d r now)"
  "keeps sd_bonus (DeleteRoutine env d rid now)"
  "keeps sd_bonus (QueueControlOperation env d kind now)"
  "keeps sd_bonus (QueueRemoteBonus env d seconds now)"
  "keeps sd_bonus (CleanupExpiredCompletedActivities served now)"
  unfolding BootstrapAdmin_def RenameDevice_def UpdateDeviceIdentity_def SaveQuotas_def SetLocalPassword_def
    SaveRoutine_def store_routine_def choose_icon_def commit_routine_def DeleteRoutine_def
    CleanupExpiredCompletedActivities_def change_device_def bumpPolicyKeepWarning_def bumpPolicy_def
    write_routine_def bump_rows_def set_quotas_def CreateDeviceWithAvatar_def insert_device_def
    QueueControlOperation_def QueueRemoteBonus_def change_control_def insert_command_def
    discard_pending_controls_def Let_def
  by (intro keeps_intros keeps_modify; simp add: update_device_def)+

lemma report_bonuses:
  assumes "receive_report loc d request now db = (Inr n, db')"
  obtains credits ps where "loadPendingRemoteCredits d (report_usage d request now (update_device d (report_device request now) db)) = Inr credits"
    and "map event_bonus (hr_Events request) = map Inr ps"
    and "sd_bonus db' = insert_all (map (\<lambda>(e, p). local_bonus_row d e p) (zip (hr_Events request) ps))
      (insert_all (map (credit_bonus d (hr_LocalDate request)) credits) (sd_bonus db))"
proof -
  from assms obtain dv where found: "tbl_find dv_id d (sd_device db) = Some dv"
    by (auto simp: receive_report_def run_simps split: option.splits)
  let ?db = "report_usage d request now (update_device d (report_device request now) db)"
  from assms obtain x1 x2 x3 x4 u1 u2 u3 u4 where
    credits: "applyPendingRemoteBonuses d (hr_LocalDate request) ?db = (Inr u1, x1)"
    and events: "receive_events loc d now (hr_Events request) x1 = (Inr u2, x2)"
    and acks: "acknowledge_commands loc d now (hr_CommandAcks request) x2 = (Inr u3, x3)"
    and cleanup: "cleanupExpiredCompletedActivitiesIfDue now x3 = (Inr u4, x4)" and db': "db' = x4"
    unfolding receive_report_def
    by (auto simp: run_simps found Let_def elim!: andThen_InrE split: if_splits)
  from credits obtain qs where qs: "loadPendingRemoteCredits d ?db = Inr qs"
    "apply_credits d (hr_LocalDate request) qs ?db = (Inr u1, x1)"
    by (auto simp: applyPendingRemoteBonuses_def run_simps split: sum.splits)
  obtain ps where "map event_bonus (hr_Events request) = map Inr ps"
    "sd_bonus x2 = insert_all (map (\<lambda>(e, p). local_bonus_row d e p) (zip (hr_Events request) ps)) (sd_bonus x1)"
    using receive_events_bonus [OF events] by iprover
  moreover have "sd_bonus x1 = insert_all (map (credit_bonus d (hr_LocalDate request)) qs) (sd_bonus db)"
    using apply_credits_bonus [OF qs(2)] by (simp add: report_usage_def update_device_def)
  moreover have "sd_bonus db' = sd_bonus x2"
    using keepsD [OF keeps_bonus_acks acks] keepsD [OF keeps_bonus_history(5) cleanup] by (simp add: db')
  ultimately show ?thesis using that [OF qs(1)] by simp
qed

lemma heartbeat_bonuses:
  assumes "ReceiveHeartbeat loc phases d request now db = (Inr result, db')"
  obtains credits ps where "loadPendingRemoteCredits d (report_usage d request now (update_device d (report_device request now) db)) = Inr credits"
    and "map event_bonus (hr_Events request) = map Inr ps"
    and "sd_bonus db' = insert_all (map (\<lambda>(e, p). local_bonus_row d e p) (zip (hr_Events request) ps))
      (insert_all (map (credit_bonus d (hr_LocalDate request)) credits) (sd_bonus db))"
proof -
  obtain n db1 where report: "receive_report loc d request now db = (Inr n, db1)" and same: "sd_bonus db' = sd_bonus db1"
    by (rule heartbeat_report [OF assms])
  show ?thesis by (rule report_bonuses [OF report]) (rule that, auto simp: same)
qed

lemma bonus_ids_heartbeat: "bonus_ids_ok db \<Longrightarrow> ReceiveHeartbeat loc phases d request now db = (r, db') \<Longrightarrow> bonus_ids_ok db'"
proof -
  assume ok: "bonus_ids_ok db" and run: "ReceiveHeartbeat loc phases d request now db = (r, db')"
  have credits: "commits bonus_ids_ok (apply_credits d date credits) (\<lambda>_. bonus_ids_ok)" for date credits
    by (rule commitsI) (simp add: bonus_ids_ok_def apply_credits_bonus insert_all_props(4))
  have events: "commits bonus_ids_ok (receive_events loc d now es) (\<lambda>_. bonus_ids_ok)" for es
    by (rule commitsI, drule receive_events_bonus) (auto simp: bonus_ids_ok_def insert_all_props(4))
  have kept: "commits bonus_ids_ok m (\<lambda>_. bonus_ids_ok)" if "keeps sd_bonus m" for m :: "'b sact"
    using that by (rule commits_keeps) (simp add: bonus_ids_ok_def)
  have pending: "commits bonus_ids_ok (applyPendingRemoteBonuses d date) (\<lambda>_. bonus_ids_ok)" for date
    unfolding applyPendingRemoteBonuses_def
    by (rule commits_seq [OF kept [OF keeps_elementary(3)]]) (auto intro: credits commits_throw split: sum.split)
  have rows: "commits bonus_ids_ok (modify (update_device d f)) (\<lambda>_. bonus_ids_ok)"
    "commits bonus_ids_ok (modify (report_usage d request now)) (\<lambda>_. bonus_ids_ok)" for f
    by (intro commits_modify, simp add: bonus_ids_ok_def update_device_def report_usage_def)+
  have body: "commits bonus_ids_ok (andThen (fails_if c e) (\<lambda>_.
       andThen (modify (update_device d (report_device request now))) (\<lambda>_.
       andThen (modify (report_usage d request now)) (\<lambda>_.
       andThen (applyPendingRemoteBonuses d (hr_LocalDate request)) (\<lambda>_.
       andThen (receive_events loc d now (hr_Events request)) (\<lambda>_.
       andThen (acknowledge_commands loc d now (hr_CommandAcks request)) (\<lambda>_.
       andThen (cleanupExpiredCompletedActivitiesIfDue now) (\<lambda>_. ret n)))))))) (\<lambda>_. bonus_ids_ok)" for c e n
    by (intro commits_fails_if commits_seq rows pending events kept [OF keeps_bonus_acks]
        kept [OF keeps_bonus_history(5)] commits_ret)
  have "commits bonus_ids_ok (receive_report loc d request now) (\<lambda>_. bonus_ids_ok)"
    unfolding receive_report_def Let_def
    by (rule commits_seq [OF kept [OF keeps_elementary(3)]]) (auto intro: commits_throw body split: option.split)
  from preservesD [OF preserves_transaction [OF this] ok]
  have report: "bonus_ids_ok db1" if "transaction s (receive_report loc d request now) db = (x, db1)" for s x db1
    using that by blast
  show ?thesis
  proof (cases "heartbeat_error d request now")
    case None
    have rest: "keeps sd_bonus (andThen (querying (phases PhaseControl) (loadControl d)) (\<lambda>control.
          andThen (if hr_PolicyRevision request < n
                   then andThen (querying (phases PhasePolicy) (loadPolicy d)) (\<lambda>p. ret (Some (policyForAPI p)))
                   else ret None) (\<lambda>policy.
          andThen (if hr_GraphicalSessionActive request
                     \<and> (hr_RequestSessionState request \<or> hr_SessionStateRevision request < n)
                   then andThen (querying (phases PhaseBalance) (confirmedSessionState d
                          (hr_GraphicalSessionID request) (hr_LocalDate request) now)) (\<lambda>st. ret (Some st))
                   else ret None) (\<lambda>state.
          andThen (pendingCommands phases d 100 now) (\<lambda>commands. ret (f control policy state commands))))))" for n f
      unfolding pendingCommands_def by (intro keeps_intros keeps_bonus_offers)
    from run [unfolded ReceiveHeartbeat_def None option.case] show ?thesis
      by (cases rule: andThen_cases) (auto dest: report intro: bonus_ids_kept [OF rest report])
  qed (use run ok in \<open>simp add: ReceiveHeartbeat_def run_simps\<close>)
qed

lemma bonus_ids_delete: "preserves bonus_ids_ok (DeleteDevice served d)"
  unfolding DeleteDevice_def
  by (intro preserves_transaction commits_reads commits_fails_if commits_modify)
    (simp add: bonus_ids_ok_def delete_device_def Let_def)

lemma bonus_of_core: "core_view db' = core_view db \<Longrightarrow> sd_bonus db' = sd_bonus db"
  by (simp add: core_view_def)

lemma server_step_bonus_ids: "server_step db db' \<Longrightarrow> bonus_ids_ok db \<Longrightarrow> bonus_ids_ok db'"
proof (induction rule: server_step.induct)
  case bootstrap
  then show ?case by - (rule bonus_ids_kept [OF keeps_bonus_rest(1)]; assumption)
next
  case create_device
  then show ?case by - (rule bonus_ids_kept [OF keeps_bonus_rest(2)]; assumption)
next
  case rename_device
  then show ?case by - (rule bonus_ids_kept [OF keeps_bonus_rest(3)]; assumption)
next
  case update_identity
  then show ?case by - (rule bonus_ids_kept [OF keeps_bonus_rest(4)]; assumption)
next
  case save_quotas
  then show ?case by - (rule bonus_ids_kept [OF keeps_bonus_rest(5)]; assumption)
next
  case set_password
  then show ?case by - (rule bonus_ids_kept [OF keeps_bonus_rest(6)]; assumption)
next
  case save_routine
  then show ?case by - (rule bonus_ids_kept [OF keeps_bonus_rest(7)]; assumption)
next
  case delete_routine
  then show ?case by - (rule bonus_ids_kept [OF keeps_bonus_rest(8)]; assumption)
next
  case queue_control
  then show ?case by - (rule bonus_ids_kept [OF keeps_bonus_rest(9)]; assumption)
next
  case queue_bonus
  then show ?case by - (rule bonus_ids_kept [OF keeps_bonus_rest(10)]; assumption)
next
  case cleanup
  then show ?case by - (rule bonus_ids_kept [OF keeps_bonus_rest(11)]; assumption)
next
  case delete_device
  then show ?case by - (rule preservesD [OF bonus_ids_delete]; assumption)
next
  case heartbeat
  then show ?case by - (rule bonus_ids_heartbeat; assumption)
next
  case issue_token
  then show ?case by - (rule bonus_ids_kept [OF keeps_finer [OF keeps_core_credentials(1) bonus_of_core]]; assumption)
next
  case revoke_token
  then show ?case by - (rule bonus_ids_kept [OF keeps_finer [OF keeps_core_credentials(2) bonus_of_core]]; assumption)
next
  case hide_history
  then show ?case by - (rule bonus_ids_kept [OF keeps_finer [OF keeps_core_credentials(3) bonus_of_core]]; assumption)
qed

lemma reachable_bonus_ids: "server_reachable db \<Longrightarrow> bonus_ids_ok db"
proof (induction rule: server_reachable.induct)
  case start
  show ?case by (simp add: bonus_ids_ok_def empty_server_def)
qed (rule server_step_bonus_ids)

section \<open>What a heartbeat books\<close>

lemma due_credits:
  assumes "commands_ok db" and "loadPendingRemoteCredits d db = Inr credits"
  shows "pq_id ` set credits = mw_id ` {c \<in> set (sd_command db). credit_due d db c}"
    and "q \<in> set credits \<Longrightarrow> \<exists>c\<in>set (sd_command db). credit_due d db c \<and> pq_id q = mw_id c
      \<and> mw_payload c = credit_text (mw_id c) (pq_seconds q) (pq_createdAt q)"
proof -
  let ?cs = "sort_key command_order (filter (credit_due d db) (sd_command db))"
  have rows: "\<forall>c\<in>set ?cs. command_row_ok c \<and> mw_kind c = ''add_bonus''"
    using assms(1) by (auto simp: commands_ok_def commands_inv_def credit_due_def)
  note decoded = decode_credits_Inr [OF assms(2) [unfolded loadPendingRemoteCredits_def] rows]
  have "pq_id ` set credits = mw_id ` set ?cs"
    using arg_cong [OF conjunct1 [OF decoded], of set] by simp
  then show "pq_id ` set credits = mw_id ` {c \<in> set (sd_command db). credit_due d db c}" by simp
  show "q \<in> set credits \<Longrightarrow> \<exists>c\<in>set (sd_command db). credit_due d db c \<and> pq_id q = mw_id c
      \<and> mw_payload c = credit_text (mw_id c) (pq_seconds q) (pq_createdAt q)"
    using decoded by fastforce
qed

definition booked_credit :: "string \<Rightarrow> string \<Rightarrow> ServerDb \<Rightarrow> BonusRow \<Rightarrow> bool" where
  "booked_credit d date db b \<longleftrightarrow> (\<exists>c\<in>set (sd_command db). credit_due d db c \<and> (\<exists>seconds created.
     mw_payload c = credit_text (mw_id c) seconds created
     \<and> b = \<lparr>bw_uuid = mw_id c, bw_device = d, bw_date = date, bw_seconds = seconds,
          bw_origin = ''web'', bw_created = created\<rparr>))"

definition booked_event :: "string \<Rightarrow> wire_event list \<Rightarrow> BonusRow \<Rightarrow> bool" where
  "booked_event d es b \<longleftrightarrow> (\<exists>e\<in>set es. \<exists>p. event_bonus e = Inr p \<and> b = local_bonus_row d e p)"

lemma credit_rows:
  assumes "commands_ok db" and "loadPendingRemoteCredits d db = Inr credits"
  shows "bw_uuid ` set (map (credit_bonus d date) credits) = mw_id ` {c \<in> set (sd_command db). credit_due d db c}"
    and "b \<in> set (map (credit_bonus d date) credits) \<Longrightarrow> booked_credit d date db b"
  using due_credits(2) [OF assms]
  by (simp_all add: due_credits(1) [OF assms, symmetric] credit_bonus_def image_image)
    (fastforce simp: booked_credit_def)

lemma event_rows:
  assumes "map event_bonus es = map Inr ps"
  shows "bw_uuid ` set (map (\<lambda>(e, p). local_bonus_row d e p) (zip es ps)) = we_UUID ` set es"
    and "b \<in> set (map (\<lambda>(e, p). local_bonus_row d e p) (zip es ps)) \<Longrightarrow> booked_event d es b"
proof -
  have len: "length ps = length es" using arg_cong [OF assms, of length] by simp
  have "map bw_uuid (map (\<lambda>(e, p). local_bonus_row d e p) (zip es ps)) = map we_UUID es"
    by (intro nth_equalityI) (simp_all add: local_bonus_row_def len)
  then show "bw_uuid ` set (map (\<lambda>(e, p). local_bonus_row d e p) (zip es ps)) = we_UUID ` set es"
    by (metis set_map)
  assume "b \<in> set (map (\<lambda>(e, p). local_bonus_row d e p) (zip es ps))"
  then obtain i where i: "i < length es" "b = local_bonus_row d (es ! i) (ps ! i)"
    by (auto simp: in_set_zip len)
  then have "event_bonus (es ! i) = Inr (ps ! i)"
    using arg_cong [OF assms, of "\<lambda>xs. xs ! i"] by (simp add: len)
  with i show "booked_event d es b" unfolding booked_event_def using nth_mem by blast
qed

text \<open>C12: A heartbeat books every credit queued for its device and every event it reports, each under
  its own identifier: rows that were there stay as they are, a new row has an identifier that was
  not in use, and it is either the credit of a due command, dated on the computer's day and with
  the amount the administrator queued, or the bonus of a reported event. So a repeated event or
  command is never booked twice.\<close>

theorem heartbeat_books_bonuses_once:
  assumes "server_reachable db" and "ReceiveHeartbeat loc phases d request now db = (Inr result, db')"
  shows "tbl_keyed bw_uuid (sd_bonus db') \<and> set (sd_bonus db) \<subseteq> set (sd_bonus db')
    \<and> (\<forall>c\<in>set (sd_command db). credit_due d db c \<longrightarrow> tbl_has bw_uuid (mw_id c) (sd_bonus db'))
    \<and> (\<forall>e\<in>set (hr_Events request). tbl_has bw_uuid (we_UUID e) (sd_bonus db'))
    \<and> (\<forall>b\<in>set (sd_bonus db') - set (sd_bonus db). \<not> tbl_has bw_uuid (bw_uuid b) (sd_bonus db)
        \<and> (booked_credit d (hr_LocalDate request) db b \<or> booked_event d (hr_Events request) b))"
proof -
  let ?db = "report_usage d request now (update_device d (report_device request now) db)"
  obtain credits ps where credits: "loadPendingRemoteCredits d ?db = Inr credits"
    and ps: "map event_bonus (hr_Events request) = map Inr ps"
    and rows: "sd_bonus db' = insert_all (map (\<lambda>(e, p). local_bonus_row d e p) (zip (hr_Events request) ps))
      (insert_all (map (credit_bonus d (hr_LocalDate request)) credits) (sd_bonus db))"
    by (rule heartbeat_bonuses [OF assms(2)])
  have "credit_due d ?db = credit_due d db" "sd_command ?db = sd_command db"
    by (simp_all add: fun_eq_iff credit_due_def report_usage_def update_device_def)
  then have load: "loadPendingRemoteCredits d db = Inr credits"
    using credits by (simp add: loadPendingRemoteCredits_def)
  note web = credit_rows [OF reachable_commands [OF assms(1)] load] and local_rows = event_rows [OF ps]
  have keyed: "tbl_keyed bw_uuid (sd_bonus db')"
    using reachable_bonus_ids [OF assms(1)] unfolding rows by (simp only: bonus_ids_ok_def insert_all_props(4))
  have all: "bw_uuid ` set (sd_bonus db') = bw_uuid ` set (sd_bonus db)
      \<union> mw_id ` {c \<in> set (sd_command db). credit_due d db c} \<union> we_UUID ` set (hr_Events request)"
    unfolding rows insert_all_props(3) local_rows(1) web(1) by (rule refl)
  have new: "\<not> tbl_has bw_uuid (bw_uuid b) (sd_bonus db)
      \<and> (booked_credit d (hr_LocalDate request) db b \<or> booked_event d (hr_Events request) b)"
    if b: "b \<in> set (sd_bonus db') - set (sd_bonus db)" for b
  proof (cases "b \<in> set (insert_all (map (credit_bonus d (hr_LocalDate request)) credits) (sd_bonus db))")
    case True
    from insert_all_props(2) [OF this] b web(2) show ?thesis by (auto simp: tbl_has_iff)
  next
    case False
    have "b \<in> set (sd_bonus db')" using b by blast
    from insert_all_props(2) [OF this [unfolded rows] False] local_rows(2) show ?thesis
      unfolding tbl_has_iff insert_all_props(3) by blast
  qed
  have "set (sd_bonus db) \<subseteq> set (sd_bonus db')" unfolding rows using insert_all_props(1) by blast
  with keyed all new show ?thesis unfolding tbl_has_iff by blast
qed

end
