(* ===== verification/AgentServer.thy ===== *)
theory AgentServer
  imports ServerAnswer
begin

text \<open>
  Agent and server together: what the server answers from a reachable database is installed by
  the agent without an error of its own, and leaves the two in agreement.
\<close>

section \<open>When an answer is installed\<close>

lemma on_client_store_Inr:
  "f (sc_store c) = (Inr a, s) \<Longrightarrow> on_client_store stage err f c = (Inr a, c\<lparr>sc_store := s\<rparr>)"
  by (simp add: on_client_store_def wrap_error_def)

lemma acknowledge_events_served:
  assumes "hv_db env = (\<lambda>_. True)" and "\<forall>u\<in>set ids. u \<noteq> []"
  shows "\<exists>c'. acknowledge_events env k ids c = (Inr (), c')"
  using assms(2)
proof (induction ids arbitrary: k c)
  case (Cons u ids)
  then have "AcknowledgeEvent (hv_db env (CallAcknowledge k)) u (sc_store c) = (Inr (), snd (AcknowledgeEvent True u (sc_store c)))"
    by (simp add: AcknowledgeEvent_def assms(1))
  from on_client_store_Inr [of "AcknowledgeEvent (hv_db env (CallAcknowledge k)) u", OF this] Cons show ?case by (simp add: andThen_Inr)
qed (simp add: run_simps)

definition acceptable_command :: "int \<Rightarrow> string \<Rightarrow> Command \<Rightarrow> bool" where
  "acceptable_command revision localDate cmd \<longleftrightarrow> wc_ID cmd \<noteq> [] \<and> \<not> is_zero (wc_CreatedAt cmd)
     \<and> (validControlKind (wc_Kind cmd) \<and> 0 < revision
        \<or> wc_Kind cmd = ''add_bonus'' \<and> (\<exists>b. command_bonus cmd localDate = Some b \<and> validateBonus b = None))"

lemma applyCommand_served:
  assumes "acceptable_command revision localDate cmd" and "\<not> is_zero now"
  shows "fst (applyCommand True cmd revision localDate now s) = Inr ()"
proof -
  have "\<not> validControlKind ''add_bonus''" by (simp add: validControlKind_def)
  with assms show ?thesis
    by (auto simp: acceptable_command_def applyCommand_def StageControlEffect_def ApplyRemoteBonus_def
        wrap_error_def Let_def)
qed

lemma apply_commands_served:
  assumes "hv_db env = (\<lambda>_. True)" and "\<forall>cmd\<in>set cmds. acceptable_command revision localDate cmd" and "\<not> is_zero now"
  shows "\<exists>c'. apply_commands env k revision localDate now cmds c = (Inr (), c')"
  using assms(2)
proof (induction cmds arbitrary: k c)
  case (Cons cmd cmds)
  from Cons.prems have "fst (applyCommand True cmd revision localDate now (sc_store c)) = Inr ()"
    using applyCommand_served [OF _ assms(3)] by simp
  then obtain s where "applyCommand True cmd revision localDate now (sc_store c) = (Inr (), s)"
    by (metis prod.collapse)
  with Cons show ?case by (simp add: assms(1) andThen_def wrap_error_def)
qed (simp add: run_simps)

lemma ReplacePolicy_served:
  assumes "validatePolicy p = None" and "stored_revision s \<le> ps_Revision p"
  shows "fst (ReplacePolicy True p s) = Inr ()"
  using assms by (auto simp: ReplacePolicy_def stored_revision_def Let_def split: prod.split)

lemma stored_revision_cong:
  "policy_state (st_db s') = policy_state (st_db s) \<Longrightarrow> stored_revision s' = stored_revision s"
  by (simp add: stored_revision_def policyRevision_def)

definition installable :: "HeartbeatRequest \<Rightarrow> HeartbeatResponse \<Rightarrow> Store \<Rightarrow> bool" where
  "installable request result s \<longleftrightarrow>
     (\<forall>u\<in>set (hs_AcknowledgedEvents result). u \<noteq> []) \<and> (\<forall>i\<in>set (hs_AcknowledgedCommands result). i \<noteq> [])
     \<and> (\<forall>e\<in>set (pending_event (st_db s)). pe_UUID e \<in> set (hs_AcknowledgedEvents result))
     \<and> (\<forall>p. hs_Policy result = Some p \<longrightarrow> validatePolicy (fromProtocolPolicy p) = None \<and> stored_revision s \<le> wp_Revision p)
     \<and> balance_error request result = None
     \<and> (\<forall>st. hs_SessionState result = Some st \<longrightarrow>
          validateConfirmedSessionState (confirmed_of st) = None \<and> in64 (ws_RemainingSeconds st))
     \<and> (\<forall>cmd\<in>set (hs_Commands result). acceptable_command (co_Revision (hs_Control result)) (hr_LocalDate request) cmd)"

lemma install_served:
  assumes io: "hv_db env = (\<lambda>_. True)" and now: "\<not> is_zero now" and fit: "installable request result (sc_store c)"
  shows "\<exists>c'. install_response env request now result c = (Inr (), c')"
proof -
  let ?c0 = "setRemoteControl True (co_MonitoringPaused (hs_Control result))
    (co_ManualBlock (hs_Control result)) (co_Revision (hs_Control result)) c"
  have ids: "\<forall>u\<in>set (hs_AcknowledgedEvents result). u \<noteq> []" using fit by (simp add: installable_def)
  have cmds: "\<forall>cmd\<in>set (hs_Commands result). acceptable_command (co_Revision (hs_Control result)) (hr_LocalDate request) cmd"
    using fit by (simp add: installable_def)
  obtain c1 where ack: "acknowledge_events env 0 (hs_AcknowledgedEvents result) ?c0 = (Inr (), c1)"
    using acknowledge_events_served [OF io ids, of 0 ?c0] by iprover
  have c1: "pending_event (st_db (sc_store c1)) = []" "stored_revision (sc_store c1) = stored_revision (sc_store c)"
    using acknowledge_InrE [OF ack] fit stored_revision_cong [of "sc_store c1" "sc_store c"]
    by (auto simp: installable_def tbl_delete_def filter_empty_conv)
  let ?ids = "hs_AcknowledgedCommands result"
  have "ForgetAppliedCommandIDs (hv_db env CallForget) ?ids (sc_store c1) = (Inr (), snd (ForgetAppliedCommandIDs True ?ids (sc_store c1)))"
    using fit by (auto simp: ForgetAppliedCommandIDs_def installable_def io)
  then obtain s2 where forget: "ForgetAppliedCommandIDs (hv_db env CallForget) ?ids (sc_store c1) = (Inr (), s2)" by blast
  have s2: "pending_event (st_db s2) = []" "stored_revision s2 = stored_revision (sc_store c)"
    using c1 stored_revision_cong [of s2 "sc_store c1"] by (simp_all add: Forget_Inr [OF forget])
  let ?c2 = "c1\<lparr>sc_store := s2\<rparr>"
  obtain c3 where policy: "(case hs_Policy result of None \<Rightarrow> ret ()
       | Some p \<Rightarrow> on_client_store ApplyStage (PolicyFailed (wp_Revision p))
           (ReplacePolicy (hv_db env CallReplace) (fromProtocolPolicy p))) ?c2 = (Inr (), c3)"
    and c3: "pending_event (st_db (sc_store c3)) = []"
  proof (cases "hs_Policy result")
    case None
    then show ?thesis using that [of ?c2] s2 by (simp add: run_simps)
  next
    case (Some p)
    have "fst (ReplacePolicy True (fromProtocolPolicy p) s2) = Inr ()"
      using fit Some s2(2) by (intro ReplacePolicy_served) (auto simp: installable_def fromProtocolPolicy_def)
    then obtain s3 where s3: "ReplacePolicy True (fromProtocolPolicy p) s2 = (Inr (), s3)" by (metis prod.collapse)
    with ReplacePolicy_Inr [OF s3] s2 that [of "?c2\<lparr>sc_store := s3\<rparr>"] show ?thesis
      by (simp add: Some io on_client_store_Inr)
  qed
  have balance: "(case balance_error request result of None \<Rightarrow> ret () | Some e \<Rightarrow> throw (ApplyStage, e)) c3 = (Inr (), c3)"
    using fit by (simp add: installable_def run_simps)
  obtain c4 where confirm: "(case hs_SessionState result of None \<Rightarrow> ret ()
       | Some s \<Rightarrow> on_client_store ApplyStage ConfirmFailed
           (SaveConfirmedSessionState (hv_db env CallConfirm) (confirmed_of s))) c3 = (Inr (), c4)"
  proof (cases "hs_SessionState result")
    case None
    then show ?thesis using that by (simp add: run_simps)
  next
    case (Some st)
    have none: "pending_local_bonus d (st_db (sc_store c3)) = 0" for d
      by (simp add: pending_local_bonus_def c3 tbl_has_def)
    have "validateConfirmedSessionState (confirmed_of st) = None" "in64 (ws_RemainingSeconds st)" "0 \<le> ws_RemainingSeconds st"
      using fit Some by (auto simp: installable_def validateConfirmedSessionState_def confirmed_of_def split: if_splits)
    then obtain s4 where "SaveConfirmedSessionState True (confirmed_of st) (sc_store c3) = (Inr (), s4)"
      by (simp add: SaveConfirmedSessionState_def none Let_def wrap64_id confirmed_of_def in64_def)
    with that [of "c3\<lparr>sc_store := s4\<rparr>"] show ?thesis by (simp add: Some io on_client_store_Inr)
  qed
  obtain c5 where commands: "apply_commands env 0 (co_Revision (hs_Control result)) (hr_LocalDate request) now
       (hs_Commands result) c4 = (Inr (), c5)"
    using apply_commands_served [OF io cmds now] by iprover
  note stages = ack on_client_store_Inr [of "ForgetAppliedCommandIDs (hv_db env CallForget) ?ids", OF forget]
    policy balance confirm
  show ?thesis
    unfolding install_response_def andThen_modify
    by (rule exI [of _ c5], (subst andThen_Inr, rule stages)+, rule commands)
qed

section \<open>What the agent asks\<close>

lemma load_days_error: "load_days ds rs \<noteq> Inl ErrNoPolicy"
  by (induction ds rs rule: load_days.induct) auto

lemma loaded_revision:
  "loadPolicyFromDatabase (st_db s) = Inr p \<Longrightarrow> stored_revision s = ps_Revision p"
  "loadPolicyFromDatabase (st_db s) = Inl ErrNoPolicy \<Longrightarrow> stored_revision s = - 1"
  using load_days_error
  by (auto simp: loadPolicyFromDatabase_def stored_revision_def policyRevision_def Let_def
      split: option.splits if_splits sum.splits)

lemma build_request_Inr:
  assumes "build_request loc env now c = (Inr (request, pending), c1)" and io: "hv_db env = (\<lambda>_. True)"
  shows "\<not> is_zero now" and "c1 = c" and "stored_revision (sc_store c) \<le> hr_PolicyRevision request
      \<and> hr_PolicyRevision request \<le> max 0 (stored_revision (sc_store c))"
    and "hr_Events request = map wire_of_event (take 100
      (sort_key (\<lambda>e. (format_time (pe_CreatedAt e), pe_UUID e)) (pending_event (st_db (sc_store c)))))"
proof -
  show "\<not> is_zero now" "c1 = c"
    using assms build_request_same [OF assms(1)] by (auto simp: build_request_def andThen_def run_simps split: if_splits)
  from assms(1) have "hr_PolicyRevision request = (case LoadPolicy True (sc_store c) of Inr p \<Rightarrow> ps_Revision p | Inl e \<Rightarrow> 0)
      \<and> (\<forall>e. LoadPolicy True (sc_store c) = Inl e \<longrightarrow> e = ErrNoPolicy)"
    by (auto simp: build_request_def Let_def run_simps io local_revision_def elim!: andThen_InrE
        dest!: reading_same collect_events_same split: sum.splits if_splits)
  then show "stored_revision (sc_store c) \<le> hr_PolicyRevision request
      \<and> hr_PolicyRevision request \<le> max 0 (stored_revision (sc_store c))"
    using loaded_revision [of "sc_store c"] by (auto simp: LoadPolicy_def split: sum.splits)
  show "hr_Events request = map wire_of_event (take 100
      (sort_key (\<lambda>e. (format_time (pe_CreatedAt e), pe_UUID e)) (pending_event (st_db (sc_store c)))))"
    using assms(1)
    by (auto simp: build_request_def Let_def run_simps io PendingEvents_def elim!: andThen_InrE
        dest!: reading_same local_revision_same collect_events_same dest: on_client_store_InrE
        simp: reading_def on_client_store_def wrap_error_def split: if_splits)
qed

section \<open>What the server answers\<close>

lemma report_keeps_policy:
  assumes "receive_report loc d request now db = (r, db')"
  shows "loadPolicy d db' = loadPolicy d db"
proof -
  have "policy_view db' = policy_view db" by (rule keepsD [OF keeps_policy_report assms])
  then show ?thesis
    by (simp add: policy_view_def loadPolicy_def quota_of_def [abs_def] stored_routine_def [abs_def] routines_of_def
        split: option.split)
qed

lemma balance_left_range: "0 \<le> balance_left q x u" "in64 (balance_left q x u)"
proof -
  have "in64 (wrap64 n)" for n by (simp add: wrap64_def in64_def)
  then show "0 \<le> balance_left q x u" "in64 (balance_left q x u)"
    by (simp_all add: balance_left_def Let_def in64_def)
qed

lemma opaque_nonempty: "validOpaqueIdentifier i \<Longrightarrow> i \<noteq> [] \<and> length i \<le> 128"
  by (simp add: validOpaqueIdentifier_def)

lemma valid_date_local: "valid_date x \<Longrightarrow> validateLocalDate x = None"
  by (auto simp: valid_date_def validateLocalDate_def split: option.splits)

lemma acceptable_row:
  assumes "command_row_ok row" and "valid_date localDate" and "1 \<le> revision"
  shows "acceptable_command revision localDate (wire_command row)"
proof (cases "validControlKind (mw_kind row)")
  case True
  with assms show ?thesis by (simp add: acceptable_command_def wire_command_def command_row_ok_def)
next
  case False
  with assms(1) obtain n t where row: "mw_kind row = ''add_bonus''" "mw_payload row = credit_text (mw_id row) n t"
    "0 < n" "n \<le> 86400" "clock_ok t" by (auto simp: command_row_ok_def credit_payload_def)
  have id: "mw_id row \<noteq> []" "plain_text (mw_id row)" "\<not> is_zero (mw_created row)"
    using assms(1) by (simp_all add: command_row_ok_def)
  have "read_credit (mw_payload row) = Some \<lparr>ci_UUID = mw_id row, ci_Seconds = n, ci_Origin = ''web'', ci_CreatedAt = t\<rparr>"
    using row id(2) by (simp add: read_credit_text in64_def clock_ok_def)
  with row id show ?thesis
    using valid_date_local [OF assms(2)]
    by (simp add: acceptable_command_def wire_command_def command_bonus_def validateBonus_def clock_ok_def)
qed

lemma heartbeat_error_None:
  assumes "heartbeat_error d request now = None"
  shows "\<not> is_zero now" and "valid_date (hr_LocalDate request)" and "0 \<le> hr_SecondsUsed request"
    and "hr_GraphicalSessionActive request \<Longrightarrow> validOpaqueIdentifier (hr_GraphicalSessionID request)"
    and "hr_RequestSessionState request \<Longrightarrow> hr_GraphicalSessionActive request"
  using assms by (auto simp: heartbeat_error_def split: if_splits)

lemma confirmed_balance:
  assumes "confirmedSessionState d sid date now db = Inr st"
  obtains p where "loadPolicy d db = Inr p" and "ws_Revision st = vp_Revision p" and "ws_SessionID st = sid"
    and "ws_LocalDate st = date" and "0 \<le> ws_RemainingSeconds st" and "in64 (ws_RemainingSeconds st)"
    and "ws_UsageSeconds st = used_seconds d date db" and "ws_ConfirmedAt st = now"
  using assms balance_left_range
  by (auto simp: confirmedSessionState_def LoadDailySummary_def split: sum.splits option.splits if_splits)

lemma answer_installable:
  assumes reach: "server_reachable db" and serve: "ReceiveHeartbeat loc phases d request now db = (Inr result, db')"
    and known: "stored_revision s \<le> hr_PolicyRevision request"
    and sent: "pe_UUID ` set (pending_event (st_db s)) \<subseteq> we_UUID ` set (hr_Events request)"
  shows "installable request result s"
    and "\<exists>p. loadPolicy d db = Inr p \<and> hr_PolicyRevision request \<le> vp_Revision p
      \<and> (case hs_Policy result of None \<Rightarrow> hr_PolicyRevision request = vp_Revision p | Some w \<Rightarrow> wp_Revision w = vp_Revision p)"
proof -
  obtain revision db1 ctl where valid: "heartbeat_error d request now = None"
    and report: "receive_report loc d request now db = (Inr revision, db1)"
    and ctl: "loadControl d db1 = Inr ctl" "hs_Control result = wire_control ctl"
    and policy: "policy_part d request revision db1 (hs_Policy result)"
    and balance: "balance_part d request revision now db1 (hs_SessionState result)"
    and cmds: "hs_Commands result = commands_due d 100 db1"
    and acks: "hs_AcknowledgedEvents result = map we_UUID (hr_Events request)"
      "hs_AcknowledgedCommands result = hr_CommandAcks request"
    by (rule ReceiveHeartbeat_Inr [OF serve])
  obtain dv where dv: "tbl_find dv_id d (sd_device db) = Some dv" "revision = dv_policy_revision dv"
    and revs: "hr_PolicyRevision request \<le> revision" "hr_SessionStateRevision request \<le> revision"
    and ids: "\<forall>e\<in>set (hr_Events request). validOpaqueIdentifier (we_UUID e)"
      "\<forall>c\<in>set (hr_CommandAcks request). validOpaqueIdentifier c"
    and used: "hr_SecondsUsed request \<le> used_seconds d (hr_LocalDate request) db1"
    by (rule receive_report_Inr [OF report])
  note valid' = heartbeat_error_None [OF valid]
  note ok = reachable_policies [OF reach]
  have same: "loadPolicy d db1 = loadPolicy d db" by (rule report_keeps_policy [OF report])
  have rev: "vp_Revision p = revision" if "loadPolicy d db = Inr p" for p
    using loaded_device(1) [OF ok, of d "device_of_row dv" p] that dv by (simp add: LoadDevice_def device_of_row_def)
  have wire: "wp_Revision w = revision \<and> validatePolicy (fromProtocolPolicy w) = None" if "hs_Policy result = Some w" for w
  proof -
    from policy that same obtain p where p: "loadPolicy d db = Inr p" "w = policyForAPI p" by (auto simp: policy_part_def)
    with rev [OF p(1)] loaded_policy_valid(1) [OF ok p(1)] show ?thesis by (simp add: policyForAPI_def)
  qed
  have cok: "commands_ok db1" by (rule commitsD [OF commits_report reachable_commands [OF reach] report])
  have "1 \<le> co_Revision (hs_Control result)"
  proof -
    from ctl obtain r where "r \<in> set (sd_control db1)" "co_Revision (hs_Control result) = cw_revision r"
      by (auto simp: loadControl_def wire_control_def split: option.splits dest!: tbl_find_SomeD)
    with cok show ?thesis by (auto simp: commands_ok_def commands_inv_def control_row_ok_def)
  qed
  then have commands: "\<forall>cmd\<in>set (hs_Commands result). acceptable_command (co_Revision (hs_Control result)) (hr_LocalDate request) cmd"
    using cok valid'(2) by (auto simp: cmds commands_due_def commands_ok_def commands_inv_def dest!: in_set_takeD
        intro: acceptable_row)
  have state: "hr_GraphicalSessionActive request \<and> ws_SessionID st = hr_GraphicalSessionID request
      \<and> ws_LocalDate st = hr_LocalDate request \<and> ws_Revision st = revision \<and> 0 \<le> ws_RemainingSeconds st
      \<and> in64 (ws_RemainingSeconds st) \<and> 0 \<le> ws_UsageSeconds st \<and> ws_ConfirmedAt st = now"
    if st: "hs_SessionState result = Some st" for st
  proof -
    from balance st have act: "hr_GraphicalSessionActive request"
      and conf: "confirmedSessionState d (hr_GraphicalSessionID request) (hr_LocalDate request) now db1 = Inr st"
      by (simp_all add: balance_part_def)
    from conf show ?thesis
      by (rule confirmed_balance) (use act rev same used valid'(3) in auto)
  qed
  have revision: "1 \<le> revision" if "loadPolicy d db = Inr p" for p
    using loaded_policy_valid(2) [OF ok that] rev [OF that] by simp
  have "\<exists>p. loadPolicy d db = Inr p"
  proof -
    have "(d, dv_policy_revision dv) \<in> set (device_revisions db)"
      using tbl_find_SomeD [OF dv(1)] by (force simp: device_revisions_def)
    then have "tbl_has pw_device d (sd_policy db)"
      using ok by (auto simp: policies_ok_def revisions_agree_def tbl_has_iff)
    then show ?thesis by (auto simp: loadPolicy_def tbl_has_find)
  qed
  then obtain p where p: "loadPolicy d db = Inr p" by blast
  have "balance_error request result = None"
    using balance wire state valid' revision [OF p] unfolding balance_error_def balance_part_def
    by (fastforce split: option.splits)
  moreover have "validateConfirmedSessionState (confirmed_of st) = None" if "hs_SessionState result = Some st" for st
    using state [OF that] revision [OF p] valid' opaque_nonempty [of "hr_GraphicalSessionID request"]
    by (simp add: validateConfirmedSessionState_def confirmed_of_def valid_date_local not_less)
  ultimately show "installable request result s"
    unfolding installable_def
    using ids opaque_nonempty wire state commands known revs sent by (auto simp: acks)
  show "\<exists>p. loadPolicy d db = Inr p \<and> hr_PolicyRevision request \<le> vp_Revision p
      \<and> (case hs_Policy result of None \<Rightarrow> hr_PolicyRevision request = vp_Revision p | Some w \<Rightarrow> wp_Revision w = vp_Revision p)"
    using p rev [OF p] revs(1) policy wire by (auto simp: policy_part_def split: option.splits)
qed

section \<open>One exchange\<close>

lemma ReplacePolicy_revision:
  assumes "ReplacePolicy io p s = (Inr (), s')" and "stored_revision s \<le> ps_Revision p"
  shows "stored_revision s' = ps_Revision p"
proof (cases rule: ReplacePolicy_cases [of io p s])
  case replaced
  with assms(1) have "st_db s' = write_policy p (sort_key sr_ID (ps_Routines p)) (st_db s)" by auto
  then show ?thesis by (simp add: write_policy_def stored_revision_def policyRevision_def policy_row_def)
qed (use assms in \<open>auto simp: stored_revision_def\<close>)

lemma SaveConfirmed_revision:
  "SaveConfirmedSessionState io (confirmed_of st) s = (Inr (), s') \<Longrightarrow> stored_revision s' = stored_revision s"
  by (drule SaveConfirmed_Inr, intro stored_revision_cong) (simp add: upsert_usage_def)

lemma installed_state:
  assumes "install_response env request now result c = (Inr (), c')"
    and "\<forall>e\<in>set (pending_event (st_db (sc_store c))). pe_UUID e \<in> set (hs_AcknowledgedEvents result)"
    and "\<forall>st. hs_SessionState result = Some st \<longrightarrow> in64 (ws_RemainingSeconds st)"
    and "\<forall>p. hs_Policy result = Some p \<longrightarrow> stored_revision (sc_store c) \<le> wp_Revision p"
  shows "stored_revision (sc_store c') = (case hs_Policy result of None \<Rightarrow> stored_revision (sc_store c) | Some p \<Rightarrow> wp_Revision p)"
    and "\<forall>st. hs_SessionState result = Some st \<longrightarrow> CurrentConfirmedSessionState (sc_store c') = Some (confirmed_of st)"
proof -
  obtain s1 s2 s3 s4 where s1: "s1 = (sc_store c)\<lparr>st_db := (st_db (sc_store c))\<lparr>pending_event :=
       tbl_delete (\<lambda>e. pe_UUID e \<in> set (hs_AcknowledgedEvents result)) (pending_event (st_db (sc_store c)))\<rparr>\<rparr>"
    and s2: "ForgetAppliedCommandIDs (hv_db env CallForget) (hs_AcknowledgedCommands result) s1 = (Inr (), s2)"
    and s3: "case hs_Policy result of None \<Rightarrow> s3 = s2
      | Some p \<Rightarrow> ReplacePolicy (hv_db env CallReplace) (fromProtocolPolicy p) s2 = (Inr (), s3)"
    and s4: "case hs_SessionState result of None \<Rightarrow> s4 = s3
      | Some st \<Rightarrow> SaveConfirmedSessionState (hv_db env CallConfirm) (confirmed_of st) s3 = (Inr (), s4)"
    and s5: "run_commands env 0 (co_Revision (hs_Control result)) (hr_LocalDate request) now
      (hs_Commands result) s4 = (Inr (), sc_store c')"
    by (rule install_response_InrE [OF assms(1)])
  note blind = command_blind_props [OF run_commands_blind [OF s5]]
  have two: "pending_event (st_db s2) = []" "stored_revision s2 = stored_revision (sc_store c)"
    using assms(2) stored_revision_cong [of s2 "sc_store c"]
    by (auto simp: Forget_Inr [OF s2] s1 tbl_delete_def filter_empty_conv)
  have three: "pending_event (st_db s3) = []"
    "stored_revision s3 = (case hs_Policy result of None \<Rightarrow> stored_revision (sc_store c) | Some p \<Rightarrow> wp_Revision p)"
    using s3 two assms(4) ReplacePolicy_Inr [of _ _ s2 s3] ReplacePolicy_revision [of _ _ s2 s3]
    by (auto simp: fromProtocolPolicy_def split: option.splits)
  have four: "stored_revision s4 = stored_revision s3"
    using s4 by (auto split: option.splits dest: SaveConfirmed_revision)
  then show "stored_revision (sc_store c') = (case hs_Policy result of None \<Rightarrow> stored_revision (sc_store c) | Some p \<Rightarrow> wp_Revision p)"
    using blind(5) three(2) by simp
  have "installed_balance st s3 = confirmed_of st" if "in64 (ws_RemainingSeconds st)" for st
    using that by (simp add: installed_balance_def pending_local_bonus_def three(1) tbl_has_def wrap64_id confirmed_of_def)
  then show "\<forall>st. hs_SessionState result = Some st \<longrightarrow> CurrentConfirmedSessionState (sc_store c') = Some (confirmed_of st)"
    using s4 assms(3) blind(2) by (auto simp: CurrentConfirmedSessionState_def dest!: SaveConfirmed_Inr)
qed

text \<open>C6: What the server answers to a heartbeat, from any database it can reach, the agent installs:
  with its own database at work and at most one batch of events queued, the heartbeat succeeds,
  the agent holds the revision of the server's policy, every queued event has been delivered, and
  the confirmed balance is the one the server computed.\<close>

theorem agent_accepts_server_answers:
  assumes "server_reachable db"
    and "build_request loc env now c = (Inr (request, pending), c1)"
    and "ReceiveHeartbeat sloc phases d request snow db = (Inr result, db')"
    and "answer_of (hv_exchange env request) = Some result"
    and "hv_db env = (\<lambda>_. True)" and "length (pending_event (st_db (sc_store c))) \<le> 100"
  shows "\<exists>c' p. Heartbeat loc env now c = (Inr result, c') \<and> loadPolicy d db = Inr p
    \<and> stored_revision (sc_store c') = vp_Revision p
    \<and> (\<forall>st. hs_SessionState result = Some st \<longrightarrow> CurrentConfirmedSessionState (sc_store c') = Some (confirmed_of st))"
proof -
  note asked = build_request_Inr [OF assms(2,5)]
  have "pe_UUID ` set (pending_event (st_db (sc_store c))) \<subseteq> we_UUID ` set (hr_Events request)"
  proof
    fix u assume "u \<in> pe_UUID ` set (pending_event (st_db (sc_store c)))"
    then obtain e where e: "e \<in> set (pending_event (st_db (sc_store c)))" "u = we_UUID (wire_of_event e)"
      by (auto simp: wire_of_event_def)
    then have "wire_of_event e \<in> set (hr_Events request)" using assms(6) by (simp add: asked(4))
    with e(2) show "u \<in> we_UUID ` set (hr_Events request)" by blast
  qed
  note fit = answer_installable [OF assms(1,3) conjunct1 [OF asked(3)] this]
  obtain c' where inst: "install_response env request now result c = (Inr (), c')"
    using install_served [OF assms(5) asked(1) fit(1)] by iprover
  have exch: "exchange_request env request pending c1 = (Inr result, c1)"
    using assms(4) by (auto simp: exchange_request_def answer_of_def decodeHeartbeatResponse_def run_simps
        split: Outcome.splits if_splits sum.splits)
  have beat: "Heartbeat loc env now c = (Inr result, c')"
    unfolding Heartbeat_def using assms(2) exch inst asked(2) by (simp add: andThen_def run_simps)
  from fit(1) have "\<forall>e\<in>set (pending_event (st_db (sc_store c))). pe_UUID e \<in> set (hs_AcknowledgedEvents result)"
    "\<forall>st. hs_SessionState result = Some st \<longrightarrow> in64 (ws_RemainingSeconds st)"
    "\<forall>p. hs_Policy result = Some p \<longrightarrow> stored_revision (sc_store c) \<le> wp_Revision p"
    by (simp_all add: installable_def)
  note after = installed_state [OF inst this]
  from fit(2) obtain p where p: "loadPolicy d db = Inr p" "hr_PolicyRevision request \<le> vp_Revision p"
    "case hs_Policy result of None \<Rightarrow> hr_PolicyRevision request = vp_Revision p | Some w \<Rightarrow> wp_Revision w = vp_Revision p"
    by blast
  have "1 \<le> vp_Revision p" by (rule loaded_policy_valid(2) [OF reachable_policies [OF assms(1)] p(1)])
  then have "stored_revision (sc_store c') = vp_Revision p"
    using p(3) asked(3) after(1) by (auto split: option.splits)
  with beat p(1) after(2) show ?thesis by blast
qed

end
