(* ===== verification/ServerLive.thy ===== *)
theory ServerLive
  imports ServerBonus AgentServer
begin

text \<open>
  A heartbeat that is well formed is answered: nothing stored by the server's own operations can
  make it fail.
\<close>

section \<open>Steps that always succeed\<close>

lemma upsert_step_served:
  "has_activity i db \<Longrightarrow> \<exists>db'. upsertActivityStep i k a now x r db = (Inr (), db') \<and> sd_activity db' = sd_activity db"
  by (simp add: upsertActivityStep_def requires_def andThen_def run_simps)

lemma local_activity_served:
  assumes "has_device d db"
  shows "\<exists>db'. insertLocalBonusActivity loc i d n date t now db = (Inr (), db')"
proof (cases "has_activity i db")
  case True
  then show ?thesis
    by (simp add: insertLocalBonusActivity_def insert_or_ignore_activity_def done_activity_def run_simps andThen_def)
next
  case False
  let ?a = "done_activity loc i d ''add_bonus'' ''device'' [(''local_date'', date), (''minutes'', show_int (go_div n 60))] t now"
  have ins: "insert_or_ignore_activity ?a db = (Inr True, db\<lparr>sd_activity := sd_activity db @ [?a]\<rparr>)"
    using False assms by (simp add: insert_or_ignore_activity_def requires_def run_simps andThen_def done_activity_def)
  have "has_activity i (db\<lparr>sd_activity := sd_activity db @ [?a], sd_step := s\<rparr>)" for s
    by (simp add: has_activity_def table_simps done_activity_def)
  from this [of "sd_step db"] this show ?thesis
    by (simp add: insertLocalBonusActivity_def andThen_def ins upsertActivityStep_def requires_def run_simps)
qed

lemma insert_bonus_served:
  "has_device (bw_device b) db \<Longrightarrow> insert_bonus_row b db = (Inr (), db\<lparr>sd_bonus := tbl_insert_ignore bw_uuid b (sd_bonus db)\<rparr>)"
  by (simp add: insert_bonus_row_def requires_def andThen_def run_simps)

lemma apply_credits_served:
  assumes "has_device d db"
  shows "\<exists>db'. apply_credits d date credits db = (Inr (), db')"
  using assms
proof (induction credits arbitrary: db)
  case (Cons credit credits)
  let ?db = "db\<lparr>sd_bonus := tbl_insert_ignore bw_uuid (credit_bonus d date credit) (sd_bonus db)\<rparr>"
  have "insert_bonus_row (credit_bonus d date credit) db = (Inr (), ?db)"
    using Cons.prems by (intro insert_bonus_served) (simp add: credit_bonus_def)
  moreover have "has_device d ?db" using Cons.prems by (simp add: has_device_def)
  ultimately show ?case using Cons.IH [of ?db] by (simp add: andThen_Inr)
qed (simp add: run_simps)

lemma receive_events_served:
  assumes "has_device d db" and "\<forall>e\<in>set es. \<exists>p. event_bonus e = Inr p"
  shows "\<exists>db'. receive_events loc d now es db = (Inr (), db')"
  using assms
proof (induction es arbitrary: db)
  case (Cons e es)
  then obtain p where p: "event_bonus e = Inr p" by auto
  let ?row = "local_bonus_row d e p"
  let ?db = "db\<lparr>sd_bonus := tbl_insert_ignore bw_uuid ?row (sd_bonus db),
    sd_audit := tbl_insert_ignore aw_uuid (local_bonus_audit d e p) (sd_audit db)\<rparr>"
  have ins: "insert_bonus_row ?row db = (Inr (), db\<lparr>sd_bonus := tbl_insert_ignore bw_uuid ?row (sd_bonus db)\<rparr>)"
    using Cons.prems by (intro insert_bonus_served) (simp add: local_bonus_row_def)
  have dev: "has_device d ?db" using Cons.prems by (simp add: has_device_def)
  obtain db1 where act: "insertLocalBonusActivity loc (we_UUID e) d (bp_Seconds p) (bp_LocalDate p) (we_CreatedAt e) now ?db = (Inr (), db1)"
    using local_activity_served [OF dev] by blast
  have "receiveEvent loc d e now db = (Inr (), db1)"
    using act dev Cons.prems(1)
    by (simp add: receiveEvent_def p andThen_def ins requires_def run_simps has_device_def)
  moreover have "has_device d db1"
    using dev keepsD [OF keeps_local_activity act] by (simp add: has_device_def business_view_def)
  ultimately show ?case using Cons.IH [of db1] Cons.prems(2) by (simp add: andThen_Inr)
qed (simp add: run_simps)

lemma tbl_has_update: "(\<And>x. key (f x) = key x) \<Longrightarrow> tbl_has key k (tbl_update p f t) = tbl_has key k t"
  by (induction t) (auto simp: tbl_update_def tbl_has_def)

lemma of_activity_has: "list_ex (of_activity d c) t \<Longrightarrow> tbl_has tw_id c t"
  by (auto simp: list_ex_iff of_activity_def tbl_has_def)

lemma acknowledge_command_served:
  assumes "validOpaqueIdentifier c"
  shows "\<exists>db'. acknowledge_command loc d now c db = (Inr (), db')"
proof -
  have "tbl_has tw_id c (tbl_update (of_activity d c) (completed_activity loc now) (sd_activity db))"
    if "list_ex (of_activity d c) (sd_activity db)"
    using of_activity_has [OF that] by (simp add: tbl_has_update completed_activity_def)
  then show ?thesis
    using assms
    by (simp add: acknowledge_command_def run_simps andThen_def upsertActivityStep_def requires_def has_activity_def)
qed

lemma acknowledge_commands_served:
  "\<forall>c\<in>set cs. validOpaqueIdentifier c \<Longrightarrow> \<exists>db'. acknowledge_commands loc d now cs db = (Inr (), db')"
proof (induction cs arbitrary: db)
  case (Cons c cs)
  then obtain db1 where "acknowledge_command loc d now c db = (Inr (), db1)"
    using acknowledge_command_served by fastforce
  with Cons show ?case by (simp add: andThen_Inr)
qed (simp add: run_simps)

lemma offer_command_served: "\<exists>db'. offer_command d now c db = (Inr (), db')"
proof -
  let ?p = "\<lambda>a. of_activity d c a \<and> tw_status a \<noteq> ''completed''"
  have "tbl_has tw_id c (tbl_update ?p (\<lambda>a. a\<lparr>tw_status := ''offered''\<rparr>) t)" if "list_ex ?p t" for t
  proof -
    have "list_ex (of_activity d c) t" using that by (auto simp: list_ex_iff)
    then show ?thesis using of_activity_has by (simp add: tbl_has_update)
  qed
  then show ?thesis
    by (simp add: offer_command_def run_simps andThen_def upsertActivityStep_def requires_def has_activity_def)
qed

lemma offer_commands_served: "\<exists>db'. offer_commands d now cs db = (Inr (), db')"
proof (induction cs arbitrary: db)
  case (Cons c cs)
  obtain db1 where "offer_command d now c db = (Inr (), db1)" using offer_command_served by blast
  with Cons [of db1] show ?case by (simp add: andThen_Inr)
qed (simp add: run_simps)

lemma cleanup_served: "\<exists>n db'. cleanupExpiredCompletedActivitiesIfDue now db = (Inr n, db')"
  unfolding cleanupExpiredCompletedActivitiesIfDue_def by (split if_split) simp

section \<open>The report and the answer\<close>

lemma decode_credits_served:
  "\<forall>c\<in>set cs. command_row_ok c \<and> mw_kind c = ''add_bonus'' \<Longrightarrow> \<exists>credits. decode_credits cs = Inr credits"
proof (induction cs)
  case (Cons c cs)
  have "\<not> validControlKind ''add_bonus''" by (simp add: validControlKind_def)
  with Cons.prems obtain n t where row: "mw_payload c = credit_text (mw_id c) n t"
    "0 < n" "n \<le> 86400" "clock_ok t" "mw_id c \<noteq> []" "plain_text (mw_id c)"
    by (auto simp: command_row_ok_def credit_payload_def)
  have "read_credit (mw_payload c) = Some \<lparr>ci_UUID = mw_id c, ci_Seconds = n, ci_Origin = ''web'', ci_CreatedAt = t\<rparr>"
    using row by (simp add: read_credit_text in64_def clock_ok_def)
  then have "decodeCreditIncrementCommand (mw_id c) (mw_payload c) (mw_created c)
      = Inr \<lparr>ci_UUID = mw_id c, ci_Seconds = n, ci_Origin = ''web'', ci_CreatedAt = t\<rparr>"
    using row by (simp add: decodeCreditIncrementCommand_def clock_ok_def duration_defs)
  with Cons show ?case by auto
qed simp

lemma receive_report_served:
  assumes ok: "commands_ok db" and found: "tbl_find dv_id d (sd_device db) = Some dv"
    and revs: "hr_PolicyRevision request \<le> dv_policy_revision dv" "hr_SessionStateRevision request \<le> dv_policy_revision dv"
    and events: "\<forall>e\<in>set (hr_Events request). \<exists>p. event_bonus e = Inr p"
    and acks: "\<forall>c\<in>set (hr_CommandAcks request). validOpaqueIdentifier c"
  shows "\<exists>db'. receive_report loc d request now db = (Inr (dv_policy_revision dv), db')"
proof -
  let ?db = "report_usage d request now (update_device d (report_device request now) db)"
  have dev: "has_device d ?db"
  proof -
    have "tbl_has dv_id d (sd_device db)" using found by (simp add: tbl_has_find)
    then show ?thesis by (simp add: has_device_def report_usage_def update_device_def tbl_has_update report_device_def)
  qed
  have "sd_command ?db = sd_command db" by (simp add: report_usage_def update_device_def)
  then have "\<exists>credits. loadPendingRemoteCredits d ?db = Inr credits"
    unfolding loadPendingRemoteCredits_def using ok
    by (intro decode_credits_served) (auto simp: commands_ok_def commands_inv_def credit_due_def)
  then obtain credits where credits: "loadPendingRemoteCredits d ?db = Inr credits" by blast
  obtain x1 where one: "applyPendingRemoteBonuses d (hr_LocalDate request) ?db = (Inr (), x1)"
    using apply_credits_served [OF dev] credits by (fastforce simp: applyPendingRemoteBonuses_def run_simps)
  have "keeps sd_device (applyPendingRemoteBonuses d (hr_LocalDate request))"
  proof -
    have "keeps sd_device (apply_credits d date cs)" for date cs
      by (induction cs) (auto intro!: keeps_intros keeps_modify simp: insert_bonus_row_def)
    then show ?thesis unfolding applyPendingRemoteBonuses_def by (intro keeps_intros)
  qed
  from keepsD [OF this one] dev have "has_device d x1" by (simp add: has_device_def)
  from receive_events_served [OF this events]
  obtain x2 where two: "receive_events loc d now (hr_Events request) x1 = (Inr (), x2)" by blast
  obtain x3 where three: "acknowledge_commands loc d now (hr_CommandAcks request) x2 = (Inr (), x3)"
    using acknowledge_commands_served [OF acks] by blast
  obtain n x4 where four: "cleanupExpiredCompletedActivitiesIfDue now x3 = (Inr n, x4)"
    using cleanup_served by blast
  show ?thesis
    using revs by (simp add: receive_report_def run_simps found Let_def andThen_def one two three four)
qed

lemma ReceiveHeartbeat_served:
  assumes valid: "heartbeat_error d request now = None" and served: "\<forall>phase. phases phase"
    and report: "receive_report loc d request now db = (Inr revision, db1)"
    and control: "loadControl d db1 = Inr ctl" and policy: "loadPolicy d db1 = Inr p"
    and sum: "in64 (bonus_sum d (hr_LocalDate request) db1)"
  shows "\<exists>result db'. ReceiveHeartbeat loc phases d request now db = (Inr result, db')"
proof -
  have "\<exists>wd. weekday_of_date (hr_LocalDate request) = Some wd"
    using heartbeat_error_None(2) [OF valid]
    by (auto simp: valid_date_def weekday_of_date_def split: option.splits)
  then obtain st where balance: "confirmedSessionState d (hr_GraphicalSessionID request) (hr_LocalDate request) now db1 = Inr st"
    using policy sum by (auto simp: confirmedSessionState_def LoadDailySummary_def)
  have "\<exists>cmds db'. pendingCommands phases d 100 now db1 = (Inr cmds, db')"
  proof -
    obtain db2 where "offer_commands d now (map wc_ID (commands_due d 100 db1)) db1 = (Inr (), db2)"
      using offer_commands_served by blast
    then show ?thesis using served by (simp add: pendingCommands_def querying_def andThen_def transaction_def run_simps)
  qed
  then obtain cmds db2 where "pendingCommands phases d 100 now db1 = (Inr cmds, db2)" by blast
  then show ?thesis
    using served by (simp add: ReceiveHeartbeat_def valid transaction_def report querying_def control policy balance
        andThen_def run_simps)
qed

section \<open>Every device has a control row\<close>

definition device_ids :: "ServerDb \<Rightarrow> string list \<times> string list" where
  "device_ids db = (map dv_id (sd_device db), map cw_device (sd_control db))"

definition controls_present :: "ServerDb \<Rightarrow> bool" where
  "controls_present db \<longleftrightarrow> map cw_device (sd_control db) = map dv_id (sd_device db)"

lemma controls_kept: "keeps device_ids m \<Longrightarrow> controls_present db \<Longrightarrow> m db = (r, db') \<Longrightarrow> controls_present db'"
  using keepsD [of device_ids m db r db'] by (simp add: device_ids_def controls_present_def)

lemma keeps_ids_business: "keeps business_view m \<Longrightarrow> keeps device_ids m"
  by (erule keeps_finer) (simp add: business_view_def device_ids_def)

lemma keeps_ids_history [keeps_intros]:
  "keeps device_ids (insertAudit env k d kind payload now)"
  "keeps device_ids (insertAdminActivity aid d kind details now)"
  "keeps device_ids (upsertActivityStep aid kind actor now details repeated)"
  "keeps device_ids (insertLocalBonusActivity loc e d seconds date t now)"
  "keeps device_ids (cleanupExpiredCompletedActivitiesIfDue now)"
  by (intro keeps_ids_business keeps_intros)+

lemma map_key_update: "(\<And>x. key (f x) = key x) \<Longrightarrow> map key (tbl_update p f t) = map key t"
  by (simp add: tbl_update_def)

lemma keeps_ids_update [keeps_intros]:
  "(\<And>x. dv_id (f x) = dv_id x) \<Longrightarrow> keeps device_ids (change_device d f)"
  unfolding change_device_def
  by (intro keeps_intros keeps_modify) (simp add: device_ids_def update_device_def map_key_update)

lemma keeps_ids_bump [keeps_intros]: "keeps device_ids (bumpPolicyKeepWarning d now)" "keeps device_ids (bumpPolicy d w now)"
  unfolding bumpPolicyKeepWarning_def bumpPolicy_def bump_rows_def
  by (intro keeps_intros keeps_modify; simp add: device_ids_def update_device_def map_key_update)+

lemma keeps_ids_bonus_row [keeps_intros]: "keeps device_ids (insert_bonus_row b)"
  unfolding insert_bonus_row_def by (intro keeps_intros keeps_modify) (simp add: device_ids_def)

lemma keeps_ids_lists [keeps_intros]:
  "keeps device_ids (apply_credits d date credits)" "keeps device_ids (receive_events loc d now es)"
  "keeps device_ids (acknowledge_commands loc d now cs)" "keeps device_ids (offer_commands d now cs)"
proof -
  show "keeps device_ids (apply_credits d date credits)" by (induction credits) (auto intro!: keeps_intros)
  have "keeps device_ids (receiveEvent loc d e now)" for e
    unfolding receiveEvent_def by (intro keeps_intros keeps_modify) (simp add: device_ids_def)
  then show "keeps device_ids (receive_events loc d now es)" by (induction es) (auto intro!: keeps_intros)
  have "keeps device_ids (acknowledge_command loc d now c)" for c
    unfolding acknowledge_command_def by (intro keeps_intros keeps_modify) (simp_all add: device_ids_def)
  then show "keeps device_ids (acknowledge_commands loc d now cs)" by (induction cs) (auto intro!: keeps_intros)
  have "keeps device_ids (offer_command d now c)" for c
    unfolding offer_command_def by (intro keeps_intros keeps_modify) (simp_all add: device_ids_def)
  then show "keeps device_ids (offer_commands d now cs)" by (induction cs) (auto intro!: keeps_intros)
qed

lemma keeps_ids_report [keeps_intros]: "keeps device_ids (receive_report loc d request now)"
  unfolding receive_report_def Let_def applyPendingRemoteBonuses_def
  by (intro keeps_intros keeps_modify)
    (simp_all add: device_ids_def update_device_def map_key_update report_usage_def report_device_def)

lemma keeps_device_ids:
  "keeps device_ids (BootstrapAdmin env login hash now)"
  "keeps device_ids (RenameDevice env d name now)"
  "keeps device_ids (UpdateDeviceIdentity env d name avatar now)"
  "keeps device_ids (SaveQuotas env d quotas warning now)"
  "keeps device_ids (SetLocalPassword env d verifier now)"
  "keeps device_ids (SaveRoutine env d r now)"
  "keeps device_ids (DeleteRoutine env d rid now)"
  "keeps device_ids (QueueControlOperation env d kind now)"
  "keeps device_ids (QueueRemoteBonus env d seconds now)"
  "keeps device_ids (ReceiveHeartbeat loc phases d request now)"
  "keeps device_ids (CleanupExpiredCompletedActivities served now)"
  unfolding BootstrapAdmin_def RenameDevice_def UpdateDeviceIdentity_def SaveQuotas_def SetLocalPassword_def
    SaveRoutine_def store_routine_def choose_icon_def commit_routine_def DeleteRoutine_def
    CleanupExpiredCompletedActivities_def write_routine_def bump_rows_def set_quotas_def
    QueueControlOperation_def QueueRemoteBonus_def change_control_def insert_command_def
    discard_pending_controls_def ReceiveHeartbeat_def pendingCommands_def Let_def
  by (intro keeps_intros keeps_modify; simp add: device_ids_def update_device_def map_key_update)+

lemma controls_create: "preserves controls_present (CreateDeviceWithAvatar env name avatar now)"
proof -
  have ins: "commits controls_present (insert_device d n a now) (\<lambda>_. controls_present)" for d n a
    by (rule commitsI) (auto simp: insert_device_def requires_def andThen_def run_simps controls_present_def
        new_device_def split: if_splits)
  have rest: "commits controls_present (andThen (insertAudit env 1 d k payload now) (\<lambda>_. ret x)) (\<lambda>_. controls_present)"
    for d k payload and x :: Device
    by (rule commits_keeps [of device_ids]) (auto intro!: keeps_intros simp: device_ids_def controls_present_def)
  show ?thesis
    unfolding CreateDeviceWithAvatar_def Let_def
    by (intro preserves_fails_if preserves_newID preserves_transaction commits_seq [OF ins rest])
qed

lemma map_key_delete: "map key (tbl_delete (\<lambda>r. key r = k) t) = filter (\<lambda>x. x \<noteq> k) (map key t)"
  by (induction t) (auto simp: tbl_delete_def)

lemma controls_delete: "preserves controls_present (DeleteDevice served d)"
  unfolding DeleteDevice_def
  by (intro preserves_transaction commits_reads commits_fails_if commits_modify)
    (simp add: controls_present_def delete_device_def Let_def map_key_delete)

lemma ids_of_core:
  assumes "core_view db' = core_view db"
  shows "device_ids db' = device_ids db"
proof -
  have "map fst (device_revisions x) = map dv_id (sd_device x)" for x
    by (simp add: device_revisions_def comp_def)
  then show ?thesis using assms by (simp add: core_view_def device_ids_def) metis
qed

lemma server_step_controls: "server_step db db' \<Longrightarrow> controls_present db \<Longrightarrow> controls_present db'"
proof (induction rule: server_step.induct)
  case bootstrap
  then show ?case by - (rule controls_kept [OF keeps_device_ids(1)]; assumption)
next
  case rename_device
  then show ?case by - (rule controls_kept [OF keeps_device_ids(2)]; assumption)
next
  case update_identity
  then show ?case by - (rule controls_kept [OF keeps_device_ids(3)]; assumption)
next
  case save_quotas
  then show ?case by - (rule controls_kept [OF keeps_device_ids(4)]; assumption)
next
  case set_password
  then show ?case by - (rule controls_kept [OF keeps_device_ids(5)]; assumption)
next
  case save_routine
  then show ?case by - (rule controls_kept [OF keeps_device_ids(6)]; assumption)
next
  case delete_routine
  then show ?case by - (rule controls_kept [OF keeps_device_ids(7)]; assumption)
next
  case queue_control
  then show ?case by - (rule controls_kept [OF keeps_device_ids(8)]; assumption)
next
  case queue_bonus
  then show ?case by - (rule controls_kept [OF keeps_device_ids(9)]; assumption)
next
  case heartbeat
  then show ?case by - (rule controls_kept [OF keeps_device_ids(10)]; assumption)
next
  case cleanup
  then show ?case by - (rule controls_kept [OF keeps_device_ids(11)]; assumption)
next
  case create_device
  then show ?case by - (rule preservesD [OF controls_create]; assumption)
next
  case delete_device
  then show ?case by - (rule preservesD [OF controls_delete]; assumption)
next
  case issue_token
  then show ?case by - (rule controls_kept [OF keeps_finer [OF keeps_core_credentials(1) ids_of_core]]; assumption)
next
  case revoke_token
  then show ?case by - (rule controls_kept [OF keeps_finer [OF keeps_core_credentials(2) ids_of_core]]; assumption)
next
  case hide_history
  then show ?case by - (rule controls_kept [OF keeps_finer [OF keeps_core_credentials(3) ids_of_core]]; assumption)
qed

lemma reachable_controls: "server_reachable db \<Longrightarrow> controls_present db"
proof (induction rule: server_reachable.induct)
  case start
  show ?case by (simp add: controls_present_def empty_server_def)
qed (rule server_step_controls)

section \<open>Liveness\<close>

lemma device_rows:
  assumes "server_reachable db" and "tbl_find dv_id d (sd_device db) = Some dv"
  shows "tbl_has cw_device d (sd_control db)" and "\<exists>p. loadPolicy d db = Inr p"
proof -
  note dv = tbl_find_SomeD [OF assms(2)]
  have "d \<in> set (map dv_id (sd_device db))" using dv by auto
  then have "d \<in> set (map cw_device (sd_control db))"
    using reachable_controls [OF assms(1)] by (simp only: controls_present_def)
  then show "tbl_has cw_device d (sd_control db)" by (simp add: tbl_has_iff)
  have "(d, dv_policy_revision dv) \<in> set (device_revisions db)" using dv by (force simp: device_revisions_def)
  then have "tbl_has pw_device d (sd_policy db)"
    using reachable_policies [OF assms(1)] by (auto simp: policies_ok_def revisions_agree_def tbl_has_iff)
  then show "\<exists>p. loadPolicy d db = Inr p" by (auto simp: loadPolicy_def tbl_has_find)
qed

lemma report_is_served:
  assumes "server_reachable db" and "tbl_find dv_id d (sd_device db) = Some dv"
    and "hr_PolicyRevision request \<le> dv_policy_revision dv" and "hr_SessionStateRevision request \<le> dv_policy_revision dv"
    and "\<forall>e\<in>set (hr_Events request). \<exists>p. event_bonus e = Inr p"
    and "\<forall>c\<in>set (hr_CommandAcks request). validOpaqueIdentifier c"
  obtains db1 p ctl where "receive_report loc d request now db = (Inr (dv_policy_revision dv), db1)"
    and "loadPolicy d db1 = Inr p" and "loadControl d db1 = Inr ctl"
proof -
  note rows = device_rows [OF assms(1,2)]
  from receive_report_served [OF reachable_commands [OF assms(1)] assms(2-6)]
  obtain db1 where report: "receive_report loc d request now db = (Inr (dv_policy_revision dv), db1)" by blast
  from rows(2) obtain p where "loadPolicy d db1 = Inr p" using report_keeps_policy [OF report] by auto
  moreover have "device_ids db1 = device_ids db" by (rule keepsD [OF keeps_ids_report report])
  then have "tbl_has cw_device d (sd_control db1)"
    using rows(1) unfolding tbl_has_iff device_ids_def by (metis prod.inject set_map)
  then have "\<exists>ctl. loadControl d db1 = Inr ctl" by (auto simp: loadControl_def tbl_has_find)
  ultimately show ?thesis using that report by blast
qed

text \<open>C11: A well-formed heartbeat of an enrolled device is answered, from every database the server can
  reach: with the engine at work, revisions that are not ahead, valid events and acknowledgements,
  and a sum of bonuses within 64 bits, nothing that the server's own operations stored - queued
  credits, commands, history, policies - makes it fail.\<close>

theorem well_formed_heartbeat_is_answered:
  assumes "server_reachable db" and "tbl_find dv_id d (sd_device db) = Some dv"
    and "heartbeat_error d request now = None" and "\<forall>phase. phases phase"
    and "hr_PolicyRevision request \<le> dv_policy_revision dv" and "hr_SessionStateRevision request \<le> dv_policy_revision dv"
    and "\<forall>e\<in>set (hr_Events request). \<exists>p. event_bonus e = Inr p"
    and "\<forall>c\<in>set (hr_CommandAcks request). validOpaqueIdentifier c"
    and "\<And>n db1. receive_report loc d request now db = (Inr n, db1) \<Longrightarrow> in64 (bonus_sum d (hr_LocalDate request) db1)"
  shows "\<exists>result db'. ReceiveHeartbeat loc phases d request now db = (Inr result, db')"
proof -
  obtain db1 p ctl where served: "receive_report loc d request now db = (Inr (dv_policy_revision dv), db1)"
    "loadPolicy d db1 = Inr p" "loadControl d db1 = Inr ctl"
    by (rule report_is_served [OF assms(1,2,5-8)])
  show ?thesis by (rule ReceiveHeartbeat_served [OF assms(3,4) served(1,3,2) assms(9) [OF served(1)]])
qed

end
