(* ===== verification/ServerRuns.thy ===== *)
theory ServerRuns
  imports ServerLive
begin

text \<open>
  A heartbeat of the sample device, and what the properties of heartbeats say about it.
\<close>

section \<open>A report with one local bonus\<close>

definition sample_report :: HeartbeatRequest where
  "sample_report = sample_request\<lparr>hr_Events := [wire_of_event (granted_event ''b1'' ''2026-07-20'' 600 sample_now)]\<rparr>"

definition sample_question :: HeartbeatRequest where
  "sample_question = sample_request\<lparr>hr_Events := []\<rparr>"

lemma sample_report_fields:
  "hr_LocalDate sample_report = ''2026-07-20''" "hr_PolicyRevision sample_report = 0"
  "hr_SessionStateRevision sample_report = 0" "hr_CommandAcks sample_report = []"
  "hr_Events sample_report = [wire_of_event (granted_event ''b1'' ''2026-07-20'' 600 sample_now)]"
  by (simp_all add: sample_report_def sample_request_def)

lemma sample_valid:
  "heartbeat_error pc sample_report sample_now = None" "heartbeat_error pc sample_question sample_now = None"
proof -
  have "validOpaqueIdentifier ''10101010-1010-4010-9010-101010101010''" "valid_date ''2026-07-20''"
    "validOpaqueIdentifier ''2''" by code_simp+
  then show "heartbeat_error pc sample_report sample_now = None" "heartbeat_error pc sample_question sample_now = None"
    by (simp_all add: heartbeat_error_def sample_report_def sample_question_def sample_request_def sample_id_texts sample_clock
        maximumDailyUsageSeconds_def duration_defs go_div_def)
qed

lemma sample_event_bonus: "event_bonus (wire_of_event (granted_event ''b1'' ''2026-07-20'' 600 sample_now))
    = Inr \<lparr>bp_UUID = [], bp_LocalDate = ''2026-07-20'', bp_Seconds = 600, bp_Origin = ''local'', bp_CreatedAt = zero_time\<rparr>"
proof -
  have "plain_text ''2026-07-20''" "valid_date ''2026-07-20''" "validOpaqueIdentifier ''b1''"
    "bonus_text ''2026-07-20'' 600 \<noteq> []" "\<not> 16384 < length (bonus_text ''2026-07-20'' 600)"
    by code_simp+
  then show ?thesis
    by (simp add: event_bonus_def event_malformed_def wire_of_event_def granted_event_def read_bonus_text
        bonus_text_valid in64_def sample_clock duration_defs go_div_def)
qed

lemma sample_credits: "loadPendingRemoteCredits pc (report_usage pc sample_report sample_now
      (update_device pc (report_device sample_report sample_now) sdb5))
    = Inr [\<lparr>pq_id = sample_id 80, pq_seconds = 900, pq_createdAt = sample_now\<rparr>]"
proof -
  have "plain_text (sample_id 80)" "sample_id 80 \<noteq> []" unfolding sample_id_texts by code_simp+
  then have "decodeCreditIncrementCommand (sample_id 80) (credit_text (sample_id 80) 900 sample_now) sample_now
      = Inr \<lparr>ci_UUID = sample_id 80, ci_Seconds = 900, ci_Origin = ''web'', ci_CreatedAt = sample_now\<rparr>"
    using sample_clock by (simp add: decodeCreditIncrementCommand_def read_credit_text in64_def clock_ok_def duration_defs go_div_def)
  then show ?thesis
    by (simp add: loadPendingRemoteCredits_def report_usage_def update_device_def sdb5_view credit_due_def
        new_command_def tbl_has_def)
qed

lemma sample_booked:
  assumes "receive_report loc pc sample_report sample_now sdb5 = (Inr n, db1)"
  shows "sd_bonus db1 = [\<lparr>bw_uuid = sample_id 80, bw_device = pc, bw_date = ''2026-07-20'', bw_seconds = 900,
      bw_origin = ''web'', bw_created = sample_now\<rparr>,
    \<lparr>bw_uuid = ''b1'', bw_device = pc, bw_date = ''2026-07-20'', bw_seconds = 600, bw_origin = ''local'',
      bw_created = sample_now\<rparr>]"
proof -
  have "sample_id 80 \<noteq> ''b1''" by (simp add: sample_id_texts)
  with sample_credits sample_event_bonus show ?thesis
    by - (rule report_bonuses [OF assms], simp add: sample_report_fields sdb5_view credit_bonus_def local_bonus_row_def
        tbl_insert_ignore_def tbl_has_def wire_of_event_def granted_event_def,
        auto simp: tbl_insert_ignore_def tbl_has_def)
qed

section \<open>The heartbeat and what the properties say of it\<close>

lemma sample_device: "tbl_find dv_id pc (sd_device sdb5)
    = Some ((new_device pc ''pc'' DefaultAvatarKey sample_now)\<lparr>dv_policy_revision := 4\<rparr>)"
  by (simp add: sdb5_view new_device_def)

lemma sample_sum: "receive_report loc pc sample_report sample_now sdb5 = (Inr n, db1) \<Longrightarrow>
    in64 (bonus_sum pc (hr_LocalDate sample_report) db1)"
  by (drule sample_booked) (simp add: bonus_sum_def sample_report_fields in64_def)

theorem well_formed_heartbeat_is_answered_witness:
  "\<exists>result db'. ReceiveHeartbeat (fixed_zone 0) (\<lambda>_. True) pc sample_report sample_now sdb5 = (Inr result, db')"
  by (rule well_formed_heartbeat_is_answered [OF reachable_5 sample_device sample_valid(1) _ _ _ _ _ sample_sum])
    (simp_all add: sample_report_fields sample_event_bonus)

lemma sample_answer:
  obtains result db' where "ReceiveHeartbeat (fixed_zone 0) (\<lambda>_. True) pc sample_report sample_now sdb5 = (Inr result, db')"
proof -
  obtain db1 p ctl where "receive_report (fixed_zone 0) pc sample_report sample_now sdb5 = (Inr 4, db1)"
    "loadPolicy pc db1 = Inr p" "loadControl pc db1 = Inr ctl"
    using report_is_served [OF reachable_5 sample_device, of sample_report "fixed_zone 0" sample_now]
    by (auto simp: sample_report_fields sample_event_bonus)
  from ReceiveHeartbeat_served [OF sample_valid(1) _ this(1,3,2) sample_sum [OF this(1)], of "\<lambda>_. True"]
  have "\<exists>result db'. ReceiveHeartbeat (fixed_zone 0) (\<lambda>_. True) pc sample_report sample_now sdb5 = (Inr result, db')"
    by simp
  with that show ?thesis by blast
qed

theorem heartbeat_books_bonuses_once_witness:
  "\<exists>result db'. ReceiveHeartbeat (fixed_zone 0) (\<lambda>_. True) pc sample_report sample_now sdb5 = (Inr result, db')
     \<and> tbl_has bw_uuid (sample_id 80) (sd_bonus db') \<and> tbl_has bw_uuid ''b1'' (sd_bonus db') \<and> sd_bonus sdb5 = []"
proof -
  obtain result db' where run: "ReceiveHeartbeat (fixed_zone 0) (\<lambda>_. True) pc sample_report sample_now sdb5 = (Inr result, db')"
    by (rule sample_answer)
  let ?c = "new_command (sample_id 80) pc ''add_bonus'' (credit_text (sample_id 80) 900 sample_now) sample_now"
  have "?c \<in> set (sd_command sdb5)" "credit_due pc sdb5 ?c"
    by (simp_all add: sdb5_view credit_due_def new_command_def tbl_has_def)
  with heartbeat_books_bonuses_once [OF reachable_5 run]
  have "tbl_has bw_uuid (mw_id ?c) (sd_bonus db')" "\<forall>e\<in>set (hr_Events sample_report). tbl_has bw_uuid (we_UUID e) (sd_bonus db')"
    by blast+
  with run show ?thesis
    by (simp add: new_command_def sample_report_fields wire_of_event_def granted_event_def sdb5_view)
qed

text \<open>A client with nothing queued, whose server answers with what it computed.\<close>

definition sample_agent :: Client where
  "sample_agent = sample_client\<lparr>sc_store := sample_sync_store\<lparr>st_db := empty_database\<rparr>\<rparr>"

lemma sample_asks: "hv_db env = (\<lambda>_. True) \<Longrightarrow>
    build_request (fixed_zone 0) env sample_now sample_agent = (Inr (sample_question, []), sample_agent)"
proof -
  assume io: "hv_db env = (\<lambda>_. True)"
  let ?s = "sample_sync_store\<lparr>st_db := empty_database\<rparr>"
  have "LoadPolicy True ?s = Inl ErrNoPolicy"
    "LoadDailyUsage True ''2026-07-20'' ?s = LoadDailyUsage True ''2026-07-20'' sample_sync_store"
    "CurrentConfirmedSessionState ?s = None" by code_simp+
  moreover have "PendingEvents True 100 ?s = Inr []" "AppliedCommandIDs True 100 ?s = Inr []"
    by (simp_all add: PendingEvents_def AppliedCommandIDs_def sample_sync_store_def empty_database_def)
  ultimately show ?thesis
    using io sample_readings(2,6,7)
    by (simp add: build_request_def andThen_def run_simps local_revision_def reading_def wrap_error_def
        on_client_store_def sample_agent_def sample_client_def Let_def sample_question_def sample_request_def session_state_wanted_def)
qed

lemma sample_question_fields:
  "hr_LocalDate sample_question = ''2026-07-20''" "hr_Events sample_question = []"
  "hr_PolicyRevision sample_question = 0" "hr_SessionStateRevision sample_question = 0"
  "hr_CommandAcks sample_question = []"
  by (simp_all add: sample_question_def sample_request_def)

lemma sample_reply:
  obtains result db' where "ReceiveHeartbeat (fixed_zone 0) (\<lambda>_. True) pc sample_question sample_now sdb3 = (Inr result, db')"
proof -
  have device: "tbl_find dv_id pc (sd_device sdb3)
      = Some ((new_device pc ''pc'' DefaultAvatarKey sample_now)\<lparr>dv_policy_revision := 3\<rparr>)"
    by (simp add: sdb3_view new_device_def)
  obtain db1 p ctl where report: "receive_report (fixed_zone 0) pc sample_question sample_now sdb3 = (Inr 3, db1)"
    "loadPolicy pc db1 = Inr p" "loadControl pc db1 = Inr ctl"
    using report_is_served [OF reachable_3 device, of sample_question "fixed_zone 0" sample_now]
    by (auto simp: sample_question_fields)
  have "sd_bonus db1 = []"
    by (rule report_bonuses [OF report(1)])
      (simp add: loadPendingRemoteCredits_def sample_question_fields sdb3_view report_usage_def update_device_def)
  then have "in64 (bonus_sum pc (hr_LocalDate sample_question) db1)" by (simp add: bonus_sum_def in64_def)
  from ReceiveHeartbeat_served [OF sample_valid(2) _ report(1,3,2) this, of "\<lambda>_. True"]
  have "\<exists>result db'. ReceiveHeartbeat (fixed_zone 0) (\<lambda>_. True) pc sample_question sample_now sdb3 = (Inr result, db')"
    by simp
  with that show ?thesis by blast
qed

theorem agent_accepts_server_answers_witness:
  "\<exists>result db' c' p. ReceiveHeartbeat (fixed_zone 0) (\<lambda>_. True) pc sample_question sample_now sdb3 = (Inr result, db')
     \<and> Heartbeat (fixed_zone 0) (answering result) sample_now sample_agent = (Inr result, c')
     \<and> loadPolicy pc sdb3 = Inr p \<and> stored_revision (sc_store c') = vp_Revision p"
proof -
  obtain result db' where run: "ReceiveHeartbeat (fixed_zone 0) (\<lambda>_. True) pc sample_question sample_now sdb3 = (Inr result, db')"
    by (rule sample_reply)
  have env: "hv_db (answering result) = (\<lambda>_. True)" by (simp add: answering_def)
  have answer: "answer_of (hv_exchange (answering result) sample_question) = Some result"
    by (simp add: answering_def answer_of_def decodeHeartbeatResponse_def)
  have "length (pending_event (st_db (sc_store sample_agent))) \<le> 100"
    by (simp add: sample_agent_def empty_database_def)
  from agent_accepts_server_answers [OF reachable_3 sample_asks [OF env] run answer env this] run
  show ?thesis by blast
qed

end
