(* ===== verification/ServerLog.thy ===== *)
theory ServerLog
  imports ServerTokens
begin

text \<open>
  The communication log of the server (\<open>server/storage/communication.go\<close>): a table of the
  exchanges of each device, with its retention. Whether a device exists is asked of the
  database; a row without HTTP status or duration holds 0 there, as it is read back.
\<close>

definition contains_text :: "string \<Rightarrow> string \<Rightarrow> bool" where
  "contains_text w s \<longleftrightarrow> list_ex (\<lambda>n. take (length w) (drop n s) = w) [0..<Suc (length s)]"

section \<open>Entries\<close>

definition defaultCommunicationRetentionDays :: int where "defaultCommunicationRetentionDays = 30"
definition communicationCleanupInterval :: duration where "communicationCleanupInterval = hour"

record CommunicationLog =
  cl_ID :: int
  cl_DeviceID :: string
  cl_Source :: string
  cl_Target :: string
  cl_Operation :: string
  cl_Result :: string
  cl_HTTPStatus :: int
  cl_DurationMS :: int
  cl_Summary :: string
  cl_Details :: details
  cl_CreatedAt :: time

text \<open>The table with the last identifier it gave out, and the row of settings.\<close>

record LogDb =
  lg_rows :: "CommunicationLog list"
  lg_last :: int
  lg_retention :: int
  lg_last_cleanup :: "time option"

definition empty_log :: LogDb where
  "empty_log = \<lparr>lg_rows = [], lg_last = 0, lg_retention = defaultCommunicationRetentionDays, lg_last_cleanup = None\<rparr>"

type_synonym 'a lact = "(LogDb, ServerError, 'a) act"

definition validCommunicationParty :: "string \<Rightarrow> bool" where
  "validCommunicationParty v \<longleftrightarrow> v = ''agent'' \<or> v = ''api'' \<or> v = ''interface''"

definition validCommunicationResult :: "string \<Rightarrow> bool" where
  "validCommunicationResult v \<longleftrightarrow> v = ''success'' \<or> v = ''warning'' \<or> v = ''error''"

text \<open>Keys are lowered in their ASCII letters; the handlers use no others.\<close>

definition sensitive_words :: "string list" where
  "sensitive_words = [''password'', ''token'', ''authorization'', ''cookie'', ''secret'', ''payload'', ''body'']"

definition unsafe_detail :: "string \<times> string \<Rightarrow> bool" where
  "unsafe_detail kv \<longleftrightarrow> (case kv of (key, value) \<Rightarrow>
     key = [] \<or> 64 < length key \<or> 512 < length value
     \<or> list_ex (\<lambda>w. contains_text w (map fold_case key)) sensitive_words)"

definition validateCommunicationLog :: "CommunicationLog \<Rightarrow> time \<Rightarrow> ServerError option" where
  "validateCommunicationLog event now =
     (if cl_DeviceID event = [] \<or> is_zero now \<or> cl_Source event = cl_Target event
         \<or> \<not> validCommunicationParty (cl_Source event) \<or> \<not> validCommunicationParty (cl_Target event)
         \<or> \<not> validCommunicationResult (cl_Result event) \<or> cl_Operation event = [] \<or> 80 < length (cl_Operation event)
         \<or> cl_Summary event = [] \<or> 240 < length (cl_Summary event)
         \<or> (cl_HTTPStatus event \<noteq> 0 \<and> (cl_HTTPStatus event < 100 \<or> 599 < cl_HTTPStatus event))
         \<or> cl_DurationMS event < 0 \<or> 24 < length (cl_Details event)
      then Some InvalidCommunicationLog
      else if list_ex unsafe_detail (cl_Details event) then Some UnsafeCommunicationDetail
      else None)"

section \<open>Operations\<close>

text \<open>\<open>DELETE ... WHERE created_at<?\<close>, on the texts of the times.\<close>

definition drop_older :: "time \<Rightarrow> LogDb \<Rightarrow> LogDb" where
  "drop_older cutoff log = log\<lparr>lg_rows := tbl_delete (\<lambda>r. format_time (cl_CreatedAt r) < format_time cutoff) (lg_rows log)\<rparr>"

definition cleanupCommunicationLogsIfDue :: "location \<Rightarrow> time \<Rightarrow> unit lact" where
  "cleanupCommunicationLogsIfDue loc now =
     andThen (reads (\<lambda>log. (lg_retention log, lg_last_cleanup log))) (\<lambda>(days, last_cleanup).
     if (case last_cleanup of None \<Rightarrow> False | Some t \<Rightarrow> time_sub now t < communicationCleanupInterval) then ret ()
     else andThen (modify (drop_older (add_days loc now (- days)))) (\<lambda>_.
          modify (\<lambda>log. log\<lparr>lg_last_cleanup := Some now\<rparr>)))"

definition AppendCommunicationLog ::
    "location \<Rightarrow> bool \<Rightarrow> (string \<Rightarrow> bool) \<Rightarrow> CommunicationLog \<Rightarrow> time \<Rightarrow> CommunicationLog lact" where
  "AppendCommunicationLog loc served known event now =
     (case validateCommunicationLog event now of Some e \<Rightarrow> throw e
      | None \<Rightarrow>
          transaction served (
            andThen (cleanupCommunicationLogsIfDue loc now) (\<lambda>_.
            andThen (fails_if (\<not> known (cl_DeviceID event)) ConstraintFailed) (\<lambda>_.
            andThen (reads (\<lambda>log. event\<lparr>cl_ID := lg_last log + 1, cl_CreatedAt := now\<rparr>)) (\<lambda>stored.
            andThen (modify (\<lambda>log. log\<lparr>lg_rows := lg_rows log @ [stored], lg_last := cl_ID stored\<rparr>)) (\<lambda>_.
            ret stored))))))"

definition ListCommunicationLogs ::
    "(string \<Rightarrow> bool) \<Rightarrow> string \<Rightarrow> int \<Rightarrow> int \<Rightarrow> LogDb \<Rightarrow> ServerError + CommunicationLog list" where
  "ListCommunicationLogs known deviceID afterID limit log =
     (if deviceID = [] \<or> afterID < 0 \<or> limit < 1 \<or> 500 < limit then Inl InvalidCommunicationQuery
      else if \<not> known deviceID then Inl RowNotFound
      else let rows = sort_key cl_ID (filter (\<lambda>r. cl_DeviceID r = deviceID) (lg_rows log))
           in Inr (take (nat limit) (if 0 < afterID then filter (\<lambda>r. afterID < cl_ID r) rows else rev rows)))"

definition DeleteCommunicationLogs :: "bool \<Rightarrow> (string \<Rightarrow> bool) \<Rightarrow> string \<Rightarrow> int lact" where
  "DeleteCommunicationLogs served known deviceID =
     andThen (fails_if (deviceID = []) DeviceIDRequired) (\<lambda>_.
     andThen (fails_if (\<not> served) EngineFailed) (\<lambda>_.
     andThen (fails_if (\<not> known deviceID) RowNotFound) (\<lambda>_.
     andThen (reads (\<lambda>log. int (length (filter (\<lambda>r. cl_DeviceID r = deviceID) (lg_rows log))))) (\<lambda>deleted.
     andThen (modify (\<lambda>log. log\<lparr>lg_rows := tbl_delete (\<lambda>r. cl_DeviceID r = deviceID) (lg_rows log)\<rparr>)) (\<lambda>_.
     ret deleted)))))"

definition CommunicationRetentionDays :: "LogDb \<Rightarrow> int" where
  "CommunicationRetentionDays log = lg_retention log"

definition SetCommunicationRetentionDays :: "location \<Rightarrow> bool \<Rightarrow> int \<Rightarrow> time \<Rightarrow> unit lact" where
  "SetCommunicationRetentionDays loc served days now =
     andThen (fails_if (days < 1 \<or> 365 < days \<or> is_zero now) RetentionOutOfRange) (\<lambda>_.
     transaction served (
       andThen (modify (\<lambda>log. log\<lparr>lg_retention := days, lg_last_cleanup := Some now\<rparr>)) (\<lambda>_.
       modify (drop_older (add_days loc now (- days))))))"

text \<open>\<open>REFERENCES device(id) ON DELETE CASCADE\<close>.\<close>

definition cascade_log :: "(string \<Rightarrow> bool) \<Rightarrow> LogDb \<Rightarrow> LogDb" where
  "cascade_log known log = log\<lparr>lg_rows := filter (\<lambda>r. known (cl_DeviceID r)) (lg_rows log)\<rparr>"

section \<open>Every log the operations produce\<close>

definition log_row_ok :: "CommunicationLog \<Rightarrow> bool" where
  "log_row_ok r \<longleftrightarrow> validateCommunicationLog r (cl_CreatedAt r) = None"

definition log_ok :: "LogDb \<Rightarrow> bool" where
  "log_ok log \<longleftrightarrow> sorted_wrt (\<lambda>a b. cl_ID a < cl_ID b) (lg_rows log)
     \<and> (\<forall>r\<in>set (lg_rows log). 0 < cl_ID r \<and> cl_ID r \<le> lg_last log \<and> log_row_ok r)
     \<and> 0 \<le> lg_last log \<and> 1 \<le> lg_retention log \<and> lg_retention log \<le> 365"

lemma log_ok_empty [simp]: "log_ok empty_log"
  by (simp add: log_ok_def empty_log_def defaultCommunicationRetentionDays_def)

lemma log_ok_filter: "log_ok log \<Longrightarrow> log_ok (log\<lparr>lg_rows := filter p (lg_rows log)\<rparr>)"
  by (auto simp: log_ok_def intro: sorted_wrt_filter)

lemma log_ok_shrink: "log_ok log \<Longrightarrow> log_ok (log\<lparr>lg_rows := tbl_delete p (lg_rows log)\<rparr>)"
  unfolding tbl_delete_def by (rule log_ok_filter)

lemma log_ok_settings: "log_ok (log\<lparr>lg_last_cleanup := t\<rparr>) = log_ok log"
  by (simp add: log_ok_def)

lemma cleanup_log: "cleanupCommunicationLogsIfDue loc now log = (Inr (), log') \<Longrightarrow> log_ok log \<Longrightarrow> log_ok log'"
  by (auto simp: cleanupCommunicationLogsIfDue_def run_simps drop_older_def log_ok_shrink
      log_ok_settings split: if_splits)

lemma append_log_Inr:
  assumes "AppendCommunicationLog loc served known event now log = (Inr stored, log')"
  obtains log1 where "validateCommunicationLog event now = None"
    and "cleanupCommunicationLogsIfDue loc now log = (Inr (), log1)" and "known (cl_DeviceID event)"
    and "stored = event\<lparr>cl_ID := lg_last log1 + 1, cl_CreatedAt := now\<rparr>"
    and "log' = log1\<lparr>lg_rows := lg_rows log1 @ [stored], lg_last := cl_ID stored\<rparr>"
  using assms
  by (auto simp: AppendCommunicationLog_def transaction_def run_simps elim!: andThen_InrE
      split: option.splits if_splits prod.splits sum.splits)

lemma log_ok_append:
  assumes "AppendCommunicationLog loc served known event now log = (r, log')" and "log_ok log"
  shows "log_ok log'"
proof (cases r)
  case (Inl e)
  with assms show ?thesis
    by (auto simp: AppendCommunicationLog_def transaction_def run_simps split: option.splits if_splits prod.splits sum.splits)
next
  case (Inr stored)
  from assms(1) [unfolded this] obtain log1 where run: "validateCommunicationLog event now = None"
    "cleanupCommunicationLogsIfDue loc now log = (Inr (), log1)"
    "stored = event\<lparr>cl_ID := lg_last log1 + 1, cl_CreatedAt := now\<rparr>"
    "log' = log1\<lparr>lg_rows := lg_rows log1 @ [stored], lg_last := cl_ID stored\<rparr>"
    by (rule append_log_Inr)
  have "validateCommunicationLog stored now = validateCommunicationLog event now"
    by (cases event) (simp only: validateCommunicationLog_def run(3) CommunicationLog.simps)
  then have "log_row_ok stored" using run(1) by (simp add: log_row_ok_def) (simp add: run(3))
  moreover have "log_ok log1" by (rule cleanup_log [OF run(2) assms(2)])
  ultimately show ?thesis by (force simp: log_ok_def run(3,4) sorted_wrt_append)
qed

lemma log_ok_delete: "DeleteCommunicationLogs served known d log = (r, log') \<Longrightarrow> log_ok log \<Longrightarrow> log_ok log'"
  by (auto simp: DeleteCommunicationLogs_def andThen_def run_simps log_ok_shrink split: if_splits)

lemma log_ok_retention: "SetCommunicationRetentionDays loc served days now log = (r, log') \<Longrightarrow> log_ok log \<Longrightarrow> log_ok log'"
  by (auto simp: SetCommunicationRetentionDays_def transaction_def andThen_def run_simps drop_older_def
      tbl_delete_def log_ok_def sorted_wrt_filter split: if_splits)

lemma log_ok_cascade: "log_ok log \<Longrightarrow> log_ok (cascade_log known log)"
  unfolding cascade_log_def by (rule log_ok_filter)

section \<open>Pages\<close>

lemma listed_rows:
  assumes "log_ok log"
  shows "sort_key cl_ID (filter p (lg_rows log)) = filter p (lg_rows log)"
proof -
  have "sorted_wrt (\<lambda>a b. cl_ID a < cl_ID b) (filter p (lg_rows log))"
    using assms by (simp add: log_ok_def sorted_wrt_filter)
  then have "sorted_wrt (\<lambda>a b. cl_ID a \<le> cl_ID b) (filter p (lg_rows log))"
    by (rule sorted_wrt_mono_rel [rotated]) simp
  then show ?thesis by (intro sort_key_id_if_sorted) (simp add: sorted_map)
qed

text \<open>After a full page the next one starts where it ended.\<close>

lemma next_page:
  assumes "sorted_wrt (\<lambda>a b. cl_ID a < cl_ID b) rows" and "take n rows \<noteq> []"
  shows "rows = take n rows @ filter (\<lambda>r. cl_ID (last (take n rows)) < cl_ID r) rows"
proof -
  let ?l = "last (take n rows)"
  have split: "sorted_wrt (\<lambda>a b. cl_ID a < cl_ID b) (take n rows @ drop n rows)" using assms(1) by simp
  have l: "?l \<in> set (take n rows)" using assms(2) by (rule last_in_set)
  have before: "\<not> cl_ID ?l < cl_ID r" if "r \<in> set (take n rows)" for r
  proof -
    have "take n rows = butlast (take n rows) @ [?l]" using assms(2) by simp
    with that have "r = ?l \<or> r \<in> set (butlast (take n rows))" by (metis Un_iff empty_iff empty_set set_append set_ConsD)
    moreover have "sorted_wrt (\<lambda>a b. cl_ID a < cl_ID b) (butlast (take n rows) @ [?l])"
      using split unfolding sorted_wrt_append append_butlast_last_id [OF assms(2)] by blast
    ultimately show ?thesis by (auto simp: sorted_wrt_append)
  qed
  have after: "cl_ID ?l < cl_ID r" if "r \<in> set (drop n rows)" for r
    using split l that unfolding sorted_wrt_append by blast
  have "filter (\<lambda>r. cl_ID ?l < cl_ID r) (take n rows) = []" using before by (simp add: filter_empty_conv)
  moreover have "filter (\<lambda>r. cl_ID ?l < cl_ID r) (drop n rows) = drop n rows" using after by simp
  ultimately have "filter (\<lambda>r. cl_ID ?l < cl_ID r) (take n rows @ drop n rows) = drop n rows"
    unfolding filter_append by simp
  then show ?thesis by simp
qed

end
