(* ===== verification/ServerAccess.thy ===== *)
theory ServerAccess
  imports ServerLog ServerSamples ServerLive
begin

text \<open>
  What the credentials of devices and the communication log are relied on for: a token lets its
  device in and no other until it is replaced or revoked, and reading the log page by page gives
  every entry once.
\<close>

section \<open>Tokens\<close>

lemma length_base64: "length (base64_encode s) = (4 * length s + 2) div 3"
  by (induction s rule: base64_encode.induct) (simp_all add: Let_def)

lemma find_update:
  assumes "\<And>x. key (f x) = key x"
  shows "tbl_find key k (tbl_update (\<lambda>x. key x = j) f t) =
    (if k = j then map_option f (tbl_find key k t) else tbl_find key k t)"
  by (induction t) (auto simp: tbl_update_def assms)

lemma audit_keeps_devices: "insertAudit env k d kind payload now db = (r, db') \<Longrightarrow> sd_device db' = sd_device db"
  by (drule keepsD [OF keeps_audit]) (blast dest: business_viewD)

lemma change_device_Inr:
  "change_device d f db = (Inr u, db') \<Longrightarrow> has_device d db \<and> db' = update_device d f db"
  by (auto simp: change_device_def andThen_def run_simps split: if_splits)

lemma issued:
  assumes "IssueDeviceToken env sha256 (Some secret) d now db = (Inr token, db')"
  shows "token = base64url_encode secret" and "tbl_has dv_id d (sd_device db)"
    and "sd_device db' = tbl_update (\<lambda>x. dv_id x = d) (\<lambda>x. x\<lparr>dv_token_hash := hex_digest sha256 token, dv_updated := now\<rparr>) (sd_device db)"
  using assms
  by (auto simp: IssueDeviceToken_def Let_def run_simps has_device_def update_device_def
      elim!: transaction_cases andThen_InrE dest!: change_device_Inr audit_keeps_devices)

lemma revoked:
  assumes "RevokeDeviceToken env d now db = (Inr u, db')"
  shows "sd_device db' = tbl_update (\<lambda>x. dv_id x = d) (\<lambda>x. x\<lparr>dv_token_hash := [], dv_updated := now\<rparr>) (sd_device db)"
  using assms
  by (auto simp: RevokeDeviceToken_def run_simps update_device_def
      elim!: transaction_cases andThen_InrE dest!: change_device_Inr audit_keeps_devices split: if_splits)

lemma digest_nonempty: "sha256 t \<noteq> [] \<Longrightarrow> hex_digest sha256 t \<noteq> []"
  by (cases "sha256 t") (simp_all add: hex_digest_def hex_byte_def)

text \<open>C17: The life of a device's token. A token that was issued has 43 characters and lets its device
  in, as does no text but one with the same SHA-256 digest, so a token issued before is dead; for
  every other device nothing changes; and after the revocation nothing lets the device in, whatever
  the database answers. SHA-256 has 32 bytes.\<close>

theorem device_token_lifecycle:
  assumes "\<And>s. length (sha256 s) = 32" and "validOpaqueIdentifier d" and "length secret = 32"
    and "IssueDeviceToken env sha256 (Some secret) d now db = (Inr token, db')"
    and "RevokeDeviceToken env' d now' db' = (Inr (), db'')"
  shows "length token = 43
    \<and> (AuthenticateDevice True sha256 d t db' = Inr () \<longleftrightarrow> length t = 43 \<and> hex_digest sha256 t = hex_digest sha256 token)
    \<and> (d' = d \<or> AuthenticateDevice served sha256 d' t db' = AuthenticateDevice served sha256 d' t db)
    \<and> AuthenticateDevice served sha256 d t db'' = Inl InvalidDeviceCredentials"
proof -
  note issue = issued [OF assms(4)]
  have "length token = 43"
    using assms(3) by (simp add: issue(1) base64url_encode_def length_base64)
  moreover obtain dv where dv: "tbl_find dv_id d (sd_device db) = Some dv"
    using issue(2) by (auto simp: tbl_has_find)
  have nonempty: "hex_digest sha256 token \<noteq> []"
    using assms(1) [of token] by (intro digest_nonempty) auto
  have found: "tbl_find dv_id k (sd_device db') = (if k = d
      then Some (dv\<lparr>dv_token_hash := hex_digest sha256 token, dv_updated := now\<rparr>) else tbl_find dv_id k (sd_device db))" for k
    unfolding issue(3) by (subst find_update) (simp_all add: dv)
  then have "AuthenticateDevice True sha256 d t db' = Inr () \<longleftrightarrow> length t = 43 \<and> hex_digest sha256 t = hex_digest sha256 token"
    using assms(2) nonempty by (auto simp: AuthenticateDevice_def Let_def)
  moreover from found have "d' \<noteq> d \<Longrightarrow> AuthenticateDevice served sha256 d' t db' = AuthenticateDevice served sha256 d' t db"
    by (simp add: AuthenticateDevice_def)
  moreover have "tbl_find dv_id d (sd_device db'') = map_option (\<lambda>x. x\<lparr>dv_token_hash := [], dv_updated := now'\<rparr>) (tbl_find dv_id d (sd_device db'))"
    unfolding revoked [OF assms(5)] by (subst find_update) simp_all
  then have "AuthenticateDevice served sha256 d t db'' = Inl InvalidDeviceCredentials"
    by (auto simp: AuthenticateDevice_def found)
  ultimately show ?thesis by blast
qed

definition sample_sha256 :: sha256 where
  "sample_sha256 s = take 32 (s @ replicate 32 (CHR ''a''))"

definition sample_secret :: string where
  "sample_secret = replicate 32 (CHR ''s'')"

lemma completed_token_kinds:
  "completedAdminAuditKind ''device_token_issued''" "completedAdminAuditKind ''device_token_revoked''"
  by code_simp+

lemma change_device_runs: "has_device d db \<Longrightarrow> change_device d f db = (Inr (), update_device d f db)"
  by (simp add: change_device_def run_simps andThen_def)

lemma unused_update [simp]: "unused i (update_device d f db) = unused i db"
  by (simp add: unused_def update_device_def)

lemma has_device_update: "(\<And>x. dv_id (f x) = dv_id x) \<Longrightarrow> has_device d (update_device d' f db) = has_device d db"
  by (simp add: has_device_def update_device_def tbl_has_update)

lemma has_device_audited [simp]: "has_device d (audited i d' kind payload db) = has_device d db"
  by (simp add: has_device_def)

lemma sample_issue:
  assumes "has_device d db" and "unused (sample_id n) db"
  shows "\<exists>db'. IssueDeviceToken (server_env n) sha256 (Some secret) d sample_now db = (Inr (base64url_encode secret), db')
    \<and> has_device d db' \<and> (\<forall>i. i \<noteq> sample_id n \<longrightarrow> unused i db \<longrightarrow> unused i db')"
proof -
  let ?db = "update_device d (\<lambda>x. x\<lparr>dv_token_hash := hex_digest sha256 (base64url_encode secret), dv_updated := sample_now\<rparr>) db"
  have dev: "has_device d ?db" using assms(1) by (simp add: has_device_update)
  have "insertAudit (server_env n) 0 d ''device_token_issued'' p sample_now ?db
      = (Inr (), audited (sample_id n) d ''device_token_issued'' p ?db)" for p
    using insertAudit_sample [of n 0 ?db d "''device_token_issued''"] assms(2) dev completed_token_kinds by simp
  with dev assms(1) show ?thesis
    by (simp add: IssueDeviceToken_def Let_def transaction_def change_device_runs andThen_def run_simps)
qed

lemma sample_revoke:
  assumes "has_device d db" and "unused (sample_id n) db" and "d \<noteq> []"
  shows "\<exists>db'. RevokeDeviceToken (server_env n) d sample_now db = (Inr (), db')"
proof -
  let ?db = "update_device d (\<lambda>x. x\<lparr>dv_token_hash := [], dv_updated := sample_now\<rparr>) db"
  have dev: "has_device d ?db" using assms(1) by (simp add: has_device_update)
  have "insertAudit (server_env n) 0 d ''device_token_revoked'' p sample_now ?db
      = (Inr (), audited (sample_id n) d ''device_token_revoked'' p ?db)" for p
    using insertAudit_sample [of n 0 ?db d "''device_token_revoked''"] assms(2) dev completed_token_kinds by simp
  with dev assms show ?thesis
    by (simp add: RevokeDeviceToken_def transaction_def change_device_runs andThen_def run_simps sample_clock)
qed

theorem device_token_lifecycle_witness:
  "\<exists>db' db''. IssueDeviceToken (server_env 32) sample_sha256 (Some sample_secret) pc sample_now sdb1
      = (Inr (base64url_encode sample_secret), db')
    \<and> AuthenticateDevice True sample_sha256 pc (base64url_encode sample_secret) db' = Inr ()
    \<and> AuthenticateDevice True sample_sha256 pc (base64url_encode sample_secret) db'' = Inl InvalidDeviceCredentials"
proof -
  have start: "has_device pc sdb1" "unused (sample_id 32) sdb1" "unused (sample_id 48) sdb1"
    by (simp_all add: sdb1_view has_device_def tbl_has_def new_device_def sample_id_neq)
  from sample_issue [OF start(1,2), of sample_sha256 sample_secret] obtain db' where issue:
    "IssueDeviceToken (server_env 32) sample_sha256 (Some sample_secret) pc sample_now sdb1 = (Inr (base64url_encode sample_secret), db')"
    "has_device pc db'" "\<forall>i. i \<noteq> sample_id 32 \<longrightarrow> unused i sdb1 \<longrightarrow> unused i db'" by blast
  have pc: "validOpaqueIdentifier pc" "pc \<noteq> []" unfolding sample_id_texts by code_simp+
  have "unused (sample_id 48) db'" using issue(3) start(3) by (simp add: sample_id_neq)
  from sample_revoke [OF issue(2) this pc(2)] obtain db'' where revoke:
    "RevokeDeviceToken (server_env 48) pc sample_now db' = (Inr (), db'')" by blast
  have "length (sample_sha256 s) = 32" for s by (simp add: sample_sha256_def)
  moreover have "length sample_secret = 32" by (simp add: sample_secret_def)
  ultimately have "length (base64url_encode sample_secret) = 43
      \<and> (AuthenticateDevice True sample_sha256 pc (base64url_encode sample_secret) db' = Inr () \<longleftrightarrow>
           length (base64url_encode sample_secret) = 43
           \<and> hex_digest sample_sha256 (base64url_encode sample_secret) = hex_digest sample_sha256 (base64url_encode sample_secret))
      \<and> (pc = pc \<or> AuthenticateDevice True sample_sha256 pc (base64url_encode sample_secret) db' = AuthenticateDevice True sample_sha256 pc (base64url_encode sample_secret) sdb1)
      \<and> AuthenticateDevice True sample_sha256 pc (base64url_encode sample_secret) db'' = Inl InvalidDeviceCredentials"
    by (intro device_token_lifecycle [OF _ pc(1) _ issue(1) revoke])
  with issue(1) show ?thesis by blast
qed

section \<open>Pages of the log\<close>

text \<open>Reading on after an entry, a page at a time, as the administration view does.\<close>

fun read_pages :: "(string \<Rightarrow> bool) \<Rightarrow> string \<Rightarrow> int \<Rightarrow> nat \<Rightarrow> int \<Rightarrow> LogDb \<Rightarrow> CommunicationLog list" where
  "read_pages known deviceID limit 0 afterID log = []"
| "read_pages known deviceID limit (Suc n) afterID log =
     (case ListCommunicationLogs known deviceID afterID limit log of
        Inl e \<Rightarrow> []
      | Inr page \<Rightarrow> if page = [] then [] else page @ read_pages known deviceID limit n (cl_ID (last page)) log)"

definition entries_after :: "string \<Rightarrow> int \<Rightarrow> LogDb \<Rightarrow> CommunicationLog list" where
  "entries_after deviceID afterID log = filter (\<lambda>r. cl_DeviceID r = deviceID \<and> afterID < cl_ID r) (lg_rows log)"

lemma listed_page:
  assumes "log_ok log" and "known d" and "d \<noteq> []" and "0 < afterID" and "1 \<le> limit" and "limit \<le> 500"
  shows "ListCommunicationLogs known d afterID limit log = Inr (take (nat limit) (entries_after d afterID log))"
  using assms listed_rows [OF assms(1), of "\<lambda>r. cl_DeviceID r = d"]
  by (simp add: ListCommunicationLogs_def entries_after_def filter_filter conj_commute)

text \<open>C39: Reading the communication log in pages loses nothing and repeats nothing. Starting after any
  entry, with any page size the handler accepts, following each page with one after its last entry
  gives exactly the device's later entries, in the order they were written, once enough pages
  were read.\<close>

theorem log_pages_cover:
  assumes "log_ok log" and "known d" and "d \<noteq> []" and "0 < afterID" and "1 \<le> limit" and "limit \<le> 500"
    and "length (entries_after d afterID log) \<le> n * nat limit"
  shows "read_pages known d limit n afterID log = entries_after d afterID log"
  using assms(4,7)
proof (induction n arbitrary: afterID)
  case (Suc n)
  let ?rows = "entries_after d afterID log" and ?k = "nat limit"
  have page: "ListCommunicationLogs known d afterID limit log = Inr (take ?k ?rows)"
    by (rule listed_page) (rule assms Suc.prems)+
  show ?case
  proof (cases "take ?k ?rows = []")
    case True
    with assms(5) show ?thesis by (auto simp: page)
  next
    case False
    have sorted: "sorted_wrt (\<lambda>a b. cl_ID a < cl_ID b) ?rows"
      using assms(1) by (simp add: log_ok_def entries_after_def sorted_wrt_filter)
    let ?l = "last (take ?k ?rows)"
    have "?l \<in> set ?rows" using last_in_set [OF False] by (rule in_set_takeD)
    then have l: "afterID < cl_ID ?l" by (simp add: entries_after_def)
    have rest: "filter (\<lambda>r. cl_ID ?l < cl_ID r) ?rows = entries_after d (cl_ID ?l) log"
      using l by (auto simp: entries_after_def filter_filter intro!: filter_cong)
    have split: "?rows = take ?k ?rows @ entries_after d (cl_ID ?l) log"
      using next_page [OF sorted False] by (simp only: rest)
    have "length (entries_after d (cl_ID ?l) log) = length ?rows - length (take ?k ?rows)"
      using arg_cong [OF split, of length] by simp
    then have "length (entries_after d (cl_ID ?l) log) \<le> n * ?k"
      using Suc.prems(2) by (cases "length ?rows \<le> ?k") simp_all
    from Suc.IH [OF _ this] l Suc.prems(1)
    have "read_pages known d limit n (cl_ID ?l) log = entries_after d (cl_ID ?l) log" by simp
    with False split show ?thesis by (simp add: page)
  qed
qed simp

definition sample_entry :: "int \<Rightarrow> string \<Rightarrow> CommunicationLog" where
  "sample_entry i d = \<lparr>cl_ID = i, cl_DeviceID = d, cl_Source = ''agent'', cl_Target = ''api'', cl_Operation = ''heartbeat'',
     cl_Result = ''success'', cl_HTTPStatus = 200, cl_DurationMS = 1, cl_Summary = ''ok'', cl_Details = [], cl_CreatedAt = sample_now\<rparr>"

definition sample_log :: LogDb where
  "sample_log = empty_log\<lparr>lg_rows := [sample_entry 1 ''pc'', sample_entry 2 ''tv'', sample_entry 3 ''pc'', sample_entry 4 ''pc'',
     sample_entry 5 ''pc''], lg_last := 5\<rparr>"

theorem log_pages_cover_witness:
  "read_pages (\<lambda>_. True) ''pc'' 2 2 1 sample_log = [sample_entry 3 ''pc'', sample_entry 4 ''pc'', sample_entry 5 ''pc'']"
proof -
  have "list_all log_row_ok (lg_rows sample_log)" by code_simp
  moreover have "lg_rows sample_log = [sample_entry 1 ''pc'', sample_entry 2 ''tv'', sample_entry 3 ''pc'', sample_entry 4 ''pc'', sample_entry 5 ''pc'']"
    "lg_last sample_log = 5" "lg_retention sample_log = 30"
    by (simp_all add: sample_log_def empty_log_def defaultCommunicationRetentionDays_def)
  moreover have "cl_ID (sample_entry i d) = i" for i d by (simp add: sample_entry_def)
  ultimately have "log_ok sample_log" by (simp add: log_ok_def)
  moreover have rows: "entries_after ''pc'' 1 sample_log = [sample_entry 3 ''pc'', sample_entry 4 ''pc'', sample_entry 5 ''pc'']"
    by (simp add: entries_after_def sample_log_def sample_entry_def)
  ultimately have "read_pages (\<lambda>_. True) ''pc'' 2 2 1 sample_log = entries_after ''pc'' 1 sample_log"
    by (intro log_pages_cover) simp_all
  then show ?thesis by (simp only: rows)
qed

end
