(* ===== verification/WebStatus.thy ===== *)
theory WebStatus
  imports ServerControl ServerLive
begin

text \<open>
  What the administrator is shown about a device (\<open>server/web/status.go\<close>): the reads behind it and
  how they are put together. \<open>served\<close> tells which of the reads the database serves.
\<close>

datatype StatusQuery = QueryDevice | QueryControl | QueryPending | QueryDate | QuerySummary | QueryUnacknowledged

record deviceLiveStatus =
  dl_LocalDate :: string
  dl_TodayQuotaSeconds :: int
  dl_BonusSeconds :: int
  dl_UsedSeconds :: int
  dl_RemainingSeconds :: int
  dl_Counting :: bool
  dl_Online :: bool
  dl_GraphicalSessionActive :: bool
  dl_NextBlock :: string
  dl_PolicyRevision :: int
  dl_AppliedPolicyRevision :: int
  dl_ControlRevision :: int
  dl_AppliedControlRevision :: int
  dl_DesiredState :: string
  dl_ActualState :: string
  dl_ControlStatus :: string

definition isOnline :: "time option \<Rightarrow> time \<Rightarrow> duration \<Rightarrow> bool" where
  "isOnline lastSeen now timeout \<longleftrightarrow> (case lastSeen of None \<Rightarrow> False | Some t \<Rightarrow> \<not> t < now - timeout)"

definition secondsQuota :: "(weekday \<Rightarrow> int) \<Rightarrow> WeeklyQuota" where
  "secondsQuota stored = (\<lambda>d. seconds_duration (stored d))"

text \<open>\<open>Format("02/01 15:04")\<close>.\<close>

definition short_time :: "location \<Rightarrow> time \<Rightarrow> string" where
  "short_time loc t = (case civil_of_day (local_day loc t) of (y, m, d) \<Rightarrow>
     digits2 d @ ''/'' @ digits2 m @ '' '' @ digits2 (wall_of loc t mod day div hour) @ '':''
     @ digits2 (wall_of loc t mod hour div minute))"

definition awaiting_text :: string where
  "awaiting_text = ''Aguardando sincroniza'' @ [CHR 0xC3, CHR 0xA7, CHR 0xC3, CHR 0xA3] @ ''o''"

definition actual_state :: "bool \<Rightarrow> Device \<Rightarrow> string" where
  "actual_state online device = (if \<not> online then ''offline''
     else if dc_GraphicalSessionLocked device then ''blocked'' else ''unblocked'')"

definition desired_state :: "server_control \<Rightarrow> string" where
  "desired_state control = (if vc_MonitoringPaused control then ''paused''
     else if vc_ManualBlock control then ''blocked'' else ''policy'')"

definition control_status :: "bool \<Rightarrow> string \<Rightarrow> server_control \<Rightarrow> Device \<Rightarrow> string" where
  "control_status online pendingKind control device =
     (if \<not> online then ''offline''
      else if pendingKind = ''pause_monitoring'' then ''pause_requested''
      else if pendingKind = ''resume_monitoring'' then ''resume_requested''
      else if pendingKind = ''block_now'' then ''block_requested''
      else if pendingKind = ''clear_manual_block'' then ''unblock_requested''
      else if vc_MonitoringPaused control then ''paused''
      else if vc_ManualBlock control \<and> (\<not> dc_GraphicalSessionLocked device
          \<or> dc_AppliedControlRevision device < vc_Revision control) then ''block_requested''
      else if vc_ManualBlock control then ''blocked''
      else if dc_GraphicalSessionLocked device then ''blocked''
      else ''active'')"

definition status_input :: "time \<Rightarrow> server_policy \<Rightarrow> server_control \<Rightarrow> int \<Rightarrow> int \<Rightarrow> Input" where
  "status_input now p control used extra = \<lparr>in_Now = now,
     in_Monitoring = (if vc_MonitoringPaused control then MonitoringPaused else MonitoringActive),
     in_ManualBlock = vc_ManualBlock control, in_Quota = secondsQuota (vp_WeeklyQuota p),
     in_Consumed = seconds_duration used, in_Bonus = seconds_duration extra,
     in_Routines = map engine_routine (filter vr_Enabled (vp_Routines p))\<rparr>"

definition live_status :: "location \<Rightarrow> duration \<Rightarrow> time \<Rightarrow> Device \<Rightarrow> server_policy \<Rightarrow> server_control \<Rightarrow> string
    \<Rightarrow> string \<Rightarrow> weekday \<Rightarrow> int \<Rightarrow> int \<Rightarrow> deviceLiveStatus" where
  "live_status loc timeout now device p control pendingKind localDate weekday used extra =
     (let online = isOnline (dc_LastSeenAt device) now timeout;
          todayQuota = vp_WeeklyQuota p weekday;
          remaining = wrap64 (wrap64 (todayQuota + extra) - used);
          decision = Evaluate loc (status_input now p control used extra)
      in \<lparr>dl_LocalDate = localDate, dl_TodayQuotaSeconds = todayQuota, dl_BonusSeconds = extra,
          dl_UsedSeconds = used, dl_RemainingSeconds = (if remaining < 0 then 0 else remaining),
          dl_Counting = (case decision of Inl _ \<Rightarrow> False
            | Inr d \<Rightarrow> d_ShouldCount d \<and> online \<and> dc_GraphicalSessionActive device),
          dl_Online = online, dl_GraphicalSessionActive = dc_GraphicalSessionActive device,
          dl_NextBlock = (case decision of Inl _ \<Rightarrow> awaiting_text
            | Inr d \<Rightarrow> if is_zero (d_NextBlockAt d) then awaiting_text else short_time loc (d_NextBlockAt d)),
          dl_PolicyRevision = vp_Revision p, dl_AppliedPolicyRevision = dc_AppliedPolicyRevision device,
          dl_ControlRevision = vc_Revision control, dl_AppliedControlRevision = dc_AppliedControlRevision device,
          dl_DesiredState = desired_state control, dl_ActualState = actual_state online device,
          dl_ControlStatus = control_status online pendingKind control device\<rparr>)"

text \<open>The day shown is the server's, unless the device is online and has reported one of its own.
  Bonuses that the device has not acknowledged yet are left out.\<close>

definition loadDeviceLiveStatus :: "location \<Rightarrow> duration \<Rightarrow> (StatusQuery \<Rightarrow> bool) \<Rightarrow> string \<Rightarrow> time
    \<Rightarrow> (Device \<times> server_policy \<times> deviceLiveStatus) sact" where
  "loadDeviceLiveStatus loc timeout served deviceID now =
     andThen (querying (served QueryDevice) (LoadDevice deviceID)) (\<lambda>(device, p).
     andThen (querying (served QueryControl) (loadControl deviceID)) (\<lambda>control.
     andThen (querying (served QueryPending) (PendingControlKind deviceID)) (\<lambda>pendingKind.
     andThen (if isOnline (dc_LastSeenAt device) now timeout
              then andThen (querying (served QueryDate) (LatestHeartbeatLocalDate deviceID)) (\<lambda>latest.
                   ret (if latest = [] then local_date loc now else latest))
              else ret (local_date loc now)) (\<lambda>localDate.
     andThen (querying (served QuerySummary) (LoadDailySummary deviceID localDate)) (\<lambda>summary.
     andThen (querying (served QueryUnacknowledged) (\<lambda>db. Inr (UnacknowledgedRemoteBonusSeconds deviceID localDate db)))
       (\<lambda>unacknowledged.
     let extra = (let b = wrap64 (dy_BonusSeconds summary - unacknowledged) in if b < 0 then 0 else b)
     in case weekday_of_date localDate of None \<Rightarrow> throw InvalidHeartbeatDate
        | Some weekday \<Rightarrow> ret (device, p, live_status loc timeout now device p control pendingKind localDate weekday
            (dy_UsedSeconds summary) extra)))))))"

lemma loadDeviceLiveStatus_same: "loadDeviceLiveStatus loc timeout served d now db = (r, db') \<Longrightarrow> db' = db"
  by (auto simp: loadDeviceLiveStatus_def querying_def andThen_def run_simps Let_def
      split: if_splits sum.splits prod.splits option.splits)

text \<open>What a status is made of.\<close>

lemma loadDeviceLiveStatus_Inr:
  assumes "loadDeviceLiveStatus loc timeout served d now db = (Inr (device, p, status), db')"
  obtains control pendingKind localDate weekday extra where
    "LoadDevice d db = Inr (device, p)" and "loadControl d db = Inr control"
    and "PendingControlKind d db = Inr pendingKind" and "weekday_of_date localDate = Some weekday"
    and "in64 (bonus_sum d localDate db)"
    and "extra = (let b = wrap64 (bonus_sum d localDate db - UnacknowledgedRemoteBonusSeconds d localDate db)
           in if b < 0 then 0 else b)"
    and "status = live_status loc timeout now device p control pendingKind localDate weekday
           (used_seconds d localDate db) extra"
  using assms
  by (auto simp: loadDeviceLiveStatus_def querying_def andThen_def run_simps Let_def LoadDailySummary_def
      split: if_splits sum.splits prod.splits option.splits)

section \<open>The counters the server stores\<close>

text \<open>Only a heartbeat writes them, and it was checked before.\<close>

definition usage_bounded :: "ServerDb \<Rightarrow> bool" where
  "usage_bounded db \<longleftrightarrow> (\<forall>u\<in>set (sd_usage db). 0 \<le> uw_seconds u \<and> uw_seconds u \<le> maximumDailyUsageSeconds)"

lemma two_days: "maximumDailyUsageSeconds = 172800"
  by (simp add: maximumDailyUsageSeconds_def duration_defs go_div_def)

lemma usage_kept: "keeps sd_usage m \<Longrightarrow> usage_bounded db \<Longrightarrow> m db = (r, db') \<Longrightarrow> usage_bounded db'"
  using keepsD [of sd_usage m db r db'] by (simp add: usage_bounded_def)

lemma keeps_usage_business: "keeps business_view m \<Longrightarrow> keeps sd_usage m"
  by (erule keeps_finer) (simp add: business_view_def)

lemma keeps_usage_history [keeps_intros]:
  "keeps sd_usage (insertAudit env k d kind payload now)"
  "keeps sd_usage (insertAdminActivity aid d kind details now)"
  "keeps sd_usage (upsertActivityStep aid kind actor now details repeated)"
  "keeps sd_usage (cleanupExpiredCompletedActivitiesIfDue now)"
  by (intro keeps_usage_business keeps_intros)+

lemma keeps_usage_writes [keeps_intros]:
  "keeps sd_usage (change_device d f)" "keeps sd_usage (bumpPolicyKeepWarning d now)"
  "keeps sd_usage (bumpPolicy d w now)" "keeps sd_usage (insert_device d n a now)"
  "keeps sd_usage (offer_commands d now cs)"
proof -
  show "keeps sd_usage (change_device d f)" "keeps sd_usage (bumpPolicyKeepWarning d now)"
    "keeps sd_usage (bumpPolicy d w now)" "keeps sd_usage (insert_device d n a now)"
    unfolding change_device_def bumpPolicyKeepWarning_def bumpPolicy_def bump_rows_def insert_device_def
    by (intro keeps_intros keeps_modify; simp add: update_device_def)+
  have "keeps sd_usage (offer_command d now c)" for c
    unfolding offer_command_def by (intro keeps_intros keeps_modify) simp_all
  then show "keeps sd_usage (offer_commands d now cs)" by (induction cs) (auto intro!: keeps_intros)
qed

lemma keeps_usage_operations:
  "keeps sd_usage (BootstrapAdmin env login hash now)"
  "keeps sd_usage (CreateDeviceWithAvatar env name avatar now)"
  "keeps sd_usage (RenameDevice env d name now)"
  "keeps sd_usage (UpdateDeviceIdentity env d name avatar now)"
  "keeps sd_usage (SaveQuotas env d quotas warning now)"
  "keeps sd_usage (SetLocalPassword env d verifier now)"
  "keeps sd_usage (SaveRoutine env d r now)"
  "keeps sd_usage (DeleteRoutine env d rid now)"
  "keeps sd_usage (QueueControlOperation env d kind now)"
  "keeps sd_usage (QueueRemoteBonus env d seconds now)"
  "keeps sd_usage (CleanupExpiredCompletedActivities served now)"
  unfolding BootstrapAdmin_def CreateDeviceWithAvatar_def RenameDevice_def UpdateDeviceIdentity_def SaveQuotas_def
    SetLocalPassword_def SaveRoutine_def store_routine_def choose_icon_def commit_routine_def DeleteRoutine_def
    CleanupExpiredCompletedActivities_def write_routine_def bump_rows_def set_quotas_def
    QueueControlOperation_def QueueRemoteBonus_def change_control_def insert_command_def Let_def
    discard_pending_controls_def
  by (intro keeps_intros keeps_modify; simp add: update_device_def)+

lemma usage_report: "0 \<le> hr_SecondsUsed request \<Longrightarrow> hr_SecondsUsed request \<le> maximumDailyUsageSeconds \<Longrightarrow>
    commits usage_bounded (receive_report loc d request now) (\<lambda>_. usage_bounded)"
proof -
  assume range: "0 \<le> hr_SecondsUsed request" "hr_SecondsUsed request \<le> maximumDailyUsageSeconds"
  have upsert: "usage_bounded (report_usage d request now db)" if "usage_bounded db" for db
    using that range unfolding usage_bounded_def report_usage_def tbl_upsert_def tbl_update_def
    by (auto simp: merge_usage_def)
  have rest: "commits usage_bounded m (\<lambda>_. usage_bounded)" if "keeps sd_usage m" for m :: "'b sact"
    by (rule commits_keeps [OF that]) (simp add: usage_bounded_def)
  show ?thesis unfolding receive_report_def Let_def
    apply (rule commits_reads)
    subgoal for found
      apply (cases found)
       apply (simp add: commits_throw)
      apply (simp, rule commits_fails_if)
      apply (rule commits_andThen [of _ _ "\<lambda>_. usage_bounded"], rule commits_modify, simp add: usage_bounded_def update_device_def)
      apply (rule commits_andThen [of _ _ "\<lambda>_. usage_bounded"], rule commits_modify, erule upsert)
      apply (rule rest)
      apply (intro keeps_intros keeps_usage_rest)
      done
    done
qed

lemma usage_heartbeat: "preserves usage_bounded (ReceiveHeartbeat loc phases d request now)"
proof (cases "heartbeat_error d request now")
  case None
  then have range: "0 \<le> hr_SecondsUsed request" "hr_SecondsUsed request \<le> maximumDailyUsageSeconds"
    by (auto simp: heartbeat_error_def split: if_splits)
  have rest: "preserves usage_bounded m" if "keeps sd_usage m" for m :: "'b sact"
    by (rule preserves_keeps [OF that]) (simp add: usage_bounded_def)
  show ?thesis
    unfolding ReceiveHeartbeat_def None option.case pendingCommands_def
    by (intro preserves_andThen [OF preserves_transaction [OF usage_report [OF range]]] rest keeps_intros)
qed (simp add: ReceiveHeartbeat_def preserves_def run_simps)

lemma usage_delete: "preserves usage_bounded (DeleteDevice served d)"
  unfolding DeleteDevice_def
  by (intro preserves_transaction commits_reads commits_fails_if commits_modify)
    (auto simp: usage_bounded_def delete_device_def Let_def tbl_delete_def)

lemma usage_of_core: "core_view db' = core_view db \<Longrightarrow> sd_usage db' = sd_usage db"
  by (simp add: core_view_def)

lemma server_step_usage: "server_step db db' \<Longrightarrow> usage_bounded db \<Longrightarrow> usage_bounded db'"
proof (induction rule: server_step.induct)
  case heartbeat
  then show ?case by - (rule preservesD [OF usage_heartbeat]; assumption)
next
  case delete_device
  then show ?case by - (rule preservesD [OF usage_delete]; assumption)
next
  case issue_token
  then show ?case by - (rule usage_kept [OF keeps_finer [OF keeps_core_credentials(1) usage_of_core]]; assumption)
next
  case revoke_token
  then show ?case by - (rule usage_kept [OF keeps_finer [OF keeps_core_credentials(2) usage_of_core]]; assumption)
next
  case hide_history
  then show ?case by - (rule usage_kept [OF keeps_finer [OF keeps_core_credentials(3) usage_of_core]]; assumption)
qed (erule usage_kept [OF keeps_usage_operations(1)] usage_kept [OF keeps_usage_operations(2)]
  usage_kept [OF keeps_usage_operations(3)] usage_kept [OF keeps_usage_operations(4)] usage_kept [OF keeps_usage_operations(5)]
  usage_kept [OF keeps_usage_operations(6)] usage_kept [OF keeps_usage_operations(7)] usage_kept [OF keeps_usage_operations(8)]
  usage_kept [OF keeps_usage_operations(9)] usage_kept [OF keeps_usage_operations(10)] usage_kept [OF keeps_usage_operations(11)],
  assumption)+

lemma reachable_usage: "server_reachable db \<Longrightarrow> usage_bounded db"
proof (induction rule: server_reachable.induct)
  case start
  show ?case by (simp add: usage_bounded_def empty_server_def)
qed (rule server_step_usage)

lemma reachable_used_seconds:
  assumes "server_reachable db"
  shows "0 \<le> used_seconds d date db" and "used_seconds d date db \<le> maximumDailyUsageSeconds"
  using reachable_usage [OF assms]
  by (auto simp: used_seconds_def usage_bounded_def two_days split: option.split dest!: find_SomeD)

lemma reachable_quota:
  assumes "server_reachable db" and "LoadDevice d db = Inr (device, p)"
  shows "0 \<le> vp_WeeklyQuota p wd" and "vp_WeeklyQuota p wd \<le> 86400"
proof -
  have "vp_WeeklyQuota p = quota_of d db"
    using assms(2) by (auto simp: LoadDevice_def loadPolicy_def split: option.splits sum.splits)
  moreover have "0 \<le> quota_of d db wd \<and> quota_of d db wd \<le> 86400"
    using reachable_policies [OF assms(1)]
    by (auto simp: quota_of_def policies_ok_def policy_rows_ok_def split: option.split dest!: find_SomeD)
  ultimately show "0 \<le> vp_WeeklyQuota p wd" and "vp_WeeklyQuota p wd \<le> 86400" by simp_all
qed

section \<open>The status of a reachable server\<close>


text \<open>C38: The administrator and the computer are told the same balance. When the confirmed balance of
  a heartbeat and the status are computed from the same database for the same day, and no bonus
  is unacknowledged, the remaining seconds are equal.\<close>

theorem status_shows_confirmed_balance:
  assumes "confirmedSessionState d sid (dl_LocalDate status) t db = Inr st"
    and "loadDeviceLiveStatus loc timeout served d now db = (Inr (device, p, status), db')"
    and "UnacknowledgedRemoteBonusSeconds d (dl_LocalDate status) db = 0"
    and "0 \<le> bonus_sum d (dl_LocalDate status) db"
  shows "ws_RemainingSeconds st = dl_RemainingSeconds status"
proof -
  obtain control pendingKind localDate weekday extra where parts:
    "LoadDevice d db = Inr (device, p)" "weekday_of_date localDate = Some weekday" "in64 (bonus_sum d localDate db)"
    "extra = (let b = wrap64 (bonus_sum d localDate db - UnacknowledgedRemoteBonusSeconds d localDate db) in if b < 0 then 0 else b)"
    "status = live_status loc timeout now device p control pendingKind localDate weekday (used_seconds d localDate db) extra"
    by (rule loadDeviceLiveStatus_Inr [OF assms(2)])
  have date: "dl_LocalDate status = localDate" by (simp add: parts(5) live_status_def Let_def)
  have "extra = bonus_sum d localDate db"
    using assms(3,4) parts(3) by (simp add: parts(4) date wrap64_id)
  moreover from parts(1) have "loadPolicy d db = Inr p" by (auto simp: LoadDevice_def split: option.splits sum.splits)
  ultimately show ?thesis
    using assms(1) parts(2)
    by (auto simp: confirmedSessionState_def LoadDailySummary_def balance_left_def date parts(5) live_status_def Let_def
        split: if_splits)
qed

end
