(* ===== verification/WebHub.thy ===== *)
theory WebHub
  imports "HOL-Library.Sublist" Effects
begin

text \<open>
  The hub of live updates (\<open>server/web/events.go\<close>): each subscriber of a device has a channel that
  buffers 8 events; publishing never waits, an event for a full channel is lost for that
  subscriber. Channels are numbered in the order they are made.
\<close>

definition channel_capacity :: nat where "channel_capacity = 8"

record 'e eventHub =
  hb_next :: nat
  hb_subscribers :: "(string \<times> nat \<times> 'e list) list"

definition newEventHub :: "'e eventHub" where
  "newEventHub = \<lparr>hb_next = 0, hb_subscribers = []\<rparr>"

definition hub_subscribe :: "string \<Rightarrow> 'e eventHub \<Rightarrow> nat \<times> 'e eventHub" where
  "hub_subscribe deviceID h = (hb_next h, h\<lparr>hb_next := hb_next h + 1,
     hb_subscribers := hb_subscribers h @ [(deviceID, hb_next h, [])]\<rparr>)"

definition hub_unsubscribe :: "string \<Rightarrow> nat \<Rightarrow> 'e eventHub \<Rightarrow> 'e eventHub" where
  "hub_unsubscribe deviceID channel h = h\<lparr>hb_subscribers :=
     filter (\<lambda>(d, c, _). \<not> (d = deviceID \<and> c = channel)) (hb_subscribers h)\<rparr>"

definition hub_publish :: "string \<Rightarrow> 'e \<Rightarrow> 'e eventHub \<Rightarrow> 'e eventHub" where
  "hub_publish deviceID event h = h\<lparr>hb_subscribers :=
     map (\<lambda>(d, c, buffer). (d, c, if d = deviceID \<and> length buffer < channel_capacity then buffer @ [event] else buffer))
       (hb_subscribers h)\<rparr>"

definition hasSubscribers :: "string \<Rightarrow> 'e eventHub \<Rightarrow> bool" where
  "hasSubscribers deviceID h \<longleftrightarrow> list_ex (\<lambda>(d, _). d = deviceID) (hb_subscribers h)"

text \<open>\<open>event := <-events\<close>, when there is one.\<close>

definition hub_buffer :: "nat \<Rightarrow> 'e eventHub \<Rightarrow> 'e list option" where
  "hub_buffer channel h = map_option (\<lambda>(_, _, buffer). buffer) (find (\<lambda>(_, c, _). c = channel) (hb_subscribers h))"

definition hub_receive :: "nat \<Rightarrow> 'e eventHub \<Rightarrow> 'e option \<times> 'e eventHub" where
  "hub_receive channel h =
     (case hub_buffer channel h of Some (e # _) \<Rightarrow>
        (Some e, h\<lparr>hb_subscribers := map (\<lambda>(d, c, buffer). (d, c, if c = channel then tl buffer else buffer)) (hb_subscribers h)\<rparr>)
      | _ \<Rightarrow> (None, h))"

section \<open>What a subscriber gets\<close>

datatype 'e HubOp = Subscribe string | Unsubscribe string nat | Publish string 'e | Receive nat

fun hub_step :: "'e HubOp \<Rightarrow> 'e eventHub \<Rightarrow> 'e eventHub" where
  "hub_step (Subscribe d) h = snd (hub_subscribe d h)"
| "hub_step (Unsubscribe d c) h = hub_unsubscribe d c h"
| "hub_step (Publish d e) h = hub_publish d e h"
| "hub_step (Receive c) h = snd (hub_receive c h)"

text \<open>What channel \<open>c\<close> received in a run of the hub, and what was published for a device.\<close>

fun received :: "nat \<Rightarrow> 'e HubOp list \<Rightarrow> 'e eventHub \<Rightarrow> 'e list" where
  "received c [] h = []"
| "received c (op # ops) h = (case op of Receive c' \<Rightarrow>
       (if c' = c then (case fst (hub_receive c h) of None \<Rightarrow> [] | Some e \<Rightarrow> [e]) else []) | _ \<Rightarrow> [])
     @ received c ops (hub_step op h)"

fun published :: "string \<Rightarrow> 'e HubOp list \<Rightarrow> 'e list" where
  "published d [] = []"
| "published d (op # ops) = (case op of Publish d' e \<Rightarrow> if d' = d then [e] else [] | _ \<Rightarrow> []) @ published d ops"

text \<open>The reference, which knows no hub: one queue for the subscriber of a device. An event
  published for the device joins the end unless 8 are waiting; a read takes the first, if any.
  The results are what was read and what still waits.\<close>

fun reference_queue :: "string \<Rightarrow> nat \<Rightarrow> 'e HubOp list \<Rightarrow> 'e list \<Rightarrow> 'e list \<times> 'e list" where
  "reference_queue d c [] q = ([], q)"
| "reference_queue d c (Publish d' e # ops) q =
     reference_queue d c ops (if d' = d \<and> length q < 8 then q @ [e] else q)"
| "reference_queue d c (Receive c' # ops) q =
     (if c' = c \<and> q \<noteq> []
      then (case reference_queue d c ops (tl q) of (got, rest) \<Rightarrow> (hd q # got, rest))
      else reference_queue d c ops q)"
| "reference_queue d c (_ # ops) q = reference_queue d c ops q"

text \<open>The events published for the device at a moment at which fewer than 8 were waiting, of which
  there are \<open>n\<close> at the start.\<close>

fun admitted :: "string \<Rightarrow> nat \<Rightarrow> 'e HubOp list \<Rightarrow> nat \<Rightarrow> 'e list" where
  "admitted d c [] n = []"
| "admitted d c (Publish d' e # ops) n =
     (if d' = d \<and> n < 8 then e # admitted d c ops (n + 1) else admitted d c ops n)"
| "admitted d c (Receive c' # ops) n = admitted d c ops (if c' = c then n - 1 else n)"
| "admitted d c (_ # ops) n = admitted d c ops n"

lemma reference_admitted:
  "reference_queue d c ops q = (got, rest) \<Longrightarrow> got @ rest = q @ admitted d c ops (length q)"
  by (induction d c ops q arbitrary: got rest rule: reference_queue.induct)
    (auto split: prod.splits if_splits)

lemma reference_capacity:
  "reference_queue d c ops q = (got, rest) \<Longrightarrow> length q \<le> 8 \<Longrightarrow> length rest \<le> 8"
  by (induction d c ops q arbitrary: got rest rule: reference_queue.induct)
    (auto split: prod.splits if_splits)

lemma admitted_published: "subseq (admitted d c ops n) (published d ops)"
  by (induction d c ops n rule: admitted.induct) auto

definition hub_ok :: "'e eventHub \<Rightarrow> bool" where
  "hub_ok h \<longleftrightarrow> distinct (map (\<lambda>(d, c, b). c) (hb_subscribers h))
     \<and> (\<forall>(d, c, b)\<in>set (hb_subscribers h). c < hb_next h \<and> length b \<le> channel_capacity)"

definition subscribed :: "string \<Rightarrow> nat \<Rightarrow> 'e list \<Rightarrow> 'e eventHub \<Rightarrow> bool" where
  "subscribed d c b h \<longleftrightarrow> hub_ok h \<and> (d, c, b) \<in> set (hb_subscribers h)"

lemma hub_ok_new: "hub_ok newEventHub"
  by (simp add: hub_ok_def newEventHub_def)

lemma find_distinct:
  "distinct (map f xs) \<Longrightarrow> x \<in> set xs \<Longrightarrow> find (\<lambda>y. f y = f x) xs = Some x"
  by (induction xs) force+

lemma subscribed_buffer:
  assumes "subscribed d c b h"
  shows "hub_buffer c h = Some b"
proof -
  have "find (\<lambda>y. (case y of (d, c, b) \<Rightarrow> c) = (case (d, c, b) of (d, c, b) \<Rightarrow> c)) (hb_subscribers h) = Some (d, c, b)"
    using assms by (intro find_distinct) (simp_all add: subscribed_def hub_ok_def)
  then show ?thesis by (simp add: hub_buffer_def split_def)
qed

lemma hub_step_ok: "hub_ok h \<Longrightarrow> hub_ok (hub_step op h)"
proof (induction op h rule: hub_step.induct)
  case (1 d h)
  then show ?case by (force simp: hub_ok_def hub_subscribe_def)
next
  case (2 d c h)
  then show ?case by (auto simp: hub_ok_def hub_unsubscribe_def distinct_map_filter)
next
  case (3 d e h)
  then show ?case by (fastforce simp: hub_ok_def hub_publish_def comp_def split_def)
next
  case (4 c h)
  have "hub_ok (h\<lparr>hb_subscribers := map (\<lambda>(d, c', buffer). (d, c', if c' = c then tl buffer else buffer)) (hb_subscribers h)\<rparr>)"
    using 4 by (fastforce simp: hub_ok_def comp_def split_def)
  with 4 show ?case by (auto simp: hub_receive_def split: option.splits list.splits)
qed

lemma subscribed_step:
  assumes "subscribed d c b h" and "op \<noteq> Unsubscribe d c"
  shows "\<exists>b'. subscribed d c b' (hub_step op h)
    \<and> b' = (case op of Publish d' e \<Rightarrow> if d' = d \<and> length b < channel_capacity then b @ [e] else b
        | Receive c' \<Rightarrow> if c' = c then tl b else b | _ \<Rightarrow> b)"
proof -
  have sub: "(d, c, b) \<in> set (hb_subscribers h)" and ok: "hub_ok (hub_step op h)"
    using assms(1) hub_step_ok by (auto simp: subscribed_def)
  show ?thesis
  proof (cases op)
    case (Receive c')
    show ?thesis
    proof (cases "hub_buffer c' h")
      case None
      with subscribed_buffer [OF assms(1)] have "c' \<noteq> c" by auto
      with None sub ok Receive show ?thesis by (simp add: subscribed_def hub_receive_def)
    next
      case (Some buf)
      with subscribed_buffer [OF assms(1)] have "c' = c \<Longrightarrow> buf = b" by auto
      with Some sub ok Receive show ?thesis
        by (cases buf) (force simp: subscribed_def hub_receive_def)+
    qed
  qed (use sub ok assms(2) in \<open>force simp: subscribed_def hub_subscribe_def hub_unsubscribe_def hub_publish_def\<close>)+
qed

lemma subscriber_run:
  "subscribed d c q h \<Longrightarrow> Unsubscribe d c \<notin> set ops \<Longrightarrow>
     \<exists>rest. subscribed d c rest (fold hub_step ops h) \<and> reference_queue d c ops q = (received c ops h, rest)"
proof (induction ops arbitrary: q h)
  case (Cons op ops)
  note buffer = subscribed_buffer [OF Cons.prems(1)]
  from subscribed_step [OF Cons.prems(1)] Cons.prems(2) obtain q1 where q1: "subscribed d c q1 (hub_step op h)"
    "q1 = (case op of Publish d' e \<Rightarrow> if d' = d \<and> length q < channel_capacity then q @ [e] else q
        | Receive c' \<Rightarrow> if c' = c then tl q else q | _ \<Rightarrow> q)" by auto
  from Cons.IH [OF q1(1)] Cons.prems(2) obtain rest where "subscribed d c rest (fold hub_step ops (hub_step op h))"
    "reference_queue d c ops q1 = (received c ops (hub_step op h), rest)" by auto
  with q1(2) buffer show ?case
    by (cases op; cases q) (auto simp: hub_receive_def channel_capacity_def)
qed simp


definition sample_hub :: "nat eventHub" where
  "sample_hub = snd (hub_subscribe ''pc'' newEventHub)"

text \<open>Nine updates for a subscriber that reads nothing, then one read and one more: the ninth is lost.\<close>

definition sample_hub_ops :: "nat HubOp list" where
  "sample_hub_ops = map (Publish ''pc'') [1, 2, 3, 4, 5, 6, 7, 8, 9]
     @ [Publish ''tv'' 10, Receive 0, Publish ''pc'' 11]"


end
