(* ===== verification/WebSession.thy ===== *)
theory WebSession
  imports ServerTokens
begin

text \<open>
  Sessions of administrators (\<open>server/web/session.go\<close>): a map from tokens to sessions, emptied of
  expired entries whenever one is created. The random bytes are given from outside.
\<close>

record session =
  ss_AdminID :: string
  ss_Login :: string
  ss_CSRF :: string
  ss_Expires :: time

type_synonym sessions = "string \<rightharpoonup> session"

definition randomToken :: "string option \<Rightarrow> string option" where
  "randomToken bytes = map_option base64url_encode bytes"

definition purge_expired :: "time \<Rightarrow> sessions \<Rightarrow> sessions" where
  "purge_expired now values = (\<lambda>key. case values key of None \<Rightarrow> None
     | Some existing \<Rightarrow> if now < ss_Expires existing then Some existing else None)"

definition session_create :: "duration \<Rightarrow> string \<Rightarrow> string \<Rightarrow> string option \<Rightarrow> string option \<Rightarrow> time \<Rightarrow> sessions
    \<Rightarrow> (string \<times> session) option \<times> sessions" where
  "session_create lifetime adminID login tokenBytes csrfBytes now values =
     (case (randomToken tokenBytes, randomToken csrfBytes) of
        (Some token, Some csrf) \<Rightarrow>
          let value = \<lparr>ss_AdminID = adminID, ss_Login = login, ss_CSRF = csrf, ss_Expires = now + lifetime\<rparr>
          in (Some (token, value), (purge_expired now values)(token \<mapsto> value))
      | _ \<Rightarrow> (None, values))"

definition session_get :: "string \<Rightarrow> time \<Rightarrow> sessions \<Rightarrow> session option \<times> sessions" where
  "session_get token now values =
     (case values token of None \<Rightarrow> (None, values)
      | Some value \<Rightarrow> if now < ss_Expires value then (Some value, values) else (None, values(token := None)))"

definition session_delete :: "string \<Rightarrow> sessions \<Rightarrow> sessions" where
  "session_delete token values = values(token := None)"

section \<open>Runs of operations\<close>

datatype SessionOp =
    CreateSession string string "string option" "string option" time
  | GetSession string time
  | DeleteSession string

fun session_step :: "duration \<Rightarrow> SessionOp \<Rightarrow> sessions \<Rightarrow> sessions" where
  "session_step lifetime (CreateSession a l b c t) v = snd (session_create lifetime a l b c t v)"
| "session_step lifetime (GetSession k t) v = snd (session_get k t v)"
| "session_step lifetime (DeleteSession k) v = session_delete k v"

fun op_time :: "SessionOp \<Rightarrow> time option" where
  "op_time (CreateSession a l b c t) = Some t"
| "op_time (GetSession k t) = Some t"
| "op_time (DeleteSession k) = None"

text \<open>What a token stands for, without regard to time: the session last created under it, unless
  it was deleted since.\<close>

fun granted :: "duration \<Rightarrow> string \<Rightarrow> SessionOp \<Rightarrow> session option \<Rightarrow> session option" where
  "granted lifetime k (CreateSession a l b c t) s =
     (case (randomToken b, randomToken c) of
        (Some token, Some csrf) \<Rightarrow>
          if token = k then Some \<lparr>ss_AdminID = a, ss_Login = l, ss_CSRF = csrf, ss_Expires = t + lifetime\<rparr> else s
      | _ \<Rightarrow> s)"
| "granted lifetime k (GetSession k' t) s = s"
| "granted lifetime k (DeleteSession k') s = (if k' = k then None else s)"

text \<open>The map holds what is granted, or nothing of what has expired by now.\<close>

definition holds_granted :: "time \<Rightarrow> session option \<Rightarrow> session option \<Rightarrow> bool" where
  "holds_granted now stored spec \<longleftrightarrow> stored = spec \<or> (stored = None \<and> (\<exists>s. spec = Some s \<and> ss_Expires s \<le> now))"

lemma holds_granted_later: "holds_granted t stored spec \<Longrightarrow> t \<le> now \<Longrightarrow> holds_granted now stored spec"
  by (auto simp: holds_granted_def)

lemma purge_holds: "holds_granted t (values k) spec \<Longrightarrow> holds_granted t (purge_expired t values k) spec"
  by (auto simp: holds_granted_def purge_expired_def split: option.splits)

lemma session_step_holds:
  assumes "holds_granted now (v k) spec" and "\<forall>t. op_time op = Some t \<longrightarrow> now \<le> t"
  shows "holds_granted (case op_time op of None \<Rightarrow> now | Some t \<Rightarrow> t) (session_step lifetime op v k) (granted lifetime k op spec)"
proof (cases op)
  case (CreateSession a l b c t)
  then have "now \<le> t" using assms(2) by simp
  then have "holds_granted t (v k) spec" by (rule holds_granted_later [OF assms(1)])
  moreover from this have "holds_granted t (purge_expired t v k) spec" by (rule purge_holds)
  ultimately show ?thesis
    by (auto simp: CreateSession session_create_def Let_def holds_granted_def split: option.splits)
next
  case (GetSession k' t)
  then have "holds_granted t (v k) spec" using holds_granted_later [OF assms(1)] assms(2) by simp
  then show ?thesis by (auto simp: GetSession session_get_def holds_granted_def split: option.splits)
qed (use assms in \<open>auto simp: session_delete_def holds_granted_def\<close>)

fun in_time_order :: "time \<Rightarrow> SessionOp list \<Rightarrow> time \<Rightarrow> bool" where
  "in_time_order start [] now \<longleftrightarrow> start \<le> now"
| "in_time_order start (op # ops) now \<longleftrightarrow> (case op_time op of None \<Rightarrow> in_time_order start ops now
     | Some t \<Rightarrow> start \<le> t \<and> in_time_order t ops now)"

lemma session_run_holds:
  "in_time_order start ops now \<Longrightarrow> holds_granted start (v k) spec \<Longrightarrow>
     holds_granted now (fold (session_step lifetime) ops v k) (fold (granted lifetime k) ops spec)"
proof (induction ops arbitrary: start v spec)
  case Nil
  then show ?case using holds_granted_later by simp
next
  case (Cons op ops)
  have "\<forall>t. op_time op = Some t \<longrightarrow> start \<le> t" using Cons.prems(1) by auto
  with Cons.prems(2)
  have holds: "holds_granted (case op_time op of None \<Rightarrow> start | Some t \<Rightarrow> t) (session_step lifetime op v k) (granted lifetime k op spec)"
    by (rule session_step_holds)
  have "in_time_order (case op_time op of None \<Rightarrow> start | Some t \<Rightarrow> t) ops now"
    using Cons.prems(1) by (simp split: option.splits)
  from Cons.IH [where v = "session_step lifetime op v", OF this holds] show ?case by simp
qed

text \<open>C18: A token authenticates exactly as long as its session lasts. After any operations in the order
  of time, looking a token up at \<open>now\<close> finds a session exactly when one was created under it and
  not deleted since, and \<open>now\<close> is before its expiry; what it finds is that session. The purging of
  expired entries cannot be seen.\<close>

theorem session_valid_until_expiry:
  assumes "in_time_order start ops now"
  shows "fst (session_get token now (fold (session_step lifetime) ops Map.empty))
    = (case fold (granted lifetime token) ops None of None \<Rightarrow> None
       | Some s \<Rightarrow> if now < ss_Expires s then Some s else None)"
proof -
  have "holds_granted start (Map.empty token) None" by (simp add: holds_granted_def)
  with assms have "holds_granted now (fold (session_step lifetime) ops Map.empty token) (fold (granted lifetime token) ops None)"
    by (rule session_run_holds)
  then show ?thesis
    by (cases "fold (granted lifetime token) ops None") (auto simp: session_get_def holds_granted_def split: option.split)
qed

definition sample_session_ops :: "SessionOp list" where
  "sample_session_ops = [CreateSession ''a'' ''ana'' (Some ''tok'') (Some ''csr'') 0,
     GetSession (base64url_encode ''tok'') minute, CreateSession ''b'' ''bea'' (Some ''two'') (Some ''crf'') (2 * minute)]"

lemma session_valid_until_expiry_witness:
  "fst (session_get (base64url_encode ''tok'') (30 * minute) (fold (session_step hour) sample_session_ops Map.empty))
     = Some \<lparr>ss_AdminID = ''a'', ss_Login = ''ana'', ss_CSRF = base64url_encode ''csr'', ss_Expires = hour\<rparr>
   \<and> fst (session_get (base64url_encode ''tok'') hour (fold (session_step hour) sample_session_ops Map.empty)) = None"
proof -
  have order: "in_time_order 0 sample_session_ops (30 * minute)" "in_time_order 0 sample_session_ops hour"
    by (simp_all add: sample_session_ops_def duration_defs)
  have "base64url_encode ''two'' \<noteq> base64url_encode ''tok''" by code_simp
  then have "fold (granted hour (base64url_encode ''tok'')) sample_session_ops None
      = Some \<lparr>ss_AdminID = ''a'', ss_Login = ''ana'', ss_CSRF = base64url_encode ''csr'', ss_Expires = hour\<rparr>"
    by (simp add: sample_session_ops_def randomToken_def)
  then show ?thesis
    unfolding session_valid_until_expiry [OF order(1)] session_valid_until_expiry [OF order(2)]
    by (simp add: duration_defs)
qed

end
