(* ===== verification/WebRequest.thy ===== *)
theory WebRequest
  imports "HOL-Library.AList" WebStatus WebHub WebSession ServerLog
begin

text \<open>
  What the handlers of the web server (\<open>server/web\<close>) are made of: requests and responses as
  values, the state all of them share - database, communication log, sessions, hub -, actions on
  it that end early with a response, authentication, and the reading of bodies. A request
  arrives with its path, query, headers and cookies already split by \<open>net/http\<close>; header names
  are spelled as in the source.
\<close>

section \<open>Requests and responses\<close>

record Request =
  rq_method :: string
  rq_path :: string
  rq_headers :: "(string \<times> string) list"
  rq_cookies :: "(string \<times> string) list"
  rq_query :: "(string \<times> string) list"
  rq_body :: string
  rq_heartbeat :: "HeartbeatRequest option"
  rq_host_name :: string
  rq_origin_host :: "string option"

text \<open>\<open>rq_heartbeat\<close>: the body read as a heartbeat, when it has at most 256 KB and is exactly one with
  known members (the limit and the decoding are part of this field);
  \<open>rq_host_name\<close>: the host asked for, without port and brackets; \<open>rq_origin_host\<close>: the host name in
  the \<open>Origin\<close> header, when that is a URL of the scheme http or https with one.
  \<open>Get\<close> of a header or query: its first value, or the empty text.\<close>

definition first_value :: "string \<Rightarrow> (string \<times> string) list \<Rightarrow> string" where
  "first_value name values = (case find (\<lambda>(n, _). n = name) values of None \<Rightarrow> [] | Some (_, v) \<Rightarrow> v)"

definition cookie_value :: "string \<Rightarrow> Request \<Rightarrow> string option" where
  "cookie_value name rq = map_option snd (find (\<lambda>(n, _). n = name) (rq_cookies rq))"

record adminSessionResponse =
  ae_Authenticated :: bool
  ae_Login :: string
  ae_CSRFToken :: string
  ae_SetupRequired :: bool

record adminDeviceResponse =
  ae_ID :: string
  ae_Name :: string
  ae_AvatarKey :: string
  ae_LastSeenAt :: "time option"
  ae_PolicyRevision :: int
  ae_AppliedPolicyRevision :: int
  ae_GraphicalSessionActive :: bool
  ae_Online :: bool

record adminPolicyResponse =
  ae_Revision :: int
  ae_MonitoringPaused :: bool
  ae_ManualBlock :: bool
  ae_WarningMinutes :: int
  ae_PasswordSet :: bool
  ae_WeeklyQuota :: "weekday \<Rightarrow> int"
  ae_Routines :: "server_routine list"

record adminDeviceDetailResponse =
  ae_Device :: adminDeviceResponse
  ae_Policy :: adminPolicyResponse
  ae_Control :: server_control
  ae_Status :: deviceLiveStatus
  ae_Events :: "AuditEvent list"

datatype RespBody =
    NoBody | ErrorBody ErrorResponse | MessageBody string | HealthBody
  | SessionBody adminSessionResponse | DevicesBody "adminDeviceResponse list" | DeviceBody adminDeviceResponse
  | DetailBody adminDeviceDetailResponse | StatusBody deviceLiveStatus | RoutineBody string
  | TokenBody string string | BonusBody string string | BonusStatusBody bool | CommandBody string string
  | AuditBody "AuditEvent list" | ActivityBody DeviceActivity | ActivitiesBody "DeviceActivity list"
  | DeletedBody int | LogsBody "CommunicationLog list" int | RetentionBody int
  | HeartbeatBody HeartbeatResponse | StreamBody nat deviceLiveStatus | RedirectBody | UnknownPageBody

record Cookie =
  ck_Name :: string
  ck_Value :: string
  ck_MaxAge :: int
  ck_Expires :: "time option"
  ck_Path :: string
  ck_Secure :: bool
  ck_HttpOnly :: bool

record Response =
  rs_status :: int
  rs_headers :: "(string \<times> string) list"
  rs_cookies :: "Cookie list"
  rs_body :: RespBody

definition json_headers :: "(string \<times> string) list" where
  "json_headers = [(''Content-Type'', ''application/json''), (''Cache-Control'', ''no-store'')]"

definition writeJSON :: "int \<Rightarrow> RespBody \<Rightarrow> Response" where
  "writeJSON status body = \<lparr>rs_status = status, rs_headers = json_headers, rs_cookies = [], rs_body = body\<rparr>"

definition plain_error :: "string \<Rightarrow> ErrorResponse" where
  "plain_error message = \<lparr>er_Error = message, er_Code = [], er_ClientRevision = 0, er_ServerRevision = 0\<rparr>"

definition writeJSONError :: "int \<Rightarrow> string \<Rightarrow> Response" where
  "writeJSONError status message = writeJSON status (ErrorBody (plain_error message))"

definition noContent :: Response where
  "noContent = \<lparr>rs_status = 204, rs_headers = [], rs_cookies = [], rs_body = NoBody\<rparr>"

definition with_header :: "string \<Rightarrow> string \<Rightarrow> Response \<Rightarrow> Response" where
  "with_header name v r = r\<lparr>rs_headers := (name, v) # rs_headers r\<rparr>"

definition methodNotAllowed :: "string \<Rightarrow> Response" where
  "methodNotAllowed allow = with_header ''Allow'' allow (writeJSONError 405 ''method not allowed'')"

section \<open>The server and its surroundings\<close>

record App =
  ap_adminOrigin :: string
  ap_secureCookies :: bool
  ap_sessionLifetime :: duration
  ap_onlineTimeout :: duration
  ap_heartbeatInterval :: duration
  ap_location :: location
  ap_argon2 :: argon2
  ap_sha256 :: sha256

datatype StreamData =
    StatusData deviceLiveStatus | CommunicationData CommunicationLog | ActivityData DeviceActivity
  | ChangedData string

type_synonym streamEvent = "string \<times> StreamData"

text \<open>\<open>ww_details\<close>: the business context of the request being logged, when there is one. \<open>ww_log\<close>
  holds the two tables of the communication log, which are in the same SQLite database as the
  tables of \<open>ww_db\<close>; what is said of \<open>ww_db\<close> does not speak about them.\<close>

record WebWorld =
  ww_db :: ServerDb
  ww_log :: LogDb
  ww_sessions :: sessions
  ww_hub :: "streamEvent eventHub"
  ww_details :: "details option"

definition new_world :: WebWorld where
  "new_world = \<lparr>ww_db = empty_server, ww_log = empty_log, ww_sessions = Map.empty, ww_hub = newEventHub, ww_details = None\<rparr>"

text \<open>Every reading of the clock, every call of the storage and every random token of a request has
  its own answer.\<close>

datatype Clock = ClockSession | ClockOperation | ClockStatus | ClockDevice nat | ClockCreate | ClockLog | ClockResponseLog

datatype StoreCall =
    CallFirst | CallOperation | CallSecond | CallThird | CallStatus StatusQuery | CallPublish StatusQuery
  | CallActivity nat | CallLog | CallResponseLog | CallAuthenticate | CallPending | CallHeartbeat HeartbeatPhase

datatype TokenUse = TokenSession | TokenCSRF | TokenLogin | TokenCorrelation | TokenDevice

record WebEnv =
  wv_now :: "Clock \<Rightarrow> time"
  wv_served :: "StoreCall \<Rightarrow> bool"
  wv_random :: "nat \<Rightarrow> int list option"
  wv_token :: "TokenUse \<Rightarrow> string option"
  wv_salt :: "string option"
  wv_elapsed :: int
  wv_engine :: string

text \<open>\<open>wv_engine\<close>: the text of the error when the database fails.\<close>

type_synonym 'a web = "(WebWorld, Response, 'a) act"

definition answered :: "Response web \<Rightarrow> WebWorld \<Rightarrow> Response \<times> WebWorld" where
  "answered m w = (case m w of (Inl r, w') \<Rightarrow> (r, w') | (Inr r, w') \<Rightarrow> (r, w'))"

definition store_env :: "App \<Rightarrow> WebEnv \<Rightarrow> StoreCall \<Rightarrow> ServerEnv" where
  "store_env app env call = \<lparr>sv_served = wv_served env call, sv_random = wv_random env, sv_location = ap_location app\<rparr>"

section \<open>Calls of the storage\<close>

text \<open>The caller looks at the error itself. The log follows the devices by its foreign key.\<close>

definition attempt :: "'a sact \<Rightarrow> (ServerError + 'a) web" where
  "attempt m = (\<lambda>w. case m (ww_db w) of (r, db') \<Rightarrow>
     (Inr r, w\<lparr>ww_db := db', ww_log := cascade_log (\<lambda>d. has_device d db') (ww_log w)\<rparr>))"

definition on_store :: "(ServerError \<Rightarrow> Response) \<Rightarrow> 'a sact \<Rightarrow> 'a web" where
  "on_store answer m = andThen (attempt m) (\<lambda>r. returned (wrap_error answer r))"

definition attempt_log :: "((string \<Rightarrow> bool) \<Rightarrow> 'a lact) \<Rightarrow> (ServerError + 'a) web" where
  "attempt_log m = (\<lambda>w. case m (\<lambda>d. has_device d (ww_db w)) (ww_log w) of (r, log') \<Rightarrow> (Inr r, w\<lparr>ww_log := log'\<rparr>))"

definition on_log :: "(ServerError \<Rightarrow> Response) \<Rightarrow> ((string \<Rightarrow> bool) \<Rightarrow> 'a lact) \<Rightarrow> 'a web" where
  "on_log answer m = andThen (attempt_log m) (\<lambda>r. returned (wrap_error answer r))"

definition adminReadError :: "ServerError \<Rightarrow> Response" where
  "adminReadError e = (if e = RowNotFound then writeJSONError 404 ''device not found''
     else writeJSONError 500 ''could not load device'')"

definition conflict_message :: "string \<Rightarrow> string" where
  "conflict_message name = ''Este intervalo j'' @ [CHR 0xC3, CHR 0xA1] @ '' est'' @ [CHR 0xC3, CHR 0xA1]
     @ '' ocupado pela rotina '' @ [CHR 0xE2, CHR 0x80, CHR 0x9C] @ name @ [CHR 0xE2, CHR 0x80, CHR 0x9D] @ ''.''"

definition adminMutationError :: "ServerError \<Rightarrow> Response" where
  "adminMutationError e = (case e of RowNotFound \<Rightarrow> writeJSONError 404 ''device or resource not found''
     | RoutineConflictError name \<Rightarrow> writeJSONError 409 (conflict_message name)
     | _ \<Rightarrow> writeJSONError 400 ''invalid request'')"

section \<open>Details for the log\<close>

definition set_detail :: "string \<Rightarrow> string \<Rightarrow> details \<Rightarrow> details" where
  "set_detail key v ds = AList.update key v ds"

definition addCommunicationDetail :: "string \<Rightarrow> string \<Rightarrow> unit web" where
  "addCommunicationDetail key v = modify (\<lambda>w. w\<lparr>ww_details := map_option (set_detail key v) (ww_details w)\<rparr>)"

section \<open>Authentication\<close>

definition sessionCookieName :: string where "sessionCookieName = ''tempo_admin_session''"
definition loginCSRFCookie :: string where "loginCSRFCookie = ''tempo_login_csrf''"
definition csrfHeaderName :: string where "csrfHeaderName = ''X-CSRF-Token''"

definition authenticated :: "WebEnv \<Rightarrow> Request \<Rightarrow> (session \<times> string) option web" where
  "authenticated env rq =
     (case cookie_value sessionCookieName rq of None \<Rightarrow> ret None
      | Some token \<Rightarrow> (\<lambda>w. case session_get token (wv_now env ClockSession) (ww_sessions w) of (found, values) \<Rightarrow>
          (Inr (map_option (\<lambda>s. (s, token)) found), w\<lparr>ww_sessions := values\<rparr>)))"

definition requireAdminAPISession :: "WebEnv \<Rightarrow> Request \<Rightarrow> (session \<times> string) web" where
  "requireAdminAPISession env rq =
     andThen (authenticated env rq) (\<lambda>found. case found of
        None \<Rightarrow> throw (writeJSONError 401 ''authentication required'') | Some st \<Rightarrow> ret st)"

definition requireAdminCSRF :: "Request \<Rightarrow> session \<Rightarrow> unit web" where
  "requireAdminCSRF rq current =
     fails_if (first_value csrfHeaderName (rq_headers rq) \<noteq> ss_CSRF current) (writeJSONError 403 ''invalid CSRF token'')"

definition admin_cookie :: "App \<Rightarrow> string \<Rightarrow> string \<Rightarrow> int \<Rightarrow> time option \<Rightarrow> Cookie" where
  "admin_cookie app name v maxAge expires = \<lparr>ck_Name = name, ck_Value = v, ck_MaxAge = maxAge, ck_Expires = expires,
     ck_Path = ''/api/v1/admin'', ck_Secure = ap_secureCookies app, ck_HttpOnly = True\<rparr>"

section \<open>Bodies and queries\<close>

text \<open>\<open>decodeJSONBody\<close>: at most 64 KB, one JSON object with known members (\<open>null\<close> fills nothing),
  nothing after it.\<close>

definition decodeJSONBody :: "string list \<Rightarrow> ((string \<times> json) list \<Rightarrow> 'a option) \<Rightarrow> Request \<Rightarrow> 'a option" where
  "decodeJSONBody names dec rq =
     (if 65536 < length (rq_body rq) then None
      else case Option.bind (parse_json (rq_body rq)) json_members of None \<Rightarrow> None
           | Some ms \<Rightarrow> if known_fields names ms then dec ms else None)"

definition json_bool :: "json \<Rightarrow> bool option" where
  "json_bool v = (case v of JBool b \<Rightarrow> Some b | _ \<Rightarrow> None)"

text \<open>An array of seven: missing elements and \<open>null\<close> are zero, elements too many are dropped.\<close>

fun decode_all :: "(json \<Rightarrow> 'a option) \<Rightarrow> 'a \<Rightarrow> json list \<Rightarrow> 'a list option" where
  "decode_all dec z [] = Some []"
| "decode_all dec z (v # vs) = (case (if v = JNull then Some z else dec v, decode_all dec z vs) of
     (Some a, Some r) \<Rightarrow> Some (a # r) | _ \<Rightarrow> None)"

definition json_week :: "(json \<Rightarrow> 'a option) \<Rightarrow> 'a \<Rightarrow> json \<Rightarrow> (weekday \<Rightarrow> 'a) option" where
  "json_week dec z v = (case v of JArray vs \<Rightarrow>
       map_option (\<lambda>xs. \<lambda>d. let n = nat (weekday_index d) in if n < length xs then xs ! n else z)
         (decode_all dec z (take 7 vs))
     | _ \<Rightarrow> None)"

text \<open>\<open>strconv.Atoi\<close>.\<close>

definition atoi :: "string \<Rightarrow> int option" where
  "atoi t = (case (if take 1 t = ''+'' then natural_literal (tl t) else integer_literal t) of
     None \<Rightarrow> None | Some n \<Rightarrow> if in64 n then Some n else None)"

definition query_number :: "string \<Rightarrow> int \<Rightarrow> int \<Rightarrow> int \<Rightarrow> string \<Rightarrow> Request \<Rightarrow> int web" where
  "query_number name usual least greatest message rq =
     (let v = first_value name (rq_query rq) in
      if v = [] then ret usual
      else case atoi v of None \<Rightarrow> throw (writeJSONError 400 message)
           | Some n \<Rightarrow> if n < least \<or> greatest < n then throw (writeJSONError 400 message) else ret n)"

section \<open>Live updates\<close>

definition hub_event :: "string \<Rightarrow> streamEvent \<Rightarrow> unit web" where
  "hub_event deviceID e = modify (\<lambda>w. w\<lparr>ww_hub := hub_publish deviceID e (ww_hub w)\<rparr>)"

definition if_subscribed :: "string \<Rightarrow> unit web \<Rightarrow> unit web" where
  "if_subscribed deviceID m = andThen (reads (\<lambda>w. hasSubscribers deviceID (ww_hub w))) (\<lambda>some. if some then m else ret ())"

definition publishDeviceStatus :: "App \<Rightarrow> WebEnv \<Rightarrow> string \<Rightarrow> string \<Rightarrow> unit web" where
  "publishDeviceStatus app env deviceID name =
     if_subscribed deviceID (
       andThen (attempt (loadDeviceLiveStatus (ap_location app) (ap_onlineTimeout app)
         (\<lambda>q. wv_served env (CallPublish q)) deviceID (wv_now env ClockStatus))) (\<lambda>r.
       case r of Inl _ \<Rightarrow> ret () | Inr (device, p, status) \<Rightarrow> hub_event deviceID (name, StatusData status)))"

definition publishCommunicationLog :: "string \<Rightarrow> CommunicationLog \<Rightarrow> unit web" where
  "publishCommunicationLog deviceID entry =
     if_subscribed deviceID (hub_event deviceID (''communication'', CommunicationData entry))"

definition publishActivity :: "DeviceActivity \<Rightarrow> unit web" where
  "publishActivity activity = if_subscribed (da_DeviceID activity)
     (hub_event (da_DeviceID activity) (''activity_updated'', ActivityData activity))"

definition publishDeviceActivity :: "WebEnv \<Rightarrow> nat \<Rightarrow> string \<Rightarrow> string \<Rightarrow> unit web" where
  "publishDeviceActivity env n deviceID activityID =
     if_subscribed deviceID (
       andThen (attempt (querying (wv_served env (CallActivity n)) (LoadDeviceActivity deviceID activityID))) (\<lambda>r.
       case r of Inl _ \<Rightarrow> ret () | Inr activity \<Rightarrow> publishActivity activity))"

definition publishActivitiesChanged :: "string \<Rightarrow> unit web" where
  "publishActivitiesChanged deviceID = if_subscribed deviceID (hub_event deviceID (''activities_changed'', ChangedData deviceID))"

fun publish_activities :: "WebEnv \<Rightarrow> nat \<Rightarrow> string \<Rightarrow> string list \<Rightarrow> unit web" where
  "publish_activities env n deviceID [] = ret ()"
| "publish_activities env n deviceID (i # is) =
     andThen (publishDeviceActivity env n deviceID i) (\<lambda>_. publish_activities env (n + 1) deviceID is)"

section \<open>Paths\<close>

definition has_prefix :: "string \<Rightarrow> string \<Rightarrow> bool" where
  "has_prefix p s \<longleftrightarrow> take (length p) s = p"

definition trim_prefix :: "string \<Rightarrow> string \<Rightarrow> string" where
  "trim_prefix p s = (if has_prefix p s then drop (length p) s else s)"

definition devices_prefix :: string where "devices_prefix = ''/api/v1/admin/devices/''"

text \<open>\<open>strings.Split(strings.Trim(strings.TrimPrefix(path, prefix), "/"), "/")\<close>.\<close>

definition device_path :: "string \<Rightarrow> string list" where
  "device_path path = split_on (CHR ''/'') (trim_slashes (dropWhile (\<lambda>c. c = CHR ''/'') (trim_prefix devices_prefix path)))"

end
