(* ===== verification/WebAdmin.thy ===== *)
theory WebAdmin
  imports WebRequest
begin

text \<open>
  The administrative handlers (\<open>server/web/admin_api.go\<close>): sessions and setup, devices and what
  belongs to a device, each with its guards in the order of the source. A handler is an action
  that ends with a response.
\<close>

section \<open>Requests\<close>

record adminLoginRequest =
  ar_Login :: string
  ar_Password :: string
  ar_CSRFToken :: string

record adminSetupRequest =
  au_Login :: string
  au_Password :: string
  au_PasswordConfirmation :: string
  au_CSRFToken :: string

definition decode_login :: "Request \<Rightarrow> adminLoginRequest option" where
  "decode_login = decodeJSONBody [''login'', ''password'', ''csrf_token''] (\<lambda>ms.
     (case (json_field json_string [] ''login'' ms, json_field json_string [] ''password'' ms,
            json_field json_string [] ''csrf_token'' ms) of
        (Some l, Some p, Some c) \<Rightarrow> Some \<lparr>ar_Login = l, ar_Password = p, ar_CSRFToken = c\<rparr>
      | _ \<Rightarrow> None))"

definition decode_setup :: "Request \<Rightarrow> adminSetupRequest option" where
  "decode_setup = decodeJSONBody [''login'', ''password'', ''password_confirmation'', ''csrf_token''] (\<lambda>ms.
     (case (json_field json_string [] ''login'' ms, json_field json_string [] ''password'' ms,
            json_field json_string [] ''password_confirmation'' ms, json_field json_string [] ''csrf_token'' ms) of
        (Some l, Some p, Some q, Some c) \<Rightarrow>
          Some \<lparr>au_Login = l, au_Password = p, au_PasswordConfirmation = q, au_CSRFToken = c\<rparr>
      | _ \<Rightarrow> None))"

text \<open>Name and avatar, for a new device and for a changed one.\<close>

definition decode_device :: "Request \<Rightarrow> (string \<times> string) option" where
  "decode_device = decodeJSONBody [''name'', ''avatar_key''] (\<lambda>ms.
     (case (json_field json_string [] ''name'' ms, json_field json_string [] ''avatar_key'' ms) of
        (Some n, Some a) \<Rightarrow> Some (n, a) | _ \<Rightarrow> None))"

definition decode_policy :: "Request \<Rightarrow> ((weekday \<Rightarrow> int) \<times> int) option" where
  "decode_policy = decodeJSONBody [''weekly_quota_seconds'', ''warning_minutes''] (\<lambda>ms.
     (case (json_field (json_week json_int64 0) (\<lambda>_. 0) ''weekly_quota_seconds'' ms,
            json_field json_int64 0 ''warning_minutes'' ms) of
        (Some q, Some w) \<Rightarrow> Some (q, w) | _ \<Rightarrow> None))"

definition decode_routine :: "string \<Rightarrow> Request \<Rightarrow> server_routine option" where
  "decode_routine routineID =
     decodeJSONBody [''name'', ''icon_key'', ''days'', ''start_second'', ''end_second'', ''enabled''] (\<lambda>ms.
     (case (json_field json_string [] ''name'' ms, json_field json_string [] ''icon_key'' ms,
            json_field (json_week json_bool False) (\<lambda>_. False) ''days'' ms,
            json_field json_int64 0 ''start_second'' ms, json_field json_int64 0 ''end_second'' ms,
            json_field json_bool False ''enabled'' ms) of
        (Some n, Some i, Some d, Some s, Some e, Some on) \<Rightarrow> Some \<lparr>vr_ID = routineID, vr_Name = n, vr_IconKey = i,
          vr_Days = d, vr_Start = s, vr_End = e, vr_Enabled = on\<rparr>
      | _ \<Rightarrow> None))"

definition decode_password :: "Request \<Rightarrow> (string \<times> string) option" where
  "decode_password = decodeJSONBody [''password'', ''password_confirmation''] (\<lambda>ms.
     (case (json_field json_string [] ''password'' ms, json_field json_string [] ''password_confirmation'' ms) of
        (Some p, Some q) \<Rightarrow> Some (p, q) | _ \<Rightarrow> None))"

definition decode_bonus :: "Request \<Rightarrow> int option" where
  "decode_bonus = decodeJSONBody [''minutes''] (\<lambda>ms. json_field json_int64 0 ''minutes'' ms)"

definition decode_command :: "Request \<Rightarrow> string option" where
  "decode_command = decodeJSONBody [''command''] (\<lambda>ms. json_field json_string [] ''command'' ms)"

definition decode_retention :: "Request \<Rightarrow> int option" where
  "decode_retention = decodeJSONBody [''retention_days''] (\<lambda>ms. json_field json_int64 0 ''retention_days'' ms)"

text \<open>A body that cannot be read ends the request.\<close>

definition body_or :: "Response \<Rightarrow> 'a option \<Rightarrow> 'a web" where
  "body_or response decoded = (case decoded of None \<Rightarrow> throw response | Some a \<Rightarrow> ret a)"

definition invalid_request :: Response where "invalid_request = writeJSONError 400 ''invalid request''"
definition internal_error :: Response where "internal_error = writeJSONError 500 ''internal error''"
definition not_found :: Response where "not_found = writeJSONError 404 ''not found''"

section \<open>Sessions and setup\<close>

definition adminDeviceResponse :: "App \<Rightarrow> time \<Rightarrow> Device \<Rightarrow> adminDeviceResponse" where
  "adminDeviceResponse app now device = \<lparr>ae_ID = dc_ID device, ae_Name = dc_Name device,
     ae_AvatarKey = dc_AvatarKey device, ae_LastSeenAt = dc_LastSeenAt device,
     ae_PolicyRevision = dc_PolicyRevision device, ae_AppliedPolicyRevision = dc_AppliedPolicyRevision device,
     ae_GraphicalSessionActive = dc_GraphicalSessionActive device,
     ae_Online = isOnline (dc_LastSeenAt device) now (ap_onlineTimeout app)\<rparr>"

definition adminPolicyResponseFromStorage :: "server_policy \<Rightarrow> adminPolicyResponse" where
  "adminPolicyResponseFromStorage p = \<lparr>ae_Revision = vp_Revision p, ae_MonitoringPaused = vp_MonitoringPaused p,
     ae_ManualBlock = vp_ManualBlock p, ae_WarningMinutes = vp_WarningMinutes p,
     ae_PasswordSet = (vp_LocalPasswordVerifier p \<noteq> []), ae_WeeklyQuota = vp_WeeklyQuota p,
     ae_Routines = vp_Routines p\<rparr>"

text \<open>The new session and its two cookies; both random tokens must be there.\<close>

definition start_session :: "App \<Rightarrow> WebEnv \<Rightarrow> string \<Rightarrow> int \<Rightarrow> Admin \<Rightarrow> Response web" where
  "start_session app env failure status admin = (\<lambda>w.
     case session_create (ap_sessionLifetime app) (am_ID admin) (am_Login admin) (wv_token env TokenSession)
         (wv_token env TokenCSRF) (wv_now env ClockSession) (ww_sessions w) of
       (None, values) \<Rightarrow> (Inl (writeJSONError 500 failure), w\<lparr>ww_sessions := values\<rparr>)
     | (Some (token, current), values) \<Rightarrow>
         (Inr ((writeJSON status (SessionBody \<lparr>ae_Authenticated = True, ae_Login = ss_Login current,
             ae_CSRFToken = ss_CSRF current, ae_SetupRequired = False\<rparr>))\<lparr>rs_cookies :=
             [admin_cookie app sessionCookieName token (go_div (ap_sessionLifetime app) second) (Some (ss_Expires current)),
              admin_cookie app loginCSRFCookie [] (-1) None]\<rparr>), w\<lparr>ww_sessions := values\<rparr>))"

definition credentials_valid :: "App \<Rightarrow> string \<Rightarrow> ServerError + Admin \<Rightarrow> bool" where
  "credentials_valid app password found = (case found of Inl _ \<Rightarrow> False
     | Inr admin \<Rightarrow> am_Active admin
         \<and> (case VerifyPassword (ap_argon2 app) password (am_PasswordHash admin) of Inl _ \<Rightarrow> False | Inr b \<Rightarrow> b))"

definition adminSessionAPI :: "App \<Rightarrow> WebEnv \<Rightarrow> Request \<Rightarrow> Response web" where
  "adminSessionAPI app env rq =
     (if rq_method rq = ''GET'' then
        andThen (authenticated env rq) (\<lambda>found.
        case found of
          Some (current, _) \<Rightarrow> ret (writeJSON 200 (SessionBody \<lparr>ae_Authenticated = True, ae_Login = ss_Login current,
            ae_CSRFToken = ss_CSRF current, ae_SetupRequired = False\<rparr>))
        | None \<Rightarrow>
            andThen (body_or internal_error (randomToken (wv_token env TokenLogin))) (\<lambda>csrfToken.
            andThen (on_store (\<lambda>_. writeJSONError 500 ''could not inspect initial setup'')
              (querying (wv_served env CallFirst) (\<lambda>db. Inr (HasAdministrators db)))) (\<lambda>hasAdministrators.
            ret ((writeJSON 200 (SessionBody \<lparr>ae_Authenticated = False, ae_Login = [], ae_CSRFToken = csrfToken,
                ae_SetupRequired = \<not> hasAdministrators\<rparr>))\<lparr>rs_cookies :=
                [admin_cookie app loginCSRFCookie csrfToken 600 None]\<rparr>))))
      else if rq_method rq = ''POST'' then
        andThen (body_or invalid_request (decode_login rq)) (\<lambda>request.
        andThen (fails_if (cookie_value loginCSRFCookie rq \<noteq> Some (ar_CSRFToken request))
          (writeJSONError 403 ''invalid CSRF token'')) (\<lambda>_.
        andThen (attempt (querying (wv_served env CallFirst) (AdminByLogin (ar_Login request)))) (\<lambda>found.
        case found of
          Inl _ \<Rightarrow> throw (writeJSONError 401 ''invalid credentials'')
        | Inr admin \<Rightarrow>
            andThen (fails_if (\<not> credentials_valid app (ar_Password request) found)
              (writeJSONError 401 ''invalid credentials'')) (\<lambda>_.
            start_session app env ''internal error'' 200 admin))))
      else if rq_method rq = ''DELETE'' then
        andThen (requireAdminAPISession env rq) (\<lambda>(current, token).
        andThen (requireAdminCSRF rq current) (\<lambda>_.
        andThen (modify (\<lambda>w. w\<lparr>ww_sessions := session_delete token (ww_sessions w)\<rparr>)) (\<lambda>_.
        ret (noContent\<lparr>rs_cookies := [admin_cookie app sessionCookieName [] (-1) None]\<rparr>))))
      else throw (methodNotAllowed ''GET, POST, DELETE''))"

definition setup_invalid :: "adminSetupRequest \<Rightarrow> bool" where
  "setup_invalid request \<longleftrightarrow> TrimSpace (au_Login request) = [] \<or> 80 < length (TrimSpace (au_Login request))
     \<or> au_Password request = [] \<or> 4096 < length (au_Password request)
     \<or> au_Password request \<noteq> au_PasswordConfirmation request"

definition already_completed :: Response where
  "already_completed = writeJSONError 409 ''initial setup already completed''"

definition adminSetupAPI :: "App \<Rightarrow> WebEnv \<Rightarrow> Request \<Rightarrow> Response web" where
  "adminSetupAPI app env rq =
     andThen (fails_if (rq_method rq \<noteq> ''POST'') (methodNotAllowed ''POST'')) (\<lambda>_.
     andThen (body_or invalid_request (decode_setup rq)) (\<lambda>request.
     andThen (fails_if (cookie_value loginCSRFCookie rq \<noteq> Some (au_CSRFToken request))
       (writeJSONError 403 ''invalid CSRF token'')) (\<lambda>_.
     andThen (on_store (\<lambda>_. writeJSONError 500 ''could not inspect initial setup'')
       (querying (wv_served env CallFirst) (\<lambda>db. Inr (HasAdministrators db)))) (\<lambda>hasAdministrators.
     andThen (fails_if hasAdministrators already_completed) (\<lambda>_.
     andThen (fails_if (setup_invalid request) (writeJSONError 400 ''invalid initial administrator'')) (\<lambda>_.
     let login = TrimSpace (au_Login request) in
     andThen (case HashPassword (ap_argon2 app) (wv_salt env) (au_Password request) DefaultArgon2Params of
         Inl _ \<Rightarrow> throw (writeJSONError 500 ''could not secure administrator password'') | Inr h \<Rightarrow> ret h) (\<lambda>passwordHash.
     andThen (on_store (\<lambda>_. writeJSONError 500 ''could not create initial administrator'')
       (BootstrapAdmin (store_env app env CallOperation) login passwordHash (wv_now env ClockOperation))) (\<lambda>created.
     andThen (fails_if (\<not> created) already_completed) (\<lambda>_.
     andThen (on_store (\<lambda>_. writeJSONError 500 ''could not start administrator session'')
       (querying (wv_served env CallSecond) (AdminByLogin login))) (\<lambda>administrator.
     start_session app env ''could not start administrator session'' 201 administrator))))))))))"

section \<open>Devices\<close>

fun device_responses :: "App \<Rightarrow> WebEnv \<Rightarrow> nat \<Rightarrow> Device list \<Rightarrow> adminDeviceResponse list" where
  "device_responses app env n [] = []"
| "device_responses app env n (d # ds) =
     adminDeviceResponse app (wv_now env (ClockDevice n)) d # device_responses app env (n + 1) ds"

definition adminDevicesAPI :: "App \<Rightarrow> WebEnv \<Rightarrow> Request \<Rightarrow> Response web" where
  "adminDevicesAPI app env rq =
     andThen (requireAdminAPISession env rq) (\<lambda>(current, _).
     if rq_method rq = ''GET'' then
       andThen (on_store (\<lambda>_. writeJSONError 500 ''could not load devices'')
         (querying (wv_served env CallFirst) (\<lambda>db. Inr (ListDevices db)))) (\<lambda>devices.
       ret (writeJSON 200 (DevicesBody (device_responses app env 0 devices))))
     else if rq_method rq = ''POST'' then
       andThen (requireAdminCSRF rq current) (\<lambda>_.
       andThen (body_or invalid_request (decode_device rq)) (\<lambda>(name, avatarKey).
       andThen (on_store (\<lambda>_. writeJSONError 400 ''invalid device'')
         (CreateDeviceWithAvatar (store_env app env CallOperation) name avatarKey (wv_now env ClockOperation))) (\<lambda>device.
       ret (writeJSON 201 (DeviceBody (adminDeviceResponse app (wv_now env (ClockDevice 0)) device))))))
     else throw (methodNotAllowed ''GET, POST''))"

definition load_status :: "App \<Rightarrow> WebEnv \<Rightarrow> string \<Rightarrow> (Device \<times> server_policy \<times> deviceLiveStatus) web" where
  "load_status app env deviceID = on_store adminReadError (loadDeviceLiveStatus (ap_location app) (ap_onlineTimeout app)
     (\<lambda>q. wv_served env (CallStatus q)) deviceID (wv_now env ClockStatus))"

definition adminDeviceRootAPI :: "App \<Rightarrow> WebEnv \<Rightarrow> Request \<Rightarrow> session \<Rightarrow> string \<Rightarrow> Response web" where
  "adminDeviceRootAPI app env rq current deviceID =
     (if rq_method rq = ''GET'' then
        andThen (load_status app env deviceID) (\<lambda>(device, p, status).
        andThen (on_store adminReadError (querying (wv_served env CallFirst) (loadControl deviceID))) (\<lambda>control.
        andThen (on_store (\<lambda>_. writeJSONError 500 ''could not load audit events'')
          (querying (wv_served env CallSecond) (\<lambda>db. Inr (ListAudit deviceID 30 db)))) (\<lambda>events.
        ret (writeJSON 200 (DetailBody \<lparr>ae_Device = adminDeviceResponse app (wv_now env (ClockDevice 0)) device,
          ae_Policy = adminPolicyResponseFromStorage p, ae_Control = control, ae_Status = status, ae_Events = events\<rparr>)))))
      else if rq_method rq = ''PATCH'' then
        andThen (requireAdminCSRF rq current) (\<lambda>_.
        andThen (body_or invalid_request (decode_device rq)) (\<lambda>(name, avatarKey).
        andThen (on_store adminMutationError
          (if avatarKey = [] then RenameDevice (store_env app env CallOperation) deviceID name (wv_now env ClockOperation)
           else UpdateDeviceIdentity (store_env app env CallOperation) deviceID name avatarKey (wv_now env ClockOperation))) (\<lambda>_.
        andThen (addCommunicationDetail ''device_name'' name) (\<lambda>_.
        andThen (if avatarKey \<noteq> [] then addCommunicationDetail ''avatar_key'' avatarKey else ret ()) (\<lambda>_.
        ret (writeJSON 200 (MessageBody ''device identity updated'')))))))
      else if rq_method rq = ''DELETE'' then
        andThen (requireAdminCSRF rq current) (\<lambda>_.
        andThen (on_store adminMutationError (DeleteDevice (wv_served env CallOperation) deviceID)) (\<lambda>_.
        andThen (addCommunicationDetail ''action'' ''device_deleted'') (\<lambda>_.
        ret noContent)))
      else throw (methodNotAllowed ''GET, PATCH, DELETE''))"

definition adminDeviceStatusAPI :: "App \<Rightarrow> WebEnv \<Rightarrow> Request \<Rightarrow> string \<Rightarrow> Response web" where
  "adminDeviceStatusAPI app env rq deviceID =
     andThen (fails_if (rq_method rq \<noteq> ''GET'') (methodNotAllowed ''GET'')) (\<lambda>_.
     andThen (load_status app env deviceID) (\<lambda>(_, _, status). ret (writeJSON 200 (StatusBody status))))"

definition adminDevicePolicyAPI :: "App \<Rightarrow> WebEnv \<Rightarrow> Request \<Rightarrow> session \<Rightarrow> string \<Rightarrow> Response web" where
  "adminDevicePolicyAPI app env rq current deviceID =
     andThen (fails_if (rq_method rq \<noteq> ''PUT'') (methodNotAllowed ''PUT'')) (\<lambda>_.
     andThen (requireAdminCSRF rq current) (\<lambda>_.
     andThen (body_or invalid_request (decode_policy rq)) (\<lambda>(quotas, warning).
     andThen (on_store adminMutationError
       (SaveQuotas (store_env app env CallOperation) deviceID quotas warning (wv_now env ClockOperation))) (\<lambda>_.
     andThen (addCommunicationDetail ''warning_minutes'' (show_int warning)) (\<lambda>_.
     ret (writeJSON 200 (MessageBody ''policy updated'')))))))"

definition adminDeviceRoutinesAPI :: "App \<Rightarrow> WebEnv \<Rightarrow> Request \<Rightarrow> session \<Rightarrow> string \<Rightarrow> string list \<Rightarrow> Response web" where
  "adminDeviceRoutinesAPI app env rq current deviceID pathParts =
     andThen (requireAdminCSRF rq current) (\<lambda>_.
     andThen (fails_if (1 < length pathParts \<or> pathParts = [[]]) not_found) (\<lambda>_.
     let routineID = (case pathParts of [p] \<Rightarrow> p | _ \<Rightarrow> []) in
     if rq_method rq = ''DELETE'' then
       andThen (fails_if (routineID = []) not_found) (\<lambda>_.
       andThen (on_store adminMutationError
         (DeleteRoutine (store_env app env CallOperation) deviceID routineID (wv_now env ClockOperation))) (\<lambda>_.
       andThen (addCommunicationDetail ''routine_action'' ''deleted'') (\<lambda>_. ret noContent)))
     else
       andThen (fails_if (rq_method rq \<noteq> ''POST'' \<and> rq_method rq \<noteq> ''PUT'') (methodNotAllowed ''POST, PUT, DELETE'')) (\<lambda>_.
       andThen (fails_if (rq_method rq = ''POST'' \<and> routineID \<noteq> [] \<or> rq_method rq = ''PUT'' \<and> routineID = []) not_found) (\<lambda>_.
       andThen (body_or invalid_request (decode_routine routineID rq)) (\<lambda>request.
       andThen (on_store adminMutationError
         (SaveRoutine (store_env app env CallOperation) deviceID request (wv_now env ClockOperation))) (\<lambda>createdRoutineID.
       andThen (addCommunicationDetail ''routine_name'' (vr_Name request)) (\<lambda>_.
       andThen (addCommunicationDetail ''routine_action'' (if routineID = [] then ''created'' else ''updated'')) (\<lambda>_.
       ret (writeJSON (if routineID = [] then 201 else 200) (RoutineBody createdRoutineID)))))))))) "

definition adminDevicePasswordAPI :: "App \<Rightarrow> WebEnv \<Rightarrow> Request \<Rightarrow> session \<Rightarrow> string \<Rightarrow> Response web" where
  "adminDevicePasswordAPI app env rq current deviceID =
     andThen (fails_if (rq_method rq \<noteq> ''PUT'') (methodNotAllowed ''PUT'')) (\<lambda>_.
     andThen (requireAdminCSRF rq current) (\<lambda>_.
     let mismatch = writeJSONError 400 ''password and confirmation must match'' in
     andThen (body_or mismatch (decode_password rq)) (\<lambda>(password, confirmation).
     andThen (fails_if (password = [] \<or> password \<noteq> confirmation) mismatch) (\<lambda>_.
     andThen (case HashPassword (ap_argon2 app) (wv_salt env) password DefaultArgon2Params of
         Inl _ \<Rightarrow> throw (writeJSONError 500 ''could not update password'') | Inr v \<Rightarrow> ret v) (\<lambda>verifier.
     andThen (on_store adminMutationError
       (SetLocalPassword (store_env app env CallOperation) deviceID verifier (wv_now env ClockOperation))) (\<lambda>_.
     andThen (addCommunicationDetail ''action'' ''password_updated'') (\<lambda>_.
     ret (writeJSON 200 (MessageBody ''password updated'')))))))))"

definition adminDeviceTokenAPI :: "App \<Rightarrow> WebEnv \<Rightarrow> Request \<Rightarrow> session \<Rightarrow> string \<Rightarrow> Response web" where
  "adminDeviceTokenAPI app env rq current deviceID =
     andThen (fails_if (rq_method rq \<noteq> ''POST'' \<and> rq_method rq \<noteq> ''DELETE'') (methodNotAllowed ''POST, DELETE'')) (\<lambda>_.
     andThen (requireAdminCSRF rq current) (\<lambda>_.
     if rq_method rq = ''DELETE'' then
       andThen (on_store adminMutationError
         (RevokeDeviceToken (store_env app env CallOperation) deviceID (wv_now env ClockOperation))) (\<lambda>_.
       andThen (addCommunicationDetail ''action'' ''token_revoked'') (\<lambda>_. ret noContent))
     else
       andThen (on_store adminMutationError (IssueDeviceToken (store_env app env CallOperation) (ap_sha256 app)
         (wv_token env TokenDevice) deviceID (wv_now env ClockOperation))) (\<lambda>token.
       andThen (addCommunicationDetail ''action'' ''token_issued'') (\<lambda>_.
       ret (writeJSON 201 (TokenBody deviceID token))))))"

definition adminDeviceBonusAPI :: "App \<Rightarrow> WebEnv \<Rightarrow> Request \<Rightarrow> session \<Rightarrow> string \<Rightarrow> Response web" where
  "adminDeviceBonusAPI app env rq current deviceID =
     andThen (fails_if (rq_method rq \<noteq> ''POST'') (methodNotAllowed ''POST'')) (\<lambda>_.
     andThen (requireAdminCSRF rq current) (\<lambda>_.
     let refused = writeJSONError 400 ''bonus must be between 1 minute and 12 hours'' in
     andThen (body_or refused (decode_bonus rq)) (\<lambda>minutes.
     andThen (fails_if (minutes \<le> 0 \<or> 12 * 60 < minutes) refused) (\<lambda>_.
     andThen (on_store adminMutationError
       (QueueRemoteBonus (store_env app env CallOperation) deviceID (minutes * 60) (wv_now env ClockOperation))) (\<lambda>operationID.
     andThen (addCommunicationDetail ''bonus_minutes'' (show_int minutes)) (\<lambda>_.
     andThen (addCommunicationDetail ''operation_id'' operationID) (\<lambda>_.
     andThen (publishDeviceActivity env 0 deviceID operationID) (\<lambda>_.
     ret (writeJSON 202 (BonusBody ''bonus queued'' operationID))))))))))"

definition adminDeviceActivitiesAPI :: "App \<Rightarrow> WebEnv \<Rightarrow> Request \<Rightarrow> session \<Rightarrow> string \<Rightarrow> string list \<Rightarrow> Response web" where
  "adminDeviceActivitiesAPI app env rq current deviceID pathParts =
     (if rq_method rq = ''DELETE'' \<and> pathParts = [''completed''] then
        andThen (requireAdminCSRF rq current) (\<lambda>_.
        andThen (on_store adminReadError
          (DeleteCompletedDeviceActivities (wv_served env CallOperation) deviceID (wv_now env ClockOperation))) (\<lambda>deleted.
        ret (writeJSON 200 (DeletedBody deleted))))
      else
        andThen (fails_if (rq_method rq \<noteq> ''GET'') (methodNotAllowed ''GET, DELETE'')) (\<lambda>_.
        andThen (fails_if (1 < length pathParts) not_found) (\<lambda>_.
        case pathParts of
          [activityID] \<Rightarrow>
            andThen (on_store adminReadError (querying (wv_served env CallFirst) (LoadDeviceActivity deviceID activityID)))
              (\<lambda>activity. ret (writeJSON 200 (ActivityBody activity)))
        | _ \<Rightarrow>
            andThen (on_store (\<lambda>_. writeJSONError 500 ''could not clean completed activities'')
              (CleanupExpiredCompletedActivities (wv_served env CallOperation) (wv_now env ClockOperation))) (\<lambda>_.
            andThen (query_number ''limit'' 100 1 200 ''limit must be between 1 and 200'' rq) (\<lambda>limit.
            andThen (on_store adminReadError (querying (wv_served env CallFirst) (ListDeviceActivities deviceID limit))) (\<lambda>activities.
            ret (writeJSON 200 (ActivitiesBody activities))))))))"

definition adminDeviceBonusStatusAPI :: "WebEnv \<Rightarrow> Request \<Rightarrow> string \<Rightarrow> string \<Rightarrow> Response web" where
  "adminDeviceBonusStatusAPI env rq deviceID operationID =
     andThen (fails_if (rq_method rq \<noteq> ''GET'') (methodNotAllowed ''GET'')) (\<lambda>_.
     andThen (on_store adminReadError (querying (wv_served env CallFirst) (RemoteBonusAcknowledged deviceID operationID)))
       (\<lambda>acknowledged. ret (writeJSON 200 (BonusStatusBody acknowledged))))"

definition adminDeviceCommandAPI :: "App \<Rightarrow> WebEnv \<Rightarrow> Request \<Rightarrow> session \<Rightarrow> string \<Rightarrow> Response web" where
  "adminDeviceCommandAPI app env rq current deviceID =
     andThen (fails_if (rq_method rq \<noteq> ''POST'') (methodNotAllowed ''POST'')) (\<lambda>_.
     andThen (requireAdminCSRF rq current) (\<lambda>_.
     andThen (body_or invalid_request (decode_command rq)) (\<lambda>command.
     andThen (on_store adminMutationError
       (QueueControlOperation (store_env app env CallOperation) deviceID command (wv_now env ClockOperation))) (\<lambda>operationID.
     andThen (addCommunicationDetail ''command'' command) (\<lambda>_.
     andThen (addCommunicationDetail ''operation_id'' operationID) (\<lambda>_.
     andThen (publishDeviceActivity env 0 deviceID operationID) (\<lambda>_.
     andThen (publishActivitiesChanged deviceID) (\<lambda>_.
     ret (writeJSON 202 (CommandBody ''command queued'' operationID))))))))))"

definition adminDeviceEventsAPI :: "WebEnv \<Rightarrow> Request \<Rightarrow> string \<Rightarrow> Response web" where
  "adminDeviceEventsAPI env rq deviceID =
     andThen (fails_if (rq_method rq \<noteq> ''GET'') (methodNotAllowed ''GET'')) (\<lambda>_.
     andThen (query_number ''limit'' 30 1 200 ''limit must be between 1 and 200'' rq) (\<lambda>limit.
     andThen (on_store (\<lambda>_. writeJSONError 500 ''could not load audit events'')
       (querying (wv_served env CallFirst) (\<lambda>db. Inr (ListAudit deviceID limit db)))) (\<lambda>events.
     ret (writeJSON 200 (AuditBody events)))))"

section \<open>The communication log\<close>

definition adminCommunicationSettingsAPI :: "App \<Rightarrow> WebEnv \<Rightarrow> Request \<Rightarrow> session \<Rightarrow> Response web" where
  "adminCommunicationSettingsAPI app env rq current =
     andThen (fails_if (rq_method rq \<noteq> ''PUT'') (methodNotAllowed ''PUT'')) (\<lambda>_.
     andThen (requireAdminCSRF rq current) (\<lambda>_.
     let refused = writeJSONError 400 ''retention must be between 1 and 365 days'' in
     andThen (body_or refused (decode_retention rq)) (\<lambda>days.
     andThen (fails_if (days < 1 \<or> 365 < days) refused) (\<lambda>_.
     andThen (on_log (\<lambda>_. writeJSONError 400 ''invalid communication retention'')
       (\<lambda>_. SetCommunicationRetentionDays (ap_location app) (wv_served env CallOperation) days (wv_now env ClockOperation))) (\<lambda>_.
     ret (writeJSON 200 (RetentionBody days)))))))"

definition log_query :: "bool \<Rightarrow> (LogDb \<Rightarrow> ServerError + 'a) \<Rightarrow> 'a lact" where
  "log_query served q = (\<lambda>log. (if served then q log else Inl EngineFailed, log))"

definition communicationQuery :: "Request \<Rightarrow> (int \<times> int) web" where
  "communicationQuery rq =
     andThen (query_number ''limit'' 200 1 500 ''limit must be between 1 and 500'' rq) (\<lambda>limit.
     andThen (query_number ''after'' 0 0 (2 ^ 63 - 1) ''after must be a non-negative integer'' rq) (\<lambda>afterID.
     ret (limit, afterID)))"

definition adminDeviceCommunicationAPI :: "App \<Rightarrow> WebEnv \<Rightarrow> Request \<Rightarrow> session \<Rightarrow> string \<Rightarrow> string list \<Rightarrow> Response web" where
  "adminDeviceCommunicationAPI app env rq current deviceID pathParts =
     (if pathParts = [''settings''] then adminCommunicationSettingsAPI app env rq current
      else
        andThen (fails_if (pathParts \<noteq> []) not_found) (\<lambda>_.
        if rq_method rq = ''GET'' then
          andThen (communicationQuery rq) (\<lambda>(limit, afterID).
          andThen (on_log adminReadError (\<lambda>known. log_query (wv_served env CallFirst)
            (ListCommunicationLogs known deviceID afterID limit))) (\<lambda>events.
          andThen (on_log (\<lambda>_. writeJSONError 500 ''could not load communication settings'')
            (\<lambda>_. log_query (wv_served env CallSecond) (\<lambda>log. Inr (CommunicationRetentionDays log)))) (\<lambda>retentionDays.
          ret (writeJSON 200 (LogsBody events retentionDays)))))
        else if rq_method rq = ''DELETE'' then
          andThen (requireAdminCSRF rq current) (\<lambda>_.
          andThen (on_log adminReadError (\<lambda>known. DeleteCommunicationLogs (wv_served env CallOperation) known deviceID)) (\<lambda>deleted.
          ret (writeJSON 200 (DeletedBody deleted))))
        else throw (methodNotAllowed ''GET, DELETE'')))"

section \<open>The stream of a device\<close>

text \<open>Opening it: the stream is subscribed and greeted with the status; the channel stands for it.\<close>

definition open_stream :: "App \<Rightarrow> WebEnv \<Rightarrow> Request \<Rightarrow> string \<Rightarrow> Response web" where
  "open_stream app env rq deviceID =
     andThen (fails_if (rq_method rq \<noteq> ''GET'') (methodNotAllowed ''GET'')) (\<lambda>_.
     andThen (load_status app env deviceID) (\<lambda>(_, _, status) w.
       case hub_subscribe deviceID (ww_hub w) of (channel, h) \<Rightarrow>
         (Inr \<lparr>rs_status = 200, rs_headers = [(''Content-Type'', ''text/event-stream''),
             (''Cache-Control'', ''no-store''), (''X-Accel-Buffering'', ''no'')], rs_cookies = [],
             rs_body = StreamBody channel status\<rparr>, w\<lparr>ww_hub := h\<rparr>)))"

section \<open>Dispatch\<close>

definition nested_resources :: "string list" where
  "nested_resources = [''routines'', ''commands'', ''communication'', ''activities'']"

definition device_resource :: "App \<Rightarrow> WebEnv \<Rightarrow> Request \<Rightarrow> session \<Rightarrow> string \<Rightarrow> string \<Rightarrow> string list \<Rightarrow> Response web" where
  "device_resource app env rq current deviceID resource rest =
     (if resource = ''status'' then adminDeviceStatusAPI app env rq deviceID
      else if resource = ''stream'' then open_stream app env rq deviceID
      else if resource = ''policy'' then adminDevicePolicyAPI app env rq current deviceID
      else if resource = ''routines'' then adminDeviceRoutinesAPI app env rq current deviceID rest
      else if resource = ''password'' then adminDevicePasswordAPI app env rq current deviceID
      else if resource = ''token'' then adminDeviceTokenAPI app env rq current deviceID
      else if resource = ''bonus'' then adminDeviceBonusAPI app env rq current deviceID
      else if resource = ''commands'' then
        (case rest of [operationID] \<Rightarrow> adminDeviceBonusStatusAPI env rq deviceID operationID
         | [] \<Rightarrow> adminDeviceCommandAPI app env rq current deviceID
         | _ \<Rightarrow> throw not_found)
      else if resource = ''events'' then adminDeviceEventsAPI env rq deviceID
      else if resource = ''activities'' then adminDeviceActivitiesAPI app env rq current deviceID rest
      else if resource = ''communication'' then adminDeviceCommunicationAPI app env rq current deviceID rest
      else throw not_found)"

definition adminDeviceAPI :: "App \<Rightarrow> WebEnv \<Rightarrow> Request \<Rightarrow> Response web" where
  "adminDeviceAPI app env rq =
     andThen (requireAdminAPISession env rq) (\<lambda>(current, _).
     case device_path (rq_path rq) of
       [] \<Rightarrow> throw not_found
     | deviceID # parts \<Rightarrow>
         if deviceID = [] then throw not_found
         else (case parts of
             [] \<Rightarrow> adminDeviceRootAPI app env rq current deviceID
           | resource # rest \<Rightarrow>
               if rest \<noteq> [] \<and> resource \<notin> set nested_resources then throw not_found
               else device_resource app env rq current deviceID resource rest))"

end
