(* ===== verification/WebDevice.thy ===== *)
theory WebDevice
  imports WebRequest
begin

text \<open>
  The heartbeat of a device over HTTP (\<open>server/web/api.go\<close>): authentication by token, protocol
  version, the call of the storage, the live updates it causes, and the two entries it leaves in
  the communication log (\<open>server/web/communication.go\<close> has the helpers). Printing to the
  process log is left out.
\<close>

section \<open>Entries of the log\<close>

definition communicationResultForStatus :: "int \<Rightarrow> string" where
  "communicationResultForStatus status = (if 500 \<le> status then ''error'' else if 400 \<le> status then ''warning'' else ''success'')"

definition elapsedMilliseconds :: "WebEnv \<Rightarrow> int" where
  "elapsedMilliseconds env = (if wv_elapsed env < 1 then 1 else wv_elapsed env)"

definition zero_communication :: CommunicationLog where
  "zero_communication = \<lparr>cl_ID = 0, cl_DeviceID = [], cl_Source = [], cl_Target = [], cl_Operation = [],
     cl_Result = [], cl_HTTPStatus = 0, cl_DurationMS = 0, cl_Summary = [], cl_Details = [], cl_CreatedAt = zero_time\<rparr>"

text \<open>The error of the storage is dropped, and what came with it - the zero entry - is published.\<close>

definition record_communication :: "App \<Rightarrow> WebEnv \<Rightarrow> StoreCall \<Rightarrow> Clock \<Rightarrow> CommunicationLog \<Rightarrow> unit web" where
  "record_communication app env call clock entry =
     andThen (attempt_log (\<lambda>known. AppendCommunicationLog (ap_location app) (wv_served env call) known entry (wv_now env clock))) (\<lambda>r.
     publishCommunicationLog (cl_DeviceID entry) (case r of Inl _ \<Rightarrow> zero_communication | Inr stored \<Rightarrow> stored))"

section \<open>Errors in words\<close>

text \<open>The texts are UTF-8; what an error of the database says is given.\<close>

definition a_tilde :: string where "a_tilde = [CHR 0xC3, CHR 0xA3]"
definition o_tilde :: string where "o_tilde = [CHR 0xC3, CHR 0xB5]"
definition o_acute :: string where "o_acute = [CHR 0xC3, CHR 0xB3]"
definition c_cedilla :: string where "c_cedilla = [CHR 0xC3, CHR 0xA7]"

definition heartbeat_error_text :: "WebEnv \<Rightarrow> ServerError \<Rightarrow> string" where
  "heartbeat_error_text env e = (case e of
       RowNotFound \<Rightarrow> ''record not found''
     | InvalidCounters \<Rightarrow> ''invalid heartbeat counters''
     | InvalidGraphicalSession \<Rightarrow> ''active graphical session requires a valid identifier''
     | SessionWithoutActivity \<Rightarrow> ''inactive graphical session cannot request session state''
     | LockedWithoutActivity \<Rightarrow> ''inactive graphical session cannot be locked''
     | InvalidHeartbeatDate \<Rightarrow> ''invalid heartbeat local date''
     | BatchTooLarge \<Rightarrow> ''heartbeat batch exceeds 100 items''
     | RevisionAheadError c s \<Rightarrow> ''client policy revision is ahead of server: client='' @ show_int c @ '' server='' @ show_int s
     | InvalidAcknowledgement \<Rightarrow> ''invalid command acknowledgement''
     | InvalidPendingEvent \<Rightarrow> ''invalid pending event''
     | InvalidLocalBonus \<Rightarrow> ''invalid local bonus event''
     | InvalidBonusDate \<Rightarrow> ''invalid bonus local date''
     | InvalidCredit \<Rightarrow> ''invalid credit increment command''
     | CreditMismatch \<Rightarrow> ''credit increment command identifier mismatch''
     | _ \<Rightarrow> wv_engine env)"

definition humanHeartbeatRejection :: "string \<Rightarrow> string" where
  "humanHeartbeatRejection message =
     (if contains_text ''no such table: activity'' message
      then ''O hist'' @ o_acute @ ''rico de atividades do servidor ainda n'' @ a_tilde @ ''o estava pronto.''
      else if contains_text ''FOREIGN KEY constraint failed'' message
      then ''O servidor encontrou um registro hist'' @ o_acute @ ''rico inconsistente.''
      else if contains_text ''pending event'' message \<or> contains_text ''bonus local'' message
         \<or> contains_text ''local bonus'' message \<or> contains_text ''bonus local date'' message
      then ''O servidor n'' @ a_tilde @ ''o reconheceu uma atividade pendente enviada pelo computador.''
      else if contains_text ''command acknowledgement'' message
      then ''O servidor n'' @ a_tilde @ ''o reconheceu a confirma'' @ c_cedilla @ a_tilde @ ''o de uma a'' @ c_cedilla @ a_tilde @ ''o anterior.''
      else if contains_text ''graphical session'' message
      then ''O computador enviou uma identifica'' @ c_cedilla @ a_tilde @ ''o de sess'' @ a_tilde @ ''o que o servidor n'' @ a_tilde @ ''o reconheceu.''
      else if contains_text ''heartbeat counters'' message \<or> contains_text ''heartbeat local date'' message
      then ''O computador enviou informa'' @ c_cedilla @ o_tilde @ ''es de tempo que o servidor n'' @ a_tilde @ ''o conseguiu validar.''
      else ''O servidor n'' @ a_tilde @ ''o conseguiu consolidar a atualiza'' @ c_cedilla @ a_tilde @ ''o enviada pelo computador.'')"

section \<open>The heartbeat\<close>

definition deviceIDHeader :: string where "deviceIDHeader = ''X-Tempo-Device-ID''"
definition VersionHeader :: string where "VersionHeader = ''X-Compasso-Protocol-Version''"
definition CapabilitiesHeader :: string where "CapabilitiesHeader = ''X-Compasso-Capabilities''"
definition HeartbeatPath :: string where "HeartbeatPath = ''/api/v1/device/heartbeat''"

definition request_device :: "Request \<Rightarrow> string" where
  "request_device rq = TrimSpace (first_value deviceIDHeader (rq_headers rq))"

definition request_version :: "Request \<Rightarrow> string" where
  "request_version rq = (let v = TrimSpace (first_value VersionHeader (rq_headers rq)) in if v = [] then ''1'' else v)"

text \<open>The token of \<open>Authorization: Bearer\<close>, when it can be one.\<close>

definition bearer_token :: "Request \<Rightarrow> string option" where
  "bearer_token rq =
     (let authorization = first_value ''Authorization'' (rq_headers rq); token = trim_prefix ''Bearer '' authorization
      in if \<not> has_prefix ''Bearer '' authorization \<or> list_ex (\<lambda>c. c \<in> {CHR '' '', CHR 0x09, CHR 0x0D, CHR 0x0A}) token
         then None else Some token)"

definition requestHasCapability :: "Request \<Rightarrow> string \<Rightarrow> bool" where
  "requestHasCapability rq capability \<longleftrightarrow>
     list_ex (\<lambda>(name, header). name = CapabilitiesHeader
        \<and> list_ex (\<lambda>advertised. TrimSpace advertised = capability) (split_on (CHR '','') header)) (rq_headers rq)"

definition show_bool :: "bool \<Rightarrow> string" where
  "show_bool b = (if b then ''true'' else ''false'')"

fun add_details :: "(string \<times> string) list \<Rightarrow> unit web" where
  "add_details [] = ret ()"
| "add_details ((k, v) # rest) = andThen (addCommunicationDetail k v) (\<lambda>_. add_details rest)"

definition request_details :: "HeartbeatRequest \<Rightarrow> (string \<times> string) list" where
  "request_details request =
     [(''local_date'', hr_LocalDate request), (''policy_revision'', show_int (hr_PolicyRevision request)),
      (''control_revision'', show_int (hr_ControlRevision request)),
      (''session_state_revision'', show_int (hr_SessionStateRevision request)),
      (''used_seconds'', show_int (hr_SecondsUsed request)),
      (''request_events'', show_int (int (length (hr_Events request)))),
      (''command_acknowledgements'', show_int (int (length (hr_CommandAcks request))))]"

definition response_details :: "HeartbeatResponse \<Rightarrow> (string \<times> string) list" where
  "response_details response =
     [(''policy_sent'', show_bool (hs_Policy response \<noteq> None)),
      (''session_state_sent'', show_bool (hs_SessionState response \<noteq> None)),
      (''response_commands'', show_int (int (length (hs_Commands response)))),
      (''acknowledged_events'', show_int (int (length (hs_AcknowledgedEvents response))))]"

definition unauthorized_device :: Response where
  "unauthorized_device = with_header ''WWW-Authenticate'' ''Bearer'' (writeJSONError 401 ''invalid device credentials'')"

definition authenticate_device :: "App \<Rightarrow> WebEnv \<Rightarrow> Request \<Rightarrow> unit web" where
  "authenticate_device app env rq =
     (case bearer_token rq of None \<Rightarrow> throw unauthorized_device
      | Some token \<Rightarrow> andThen (attempt (querying True
            (AuthenticateDevice (wv_served env CallAuthenticate) (ap_sha256 app) (request_device rq) token))) (\<lambda>r.
          case r of Inl _ \<Rightarrow> throw unauthorized_device | Inr _ \<Rightarrow> ret ()))"

definition rejected_heartbeat :: "ServerError \<Rightarrow> Response" where
  "rejected_heartbeat e = (case e of
       RevisionAheadError c s \<Rightarrow> writeJSON 409 (ErrorBody \<lparr>er_Error = ''client synchronization state is newer than this device'',
         er_Code = ''revision_ahead'', er_ClientRevision = c, er_ServerRevision = s\<rparr>)
     | _ \<Rightarrow> writeJSONError 400 ''heartbeat rejected'')"

definition upgrade_required :: Response where
  "upgrade_required = writeJSON 426 (ErrorBody \<lparr>er_Error = ''agent update required before applying pending bonus'',
     er_Code = ''agent_upgrade_required'', er_ClientRevision = 0, er_ServerRevision = 0\<rparr>)"

text \<open>An agent of version 1 does not take a bonus, so it gets nothing while one is queued.\<close>

definition check_version :: "WebEnv \<Rightarrow> Request \<Rightarrow> unit web" where
  "check_version env rq =
     andThen (fails_if (request_version rq \<noteq> ''1'' \<and> request_version rq \<noteq> ''2'')
       (writeJSONError 400 ''unsupported protocol version'')) (\<lambda>_.
     if request_version rq \<noteq> ''1'' then ret ()
     else andThen (on_store (\<lambda>_. writeJSONError 500 ''could not inspect pending operations'')
            (querying (wv_served env CallPending) (\<lambda>db. Inr (HasPendingRemoteBonus (request_device rq) db)))) (\<lambda>pendingBonus.
          fails_if pendingBonus upgrade_required))"

definition answer_capabilities :: "App \<Rightarrow> Request \<Rightarrow> HeartbeatResponse \<Rightarrow> HeartbeatResponse" where
  "answer_capabilities app rq r0 =
     (let r1 = (if requestHasCapability rq ''next-heartbeat-seconds''
                then r0\<lparr>hs_NextHeartbeatSeconds := go_div (ap_heartbeatInterval app) second\<rparr> else r0)
      in if requestHasCapability rq ''command-ack-receipts'' then r1 else r1\<lparr>hs_AcknowledgedCommands := []\<rparr>)"

definition touched_activities :: "HeartbeatRequest \<Rightarrow> HeartbeatResponse \<Rightarrow> string list" where
  "touched_activities request response = map wc_ID (hs_Commands response) @ hr_CommandAcks request
     @ map we_UUID (filter (\<lambda>e. we_Kind e = ''bonus_added'') (hr_Events request))"

text \<open>The end of a heartbeat that the storage took, and of one that it refused.\<close>

definition answer_heartbeat :: "App \<Rightarrow> WebEnv \<Rightarrow> Request \<Rightarrow> HeartbeatRequest \<Rightarrow> HeartbeatResponse \<Rightarrow> Response web" where
  "answer_heartbeat app env rq request response =
     andThen (if requestHasCapability rq ''next-heartbeat-seconds''
              then addCommunicationDetail ''next_heartbeat_seconds'' (show_int (hs_NextHeartbeatSeconds response))
              else ret ()) (\<lambda>_.
     andThen (add_details (response_details response)) (\<lambda>_.
     andThen (publishDeviceStatus app env (request_device rq) ''status'') (\<lambda>_.
     andThen (publish_activities env 0 (request_device rq) (touched_activities request response)) (\<lambda>_.
     ret (writeJSON 200 (HeartbeatBody response))))))"

definition reject_heartbeat :: "WebEnv \<Rightarrow> ServerError \<Rightarrow> Response web" where
  "reject_heartbeat env e =
     andThen (add_details [(''rejection_reason'', humanHeartbeatRejection (heartbeat_error_text env e)),
       (''failure_stage'', ''processamento_no_servidor'')]) (\<lambda>_. throw (rejected_heartbeat e))"

definition receive_heartbeat :: "App \<Rightarrow> WebEnv \<Rightarrow> Request \<Rightarrow> HeartbeatRequest \<Rightarrow> Response web" where
  "receive_heartbeat app env rq request =
     andThen (add_details (request_details request)) (\<lambda>_.
     andThen (attempt (ReceiveHeartbeat (ap_location app) (\<lambda>p. wv_served env (CallHeartbeat p)) (request_device rq) request
       (wv_now env ClockOperation))) (\<lambda>received.
     case received of Inl e \<Rightarrow> reject_heartbeat env e
     | Inr response \<Rightarrow> answer_heartbeat app env rq request (answer_capabilities app rq response)))"

definition handleHeartbeat :: "App \<Rightarrow> WebEnv \<Rightarrow> Request \<Rightarrow> Response web" where
  "handleHeartbeat app env rq =
     andThen (fails_if (rq_method rq \<noteq> ''POST'') (methodNotAllowed ''POST'')) (\<lambda>_.
     andThen (authenticate_device app env rq) (\<lambda>_.
     andThen (check_version env rq) (\<lambda>_.
     case rq_heartbeat rq of None \<Rightarrow> throw (writeJSONError 400 ''invalid heartbeat payload'')
     | Some request \<Rightarrow> receive_heartbeat app env rq request)))"

definition heartbeatCarriedState :: "details \<Rightarrow> bool" where
  "heartbeatCarriedState ds \<longleftrightarrow> map_of ds ''policy_sent'' = Some ''true'' \<or> map_of ds ''session_state_sent'' = Some ''true''
     \<or> map_of ds ''response_commands'' \<noteq> Some ''0'' \<or> map_of ds ''acknowledged_events'' \<noteq> Some ''0''"

definition heartbeat_summary :: "int \<Rightarrow> details \<Rightarrow> string" where
  "heartbeat_summary status ds =
     (if status < 400 then ''Heartbeat processado e resposta enviada ao agente.''
      else case map_of ds ''rejection_reason'' of Some (c # cs) \<Rightarrow> c # cs
           | _ \<Rightarrow> ''O servidor recusou a atualiza'' @ c_cedilla @ a_tilde @ ''o enviada pelo computador.'')"

definition heartbeat_entry :: "WebEnv \<Rightarrow> string \<Rightarrow> int \<Rightarrow> details \<Rightarrow> CommunicationLog" where
  "heartbeat_entry env deviceID status ds = \<lparr>cl_ID = 0, cl_DeviceID = deviceID, cl_Source = ''agent'',
     cl_Target = ''api'', cl_Operation = ''heartbeat'', cl_Result = communicationResultForStatus status,
     cl_HTTPStatus = status, cl_DurationMS = elapsedMilliseconds env, cl_Summary = heartbeat_summary status ds,
     cl_Details = ds, cl_CreatedAt = zero_time\<rparr>"

definition response_entry :: "WebEnv \<Rightarrow> string \<Rightarrow> int \<Rightarrow> details \<Rightarrow> CommunicationLog" where
  "response_entry env deviceID status ds = \<lparr>cl_ID = 0, cl_DeviceID = deviceID, cl_Source = ''api'',
     cl_Target = ''agent'', cl_Operation = ''heartbeat_response'', cl_Result = ''success'',
     cl_HTTPStatus = status, cl_DurationMS = elapsedMilliseconds env,
     cl_Summary = ''API enviou atualiza'' @ c_cedilla @ o_tilde @ ''es ou confirma'' @ c_cedilla @ o_tilde @ ''es ao agente.'',
     cl_Details = ds, cl_CreatedAt = zero_time\<rparr>"

text \<open>The header with the correlation identifier is set first, when there is one.\<close>

definition correlation_id :: "WebEnv \<Rightarrow> string" where
  "correlation_id env = (case randomToken (wv_token env TokenCorrelation) of None \<Rightarrow> [] | Some t \<Rightarrow> t)"

definition with_correlation :: "WebEnv \<Rightarrow> Response \<Rightarrow> Response" where
  "with_correlation env r = (if correlation_id env = [] then r
     else with_header ''X-Compasso-Correlation-ID'' (correlation_id env) r)"

definition log_heartbeat :: "App \<Rightarrow> WebEnv \<Rightarrow> Request \<Rightarrow> int \<Rightarrow> unit web" where
  "log_heartbeat app env rq status =
     (let deviceID = request_device rq in
      if deviceID = [] then ret ()
      else
        andThen (reads (\<lambda>w. case ww_details w of None \<Rightarrow> [] | Some ds \<Rightarrow> ds)) (\<lambda>ds.
        andThen (record_communication app env CallLog ClockLog (heartbeat_entry env deviceID status ds)) (\<lambda>_.
        if status = 200 \<and> heartbeatCarriedState ds
        then record_communication app env CallResponseLog ClockResponseLog (response_entry env deviceID status ds)
        else ret ())))"

definition start_details :: "details \<Rightarrow> unit web" where
  "start_details ds = modify (\<lambda>w. w\<lparr>ww_details := Some ds\<rparr>)"

definition end_details :: "unit web" where
  "end_details = modify (\<lambda>w. w\<lparr>ww_details := None\<rparr>)"

definition heartbeat :: "App \<Rightarrow> WebEnv \<Rightarrow> Request \<Rightarrow> Response web" where
  "heartbeat app env rq =
     andThen (start_details [(''correlation_id'', correlation_id env), (''protocol_version'', request_version rq),
        (''route'', HeartbeatPath)]) (\<lambda>_.
     andThen (\<lambda>w. case answered (handleHeartbeat app env rq) w of (response, w') \<Rightarrow> (Inr response, w')) (\<lambda>response.
     andThen (log_heartbeat app env rq (rs_status response)) (\<lambda>_.
     andThen end_details (\<lambda>_.
     ret (with_correlation env response)))))"

end
