(* ===== verification/WebServer.thy ===== *)
theory WebServer
  imports WebAdmin WebDevice
begin

text \<open>
  The server as a whole (\<open>server/web/app.go\<close>, \<open>server/web/communication.go\<close>): its settings, the
  origins it answers to, the log of administrative requests, the dispatch of paths, and how a
  request passes through them.
\<close>

section \<open>Settings\<close>

datatype AppError = SessionLifetimeOutOfRange | OnlineTimeoutNotPositive | HeartbeatIntervalOutOfRange | OriginNotAbsolute

definition SetAdminOrigin :: "string \<Rightarrow> App \<Rightarrow> AppError + App" where
  "SetAdminOrigin origin0 app =
     (let origin = trim_slashes (TrimSpace origin0) in
      if origin \<noteq> [] \<and> origin \<noteq> ''same-host'' \<and> \<not> has_prefix ''http://'' origin \<and> \<not> has_prefix ''https://'' origin
      then Inl OriginNotAbsolute else Inr (app\<lparr>ap_adminOrigin := origin\<rparr>))"

definition New :: "bool \<Rightarrow> duration \<Rightarrow> duration \<Rightarrow> duration \<Rightarrow> string \<Rightarrow> location \<Rightarrow> argon2 \<Rightarrow> sha256 \<Rightarrow> AppError + App" where
  "New secureCookies sessionLifetime onlineTimeout heartbeatInterval adminOrigin loc argon2 sha256 =
     (if sessionLifetime < minute \<or> 7 * 24 * hour < sessionLifetime then Inl SessionLifetimeOutOfRange
      else if onlineTimeout \<le> 0 then Inl OnlineTimeoutNotPositive
      else if heartbeatInterval < second \<or> 10 * minute < heartbeatInterval \<or> go_mod heartbeatInterval second \<noteq> 0
      then Inl HeartbeatIntervalOutOfRange
      else SetAdminOrigin adminOrigin \<lparr>ap_adminOrigin = [], ap_secureCookies = secureCookies,
        ap_sessionLifetime = sessionLifetime, ap_onlineTimeout = onlineTimeout,
        ap_heartbeatInterval = heartbeatInterval, ap_location = loc, ap_argon2 = argon2, ap_sha256 = sha256\<rparr>)"

section \<open>Origins\<close>

text \<open>Host names are compared in lower case; they are ASCII. The answer is the origin to name, and
  whether it is allowed.\<close>

definition allowedAdminOrigin :: "App \<Rightarrow> string \<Rightarrow> Request \<Rightarrow> string option" where
  "allowedAdminOrigin app origin rq =
     (if ap_adminOrigin app \<noteq> ''same-host''
      then (if ap_adminOrigin app \<noteq> [] \<and> origin = ap_adminOrigin app then Some (ap_adminOrigin app) else None)
      else case rq_origin_host rq of None \<Rightarrow> None
           | Some host \<Rightarrow> if map fold_case host = map fold_case (rq_host_name rq) then Some origin else None)"

definition origin_headers :: "string \<Rightarrow> (string \<times> string) list" where
  "origin_headers allowedOrigin = [(''Access-Control-Allow-Origin'', allowedOrigin),
     (''Access-Control-Allow-Credentials'', ''true''), (''Vary'', ''Origin'')]"

definition preflight :: Response where
  "preflight = noContent\<lparr>rs_headers := [(''Access-Control-Allow-Methods'', ''GET, POST, PUT, PATCH, DELETE, OPTIONS''),
     (''Access-Control-Allow-Headers'', ''Content-Type, X-CSRF-Token''), (''Access-Control-Max-Age'', ''600'')]\<rparr>"

definition add_headers :: "(string \<times> string) list \<Rightarrow> Response \<Rightarrow> Response" where
  "add_headers headers r = r\<lparr>rs_headers := headers @ rs_headers r\<rparr>"

definition admin_prefix :: string where "admin_prefix = ''/api/v1/admin/''"

definition corsHeaders :: "App \<Rightarrow> Request \<Rightarrow> Response web \<Rightarrow> Response web" where
  "corsHeaders app rq handler =
     (if \<not> has_prefix admin_prefix (rq_path rq) then handler
      else
        let origin = trim_slashes (TrimSpace (first_value ''Origin'' (rq_headers rq))) in
        andThen (if origin = [] then ret []
                 else case allowedAdminOrigin app origin rq of
                     None \<Rightarrow> throw (writeJSONError 403 ''origin not allowed'')
                   | Some allowedOrigin \<Rightarrow> ret (origin_headers allowedOrigin)) (\<lambda>headers.
        if rq_method rq = ''OPTIONS'' then ret (add_headers headers preflight)
        else (\<lambda>w. case answered handler w of (r, w') \<Rightarrow> (Inr (add_headers headers r), w'))))"

definition securityHeaders :: "bool \<Rightarrow> Response \<Rightarrow> Response" where
  "securityHeaders productionHTTPS = add_headers ([(''X-Content-Type-Options'', ''nosniff''),
     (''X-Frame-Options'', ''DENY''), (''Referrer-Policy'', ''no-referrer''),
     (''Content-Security-Policy'', ''default-src '' @ [CHR 0x27] @ ''none'' @ [CHR 0x27] @ ''; frame-ancestors '' @ [CHR 0x27] @ ''none'' @ [CHR 0x27])]
     @ (if productionHTTPS then [(''Strict-Transport-Security'', ''max-age=31536000; includeSubDomains'')] else []))"

section \<open>The log of administrative requests\<close>

definition unlogged_resources :: "string list" where
  "unlogged_resources = [''communication'', ''stream'', ''activities'']"

definition polled_resources :: "string list" where
  "polled_resources = [''device'', ''status'', ''commands'', ''events'']"

text \<open>Device, operation and route of a request that is logged.\<close>

definition administrativeCommunication :: "Request \<Rightarrow> (string \<times> string \<times> string) option" where
  "administrativeCommunication rq =
     (if rq_method rq = ''OPTIONS'' \<or> \<not> has_prefix devices_prefix (rq_path rq) then None
      else let parts = device_path (rq_path rq);
               resource = (case parts of _ # r # _ \<Rightarrow> r | _ \<Rightarrow> ''device'')
           in if parts = [] \<or> hd parts = [] then None
              else if resource \<in> set unlogged_resources then None
              else if rq_method rq = ''GET'' \<and> resource \<in> set polled_resources then None
              else Some (hd parts, rq_method rq @ '' '' @ resource,
                devices_prefix @ ''{device_id}'' @ (if resource \<noteq> ''device'' then ''/'' @ resource else [])
                @ (if 2 < length parts then ''/{resource_id}'' else [])))"

definition administrativeCommunicationSummary :: "string \<Rightarrow> int \<Rightarrow> string" where
  "administrativeCommunicationSummary operation status =
     (if 400 \<le> status then ''Solicita'' @ c_cedilla @ a_tilde @ ''o da interface rejeitada pela API.''
      else ''Solicita'' @ c_cedilla @ a_tilde @ ''o da interface processada pela API: '' @ operation @ ''.'')"

definition administrative_entry :: "WebEnv \<Rightarrow> string \<Rightarrow> string \<Rightarrow> int \<Rightarrow> details \<Rightarrow> CommunicationLog" where
  "administrative_entry env deviceID operation status ds = \<lparr>cl_ID = 0, cl_DeviceID = deviceID,
     cl_Source = ''interface'', cl_Target = ''api'', cl_Operation = operation,
     cl_Result = communicationResultForStatus status, cl_HTTPStatus = status,
     cl_DurationMS = elapsedMilliseconds env, cl_Summary = administrativeCommunicationSummary operation status,
     cl_Details = ds, cl_CreatedAt = zero_time\<rparr>"

definition merge_details :: "details \<Rightarrow> details \<Rightarrow> details" where
  "merge_details base extra = fold (\<lambda>(k, v). set_detail k v) extra base"

definition logAdministrativeCommunication :: "App \<Rightarrow> WebEnv \<Rightarrow> Request \<Rightarrow> Response web \<Rightarrow> Response web" where
  "logAdministrativeCommunication app env rq handler =
     (case administrativeCommunication rq of None \<Rightarrow> handler
      | Some (deviceID, operation, route) \<Rightarrow>
          andThen (start_details []) (\<lambda>_.
          andThen (\<lambda>w. case answered handler w of (response, w') \<Rightarrow> (Inr response, w')) (\<lambda>response.
          andThen (reads (\<lambda>w. case ww_details w of None \<Rightarrow> [] | Some ds \<Rightarrow> ds)) (\<lambda>extra.
          andThen (record_communication app env CallLog ClockLog (administrative_entry env deviceID operation (rs_status response)
            (merge_details [(''correlation_id'', correlation_id env), (''method'', rq_method rq), (''route'', route)] extra))) (\<lambda>_.
          andThen (if rq_method rq \<noteq> ''GET'' \<and> 200 \<le> rs_status response \<and> rs_status response < 300
                   then publishActivitiesChanged deviceID else ret ()) (\<lambda>_.
          andThen end_details (\<lambda>_.
          ret (with_correlation env response))))))))"

section \<open>Dispatch\<close>

definition health :: "Request \<Rightarrow> Response web" where
  "health rq = (if rq_method rq \<noteq> ''GET'' then throw (methodNotAllowed ''GET'') else ret (writeJSON 200 HealthBody))"

text \<open>\<open>http.ServeMux\<close> redirects paths with empty, \<open>.\<close> or \<open>..\<close> segments to their clean form.\<close>

definition clean_path :: "string \<Rightarrow> bool" where
  "clean_path path \<longleftrightarrow> (case split_on (CHR ''/'') path of
     [] # segments \<Rightarrow> segments \<noteq> [] \<and> list_all (\<lambda>s. s \<noteq> []) (butlast segments)
       \<and> list_all (\<lambda>s. s \<noteq> ''.'' \<and> s \<noteq> ''..'') segments
     | _ \<Rightarrow> False)"

definition redirect :: Response where
  "redirect = \<lparr>rs_status = 301, rs_headers = [], rs_cookies = [], rs_body = RedirectBody\<rparr>"

definition unknown_page :: Response where
  "unknown_page = \<lparr>rs_status = 404, rs_headers = [], rs_cookies = [], rs_body = UnknownPageBody\<rparr>"

definition dispatch :: "App \<Rightarrow> WebEnv \<Rightarrow> Request \<Rightarrow> Response web" where
  "dispatch app env rq =
     (let path = rq_path rq in
      if \<not> clean_path path then ret redirect
      else if path = ''/healthz'' then health rq
      else if path = HeartbeatPath then heartbeat app env rq
      else if path = ''/api/v1/admin/session'' then adminSessionAPI app env rq
      else if path = ''/api/v1/admin/setup'' then adminSetupAPI app env rq
      else if path = ''/api/v1/admin/devices'' then adminDevicesAPI app env rq
      else if has_prefix devices_prefix path then adminDeviceAPI app env rq
      else ret unknown_page)"

definition ServeHTTP :: "App \<Rightarrow> WebEnv \<Rightarrow> Request \<Rightarrow> WebWorld \<Rightarrow> Response \<times> WebWorld" where
  "ServeHTTP app env rq = answered (corsHeaders app rq (\<lambda>w.
     case answered (logAdministrativeCommunication app env rq (dispatch app env rq)) w of
       (r, w') \<Rightarrow> (Inr (securityHeaders (ap_secureCookies app) r), w')))"

end
