(* ===== verification/WebWorlds.thy ===== *)
theory WebWorlds
  imports WebServer
begin

text \<open>
  What every request keeps of the state of the server. The parts of the state change in a few
  ways only; an invariant that each of these keeps is kept by every request. This is the interface
  between the handlers and what they share - database, log, sessions and hub.
\<close>

definition maintains :: "('w \<Rightarrow> bool) \<Rightarrow> ('w, 'e, 'a) act \<Rightarrow> bool" where
  "maintains P m \<longleftrightarrow> (\<forall>w. P w \<longrightarrow> P (snd (m w)))"

named_theorems maintains_intros \<open>actions that maintain an invariant\<close>

lemma maintainsD: "maintains P m \<Longrightarrow> P w \<Longrightarrow> m w = (r, w') \<Longrightarrow> P w'"
  unfolding maintains_def by (metis snd_conv)

lemma maintainsI: "(\<And>w r w'. P w \<Longrightarrow> m w = (r, w') \<Longrightarrow> P w') \<Longrightarrow> maintains P m"
  unfolding maintains_def by (metis prod.collapse)

lemma maintains_elementary [maintains_intros]:
  "maintains P (ret a)" "maintains P (throw e)" "maintains P (reads g)" "maintains P (returned r)"
  "maintains P (fails_if c e)"
  by (simp_all add: maintains_def run_simps)

lemma maintains_andThen [maintains_intros]:
  "maintains P m \<Longrightarrow> (\<And>a. maintains P (k a)) \<Longrightarrow> maintains P (andThen m k)"
proof (rule maintainsI)
  fix w r w' assume m: "maintains P m" and k: "\<And>a. maintains P (k a)" and P: "P w" and run: "andThen m k w = (r, w')"
  from run show "P w'"
  proof (cases rule: andThen_cases)
    case (failed e)
    with maintainsD [OF m P] show ?thesis by simp
  next
    case (went_on a w1)
    with maintainsD [OF k maintainsD [OF m P]] show ?thesis by blast
  qed
qed

lemma maintains_modify: "(\<And>w. P w \<Longrightarrow> P (g w)) \<Longrightarrow> maintains P (modify g)"
  by (simp add: maintains_def run_simps)

lemma maintains_if [maintains_intros]: "maintains P m \<Longrightarrow> maintains P k \<Longrightarrow> maintains P (if c then m else k)"
  by simp

lemma maintains_option [maintains_intros]:
  "maintains P m \<Longrightarrow> (\<And>x. maintains P (k x)) \<Longrightarrow> maintains P (case v of None \<Rightarrow> m | Some x \<Rightarrow> k x)"
  by (simp split: option.split)

lemma maintains_sum [maintains_intros]:
  "(\<And>x. maintains P (m x)) \<Longrightarrow> (\<And>x. maintains P (k x)) \<Longrightarrow> maintains P (case v of Inl x \<Rightarrow> m x | Inr x \<Rightarrow> k x)"
  by (simp split: sum.split)

lemma maintains_list [maintains_intros]:
  "maintains P m \<Longrightarrow> (\<And>x xs. maintains P (k x xs)) \<Longrightarrow> maintains P (case v of [] \<Rightarrow> m | x # xs \<Rightarrow> k x xs)"
  by (simp split: list.split)

lemma maintains_prod [maintains_intros]: "(\<And>x y. maintains P (k x y)) \<Longrightarrow> maintains P (case v of (x, y) \<Rightarrow> k x y)"
  by (simp split: prod.split)

lemma maintains_Let [maintains_intros]: "(\<And>x. maintains P (k x)) \<Longrightarrow> maintains P (let x = v in k x)"
  by (simp add: Let_def)

lemma maintains_answered [maintains_intros]:
  "maintains P m \<Longrightarrow> maintains P (\<lambda>w. case answered m w of (r, w') \<Rightarrow> (Inr (f r), w'))"
  by (auto simp: maintains_def answered_def split: prod.split sum.split)

section \<open>The interface\<close>

locale world_invariant =
  fixes P :: "WebWorld \<Rightarrow> bool" and E :: "WebEnv \<Rightarrow> bool"
  assumes database: "P w \<Longrightarrow> P (w\<lparr>ww_db := db', ww_log := cascade_log (\<lambda>d. has_device d db') (ww_log w)\<rparr>)"
    and details: "P w \<Longrightarrow> P (w\<lparr>ww_details := ds\<rparr>)"
    and published: "P w \<Longrightarrow> P (w\<lparr>ww_hub := hub_publish d e (ww_hub w)\<rparr>)"
    and subscribed: "P w \<Longrightarrow> P (w\<lparr>ww_hub := snd (hub_subscribe d (ww_hub w))\<rparr>)"
    and appended: "P w \<Longrightarrow> AppendCommunicationLog loc served (\<lambda>d. has_device d (ww_db w)) entry now (ww_log w) = (r, log')
      \<Longrightarrow> P (w\<lparr>ww_log := log'\<rparr>)"
    and emptied: "P w \<Longrightarrow> DeleteCommunicationLogs served (\<lambda>d. has_device d (ww_db w)) d (ww_log w) = (r', log')
      \<Longrightarrow> P (w\<lparr>ww_log := log'\<rparr>)"
    and retained: "P w \<Longrightarrow> SetCommunicationRetentionDays loc served days now (ww_log w) = (r'', log')
      \<Longrightarrow> P (w\<lparr>ww_log := log'\<rparr>)"
    and looked_up: "P w \<Longrightarrow> P (w\<lparr>ww_sessions := snd (session_get token now (ww_sessions w))\<rparr>)"
    and ended: "P w \<Longrightarrow> P (w\<lparr>ww_sessions := session_delete token (ww_sessions w)\<rparr>)"
    and logged_in: "P w \<Longrightarrow> E env \<Longrightarrow> session_create lifetime a l (wv_token env TokenSession) (wv_token env TokenCSRF) now
        (ww_sessions w) = (x, values) \<Longrightarrow> P (w\<lparr>ww_sessions := values\<rparr>)"
begin

lemma attempt: "maintains P (attempt m)"
  by (rule maintainsI) (auto simp: attempt_def intro: database split: prod.splits)

lemma on_store: "maintains P (on_store answer m)"
  unfolding on_store_def by (intro maintains_intros attempt)

lemma details_kept:
  "maintains P (addCommunicationDetail key v)" "maintains P (start_details ds)" "maintains P end_details"
  unfolding addCommunicationDetail_def start_details_def end_details_def by (rule maintains_modify, erule details)+

lemma add_details_kept: "maintains P (add_details ds)"
  by (induction ds rule: add_details.induct) (auto intro!: maintains_intros details_kept)

lemma hub_event_kept: "maintains P (hub_event d e)"
  unfolding hub_event_def by (rule maintains_modify) (erule published)

lemma if_subscribed_kept: "maintains P m \<Longrightarrow> maintains P (if_subscribed d m)"
  unfolding if_subscribed_def by (intro maintains_intros)

lemmas parts = maintains_intros attempt on_store details_kept add_details_kept hub_event_kept if_subscribed_kept

lemma publish_kept:
  "maintains P (publishDeviceStatus app env d name)" "maintains P (publishCommunicationLog d entry)"
  "maintains P (publishActivity activity)" "maintains P (publishActivitiesChanged d)"
  unfolding publishDeviceStatus_def publishCommunicationLog_def publishActivity_def publishActivitiesChanged_def
  by (intro parts)+

lemma publish_activity_kept: "maintains P (publishDeviceActivity env n d i)"
  unfolding publishDeviceActivity_def by (intro parts publish_kept)

lemma publish_activities_kept: "maintains P (publish_activities env n d is)"
  by (induction "is" arbitrary: n) (auto intro!: parts publish_activity_kept)

lemma log_kept:
  "maintains P (attempt_log (\<lambda>known. AppendCommunicationLog loc served known entry now))"
  "maintains P (attempt_log (\<lambda>known. DeleteCommunicationLogs served known d))"
  "maintains P (attempt_log (\<lambda>_. SetCommunicationRetentionDays loc served days now))"
  "maintains P (attempt_log (\<lambda>known. log_query served (q known)))"
     apply (rule maintainsI, auto simp: attempt_log_def intro: appended split: prod.splits)
    apply (rule maintainsI, auto simp: attempt_log_def intro: emptied split: prod.splits)
   apply (rule maintainsI, auto simp: attempt_log_def intro: retained split: prod.splits)
  apply (rule maintainsI, simp add: attempt_log_def log_query_def)
  done

lemma on_log_kept: "maintains P (attempt_log m) \<Longrightarrow> maintains P (on_log answer m)"
  unfolding on_log_def by (intro maintains_intros)

lemma record_kept: "maintains P (record_communication app env call clock entry)"
  unfolding record_communication_def by (intro parts log_kept publish_kept)

lemma bodies_kept:
  "maintains P (body_or response decoded)" "maintains P (query_number name usual least greatest message rq)"
  "maintains P (requireAdminCSRF rq current)"
  unfolding body_or_def query_number_def Let_def requireAdminCSRF_def by (intro parts)+

lemma authenticated_kept: "maintains P (authenticated env rq)"
  using looked_up
  by (auto simp: maintains_def authenticated_def run_simps split: option.splits prod.splits) (metis snd_conv)

lemma session_kept: "maintains P (requireAdminAPISession env rq)"
  unfolding requireAdminAPISession_def by (intro parts authenticated_kept)

lemma start_session_kept: "E env \<Longrightarrow> maintains P (start_session app env failure status admin)"
  by (rule maintainsI) (auto simp: start_session_def intro: logged_in split: option.splits prod.splits)

lemmas pieces = parts publish_kept publish_activity_kept publish_activities_kept log_kept on_log_kept record_kept
  bodies_kept session_kept authenticated_kept

lemma session_handler: "E env \<Longrightarrow> maintains P (adminSessionAPI app env rq)"
  unfolding adminSessionAPI_def by (intro pieces start_session_kept maintains_modify ended)

lemma setup_handler: "E env \<Longrightarrow> maintains P (adminSetupAPI app env rq)"
  unfolding adminSetupAPI_def by (intro pieces start_session_kept)

lemma devices_handler: "maintains P (adminDevicesAPI app env rq)"
  unfolding adminDevicesAPI_def by (intro pieces)

lemma stream_handler: "maintains P (open_stream app env rq d)"
  unfolding open_stream_def load_status_def
  by (intro pieces) (use subscribed in \<open>auto simp: maintains_def hub_subscribe_def split: prod.splits\<close>)

lemma resource_handler: "maintains P (device_resource app env rq current d resource rest)"
  unfolding device_resource_def adminDeviceStatusAPI_def adminDevicePolicyAPI_def adminDeviceRoutinesAPI_def
    adminDevicePasswordAPI_def adminDeviceTokenAPI_def adminDeviceBonusAPI_def adminDeviceBonusStatusAPI_def
    adminDeviceCommandAPI_def adminDeviceEventsAPI_def adminDeviceActivitiesAPI_def adminDeviceCommunicationAPI_def
    adminCommunicationSettingsAPI_def communicationQuery_def load_status_def
  by (intro stream_handler pieces)

lemma device_handler: "maintains P (adminDeviceAPI app env rq)"
  unfolding adminDeviceAPI_def adminDeviceRootAPI_def load_status_def by (intro resource_handler pieces)

lemma heartbeat_handler: "maintains P (heartbeat app env rq)"
  unfolding heartbeat_def handleHeartbeat_def receive_heartbeat_def answer_heartbeat_def reject_heartbeat_def log_heartbeat_def authenticate_device_def check_version_def
  by (intro pieces)

lemma dispatch_kept: "E env \<Longrightarrow> maintains P (dispatch app env rq)"
  unfolding dispatch_def health_def
  by (intro session_handler setup_handler devices_handler device_handler heartbeat_handler pieces)

lemma served: "E env \<Longrightarrow> P w \<Longrightarrow> P (snd (ServeHTTP app env rq w))"
proof -
  assume env: "E env" and P: "P w"
  have logged: "maintains P (logAdministrativeCommunication app env rq (dispatch app env rq))"
    unfolding logAdministrativeCommunication_def by (intro pieces dispatch_kept env)
  have "maintains P (corsHeaders app rq (\<lambda>w. case answered (logAdministrativeCommunication app env rq (dispatch app env rq)) w of
      (r, w') \<Rightarrow> (Inr (securityHeaders (ap_secureCookies app) r), w')))"
    unfolding corsHeaders_def by (intro pieces logged)
  with P show ?thesis
    by (auto simp: ServeHTTP_def maintains_def answered_def split: prod.split sum.split)
qed

end

section \<open>Log and hub\<close>

text \<open>The log is well formed, its devices exist, and the hub's channels are distinct and not overfull.\<close>

definition world_ok :: "WebWorld \<Rightarrow> bool" where
  "world_ok w \<longleftrightarrow> log_ok (ww_log w) \<and> (\<forall>r\<in>set (lg_rows (ww_log w)). has_device (cl_DeviceID r) (ww_db w)) \<and> hub_ok (ww_hub w)"

lemma log_rows_cascade: "lg_rows (cascade_log known log) = filter (\<lambda>r. known (cl_DeviceID r)) (lg_rows log)"
  by (simp add: cascade_log_def)

lemma log_rows_cleanup:
  "cleanupCommunicationLogsIfDue loc now log = (Inr (), log') \<Longrightarrow> set (lg_rows log') \<subseteq> set (lg_rows log)"
  by (auto simp: cleanupCommunicationLogsIfDue_def run_simps drop_older_def tbl_delete_def split: if_splits)

lemma log_rows_append:
  assumes "AppendCommunicationLog loc served known entry now log = (r, log')" and "x \<in> set (lg_rows log')"
  shows "x \<in> set (lg_rows log) \<or> known (cl_DeviceID x)"
proof (cases r)
  case (Inl e)
  with assms show ?thesis
    by (auto simp: AppendCommunicationLog_def transaction_def run_simps split: option.splits if_splits prod.splits sum.splits)
next
  case (Inr stored)
  from assms(1) [unfolded this] obtain log1 where "cleanupCommunicationLogsIfDue loc now log = (Inr (), log1)"
    "known (cl_DeviceID entry)" "stored = entry\<lparr>cl_ID := lg_last log1 + 1, cl_CreatedAt := now\<rparr>"
    "log' = log1\<lparr>lg_rows := lg_rows log1 @ [stored], lg_last := cl_ID stored\<rparr>" by (rule append_log_Inr)
  with assms(2) log_rows_cleanup show ?thesis by fastforce
qed

lemma log_rows_delete:
  "DeleteCommunicationLogs served known d log = (r, log') \<Longrightarrow> set (lg_rows log') \<subseteq> set (lg_rows log)"
  by (auto simp: DeleteCommunicationLogs_def andThen_def run_simps tbl_delete_def split: if_splits)

lemma log_rows_retention:
  "SetCommunicationRetentionDays loc served days now log = (r, log') \<Longrightarrow> set (lg_rows log') \<subseteq> set (lg_rows log)"
  by (auto simp: SetCommunicationRetentionDays_def transaction_def andThen_def run_simps drop_older_def tbl_delete_def
      split: if_splits)

interpretation sound: world_invariant world_ok "\<lambda>_. True"
proof unfold_locales
  show "world_ok w \<Longrightarrow> world_ok (w\<lparr>ww_db := db', ww_log := cascade_log (\<lambda>d. has_device d db') (ww_log w)\<rparr>)" for w db'
    by (simp add: world_ok_def log_ok_cascade log_rows_cascade)
  show "world_ok w \<Longrightarrow> world_ok (w\<lparr>ww_hub := hub_publish d e (ww_hub w)\<rparr>)" for w d e
    using hub_step_ok [of "ww_hub w" "Publish d e"] by (simp add: world_ok_def)
  show "world_ok w \<Longrightarrow> world_ok (w\<lparr>ww_hub := snd (hub_subscribe d (ww_hub w))\<rparr>)" for w d
    using hub_step_ok [of "ww_hub w" "Subscribe d"] by (simp add: world_ok_def)
  show "world_ok w \<Longrightarrow> AppendCommunicationLog loc served (\<lambda>d. has_device d (ww_db w)) entry now (ww_log w) = (r, log')
      \<Longrightarrow> world_ok (w\<lparr>ww_log := log'\<rparr>)" for w loc served entry now r log'
    by (auto simp: world_ok_def log_ok_append dest: log_rows_append)
  show "world_ok w \<Longrightarrow> DeleteCommunicationLogs served (\<lambda>d. has_device d (ww_db w)) d (ww_log w) = (r, log')
      \<Longrightarrow> world_ok (w\<lparr>ww_log := log'\<rparr>)" for w served d r log'
    by (auto simp: world_ok_def log_ok_delete dest: log_rows_delete)
  show "world_ok w \<Longrightarrow> SetCommunicationRetentionDays loc served days now (ww_log w) = (r, log')
      \<Longrightarrow> world_ok (w\<lparr>ww_log := log'\<rparr>)" for w loc served days now r log'
    by (auto simp: world_ok_def log_ok_retention dest: log_rows_retention)
qed (simp_all add: world_ok_def)

end
