(* ===== verification/WebFacts.thy ===== *)
theory WebFacts
  imports WebServer
begin

text \<open>
  How a request changes the database. A handler calls at most one operation of the storage that
  writes: \<open>once A m\<close> says that \<open>m\<close> leaves the database as it is or changes it once, by \<open>A\<close>. The
  rules follow the way handlers are put together.
\<close>

section \<open>One change at most\<close>

definition once :: "(ServerDb \<Rightarrow> ServerDb \<Rightarrow> bool) \<Rightarrow> 'a web \<Rightarrow> bool" where
  "once A m \<longleftrightarrow> (\<forall>w. ww_db (snd (m w)) = ww_db w \<or> A (ww_db w) (ww_db (snd (m w))))"

lemma onceD: "once A m \<Longrightarrow> m w = (r, w') \<Longrightarrow> ww_db w' = ww_db w \<or> A (ww_db w) (ww_db w')"
  unfolding once_def by (metis snd_conv)

lemma onceI: "(\<And>w r w'. m w = (r, w') \<Longrightarrow> ww_db w' = ww_db w \<or> A (ww_db w) (ww_db w')) \<Longrightarrow> once A m"
  unfolding once_def by (metis prod.collapse)

lemma once_keeps: "keeps ww_db m \<Longrightarrow> once A m"
  by (simp add: once_def keeps_def)

lemma once_first:
  assumes "keeps ww_db m" and "\<And>a. once A (k a)"
  shows "once A (andThen m k)"
proof (rule onceI)
  fix w r w' assume "andThen m k w = (r, w')"
  then show "ww_db w' = ww_db w \<or> A (ww_db w) (ww_db w')"
  proof (cases rule: andThen_cases)
    case (went_on a w1)
    with keepsD [OF assms(1) went_on(1)] onceD [OF assms(2) went_on(2)] show ?thesis by simp
  qed (simp add: keepsD [OF assms(1)])
qed

lemma once_last:
  assumes "once A m" and "\<And>a. keeps ww_db (k a)"
  shows "once A (andThen m k)"
proof (rule onceI)
  fix w r w' assume "andThen m k w = (r, w')"
  then show "ww_db w' = ww_db w \<or> A (ww_db w) (ww_db w')"
  proof (cases rule: andThen_cases)
    case (went_on a w1)
    with onceD [OF assms(1) went_on(1)] keepsD [OF assms(2) went_on(2)] show ?thesis by simp
  qed (rule onceD [OF assms(1)])
qed

named_theorems once_intros \<open>handlers that change the database at most once\<close>

lemma once_throw [once_intros]: "once A (throw e)"
  by (intro once_keeps keeps_intros)

lemma once_ret [once_intros]: "once A (ret a)"
  by (intro once_keeps keeps_intros)

lemma once_if [once_intros]: "(c \<Longrightarrow> once A m) \<Longrightarrow> (\<not> c \<Longrightarrow> once A k) \<Longrightarrow> once A (if c then m else k)"
  by simp

lemma once_Let [once_intros]: "once A (k v) \<Longrightarrow> once A (let x = v in k x)"
  by (simp add: Let_def)

lemma once_option [once_intros]:
  "(v = None \<Longrightarrow> once A m) \<Longrightarrow> (\<And>x. v = Some x \<Longrightarrow> once A (k x)) \<Longrightarrow> once A (case v of None \<Rightarrow> m | Some x \<Rightarrow> k x)"
  by (simp split: option.split)

lemma once_prod [once_intros]: "(\<And>x y. v = (x, y) \<Longrightarrow> once A (k x y)) \<Longrightarrow> once A (case v of (x, y) \<Rightarrow> k x y)"
  by (simp split: prod.split)

lemma once_list [once_intros]:
  "(v = [] \<Longrightarrow> once A m) \<Longrightarrow> (\<And>x xs. v = x # xs \<Longrightarrow> once A (k x xs)) \<Longrightarrow> once A (case v of [] \<Rightarrow> m | x # xs \<Rightarrow> k x xs)"
  by (simp split: list.split)

lemma once_guard [once_intros]: "(\<not> c \<Longrightarrow> once A m) \<Longrightarrow> once A (andThen (fails_if c e) (\<lambda>_. m))"
  by (simp add: once_def andThen_def run_simps)

lemma once_csrf [once_intros]:
  "(first_value csrfHeaderName (rq_headers rq) = ss_CSRF current \<Longrightarrow> once A m) \<Longrightarrow>
     once A (andThen (requireAdminCSRF rq current) (\<lambda>_. m))"
  unfolding requireAdminCSRF_def by (rule once_guard) simp

lemma once_attempt: "(\<And>db r db'. m db = (r, db') \<Longrightarrow> A db db') \<Longrightarrow> once A (attempt m)"
  by (auto simp: once_def attempt_def split: prod.splits)

lemma once_on_store: "(\<And>db r db'. m db = (r, db') \<Longrightarrow> A db db') \<Longrightarrow> once A (on_store answer m)"
  unfolding on_store_def by (intro once_last once_attempt keeps_intros)

text \<open>The call that writes, and what follows it.\<close>

lemma once_call:
  "(\<And>db r db'. m db = (r, db') \<Longrightarrow> A db db') \<Longrightarrow> (\<And>a. keeps ww_db (k a)) \<Longrightarrow> once A (andThen (on_store answer m) k)"
  by (intro once_last once_on_store)

section \<open>What leaves the database alone\<close>

lemma keeps_list [keeps_intros]:
  "keeps f m \<Longrightarrow> (\<And>x xs. keeps f (k x xs)) \<Longrightarrow> keeps f (case v of [] \<Rightarrow> m | x # xs \<Rightarrow> k x xs)"
  by (simp split: list.split)

lemma keeps_db_attempt: "(\<And>db r db'. m db = (r, db') \<Longrightarrow> db' = db) \<Longrightarrow> keeps ww_db (attempt m)"
  by (rule keepsI) (auto simp: attempt_def split: prod.splits)

lemma querying_same: "querying served q db = (r, db') \<Longrightarrow> db' = db"
  by (simp add: querying_def)

lemma keeps_db_query [keeps_intros]: "keeps ww_db (attempt (querying served q))"
  by (rule keeps_db_attempt) (rule querying_same)

lemma keeps_db_status [keeps_intros]: "keeps ww_db (attempt (loadDeviceLiveStatus loc timeout served d now))"
  by (rule keeps_db_attempt) (rule loadDeviceLiveStatus_same)

lemma keeps_db_on_store [keeps_intros]: "keeps ww_db (attempt m) \<Longrightarrow> keeps ww_db (on_store answer m)"
  unfolding on_store_def by (intro keeps_intros)

lemma keeps_db_log [keeps_intros]: "keeps ww_db (attempt_log m)" "keeps ww_db (on_log answer m)"
proof -
  show log: "keeps ww_db (attempt_log n)" for n :: "(string \<Rightarrow> bool) \<Rightarrow> 'b lact"
    by (rule keepsI) (auto simp: attempt_log_def split: prod.splits)
  show "keeps ww_db (on_log answer m)" unfolding on_log_def by (intro keeps_intros log)
qed

lemma keeps_db_details [keeps_intros]:
  "keeps ww_db (addCommunicationDetail key v)" "keeps ww_db (start_details ds)" "keeps ww_db end_details"
  unfolding addCommunicationDetail_def start_details_def end_details_def by (rule keeps_modify; simp)+

lemma keeps_db_add_details [keeps_intros]: "keeps ww_db (add_details ds)"
  by (induction ds rule: add_details.induct) (auto intro!: keeps_intros)

lemma keeps_db_hub [keeps_intros]: "keeps ww_db (hub_event d e)"
  unfolding hub_event_def by (rule keeps_modify) simp

lemma keeps_db_if_subscribed [keeps_intros]: "keeps ww_db m \<Longrightarrow> keeps ww_db (if_subscribed d m)"
  unfolding if_subscribed_def by (intro keeps_intros)

lemma keeps_db_publish [keeps_intros]:
  "keeps ww_db (publishDeviceStatus app env d name)" "keeps ww_db (publishCommunicationLog d entry)"
  "keeps ww_db (publishActivity activity)" "keeps ww_db (publishDeviceActivity env n d i)"
  "keeps ww_db (publishActivitiesChanged d)"
  unfolding publishDeviceStatus_def publishCommunicationLog_def publishActivity_def publishDeviceActivity_def
    publishActivitiesChanged_def by (intro keeps_intros)+

lemma keeps_db_activities [keeps_intros]: "keeps ww_db (publish_activities env n d is)"
  by (induction "is" arbitrary: n) (auto intro!: keeps_intros)

lemma keeps_db_record [keeps_intros]: "keeps ww_db (record_communication app env call clock entry)"
  unfolding record_communication_def by (intro keeps_intros)

lemma keeps_db_bodies [keeps_intros]:
  "keeps ww_db (body_or response decoded)" "keeps ww_db (query_number name usual least greatest message rq)"
  unfolding body_or_def query_number_def Let_def by (intro keeps_intros)+

lemma keeps_db_sessions [keeps_intros]:
  "keeps ww_db (authenticated env rq)" "keeps ww_db (requireAdminAPISession env rq)"
  "keeps ww_db (start_session app env failure status admin)"
proof -
  show auth: "keeps ww_db (authenticated env rq)"
    by (rule keepsI) (auto simp: authenticated_def run_simps split: option.splits prod.splits)
  show "keeps ww_db (requireAdminAPISession env rq)"
    unfolding requireAdminAPISession_def by (intro keeps_intros auth)
  show "keeps ww_db (start_session app env failure status admin)"
    by (rule keepsI) (auto simp: start_session_def split: option.splits prod.splits)
qed

text \<open>What was read of the request is known from there on.\<close>

lemma once_body [once_intros]:
  "(\<And>a. decoded = Some a \<Longrightarrow> once A (k a)) \<Longrightarrow> once A (andThen (body_or response decoded) k)"
  by (cases decoded) (auto simp: body_or_def once_def andThen_def run_simps)

lemma once_hash [once_intros]:
  "(\<And>v. h = Inr v \<Longrightarrow> once A (k v)) \<Longrightarrow>
     once A (andThen (case h of Inl e \<Rightarrow> throw response | Inr v \<Rightarrow> ret v) k)"
  by (cases h) (auto simp: once_def andThen_def run_simps)

lemma once_number [once_intros]:
  "(\<And>a. once A (k a)) \<Longrightarrow> once A (andThen (query_number name usual least greatest message rq) k)"
  by (rule once_first) (intro keeps_intros)

end
