(* ===== verification/WebChanges.thy ===== *)
theory WebChanges
  imports WebFacts
begin

text \<open>
  Who can change the database of the server: administrators with a live session and its CSRF
  token, devices with their token, and whoever sets up a server that has no administrator.
\<close>

section \<open>The changes administrators make\<close>

text \<open>What a request with the path \<open>p\<close> below device \<open>d\<close> asks for: the operation of the storage,
  with the arguments that the request carries.\<close>

inductive device_change ::
    "App \<Rightarrow> WebEnv \<Rightarrow> Request \<Rightarrow> string \<Rightarrow> string list \<Rightarrow> ServerDb \<Rightarrow> ServerDb \<Rightarrow> bool" for app env rq d where
  rename: "rq_method rq = ''PATCH'' \<Longrightarrow> decode_device rq = Some (name, []) \<Longrightarrow>
    RenameDevice (store_env app env CallOperation) d name (wv_now env ClockOperation) db = (r, db')
    \<Longrightarrow> device_change app env rq d [] db db'"
| identity: "rq_method rq = ''PATCH'' \<Longrightarrow> decode_device rq = Some (name, avatar) \<Longrightarrow> avatar \<noteq> [] \<Longrightarrow>
    UpdateDeviceIdentity (store_env app env CallOperation) d name avatar (wv_now env ClockOperation) db = (r, db')
    \<Longrightarrow> device_change app env rq d [] db db'"
| delete: "rq_method rq = ''DELETE'' \<Longrightarrow> DeleteDevice (wv_served env CallOperation) d db = (r, db')
    \<Longrightarrow> device_change app env rq d [] db db'"
| quotas: "rq_method rq = ''PUT'' \<Longrightarrow> decode_policy rq = Some (quotas, warning) \<Longrightarrow>
    SaveQuotas (store_env app env CallOperation) d quotas warning (wv_now env ClockOperation) db = (r, db')
    \<Longrightarrow> device_change app env rq d [''policy''] db db'"
| new_routine: "rq_method rq = ''POST'' \<Longrightarrow> decode_routine [] rq = Some routine' \<Longrightarrow>
    SaveRoutine (store_env app env CallOperation) d routine' (wv_now env ClockOperation) db = (r2, db')
    \<Longrightarrow> device_change app env rq d [''routines''] db db'"
| save_routine: "rq_method rq = ''PUT'' \<Longrightarrow> rid \<noteq> [] \<Longrightarrow> decode_routine rid rq = Some routine' \<Longrightarrow>
    SaveRoutine (store_env app env CallOperation) d routine' (wv_now env ClockOperation) db = (r2, db')
    \<Longrightarrow> device_change app env rq d [''routines'', rid] db db'"
| delete_routine: "rq_method rq = ''DELETE'' \<Longrightarrow> rid \<noteq> [] \<Longrightarrow>
    DeleteRoutine (store_env app env CallOperation) d rid (wv_now env ClockOperation) db = (r, db')
    \<Longrightarrow> device_change app env rq d [''routines'', rid] db db'"
| password: "rq_method rq = ''PUT'' \<Longrightarrow> decode_password rq = Some (password, password) \<Longrightarrow> password \<noteq> [] \<Longrightarrow>
    HashPassword (ap_argon2 app) (wv_salt env) password DefaultArgon2Params = Inr verifier \<Longrightarrow>
    SetLocalPassword (store_env app env CallOperation) d verifier (wv_now env ClockOperation) db = (r, db')
    \<Longrightarrow> device_change app env rq d [''password''] db db'"
| issue: "rq_method rq = ''POST'' \<Longrightarrow>
    IssueDeviceToken (store_env app env CallOperation) (ap_sha256 app) (wv_token env TokenDevice) d
      (wv_now env ClockOperation) db = (r2, db') \<Longrightarrow> device_change app env rq d [''token''] db db'"
| revoke: "rq_method rq = ''DELETE'' \<Longrightarrow>
    RevokeDeviceToken (store_env app env CallOperation) d (wv_now env ClockOperation) db = (r, db')
    \<Longrightarrow> device_change app env rq d [''token''] db db'"
| extra: "rq_method rq = ''POST'' \<Longrightarrow> decode_bonus rq = Some minutes \<Longrightarrow> 0 < minutes \<Longrightarrow> minutes \<le> 720 \<Longrightarrow>
    QueueRemoteBonus (store_env app env CallOperation) d (minutes * 60) (wv_now env ClockOperation) db = (r2, db')
    \<Longrightarrow> device_change app env rq d [''bonus''] db db'"
| command: "rq_method rq = ''POST'' \<Longrightarrow> decode_command rq = Some kind \<Longrightarrow>
    QueueControlOperation (store_env app env CallOperation) d kind (wv_now env ClockOperation) db = (r2, db')
    \<Longrightarrow> device_change app env rq d [''commands''] db db'"
| hide: "rq_method rq = ''DELETE'' \<Longrightarrow>
    DeleteCompletedDeviceActivities (wv_served env CallOperation) d (wv_now env ClockOperation) db = (r3, db')
    \<Longrightarrow> device_change app env rq d [''activities'', ''completed''] db db'"

text \<open>Reading the history first removes what has expired; that needs no CSRF token.\<close>

definition history_cleaned :: "WebEnv \<Rightarrow> ServerDb \<Rightarrow> ServerDb \<Rightarrow> bool" where
  "history_cleaned env db db' \<longleftrightarrow>
     db' = snd (CleanupExpiredCompletedActivities (wv_served env CallOperation) (wv_now env ClockOperation) db)"

definition csrf_matches :: "Request \<Rightarrow> session \<Rightarrow> bool" where
  "csrf_matches rq current \<longleftrightarrow> first_value ''X-CSRF-Token'' (rq_headers rq) = ss_CSRF current"

definition resource_change ::
    "App \<Rightarrow> WebEnv \<Rightarrow> Request \<Rightarrow> session \<Rightarrow> string \<Rightarrow> string list \<Rightarrow> ServerDb \<Rightarrow> ServerDb \<Rightarrow> bool" where
  "resource_change app env rq current d p db db' \<longleftrightarrow>
     (csrf_matches rq current \<and> device_change app env rq d p db db')
   \<or> (rq_method rq = ''GET'' \<and> p = [''activities''] \<and> history_cleaned env db db')"

lemma resource_changeI:
  "first_value csrfHeaderName (rq_headers rq) = ss_CSRF current \<Longrightarrow> device_change app env rq d p db db' \<Longrightarrow>
     resource_change app env rq current d p db db'"
  by (simp add: resource_change_def csrf_matches_def csrfHeaderName_def)

lemma resource_cleaned:
  "CleanupExpiredCompletedActivities (wv_served env CallOperation) (wv_now env ClockOperation) db = (r, db') \<Longrightarrow>
     rq_method rq = ''GET'' \<Longrightarrow> resource_change app env rq current d [''activities''] db db'"
  by (simp add: resource_change_def history_cleaned_def)

lemmas asked = resource_changeI device_change.intros

section \<open>The handlers of a device\<close>

lemma once_read_only:
  "once A (adminDeviceStatusAPI app env rq d)" "once A (adminDeviceBonusStatusAPI env rq d i)"
  "once A (adminDeviceEventsAPI env rq d)" "once A (adminDeviceCommunicationAPI app env rq current d parts)"
proof -
  show "once A (adminDeviceStatusAPI app env rq d)"
    unfolding adminDeviceStatusAPI_def load_status_def by (intro once_keeps keeps_intros)
  show "once A (adminDeviceBonusStatusAPI env rq d i)"
    unfolding adminDeviceBonusStatusAPI_def by (intro once_keeps keeps_intros)
  show "once A (adminDeviceEventsAPI env rq d)"
    unfolding adminDeviceEventsAPI_def by (intro once_keeps keeps_intros)
  show "once A (adminDeviceCommunicationAPI app env rq current d parts)"
    unfolding adminDeviceCommunicationAPI_def adminCommunicationSettingsAPI_def communicationQuery_def
      requireAdminCSRF_def Let_def
    by (intro once_keeps keeps_intros)
qed

lemma once_stream: "once A (open_stream app env rq d)"
proof -
  have "keeps ww_db (open_stream app env rq d)"
    unfolding open_stream_def load_status_def
    by (intro keeps_intros) (rule keepsI, auto split: prod.splits)
  then show ?thesis by (rule once_keeps)
qed

lemma once_root: "once (resource_change app env rq current d []) (adminDeviceRootAPI app env rq current d)"
proof -
  have "once A (andThen (load_status app env d) (\<lambda>(device, p, status).
        andThen (on_store adminReadError (querying (wv_served env CallFirst) (loadControl d))) (\<lambda>control.
        andThen (on_store (\<lambda>_. writeJSONError 500 ''could not load audit events'')
          (querying (wv_served env CallSecond) (\<lambda>db. Inr (ListAudit d 30 db)))) (\<lambda>events.
        ret (f device p status control events)))))" for A and f :: "_ \<Rightarrow> _ \<Rightarrow> _ \<Rightarrow> _ \<Rightarrow> _ \<Rightarrow> Response"
    unfolding load_status_def by (intro once_keeps keeps_intros)
  then show ?thesis unfolding adminDeviceRootAPI_def
    by (intro once_intros once_call keeps_intros) (auto intro!: resource_changeI split: if_splits intro: device_change.intros)
qed

lemma once_policy:
  "p = [''policy''] \<Longrightarrow> once (resource_change app env rq current d p) (adminDevicePolicyAPI app env rq current d)"
  unfolding adminDevicePolicyAPI_def by (intro once_intros once_call keeps_intros) (auto intro: asked)

lemma once_routines:
  "p = ''routines'' # parts \<Longrightarrow>
     once (resource_change app env rq current d p) (adminDeviceRoutinesAPI app env rq current d parts)"
  unfolding adminDeviceRoutinesAPI_def
  by (intro once_intros once_call keeps_intros)
    (auto intro!: resource_changeI intro: device_change.intros simp: not_less le_Suc_eq length_Suc_conv)

lemma once_password:
  "p = [''password''] \<Longrightarrow> once (resource_change app env rq current d p) (adminDevicePasswordAPI app env rq current d)"
  unfolding adminDevicePasswordAPI_def by (intro once_intros once_call keeps_intros) (auto intro: asked)

lemma once_token:
  "p = [''token''] \<Longrightarrow> once (resource_change app env rq current d p) (adminDeviceTokenAPI app env rq current d)"
  unfolding adminDeviceTokenAPI_def by (intro once_intros once_call keeps_intros) (auto intro: asked)

lemma once_bonus:
  "p = [''bonus''] \<Longrightarrow> once (resource_change app env rq current d p) (adminDeviceBonusAPI app env rq current d)"
  unfolding adminDeviceBonusAPI_def
  by (intro once_intros once_call keeps_intros) (auto intro: asked simp: not_le not_less)

lemma once_commands:
  "p = [''commands''] \<Longrightarrow> once (resource_change app env rq current d p) (adminDeviceCommandAPI app env rq current d)"
  unfolding adminDeviceCommandAPI_def by (intro once_intros once_call keeps_intros) (auto intro: asked)

lemma once_activities:
  "p = ''activities'' # parts \<Longrightarrow>
     once (resource_change app env rq current d p) (adminDeviceActivitiesAPI app env rq current d parts)"
proof -
  have one: "once A (andThen (on_store g (querying s q)) k)" if "\<And>a. keeps ww_db (k a)"
    for A g s and q :: "ServerDb \<Rightarrow> ServerError + DeviceActivity" and k :: "_ \<Rightarrow> Response web"
    by (intro once_keeps keeps_intros that)
  assume "p = ''activities'' # parts"
  then show ?thesis unfolding adminDeviceActivitiesAPI_def
    by (intro once_intros one once_call keeps_intros) (auto intro: asked resource_cleaned)
qed

lemma once_resource:
  assumes "rest \<noteq> [] \<Longrightarrow> resource \<in> set nested_resources"
  shows "once (resource_change app env rq current d (resource # rest)) (device_resource app env rq current d resource rest)"
  unfolding device_resource_def using assms
  by (intro once_intros once_read_only once_stream once_policy once_routines once_password once_token once_bonus
      once_commands once_activities) (auto simp: nested_resources_def)

section \<open>Sessions\<close>

definition live_session :: "WebEnv \<Rightarrow> Request \<Rightarrow> WebWorld \<Rightarrow> session \<Rightarrow> bool" where
  "live_session env rq w current \<longleftrightarrow> (\<exists>token. cookie_value sessionCookieName rq = Some token
     \<and> ww_sessions w token = Some current \<and> wv_now env ClockSession < ss_Expires current)"

lemma requireAdminAPISession_Inr:
  assumes "requireAdminAPISession env rq w = (Inr (current, token), w1)"
  shows "live_session env rq w current" and "ww_db w1 = ww_db w"
proof -
  show "live_session env rq w current" using assms
    by (auto simp: requireAdminAPISession_def authenticated_def session_get_def andThen_def run_simps live_session_def
        split: option.splits if_splits)
  show "ww_db w1 = ww_db w"
    by (rule keepsD [OF keeps_db_sessions(2), OF assms])
qed

lemma requires_session:
  assumes "andThen (requireAdminAPISession env rq) (\<lambda>(current, token). k current token) w = (r, w')"
    and "\<And>current token. once (A current) (k current token)"
  shows "ww_db w' = ww_db w \<or> (\<exists>current. live_session env rq w current \<and> A current (ww_db w) (ww_db w'))"
  using assms(1)
proof (cases rule: andThen_cases)
  case (failed e)
  have "ww_db w' = ww_db w" by (rule keepsD [OF keeps_db_sessions(2), OF failed(1)])
  then show ?thesis ..
next
  case (went_on a w1)
  obtain current token where a: "a = (current, token)" by fastforce
  note session = requireAdminAPISession_Inr [OF went_on(1) [unfolded a]]
  from went_on(2) have "k current token w1 = (r, w')" by (simp add: a)
  from onceD [OF assms(2) this] session show ?thesis by auto
qed

lemma device_request:
  assumes "adminDeviceAPI app env rq w = (r, w')"
  shows "ww_db w' = ww_db w \<or> (\<exists>current. live_session env rq w current
    \<and> resource_change app env rq current (hd (device_path (rq_path rq))) (tl (device_path (rq_path rq)))
        (ww_db w) (ww_db w'))"
proof -
  have "once (resource_change app env rq current (hd (device_path (rq_path rq))) (tl (device_path (rq_path rq))))
      (case device_path (rq_path rq) of [] \<Rightarrow> throw not_found
       | deviceID # parts \<Rightarrow> if deviceID = [] then throw not_found
           else (case parts of [] \<Rightarrow> adminDeviceRootAPI app env rq current deviceID
             | resource # rest \<Rightarrow> if rest \<noteq> [] \<and> resource \<notin> set nested_resources then throw not_found
                 else device_resource app env rq current deviceID resource rest))" for current
    by (cases "device_path (rq_path rq)") (auto intro!: once_intros once_root once_resource)
  from requires_session [OF assms [unfolded adminDeviceAPI_def], of "\<lambda>current. resource_change app env rq current
      (hd (device_path (rq_path rq))) (tl (device_path (rq_path rq)))", OF this]
  show ?thesis .
qed

definition device_created :: "App \<Rightarrow> WebEnv \<Rightarrow> Request \<Rightarrow> ServerDb \<Rightarrow> ServerDb \<Rightarrow> bool" where
  "device_created app env rq db db' \<longleftrightarrow> rq_method rq = ''POST'' \<and> (\<exists>name avatar r.
     decode_device rq = Some (name, avatar) \<and> CreateDeviceWithAvatar (store_env app env CallOperation) name avatar (wv_now env ClockOperation) db = (r, db'))"

lemma devices_request:
  assumes "adminDevicesAPI app env rq w = (r, w')"
  shows "ww_db w' = ww_db w \<or> (\<exists>current. live_session env rq w current \<and> csrf_matches rq current
    \<and> device_created app env rq (ww_db w) (ww_db w'))"
proof -
  have list: "once A (andThen (on_store f (querying s q)) k)" if "\<And>a. keeps ww_db (k a)"
    for A f s and q :: "ServerDb \<Rightarrow> ServerError + Device list" and k :: "_ \<Rightarrow> Response web"
    by (intro once_keeps keeps_intros that)
  have "once (\<lambda>db db'. csrf_matches rq current \<and> device_created app env rq db db')
      (if rq_method rq = ''GET'' then
         andThen (on_store (\<lambda>_. writeJSONError 500 ''could not load devices'')
           (querying (wv_served env CallFirst) (\<lambda>db. Inr (ListDevices db)))) (\<lambda>devices.
         ret (writeJSON 200 (DevicesBody (device_responses app env 0 devices))))
       else if rq_method rq = ''POST'' then
         andThen (requireAdminCSRF rq current) (\<lambda>_.
         andThen (body_or invalid_request (decode_device rq)) (\<lambda>(name, avatarKey).
         andThen (on_store (\<lambda>_. writeJSONError 400 ''invalid device'')
           (CreateDeviceWithAvatar (store_env app env CallOperation) name avatarKey (wv_now env ClockOperation))) (\<lambda>device.
         ret (writeJSON 201 (DeviceBody (adminDeviceResponse app (wv_now env (ClockDevice 0)) device))))))
       else throw (methodNotAllowed ''GET, POST''))" for current
    by (intro once_intros list once_call keeps_intros) (auto simp: csrf_matches_def csrfHeaderName_def device_created_def)
  from requires_session [OF assms [unfolded adminDevicesAPI_def], of "\<lambda>current db db'. csrf_matches rq current \<and> device_created app env rq db db'", OF this]
  show ?thesis .
qed

section \<open>Setting up\<close>

lemma session_request: "keeps ww_db (adminSessionAPI app env rq)"
  unfolding adminSessionAPI_def requireAdminCSRF_def
  by (intro keeps_intros keeps_modify) simp

text \<open>The setup form carries the token of its cookie, a login and a password entered twice.\<close>

definition administrator_created :: "App \<Rightarrow> WebEnv \<Rightarrow> Request \<Rightarrow> ServerDb \<Rightarrow> ServerDb \<Rightarrow> bool" where
  "administrator_created app env rq db db' \<longleftrightarrow> \<not> HasAdministrators db \<and> rq_method rq = ''POST'' \<and>
     (\<exists>request hash r. decode_setup rq = Some request
        \<and> cookie_value ''tempo_login_csrf'' rq = Some (au_CSRFToken request)
        \<and> TrimSpace (au_Login request) \<noteq> [] \<and> length (TrimSpace (au_Login request)) \<le> 80
        \<and> au_Password request \<noteq> [] \<and> length (au_Password request) \<le> 4096
        \<and> au_PasswordConfirmation request = au_Password request
        \<and> HashPassword (ap_argon2 app) (wv_salt env) (au_Password request) DefaultArgon2Params = Inr hash
        \<and> BootstrapAdmin (store_env app env CallOperation) (TrimSpace (au_Login request)) hash
            (wv_now env ClockOperation) db = (r, db'))"

lemma setup_request:
  assumes "adminSetupAPI app env rq w = (r, w')"
  shows "ww_db w' = ww_db w \<or> administrator_created app env rq (ww_db w) (ww_db w')"
proof -
  have guard: "once A (andThen (on_store f (querying s (\<lambda>db. Inr (HasAdministrators db)))) (\<lambda>has.
        andThen (fails_if has e) (\<lambda>_. m)))" if "once (\<lambda>db db'. \<not> HasAdministrators db \<longrightarrow> A db db') m"
    for A f s e and m :: "Response web"
  proof (rule onceI)
    fix v x v' assume run: "andThen (on_store f (querying s (\<lambda>db. Inr (HasAdministrators db)))) (\<lambda>has. andThen (fails_if has e) (\<lambda>_. m)) v = (x, v')"
    have same: "v\<lparr>ww_db := ww_db v, ww_log := l\<rparr> = v\<lparr>ww_log := l\<rparr>" for l by simp
    from run show "ww_db v' = ww_db v \<or> A (ww_db v) (ww_db v')"
      using onceD [OF that]
      by (fastforce simp: on_store_def attempt_def querying_def andThen_def run_simps wrap_error_def split: if_splits)
  qed
  have "once (administrator_created app env rq) (adminSetupAPI app env rq)"
    unfolding adminSetupAPI_def
    by (intro once_intros guard once_call keeps_intros)
      (auto simp: administrator_created_def setup_invalid_def loginCSRFCookie_def not_less)
  from onceD [OF this assms] show ?thesis .
qed

section \<open>Heartbeats\<close>

definition holds_token :: "App \<Rightarrow> Request \<Rightarrow> ServerDb \<Rightarrow> bool" where
  "holds_token app rq db \<longleftrightarrow> (\<exists>token dv. bearer_token rq = Some token
     \<and> tbl_find dv_id (request_device rq) (sd_device db) = Some dv \<and> dv_token_hash dv \<noteq> []
     \<and> dv_token_hash dv = hex_digest (ap_sha256 app) token)"

definition heartbeat_received :: "App \<Rightarrow> WebEnv \<Rightarrow> Request \<Rightarrow> ServerDb \<Rightarrow> ServerDb \<Rightarrow> bool" where
  "heartbeat_received app env rq db db' \<longleftrightarrow> rq_method rq = ''POST'' \<and> (\<exists>request r. rq_heartbeat rq = Some request
     \<and> ReceiveHeartbeat (ap_location app) (\<lambda>p. wv_served env (CallHeartbeat p)) (request_device rq) request
         (wv_now env ClockOperation) db = (r, db'))"

lemma AuthenticateDevice_Inr:
  assumes "AuthenticateDevice served sha256 d token db = Inr u"
  obtains dv where "tbl_find dv_id d (sd_device db) = Some dv" and "dv_token_hash dv \<noteq> []"
    and "dv_token_hash dv = hex_digest sha256 token"
  using assms by (auto simp: AuthenticateDevice_def Let_def split: if_splits option.splits)

lemma authenticate_device_Inr:
  "authenticate_device app env rq w = (Inr u, w1) \<Longrightarrow> holds_token app rq (ww_db w)"
  by (auto simp: authenticate_device_def attempt_def querying_def andThen_def run_simps holds_token_def
      elim!: AuthenticateDevice_Inr split: option.splits sum.splits)

lemma keeps_db_authenticate [keeps_intros]: "keeps ww_db (authenticate_device app env rq)"
  unfolding authenticate_device_def by (intro keeps_intros)

lemma keeps_db_version [keeps_intros]: "keeps ww_db (check_version env rq)"
  unfolding check_version_def by (intro keeps_intros)

lemma once_authenticated:
  assumes "once (\<lambda>db db'. holds_token app rq db \<longrightarrow> A db db') m"
  shows "once A (andThen (authenticate_device app env rq) (\<lambda>_. m))"
proof (rule onceI)
  fix w r w' assume "andThen (authenticate_device app env rq) (\<lambda>_. m) w = (r, w')"
  then show "ww_db w' = ww_db w \<or> A (ww_db w) (ww_db w')"
  proof (cases rule: andThen_cases)
    case (failed e)
    then show ?thesis using keepsD [OF keeps_db_authenticate failed(1)] by simp
  next
    case (went_on a w1)
    with keepsD [OF keeps_db_authenticate went_on(1)] authenticate_device_Inr [OF went_on(1)] onceD [OF assms went_on(2)]
    show ?thesis by auto
  qed
qed

lemma once_answered:
  "once A h \<Longrightarrow> once A (\<lambda>w. case answered h w of (r, w') \<Rightarrow> (Inr (f r), w'))"
  unfolding once_def answered_def by (auto split: prod.splits sum.splits) (metis snd_conv)+

lemma keeps_db_answer [keeps_intros]:
  "keeps ww_db (answer_heartbeat app env rq request response)" "keeps ww_db (reject_heartbeat env e)"
  unfolding answer_heartbeat_def reject_heartbeat_def by (intro keeps_intros)+

lemma once_received: "rq_method rq = ''POST'' \<Longrightarrow> rq_heartbeat rq = Some request \<Longrightarrow> once (heartbeat_received app env rq) (receive_heartbeat app env rq request)"
  unfolding receive_heartbeat_def
  by (intro once_first [of "add_details _"] once_last once_attempt keeps_intros) (auto simp: heartbeat_received_def)

lemma heartbeat_request:
  assumes "heartbeat app env rq w = (r, w')"
  shows "ww_db w' = ww_db w \<or> (holds_token app rq (ww_db w) \<and> heartbeat_received app env rq (ww_db w) (ww_db w'))"
proof -
  let ?A = "\<lambda>db db'. holds_token app rq db \<and> heartbeat_received app env rq db db'"
  have version: "once A (andThen (check_version env rq) (\<lambda>_. m))" if "once A m" for A and m :: "Response web"
    by (intro once_first keeps_intros that)
  have received: "once (\<lambda>db db'. holds_token app rq db \<longrightarrow> ?A db db') (receive_heartbeat app env rq request)"
    if "\<not> rq_method rq \<noteq> ''POST''" "rq_heartbeat rq = Some request" for request
    using once_received [OF _ that(2), of app env] that(1) unfolding once_def by blast
  have "once ?A (handleHeartbeat app env rq)"
    unfolding handleHeartbeat_def by (intro once_guard once_authenticated version once_option once_throw received)
  then have "once ?A (\<lambda>w. case answered (handleHeartbeat app env rq) w of (response, w') \<Rightarrow> (Inr response, w'))"
    by (rule once_answered)
  then have "once ?A (heartbeat app env rq)"
    unfolding heartbeat_def log_heartbeat_def Let_def by (intro once_first [of "start_details _"] once_last keeps_intros)
  from onceD [OF this assms] show ?thesis by auto
qed

section \<open>Every request\<close>

definition allowed_change :: "App \<Rightarrow> WebEnv \<Rightarrow> Request \<Rightarrow> WebWorld \<Rightarrow> ServerDb \<Rightarrow> bool" where
  "allowed_change app env rq w db' \<longleftrightarrow>
     (rq_path rq = ''/api/v1/device/heartbeat'' \<and> holds_token app rq (ww_db w) \<and> heartbeat_received app env rq (ww_db w) db')
   \<or> (rq_path rq = ''/api/v1/admin/setup'' \<and> administrator_created app env rq (ww_db w) db')
   \<or> (rq_path rq = ''/api/v1/admin/devices''
        \<and> (\<exists>current. live_session env rq w current \<and> csrf_matches rq current \<and> device_created app env rq (ww_db w) db'))
   \<or> (has_prefix devices_prefix (rq_path rq)
        \<and> (\<exists>current. live_session env rq w current
             \<and> resource_change app env rq current (hd (device_path (rq_path rq)))
                 (tl (device_path (rq_path rq))) (ww_db w) db'))"

definition allows :: "App \<Rightarrow> WebEnv \<Rightarrow> Request \<Rightarrow> Response web \<Rightarrow> bool" where
  "allows app env rq m \<longleftrightarrow> (\<forall>w. ww_db (snd (m w)) = ww_db w \<or> allowed_change app env rq w (ww_db (snd (m w))))"

lemma allowsI:
  "(\<And>w r w'. m w = (r, w') \<Longrightarrow> ww_db w' = ww_db w \<or> allowed_change app env rq w (ww_db w')) \<Longrightarrow> allows app env rq m"
  unfolding allows_def by (metis prod.collapse)

lemma allows_keeps: "keeps ww_db m \<Longrightarrow> allows app env rq m"
  by (simp add: allows_def keeps_def)

lemma snd_answered: "snd (answered m w) = snd (m w)"
  by (simp add: answered_def split: prod.split sum.split)

lemma allows_answered:
  "allows app env rq h \<Longrightarrow> allows app env rq (\<lambda>w. case answered h w of (r, w') \<Rightarrow> (Inr (f r), w'))"
  by (auto simp: allows_def split_def snd_answered)

lemma allows_last:
  assumes "allows app env rq m" and "\<And>a. keeps ww_db (k a)"
  shows "allows app env rq (andThen m k)"
proof (rule allowsI)
  fix w r w' assume "andThen m k w = (r, w')"
  then obtain x w1 where "m w = (x, w1)" "ww_db w' = ww_db w1"
    by (cases rule: andThen_cases) (auto dest: keepsD [OF assms(2)])
  with assms(1) show "ww_db w' = ww_db w \<or> allowed_change app env rq w (ww_db w')"
    unfolding allows_def by (metis snd_conv)
qed

lemma allows_details:
  assumes "allows app env rq m"
  shows "allows app env rq (andThen (start_details ds) (\<lambda>_. m))"
proof -
  have "allowed_change app env rq (w\<lparr>ww_details := x\<rparr>) db = allowed_change app env rq w db" for w x db
    by (simp add: allowed_change_def live_session_def)
  then show ?thesis using assms unfolding allows_def start_details_def andThen_def run_simps
    by simp (metis WebWorld.select_convs(1) WebWorld.surjective WebWorld.update_convs(5))
qed

lemma allows_dispatch: "allows app env rq (dispatch app env rq)"
proof -
  have read: "keeps ww_db (health rq)" unfolding health_def by (intro keeps_intros)
  have at: "allows app env rq (if rq_path rq = p then m else k)"
    if "rq_path rq = p \<Longrightarrow> allows app env rq m" "allows app env rq k" for p m k
    using that by simp
  have "rq_path rq = HeartbeatPath \<Longrightarrow> allows app env rq (heartbeat app env rq)"
    by (rule allowsI) (auto simp: allowed_change_def HeartbeatPath_def dest: heartbeat_request)
  moreover have "rq_path rq = ''/api/v1/admin/setup'' \<Longrightarrow> allows app env rq (adminSetupAPI app env rq)"
    by (rule allowsI) (auto simp: allowed_change_def dest: setup_request)
  moreover have "rq_path rq = ''/api/v1/admin/devices'' \<Longrightarrow> allows app env rq (adminDevicesAPI app env rq)"
    by (rule allowsI) (auto simp: allowed_change_def dest: devices_request)
  moreover have "has_prefix devices_prefix (rq_path rq) \<Longrightarrow> allows app env rq (adminDeviceAPI app env rq)"
    by (rule allowsI) (auto simp: allowed_change_def dest: device_request)
  ultimately show ?thesis unfolding dispatch_def Let_def
    by (auto intro: allows_keeps session_request read keeps_elementary)
qed

lemma allows_logged: "allows app env rq (logAdministrativeCommunication app env rq (dispatch app env rq))"
proof -
  have shown: "allows app env rq (\<lambda>w. case answered (dispatch app env rq) w of (response, w') \<Rightarrow> (Inr response, w'))"
    by (rule allows_answered [OF allows_dispatch])
  have step: "allows app env rq (andThen (start_details []) (\<lambda>_.
      andThen (\<lambda>w. case answered (dispatch app env rq) w of (response, w') \<Rightarrow> (Inr response, w')) k))"
    if "\<And>a. keeps ww_db (k a)" for k
    by (intro allows_details allows_last shown that)
  show ?thesis unfolding logAdministrativeCommunication_def
    by (auto split: option.split intro!: allows_dispatch step keeps_intros)
qed

lemma allows_cors: "allows app env rq m \<Longrightarrow> allows app env rq (corsHeaders app rq m)"
proof -
  assume m: "allows app env rq m"
  then show ?thesis using allows_answered [OF m]
    by (auto simp: corsHeaders_def Let_def allows_def andThen_def run_simps split: option.splits)
qed

lemma served_db: "ww_db (snd (ServeHTTP app env rq w)) = ww_db w
    \<or> allowed_change app env rq w (ww_db (snd (ServeHTTP app env rq w)))"
proof -
  have "allows app env rq (\<lambda>w. case answered (logAdministrativeCommunication app env rq (dispatch app env rq)) w of
      (r, w') \<Rightarrow> (Inr (securityHeaders (ap_secureCookies app) r), w'))"
    by (rule allows_answered [OF allows_logged])
  from allows_cors [OF this] show ?thesis by (simp add: ServeHTTP_def allows_def snd_answered)
qed

text \<open>C7: Only the entitled change the server's database, and only by what they ask for. Whatever request
  comes in - any method, path, header, body - and wherever the database or the randomness fails,
  the database of devices, policies, commands, history and administrators is left as it is, or it
  is changed by the one operation of the storage that belongs to the request's method and path,
  called with the arguments its body carries, and the request was entitled to it: a heartbeat
  with the token of the device it names; the creation of the first administrator while there is
  none; with a live session and its CSRF token, the creation of a device or a change of the device
  the path names. With a live session and no CSRF token, reading a device's history (GET) removes
  what has expired from it, and nothing else can be changed. The entries of the communication log
  and its retention are kept apart from this database and are not part of the claim.\<close>

theorem changes_are_authorized:
  "ww_db (snd (ServeHTTP app env rq w)) = ww_db w
     \<or> allowed_change app env rq w (ww_db (snd (ServeHTTP app env rq w)))"
  by (rule served_db)

end
