(* ===== verification/WebStream.thy ===== *)
theory WebStream
  imports WebWorlds WebChanges
begin

text \<open>
  Streams and the offline detector (\<open>server/web/events.go\<close>). A stream, once opened, takes one of the
  things that are ready - the end of its request, an event of its channel, the tick of the
  keep-alive - until one of them ends it; which one, and whether writing to the client succeeds, is
  given. Requests, other streams and the detector run in between.
\<close>

section \<open>The loop of a stream\<close>

definition streamKeepAliveInterval :: duration where "streamKeepAliveInterval = 15 * second"

datatype Choice = Disconnected | EventReady bool | KeepAliveDue bool

datatype StreamOutput = Silence | Sent streamEvent | Ping

text \<open>Output, and whether the loop goes on. A channel with nothing in it is not ready.\<close>

definition stream_select :: "Request \<Rightarrow> nat \<Rightarrow> WebEnv \<Rightarrow> Choice \<Rightarrow> WebWorld \<Rightarrow> (StreamOutput \<times> bool) \<times> WebWorld" where
  "stream_select rq channel env choice w = (case choice of
       Disconnected \<Rightarrow> ((Silence, False), w)
     | EventReady written \<Rightarrow>
         (case hub_receive channel (ww_hub w) of
            (None, _) \<Rightarrow> ((Silence, True), w)
          | (Some event, h) \<Rightarrow> ((if written then Sent event else Silence, written), w\<lparr>ww_hub := h\<rparr>))
     | KeepAliveDue written \<Rightarrow>
         (case authenticated env rq w of
            (Inr (Some _), w') \<Rightarrow> ((if written then Ping else Silence, written), w')
          | (_, w') \<Rightarrow> ((Silence, False), w')))"

text \<open>With the deferred unsubscription.\<close>

definition stream_turn :: "Request \<Rightarrow> string \<Rightarrow> nat \<Rightarrow> WebEnv \<Rightarrow> Choice \<Rightarrow> WebWorld \<Rightarrow> (StreamOutput \<times> bool) \<times> WebWorld" where
  "stream_turn rq deviceID channel env choice w = (case stream_select rq channel env choice w of ((out, goes_on), w') \<Rightarrow>
     ((out, goes_on), if goes_on then w' else w'\<lparr>ww_hub := hub_unsubscribe deviceID channel (ww_hub w')\<rparr>))"

section \<open>The offline detector\<close>

definition detector_interval :: "duration \<Rightarrow> duration" where
  "detector_interval onlineTimeout = (let interval = go_div onlineTimeout 2 in if interval < second then second else interval)"

definition detector_device :: "App \<Rightarrow> WebEnv \<Rightarrow> time \<Rightarrow> Device \<Rightarrow> string set \<Rightarrow> WebWorld \<Rightarrow> WebWorld \<times> string set" where
  "detector_device app env now device announced w =
     (if \<not> hasSubscribers (dc_ID device) (ww_hub w) then (w, announced - {dc_ID device})
      else if isOnline (dc_LastSeenAt device) now (ap_onlineTimeout app) then (w, announced - {dc_ID device})
      else if dc_ID device \<in> announced then (w, announced)
      else (snd (publishDeviceStatus app env (dc_ID device) ''device_offline'' w), insert (dc_ID device) announced))"

fun detector_devices :: "App \<Rightarrow> (nat \<Rightarrow> WebEnv) \<Rightarrow> nat \<Rightarrow> time \<Rightarrow> Device list \<Rightarrow> string set \<Rightarrow> WebWorld \<Rightarrow> WebWorld \<times> string set" where
  "detector_devices app envs n now [] announced w = (w, announced)"
| "detector_devices app envs n now (d # ds) announced w =
     (case detector_device app (envs n) now d announced w of (w', announced') \<Rightarrow>
        detector_devices app envs (n + 1) now ds announced' w')"

text \<open>A tick: what the database cannot list is skipped. Every device's status is loaded by itself.\<close>

definition detector_tick :: "App \<Rightarrow> (nat \<Rightarrow> WebEnv) \<Rightarrow> string set \<Rightarrow> WebWorld \<Rightarrow> WebWorld \<times> string set" where
  "detector_tick app envs announced w =
     (if wv_served (envs 0) CallFirst
      then detector_devices app envs 1 (wv_now (envs 0) ClockOperation) (ListDevices (ww_db w)) announced w
      else (w, announced))"

section \<open>The server in time\<close>

datatype Moment = Arrives WebEnv Request | Turns Request string nat WebEnv Choice | Ticks "nat \<Rightarrow> WebEnv"

fun moment_step :: "App \<Rightarrow> Moment \<Rightarrow> WebWorld \<times> string set \<Rightarrow> WebWorld \<times> string set" where
  "moment_step app (Arrives env rq) (w, off) = (snd (ServeHTTP app env rq w), off)"
| "moment_step app (Turns rq d c env choice) (w, off) = (snd (stream_turn rq d c env choice w), off)"
| "moment_step app (Ticks envs) (w, off) = detector_tick app envs off w"

text \<open>The life of one stream among the moments of the others: what it wrote, whether it still runs,
  and the state. A stream that ended takes no further part.\<close>

fun stream_life :: "App \<Rightarrow> Request \<Rightarrow> string \<Rightarrow> nat \<Rightarrow> (Moment + WebEnv \<times> Choice) list \<Rightarrow> WebWorld \<times> string set
    \<Rightarrow> StreamOutput list \<times> bool \<times> WebWorld \<times> string set" where
  "stream_life app rq d c [] st = ([], True, st)"
| "stream_life app rq d c (Inl m # ms) st = stream_life app rq d c ms (moment_step app m st)"
| "stream_life app rq d c (Inr (env, choice) # ms) (w, off) =
     (case stream_turn rq d c env choice w of ((out, goes_on), w') \<Rightarrow>
        if goes_on then (case stream_life app rq d c ms (w', off) of (outs, r) \<Rightarrow> (out # outs, r))
        else ([out], False, (w', off)))"

section \<open>Invariants in time\<close>

locale world_run_invariant = world_invariant +
  assumes received: "P w \<Longrightarrow> P (w\<lparr>ww_hub := snd (hub_receive c (ww_hub w))\<rparr>)"
    and unsubscribed: "P w \<Longrightarrow> P (w\<lparr>ww_hub := hub_unsubscribe d c (ww_hub w)\<rparr>)"
begin

lemma turned: "P w \<Longrightarrow> P (snd (stream_turn rq d c env choice w))"
proof -
  assume P: "P w"
  have select: "P (snd (stream_select rq c env choice w))"
  proof (cases choice)
    case (EventReady written)
    with P received [OF P, of c] show ?thesis by (auto simp: stream_select_def split: prod.splits option.splits)
  next
    case (KeepAliveDue written)
    obtain r w' where run: "authenticated env rq w = (r, w')" by fastforce
    with maintainsD [OF authenticated_kept P this] KeepAliveDue show ?thesis
      by (auto simp: stream_select_def split: sum.splits option.splits)
  qed (use P in \<open>simp add: stream_select_def\<close>)
  then show ?thesis by (auto simp: stream_turn_def split_def intro: unsubscribed)
qed

lemma detected_device: "P w \<Longrightarrow> P (fst (detector_device app env now device announced w))"
  using publish_kept(1) by (auto simp: detector_device_def maintains_def)

lemma detected_devices: "P w \<Longrightarrow> P (fst (detector_devices app envs n now ds announced w))"
  by (induction ds arbitrary: n announced w)
    (auto split: prod.split dest: detected_device [where now = now] simp: split_def)

lemma moments: "(\<And>env rq. m = Arrives env rq \<Longrightarrow> E env) \<Longrightarrow> P (fst st) \<Longrightarrow> P (fst (moment_step app m st))"
  by (cases "(app, m, st)" rule: moment_step.cases) (auto simp: detector_tick_def served turned detected_devices)

end

interpretation sound_run: world_run_invariant world_ok "\<lambda>_. True"
proof unfold_locales
  show "world_ok w \<Longrightarrow> world_ok (w\<lparr>ww_hub := snd (hub_receive c (ww_hub w))\<rparr>)" for w c
    using hub_step_ok [of "ww_hub w" "Receive c"] by (simp add: world_ok_def)
  show "world_ok w \<Longrightarrow> world_ok (w\<lparr>ww_hub := hub_unsubscribe d c (ww_hub w)\<rparr>)" for w d c
    using hub_step_ok [of "ww_hub w" "Unsubscribe d c"] by (simp add: world_ok_def)
qed

text \<open>While no login draws the token of a session again, it stands for that session or for none.\<close>

interpretation token_run: world_run_invariant "\<lambda>w. ww_sessions w token = None \<or> ww_sessions w token = Some s"
    "\<lambda>env. randomToken (wv_token env TokenSession) \<noteq> Some token" for token s
  by unfold_locales
    (auto simp: session_get_def session_delete_def session_create_def purge_expired_def Let_def
       split: option.splits if_splits)

section \<open>The end of a stream\<close>

lemma keep_alive_without_session:
  assumes "cookie_value sessionCookieName rq = Some token"
    and "ww_sessions w token = None \<or> ww_sessions w token = Some s" and "ss_Expires s \<le> wv_now env ClockSession"
  shows "\<exists>w'. stream_turn rq d c env (KeepAliveDue written) w = ((Silence, False), w')
    \<and> ww_hub w' = hub_unsubscribe d c (ww_hub w)"
  using assms by (auto simp: stream_turn_def stream_select_def authenticated_def session_get_def)

text \<open>C16: No stream outlives the session it was opened in. Whatever requests, streams and ticks of the
  detector run in between, and whatever the stream itself takes up, as long as no later login
  draws the same token, the stream has ended at the latest with its first keep-alive at or after
  the expiry of its session: it does not go on, nothing that follows has any effect on it, and its
  channel is out of the hub.\<close>

theorem stream_ends_with_session:
  assumes "cookie_value sessionCookieName rq = Some token"
    and "ww_sessions (fst st) token = None \<or> ww_sessions (fst st) token = Some s"
    and "\<And>env rq'. Inl (Arrives env rq') \<in> set before \<Longrightarrow> randomToken (wv_token env TokenSession) \<noteq> Some token"
    and "ss_Expires s \<le> wv_now env ClockSession"
  shows "\<exists>outs w off. stream_life app rq d c (before @ Inr (env, KeepAliveDue written) # rest) st = (outs, False, w, off)
    \<and> length outs \<le> length (before @ [Inr (env, KeepAliveDue written)]) \<and> (\<forall>b. (d, c, b) \<notin> set (hb_subscribers (ww_hub w)))"
  using assms(2,3)
proof (induction before arbitrary: st)
  case Nil
  obtain w off where st: "st = (w, off)" by fastforce
  from Nil(1) have "ww_sessions w token = None \<or> ww_sessions w token = Some s" by (simp add: st)
  from keep_alive_without_session [OF assms(1) this assms(4), of d c written] obtain w' where
    "stream_turn rq d c env (KeepAliveDue written) w = ((Silence, False), w')"
    "ww_hub w' = hub_unsubscribe d c (ww_hub w)" by blast
  then show ?case by (simp add: st hub_unsubscribe_def)
next
  case (Cons m ms)
  show ?case
  proof (cases m)
    case (Inl moment)
    have "ww_sessions (fst (moment_step app moment st)) token = None
        \<or> ww_sessions (fst (moment_step app moment st)) token = Some s"
      using Cons.prems Inl by (intro token_run.moments) auto
    from Cons.IH [OF this] Cons.prems(2) Inl show ?thesis by (fastforce simp: le_Suc_eq)
  next
    case (Inr mine)
    obtain env' choice w off where mine: "mine = (env', choice)" and st: "st = (w, off)" by fastforce
    obtain out goes_on w' where turn: "stream_turn rq d c env' choice w = ((out, goes_on), w')" by (metis prod_cases3 prod.collapse)
    show ?thesis
    proof (cases goes_on)
      case True
      have "ww_sessions w' token = None \<or> ww_sessions w' token = Some s"
        using token_run.turned [of w token s rq d c env' choice] Cons.prems(1) by (simp add: turn st)
      then have "\<exists>outs w2 off2. stream_life app rq d c (ms @ Inr (env, KeepAliveDue written) # rest) (w', off) = (outs, False, w2, off2)
          \<and> length outs \<le> length (ms @ [Inr (env, KeepAliveDue written)]) \<and> (\<forall>b. (d, c, b) \<notin> set (hb_subscribers (ww_hub w2)))"
        using Cons.prems(2) by (intro Cons.IH) auto
      with True turn show ?thesis by (auto simp: Inr mine st)
    next
      case False
      with turn have "\<forall>b. (d, c, b) \<notin> set (hb_subscribers (ww_hub w'))"
        by (auto simp: stream_turn_def hub_unsubscribe_def split: prod.splits if_splits)
      with False turn show ?thesis by (auto simp: Inr mine st)
    qed
  qed
qed

end
