(* ===== verification/WebRuns.thy ===== *)
theory WebRuns
  imports WebStream ServerRuns
begin

text \<open>
  The running web server: the states it reaches from an empty database by requests, turns of its
  streams and ticks of its detector, and how they refine the transition system of the storage. Also
  what an outcome of a heartbeat over HTTP means.
\<close>

section \<open>Changes are steps of the storage\<close>

definition env_ok :: "App \<Rightarrow> WebEnv \<Rightarrow> ServerDb \<Rightarrow> bool" where
  "env_ok app env db \<longleftrightarrow> clock_ok (wv_now env ClockOperation)
     \<and> (\<forall>routine'. fresh_routine (store_env app env CallOperation) routine' db)"

lemma device_change_step: "device_change app env rq d p db db' \<Longrightarrow> env_ok app env db \<Longrightarrow> server_step db db'"
  by (cases rule: device_change.cases, assumption) (auto simp: env_ok_def intro: server_step.intros)

lemma history_cleaned_step: "history_cleaned env db db' \<Longrightarrow> server_step db db'"
  unfolding history_cleaned_def
  by (cases "CleanupExpiredCompletedActivities (wv_served env CallOperation) (wv_now env ClockOperation) db")
    (auto intro: server_step.cleanup)

lemma allowed_change_step: "allowed_change app env rq w db' \<Longrightarrow> env_ok app env (ww_db w) \<Longrightarrow> server_step (ww_db w) db'"
  by (auto simp: allowed_change_def heartbeat_received_def administrator_created_def device_created_def
      resource_change_def env_ok_def [of app env]
      intro: server_step.intros history_cleaned_step device_change_step [unfolded env_ok_def])

lemma request_step:
  assumes "env_ok app env (ww_db w)"
    and "ww_db (snd (ServeHTTP app env rq w)) = ww_db w \<or> allowed_change app env rq w (ww_db (snd (ServeHTTP app env rq w)))"
  shows "ww_db (snd (ServeHTTP app env rq w)) = ww_db w \<or> server_step (ww_db w) (ww_db (snd (ServeHTTP app env rq w)))"
  using assms allowed_change_step by blast

lemma turn_same_db: "ww_db (snd (stream_turn rq d c env choice w)) = ww_db w"
proof -
  have "keeps ww_db (authenticated env rq)" by (rule keeps_intros)
  then show ?thesis
    by (auto simp: stream_turn_def stream_select_def split: Choice.split prod.splits sum.splits option.splits dest: keepsD)
qed

lemma detector_same_db: "ww_db (fst (detector_devices app envs n now ds announced w)) = ww_db w"
proof (induction ds arbitrary: n announced w)
  case (Cons d ds)
  have "ww_db (snd (publishDeviceStatus app env i name v)) = ww_db v" for env i name v
    using keeps_db_publish(1) unfolding keeps_def by blast
  then have "ww_db (fst (detector_device app (envs n) now d announced w)) = ww_db w"
    by (simp add: detector_device_def)
  with Cons.IH show ?case by (simp split: prod.split) (metis fst_conv)
qed simp

section \<open>Reachable states\<close>

fun moment_ok :: "App \<Rightarrow> Moment \<Rightarrow> WebWorld \<Rightarrow> bool" where
  "moment_ok app (Arrives env rq) w = env_ok app env (ww_db w)"
| "moment_ok app m w = True"

inductive web_reachable :: "App \<Rightarrow> WebWorld \<times> string set \<Rightarrow> bool" for app where
  start: "web_reachable app (new_world, {})"
| moment: "web_reachable app st \<Longrightarrow> moment_ok app m (fst st) \<Longrightarrow> web_reachable app (moment_step app m st)"

lemma new_world_ok: "world_ok new_world"
  by (simp add: world_ok_def new_world_def hub_ok_new) (simp add: empty_log_def)

lemma moment_db:
  "moment_ok app m w \<Longrightarrow> ww_db (fst (moment_step app m (w, off))) = ww_db w
     \<or> server_step (ww_db w) (ww_db (fst (moment_step app m (w, off))))"
proof (cases m)
  case (Arrives env rq)
  moreover assume "moment_ok app m w"
  ultimately show ?thesis using request_step [OF _ served_db] by simp
qed (simp_all add: turn_same_db detector_tick_def detector_same_db)

lemma web_world_reachable: "web_reachable app st \<Longrightarrow> server_reachable (ww_db (fst st)) \<and> world_ok (fst st)"
proof (induction rule: web_reachable.induct)
  case start
  have "server_reachable (ww_db new_world)" by (simp add: new_world_def server_reachable.start)
  then show ?case by (simp add: new_world_ok)
next
  case (moment st m)
  obtain w off where st: "st = (w, off)" by fastforce
  from moment have "server_reachable (ww_db w)" by (simp add: st)
  with moment_db [of app m w off] moment(2)
  have "server_reachable (ww_db (fst (moment_step app m st)))" by (auto simp: st intro: server_reachable.step)
  moreover have "world_ok (fst (moment_step app m st))" by (rule sound_run.moments) (use moment.IH in simp_all)
  ultimately show ?case ..
qed

text \<open>C9: The web server refines the storage. In every state that requests, turns of streams and ticks
  of the detector lead to, however they interleave and whatever fails, the database is one that the
  operations of the storage reach - so every invariant of the storage holds in it -, each moment
  is at most one operation of the storage, every entry of the communication log is valid, belongs
  to a device that exists and has an identifier of its own in increasing order, and every
  subscriber has its own channel with at most 8 events. The clock is set and random identifiers do
  not repeat.\<close>

theorem web_server_refines_storage:
  assumes "web_reachable app st"
  shows "server_reachable (ww_db (fst st)) \<and> log_ok (ww_log (fst st))
    \<and> (\<forall>r\<in>set (lg_rows (ww_log (fst st))). has_device (cl_DeviceID r) (ww_db (fst st))) \<and> hub_ok (ww_hub (fst st))
    \<and> (moment_ok app m (fst st) \<longrightarrow> ww_db (fst (moment_step app m st)) = ww_db (fst st)
         \<or> server_step (ww_db (fst st)) (ww_db (fst (moment_step app m st))))"
proof -
  note web_world_reachable [OF assms]
  moreover have "moment_ok app m (fst st) \<Longrightarrow> ww_db (fst (moment_step app m st)) = ww_db (fst st)
      \<or> server_step (ww_db (fst st)) (ww_db (fst (moment_step app m st)))"
    using moment_db [of app m "fst st" "snd st"] by simp
  ultimately show ?thesis by (auto simp: world_ok_def)
qed

end
