(* ===== verification/WebOutcome.thy ===== *)
theory WebOutcome
  imports WebRuns ServerAccess
begin

text \<open>
  A heartbeat from the request to the response: what the storage answers arrives, whatever the
  log and the hub make of it.
\<close>

section \<open>Actions that do not end a request\<close>

definition quiet :: "'a web \<Rightarrow> bool" where
  "quiet m \<longleftrightarrow> (\<forall>w. \<exists>a w'. m w = (Inr a, w') \<and> ww_db w' = ww_db w)"

named_theorems quiet_intros \<open>actions that neither end a request nor change the database\<close>

lemma quietD: "quiet m \<Longrightarrow> \<exists>a w'. m w = (Inr a, w') \<and> ww_db w' = ww_db w"
  by (simp add: quiet_def)

lemma quiet_elementary [quiet_intros]: "quiet (ret a)" "quiet (reads g)"
  by (simp_all add: quiet_def run_simps)

lemma quiet_andThen [quiet_intros]: "quiet m \<Longrightarrow> (\<And>a. quiet (k a)) \<Longrightarrow> quiet (andThen m k)"
  unfolding quiet_def by (metis andThen_Inr)

lemma quiet_if [quiet_intros]: "quiet m \<Longrightarrow> quiet k \<Longrightarrow> quiet (if c then m else k)"
  by simp

lemma quiet_sum [quiet_intros]:
  "(\<And>x. quiet (m x)) \<Longrightarrow> (\<And>x. quiet (k x)) \<Longrightarrow> quiet (case v of Inl x \<Rightarrow> m x | Inr x \<Rightarrow> k x)"
  by (simp split: sum.split)

lemma quiet_prod [quiet_intros]: "(\<And>x y. quiet (k x y)) \<Longrightarrow> quiet (case v of (x, y) \<Rightarrow> k x y)"
  by (simp split: prod.split)

lemma quiet_attempt: "(\<And>db. snd (m db) = db) \<Longrightarrow> quiet (attempt m)"
  by (auto simp: quiet_def attempt_def split: prod.split) (metis snd_conv)

lemma quiet_query [quiet_intros]: "quiet (attempt (querying served q))"
  by (rule quiet_attempt) (simp add: querying_def)

lemma quiet_status [quiet_intros]: "quiet (attempt (loadDeviceLiveStatus loc timeout served d now))"
  by (rule quiet_attempt) (metis loadDeviceLiveStatus_same prod.collapse)

lemma quiet_log [quiet_intros]: "quiet (attempt_log m)"
  by (auto simp: quiet_def attempt_log_def split: prod.split)

lemma quiet_details [quiet_intros]:
  "quiet (addCommunicationDetail key v)" "quiet (start_details ds)" "quiet end_details" "quiet (hub_event d e)"
  by (simp_all add: quiet_def addCommunicationDetail_def start_details_def end_details_def hub_event_def run_simps)

lemma quiet_add_details [quiet_intros]: "quiet (add_details ds)"
  by (induction ds rule: add_details.induct) (auto intro!: quiet_intros)

lemma quiet_publish [quiet_intros]:
  "quiet (publishDeviceStatus app env d name)" "quiet (publishCommunicationLog d entry)"
  "quiet (publishActivity activity)" "quiet (publishDeviceActivity env n d i)"
  unfolding publishDeviceStatus_def publishCommunicationLog_def publishActivity_def publishDeviceActivity_def
    if_subscribed_def by (intro quiet_intros)+

lemma quiet_activities [quiet_intros]: "quiet (publish_activities env n d is)"
  by (induction "is" arbitrary: n) (auto intro!: quiet_intros)

lemma quiet_heartbeat_log [quiet_intros]: "quiet (log_heartbeat app env rq status)"
  unfolding log_heartbeat_def record_communication_def Let_def by (intro quiet_intros)

lemma quiet_then:
  assumes "quiet m" and "\<And>a v. ww_db v = ww_db w \<Longrightarrow> \<exists>w'. k a v = (Inr b, w') \<and> ww_db w' = db'"
  shows "\<exists>w'. andThen m k w = (Inr b, w') \<and> ww_db w' = db'"
  using quietD [OF assms(1), of w] assms(2) by (auto simp: andThen_def)

section \<open>From the request to the response\<close>

definition heartbeat_request :: "Request \<Rightarrow> HeartbeatRequest \<Rightarrow> bool" where
  "heartbeat_request rq request \<longleftrightarrow> rq_method rq = ''POST'' \<and> rq_path rq = HeartbeatPath
     \<and> request_version rq = ''2'' \<and> rq_heartbeat rq = Some request"

lemma quiet_answer: "\<exists>w'. answer_heartbeat app env rq request response v
    = (Inr (writeJSON 200 (HeartbeatBody response)), w') \<and> ww_db w' = ww_db v"
  unfolding answer_heartbeat_def by (intro quiet_then quiet_intros) (simp add: run_simps)

lemma received_answer:
  assumes "ReceiveHeartbeat (ap_location app) (\<lambda>p. wv_served env (CallHeartbeat p)) (request_device rq) request
      (wv_now env ClockOperation) (ww_db v) = (Inr r0, db')"
  shows "\<exists>w'. receive_heartbeat app env rq request v
      = (Inr (writeJSON 200 (HeartbeatBody (answer_capabilities app rq r0))), w') \<and> ww_db w' = db'"
  unfolding receive_heartbeat_def
proof (rule quiet_then [OF quiet_add_details])
  fix a and v1 :: WebWorld assume "ww_db v1 = ww_db v"
  with assms have run: "attempt (ReceiveHeartbeat (ap_location app) (\<lambda>p. wv_served env (CallHeartbeat p)) (request_device rq) request
        (wv_now env ClockOperation)) v1
      = (Inr (Inr r0), v1\<lparr>ww_db := db', ww_log := cascade_log (\<lambda>d. has_device d db') (ww_log v1)\<rparr>)"
    by (simp add: attempt_def)
  show "\<exists>w'. andThen (attempt (ReceiveHeartbeat (ap_location app) (\<lambda>p. wv_served env (CallHeartbeat p)) (request_device rq) request
        (wv_now env ClockOperation))) (\<lambda>received. case received of Inl e \<Rightarrow> reject_heartbeat env e
        | Inr response \<Rightarrow> answer_heartbeat app env rq request (answer_capabilities app rq response)) v1
      = (Inr (writeJSON 200 (HeartbeatBody (answer_capabilities app rq r0))), w') \<and> ww_db w' = db'"
    unfolding andThen_def run prod.case sum.case
    using quiet_answer [of app env rq request "answer_capabilities app rq r0"
        "v1\<lparr>ww_db := db', ww_log := cascade_log (\<lambda>d. has_device d db') (ww_log v1)\<rparr>"] by simp
qed

lemma handled:
  assumes "heartbeat_request rq request" and "bearer_token rq = Some token"
    and "AuthenticateDevice (wv_served env CallAuthenticate) (ap_sha256 app) (request_device rq) token (ww_db w) = Inr ()"
    and "ReceiveHeartbeat (ap_location app) (\<lambda>p. wv_served env (CallHeartbeat p)) (request_device rq) request
           (wv_now env ClockOperation) (ww_db w) = (Inr r0, db')"
  shows "\<exists>w'. handleHeartbeat app env rq w = (Inr (writeJSON 200 (HeartbeatBody (answer_capabilities app rq r0))), w')
    \<and> ww_db w' = db'"
proof -
  have rq: "rq_method rq = ''POST''" "request_version rq = ''2''" "rq_heartbeat rq = Some request"
    using assms(1) by (simp_all add: heartbeat_request_def)
  obtain l where auth: "authenticate_device app env rq w = (Inr (), w\<lparr>ww_log := l\<rparr>)"
    using assms(2,3) by (simp add: authenticate_device_def attempt_def querying_def andThen_def run_simps)
  have "handleHeartbeat app env rq w = receive_heartbeat app env rq request (w\<lparr>ww_log := l\<rparr>)"
    using rq auth by (simp add: handleHeartbeat_def check_version_def andThen_def run_simps)
  with received_answer [of app env rq request "w\<lparr>ww_log := l\<rparr>"] assms(4) show ?thesis by simp
qed

lemma heartbeat_path: "clean_path HeartbeatPath" "HeartbeatPath \<noteq> ''/healthz''" "\<not> has_prefix admin_prefix HeartbeatPath"
  "\<not> has_prefix devices_prefix HeartbeatPath"
  by code_simp+

lemma served_heartbeat:
  assumes "rq_path rq = HeartbeatPath" and "heartbeat app env rq w = (Inr response, w')"
  shows "ServeHTTP app env rq w = (securityHeaders (ap_secureCookies app) response, w')"
proof -
  have "administrativeCommunication rq = None"
    using heartbeat_path(4) assms(1) by (simp add: administrativeCommunication_def)
  with assms heartbeat_path show ?thesis
    by (simp add: ServeHTTP_def corsHeaders_def logAdministrativeCommunication_def dispatch_def answered_def Let_def)
qed

lemma heartbeat_answers:
  assumes "\<And>v. ww_db v = ww_db w \<Longrightarrow> \<exists>w'. handleHeartbeat app env rq v = (Inr response, w') \<and> ww_db w' = db'"
  shows "\<exists>w'. heartbeat app env rq w = (Inr (with_correlation env response), w') \<and> ww_db w' = db'"
  unfolding heartbeat_def
proof (rule quiet_then)
  fix a and v :: WebWorld assume v: "ww_db v = ww_db w"
  from assms [OF this] obtain w1 where w1: "handleHeartbeat app env rq v = (Inr response, w1)" "ww_db w1 = db'" by blast
  then have "\<exists>w'. andThen (log_heartbeat app env rq (rs_status response)) (\<lambda>_. andThen end_details
      (\<lambda>_. ret (with_correlation env response))) w1 = (Inr (with_correlation env response), w') \<and> ww_db w' = db'"
    by (intro quiet_then quiet_intros) (simp add: run_simps)
  with w1 show "\<exists>w'. andThen (\<lambda>w. case answered (handleHeartbeat app env rq) w of (response, w') \<Rightarrow> (Inr response, w'))
      (\<lambda>response. andThen (log_heartbeat app env rq (rs_status response)) (\<lambda>_. andThen end_details
      (\<lambda>_. ret (with_correlation env response)))) v = (Inr (with_correlation env response), w') \<and> ww_db w' = db'"
    by (simp add: andThen_def answered_def)
qed (rule quiet_intros)

lemma kept_answer: "rs_status (securityHeaders b (with_correlation env r)) = rs_status r"
  "rs_body (securityHeaders b (with_correlation env r)) = rs_body r"
  by (simp_all add: securityHeaders_def add_headers_def with_correlation_def with_header_def)

text \<open>C8: A well-formed heartbeat over HTTP is answered with what the storage computed. From every
  database the server can reach, a POST of version 2 with the current token of the device it names, with
  revisions that are not ahead and valid events and acknowledgements, gets the status 200 and the
  answer of the storage, with the interval added and the receipts removed as the agent's
  capabilities ask, and leaves the database the storage made - whatever the log, the hub and its
  subscribers are like.\<close>

theorem heartbeat_request_is_answered:
  assumes "server_reachable (ww_db w)" and "heartbeat_request rq request" and "\<forall>call. wv_served env call"
    and "bearer_token rq = Some token" and "length token = 43"
    and "tbl_find dv_id (request_device rq) (sd_device (ww_db w)) = Some dv"
    and "dv_token_hash dv = hex_digest (ap_sha256 app) token" and "dv_token_hash dv \<noteq> []"
    and "heartbeat_error (request_device rq) request (wv_now env ClockOperation) = None"
    and "hr_PolicyRevision request \<le> dv_policy_revision dv" and "hr_SessionStateRevision request \<le> dv_policy_revision dv"
    and "\<forall>e\<in>set (hr_Events request). \<exists>p. event_bonus e = Inr p"
    and "\<forall>c\<in>set (hr_CommandAcks request). validOpaqueIdentifier c"
    and "\<And>n db1. receive_report (ap_location app) (request_device rq) request (wv_now env ClockOperation) (ww_db w) = (Inr n, db1)
          \<Longrightarrow> in64 (bonus_sum (request_device rq) (hr_LocalDate request) db1)"
  shows "\<exists>r0 db'. ReceiveHeartbeat (ap_location app) (\<lambda>_. True) (request_device rq) request (wv_now env ClockOperation) (ww_db w)
        = (Inr r0, db')
    \<and> rs_status (fst (ServeHTTP app env rq w)) = 200
    \<and> rs_body (fst (ServeHTTP app env rq w)) = HeartbeatBody (answer_capabilities app rq r0)
    \<and> ww_db (snd (ServeHTTP app env rq w)) = db'"
proof -
  obtain db1 p ctl where report: "receive_report (ap_location app) (request_device rq) request (wv_now env ClockOperation) (ww_db w)
      = (Inr (dv_policy_revision dv), db1)" "loadPolicy (request_device rq) db1 = Inr p" "loadControl (request_device rq) db1 = Inr ctl"
    by (rule report_is_served [OF assms(1,6) assms(10-13)])
  from ReceiveHeartbeat_served [OF assms(9) _ report(1,3,2) assms(14) [OF report(1)], of "\<lambda>_. True"]
  obtain r0 db' where run: "ReceiveHeartbeat (ap_location app) (\<lambda>_. True) (request_device rq) request
      (wv_now env ClockOperation) (ww_db w) = (Inr r0, db')" by auto
  have calls: "(\<lambda>p. wv_served env (CallHeartbeat p)) = (\<lambda>_. True)" "wv_served env CallAuthenticate" using assms(3) by auto
  have "validOpaqueIdentifier (request_device rq)" using assms(9) by (simp add: heartbeat_error_def split: if_splits)
  then have auth: "AuthenticateDevice True (ap_sha256 app) (request_device rq) token (ww_db w) = Inr ()"
    using assms(5-8) by (simp add: AuthenticateDevice_def)
  let ?response = "writeJSON 200 (HeartbeatBody (answer_capabilities app rq r0))"
  have "\<exists>w'. handleHeartbeat app env rq v = (Inr ?response, w') \<and> ww_db w' = db'" if "ww_db v = ww_db w" for v
    by (rule handled [OF assms(2,4)]) (simp_all add: that calls auth run)
  from heartbeat_answers [OF this] obtain w' where
    "heartbeat app env rq w = (Inr (with_correlation env ?response), w')" "ww_db w' = db'" by blast
  moreover have "rq_path rq = HeartbeatPath" using assms(2) by (simp add: heartbeat_request_def)
  ultimately have "ServeHTTP app env rq w = (securityHeaders (ap_secureCookies app) (with_correlation env ?response), w')"
    and "ww_db w' = db'" by (simp_all add: served_heartbeat)
  with run show ?thesis by (simp add: kept_answer) (simp add: writeJSON_def)
qed

section \<open>An entry that is not stored\<close>

text \<open>A live update of the communication log can show an entry that does not exist. When the entry
  of a request cannot be stored because its device is gone - which is the case after every
  successful deletion - its subscribers get an entry whose every field is empty.\<close>

theorem unstored_entry_is_published:
  assumes "\<not> has_device (cl_DeviceID entry) (ww_db w)" and "hasSubscribers (cl_DeviceID entry) (ww_hub w)"
  shows "ww_hub (snd (record_communication app env call clock entry w))
    = hub_publish (cl_DeviceID entry) (''communication'', CommunicationData zero_communication) (ww_hub w)"
proof -
  have fails: "\<exists>e. AppendCommunicationLog loc s (\<lambda>d. has_device d (ww_db w)) entry now log = (Inl e, log)" for loc s now log
  proof -
    obtain r log' where run: "AppendCommunicationLog loc s (\<lambda>d. has_device d (ww_db w)) entry now log = (r, log')" by fastforce
    show ?thesis
    proof (cases r)
      case (Inl e)
      with run show ?thesis
        by (auto simp: AppendCommunicationLog_def transaction_def run_simps split: option.splits if_splits prod.splits sum.splits)
    next
      case (Inr stored)
      with append_log_Inr [OF run [unfolded Inr]] assms(1) show ?thesis by blast
    qed
  qed
  obtain e where "AppendCommunicationLog (ap_location app) (wv_served env call) (\<lambda>d. has_device d (ww_db w)) entry
      (wv_now env clock) (ww_log w) = (Inl e, ww_log w)" using fails by blast
  with assms(2) show ?thesis
    by (simp add: record_communication_def attempt_log_def andThen_def publishCommunicationLog_def if_subscribed_def
        hub_event_def run_simps)
qed

end
