(* ===== verification/WebLogin.thy ===== *)
theory WebLogin
  imports WebWorlds WebChanges
begin

text \<open>
  How sessions come about. Every handler but two can only end sessions; the two that begin one - the
  login and the setup - do so last, after their checks.
\<close>

section \<open>Gaining a session\<close>

text \<open>\<open>gains G m\<close>: what \<open>m\<close> adds to the sessions is allowed by \<open>G\<close> in the database it started from.\<close>

definition gains :: "(ServerDb \<Rightarrow> session \<Rightarrow> bool) \<Rightarrow> 'a web \<Rightarrow> bool" where
  "gains G m \<longleftrightarrow> (\<forall>w. \<forall>k s. ww_sessions (snd (m w)) k = Some s \<longrightarrow> ww_sessions w k = Some s \<or> G (ww_db w) s)"

definition shrinks :: "'a web \<Rightarrow> bool" where
  "shrinks m \<longleftrightarrow> (\<forall>w k s. ww_sessions (snd (m w)) k = Some s \<longrightarrow> ww_sessions w k = Some s)"

text \<open>Sessions that are part of given ones stay so, without a login.\<close>

interpretation ending: world_invariant "\<lambda>w. \<forall>k s. ww_sessions w k = Some s \<longrightarrow> given k = Some s" "\<lambda>_. False" for given
  by unfold_locales (auto simp: session_get_def session_delete_def split: option.splits if_splits)

lemma maintains_shrinks:
  assumes "\<And>given. maintains (\<lambda>w. \<forall>k s. ww_sessions w k = Some s \<longrightarrow> given k = Some s) m"
  shows "shrinks m"
  using assms unfolding maintains_def shrinks_def by blast

lemma gains_shrinks: "shrinks m \<Longrightarrow> gains G m"
  unfolding shrinks_def gains_def by blast

lemma gains_first:
  assumes "keeps ww_db m" and "shrinks m" and "\<And>a. gains G (k a)"
  shows "gains G (andThen m k)"
  unfolding gains_def
proof (intro allI impI)
  fix w key s assume some: "ww_sessions (snd (andThen m k w)) key = Some s"
  obtain r w' where run: "andThen m k w = (r, w')" by fastforce
  then show "ww_sessions w key = Some s \<or> G (ww_db w) s"
  proof (cases rule: andThen_cases)
    case (failed e)
    with some run assms(2) show ?thesis unfolding shrinks_def by (metis snd_conv)
  next
    case (went_on a w1)
    then have "ww_sessions w1 key = Some s \<or> G (ww_db w1) s"
      using some run assms(3) [of a] unfolding gains_def by (metis snd_conv)
    with keepsD [OF assms(1) went_on(1)] went_on(1) assms(2) show ?thesis
      unfolding shrinks_def by (metis snd_conv)
  qed
qed

lemma gains_guard: "(\<not> c \<Longrightarrow> gains G m) \<Longrightarrow> gains G (andThen (fails_if c e) (\<lambda>_. m))"
  by (simp add: gains_def andThen_def run_simps)

lemma gains_body: "(\<And>a. v = Some a \<Longrightarrow> gains G (k a)) \<Longrightarrow> gains G (andThen (body_or e v) k)"
  by (cases v) (simp_all add: gains_def body_or_def andThen_def run_simps)

lemma gains_query:
  assumes "\<And>r. gains (\<lambda>db s. (\<forall>a. r = Inr a \<longrightarrow> q db = Inr a) \<longrightarrow> G db s) (k r)"
  shows "gains G (andThen (attempt (querying served q)) k)"
  unfolding gains_def
proof (intro allI impI)
  fix w key s assume some: "ww_sessions (snd (andThen (attempt (querying served q)) k w)) key = Some s"
  let ?r = "if served then q (ww_db w) else Inl EngineFailed"
  let ?w = "w\<lparr>ww_log := cascade_log (\<lambda>d. has_device d (ww_db w)) (ww_log w)\<rparr>"
  have "andThen (attempt (querying served q)) k w = k ?r ?w"
    by (simp add: andThen_def attempt_def querying_def)
  with some assms [of ?r] have "ww_sessions ?w key = Some s \<or> ((\<forall>a. ?r = Inr a \<longrightarrow> q (ww_db ?w) = Inr a) \<longrightarrow> G (ww_db ?w) s)"
    unfolding gains_def by metis
  then show "ww_sessions w key = Some s \<or> G (ww_db w) s" by (auto split: if_splits)
qed

lemma gains_weaken: "gains H m \<Longrightarrow> (\<And>db s. H db s \<Longrightarrow> G db s) \<Longrightarrow> gains G m"
  unfolding gains_def by blast

lemma gains_if: "(c \<Longrightarrow> gains G m) \<Longrightarrow> (\<not> c \<Longrightarrow> gains G k) \<Longrightarrow> gains G (if c then m else k)"
  by simp

lemma gains_any: "gains (\<lambda>db s. True) m"
  by (simp add: gains_def)

definition session_of :: "App \<Rightarrow> WebEnv \<Rightarrow> Admin \<Rightarrow> session \<Rightarrow> bool" where
  "session_of app env admin s \<longleftrightarrow> ss_AdminID s = am_ID admin \<and> ss_Login s = am_Login admin
     \<and> ss_Expires s = wv_now env ClockSession + ap_sessionLifetime app"

lemma gains_start: "gains (\<lambda>db s. session_of app env admin s) (start_session app env failure status admin)"
  by (auto simp: gains_def start_session_def session_create_def Let_def purge_expired_def session_of_def
      split: option.splits if_splits)

section \<open>Login and setup\<close>

definition login_entitled :: "App \<Rightarrow> WebEnv \<Rightarrow> Request \<Rightarrow> ServerDb \<Rightarrow> session \<Rightarrow> bool" where
  "login_entitled app env rq db s \<longleftrightarrow> rq_path rq = ''/api/v1/admin/session'' \<and> rq_method rq = ''POST''
     \<and> (\<exists>request admin. decode_login rq = Some request \<and> cookie_value loginCSRFCookie rq = Some (ar_CSRFToken request)
          \<and> AdminByLogin (ar_Login request) db = Inr admin \<and> am_Active admin
          \<and> VerifyPassword (ap_argon2 app) (ar_Password request) (am_PasswordHash admin) = Inr True
          \<and> session_of app env admin s)"

definition setup_entitled :: "Request \<Rightarrow> ServerDb \<Rightarrow> bool" where
  "setup_entitled rq db \<longleftrightarrow> rq_path rq = ''/api/v1/admin/setup'' \<and> rq_method rq = ''POST'' \<and> \<not> HasAdministrators db
     \<and> (\<exists>request. decode_setup rq = Some request \<and> cookie_value loginCSRFCookie rq = Some (au_CSRFToken request)
          \<and> \<not> setup_invalid request)"

lemma shrinks_pieces:
  "shrinks (throw e)" "shrinks (ret a)" "shrinks (on_store answer (querying served q))" "shrinks (authenticated env rq)"
  "shrinks (adminDevicesAPI app env rq)" "shrinks (adminDeviceAPI app env rq)" "shrinks (heartbeat app env rq)"
  by (rule maintains_shrinks, intro ending.pieces ending.devices_handler ending.device_handler ending.heartbeat_handler)+

lemma shrinks_health: "shrinks (health rq)"
  unfolding health_def by (rule maintains_shrinks) (intro ending.pieces)

lemma shrinks_start: "shrinks (start_details ds)"
  by (simp add: shrinks_def start_details_def run_simps)

lemma login_gains:
  assumes "rq_path rq = ''/api/v1/admin/session''"
  shows "gains (login_entitled app env rq) (adminSessionAPI app env rq)"
proof -
  have get: "shrinks (andThen (authenticated env rq) (\<lambda>found. case found of
        Some (current, token) \<Rightarrow> ret (f current) | None \<Rightarrow>
          andThen (body_or internal_error v) (\<lambda>csrfToken.
          andThen (on_store g (querying served q)) (\<lambda>hasAdministrators. ret (h csrfToken hasAdministrators)))))" for f g h v served q
    by (rule maintains_shrinks) (intro ending.pieces)
  have delete: "shrinks (andThen (requireAdminAPISession env rq) (\<lambda>(current, token).
        andThen (requireAdminCSRF rq current) (\<lambda>_.
        andThen (modify (\<lambda>w. w\<lparr>ww_sessions := session_delete token (ww_sessions w)\<rparr>)) (\<lambda>_. ret r))))" for r
    by (rule maintains_shrinks) (intro ending.pieces maintains_modify ending.ended)
  have post: "gains (\<lambda>db s. (\<forall>a. found = Inr a \<longrightarrow> AdminByLogin (ar_Login request) db = Inr a) \<longrightarrow> login_entitled app env rq db s)
      (case found of Inl _ \<Rightarrow> throw (writeJSONError 401 ''invalid credentials'')
       | Inr admin \<Rightarrow> andThen (fails_if (\<not> credentials_valid app (ar_Password request) found)
            (writeJSONError 401 ''invalid credentials'')) (\<lambda>_. start_session app env ''internal error'' 200 admin))"
    if "rq_method rq = ''POST''" "decode_login rq = Some request" "cookie_value loginCSRFCookie rq = Some (ar_CSRFToken request)"
    for found request
    using that assms
    by (cases found) (auto intro!: gains_shrinks shrinks_pieces gains_guard gains_weaken [OF gains_start]
        simp: login_entitled_def credentials_valid_def split: sum.splits)
  show ?thesis unfolding adminSessionAPI_def
    by (intro gains_if gains_body gains_guard gains_query post gains_shrinks [OF get] gains_shrinks [OF delete]
        gains_shrinks shrinks_pieces) auto
qed

lemma setup_gains:
  assumes "rq_path rq = ''/api/v1/admin/setup''"
  shows "gains (\<lambda>db s. setup_entitled rq db) (adminSetupAPI app env rq)"
proof -
  have guard: "gains G (andThen (on_store f (querying served (\<lambda>db. Inr (HasAdministrators db)))) (\<lambda>has.
      andThen (fails_if has e) (\<lambda>_. m)))" if "gains (\<lambda>db s. \<not> HasAdministrators db \<longrightarrow> G db s) m" for G f served e m
    unfolding gains_def
  proof (intro allI impI)
    fix w :: WebWorld and key s
    let ?w = "w\<lparr>ww_log := cascade_log (\<lambda>d. has_device d (ww_db w)) (ww_log w)\<rparr>"
    assume some: "ww_sessions (snd (andThen (on_store f (querying served (\<lambda>db. Inr (HasAdministrators db)))) (\<lambda>has.
      andThen (fails_if has e) (\<lambda>_. m)) w)) key = Some s"
    have "ww_sessions (snd (m ?w)) key = Some s \<Longrightarrow> \<not> HasAdministrators (ww_db w) \<Longrightarrow> ww_sessions w key = Some s \<or> G (ww_db w) s"
      using that [unfolded gains_def, rule_format, of ?w key s] by simp
    with some show "ww_sessions w key = Some s \<or> G (ww_db w) s"
      by (auto simp: on_store_def attempt_def querying_def andThen_def run_simps wrap_error_def split: if_splits)
  qed
  have known: "gains (\<lambda>db s. \<not> HasAdministrators db \<longrightarrow> setup_entitled rq db) m"
    if "rq_method rq = ''POST''" "decode_setup rq = Some request" "cookie_value loginCSRFCookie rq = Some (au_CSRFToken request)"
      "\<not> setup_invalid request" for request and m :: "Response web"
    using that assms by (intro gains_weaken [OF gains_any]) (auto simp: setup_entitled_def)
  show ?thesis unfolding adminSetupAPI_def
    by (intro gains_guard gains_body guard known) auto
qed

section \<open>Every request\<close>

definition session_entitled :: "App \<Rightarrow> WebEnv \<Rightarrow> Request \<Rightarrow> ServerDb \<Rightarrow> session \<Rightarrow> bool" where
  "session_entitled app env rq db s \<longleftrightarrow> login_entitled app env rq db s \<or> setup_entitled rq db"

lemma dispatch_gains: "gains (session_entitled app env rq) (dispatch app env rq)"
proof -
  have "rq_path rq = ''/api/v1/admin/session'' \<Longrightarrow> gains (session_entitled app env rq) (adminSessionAPI app env rq)"
    by (rule gains_weaken [OF login_gains]) (auto simp: session_entitled_def)
  moreover have "rq_path rq = ''/api/v1/admin/setup'' \<Longrightarrow> gains (session_entitled app env rq) (adminSetupAPI app env rq)"
    by (rule gains_weaken [OF setup_gains]) (auto simp: session_entitled_def)
  ultimately show ?thesis unfolding dispatch_def Let_def
    by (intro gains_if gains_shrinks [OF shrinks_pieces(1)] gains_shrinks [OF shrinks_pieces(2)]
        gains_shrinks [OF shrinks_pieces(5)] gains_shrinks [OF shrinks_pieces(6)] gains_shrinks [OF shrinks_pieces(7)]
        gains_shrinks [OF shrinks_health])
qed

lemma gains_answered: "gains G h \<Longrightarrow> gains G (\<lambda>w. case answered h w of (r, w') \<Rightarrow> (Inr (f r), w'))"
  by (simp add: gains_def split_def snd_answered)

lemma gains_last:
  assumes "gains G m" and "\<And>a. shrinks (k a)"
  shows "gains G (andThen m k)"
  unfolding gains_def
proof (intro allI impI)
  fix w key s assume some: "ww_sessions (snd (andThen m k w)) key = Some s"
  obtain r w' where run: "andThen m k w = (r, w')" by fastforce
  then have "ww_sessions (snd (m w)) key = Some s"
  proof (cases rule: andThen_cases)
    case (went_on a w1)
    with some run assms(2) [of a] show ?thesis unfolding shrinks_def by (metis snd_conv)
  qed (use some run in simp)
  with assms(1) show "ww_sessions w key = Some s \<or> G (ww_db w) s" unfolding gains_def by blast
qed

lemma logged_gains: "gains (session_entitled app env rq) (logAdministrativeCommunication app env rq (dispatch app env rq))"
proof -
  have rest: "shrinks (andThen (reads g) (\<lambda>extra. andThen (record_communication app env call clock (e extra)) (\<lambda>_.
      andThen (if c then publishActivitiesChanged d else ret ()) (\<lambda>_. andThen end_details (\<lambda>_. ret r)))))" for g call clock e c d r
    by (rule maintains_shrinks) (intro ending.pieces)
  have step: "gains (session_entitled app env rq) (andThen (start_details ds) (\<lambda>_.
      andThen (\<lambda>w. case answered (dispatch app env rq) w of (response, w') \<Rightarrow> (Inr response, w')) k))"
    if "\<And>a. shrinks (k a)" for ds and k :: "Response \<Rightarrow> Response web"
    by (intro gains_first [of "start_details ds"] keeps_db_details shrinks_start gains_last gains_answered dispatch_gains that)
  show ?thesis
  proof (cases "administrativeCommunication rq")
    case None
    then show ?thesis by (simp add: logAdministrativeCommunication_def dispatch_gains)
  next
    case (Some v)
    obtain d operation route where "v = (d, operation, route)" by (metis prod_cases3)
    with Some show ?thesis unfolding logAdministrativeCommunication_def
      by (simp only: option.case prod.case) (intro step rest)
  qed
qed

lemma cors_gains:
  assumes "gains G m"
  shows "gains G (corsHeaders app rq m)"
proof -
  have "shrinks (if c then ret [] else case v of None \<Rightarrow> throw e | Some x \<Rightarrow> ret (f x))" for c v e f
    by (rule maintains_shrinks) (intro ending.pieces)
  then show ?thesis unfolding corsHeaders_def Let_def
    by (intro gains_if assms gains_first gains_answered keeps_intros gains_shrinks [OF shrinks_pieces(2)])
qed

text \<open>C10: Nobody gets a session without credentials. Whatever the request, a session that is there after
  it was there before, or the request was a login with the token of its login cookie and the right
  password of an active administrator, and the session is that administrator's, until the
  configured lifetime from now; or it was the setup of a server without administrators, with the
  same kind of token and a valid form.\<close>

theorem sessions_need_credentials:
  assumes "ww_sessions (snd (ServeHTTP app env rq w)) k = Some s"
  shows "ww_sessions w k = Some s \<or> login_entitled app env rq (ww_db w) s \<or> setup_entitled rq (ww_db w)"
proof -
  let ?m = "\<lambda>w. case answered (logAdministrativeCommunication app env rq (dispatch app env rq)) w of
      (r, w') \<Rightarrow> (Inr (securityHeaders (ap_secureCookies app) r), w')"
  have "gains (session_entitled app env rq) (corsHeaders app rq ?m)"
    by (rule cors_gains [OF gains_answered [OF logged_gains]])
  with assms show ?thesis
    unfolding gains_def ServeHTTP_def by (auto simp: snd_answered session_entitled_def)
qed

end
