(* ===== verification/WebSamples.thy ===== *)
theory WebSamples
  imports WebOutcome WebLogin LocalAuthProps
begin

text \<open>
  The properties of the web server at concrete states and requests.
\<close>

definition sample_app :: App where
  "sample_app = \<lparr>ap_adminOrigin = [], ap_secureCookies = False, ap_sessionLifetime = hour, ap_onlineTimeout = 90 * second,
     ap_heartbeatInterval = 5 * second, ap_location = fixed_zone 0, ap_argon2 = padded, ap_sha256 = sample_sha256\<rparr>"

definition sample_web_env :: "time \<Rightarrow> WebEnv" where
  "sample_web_env t = \<lparr>wv_now = (\<lambda>_. t), wv_served = (\<lambda>_. True), wv_random = (\<lambda>_. None), wv_token = (\<lambda>_. None),
     wv_salt = None, wv_elapsed = 1, wv_engine = []\<rparr>"

definition sample_token :: string where "sample_token = base64url_encode sample_secret"

definition heartbeat_post :: Request where
  "heartbeat_post = \<lparr>rq_method = ''POST'', rq_path = HeartbeatPath,
     rq_headers = [(''X-Tempo-Device-ID'', ''10101010-1010-4010-9010-101010101010''),
       (''Authorization'', ''Bearer '' @ sample_token), (''X-Compasso-Protocol-Version'', ''2'')],
     rq_cookies = [], rq_query = [], rq_body = [], rq_heartbeat = Some sample_question, rq_host_name = [], rq_origin_host = None\<rparr>"

section \<open>A heartbeat over HTTP\<close>

lemma heartbeat_post_facts:
  "request_device heartbeat_post = pc" "request_version heartbeat_post = ''2''" "bearer_token heartbeat_post = Some sample_token"
  "length sample_token = 43" "rq_method heartbeat_post = ''POST''"
proof -
  show "request_device heartbeat_post = pc" unfolding sample_id_texts by code_simp
qed code_simp+

lemma sample_question_valid: "hr_PolicyRevision sample_question = 0" "hr_SessionStateRevision sample_question = 0"
  "hr_Events sample_question = []" "hr_CommandAcks sample_question = []"
  by (simp_all add: sample_question_def sample_request_def)

lemma sample_secured:
  obtains db dv where "server_reachable db" and "tbl_find dv_id pc (sd_device db) = Some dv"
    and "dv_token_hash dv = hex_digest sample_sha256 sample_token" and "dv_policy_revision dv = 1"
    and "sd_command db = []" and "sd_bonus db = []"
proof -
  have start: "has_device pc sdb1" "unused (sample_id 32) sdb1"
    by (simp_all add: sdb1_view has_device_def tbl_has_def new_device_def sample_id_neq)
  from sample_issue [OF start, of sample_sha256 sample_secret] obtain db where issue:
    "IssueDeviceToken (ServerSamples.server_env 32) sample_sha256 (Some sample_secret) pc sample_now sdb1 = (Inr sample_token, db)"
    unfolding sample_token_def by blast
  have view: "core_view db = core_view sdb1" by (rule keepsD [OF keeps_core_credentials(1) issue])
  then have "sd_command db = sd_command sdb1" "sd_bonus db = sd_bonus sdb1" by (simp_all add: core_view_def)
  moreover have "tbl_find dv_id pc (sd_device db) = map_option (\<lambda>x. x\<lparr>dv_token_hash := hex_digest sample_sha256 sample_token, dv_updated := sample_now\<rparr>)
      (tbl_find dv_id pc (sd_device sdb1))"
    unfolding issued(3) [OF issue] by (subst find_update) simp_all
  moreover have "server_reachable db" by (rule server_reachable.step [OF reachable_1 server_step.issue_token [OF issue]])
  ultimately show ?thesis using that by (simp add: sdb1_view new_device_def)
qed

theorem heartbeat_request_is_answered_witness:
  "\<exists>db r0. server_reachable db
    \<and> rs_status (fst (ServeHTTP sample_app (sample_web_env sample_now) heartbeat_post (new_world\<lparr>ww_db := db\<rparr>))) = 200
    \<and> rs_body (fst (ServeHTTP sample_app (sample_web_env sample_now) heartbeat_post (new_world\<lparr>ww_db := db\<rparr>)))
        = HeartbeatBody (answer_capabilities sample_app heartbeat_post r0)"
proof -
  obtain db dv where db: "server_reachable db" "tbl_find dv_id pc (sd_device db) = Some dv"
    "dv_token_hash dv = hex_digest sample_sha256 sample_token" "dv_policy_revision dv = 1"
    "sd_command db = []" "sd_bonus db = []" by (rule sample_secured)
  have sum: "in64 (bonus_sum pc (hr_LocalDate sample_question) db1)"
    if "receive_report loc pc sample_question sample_now db = (Inr n, db1)" for loc n db1
  proof -
    have "loadPendingRemoteCredits pc (report_usage pc sample_question sample_now
        (update_device pc (report_device sample_question sample_now) db)) = Inr []"
      by (simp add: loadPendingRemoteCredits_def report_usage_def update_device_def db)
    with report_bonuses [OF that] have "sd_bonus db1 = []" by (auto simp: sample_question_valid db)
    then show ?thesis by (simp add: bonus_sum_def in64_def)
  qed
  have "heartbeat_request heartbeat_post sample_question"
    unfolding heartbeat_request_def heartbeat_post_facts by (simp add: heartbeat_post_def)
  moreover have "hex_digest sample_sha256 sample_token \<noteq> []"
    by (rule digest_nonempty) (simp add: sample_sha256_def)
  ultimately have "\<exists>r0 db'. ReceiveHeartbeat (ap_location sample_app) (\<lambda>_. True) (request_device heartbeat_post) sample_question
        (wv_now (sample_web_env sample_now) ClockOperation) (ww_db (new_world\<lparr>ww_db := db\<rparr>)) = (Inr r0, db')
    \<and> rs_status (fst (ServeHTTP sample_app (sample_web_env sample_now) heartbeat_post (new_world\<lparr>ww_db := db\<rparr>))) = 200
    \<and> rs_body (fst (ServeHTTP sample_app (sample_web_env sample_now) heartbeat_post (new_world\<lparr>ww_db := db\<rparr>)))
        = HeartbeatBody (answer_capabilities sample_app heartbeat_post r0)
    \<and> ww_db (snd (ServeHTTP sample_app (sample_web_env sample_now) heartbeat_post (new_world\<lparr>ww_db := db\<rparr>))) = db'"
    using db sum sample_valid(2)
    by (intro heartbeat_request_is_answered [where token = sample_token and dv = dv])
      (simp_all add: heartbeat_post_facts sample_question_valid sample_app_def sample_web_env_def)
  with db(1) show ?thesis by blast
qed

section \<open>Streams\<close>

definition sample_session :: session where
  "sample_session = \<lparr>ss_AdminID = ''a'', ss_Login = ''ana'', ss_CSRF = ''c'', ss_Expires = hour\<rparr>"

definition stream_get :: Request where
  "stream_get = \<lparr>rq_method = ''GET'', rq_path = ''/api/v1/admin/devices/pc/stream'', rq_headers = [],
     rq_cookies = [(sessionCookieName, ''tok'')], rq_query = [], rq_body = [], rq_heartbeat = None, rq_host_name = [], rq_origin_host = None\<rparr>"

definition streaming_world :: WebWorld where
  "streaming_world = new_world\<lparr>ww_sessions := [''tok'' \<mapsto> sample_session],
     ww_hub := hub_publish ''pc'' (''activities_changed'', ChangedData ''pc'') (snd (hub_subscribe ''pc'' newEventHub))\<rparr>"

definition sample_moments :: "(Moment + WebEnv \<times> Choice) list" where
  "sample_moments = [Inr (sample_web_env minute, EventReady True), Inr (sample_web_env minute, KeepAliveDue True),
     Inl (Arrives (sample_web_env minute) stream_get)]"

theorem stream_ends_with_session_witness:
  "\<exists>outs w off. stream_life sample_app stream_get ''pc'' 0
      (sample_moments @ Inr (sample_web_env hour, KeepAliveDue True) # [Inr (sample_web_env hour, EventReady True)])
      (streaming_world, {}) = (outs, False, w, off) \<and> (\<forall>b. (''pc'', 0, b) \<notin> set (hb_subscribers (ww_hub w)))"
proof -
  have "cookie_value sessionCookieName stream_get = Some ''tok''" by (simp add: cookie_value_def stream_get_def)
  from stream_ends_with_session [OF this, of "(streaming_world, {})" sample_session sample_moments "sample_web_env hour"
      sample_app "''pc''" 0 True "[Inr (sample_web_env hour, EventReady True)]"]
  show ?thesis
    by (auto simp: streaming_world_def sample_moments_def sample_web_env_def randomToken_def sample_session_def)
qed

section \<open>The server in time\<close>

theorem web_server_refines_storage_witness:
  "server_reachable (ww_db (snd (ServeHTTP sample_app (sample_web_env sample_now) heartbeat_post new_world)))
    \<and> log_ok (ww_log (snd (ServeHTTP sample_app (sample_web_env sample_now) heartbeat_post new_world)))"
proof -
  have "moment_ok sample_app (Arrives (sample_web_env sample_now) heartbeat_post) (fst (new_world, {}))"
    using sample_clock by (simp add: env_ok_def sample_web_env_def fresh_routine_def store_env_def)
  from web_reachable.moment [OF web_reachable.start this]
  have "web_reachable sample_app (snd (ServeHTTP sample_app (sample_web_env sample_now) heartbeat_post new_world), {})" by simp
  from web_server_refines_storage [OF this] show ?thesis by simp
qed

theorem unstored_entry_is_published_witness:
  "ww_hub (snd (record_communication sample_app (sample_web_env 0) CallLog ClockLog
       (administrative_entry (sample_web_env 0) ''pc'' ''DELETE device'' 204 []) streaming_world))
     = hub_publish ''pc'' (''communication'', CommunicationData zero_communication) (ww_hub streaming_world)"
proof -
  let ?e = "administrative_entry (sample_web_env 0) ''pc'' ''DELETE device'' 204 []"
  have d: "cl_DeviceID ?e = ''pc''" by (simp add: administrative_entry_def)
  have "\<not> has_device (cl_DeviceID ?e) (ww_db streaming_world)" "hasSubscribers (cl_DeviceID ?e) (ww_hub streaming_world)"
    by (simp_all add: d streaming_world_def new_world_def has_device_def empty_server_def tbl_has_def hasSubscribers_def
        hub_publish_def hub_subscribe_def newEventHub_def)
  from unstored_entry_is_published [OF this] show ?thesis by (simp only: d)
qed

section \<open>The status of a device\<close>

lemma sample_status:
  assumes "\<And>date. bonus_sum pc date db = 0" and "tbl_find dv_id pc (sd_device db) = Some dv" and "dv_last_seen dv = None"
    and "loadPolicy pc db = Inr p" and "loadControl pc db = Inr ctl" and "PendingControlKind pc db = Inr kind"
  shows "\<exists>device status. loadDeviceLiveStatus (fixed_zone 0) (90 * second) (\<lambda>_. True) pc sample_now db = (Inr (device, p, status), db)
    \<and> dl_LocalDate status = ''2026-07-20''"
proof -
  have date: "local_date (fixed_zone 0) sample_now = ''2026-07-20''" by code_simp
  obtain wd where "weekday_of_date ''2026-07-20'' = Some wd"
  proof -
    have "weekday_of_date ''2026-07-20'' = Some Monday" by code_simp
    then show ?thesis by (rule that)
  qed
  with assms date show ?thesis
    by (simp add: loadDeviceLiveStatus_def querying_def andThen_def run_simps Let_def LoadDailySummary_def LoadDevice_def
        isOnline_def device_of_row_def in64_def)
      (simp add: live_status_def Let_def)
qed


theorem status_shows_confirmed_balance_witness:
  "\<exists>device p status st. loadDeviceLiveStatus (fixed_zone 0) (90 * second) (\<lambda>_. True) pc sample_now sdb3 = (Inr (device, p, status), sdb3)
    \<and> confirmedSessionState pc ''2'' ''2026-07-20'' sample_now sdb3 = Inr st \<and> ws_RemainingSeconds st = dl_RemainingSeconds status"
proof -
  have dv: "tbl_find dv_id pc (sd_device sdb3) = Some ((new_device pc ''pc'' DefaultAvatarKey sample_now)\<lparr>dv_policy_revision := 3\<rparr>)"
    by (simp add: sdb3_view new_device_def)
  obtain ctl where ctl: "loadControl pc sdb3 = Inr ctl" by (simp add: loadControl_def sdb3_view)
  obtain p where p: "loadPolicy pc sdb3 = Inr p" using device_rows(2) [OF reachable_3 dv] by blast
  have kind: "PendingControlKind pc sdb3 = Inr []"
    by (simp add: PendingControlKind_def latest_control_def sdb3_view)
  have sum: "bonus_sum pc date sdb3 = 0" for date by (simp add: bonus_sum_def sdb3_view)
  from sample_status [OF sum dv _ p ctl kind] obtain device status where
    status: "loadDeviceLiveStatus (fixed_zone 0) (90 * second) (\<lambda>_. True) pc sample_now sdb3 = (Inr (device, p, status), sdb3)"
    and date: "dl_LocalDate status = ''2026-07-20''" by (auto simp: new_device_def)
  have "weekday_of_date ''2026-07-20'' = Some Monday" by code_simp
  then have "\<exists>st. confirmedSessionState pc ''2'' (dl_LocalDate status) sample_now sdb3 = Inr st"
    by (simp add: confirmedSessionState_def LoadDailySummary_def sum p date in64_def)
  then obtain st where st: "confirmedSessionState pc ''2'' (dl_LocalDate status) sample_now sdb3 = Inr st" by blast
  have "UnacknowledgedRemoteBonusSeconds pc (dl_LocalDate status) sdb3 = 0"
    by (simp add: UnacknowledgedRemoteBonusSeconds_def sdb3_view)
  from status_shows_confirmed_balance [OF st status this] sum status st date show ?thesis by auto
qed

section \<open>A login\<close>

definition login_body :: string where
  "login_body = (let q = [CHR 0x22] in ''{'' @ q @ ''login'' @ q @ '':'' @ q @ ''ana'' @ q @ '','' @ q @ ''password'' @ q @ '':''
     @ q @ ''secret'' @ q @ '','' @ q @ ''csrf_token'' @ q @ '':'' @ q @ ''c'' @ q @ ''}'')"

definition login_post :: Request where
  "login_post = \<lparr>rq_method = ''POST'', rq_path = ''/api/v1/admin/session'', rq_headers = [],
     rq_cookies = [(loginCSRFCookie, ''c'')], rq_query = [], rq_body = login_body, rq_heartbeat = None,
     rq_host_name = [], rq_origin_host = None\<rparr>"

definition login_env :: WebEnv where
  "login_env = (sample_web_env sample_now)\<lparr>wv_token := (\<lambda>use. if use = TokenSession then Some ''tok'' else Some ''csr'')\<rparr>"

definition login_world :: "string \<Rightarrow> WebWorld" where
  "login_world v = new_world\<lparr>ww_db := empty_server\<lparr>sd_admin := [\<lparr>ad_id = ''1'', ad_login = ''ana'', ad_hash = v, ad_active = True,
     ad_created = sample_now, ad_updated = sample_now\<rparr>]\<rparr>\<rparr>"

definition login_members :: "(string \<times> json) list" where
  "login_members = [(''login'', JString ''ana''), (''password'', JString ''secret''), (''csrf_token'', JString ''c'')]"

lemma login_fields:
  "parse_json login_body = Some (JObject login_members)"
  "known_fields [''login'', ''password'', ''csrf_token''] login_members"
  "json_field json_string [] ''login'' login_members = Some ''ana''"
  "json_field json_string [] ''password'' login_members = Some ''secret''"
  "json_field json_string [] ''csrf_token'' login_members = Some ''c''"
  by code_simp+

lemma login_decoded: "decode_login login_post = Some \<lparr>ar_Login = ''ana'', ar_Password = ''secret'', ar_CSRFToken = ''c''\<rparr>"
proof -
  have "\<not> 65536 < length login_body" by (simp add: login_body_def)
  then show ?thesis by (simp add: decode_login_def decodeJSONBody_def login_fields login_post_def json_members_def)
qed

lemma login_post_facts:
  "cookie_value loginCSRFCookie login_post = Some ''c''" "rq_method login_post = ''POST''" "rq_path login_post = ''/api/v1/admin/session''"
  "clean_path ''/api/v1/admin/session''" "\<not> has_prefix devices_prefix ''/api/v1/admin/session''"
  "trim_slashes (TrimSpace (first_value ''Origin'' (rq_headers login_post))) = []" "TrimSpace ''ana'' = ''ana''"
  "''/api/v1/admin/session'' \<noteq> HeartbeatPath"
  by code_simp+

theorem sessions_need_credentials_witness:
  "\<exists>v s. ww_sessions (snd (ServeHTTP sample_app login_env login_post (login_world v))) (base64url_encode ''tok'') = Some s
    \<and> login_entitled sample_app login_env login_post (ww_db (login_world v)) s"
proof -
  have "validateParams test_params = None" "params_in_range test_params"
    unfolding validateParams_None by (simp_all add: test_params_def params_in_range_def)
  moreover from this obtain v where v: "HashPassword padded (Some ''saltsalt'') ''secret'' test_params = Inr v"
    by (simp add: HashPassword_def)
  ultimately have "VerifyPassword padded ''secret'' v = Inr True"
    using HashPassword_Inr [OF v, of "''secret''"] by (simp add: test_params_def padded_def)
  then have valid: "credentials_valid sample_app ''secret'' (Inr \<lparr>am_ID = ''1'', am_Login = ''ana'', am_PasswordHash = v, am_Active = True\<rparr>)"
    by (simp add: credentials_valid_def sample_app_def)
  let ?w = "snd (ServeHTTP sample_app login_env login_post (login_world v))"
  have db: "AdminByLogin ''ana'' (ww_db (login_world v)) = Inr \<lparr>am_ID = ''1'', am_Login = ''ana'', am_PasswordHash = v, am_Active = True\<rparr>"
    by (simp add: AdminByLogin_def login_world_def login_post_facts)
  have unlogged: "administrativeCommunication login_post = None"
    by (simp add: administrativeCommunication_def login_post_facts)
  have "\<exists>s. ww_sessions (snd (adminSessionAPI sample_app login_env login_post (login_world v))) (base64url_encode ''tok'') = Some s"
    by (simp add: adminSessionAPI_def login_decoded login_post_facts body_or_def andThen_def run_simps attempt_def querying_def
        login_env_def sample_web_env_def db valid start_session_def session_create_def randomToken_def Let_def)
  moreover have "dispatch sample_app login_env login_post = adminSessionAPI sample_app login_env login_post"
    by (simp add: dispatch_def login_post_facts)
  ultimately have "\<exists>s. ww_sessions ?w (base64url_encode ''tok'') = Some s"
    by (simp add: ServeHTTP_def corsHeaders_def login_post_facts run_simps snd_answered
        logAdministrativeCommunication_def unlogged split_def)
  then obtain s where s: "ww_sessions ?w (base64url_encode ''tok'') = Some s" by blast
  have "\<not> setup_entitled login_post (ww_db (login_world v))" "ww_sessions (login_world v) (base64url_encode ''tok'') = None"
    by (simp_all add: setup_entitled_def login_post_facts login_world_def new_world_def)
  with sessions_need_credentials [OF s] s show ?thesis by auto
qed

end
