(* ===== verification/Spec2Isabelle.thy ===== *)
theory Spec2Isabelle
  imports PolicyProps AlertProps AgentStoreProps SessionProps DaemonAccounting AgentCycle
    LocalAuthProps ServerControl ServerRuns ServerAccess WebSamples
begin

text \<open>
  Compasso limits the time of use of a computer: an agent on the computer observes the graphical
  sessions of the controlled user once a second, accounts the use, evaluates the policy and
  locks the screen; a server keeps the policy, the balance and the history of the devices and
  talks to the agents by heartbeats. This development models the Go code and proves the
  properties that make it correct.

  \<^bold>\<open>Parts and theories.\<close>

  \<^item> Prelude: 64-bit integers with Go's truncating division, and database tables as lists of
    rows with the laws of their statements (the locale \<open>keyed_table\<close> for upserts).
  \<^item> GoTime, Calendar: instants and durations in nanoseconds, locations as two functions (the
    locale \<open>civil_zone\<close>, interpreted on zones with a fixed offset), the civil calendar, dates and
    timestamps as text.
  \<^item> Policy, PolicySpec, PolicyProps: \<open>agent/policy/policy.go\<close>; routines as sets of occurrences on
    the wall clock, and the engine proved against them.
  \<^item> Alert, AlertProps: \<open>agent/alert/alert.go\<close>; the tracker over runs of observations.
  \<^item> AgentPolicyStore, AgentStateStore, UsageCounter, AgentStoreRuns, AgentStoreProps:
    \<open>agent/storage\<close>; the SQLite tables and the two in-memory caches as one record, every
    operation as a function to an error or a result and the new state, the usage counter above
    it (the locale \<open>usage_store\<close>), and the invariants of all runs of operations.
  \<^item> Effects: actions that keep their changes when they fail, and what an action leaves alone.
  \<^item> Session, SessionProps: \<open>agent/session\<close>; parsing of loginctl's output.
  \<^item> Daemon, DaemonFacts, DaemonProps, DaemonAccounting: \<open>agent/daemon/daemon.go\<close>; one cycle as an
    action on the daemon's state with the outside as its environment.
  \<^item> Json, Protocol: the JSON texts of event and command payloads (lexer, parser, printer and
    their round trip, after \<open>encoding/json\<close>) and the messages of \<open>protocol/v1/sync.go\<close>.
  \<^item> SyncClient, SyncFacts, SyncInstall, SyncProps, SyncLoop: \<open>agent/syncclient/client.go\<close>; one
    heartbeat as an action on the client's state, with the exchange as a function from the
    request to its outcome, refined to a run of store operations; the loop as a state machine
    over its attempts. AgentCycle puts client and daemon together (the locale
    \<open>control_source\<close>).
  \<^item> ServerRoutine: routines of \<open>server/storage/domain.go\<close> and the overlap test; ServerDatabase: the
    server's tables as one record, transactions (an error restores the state they began with),
    administrators, the audit and the history of activities; ServerDomain: devices, policies,
    quotas and routines; ServerSync: \<open>server/storage/sync.go\<close>, a heartbeat and the commands.
  \<^item> ServerFacts, ServerPolicies, ServerCommands: what an operation keeps, the step relation over
    all operations that write, and its invariants, one theory per part of the database. On them
    rest ServerProps (policies), ServerControl (remote control), ServerAnswer, ServerBonus and
    ServerLive (heartbeats). AgentServer joins both ends: the answer of a reachable server is
    installed by the agent. ServerSamples and ServerRuns hold a run of the server and what the
    properties say about it.
  \<^item> Password, LocalAuth, LocalAuthProps: \<open>agent/localauth\<close>; the verifier format with its base64
    fields, and grants; Argon2id is a parameter.
  \<^item> ServerTokens: the credentials of devices in \<open>server/storage/sync.go\<close> and the reading side of
    \<open>server/storage/activities.go\<close>; ServerLog: \<open>server/storage/communication.go\<close>, the communication
    log with its invariant; ServerAccess: what tokens let in, and the log read in pages.
  \<^item> WebSession, WebHub, WebStatus: \<open>server/web/session.go\<close>, the hub of \<open>server/web/events.go\<close> and
    \<open>server/web/status.go\<close>, each with its properties: sessions against a reference that never
    purges, channels against one queue per subscriber, the status against the invariants of the
    storage.
  \<^item> WebRequest, WebAdmin, WebDevice, WebServer: the handlers. A request is a record, the state they
    share - database, log, sessions, hub - another, and a handler an action on it that ends early
    with a response; WebAdmin is \<open>server/web/admin_api.go\<close>, WebDevice \<open>server/web/api.go\<close>, WebServer
    \<open>server/web/app.go\<close> with the middleware of \<open>server/web/communication.go\<close> down to \<open>ServeHTTP\<close>.
  \<^item> WebFacts, WebChanges: a handler performs at most one operation on the database: the one that
    belongs to the method and path of its request, with the arguments of its body, and that the
    request is entitled to. WebWorlds: the locale \<open>world_invariant\<close> - what the steps that handlers
    are made of keep, the server keeps -, interpreted on the consistency of log and hub. WebStream:
    the loop of a stream and the offline detector, and \<open>world_run_invariant\<close> for all three
    interleaved. WebRuns: every interleaving refines the storage. WebOutcome: the answer to a
    heartbeat. WebLogin: where sessions come from. WebSamples: runs that the properties apply to.

  \<^bold>\<open>Conventions.\<close> Types and operations keep the names of the source; record fields carry a short
  prefix per record. Errors are values. Each database operation takes a flag that says whether
  the engine serves it; a transaction that is not served changes nothing. Timestamps in the
  database are kept as instants and read through their text where SQLite orders by it.
  Concurrent callers are serialized by the mutexes and the single connection of the source, so
  an operation is one step; the answer to a heartbeat is read after its report is committed, at
  one moment. JSON columns of the server that it writes itself (audit payloads, details of
  activities) are kept as values. Random identifiers are drawn from the environment; the schema
  rejects a repeated one, except for a routine, whose identifier is assumed new.
  A web request arrives as \<open>net/http\<close> splits it (path, query, headers, cookies); the host names in
  it are given, as is the heartbeat its body (of at most 256 KB) decodes to, while administrative bodies are read
  from their JSON text. Every reading of the clock, storage call and random token of a request
  has its own answer in the environment \<open>WebEnv\<close>, so one request can meet failures at any
  subset of its calls. \<open>ServeMux\<close> redirects unclean paths. The two tables of the communication log are a state of their own,
  apart from the rest of the database they share a file with; they follow the devices by their
  foreign key. Of a stream, which ready case a select takes and whether a write succeeds is
  given. A request is one step, and turns of streams and ticks of the detector come in between;
  in the source other requests can run between the storage calls of one request, each of which
  is one transaction there as here.
  Loops that the source bounds are structural recursions; pages of the log are read with a number
  of pages as fuel, and the property says which number is enough.

  \<^bold>\<open>Not modelled.\<close> Process and file input and output (loginctl, notify-send, D-Bus, configuration
  files, migrations, the command line programs), \<open>net/http\<close> itself and the text of responses, the
  lines of the process log, the front ends.
\<close>

end
